(* ===== verification/Prelude.thy ===== *)
theory Prelude
  imports Main "HOL-Library.Char_ord" "HOL-Library.List_Lexorder"
begin

section \<open>Shared vocabulary of the development\<close>

text \<open>
  What every component uses: results with errors as values, a state-and-exception
  shape for code that mutates and raises, Python string helpers on ASCII strings, and
  the order of fixed-width decimal strings.

  Python strings are modelled as \<^typ>\<open>string\<close>; \<open><\<close> on strings is the lexicographic order of
  \<open>HOL-Library.List_Lexorder\<close> over character codes, which is Python's string order.
  Characters outside ASCII are outside the model.
\<close>

named_theorems sx_defs \<open>definitions of the state-and-exception combinators\<close>
named_theorems date_simps \<open>facts on calendar dates\<close>

type_synonym ('e, 'a) result = "'e + 'a"

subsection \<open>Results: the first error wins\<close>

definition bind_res :: "('e, 'a) result \<Rightarrow> ('a \<Rightarrow> ('e, 'b) result) \<Rightarrow> ('e, 'b) result" where
  "bind_res r f = (case r of Inl e \<Rightarrow> Inl e | Inr x \<Rightarrow> f x)"

fun map_res :: "('a \<Rightarrow> ('e, 'b) result) \<Rightarrow> 'a list \<Rightarrow> ('e, 'b list) result" where
  "map_res f [] = Inr []"
| "map_res f (x # xs) =
     (case f x of Inl e \<Rightarrow> Inl e
      | Inr y \<Rightarrow> (case map_res f xs of Inl e \<Rightarrow> Inl e | Inr ys \<Rightarrow> Inr (y # ys)))"

definition is_ok :: "('e, 'a) result \<Rightarrow> bool" where
  "is_ok r \<longleftrightarrow> (case r of Inl _ \<Rightarrow> False | Inr _ \<Rightarrow> True)"

lemma bind_res_simps [simp]:
  "bind_res (Inl e) f = Inl e"
  "bind_res (Inr x) f = f x"
  by (simp_all add: bind_res_def)

lemma bind_res_Inr_iff: "bind_res r f = Inr y \<longleftrightarrow> (\<exists>x. r = Inr x \<and> f x = Inr y)"
  by (cases r) auto

lemma is_ok_simps [simp]: "is_ok (Inr x)" "\<not> is_ok (Inl e)"
  by (simp_all add: is_ok_def)

lemma is_ok_iff: "is_ok r \<longleftrightarrow> (\<exists>x. r = Inr x)"
  by (cases r) auto

lemma map_res_Inr_length: "map_res f xs = Inr ys \<Longrightarrow> length ys = length xs"
  by (induction xs arbitrary: ys) (auto split: sum.splits)

lemma map_res_Inr_nth:
  "map_res f xs = Inr ys \<Longrightarrow> i < length xs \<Longrightarrow> f (xs ! i) = Inr (ys ! i)"
proof (induction xs arbitrary: ys i)
  case Nil
  then show ?case by simp
next
  case (Cons x xs)
  then show ?case
    by (cases i) (auto split: sum.splits)
qed

lemma map_res_Inr_set:
  "map_res f xs = Inr ys \<Longrightarrow> y \<in> set ys \<Longrightarrow> \<exists>x \<in> set xs. f x = Inr y"
  by (induction xs arbitrary: ys) (auto split: sum.splits)

subsection \<open>State and exceptions\<close>

text \<open>
  A statement of code that mutates a state and may raise is a function from the state to
  the outcome (\<open>Inl\<close> the exception) and the state after it. Python's \<open>try: m except: h\<close>
  is \<open>sx_catch\<close> and \<open>try: m finally: f\<close> is \<open>sx_finally\<close>: an exception raised by the
  final block replaces the outcome of the body.
\<close>

type_synonym ('s, 'e, 'a) sx = "'s \<Rightarrow> ('e + 'a) \<times> 's"

definition sx_return :: "'a \<Rightarrow> ('s, 'e, 'a) sx" where
  [sx_defs]: "sx_return x s = (Inr x, s)"

definition sx_raise :: "'e \<Rightarrow> ('s, 'e, 'a) sx" where
  [sx_defs]: "sx_raise e s = (Inl e, s)"

definition sx_bind :: "('s, 'e, 'a) sx \<Rightarrow> ('a \<Rightarrow> ('s, 'e, 'b) sx) \<Rightarrow> ('s, 'e, 'b) sx" where
  [sx_defs]: "sx_bind m f s = (case m s of (Inl e, t) \<Rightarrow> (Inl e, t) | (Inr x, t) \<Rightarrow> f x t)"

definition sx_seq :: "('s, 'e, 'a) sx \<Rightarrow> ('s, 'e, 'b) sx \<Rightarrow> ('s, 'e, 'b) sx" where
  [sx_defs]: "sx_seq m n = sx_bind m (\<lambda>_. n)"

definition sx_catch :: "('s, 'e, 'a) sx \<Rightarrow> ('e \<Rightarrow> ('s, 'e, 'a) sx) \<Rightarrow> ('s, 'e, 'a) sx" where
  [sx_defs]: "sx_catch m h s = (case m s of (Inl e, t) \<Rightarrow> h e t | (Inr x, t) \<Rightarrow> (Inr x, t))"

definition sx_finally :: "('s, 'e, 'a) sx \<Rightarrow> ('s, 'e, unit) sx \<Rightarrow> ('s, 'e, 'a) sx" where
  [sx_defs]: "sx_finally m f s =
     (case m s of (r, t) \<Rightarrow> (case f t of (Inl e, u) \<Rightarrow> (Inl e, u) | (Inr _, u) \<Rightarrow> (r, u)))"

definition sx_get :: "('s \<Rightarrow> 'a) \<Rightarrow> ('s, 'e, 'a) sx" where
  [sx_defs]: "sx_get f s = (Inr (f s), s)"

definition sx_modify :: "('s \<Rightarrow> 's) \<Rightarrow> ('s, 'e, unit) sx" where
  [sx_defs]: "sx_modify f s = (Inr (), f s)"

definition sx_when :: "bool \<Rightarrow> ('s, 'e, unit) sx \<Rightarrow> ('s, 'e, unit) sx" where
  [sx_defs]: "sx_when b m = (if b then m else sx_return ())"

subsection \<open>Python string helpers\<close>

definition py_isspace :: "char \<Rightarrow> bool" where
  "py_isspace c \<longleftrightarrow>
     (let n = (of_char c :: nat) in n = 32 \<or> (9 \<le> n \<and> n \<le> 13) \<or> (28 \<le> n \<and> n \<le> 31) \<or> n = 133 \<or> n = 160)"

definition strip :: "string \<Rightarrow> string" where
  "strip s = rev (dropWhile py_isspace (rev (dropWhile py_isspace s)))"

definition startswith :: "string \<Rightarrow> string \<Rightarrow> bool" where
  "startswith s p \<longleftrightarrow> take (length p) s = p"

fun contains_sub :: "string \<Rightarrow> string \<Rightarrow> bool" where
  "contains_sub [] p = (p = [])"
| "contains_sub (c # s) p = (startswith (c # s) p \<or> contains_sub s p)"

lemma dropWhile_idem: "dropWhile P (dropWhile P xs) = dropWhile P xs"
  by (induction xs) auto

lemma dropWhile_rev_no_head:
  assumes head: "dropWhile P xs = xs"
  shows "dropWhile P (rev (dropWhile P (rev xs))) = rev (dropWhile P (rev xs))"
proof (cases "rev (dropWhile P (rev xs))")
  case Nil
  then show ?thesis by (simp only: dropWhile.simps)
next
  case (Cons y ys)
  obtain zs where zs: "rev xs = zs @ dropWhile P (rev xs)"
    by (metis takeWhile_dropWhile_id)
  have "rev (rev xs) = rev (dropWhile P (rev xs)) @ rev zs"
    by (subst zs) simp
  then have "xs = y # ys @ rev zs"
    using Cons by simp
  moreover from this head have "\<not> P y"
    by (metis dropWhile_eq_self_iff list.distinct(1) list.sel(1))
  ultimately show ?thesis
    using Cons by simp
qed

lemma strip_idem [simp]: "strip (strip s) = strip s"
proof -
  let ?l = "dropWhile py_isspace s"
  have "dropWhile py_isspace (strip s) = strip s"
    unfolding strip_def by (rule dropWhile_rev_no_head) (rule dropWhile_idem)
  then show ?thesis
    unfolding strip_def [of "strip s"] by (simp add: strip_def dropWhile_idem)
qed

lemma strip_id: "s \<noteq> [] \<Longrightarrow> \<not> py_isspace (hd s) \<Longrightarrow> \<not> py_isspace (last s) \<Longrightarrow> strip s = s"
proof -
  assume s: "s \<noteq> []" "\<not> py_isspace (hd s)" "\<not> py_isspace (last s)"
  then have "dropWhile py_isspace s = s" "dropWhile py_isspace (rev s) = rev s"
    by (simp_all only: dropWhile_eq_self_iff hd_rev) simp_all
  then show ?thesis by (simp add: strip_def)
qed

lemma startswith_append [simp]: "startswith (p @ s) p"
  by (simp add: startswith_def)

subsection \<open>Fixed-width decimal strings\<close>

definition digit_char :: "nat \<Rightarrow> char" where
  "digit_char d = char_of (48 + d)"

definition char_digit :: "char \<Rightarrow> nat option" where
  "char_digit c = (let n = (of_char c :: nat) in if 48 \<le> n \<and> n \<le> 57 then Some (n - 48) else None)"

fun zpad :: "nat \<Rightarrow> nat \<Rightarrow> string" where
  "zpad 0 n = []"
| "zpad (Suc w) n = zpad w (n div 10) @ [digit_char (n mod 10)]"

fun parse_digits :: "nat \<Rightarrow> string \<Rightarrow> nat option" where
  "parse_digits acc [] = Some acc"
| "parse_digits acc (c # cs) =
     (case char_digit c of None \<Rightarrow> None | Some d \<Rightarrow> parse_digits (10 * acc + d) cs)"

fun nat_str :: "nat \<Rightarrow> string" where
  "nat_str n = (if n < 10 then [digit_char n] else nat_str (n div 10) @ [digit_char (n mod 10)])"

declare nat_str.simps [simp del]

lemma length_zpad [simp]: "length (zpad w n) = w"
  by (induction w arbitrary: n) auto

lemma of_char_digit [simp]: "d < 10 \<Longrightarrow> (of_char (digit_char d) :: nat) = 48 + d"
  by (simp add: digit_char_def)

lemma char_digit_digit_char [simp]: "d < 10 \<Longrightarrow> char_digit (digit_char d) = Some d"
  by (simp add: char_digit_def)

lemma digit_char_less_iff [simp]:
  "a < 10 \<Longrightarrow> b < 10 \<Longrightarrow> digit_char a < digit_char b \<longleftrightarrow> a < b"
  by (simp add: less_char_def)

lemma digit_char_eq_iff [simp]:
  "a < 10 \<Longrightarrow> b < 10 \<Longrightarrow> digit_char a = digit_char b \<longleftrightarrow> a = b"
  by (metis option.inject char_digit_digit_char)

lemma parse_digits_append:
  "parse_digits acc (xs @ ys) =
     (case parse_digits acc xs of None \<Rightarrow> None | Some a \<Rightarrow> parse_digits a ys)"
  by (induction xs arbitrary: acc) (auto split: option.splits)

lemma parse_digits_zpad: "n < 10 ^ w \<Longrightarrow> parse_digits 0 (zpad w n) = Some n"
proof (induction w arbitrary: n)
  case 0
  then show ?case by simp
next
  case (Suc w)
  then have "n div 10 < 10 ^ w" by (simp add: less_mult_imp_div_less mult.commute)
  then show ?case
    using Suc.IH by (simp add: parse_digits_append)
qed

text \<open>Equal-length prefixes decide the lexicographic order before what follows them.\<close>

lemma lex_append_less_iff:
  "length xs = length ys \<Longrightarrow>
     (xs @ us < ys @ vs) \<longleftrightarrow> xs < ys \<or> (xs = ys \<and> us < (vs :: 'a :: linorder list))"
  by (induction xs ys rule: list_induct2) auto

lemma zpad_inject: "a < 10 ^ w \<Longrightarrow> b < 10 ^ w \<Longrightarrow> zpad w a = zpad w b \<longleftrightarrow> a = b"
  by (metis option.inject parse_digits_zpad)

lemma div_mod_10_less_iff:
  "a div 10 < b div 10 \<or> (a div 10 = b div 10 \<and> a mod 10 < b mod 10) \<longleftrightarrow> a < (b :: nat)"
proof -
  have less: "q < q' \<or> (q = q' \<and> r < r') \<longleftrightarrow> 10 * q + r < 10 * q' + r'"
    if "r < 10" "r' < 10" for q q' r r' :: nat
    using that by arith
  show ?thesis
    using less [of "a mod 10" "b mod 10" "a div 10" "b div 10"] by simp
qed

lemma zpad_less_iff:
  "a < 10 ^ w \<Longrightarrow> b < 10 ^ w \<Longrightarrow> zpad w a < zpad w b \<longleftrightarrow> a < b"
proof (induction w arbitrary: a b)
  case 0
  then show ?case by simp
next
  case (Suc w)
  then have d: "a div 10 < 10 ^ w" "b div 10 < 10 ^ w"
    by (simp_all add: less_mult_imp_div_less mult.commute)
  have "zpad (Suc w) a < zpad (Suc w) b \<longleftrightarrow>
      a div 10 < b div 10 \<or> (a div 10 = b div 10 \<and> a mod 10 < b mod 10)"
    using Suc.IH [OF d] zpad_inject [OF d] by (simp add: lex_append_less_iff)
  also have "\<dots> \<longleftrightarrow> a < b" by (rule div_mod_10_less_iff)
  finally show ?case .
qed

lemma digit_char_not_space [simp]: "d < 10 \<Longrightarrow> \<not> py_isspace (digit_char d)"
  by (simp add: py_isspace_def Let_def)

lemma zpad_not_space: "c \<in> set (zpad w n) \<Longrightarrow> \<not> py_isspace c"
  by (induction w arbitrary: n) auto

subsection \<open>Lists and stable sorting\<close>

lemma sort_eq_self_iff: "sort xs = xs \<longleftrightarrow> sorted xs"
  by (metis sorted_sort sorted_sort_id)

lemma sorted_key_sort_key: "sorted (map f (sort_key f xs))"
  by simp

lemma find_filter: "List.find P xs = (case filter P xs of [] \<Rightarrow> None | x # _ \<Rightarrow> Some x)"
  by (induction xs) auto

lemma find_Some_set: "List.find P xs = Some x \<Longrightarrow> x \<in> set xs \<and> P x"
  by (induction xs) (auto split: if_splits)

lemma find_None_all: "List.find P xs = None \<longleftrightarrow> (\<forall>x \<in> set xs. \<not> P x)"
  by (induction xs) auto

lemma find_unique_key:
  "distinct (map k xs) \<Longrightarrow> x \<in> set xs \<Longrightarrow> List.find (\<lambda>y. k y = k x) xs = Some x"
  by (induction xs) (auto simp: rev_image_eqI)

subsection \<open>Sequences of operations\<close>

text \<open>
  A component whose operations are total functions on its state, and what holds along every
  sequence of them: an invariant each operation keeps, a quantity no operation decreases, and a
  state relation each operation extends.
\<close>

locale op_system =
  fixes exec :: "'o \<Rightarrow> 's \<Rightarrow> 's" and enabled :: "'o \<Rightarrow> bool" and inv :: "'s \<Rightarrow> bool"
  assumes keep: "enabled a \<Longrightarrow> inv s \<Longrightarrow> inv (exec a s)"
begin

lemma run_inv: "(\<forall>a \<in> set as. enabled a) \<Longrightarrow> inv s \<Longrightarrow> inv (fold exec as s)"
  by (induction as arbitrary: s) (auto simp: keep)

lemma run_mono:
  assumes "\<And>a s. enabled a \<Longrightarrow> inv s \<Longrightarrow> (m s :: int) \<le> m (exec a s)"
  shows "(\<forall>a \<in> set as. enabled a) \<Longrightarrow> inv s \<Longrightarrow> m s \<le> m (fold exec as s)"
proof (induction as arbitrary: s)
  case Nil
  then show ?case by simp
next
  case (Cons a as)
  then have "m s \<le> m (exec a s)" using assms by simp
  also have "\<dots> \<le> m (fold exec as (exec a s))" using Cons keep by simp
  finally show ?case by simp
qed

lemma run_stable:
  assumes "\<And>a s. enabled a \<Longrightarrow> inv s \<Longrightarrow> P s \<Longrightarrow> P (exec a s)"
  shows "(\<forall>a \<in> set as. enabled a) \<Longrightarrow> inv s \<Longrightarrow> P s \<Longrightarrow> P (fold exec as s)"
  by (induction as arbitrary: s) (auto simp: keep assms)

end

end
