(* ===== verification/BudgetLedger.thy ===== *)
theory BudgetLedger
  imports Prelude
begin

section \<open>The research budget ledger\<close>

text \<open>
  \<open>packages/product/selection/budget_ledger.py\<close> with the limits of
  \<open>packages/product/selection/screen.py\<close>: a SQLite file with three tables, experiment slot
  leases, cumulative counters and two-phase provider settlements, and the operations of
  \<open>ResearchBudgetCapability\<close> on it. The file is the record \<open>ledger_db\<close>; every operation
  runs in one \<open>BEGIN IMMEDIATE\<close> transaction, so it is one function on that record, and a
  \<open>ROLLBACK\<close> returns the record the transaction started from. The clock readings of
  \<open>_now()\<close> and the identifier \<open>uuid4()\<close> returns are arguments. Timestamps are
  microsecond counts: the ISO strings the code stores compare as the instants do
  (\<open>PyDate.iso_utc_less_iff\<close>).
\<close>

datatype ledger_error =
    BudgetExhaustedError string
  | MassResearchDisabledError string
  | LValueError string
  | LKeyError string
  | LRuntimeError string
  | LIntegrityError
  | LOperationalError

subsection \<open>Limits and capabilities\<close>

record offline_budget =
  max_parallel_experiments :: int
  max_generations :: int
  max_model_calls :: int
  max_paper_runs :: int
  max_input_tokens :: int
  max_output_tokens :: int
  max_cached_tokens :: int
  max_compute_time_ms :: int
  max_estimated_cost_micros :: int
  lease_ttl_seconds :: int
  automatic_promotion :: bool

definition default_offline_budget :: offline_budget where
  "default_offline_budget =
     \<lparr>max_parallel_experiments = 2, max_generations = 1, max_model_calls = 16, max_paper_runs = 8,
      max_input_tokens = 400000, max_output_tokens = 80000, max_cached_tokens = 400000,
      max_compute_time_ms = 3600000, max_estimated_cost_micros = 20000000,
      lease_ttl_seconds = 1800, automatic_promotion = False\<rparr>"

definition check_offline_budget :: "offline_budget \<Rightarrow> (ledger_error, offline_budget) result" where
  "check_offline_budget b =
     (if max_parallel_experiments b < 1 then Inl (LValueError ''max_parallel_experiments must be >= 1'')
      else if max_generations b < 1 then Inl (LValueError ''max_generations must be >= 1'')
      else if max_input_tokens b < 1 \<or> max_output_tokens b < 1 then Inl (LValueError ''token budgets must be >= 1'')
      else if lease_ttl_seconds b < 30 then Inl (LValueError ''lease_ttl_seconds must be >= 30'')
      else if automatic_promotion b then Inl (LValueError ''automatic promotion is disabled'')
      else Inr b)"

record capability =
  budget_id :: string
  limits :: offline_budget

definition check_capability :: "capability \<Rightarrow> (ledger_error, capability) result" where
  "check_capability c =
     (if max_input_tokens (limits c) < 1 \<or> max_output_tokens (limits c) < 1
      then Inl (MassResearchDisabledError ''token budgets must be >= 1'') else Inr c)"

definition require_budget_capability :: "capability option \<Rightarrow> (ledger_error, capability) result" where
  "require_budget_capability c =
     (case c of None \<Rightarrow> Inl (MassResearchDisabledError ''ResearchBudgetCapability is required'')
      | Some cap \<Rightarrow> Inr cap)"

definition counters :: "string list" where
  "counters = [''generations'', ''model_calls'', ''input_tokens'', ''output_tokens'', ''cached_tokens'',
     ''paper_runs'', ''compute_time_ms'', ''estimated_cost_micros'']"

definition limit_for :: "offline_budget \<Rightarrow> string \<Rightarrow> int option" where
  "limit_for l counter = map_of
     [(''generations'', max_generations l), (''model_calls'', max_model_calls l),
      (''paper_runs'', max_paper_runs l), (''input_tokens'', max_input_tokens l),
      (''output_tokens'', max_output_tokens l), (''cached_tokens'', max_cached_tokens l),
      (''compute_time_ms'', max_compute_time_ms l),
      (''estimated_cost_micros'', max_estimated_cost_micros l)] counter"

subsection \<open>The tables\<close>

record lease_row =
  lr_lease_id :: string
  lr_budget_id :: string
  lr_acquired_at :: int
  lr_expires_at :: int
  lr_last_heartbeat_at :: int
  lr_released_at :: "int option"

record settlement_row =
  sr_budget_id :: string
  sr_settlement_id :: string
  sr_input_tokens :: int
  sr_output_tokens :: int
  sr_cached_tokens :: int
  sr_model_calls :: int
  sr_estimated_cost_micros :: int
  sr_usage_source :: string
  sr_charge_trigger :: "string option"
  sr_over_limit :: bool
  sr_created_at :: int
  sr_terminal_outcome :: "string option"
  sr_finalized_at :: "int option"
  sr_outcome :: "string option"

text \<open>\<open>settle_columns\<close> lists the columns of the settlement table, \<open>[]\<close> when there is no such
  table yet; \<open>sr_outcome\<close> is the column of the table before the two-phase protocol.\<close>

record ledger_db =
  budget_rows :: "string \<times> string \<Rightarrow> (int \<times> int) option"
  lease_rows :: "lease_row list"
  settle_columns :: "string list"
  settlement_rows :: "settlement_row list"

definition v2_columns :: "string list" where
  "v2_columns = [''budget_id'', ''settlement_id'', ''input_tokens'', ''output_tokens'', ''cached_tokens'',
     ''model_calls'', ''estimated_cost_micros'', ''usage_source'', ''charge_trigger'', ''over_limit'',
     ''created_at'', ''terminal_outcome'', ''finalized_at'']"

definition empty_ledger :: ledger_db where
  "empty_ledger = \<lparr>budget_rows = (\<lambda>_. None), lease_rows = [], settle_columns = [], settlement_rows = []\<rparr>"

type_synonym 'a ledger_tx = "(ledger_db, ledger_error, 'a) sx"

record lease =
  lease_id :: string
  lease_budget_id :: string
  acquired_at :: int
  expires_at :: int
  last_heartbeat_at :: int

definition is_expired :: "lease \<Rightarrow> int \<Rightarrow> bool" where
  "is_expired l now \<longleftrightarrow> now > expires_at l"

subsection \<open>Opening the ledger: schema migration and audit\<close>

definition charge_triggers :: "string list" where
  "charge_triggers = [''provider_response'', ''provider_error'', ''invalid_usage'']"

definition terminal_outcomes :: "string list" where
  "terminal_outcomes = [''success'', ''schema_reject'', ''provider_error'', ''invalid_usage'', ''actual_overage'']"

definition usage_sources :: "string list" where
  "usage_sources = [''measured'', ''reserved_estimate'']"

text \<open>The \<open>CASE\<close> expressions of the migration over a nullable \<open>outcome\<close>; SQL \<open>COALESCE\<close> keeps a
  value the new column already has.\<close>

definition legacy_trigger :: "string option \<Rightarrow> string option" where
  "legacy_trigger oc = (case oc of None \<Rightarrow> None
     | Some x \<Rightarrow> if x \<in> set [''success'', ''schema_reject'', ''actual_overage''] then Some ''provider_response'' else Some x)"

definition legacy_terminal :: "string option \<Rightarrow> string option" where
  "legacy_terminal oc = (case oc of None \<Rightarrow> None | Some x \<Rightarrow> if x \<in> set terminal_outcomes then Some x else None)"

definition legacy_finalized :: "string option \<Rightarrow> int \<Rightarrow> int option" where
  "legacy_finalized oc created =
     (case oc of None \<Rightarrow> None | Some x \<Rightarrow> if x \<in> set terminal_outcomes then Some created else None)"

definition coalesce :: "bool \<Rightarrow> 'a option \<Rightarrow> 'a option \<Rightarrow> 'a option" where
  "coalesce has_column old new = (if has_column then (case old of None \<Rightarrow> new | Some x \<Rightarrow> Some x) else new)"

definition migrate_row :: "string list \<Rightarrow> settlement_row \<Rightarrow> settlement_row" where
  "migrate_row cols r = r\<lparr>
     sr_charge_trigger := coalesce (''charge_trigger'' \<in> set cols) (sr_charge_trigger r) (legacy_trigger (sr_outcome r)),
     sr_terminal_outcome := coalesce (''terminal_outcome'' \<in> set cols) (sr_terminal_outcome r) (legacy_terminal (sr_outcome r)),
     sr_finalized_at := coalesce (''finalized_at'' \<in> set cols) (sr_finalized_at r) (legacy_finalized (sr_outcome r) (sr_created_at r)),
     sr_outcome := None\<rparr>"

definition settlement_key :: "settlement_row \<Rightarrow> string \<times> string" where
  "settlement_key r = (sr_budget_id r, sr_settlement_id r)"

text \<open>SQL \<open>column != 'x'\<close>, which is not true of a null.\<close>

definition sql_differs :: "string option \<Rightarrow> string \<Rightarrow> bool" where
  "sql_differs v x \<longleftrightarrow> (case v of None \<Rightarrow> False | Some y \<Rightarrow> y \<noteq> x)"

definition invalid_trigger :: "settlement_row \<Rightarrow> bool" where
  "invalid_trigger r \<longleftrightarrow> (case sr_charge_trigger r of None \<Rightarrow> True | Some t \<Rightarrow> t \<notin> set charge_triggers)"

definition invalid_terminal :: "settlement_row \<Rightarrow> bool" where
  "invalid_terminal r \<longleftrightarrow>
     (sr_terminal_outcome r = None) \<noteq> (sr_finalized_at r = None)
     \<or> (case sr_terminal_outcome r of None \<Rightarrow> False | Some t \<Rightarrow> t \<notin> set terminal_outcomes)
     \<or> (sr_terminal_outcome r \<in> {Some ''success'', Some ''schema_reject''} \<and> sql_differs (sr_charge_trigger r) ''provider_response'')
     \<or> (sr_terminal_outcome r = Some ''provider_error'' \<and> sql_differs (sr_charge_trigger r) ''provider_error'')
     \<or> (sr_terminal_outcome r = Some ''invalid_usage'' \<and> sql_differs (sr_charge_trigger r) ''invalid_usage'')"

definition add_missing_column :: "string \<Rightarrow> (settlement_row \<Rightarrow> settlement_row) \<Rightarrow> ledger_db \<Rightarrow> ledger_db" where
  "add_missing_column col clear db =
     (if col \<in> set (settle_columns db) then db
      else db\<lparr>settle_columns := settle_columns db @ [col], settlement_rows := map clear (settlement_rows db)\<rparr>)"

text \<open>The columns the copying \<open>SELECT\<close> names whatever the layout; when one of them is missing the statement does not compile,
  and \<open>sqlite3.OperationalError\<close> leaves through the rollback.\<close>

definition carried_columns :: "string list" where
  "carried_columns = [''budget_id'', ''settlement_id'', ''input_tokens'', ''output_tokens'', ''cached_tokens'',
     ''model_calls'', ''estimated_cost_micros'', ''usage_source'', ''over_limit'', ''created_at'']"

definition rebuild_settlements :: "ledger_db \<Rightarrow> (ledger_error, ledger_db) result" where
  "rebuild_settlements db =
     (let rows = map (migrate_row (settle_columns db)) (settlement_rows db)
      in if \<not> set carried_columns \<subseteq> set (settle_columns db) then Inl LOperationalError
         else if (\<exists>r \<in> set rows. sr_charge_trigger r = None) \<or> \<not> distinct (map settlement_key rows)
         then Inl LIntegrityError
         else Inr (db\<lparr>settle_columns := v2_columns, settlement_rows := rows\<rparr>))"

definition migrate_provider_settlements :: "ledger_db \<Rightarrow> (ledger_error, ledger_db) result" where
  "migrate_provider_settlements db =
     bind_res
       (if ''outcome'' \<in> set (settle_columns db) then rebuild_settlements db
        else if ''charge_trigger'' \<notin> set (settle_columns db)
        then Inl (LRuntimeError ''provider settlement charge trigger missing'')
        else Inr db)
       (\<lambda>db1.
          let db2 = add_missing_column ''terminal_outcome'' (\<lambda>r. r\<lparr>sr_terminal_outcome := None\<rparr>) db1;
              db3 = add_missing_column ''finalized_at'' (\<lambda>r. r\<lparr>sr_finalized_at := None\<rparr>) db2
          in if (\<exists>r \<in> set (settlement_rows db3). invalid_trigger r) \<or> (\<exists>r \<in> set (settlement_rows db3). invalid_terminal r)
             then Inl (LRuntimeError ''provider settlement audit state invalid'')
             else Inr db3)"

definition create_tables :: "ledger_db \<Rightarrow> ledger_db" where
  "create_tables db = (if settle_columns db = [] then db\<lparr>settle_columns := v2_columns, settlement_rows := []\<rparr> else db)"

definition connect :: "unit ledger_tx" where
  "connect db =
     (case migrate_provider_settlements (create_tables db) of
        Inl e \<Rightarrow> (Inl e, create_tables db)
      | Inr db' \<Rightarrow> (Inr (), db'))"

subsection \<open>Experiment slot leases\<close>

definition active_lease :: "string \<Rightarrow> lease_row \<Rightarrow> bool" where
  "active_lease bid l \<longleftrightarrow> lr_budget_id l = bid \<and> lr_released_at l = None"

definition active_count :: "string \<Rightarrow> ledger_db \<Rightarrow> int" where
  "active_count bid db = int (length (filter (active_lease bid) (lease_rows db)))"

definition recover_expired :: "capability \<Rightarrow> int \<Rightarrow> ledger_db \<Rightarrow> ledger_db" where
  "recover_expired cap now db = db\<lparr>lease_rows :=
     map (\<lambda>l. if active_lease (budget_id cap) l \<and> lr_expires_at l < now
              then l\<lparr>lr_released_at := Some now\<rparr> else l) (lease_rows db)\<rparr>"

definition active_lease_count :: "capability \<Rightarrow> int \<Rightarrow> int ledger_tx" where
  "active_lease_count cap now =
     sx_seq connect (\<lambda>db. let db1 = recover_expired cap now db in (Inr (active_count (budget_id cap) db1), db1))"

definition acquire_slot :: "capability \<Rightarrow> int option \<Rightarrow> int \<Rightarrow> int \<Rightarrow> string \<Rightarrow> lease ledger_tx" where
  "acquire_slot cap ttl_seconds recover_now acquired uuid =
     (let ttl = (case ttl_seconds of None \<Rightarrow> lease_ttl_seconds (limits cap) | Some t \<Rightarrow> t)
      in if ttl < 30 \<or> ttl > 86400 then sx_raise (LValueError ''ttl_seconds must be in [30, 86400]'')
         else sx_seq connect (\<lambda>db.
           let db1 = recover_expired cap recover_now db;
               expires = acquired + ttl * 1000000
           in if active_count (budget_id cap) db1 \<ge> max_parallel_experiments (limits cap)
              then (Inl (BudgetExhaustedError ''concurrent_experiments''), db)
              else if uuid \<in> set (map lr_lease_id (lease_rows db1)) then (Inl LIntegrityError, db)
              else (Inr \<lparr>lease_id = uuid, lease_budget_id = budget_id cap, acquired_at = acquired,
                         expires_at = expires, last_heartbeat_at = acquired\<rparr>,
                    db1\<lparr>lease_rows := lease_rows db1 @
                      [\<lparr>lr_lease_id = uuid, lr_budget_id = budget_id cap, lr_acquired_at = acquired,
                        lr_expires_at = expires, lr_last_heartbeat_at = acquired, lr_released_at = None\<rparr>]\<rparr>)))"

definition heartbeat :: "capability \<Rightarrow> lease \<Rightarrow> int option \<Rightarrow> int \<Rightarrow> lease ledger_tx" where
  "heartbeat cap ls extend_seconds now =
     (let ext = (case extend_seconds of None \<Rightarrow> lease_ttl_seconds (limits cap) | Some t \<Rightarrow> t)
      in sx_seq connect (\<lambda>db.
           if \<not> (\<exists>l \<in> set (lease_rows db). lr_lease_id l = lease_id ls \<and> active_lease (budget_id cap) l)
           then (Inl (BudgetExhaustedError ''lease not active''), db)
           else let expires = now + ext * 1000000
                in (Inr \<lparr>lease_id = lease_id ls, lease_budget_id = budget_id cap, acquired_at = acquired_at ls,
                         expires_at = expires, last_heartbeat_at = now\<rparr>,
                    db\<lparr>lease_rows := map (\<lambda>l. if lr_lease_id l = lease_id ls
                        then l\<lparr>lr_last_heartbeat_at := now, lr_expires_at := expires\<rparr> else l) (lease_rows db)\<rparr>)))"

definition release :: "capability \<Rightarrow> lease \<Rightarrow> int \<Rightarrow> unit ledger_tx" where
  "release cap ls now = sx_seq connect (\<lambda>db.
     (Inr (), db\<lparr>lease_rows := map (\<lambda>l. if lr_lease_id l = lease_id ls \<and> active_lease (budget_id cap) l
        then l\<lparr>lr_released_at := Some now\<rparr> else l) (lease_rows db)\<rparr>))"

subsection \<open>Cumulative counters\<close>

definition used :: "string \<Rightarrow> string \<Rightarrow> ledger_db \<Rightarrow> int" where
  "used bid counter db = (case budget_rows db (bid, counter) of None \<Rightarrow> 0 | Some (u, _) \<Rightarrow> u)"

definition upsert_used :: "string \<Rightarrow> string \<Rightarrow> int \<Rightarrow> int \<Rightarrow> ledger_db \<Rightarrow> ledger_db" where
  "upsert_used bid counter delta now db =
     db\<lparr>budget_rows := (budget_rows db)((bid, counter) \<mapsto>
        (case budget_rows db (bid, counter) of None \<Rightarrow> (delta, now) | Some (u, _) \<Rightarrow> (u + delta, now)))\<rparr>"

text \<open>\<open>amounts\<close> is the keyword dictionary of the call, in the order of its keys; \<open>clock i\<close> is
  the reading for the \<open>i\<close>-th entry.\<close>

fun check_amounts :: "(string \<times> int) list \<Rightarrow> (ledger_error, unit) result" where
  "check_amounts [] = Inr ()"
| "check_amounts ((key, val) # rest) =
     (if key \<notin> set counters then Inl (LKeyError key)
      else if val < 0 then Inl (LValueError ''consume amounts must be non-negative'')
      else check_amounts rest)"

fun consume_loop :: "capability \<Rightarrow> (nat \<Rightarrow> int) \<Rightarrow> nat \<Rightarrow> (string \<times> int) list \<Rightarrow> ledger_db \<Rightarrow> (ledger_error, ledger_db) result" where
  "consume_loop cap clock i [] db = Inr db"
| "consume_loop cap clock i ((counter, delta) # rest) db =
     (if delta = 0 then consume_loop cap clock (Suc i) rest db
      else case limit_for (limits cap) counter of
        Some lim \<Rightarrow>
          if used (budget_id cap) counter db + delta > lim then Inl (BudgetExhaustedError counter)
          else consume_loop cap clock (Suc i) rest (upsert_used (budget_id cap) counter delta (clock i) db)
      | None \<Rightarrow> consume_loop cap clock (Suc i) rest (upsert_used (budget_id cap) counter delta (clock i) db))"

definition consume :: "capability \<Rightarrow> (nat \<Rightarrow> int) \<Rightarrow> (string \<times> int) list \<Rightarrow> unit ledger_tx" where
  "consume cap clock amounts =
     (if amounts = [] then sx_return ()
      else if ''concurrent_experiments'' \<in> set (map fst amounts) then sx_raise (LValueError ''concurrent_experiments is lease-based'')
      else case check_amounts amounts of
        Inl e \<Rightarrow> sx_raise e
      | Inr _ \<Rightarrow> sx_seq connect (\<lambda>db.
          case consume_loop cap clock 0 amounts db of Inl e \<Rightarrow> (Inl e, db) | Inr db1 \<Rightarrow> (Inr (), db1)))"

subsection \<open>Two-phase provider settlements\<close>

definition validate_settlement_id :: "string \<Rightarrow> (ledger_error, unit) result" where
  "validate_settlement_id sid =
     (if sid = [] \<or> sid \<noteq> strip sid \<or> length sid > 128
      then Inl (LValueError ''settlement_id must be a bounded non-empty string'') else Inr ())"

record provider_amounts =
  pa_input_tokens :: int
  pa_output_tokens :: int
  pa_cached_tokens :: int
  pa_model_calls :: int
  pa_estimated_cost_micros :: int

definition amounts_of :: "provider_amounts \<Rightarrow> (string \<times> int) list" where
  "amounts_of a = [(''input_tokens'', pa_input_tokens a), (''output_tokens'', pa_output_tokens a),
     (''cached_tokens'', pa_cached_tokens a), (''model_calls'', pa_model_calls a),
     (''estimated_cost_micros'', pa_estimated_cost_micros a)]"

definition charge_provider_usage :: "capability \<Rightarrow> (nat \<Rightarrow> int) \<Rightarrow> provider_amounts \<Rightarrow> unit ledger_tx" where
  "charge_provider_usage cap clock a = consume cap clock (amounts_of a)"

fun check_settle_amounts :: "(string \<times> int) list \<Rightarrow> (ledger_error, unit) result" where
  "check_settle_amounts [] = Inr ()"
| "check_settle_amounts ((counter, val) # rest) =
     (if val < 0 then Inl (LValueError (counter @ '' must be an integer >= 0'')) else check_settle_amounts rest)"

definition row_amounts :: "settlement_row \<Rightarrow> provider_amounts" where
  "row_amounts r = \<lparr>pa_input_tokens = sr_input_tokens r, pa_output_tokens = sr_output_tokens r,
     pa_cached_tokens = sr_cached_tokens r, pa_model_calls = sr_model_calls r,
     pa_estimated_cost_micros = sr_estimated_cost_micros r\<rparr>"

definition find_settlement :: "string \<Rightarrow> string \<Rightarrow> ledger_db \<Rightarrow> settlement_row option" where
  "find_settlement bid sid db = List.find (\<lambda>r. settlement_key r = (bid, sid)) (settlement_rows db)"

definition crosses_limit :: "capability \<Rightarrow> ledger_db \<Rightarrow> string \<times> int \<Rightarrow> bool" where
  "crosses_limit cap db cd =
     (case limit_for (limits cap) (fst cd) of None \<Rightarrow> False
      | Some lim \<Rightarrow> used (budget_id cap) (fst cd) db + snd cd > lim)"

fun settle_upserts :: "string \<Rightarrow> (nat \<Rightarrow> int) \<Rightarrow> nat \<Rightarrow> (string \<times> int) list \<Rightarrow> ledger_db \<Rightarrow> ledger_db" where
  "settle_upserts bid clock i [] db = db"
| "settle_upserts bid clock i ((counter, delta) # rest) db =
     (if delta = 0 then settle_upserts bid clock i rest db
      else settle_upserts bid clock (Suc i) rest (upsert_used bid counter delta (clock i) db))"

definition new_settlement :: "string \<Rightarrow> string \<Rightarrow> provider_amounts \<Rightarrow> string \<Rightarrow> string \<Rightarrow> bool \<Rightarrow> int \<Rightarrow> settlement_row" where
  "new_settlement bid sid a source trigger over now =
     \<lparr>sr_budget_id = bid, sr_settlement_id = sid, sr_input_tokens = pa_input_tokens a,
      sr_output_tokens = pa_output_tokens a, sr_cached_tokens = pa_cached_tokens a,
      sr_model_calls = pa_model_calls a, sr_estimated_cost_micros = pa_estimated_cost_micros a,
      sr_usage_source = source, sr_charge_trigger = Some trigger, sr_over_limit = over,
      sr_created_at = now, sr_terminal_outcome = None, sr_finalized_at = None, sr_outcome = None\<rparr>"

definition settle_tx :: "capability \<Rightarrow> (nat \<Rightarrow> int) \<Rightarrow> string \<Rightarrow> provider_amounts \<Rightarrow> string \<Rightarrow> string \<Rightarrow> bool ledger_tx" where
  "settle_tx cap clock sid a source trigger db =
     (case find_settlement (budget_id cap) sid db of
        Some r \<Rightarrow>
          if row_amounts r \<noteq> a \<or> sr_usage_source r \<noteq> source \<or> sr_charge_trigger r \<noteq> Some trigger
          then (Inl (LValueError ''provider settlement idempotency conflict''), db)
          else (Inr (sr_over_limit r), db)
      | None \<Rightarrow>
          let over = (\<exists>cd \<in> set (amounts_of a). crosses_limit cap db cd);
              db1 = db\<lparr>settlement_rows := settlement_rows db @
                [new_settlement (budget_id cap) sid a source trigger over (clock 0)]\<rparr>
          in (Inr over, settle_upserts (budget_id cap) clock 1 (amounts_of a) db1))"

definition settle_provider_usage_once ::
    "capability \<Rightarrow> (nat \<Rightarrow> int) \<Rightarrow> string \<Rightarrow> provider_amounts \<Rightarrow> string \<Rightarrow> string \<Rightarrow> bool ledger_tx" where
  "settle_provider_usage_once cap clock sid a source trigger =
     (case validate_settlement_id sid of
        Inl e \<Rightarrow> sx_raise e
      | Inr _ \<Rightarrow>
          if source \<notin> set usage_sources then sx_raise (LValueError ''provider usage_source invalid'')
          else if trigger \<notin> set charge_triggers then sx_raise (LValueError ''provider settlement charge_trigger invalid'')
          else case check_settle_amounts (amounts_of a) of
            Inl e \<Rightarrow> sx_raise e
          | Inr _ \<Rightarrow> sx_seq connect (settle_tx cap clock sid a source trigger))"

definition expected_trigger :: "string \<Rightarrow> string option" where
  "expected_trigger outcome = map_of
     [(''success'', ''provider_response''), (''schema_reject'', ''provider_response''),
      (''provider_error'', ''provider_error''), (''invalid_usage'', ''invalid_usage'')] outcome"

definition finalize_row :: "string \<Rightarrow> string \<Rightarrow> string \<Rightarrow> int \<Rightarrow> settlement_row \<Rightarrow> settlement_row" where
  "finalize_row bid sid outcome now r =
     (if settlement_key r = (bid, sid) \<and> sr_terminal_outcome r = None
      then r\<lparr>sr_terminal_outcome := Some outcome, sr_finalized_at := Some now\<rparr> else r)"

definition finalize_tx :: "capability \<Rightarrow> int \<Rightarrow> string \<Rightarrow> string \<Rightarrow> unit ledger_tx" where
  "finalize_tx cap now sid outcome db =
     (case find_settlement (budget_id cap) sid db of
        None \<Rightarrow> (Inl (LValueError ''provider settlement must be charged before finalize''), db)
      | Some r \<Rightarrow>
          if expected_trigger outcome \<noteq> None \<and> sr_charge_trigger r \<noteq> expected_trigger outcome
          then (Inl (LValueError ''provider settlement terminal outcome conflicts with trigger''), db)
          else (case sr_terminal_outcome r of
              Some t \<Rightarrow>
                if t \<noteq> outcome then (Inl (LValueError ''provider settlement terminal outcome conflict''), db)
                else (Inr (), db)
            | None \<Rightarrow>
                (Inr (), db\<lparr>settlement_rows := map (finalize_row (budget_id cap) sid outcome now) (settlement_rows db)\<rparr>)))"

definition finalize_provider_settlement_once :: "capability \<Rightarrow> int \<Rightarrow> string \<Rightarrow> string \<Rightarrow> unit ledger_tx" where
  "finalize_provider_settlement_once cap now sid outcome =
     (case validate_settlement_id sid of
        Inl e \<Rightarrow> sx_raise e
      | Inr _ \<Rightarrow>
          if outcome \<notin> set terminal_outcomes then sx_raise (LValueError ''provider settlement terminal_outcome invalid'')
          else sx_seq connect (finalize_tx cap now sid outcome))"

text \<open>\<open>snapshot\<close> returns the used counters and, under \<open>active_leases\<close>, the active count.\<close>

definition snapshot :: "capability \<Rightarrow> int \<Rightarrow> (string \<Rightarrow> int option) ledger_tx" where
  "snapshot cap now =
     sx_seq connect (\<lambda>db.
       sx_bind (active_lease_count cap now)
         (\<lambda>n. sx_return (\<lambda>c. if c = ''active_leases'' then Some n
                             else map_option fst (budget_rows db (budget_id cap, c)))) db)"

subsection \<open>Sequences of operations of several capabilities\<close>

datatype ledger_op =
    OpActive int
  | OpAcquire "int option" int int string
  | OpHeartbeat lease "int option" int
  | OpRelease lease int
  | OpConsume "nat \<Rightarrow> int" "(string \<times> int) list"
  | OpCharge "nat \<Rightarrow> int" provider_amounts
  | OpSettle "nat \<Rightarrow> int" string provider_amounts string string
  | OpFinalize int string string
  | OpSnapshot int

fun ledger_exec :: "capability \<times> ledger_op \<Rightarrow> ledger_db \<Rightarrow> ledger_db" where
  "ledger_exec (cap, OpActive now) db = snd (active_lease_count cap now db)"
| "ledger_exec (cap, OpAcquire ttl t0 t1 uuid) db = snd (acquire_slot cap ttl t0 t1 uuid db)"
| "ledger_exec (cap, OpHeartbeat ls ext now) db = snd (heartbeat cap ls ext now db)"
| "ledger_exec (cap, OpRelease ls now) db = snd (release cap ls now db)"
| "ledger_exec (cap, OpConsume clock amounts) db = snd (consume cap clock amounts db)"
| "ledger_exec (cap, OpCharge clock a) db = snd (charge_provider_usage cap clock a db)"
| "ledger_exec (cap, OpSettle clock sid a source trigger) db =
     snd (settle_provider_usage_once cap clock sid a source trigger db)"
| "ledger_exec (cap, OpFinalize now sid outcome) db = snd (finalize_provider_settlement_once cap now sid outcome db)"
| "ledger_exec (cap, OpSnapshot now) db = snd (snapshot cap now db)"

definition ledger_run :: "(capability \<times> ledger_op) list \<Rightarrow> ledger_db \<Rightarrow> ledger_db" where
  "ledger_run ops db = fold ledger_exec ops db"

subsection \<open>The ledger invariant\<close>

definition nonneg_row :: "settlement_row \<Rightarrow> bool" where
  "nonneg_row r \<longleftrightarrow> (\<forall>(c, d) \<in> set (amounts_of (row_amounts r)). 0 \<le> d)"

definition wf_ledger :: "ledger_db \<Rightarrow> bool" where
  "wf_ledger db \<longleftrightarrow>
     (settle_columns db = v2_columns \<or> settle_columns db = [] \<and> settlement_rows db = [])
     \<and> distinct (map settlement_key (settlement_rows db))
     \<and> (\<forall>r \<in> set (settlement_rows db). \<not> invalid_trigger r \<and> \<not> invalid_terminal r \<and> nonneg_row r)
     \<and> distinct (map lr_lease_id (lease_rows db))"

lemma v2_columns_facts [simp]:
  "''outcome'' \<notin> set v2_columns" "''charge_trigger'' \<in> set v2_columns"
  "''terminal_outcome'' \<in> set v2_columns" "''finalized_at'' \<in> set v2_columns" "v2_columns \<noteq> []"
  by (simp_all add: v2_columns_def)

lemma create_tables_simps [simp]:
  "lease_rows (create_tables db) = lease_rows db"
  "budget_rows (create_tables db) = budget_rows db"
  "wf_ledger db \<Longrightarrow> settlement_rows (create_tables db) = settlement_rows db"
  "wf_ledger db \<Longrightarrow> settle_columns (create_tables db) = v2_columns"
  by (auto simp: create_tables_def wf_ledger_def)

lemma wf_create_tables [simp]: "wf_ledger db \<Longrightarrow> wf_ledger (create_tables db)"
  by (auto simp: create_tables_def wf_ledger_def)

lemma add_missing_column_present:
  "col \<in> set (settle_columns db) \<Longrightarrow> add_missing_column col f db = db"
  by (simp add: add_missing_column_def)

lemma migrate_wf: "wf_ledger db \<Longrightarrow> settle_columns db = v2_columns \<Longrightarrow> migrate_provider_settlements db = Inr db"
  by (auto simp: migrate_provider_settlements_def add_missing_column_present Let_def wf_ledger_def)

lemma connect_wf [simp]: "wf_ledger db \<Longrightarrow> connect db = (Inr (), create_tables db)"
  by (simp add: connect_def migrate_wf)

lemma sx_seq_connect [simp]: "wf_ledger db \<Longrightarrow> sx_seq connect m db = m (create_tables db)"
  by (simp add: sx_seq_def sx_bind_def)

lemma create_tables_idem [simp]: "create_tables (create_tables db) = create_tables db"
  by (simp add: create_tables_def)

lemma wf_empty_ledger [simp]: "wf_ledger empty_ledger"
  by (simp add: wf_ledger_def empty_ledger_def)

text \<open>Operations on the leases or the counters alone keep the settlement part, and conversely.\<close>

lemma wf_update_leases:
  "wf_ledger db \<Longrightarrow> distinct (map lr_lease_id ls) \<Longrightarrow> wf_ledger (db\<lparr>lease_rows := ls\<rparr>)"
  by (simp add: wf_ledger_def)

lemma wf_map_leases:
  "wf_ledger db \<Longrightarrow> (\<And>l. lr_lease_id (f l) = lr_lease_id l) \<Longrightarrow> lease_rows db = ls \<Longrightarrow>
     wf_ledger (db\<lparr>lease_rows := map f ls\<rparr>)"
  by (rule wf_update_leases) (auto simp: wf_ledger_def comp_def)

lemma wf_map_settlements:
  assumes "wf_ledger db" "\<And>q. settlement_key (f q) = settlement_key q"
    "\<And>q. q \<in> set (settlement_rows db) \<Longrightarrow> \<not> invalid_trigger (f q) \<and> \<not> invalid_terminal (f q) \<and> nonneg_row (f q)"
  shows "wf_ledger (db\<lparr>settlement_rows := map f (settlement_rows db)\<rparr>)"
  using assms by (auto simp: wf_ledger_def comp_def)

lemma upsert_used_simps [simp]:
  "lease_rows (upsert_used b c d t db) = lease_rows db"
  "settle_columns (upsert_used b c d t db) = settle_columns db"
  "settlement_rows (upsert_used b c d t db) = settlement_rows db"
  "wf_ledger (upsert_used b c d t db) = wf_ledger db"
  by (simp_all add: upsert_used_def wf_ledger_def)

lemma used_upsert: "used b' c' (upsert_used b c d t db) = used b' c' db + (if b' = b \<and> c' = c then d else 0)"
  by (auto simp: used_def upsert_used_def split: option.splits)

lemma used_cong [simp]:
  "used b c (db\<lparr>lease_rows := ls\<rparr>) = used b c db"
  "used b c (db\<lparr>settlement_rows := rs\<rparr>) = used b c db"
  "used b c (create_tables db) = used b c db"
  by (simp_all add: used_def)

lemma used_empty [simp]: "used b c empty_ledger = 0"
  by (simp add: used_def empty_ledger_def)

lemma settle_upserts_frame [simp]:
  "lease_rows (settle_upserts b clock i as db) = lease_rows db"
  "settle_columns (settle_upserts b clock i as db) = settle_columns db"
  "settlement_rows (settle_upserts b clock i as db) = settlement_rows db"
  "wf_ledger (settle_upserts b clock i as db) = wf_ledger db"
  by (induction b clock i as db rule: settle_upserts.induct) auto

definition amount_of :: "(string \<times> int) list \<Rightarrow> string \<Rightarrow> int" where
  "amount_of as c = sum_list (map snd (filter (\<lambda>(k, _). k = c) as))"

lemma amount_of_simps [simp]:
  "amount_of [] c = 0"
  "amount_of ((k, d) # as) c = (if k = c then d else 0) + amount_of as c"
  by (auto simp: amount_of_def)

lemma used_settle_upserts:
  "used b' c (settle_upserts b clock i as db) = used b' c db + (if b' = b then amount_of as c else 0)"
  by (induction b clock i as db rule: settle_upserts.induct) (auto simp: used_upsert)

lemma consume_loop_frame:
  "consume_loop cap clock i as db = Inr db' \<Longrightarrow>
     lease_rows db' = lease_rows db \<and> settle_columns db' = settle_columns db
     \<and> settlement_rows db' = settlement_rows db \<and> (wf_ledger db' \<longleftrightarrow> wf_ledger db)"
  by (induction cap clock i as db rule: consume_loop.induct) (auto split: if_splits option.splits)

lemma used_consume_loop:
  "consume_loop cap clock i as db = Inr db' \<Longrightarrow>
     used b c db' = used b c db + (if b = budget_id cap then amount_of as c else 0)"
  by (induction cap clock i as db rule: consume_loop.induct)
     (auto simp: used_upsert split: if_splits option.splits)

lemma check_amounts_ok: "check_amounts as = Inr u \<longleftrightarrow> (\<forall>(c, d) \<in> set as. c \<in> set counters \<and> 0 \<le> d)"
  by (induction as rule: check_amounts.induct) auto

lemma check_settle_amounts_ok: "check_settle_amounts as = Inr u \<longleftrightarrow> (\<forall>(c, d) \<in> set as. 0 \<le> d)"
  by (induction as rule: check_settle_amounts.induct) auto

lemma amount_of_nonneg: "(\<forall>(c, d) \<in> set as. 0 \<le> d) \<Longrightarrow> 0 \<le> amount_of as c"
  by (induction as) auto

lemma amount_of_member: "distinct (map fst as) \<Longrightarrow> (c, d) \<in> set as \<Longrightarrow> amount_of as c = d"
proof (induction as)
  case Nil
  then show ?case by simp
next
  case (Cons x as)
  have none: "k \<notin> set (map fst as) \<Longrightarrow> amount_of as k = 0" for k
    by (induction as) auto
  show ?case
  proof (cases "x = (c, d)")
    case True
    then show ?thesis using Cons.prems none by simp
  next
    case False
    then have mem: "(c, d) \<in> set as" using Cons.prems by simp
    then have "c \<in> set (map fst as)" by (metis fst_conv image_eqI set_map)
    then have "fst x \<noteq> c" using Cons.prems by auto
    then show ?thesis using Cons mem by (cases x) simp
  qed
qed

lemma limit_for_counters: "c \<in> set counters \<Longrightarrow> \<exists>l. limit_for b c = Some l"
  unfolding counters_def limit_for_def by auto

subsection \<open>Every operation keeps the invariant\<close>

lemma recover_expired_simps [simp]:
  "settlement_rows (recover_expired cap now db) = settlement_rows db"
  "settle_columns (recover_expired cap now db) = settle_columns db"
  "budget_rows (recover_expired cap now db) = budget_rows db"
  "used b c (recover_expired cap now db) = used b c db"
  "map lr_lease_id (lease_rows (recover_expired cap now db)) = map lr_lease_id (lease_rows db)"
  by (auto simp: recover_expired_def used_def)

lemma wf_recover_expired [simp]: "wf_ledger db \<Longrightarrow> wf_ledger (recover_expired cap now db)"
  unfolding recover_expired_def by (rule wf_map_leases) auto

lemma settlement_key_new [simp]: "settlement_key (new_settlement b s a src trg ov t) = (b, s)"
  by (simp add: settlement_key_def new_settlement_def)

lemma row_amounts_new [simp]: "row_amounts (new_settlement b s a src trg ov t) = a"
  by (simp add: row_amounts_def new_settlement_def)

lemma find_settlement_None: "find_settlement b s db = None \<longleftrightarrow> (b, s) \<notin> set (map settlement_key (settlement_rows db))"
  unfolding find_settlement_def find_None_all by force

lemma find_settlement_Some:
  "wf_ledger db \<Longrightarrow> find_settlement b s db = Some r \<longleftrightarrow> r \<in> set (settlement_rows db) \<and> settlement_key r = (b, s)"
proof
  assume wf: "wf_ledger db" and r: "r \<in> set (settlement_rows db) \<and> settlement_key r = (b, s)"
  then have d: "distinct (map settlement_key (settlement_rows db))" by (simp add: wf_ledger_def)
  from find_unique_key [OF d, of r] r show "find_settlement b s db = Some r"
    by (simp add: find_settlement_def)
qed (auto simp: find_settlement_def dest: find_Some_set)

lemma wf_append_settlement:
  assumes "wf_ledger db" "settle_columns db = v2_columns" "find_settlement b s db = None"
    "trg \<in> set charge_triggers" "\<forall>(c, d) \<in> set (amounts_of a). 0 \<le> d"
  shows "wf_ledger (db\<lparr>settlement_rows := settlement_rows db @ [new_settlement b s a src trg ov t]\<rparr>)"
proof -
  let ?n = "new_settlement b s a src trg ov t"
  have "nonneg_row ?n" using assms(5) by (simp add: nonneg_row_def)
  moreover have "\<not> invalid_trigger ?n" "\<not> invalid_terminal ?n"
    using assms(4) by (simp_all add: new_settlement_def invalid_trigger_def invalid_terminal_def)
  ultimately show ?thesis
    using assms(1-3) unfolding wf_ledger_def find_settlement_None by auto
qed

lemma finalized_row_valid:
  assumes "outcome \<in> set terminal_outcomes"
    "\<not> (expected_trigger outcome \<noteq> None \<and> sr_charge_trigger r \<noteq> expected_trigger outcome)"
  shows "\<not> invalid_terminal (r\<lparr>sr_terminal_outcome := Some outcome, sr_finalized_at := Some now\<rparr>)"
  using assms by (auto simp: terminal_outcomes_def invalid_terminal_def expected_trigger_def sql_differs_def)

lemma wf_finalize_rows:
  assumes wf: "wf_ledger db" and r: "find_settlement b s db = Some r"
    and valid: "outcome \<in> set terminal_outcomes"
      "\<not> (expected_trigger outcome \<noteq> None \<and> sr_charge_trigger r \<noteq> expected_trigger outcome)"
  shows "wf_ledger (db\<lparr>settlement_rows := map (finalize_row b s outcome now) (settlement_rows db)\<rparr>)"
    (is "wf_ledger (db\<lparr>settlement_rows := map ?f _\<rparr>)")
proof -
  have keys: "settlement_key (?f q) = settlement_key q" for q
    by (simp add: settlement_key_def finalize_row_def)
  have row: "\<not> invalid_trigger (?f q) \<and> \<not> invalid_terminal (?f q) \<and> nonneg_row (?f q)"
    if q: "q \<in> set (settlement_rows db)" for q
  proof -
    have orig: "\<not> invalid_trigger q \<and> \<not> invalid_terminal q \<and> nonneg_row q"
      using wf q by (simp add: wf_ledger_def)
    show ?thesis
    proof (cases "settlement_key q = (b, s) \<and> sr_terminal_outcome q = None")
      case True
      then have "q = r" using find_settlement_Some [OF wf] r q by (metis option.inject)
      then have "\<not> invalid_terminal (?f q)" using finalized_row_valid [OF valid] True by (simp add: finalize_row_def)
      then show ?thesis
        using orig True by (simp add: finalize_row_def invalid_trigger_def nonneg_row_def row_amounts_def)
    next
      case False
      then have "?f q = q" by (auto simp: finalize_row_def)
      then show ?thesis using orig by simp
    qed
  qed
  show ?thesis using wf keys row by (rule wf_map_settlements)
qed

lemma wf_settle_tx:
  assumes "wf_ledger db" "settle_columns db = v2_columns" "trg \<in> set charge_triggers"
    "\<forall>(c, d) \<in> set (amounts_of a). 0 \<le> d"
  shows "wf_ledger (snd (settle_tx cap clock s a src trg db))"
  using assms wf_append_settlement
  by (auto simp: settle_tx_def Let_def split: option.splits)

lemma wf_finalize_tx:
  assumes "wf_ledger db" "oc \<in> set terminal_outcomes"
  shows "wf_ledger (snd (finalize_tx cap now s oc db))"
  using assms wf_finalize_rows [OF assms(1) _ assms(2)]
  by (auto simp: finalize_tx_def split: option.splits)

lemma ledger_exec_wf:
  assumes wf: "wf_ledger db"
  shows "wf_ledger (ledger_exec (cap, op) db)"
proof (cases op)
  case (OpAcquire ttl t0 t1 uuid)
  then show ?thesis using wf
    by (auto simp: acquire_slot_def Let_def sx_raise_def intro!: wf_update_leases
        simp flip: wf_ledger_def split: option.splits)
       (auto simp: wf_ledger_def)
next
  case (OpConsume clock as)
  then show ?thesis using wf
    by (auto simp: consume_def sx_defs dest: consume_loop_frame split: sum.splits)
next
  case (OpCharge clock a)
  then show ?thesis using wf
    by (auto simp: charge_provider_usage_def consume_def sx_defs dest: consume_loop_frame split: sum.splits)
next
  case (OpSettle clock s a src trg)
  then show ?thesis using wf
    by (auto simp: settle_provider_usage_once_def sx_raise_def check_settle_amounts_ok
        intro: wf_settle_tx split: sum.splits)
next
  case (OpFinalize now s oc)
  then show ?thesis using wf
    by (auto simp: finalize_provider_settlement_once_def sx_raise_def intro: wf_finalize_tx split: sum.splits)
qed (use wf in \<open>auto simp: active_lease_count_def heartbeat_def release_def snapshot_def sx_bind_def sx_return_def Let_def
       intro!: wf_map_leases\<close>)

interpretation ledger_wf: op_system ledger_exec "\<lambda>_. True" wf_ledger
  by unfold_locales (metis ledger_exec_wf surj_pair)

lemma wf_ledger_run [simp]: "wf_ledger db \<Longrightarrow> wf_ledger (ledger_run ops db)"
  unfolding ledger_run_def by (rule ledger_wf.run_inv) auto

subsection \<open>Slot leases stay within the parallelism limit\<close>

lemma active_count_map_le:
  assumes "\<And>l. active_lease b (f l) \<Longrightarrow> active_lease b l"
  shows "active_count b (db\<lparr>lease_rows := map f (lease_rows db)\<rparr>) \<le> active_count b db"
proof -
  have "length (filter (active_lease b) (map f ls)) \<le> length (filter (active_lease b) ls)" for ls
    by (induction ls) (auto simp: le_SucI dest: assms)
  then show ?thesis by (simp add: active_count_def)
qed

lemma active_count_recover_le: "active_count b (recover_expired cap now db) \<le> active_count b db"
  unfolding recover_expired_def
  by (rule active_count_map_le) (auto simp: active_lease_def split: if_splits)

lemma active_count_cong: "lease_rows db' = lease_rows db \<Longrightarrow> active_count b db' = active_count b db"
  by (simp add: active_count_def)

lemma active_count_other_frames [simp]:
  "active_count b (create_tables db) = active_count b db"
  "active_count b (settle_upserts b' clock i as db) = active_count b db"
  "active_count b (db\<lparr>settlement_rows := rs\<rparr>) = active_count b db"
  by (simp_all add: active_count_def)

lemma lease_rows_consume: "wf_ledger db \<Longrightarrow> lease_rows (snd (consume cap clock as db)) = lease_rows db"
  by (auto simp: consume_def sx_defs dest: consume_loop_frame split: sum.splits)

lemma lease_rows_settle:
  "wf_ledger db \<Longrightarrow> lease_rows (snd (settle_provider_usage_once cap clock s a src trg db)) = lease_rows db"
  by (auto simp: settle_provider_usage_once_def sx_raise_def settle_tx_def Let_def split: sum.splits option.splits)

lemma lease_rows_finalize:
  "wf_ledger db \<Longrightarrow> lease_rows (snd (finalize_provider_settlement_once cap now s oc db)) = lease_rows db"
  by (auto simp: finalize_provider_settlement_once_def sx_raise_def finalize_tx_def split: sum.splits option.splits)

lemma active_count_heartbeat: "wf_ledger db \<Longrightarrow> active_count b (snd (heartbeat cap ls ext now db)) \<le> active_count b db"
  unfolding heartbeat_def Let_def
  by (auto intro!: order.trans [OF active_count_map_le [of b _ "create_tables db", simplified]]
      simp: active_lease_def split: if_splits)

lemma active_count_release: "wf_ledger db \<Longrightarrow> active_count b (snd (release cap ls now db)) \<le> active_count b db"
  unfolding release_def
  by (auto intro!: order.trans [OF active_count_map_le [of b _ "create_tables db", simplified]]
      simp: active_lease_def split: if_splits)

lemma active_count_acquire:
  assumes "wf_ledger db" "budget_id cap = b \<Longrightarrow> max_parallel_experiments (limits cap) \<le> m" "active_count b db \<le> m"
  shows "active_count b (snd (acquire_slot cap ttl t0 t1 uuid db)) \<le> m"
  using assms active_count_recover_le [of b cap t0 "create_tables db"]
  by (auto simp: acquire_slot_def Let_def sx_raise_def)
     (auto simp: active_count_def active_lease_def)

lemma ledger_exec_lease_bound:
  assumes wf: "wf_ledger db" and m: "budget_id cap = b \<Longrightarrow> max_parallel_experiments (limits cap) \<le> m"
    and bound: "active_count b db \<le> m"
  shows "active_count b (ledger_exec (cap, op) db) \<le> m"
proof (cases op)
  case (OpActive now)
  then show ?thesis
    using wf bound active_count_recover_le [of b cap now "create_tables db"]
    by (simp add: active_lease_count_def Let_def)
next
  case (OpSnapshot now)
  then show ?thesis
    using wf bound active_count_recover_le [of b cap now "create_tables db"]
    by (simp add: snapshot_def active_lease_count_def Let_def sx_bind_def sx_return_def)
next
  case (OpAcquire ttl t0 t1 uuid)
  then show ?thesis using active_count_acquire [OF wf m bound] by simp
next
  case (OpHeartbeat ls ext now)
  then show ?thesis using order.trans [OF active_count_heartbeat [OF wf] bound] by simp
next
  case (OpRelease ls now)
  then show ?thesis using order.trans [OF active_count_release [OF wf] bound] by simp
qed (use wf bound in \<open>simp_all add: charge_provider_usage_def active_count_def
       lease_rows_consume lease_rows_settle lease_rows_finalize\<close>)

interpretation ledger_lease: op_system ledger_exec
  "\<lambda>(cap, _). budget_id cap = b \<longrightarrow> max_parallel_experiments (limits cap) \<le> m"
  "\<lambda>db. wf_ledger db \<and> active_count b db \<le> m" for b m
  by unfold_locales (auto simp: ledger_exec_lease_bound ledger_exec_wf)

subsection \<open>Counters: what every operation charges\<close>

definition settled_total :: "string \<Rightarrow> string \<Rightarrow> ledger_db \<Rightarrow> int" where
  "settled_total b c db =
     sum_list (map (\<lambda>r. if sr_budget_id r = b then amount_of (amounts_of (row_amounts r)) c else 0) (settlement_rows db))"

lemma settled_total_frames [simp]:
  "settled_total b c (db\<lparr>lease_rows := ls\<rparr>) = settled_total b c db"
  "settled_total b c (recover_expired cap now db) = settled_total b c db"
  "settled_total b c (settle_upserts b' clock i as db) = settled_total b c db"
  "wf_ledger db \<Longrightarrow> settled_total b c (create_tables db) = settled_total b c db"
  by (simp_all add: settled_total_def)

lemma settled_total_append [simp]:
  "settled_total b c (db\<lparr>settlement_rows := settlement_rows db @ [new_settlement b' s a src trg ov t]\<rparr>)
   = settled_total b c db + (if b' = b then amount_of (amounts_of a) c else 0)"
proof -
  have "sr_budget_id (new_settlement b' s a src trg ov t) = b'" by (simp add: new_settlement_def)
  then show ?thesis by (simp add: settled_total_def)
qed

lemma settled_total_map:
  assumes "\<And>r. sr_budget_id (f r) = sr_budget_id r" "\<And>r. row_amounts (f r) = row_amounts r"
  shows "settled_total b c (db\<lparr>settlement_rows := map f (settlement_rows db)\<rparr>) = settled_total b c db"
  by (simp add: settled_total_def comp_def assms cong: if_cong)

lemma settled_total_nonneg: "wf_ledger db \<Longrightarrow> 0 \<le> settled_total b c db"
  unfolding settled_total_def
  by (rule sum_list_nonneg) (auto simp: wf_ledger_def nonneg_row_def intro!: amount_of_nonneg)

lemma consume_effect:
  assumes wf: "wf_ledger db" and ok: "fst (consume cap clock as db) = Inr u"
  shows "used b c (snd (consume cap clock as db)) = used b c db + (if b = budget_id cap then amount_of as c else 0)"
    and "settled_total b c (snd (consume cap clock as db)) = settled_total b c db"
    and "\<forall>(k, d) \<in> set as. k \<in> set counters \<and> 0 \<le> d"
proof -
  have "used b c (snd (consume cap clock as db)) = used b c db + (if b = budget_id cap then amount_of as c else 0)
        \<and> settled_total b c (snd (consume cap clock as db)) = settled_total b c db
        \<and> (\<forall>(k, d) \<in> set as. k \<in> set counters \<and> 0 \<le> d)"
  proof (cases "as = []")
    case True
    then show ?thesis by (simp add: consume_def sx_return_def)
  next
    case False
    then obtain db' where loop: "consume_loop cap clock 0 as (create_tables db) = Inr db'"
      and snd: "snd (consume cap clock as db) = db'" and chk: "check_amounts as = Inr ()"
      using wf ok by (auto simp: consume_def sx_raise_def split: if_splits sum.splits)
    show ?thesis
      using used_consume_loop [OF loop] consume_loop_frame [OF loop] wf chk snd check_amounts_ok [of as "()"]
      by (auto simp: settled_total_def)
  qed
  then show "used b c (snd (consume cap clock as db)) = used b c db + (if b = budget_id cap then amount_of as c else 0)"
    "settled_total b c (snd (consume cap clock as db)) = settled_total b c db"
    "\<forall>(k, d) \<in> set as. k \<in> set counters \<and> 0 \<le> d" by auto
qed

lemma consume_failed:
  assumes "wf_ledger db" "fst (consume cap clock as db) = Inl e"
  shows "snd (consume cap clock as db) = db \<or> snd (consume cap clock as db) = create_tables db"
  using assms by (auto simp: consume_def sx_defs split: if_splits sum.splits)

text \<open>A loop entry that changes a counter leaves it within its limit.\<close>

lemma consume_loop_limit:
  assumes "consume_loop cap clock i as db = Inr db'" "limit_for (limits cap) c = Some l"
    "\<forall>(k, d) \<in> set as. 0 \<le> d"
  shows "amount_of as c = 0 \<or> used (budget_id cap) c db + amount_of as c \<le> l"
  using assms
proof (induction cap clock i as db rule: consume_loop.induct)
  case (1 cap clock i db)
  then show ?case by simp
next
  case (2 cap clock i k d rest db)
  show ?case
  proof (cases "d = 0")
    case True
    then show ?thesis using 2 by auto
  next
    case False
    let ?db = "upsert_used (budget_id cap) k d (clock i) db"
    have loop: "consume_loop cap clock (Suc i) rest ?db = Inr db'"
      using 2 False by (auto split: option.splits if_splits)
    have "amount_of rest c = 0 \<or> used (budget_id cap) c ?db + amount_of rest c \<le> l"
    proof (cases "limit_for (limits cap) k")
      case None
      then show ?thesis using 2 False loop by auto
    next
      case (Some lk)
      then show ?thesis using 2 False loop by (auto split: if_splits)
    qed
    moreover have "k = c \<Longrightarrow> used (budget_id cap) c db + d \<le> l"
      using 2 False by (auto split: if_splits)
    ultimately show ?thesis by (auto simp: used_upsert)
  qed
qed

lemma consume_limit:
  assumes "wf_ledger db" "fst (consume cap clock as db) = Inr u" "limit_for (limits cap) c = Some l"
  shows "amount_of as c = 0 \<or> used (budget_id cap) c db + amount_of as c \<le> l"
proof (cases "as = []")
  case True
  then show ?thesis by simp
next
  case False
  then obtain db' where loop: "consume_loop cap clock 0 as (create_tables db) = Inr db'"
    using assms by (auto simp: consume_def sx_raise_def split: if_splits sum.splits)
  have "\<forall>(k, d) \<in> set as. 0 \<le> d" using consume_effect(3) [OF assms(1,2)] by auto
  then show ?thesis using consume_loop_limit [OF loop assms(3)] by simp
qed

text \<open>Converse: the loop succeeds when every changed counter has room.\<close>

definition has_room :: "capability \<Rightarrow> (string \<times> int) list \<Rightarrow> ledger_db \<Rightarrow> bool" where
  "has_room cap as db \<longleftrightarrow>
     (\<forall>(k, d) \<in> set as. d = 0 \<or> (case limit_for (limits cap) k of None \<Rightarrow> True | Some l \<Rightarrow> used (budget_id cap) k db + d \<le> l))"

lemma has_room_create_tables [simp]: "has_room cap as (create_tables db) = has_room cap as db"
  by (simp add: has_room_def cong: option.case_cong)

lemma has_room_upsert:
  assumes "distinct (map fst ((k, d) # rest))" "has_room cap ((k, d) # rest) db"
  shows "has_room cap rest (upsert_used (budget_id cap) k d t db)"
proof -
  have "used (budget_id cap) k' (upsert_used (budget_id cap) k d t db) = used (budget_id cap) k' db"
    if "(k', d') \<in> set rest" for k' d'
  proof -
    have "k' \<in> set (map fst rest)" using that by (metis fst_conv image_eqI set_map)
    then have "k' \<noteq> k" using assms(1) by auto
    then show ?thesis by (simp add: used_upsert)
  qed
  then show ?thesis using assms(2) by (auto simp: has_room_def split: option.splits)
qed

lemma consume_loop_ok:
  "distinct (map fst as) \<Longrightarrow> has_room cap as db \<Longrightarrow> \<exists>db'. consume_loop cap clock i as db = Inr db'"
proof (induction cap clock i as db rule: consume_loop.induct)
  case (1 cap clock i db)
  then show ?case by simp
next
  case (2 cap clock i k d rest db)
  have tail: "has_room cap rest db" and head: "d = 0 \<or> (\<forall>l. limit_for (limits cap) k = Some l \<longrightarrow> used (budget_id cap) k db + d \<le> l)"
    using 2(5) by (auto simp: has_room_def split: option.splits)
  show ?case
    using 2 tail head has_room_upsert [OF 2(4,5)] by (cases "limit_for (limits cap) k") auto
qed

lemma settle_tx_effect:
  assumes "find_settlement (budget_id cap) s db = None"
  shows "used b c (snd (settle_tx cap clock s a src trg db))
      = used b c db + (if b = budget_id cap then amount_of (amounts_of a) c else 0)"
    and "settled_total b c (snd (settle_tx cap clock s a src trg db))
      = settled_total b c db + (if b = budget_id cap then amount_of (amounts_of a) c else 0)"
  using assms by (auto simp: settle_tx_def Let_def used_settle_upserts)

lemma settle_tx_existing:
  "find_settlement (budget_id cap) s db = Some r \<Longrightarrow> snd (settle_tx cap clock s a src trg db) = db"
  by (simp add: settle_tx_def)

lemma finalize_tx_frame:
  "used b c (snd (finalize_tx cap now s oc db)) = used b c db"
  "settled_total b c (snd (finalize_tx cap now s oc db)) = settled_total b c db"
proof -
  show "used b c (snd (finalize_tx cap now s oc db)) = used b c db"
    by (auto simp: finalize_tx_def split: option.splits)
  show "settled_total b c (snd (finalize_tx cap now s oc db)) = settled_total b c db"
    by (auto simp: finalize_tx_def row_amounts_def finalize_row_def intro!: settled_total_map split: option.splits)
qed

text \<open>One operation adds a consumed part and a settled part to a counter; a consumed part stays
  within the limit of the capability that made it.\<close>

definition charged :: "capability \<Rightarrow> string \<Rightarrow> string \<Rightarrow> ledger_db \<Rightarrow> ledger_db \<Rightarrow> int \<Rightarrow> int \<Rightarrow> bool" where
  "charged cap b c db db' consumed settled \<longleftrightarrow>
     0 \<le> consumed \<and> 0 \<le> settled \<and> used b c db' = used b c db + consumed + settled
     \<and> settled_total b c db' = settled_total b c db + settled
     \<and> (consumed \<noteq> 0 \<longrightarrow> settled = 0 \<and> budget_id cap = b \<and> (\<forall>l. limit_for (limits cap) c = Some l \<longrightarrow> used b c db' \<le> l))"

lemma charged_none: "used b c db' = used b c db \<Longrightarrow> settled_total b c db' = settled_total b c db \<Longrightarrow> charged cap b c db db' 0 0"
  by (simp add: charged_def)

lemma charged_consume:
  assumes wf: "wf_ledger db"
  shows "\<exists>n. charged cap b c db (snd (consume cap clock as db)) n 0"
proof (cases "fst (consume cap clock as db)")
  case (Inl e)
  have "charged cap b c db (snd (consume cap clock as db)) 0 0"
    using consume_failed [OF wf Inl] wf by (auto intro!: charged_none)
  then show ?thesis ..
next
  case (Inr u)
  note eff = consume_effect [OF wf Inr]
  have "\<forall>(k, d) \<in> set as. 0 \<le> d" using eff(3) by auto
  then have "0 \<le> amount_of as c" by (rule amount_of_nonneg)
  then have "charged cap b c db (snd (consume cap clock as db)) (if b = budget_id cap then amount_of as c else 0) 0"
    using eff(1,2) consume_limit [OF wf Inr, of c] by (auto simp: charged_def)
  then show ?thesis ..
qed

lemma charged_settle:
  assumes wf: "wf_ledger db"
  shows "\<exists>n. charged cap b c db (snd (settle_provider_usage_once cap clock s a src trg db)) 0 n"
proof (cases "snd (settle_provider_usage_once cap clock s a src trg db) = db")
  case True
  then have "charged cap b c db (snd (settle_provider_usage_once cap clock s a src trg db)) 0 0"
    by (intro charged_none) simp_all
  then show ?thesis ..
next
  case False
  then have eq: "snd (settle_provider_usage_once cap clock s a src trg db) = snd (settle_tx cap clock s a src trg (create_tables db))"
    and chk: "check_settle_amounts (amounts_of a) = Inr ()"
    using wf by (auto simp: settle_provider_usage_once_def sx_raise_def split: sum.splits if_splits)
  note pos = chk [unfolded check_settle_amounts_ok]
  show ?thesis
  proof (cases "find_settlement (budget_id cap) s (create_tables db)")
    case None
    have "charged cap b c db (snd (settle_tx cap clock s a src trg (create_tables db))) 0
        (if b = budget_id cap then amount_of (amounts_of a) c else 0)"
      using wf amount_of_nonneg [OF pos] by (simp add: charged_def settle_tx_effect [OF None])
    then show ?thesis unfolding eq ..
  next
    case (Some r)
    have "charged cap b c db (create_tables db) 0 0" using wf by (intro charged_none) simp_all
    then show ?thesis unfolding eq settle_tx_existing [OF Some] ..
  qed
qed

lemma charged_finalize:
  assumes wf: "wf_ledger db"
  shows "charged cap b c db (snd (finalize_provider_settlement_once cap now s oc db)) 0 0"
  using wf by (auto simp: finalize_provider_settlement_once_def sx_raise_def finalize_tx_frame
      intro!: charged_none split: sum.splits)

lemma ledger_exec_charged:
  assumes wf: "wf_ledger db"
  shows "\<exists>n m. charged cap b c db (ledger_exec (cap, op) db) n m"
proof (cases op)
  case (OpAcquire ttl t0 t1 uuid)
  then have "charged cap b c db (ledger_exec (cap, op) db) 0 0" using wf
    by (intro charged_none) (simp_all add: acquire_slot_def Let_def sx_raise_def)
  then show ?thesis by blast
next
  case (OpConsume clock as)
  then show ?thesis using charged_consume [OF wf] by fastforce
next
  case (OpCharge clock a)
  then show ?thesis using charged_consume [OF wf] by (fastforce simp: charge_provider_usage_def)
next
  case (OpSettle clock s a src trg)
  then show ?thesis using charged_settle [OF wf] by fastforce
next
  case (OpFinalize now s oc)
  then show ?thesis using charged_finalize [OF wf] by fastforce
next
  case (OpActive now)
  then have "charged cap b c db (ledger_exec (cap, op) db) 0 0" using wf
    by (intro charged_none) (simp_all add: active_lease_count_def Let_def)
  then show ?thesis by blast
next
  case (OpHeartbeat ls ext now)
  then have "charged cap b c db (ledger_exec (cap, op) db) 0 0" using wf
    by (intro charged_none) (simp_all add: heartbeat_def Let_def)
  then show ?thesis by blast
next
  case (OpRelease ls now)
  then have "charged cap b c db (ledger_exec (cap, op) db) 0 0" using wf
    by (intro charged_none) (simp_all add: release_def)
  then show ?thesis by blast
next
  case (OpSnapshot now)
  then have "charged cap b c db (ledger_exec (cap, op) db) 0 0" using wf
    by (intro charged_none) (simp_all add: snapshot_def active_lease_count_def sx_bind_def sx_return_def Let_def)
  then show ?thesis by blast
qed

lemma used_ledger_exec_mono: "wf_ledger db \<Longrightarrow> used b c db \<le> used b c (ledger_exec a db)"
  using ledger_exec_charged [of db "fst a" b c "snd a"] by (auto simp: charged_def)

lemma used_ledger_run_mono: "wf_ledger db \<Longrightarrow> used b c db \<le> used b c (ledger_run ops db)"
  unfolding ledger_run_def
  by (rule ledger_wf.run_mono) (auto intro: used_ledger_exec_mono)

text \<open>The accounting bound: everything above the settlements fits the limit.\<close>

definition accounted :: "string \<Rightarrow> string \<Rightarrow> int \<Rightarrow> ledger_db \<Rightarrow> bool" where
  "accounted b c l db \<longleftrightarrow> wf_ledger db \<and> settled_total b c db \<le> used b c db \<and> used b c db \<le> settled_total b c db + max 0 l"

lemma ledger_exec_accounted:
  assumes acc: "accounted b c l db" and lim: "budget_id cap = b \<longrightarrow> (\<exists>m. limit_for (limits cap) c = Some m \<and> m \<le> l)"
  shows "accounted b c l (ledger_exec (cap, op) db)"
proof -
  have wf: "wf_ledger db" using acc by (simp add: accounted_def)
  obtain n m where ch: "charged cap b c db (ledger_exec (cap, op) db) n m" using ledger_exec_charged [OF wf] by blast
  have wf': "wf_ledger (ledger_exec (cap, op) db)" using wf by (rule ledger_exec_wf)
  have "used b c (ledger_exec (cap, op) db) \<le> settled_total b c (ledger_exec (cap, op) db) + max 0 l"
  proof (cases "n = 0")
    case True
    then show ?thesis using ch acc by (simp add: charged_def accounted_def)
  next
    case False
    then have "used b c (ledger_exec (cap, op) db) \<le> l" using ch lim by (force simp: charged_def)
    then show ?thesis using settled_total_nonneg [OF wf', of b c] by simp
  qed
  then show ?thesis using ch acc wf' by (simp add: charged_def accounted_def)
qed

interpretation ledger_acc: op_system ledger_exec
  "\<lambda>(cap, _). budget_id cap = b \<longrightarrow> (\<exists>m. limit_for (limits cap) c = Some m \<and> m \<le> l)"
  "accounted b c l" for b c l
  by unfold_locales (auto simp: ledger_exec_accounted)

subsection \<open>Settlements are permanent\<close>

definition settlement_core :: "settlement_row \<Rightarrow> settlement_row" where
  "settlement_core r = r\<lparr>sr_terminal_outcome := None, sr_finalized_at := None\<rparr>"

definition kept :: "settlement_row \<Rightarrow> ledger_db \<Rightarrow> bool" where
  "kept r db \<longleftrightarrow> (\<exists>q \<in> set (settlement_rows db). settlement_core q = settlement_core r
     \<and> (sr_terminal_outcome r \<noteq> None \<longrightarrow> q = r))"

lemma kept_mono: "kept r db \<Longrightarrow> set (settlement_rows db) \<subseteq> set (settlement_rows db') \<Longrightarrow> kept r db'"
  unfolding kept_def by blast

lemma settlement_rows_settle:
  assumes "wf_ledger db"
  shows "set (settlement_rows db) \<subseteq> set (settlement_rows (snd (settle_provider_usage_once cap clock s a src trg db)))"
  using assms
  by (auto simp: settle_provider_usage_once_def sx_raise_def settle_tx_def Let_def split: sum.splits option.splits)

lemma settlement_rows_consume:
  "wf_ledger db \<Longrightarrow> settlement_rows (snd (consume cap clock as db)) = settlement_rows db"
  by (auto simp: consume_def sx_defs dest: consume_loop_frame split: sum.splits)

lemma rows_finalize:
  assumes "wf_ledger db"
  shows "settlement_rows (snd (finalize_provider_settlement_once cap now s oc db)) = settlement_rows db
     \<or> settlement_rows (snd (finalize_provider_settlement_once cap now s oc db))
        = map (finalize_row (budget_id cap) s oc now) (settlement_rows db)"
  using assms
  by (auto simp: finalize_provider_settlement_once_def sx_raise_def finalize_tx_def split: sum.splits option.splits)

lemma kept_finalize:
  assumes wf: "wf_ledger db" and k: "kept r db"
  shows "kept r (snd (finalize_provider_settlement_once cap now s oc db))"
proof -
  let ?f = "finalize_row (budget_id cap) s oc now"
  obtain q where q: "q \<in> set (settlement_rows db)" "settlement_core q = settlement_core r"
      "sr_terminal_outcome r \<noteq> None \<longrightarrow> q = r" using k by (auto simp: kept_def)
  have "settlement_core (?f q) = settlement_core r" using q(2) by (simp add: settlement_core_def finalize_row_def)
  moreover have "sr_terminal_outcome r \<noteq> None \<longrightarrow> ?f q = r" using q(3) by (auto simp: finalize_row_def)
  ultimately have "kept r (db\<lparr>settlement_rows := map ?f (settlement_rows db)\<rparr>)"
    using q(1) by (auto simp: kept_def)
  then show ?thesis
    using k rows_finalize [OF wf, of cap now s oc] unfolding kept_def by auto
qed

lemma ledger_exec_kept:
  assumes wf: "wf_ledger db" and k: "kept r db"
  shows "kept r (ledger_exec (cap, op) db)"
proof (cases op)
  case (OpFinalize now s oc)
  then show ?thesis using kept_finalize [OF wf k] by simp
next
  case (OpSettle clock s a src trg)
  then show ?thesis using kept_mono [OF k] settlement_rows_settle [OF wf] by simp
next
  case (OpAcquire ttl t0 t1 uuid)
  have "set (settlement_rows db) \<subseteq> set (settlement_rows (ledger_exec (cap, op) db))"
    using wf OpAcquire by (simp add: acquire_slot_def Let_def sx_raise_def)
  then show ?thesis by (rule kept_mono [OF k])
qed (rule kept_mono [OF k], use wf in \<open>simp add: active_lease_count_def heartbeat_def release_def snapshot_def
       charge_provider_usage_def settlement_rows_consume sx_bind_def sx_return_def Let_def\<close>)+

lemma ledger_run_kept:
  "wf_ledger db \<Longrightarrow> kept r db \<Longrightarrow> kept r (ledger_run ops db)"
  unfolding ledger_run_def
  by (rule ledger_wf.run_stable) (auto intro: ledger_exec_kept)

lemma settlement_rows_v2: "wf_ledger db \<Longrightarrow> settlement_rows db \<noteq> [] \<Longrightarrow> create_tables db = db"
  by (auto simp: wf_ledger_def create_tables_def)

lemma settle_ok_row:
  assumes wf: "wf_ledger db"
    and ok: "settle_provider_usage_once cap clock s a src trg db = (Inr over, db')"
  shows "\<exists>r \<in> set (settlement_rows db'). settlement_key r = (budget_id cap, s) \<and> row_amounts r = a
     \<and> sr_usage_source r = src \<and> sr_charge_trigger r = Some trg \<and> sr_over_limit r = over"
    and "validate_settlement_id s = Inr ()" "src \<in> set usage_sources" "trg \<in> set charge_triggers"
    "check_settle_amounts (amounts_of a) = Inr ()"
proof -
  show valid: "validate_settlement_id s = Inr ()" "src \<in> set usage_sources" "trg \<in> set charge_triggers"
    "check_settle_amounts (amounts_of a) = Inr ()"
    using ok by (auto simp: settle_provider_usage_once_def sx_raise_def split: sum.splits if_splits)
  have tx: "settle_tx cap clock s a src trg (create_tables db) = (Inr over, db')"
    using ok wf valid by (simp add: settle_provider_usage_once_def)
  show "\<exists>r \<in> set (settlement_rows db'). settlement_key r = (budget_id cap, s) \<and> row_amounts r = a
     \<and> sr_usage_source r = src \<and> sr_charge_trigger r = Some trg \<and> sr_over_limit r = over"
  proof (cases "find_settlement (budget_id cap) s (create_tables db)")
    case None
    then have "new_settlement (budget_id cap) s a src trg over (clock 0) \<in> set (settlement_rows db')"
      using tx by (auto simp: settle_tx_def Let_def)
    then show ?thesis by (rule rev_bexI) (simp add: settlement_key_def row_amounts_def new_settlement_def)
  next
    case (Some r)
    moreover from this have "db' = create_tables db" using tx by (auto simp: settle_tx_def split: if_splits)
    ultimately have "r \<in> set (settlement_rows db')" "settlement_key r = (budget_id cap, s)"
      using find_settlement_Some [of "create_tables db"] wf by auto
    then show ?thesis using tx Some by (auto simp: settle_tx_def split: if_splits)
  qed
qed

lemma finalize_ok_row:
  assumes wf: "wf_ledger db" and ok: "finalize_provider_settlement_once cap now s oc db = (Inr u, db')"
  shows "\<exists>r \<in> set (settlement_rows db'). settlement_key r = (budget_id cap, s) \<and> sr_terminal_outcome r = Some oc
     \<and> \<not> (expected_trigger oc \<noteq> None \<and> sr_charge_trigger r \<noteq> expected_trigger oc)"
    and "validate_settlement_id s = Inr ()"
proof -
  show valid: "validate_settlement_id s = Inr ()"
    using ok by (auto simp: finalize_provider_settlement_once_def sx_raise_def split: sum.splits)
  have tx: "finalize_tx cap now s oc (create_tables db) = (Inr u, db')"
    using ok wf valid by (auto simp: finalize_provider_settlement_once_def sx_raise_def split: if_splits)
  then obtain r where r: "find_settlement (budget_id cap) s (create_tables db) = Some r"
    by (auto simp: finalize_tx_def split: option.splits)
  then have mem: "r \<in> set (settlement_rows (create_tables db))" "settlement_key r = (budget_id cap, s)"
    using find_settlement_Some [of "create_tables db"] wf by auto
  show "\<exists>r \<in> set (settlement_rows db'). settlement_key r = (budget_id cap, s) \<and> sr_terminal_outcome r = Some oc
     \<and> \<not> (expected_trigger oc \<noteq> None \<and> sr_charge_trigger r \<noteq> expected_trigger oc)"
  proof (cases "sr_terminal_outcome r")
    case None
    let ?q = "finalize_row (budget_id cap) s oc now r"
    have "?q \<in> set (settlement_rows db')"
      using tx r None mem(1) by (auto simp: finalize_tx_def split: if_splits)
    moreover have "settlement_key ?q = (budget_id cap, s)" "sr_terminal_outcome ?q = Some oc" "sr_charge_trigger ?q = sr_charge_trigger r"
      using mem(2) None by (simp_all add: finalize_row_def settlement_key_def)
    moreover have "\<not> (expected_trigger oc \<noteq> None \<and> sr_charge_trigger r \<noteq> expected_trigger oc)"
      using tx r by (auto simp: finalize_tx_def split: if_splits)
    ultimately show ?thesis by auto
  next
    case (Some t)
    then show ?thesis using tx r mem by (auto simp: finalize_tx_def split: if_splits)
  qed
qed

lemma kept_find:
  assumes wf: "wf_ledger db" and k: "kept r db" and key: "settlement_key r = (b, s)"
  obtains q where "find_settlement b s db = Some q" "settlement_core q = settlement_core r"
    "sr_terminal_outcome r \<noteq> None \<longrightarrow> q = r" "create_tables db = db"
proof -
  obtain q where q: "q \<in> set (settlement_rows db)" "settlement_core q = settlement_core r"
    "sr_terminal_outcome r \<noteq> None \<longrightarrow> q = r" using k by (auto simp: kept_def)
  have keys: "settlement_key (settlement_core x) = settlement_key x" for x
    by (simp add: settlement_core_def settlement_key_def)
  have "settlement_key q = (b, s)" using q(2) key keys [of q] keys [of r] by simp
  then have "find_settlement b s db = Some q" using find_settlement_Some [OF wf] q(1) by simp
  moreover have "create_tables db = db" using settlement_rows_v2 [OF wf] q(1) by fastforce
  ultimately show ?thesis using that q by blast
qed

lemma core_fields:
  assumes "settlement_core q = settlement_core r"
  shows "row_amounts q = row_amounts r" "sr_usage_source q = sr_usage_source r"
    "sr_charge_trigger q = sr_charge_trigger r" "sr_over_limit q = sr_over_limit r"
proof -
  have keep: "row_amounts (settlement_core x) = row_amounts x" "sr_usage_source (settlement_core x) = sr_usage_source x"
    "sr_charge_trigger (settlement_core x) = sr_charge_trigger x" "sr_over_limit (settlement_core x) = sr_over_limit x" for x
    by (simp_all add: settlement_core_def row_amounts_def)
  show "row_amounts q = row_amounts r" "sr_usage_source q = sr_usage_source r"
    "sr_charge_trigger q = sr_charge_trigger r" "sr_over_limit q = sr_over_limit r"
    using keep [of q] keep [of r] assms by simp_all
qed

subsection \<open>Migration of the settlement table\<close>

lemma migrate_row_frame [simp]:
  "settlement_key (migrate_row cols r) = settlement_key r"
  "row_amounts (migrate_row cols r) = row_amounts r"
  "sr_over_limit (migrate_row cols r) = sr_over_limit r"
  by (simp_all add: migrate_row_def settlement_key_def row_amounts_def)

lemma add_missing_column_frame:
  assumes "\<And>r. settlement_key (f r) = settlement_key r \<and> row_amounts (f r) = row_amounts r \<and> sr_over_limit (f r) = sr_over_limit r"
  shows "map settlement_key (settlement_rows (add_missing_column col f db)) = map settlement_key (settlement_rows db)"
    "map row_amounts (settlement_rows (add_missing_column col f db)) = map row_amounts (settlement_rows db)"
    "map sr_over_limit (settlement_rows (add_missing_column col f db)) = map sr_over_limit (settlement_rows db)"
    "set (settle_columns (add_missing_column col f db)) = insert col (set (settle_columns db))"
  using assms by (auto simp: add_missing_column_def)

lemma clear_frames:
  "settlement_key (r\<lparr>sr_terminal_outcome := v\<rparr>) = settlement_key r \<and> row_amounts (r\<lparr>sr_terminal_outcome := v\<rparr>) = row_amounts r
     \<and> sr_over_limit (r\<lparr>sr_terminal_outcome := v\<rparr>) = sr_over_limit r"
  "settlement_key (r\<lparr>sr_finalized_at := w\<rparr>) = settlement_key r \<and> row_amounts (r\<lparr>sr_finalized_at := w\<rparr>) = row_amounts r
     \<and> sr_over_limit (r\<lparr>sr_finalized_at := w\<rparr>) = sr_over_limit r"
  by (simp_all add: settlement_key_def row_amounts_def)

definition same_charges :: "ledger_db \<Rightarrow> ledger_db \<Rightarrow> bool" where
  "same_charges db db' \<longleftrightarrow>
     map settlement_key (settlement_rows db') = map settlement_key (settlement_rows db)
     \<and> map row_amounts (settlement_rows db') = map row_amounts (settlement_rows db)
     \<and> map sr_over_limit (settlement_rows db') = map sr_over_limit (settlement_rows db)
     \<and> budget_rows db' = budget_rows db \<and> lease_rows db' = lease_rows db"

lemma same_charges_trans: "same_charges a b \<Longrightarrow> same_charges b c \<Longrightarrow> same_charges a c"
  by (simp add: same_charges_def)

lemma same_charges_add_missing:
  assumes "\<And>r. settlement_key (f r) = settlement_key r \<and> row_amounts (f r) = row_amounts r \<and> sr_over_limit (f r) = sr_over_limit r"
  shows "same_charges db (add_missing_column col f db)"
  unfolding same_charges_def using add_missing_column_frame [OF assms] by (simp add: add_missing_column_def)

lemma same_charges_rebuild:
  "rebuild_settlements db = Inr db' \<Longrightarrow> same_charges db db' \<and> settle_columns db' = v2_columns"
  by (auto simp: rebuild_settlements_def same_charges_def Let_def split: if_splits)

text \<open>What a row of the old layout becomes: the outcome is split into the trigger of the charge and the terminal outcome.\<close>

definition two_phase_row :: "settlement_row \<Rightarrow> settlement_row \<Rightarrow> bool" where
  "two_phase_row r r' \<longleftrightarrow>
     (sr_outcome r = Some ''provider_response'' \<and> sr_charge_trigger r' = Some ''provider_response''
        \<and> sr_terminal_outcome r' = None \<and> sr_finalized_at r' = None)
     \<or> (sr_finalized_at r' = Some (sr_created_at r) \<and> sr_terminal_outcome r' = sr_outcome r
        \<and> (sr_outcome r, sr_charge_trigger r') \<in>
          {(Some ''success'', Some ''provider_response''), (Some ''schema_reject'', Some ''provider_response''),
           (Some ''actual_overage'', Some ''provider_response''), (Some ''provider_error'', Some ''provider_error''),
           (Some ''invalid_usage'', Some ''invalid_usage'')})"

text \<open>A value the table already held in a column of the new layout stays.\<close>

definition kept_row :: "string list \<Rightarrow> settlement_row \<Rightarrow> settlement_row \<Rightarrow> bool" where
  "kept_row cols r r' \<longleftrightarrow>
     sr_usage_source r' = sr_usage_source r \<and> sr_created_at r' = sr_created_at r
     \<and> (''charge_trigger'' \<in> set cols \<and> sr_charge_trigger r \<noteq> None \<longrightarrow> sr_charge_trigger r' = sr_charge_trigger r)
     \<and> (''terminal_outcome'' \<in> set cols \<and> sr_terminal_outcome r \<noteq> None \<longrightarrow> sr_terminal_outcome r' = sr_terminal_outcome r)
     \<and> (''finalized_at'' \<in> set cols \<and> sr_finalized_at r \<noteq> None \<longrightarrow> sr_finalized_at r' = sr_finalized_at r)"

definition old_layout :: "string list \<Rightarrow> bool" where
  "old_layout cols \<longleftrightarrow> ''outcome'' \<in> set cols \<and> ''charge_trigger'' \<notin> set cols \<and> ''terminal_outcome'' \<notin> set cols
     \<and> ''finalized_at'' \<notin> set cols"

lemma migrate_row_kept: "kept_row cols r (migrate_row cols r)"
  by (auto simp: kept_row_def migrate_row_def coalesce_def)

lemma migrate_row_two_phase:
  assumes "old_layout cols" "\<not> invalid_trigger (migrate_row cols r)"
  shows "two_phase_row r (migrate_row cols r)"
  using assms
  by (auto simp: old_layout_def two_phase_row_def migrate_row_def coalesce_def invalid_trigger_def legacy_trigger_def legacy_terminal_def
      legacy_finalized_def terminal_outcomes_def charge_triggers_def split: option.splits if_splits)

lemma migrate_legacy_rows:
  assumes "migrate_provider_settlements db = Inr db'" "''outcome'' \<in> set (settle_columns db)"
  shows "settlement_rows db' = map (migrate_row (settle_columns db)) (settlement_rows db)"
    and "set carried_columns \<subseteq> set (settle_columns db)" and "settle_columns db' = v2_columns"
  using assms
  by (auto simp: migrate_provider_settlements_def rebuild_settlements_def add_missing_column_def bind_res_Inr_iff Let_def split: if_splits)

lemma migrate_new_rows:
  assumes "migrate_provider_settlements db = Inr db'" "''outcome'' \<notin> set (settle_columns db)"
  shows "list_all2 (kept_row (settle_columns db)) (settlement_rows db) (settlement_rows db')"
  using assms
  by (auto simp: migrate_provider_settlements_def add_missing_column_def bind_res_Inr_iff Let_def list_all2_conv_all_nth kept_row_def split: if_splits)

lemma migrate_Inr:
  assumes "migrate_provider_settlements db = Inr db'"
  obtains db1 where "same_charges db db1" "''outcome'' \<notin> set (settle_columns db1)" "''charge_trigger'' \<in> set (settle_columns db1)"
    "db' = add_missing_column ''finalized_at'' (\<lambda>r. r\<lparr>sr_finalized_at := None\<rparr>)
            (add_missing_column ''terminal_outcome'' (\<lambda>r. r\<lparr>sr_terminal_outcome := None\<rparr>) db1)"
    "\<forall>r \<in> set (settlement_rows db'). \<not> invalid_trigger r \<and> \<not> invalid_terminal r"
proof -
  from assms obtain db1 where step: "(if ''outcome'' \<in> set (settle_columns db) then rebuild_settlements db
        else if ''charge_trigger'' \<notin> set (settle_columns db)
        then Inl (LRuntimeError ''provider settlement charge trigger missing'') else Inr db) = Inr db1"
    and rest: "db' = add_missing_column ''finalized_at'' (\<lambda>r. r\<lparr>sr_finalized_at := None\<rparr>)
            (add_missing_column ''terminal_outcome'' (\<lambda>r. r\<lparr>sr_terminal_outcome := None\<rparr>) db1)"
    "\<forall>r \<in> set (settlement_rows db'). \<not> invalid_trigger r \<and> \<not> invalid_terminal r"
    unfolding migrate_provider_settlements_def bind_res_Inr_iff Let_def by (auto split: if_splits)
  have "same_charges db db1 \<and> ''outcome'' \<notin> set (settle_columns db1) \<and> ''charge_trigger'' \<in> set (settle_columns db1)"
    using step by (auto simp: same_charges_def dest: same_charges_rebuild split: if_splits)
  then show ?thesis using that rest by blast
qed

lemma migrate_ok:
  assumes "migrate_provider_settlements db = Inr db'"
  shows "same_charges db db'"
    and "\<forall>r \<in> set (settlement_rows db'). \<not> invalid_trigger r \<and> \<not> invalid_terminal r"
    and "migrate_provider_settlements db' = Inr db'"
proof -
  from assms obtain db1 where db1: "same_charges db db1" "''outcome'' \<notin> set (settle_columns db1)" "''charge_trigger'' \<in> set (settle_columns db1)"
    and db': "db' = add_missing_column ''finalized_at'' (\<lambda>r. r\<lparr>sr_finalized_at := None\<rparr>)
            (add_missing_column ''terminal_outcome'' (\<lambda>r. r\<lparr>sr_terminal_outcome := None\<rparr>) db1)"
    and valid: "\<forall>r \<in> set (settlement_rows db'). \<not> invalid_trigger r \<and> \<not> invalid_terminal r"
    by (rule migrate_Inr)
  show "\<forall>r \<in> set (settlement_rows db'). \<not> invalid_trigger r \<and> \<not> invalid_terminal r" by (rule valid)
  show "same_charges db db'"
    unfolding db' using db1(1)
    by (rule same_charges_trans [OF same_charges_trans [OF _ same_charges_add_missing] same_charges_add_missing])
       (rule clear_frames)+
  have cols: "set (settle_columns db') = insert ''finalized_at'' (insert ''terminal_outcome'' (set (settle_columns db1)))"
    unfolding db' by (simp add: add_missing_column_frame clear_frames)
  then have "add_missing_column ''terminal_outcome'' f db' = db'" "add_missing_column ''finalized_at'' g db' = db'" for f g
    by (simp_all add: add_missing_column_present)
  then show "migrate_provider_settlements db' = Inr db'"
    using cols db1 valid by (auto simp: migrate_provider_settlements_def Let_def)
qed

definition live_leases :: "string \<Rightarrow> int \<Rightarrow> ledger_db \<Rightarrow> int" where
  "live_leases b now db = int (length (filter (\<lambda>l. active_lease b l \<and> now \<le> lr_expires_at l) (lease_rows db)))"

lemma active_count_recover:
  "active_count b (recover_expired cap now (create_tables db))
     = (if b = budget_id cap then live_leases b now db else active_count b db)"
proof -
  have rec: "filter (active_lease b) (map (\<lambda>l. if active_lease b l \<and> lr_expires_at l < now then l\<lparr>lr_released_at := Some now\<rparr> else l) ls)
      = filter (\<lambda>l. active_lease b l \<and> now \<le> lr_expires_at l) ls" for ls
    by (induction ls) (auto simp: active_lease_def)
  have other: "filter (active_lease b) (map (\<lambda>l. if active_lease k l \<and> lr_expires_at l < now then l\<lparr>lr_released_at := Some now\<rparr> else l) ls)
      = filter (active_lease b) ls" if "b \<noteq> k" for ls k
    using that by (induction ls) (auto simp: active_lease_def)
  show ?thesis
    using rec [of "lease_rows db"] other [of "budget_id cap" "lease_rows db"]
    by (cases "b = budget_id cap") (simp_all add: active_count_def live_leases_def recover_expired_def del: filter_map)
qed

lemma consume_loop_error: "consume_loop cap clock i as db = Inl e \<Longrightarrow> \<exists>k. e = BudgetExhaustedError k"
  by (induction cap clock i as db rule: consume_loop.induct) (auto split: option.splits if_splits)

lemma consume_room:
  assumes "wf_ledger db" "as \<noteq> []" "distinct (map fst as)" "\<forall>(k, d) \<in> set as. k \<in> set counters \<and> 0 \<le> d"
  shows "if has_room cap as db
    then \<exists>db'. consume cap clock as db = (Inr (), db')
         \<and> (\<forall>b c. used b c db' = used b c db + (if b = budget_id cap then amount_of as c else 0))
         \<and> lease_rows db' = lease_rows db \<and> settlement_rows db' = settlement_rows db
    else \<exists>k. consume cap clock as db = (Inl (BudgetExhaustedError k), create_tables db)"
proof -
  have chk: "check_amounts as = Inr ()" using assms(4) check_amounts_ok by blast
  have "''concurrent_experiments'' \<notin> set counters" by (simp add: counters_def)
  then have conc: "''concurrent_experiments'' \<notin> set (map fst as)" using assms(4) by auto
  have run: "consume cap clock as db = (case consume_loop cap clock 0 as (create_tables db) of
      Inl e \<Rightarrow> (Inl e, create_tables db) | Inr db1 \<Rightarrow> (Inr (), db1))"
    using assms(1,2) chk conc by (simp add: consume_def)
  show ?thesis
  proof (cases "has_room cap as db")
    case True
    then obtain db' where loop: "consume_loop cap clock 0 as (create_tables db) = Inr db'"
      using consume_loop_ok [OF assms(3), of cap "create_tables db"] by auto
    then have "consume cap clock as db = (Inr (), db')" using run by simp
    moreover have "lease_rows db' = lease_rows db" "settlement_rows db' = settlement_rows db"
      "used b c db' = used b c db + (if b = budget_id cap then amount_of as c else 0)" for b c
      using consume_loop_frame [OF loop] used_consume_loop [OF loop] assms(1) by simp_all
    ultimately show ?thesis using True by auto
  next
    case False
    then obtain k d l where kd: "(k, d) \<in> set as" "d \<noteq> 0" "limit_for (limits cap) k = Some l" "\<not> used (budget_id cap) k db + d \<le> l"
      by (auto simp: has_room_def split: option.splits)
    have "\<not> is_ok (consume_loop cap clock 0 as (create_tables db))"
      using consume_loop_limit [of cap clock 0 as "create_tables db" _ k l] kd assms(4) amount_of_member [OF assms(3) kd(1)]
      by (fastforce simp: is_ok_iff)
    then show ?thesis using run False by (auto split: sum.splits dest: consume_loop_error)
  qed
qed

subsection \<open>Properties of the ledger\<close>

text \<open>C4: Over any interleaving of operations of any capabilities on one ledger file, the number of
  unreleased leases of a budget never exceeds the parallelism limit its capabilities carry.\<close>

theorem ledger_lease_bound:
  assumes "wf_ledger db" "active_count b db \<le> m"
    "\<forall>(cap, op) \<in> set ops. budget_id cap = b \<longrightarrow> max_parallel_experiments (limits cap) \<le> m"
  shows "active_count b (ledger_run ops db) \<le> m"
  unfolding ledger_run_def using ledger_lease.run_inv [of ops b m db] assms by auto

theorem ledger_lease_bound_witness:
  "let cap = \<lparr>budget_id = ''b'', limits = default_offline_budget\<rparr> in
   active_count ''b'' (ledger_run [(cap, OpAcquire None 0 0 ''x''), (cap, OpAcquire None 1 1 ''y''), (cap, OpAcquire None 2 2 ''z'')] empty_ledger) \<le> 2"
proof -
  have "active_count ''b'' empty_ledger \<le> 2" "max_parallel_experiments default_offline_budget = 2"
    by (simp_all add: active_count_def empty_ledger_def default_offline_budget_def)
  then show ?thesis
    unfolding Let_def by (intro ledger_lease_bound) auto
qed

text \<open>\<open>acquire_slot\<close> decides on the leases that are neither released nor expired: at the limit
  it raises and changes nothing, below it it inserts exactly one lease that lasts the requested time.\<close>

theorem acquire_slot_decides:
  assumes "wf_ledger db" "30 \<le> ttl" "ttl \<le> 86400" "uuid \<notin> lr_lease_id ` set (lease_rows db)"
  shows "if max_parallel_experiments (limits cap) \<le> live_leases (budget_id cap) now db
    then acquire_slot cap (Some ttl) now t uuid db = (Inl (BudgetExhaustedError ''concurrent_experiments''), create_tables db)
    else \<exists>ls db'. acquire_slot cap (Some ttl) now t uuid db = (Inr ls, db') \<and> lease_id ls = uuid
       \<and> expires_at ls = t + ttl * 1000000 \<and> active_count (budget_id cap) db' = live_leases (budget_id cap) now db + 1 \<and> wf_ledger db'"
proof (cases "max_parallel_experiments (limits cap) \<le> live_leases (budget_id cap) now db")
  case True
  then show ?thesis
    using assms by (simp add: acquire_slot_def Let_def active_count_recover)
next
  case False
  let ?r = "acquire_slot cap (Some ttl) now t uuid db"
  have "uuid \<notin> set (map lr_lease_id (lease_rows (recover_expired cap now (create_tables db))))"
    using assms(4) by (simp only: recover_expired_simps) simp
  moreover have cnt: "active_count (budget_id cap) (recover_expired cap now (create_tables db)) = live_leases (budget_id cap) now db"
    by (simp add: active_count_recover)
  ultimately have r: "?r = (Inr \<lparr>lease_id = uuid, lease_budget_id = budget_id cap, acquired_at = t,
           expires_at = t + ttl * 1000000, last_heartbeat_at = t\<rparr>, snd ?r)
       \<and> lease_rows (snd ?r) = lease_rows (recover_expired cap now (create_tables db)) @
           [\<lparr>lr_lease_id = uuid, lr_budget_id = budget_id cap, lr_acquired_at = t,
             lr_expires_at = t + ttl * 1000000, lr_last_heartbeat_at = t, lr_released_at = None\<rparr>]"
    using assms(1-3) False by (simp add: acquire_slot_def Let_def)
  then have "active_count (budget_id cap) (snd ?r) = live_leases (budget_id cap) now db + 1"
    using cnt by (simp add: active_count_def active_lease_def)
  moreover have "wf_ledger (snd ?r)"
    using ledger_exec_wf [OF assms(1), of cap "OpAcquire (Some ttl) now t uuid"] by simp
  ultimately show ?thesis using False r by (metis lease.select_convs(1) lease.select_convs(4))
qed

theorem acquire_slot_decides_witness:
  "\<exists>ls db'. acquire_slot \<lparr>budget_id = ''b'', limits = default_offline_budget\<rparr> (Some 60) 0 0 ''u'' empty_ledger = (Inr ls, db')
     \<and> expires_at ls = 60000000 \<and> active_count ''b'' db' = 1"
proof -
  have "live_leases ''b'' 0 empty_ledger = 0" "max_parallel_experiments default_offline_budget = 2" "lease_rows empty_ledger = []"
    by (simp_all add: live_leases_def empty_ledger_def default_offline_budget_def)
  then show ?thesis
    using acquire_slot_decides [of empty_ledger 60 "''u''" "\<lparr>budget_id = ''b'', limits = default_offline_budget\<rparr>" 0 0]
    by auto
qed

text \<open>C5: \<open>consume\<close> is all or nothing. It succeeds exactly when every non-zero amount fits under its
  counter's limit, and then adds exactly the amounts to the counters of its own budget; otherwise
  it raises and leaves the counters, leases and settlements as they were.\<close>

theorem consume_all_or_nothing:
  assumes "wf_ledger db" "as \<noteq> []" "distinct (map fst as)" "\<forall>(k, d) \<in> set as. k \<in> set counters \<and> 0 \<le> d"
  shows "if has_room cap as db
    then \<exists>db'. consume cap clock as db = (Inr (), db')
         \<and> (\<forall>b c. used b c db' = used b c db + (if b = budget_id cap then amount_of as c else 0))
         \<and> lease_rows db' = lease_rows db \<and> settlement_rows db' = settlement_rows db
    else \<exists>k. consume cap clock as db = (Inl (BudgetExhaustedError k), create_tables db)"
  using assms by (rule consume_room)

theorem consume_all_or_nothing_witness:
  "\<exists>db'. consume \<lparr>budget_id = ''b'', limits = default_offline_budget\<rparr> (\<lambda>_. 0) [(''model_calls'', 16), (''generations'', 0)] empty_ledger = (Inr (), db')
     \<and> used ''b'' ''model_calls'' db' = 16"
proof -
  let ?cap = "\<lparr>budget_id = ''b'', limits = default_offline_budget\<rparr>"
  let ?as = "[(''model_calls'', 16), (''generations'', 0)]"
  have "has_room ?cap ?as empty_ledger" by (simp add: has_room_def limit_for_def default_offline_budget_def)
  moreover have "\<forall>(k, d) \<in> set ?as. k \<in> set counters \<and> (0 :: int) \<le> d" by (simp add: counters_def)
  ultimately show ?thesis
    using consume_all_or_nothing [of empty_ledger ?as ?cap "\<lambda>_. 0"] by auto
qed

text \<open>C3: Accounting. Along every interleaving of operations the usage of a counter is at least what
  the provider settlements charged and at most that plus the limit: only settlements, which record
  usage that already happened, can push a counter past its limit.\<close>

theorem ledger_accounting:
  assumes "accounted b c l db"
    "\<forall>(cap, op) \<in> set ops. budget_id cap = b \<longrightarrow> (\<exists>m. limit_for (limits cap) c = Some m \<and> m \<le> l)"
  shows "settled_total b c (ledger_run ops db) \<le> used b c (ledger_run ops db)
    \<and> used b c (ledger_run ops db) \<le> settled_total b c (ledger_run ops db) + max 0 l"
  using ledger_acc.run_inv [of ops b c l db] assms
  unfolding ledger_run_def accounted_def by auto

theorem ledger_accounting_witness:
  "let cap = \<lparr>budget_id = ''b'', limits = default_offline_budget\<rparr>;
       db = ledger_run [(cap, OpConsume (\<lambda>_. 0) [(''model_calls'', 16)]),
              (cap, OpSettle (\<lambda>_. 0) ''s'' \<lparr>pa_input_tokens = 1, pa_output_tokens = 1, pa_cached_tokens = 0,
                pa_model_calls = 3, pa_estimated_cost_micros = 0\<rparr> ''measured'' ''provider_response'')] empty_ledger
   in used ''b'' ''model_calls'' db \<le> settled_total ''b'' ''model_calls'' db + 16"
proof -
  have "accounted ''b'' ''model_calls'' 16 empty_ledger"
    by (simp add: accounted_def) (simp add: settled_total_def used_def empty_ledger_def)
  moreover have "limit_for default_offline_budget ''model_calls'' = Some 16"
    by (simp add: limit_for_def default_offline_budget_def)
  ultimately show ?thesis
    unfolding Let_def
    by (intro conjunct2 [OF ledger_accounting [of _ _ 16, simplified]]) auto
qed

text \<open>A counter at or above its limit (after an overage settlement, say) stays closed: after any
  further operations of any capability, a \<open>consume\<close> of a positive amount of it raises and changes nothing.\<close>

theorem exhausted_counter_stays_closed:
  assumes "wf_ledger db" "limit_for (limits cap) c = Some l" "l \<le> used (budget_id cap) c db"
    "distinct (map fst as)" "\<forall>(k, d) \<in> set as. k \<in> set counters \<and> 0 \<le> d" "(c, d) \<in> set as" "0 < d"
  shows "\<exists>k. consume cap clock as (ledger_run ops db)
     = (Inl (BudgetExhaustedError k), create_tables (ledger_run ops db))"
proof -
  let ?db = "ledger_run ops db"
  have wf: "wf_ledger ?db" using assms(1) by simp
  have "l \<le> used (budget_id cap) c ?db" using used_ledger_run_mono [OF assms(1)] assms(3) order_trans by blast
  then have "\<not> has_room cap as ?db" using assms(2,6,7) by (force simp: has_room_def)
  moreover have "as \<noteq> []" using assms(6) by auto
  ultimately show ?thesis using consume_room [OF wf _ assms(4,5), of cap clock] by simp
qed

theorem exhausted_counter_stays_closed_witness:
  "let cap = \<lparr>budget_id = ''b'', limits = default_offline_budget\<rparr>;
       db = ledger_run [(cap, OpSettle (\<lambda>_. 0) ''s'' \<lparr>pa_input_tokens = 1, pa_output_tokens = 1, pa_cached_tokens = 0,
                pa_model_calls = 17, pa_estimated_cost_micros = 0\<rparr> ''measured'' ''provider_response'')] empty_ledger;
       db' = ledger_run [(cap, OpFinalize 5 ''s'' ''actual_overage'')] db
   in \<exists>k. consume cap (\<lambda>_. 9) [(''model_calls'', 1)] db' = (Inl (BudgetExhaustedError k), create_tables db')"
proof -
  let ?cap = "\<lparr>budget_id = ''b'', limits = default_offline_budget\<rparr>"
  let ?db = "ledger_run [(?cap, OpSettle (\<lambda>_. 0) ''s'' \<lparr>pa_input_tokens = 1, pa_output_tokens = 1, pa_cached_tokens = 0,
                pa_model_calls = 17, pa_estimated_cost_micros = 0\<rparr> ''measured'' ''provider_response'')] empty_ledger"
  have "limit_for (limits ?cap) ''model_calls'' = Some 16"
    by (simp add: limit_for_def default_offline_budget_def)
  moreover have "used (budget_id ?cap) ''model_calls'' ?db = 17" by code_simp
  ultimately show ?thesis
    unfolding Let_def
    by (intro exhausted_counter_stays_closed [where d = 1 and c = "''model_calls''" and l = 16]) (auto simp: counters_def)
qed

text \<open>C2: Exactly-once settlement. Once a settlement is charged, then after any further operations of
  any capability a retry with the same amounts, source and trigger returns the stored answer and
  changes nothing, and a valid call with different ones raises and changes nothing.\<close>

theorem settle_exactly_once:
  assumes "wf_ledger db" "settle_provider_usage_once cap clock s a src trg db = (Inr over, db1)"
    "budget_id cap' = budget_id cap" "src' \<in> set usage_sources" "trg' \<in> set charge_triggers"
    "\<forall>(k, d) \<in> set (amounts_of a'). 0 \<le> d"
  shows "settle_provider_usage_once cap' clock' s a' src' trg' (ledger_run ops db1)
    = (if (a', src', trg') = (a, src, trg) then Inr over
       else Inl (LValueError ''provider settlement idempotency conflict''), ledger_run ops db1)"
proof -
  let ?db = "ledger_run ops db1"
  have wf1: "wf_ledger db1"
    using ledger_exec_wf [OF assms(1), of cap "OpSettle clock s a src trg"] assms(2) by simp
  then have wf: "wf_ledger ?db" by simp
  obtain r where r: "r \<in> set (settlement_rows db1)" "settlement_key r = (budget_id cap, s)" "row_amounts r = a"
      "sr_usage_source r = src" "sr_charge_trigger r = Some trg" "sr_over_limit r = over"
    using settle_ok_row(1) [OF assms(1,2)] by blast
  have "kept r db1" using r(1) by (auto simp: kept_def)
  then have "kept r ?db" using ledger_run_kept [OF wf1] by simp
  then obtain q where q: "find_settlement (budget_id cap) s ?db = Some q" "settlement_core q = settlement_core r"
      "create_tables ?db = ?db"
    using kept_find [OF wf _ r(2)] by metis
  note f = core_fields [OF q(2)] r(3-6)
  have chk: "check_settle_amounts (amounts_of a') = Inr ()" using assms(6) check_settle_amounts_ok by blast
  show ?thesis
    using wf settle_ok_row(2) [OF assms(1,2)] assms(3-5) chk q f
    by (simp add: settle_provider_usage_once_def settle_tx_def)
qed

theorem settle_exactly_once_witness:
  "let cap = \<lparr>budget_id = ''b'', limits = default_offline_budget\<rparr>;
       a = \<lparr>pa_input_tokens = 7, pa_output_tokens = 2, pa_cached_tokens = 0, pa_model_calls = 1, pa_estimated_cost_micros = 0\<rparr>;
       db1 = snd (settle_provider_usage_once cap (\<lambda>_. 0) ''s'' a ''measured'' ''provider_response'' empty_ledger);
       db2 = ledger_run [(cap, OpFinalize 5 ''s'' ''success'')] db1
   in settle_provider_usage_once cap (\<lambda>_. 9) ''s'' a ''measured'' ''provider_response'' db2 = (Inr False, db2)"
proof -
  let ?cap = "\<lparr>budget_id = ''b'', limits = default_offline_budget\<rparr>"
  let ?a = "\<lparr>pa_input_tokens = 7, pa_output_tokens = 2, pa_cached_tokens = 0, pa_model_calls = 1, pa_estimated_cost_micros = 0\<rparr>"
  let ?r = "settle_provider_usage_once ?cap (\<lambda>_. 0) ''s'' ?a ''measured'' ''provider_response'' empty_ledger"
  have "fst ?r = Inr False" by code_simp
  then have "?r = (Inr False, snd ?r)" by (simp add: prod_eq_iff)
  from settle_exactly_once [OF wf_empty_ledger this, of ?cap "''measured''" "''provider_response''" ?a]
  show ?thesis by (simp add: Let_def usage_sources_def charge_triggers_def amounts_of_def)
qed

text \<open>C6: The first successful finalization decides. After it, and after any further operations, a
  finalization with the same outcome succeeds, every other valid outcome is rejected, and neither
  changes the ledger.\<close>

theorem finalize_first_writer_wins:
  assumes "wf_ledger db" "finalize_provider_settlement_once cap now s oc db = (Inr u, db1)"
    "budget_id cap' = budget_id cap" "oc' \<in> set terminal_outcomes"
  shows "\<exists>e. finalize_provider_settlement_once cap' now' s oc' (ledger_run ops db1)
    = (if oc' = oc then Inr () else Inl (LValueError e), ledger_run ops db1)"
proof -
  let ?db = "ledger_run ops db1"
  have wf1: "wf_ledger db1"
    using ledger_exec_wf [OF assms(1), of cap "OpFinalize now s oc"] assms(2) by simp
  then have wf: "wf_ledger ?db" by simp
  obtain r where r: "r \<in> set (settlement_rows db1)" "settlement_key r = (budget_id cap, s)" "sr_terminal_outcome r = Some oc"
     "\<not> (expected_trigger oc \<noteq> None \<and> sr_charge_trigger r \<noteq> expected_trigger oc)"
    using finalize_ok_row(1) [OF assms(1,2)] by blast
  have "kept r db1" using r(1) by (auto simp: kept_def)
  then have "kept r ?db" using ledger_run_kept [OF wf1] by simp
  then obtain q where q: "find_settlement (budget_id cap) s ?db = Some q" "sr_terminal_outcome r \<noteq> None \<longrightarrow> q = r"
      "create_tables ?db = ?db"
    using kept_find [OF wf _ r(2)] by metis
  then have "q = r" using r(3) by simp
  then show ?thesis
    using wf finalize_ok_row(2) [OF assms(1,2)] assms(3,4) q r
    by (auto simp: finalize_provider_settlement_once_def finalize_tx_def)
qed

theorem finalize_first_writer_wins_witness:
  "let cap = \<lparr>budget_id = ''b'', limits = default_offline_budget\<rparr>;
       a = \<lparr>pa_input_tokens = 7, pa_output_tokens = 2, pa_cached_tokens = 0, pa_model_calls = 1, pa_estimated_cost_micros = 0\<rparr>;
       db0 = snd (settle_provider_usage_once cap (\<lambda>_. 0) ''s'' a ''measured'' ''provider_response'' empty_ledger);
       db1 = snd (finalize_provider_settlement_once cap 3 ''s'' ''success'' db0)
   in \<exists>e. finalize_provider_settlement_once cap 4 ''s'' ''schema_reject'' (ledger_run [] db1) = (Inl (LValueError e), ledger_run [] db1)"
proof -
  let ?cap = "\<lparr>budget_id = ''b'', limits = default_offline_budget\<rparr>"
  let ?a = "\<lparr>pa_input_tokens = 7, pa_output_tokens = 2, pa_cached_tokens = 0, pa_model_calls = 1, pa_estimated_cost_micros = 0\<rparr>"
  let ?db0 = "snd (settle_provider_usage_once ?cap (\<lambda>_. 0) ''s'' ?a ''measured'' ''provider_response'' empty_ledger)"
  let ?r = "finalize_provider_settlement_once ?cap 3 ''s'' ''success'' ?db0"
  have wf: "wf_ledger ?db0"
    using ledger_exec_wf [OF wf_empty_ledger, of ?cap "OpSettle (\<lambda>_. 0) ''s'' ?a ''measured'' ''provider_response''"] by simp
  have "fst ?r = Inr ()" by code_simp
  then have "?r = (Inr (), snd ?r)" by (simp add: prod_eq_iff)
  from finalize_first_writer_wins [OF wf this, of ?cap "''schema_reject''" 4 "[]"]
  show ?thesis by (simp add: Let_def terminal_outcomes_def)
qed

text \<open>C7: Opening a ledger with a settlement table of an earlier layout loses no audit row: when the
  migration succeeds, keys, amounts, over-limit flags, counters and leases are those of before, every
  row passes the audit, migrating again changes nothing, and no value of a new column is overwritten. A table with the column
  \<open>outcome\<close> has every column the copy reads, gets the new layout, and if it had none of the new columns each row's outcome is
  split: \<open>provider_response\<close> stays open, \<open>success\<close>, \<open>schema_reject\<close> and \<open>actual_overage\<close> become terminal outcomes of a charged response,
  \<open>provider_error\<close> and \<open>invalid_usage\<close> are both trigger and outcome, and the row counts as finalized when it was created.\<close>

theorem migration_preserves_audit_rows:
  assumes "migrate_provider_settlements db = Inr db'"
  shows "same_charges db db' \<and> (\<forall>r \<in> set (settlement_rows db'). \<not> invalid_trigger r \<and> \<not> invalid_terminal r)
    \<and> migrate_provider_settlements db' = Inr db'
    \<and> list_all2 (kept_row (settle_columns db)) (settlement_rows db) (settlement_rows db')
    \<and> (''outcome'' \<in> set (settle_columns db) \<longrightarrow> set carried_columns \<subseteq> set (settle_columns db) \<and> settle_columns db' = v2_columns)
    \<and> (old_layout (settle_columns db) \<longrightarrow> list_all2 two_phase_row (settlement_rows db) (settlement_rows db'))"
proof (cases "''outcome'' \<in> set (settle_columns db)")
  case True
  note rows = migrate_legacy_rows [OF assms True]
  have "list_all2 (kept_row (settle_columns db)) (settlement_rows db) (settlement_rows db')"
    unfolding rows(1) by (simp add: list_all2_conv_all_nth migrate_row_kept)
  moreover have "list_all2 two_phase_row (settlement_rows db) (settlement_rows db')" if "old_layout (settle_columns db)"
    using migrate_row_two_phase [OF that] migrate_ok(2) [OF assms] unfolding rows(1) by (auto simp: list_all2_conv_all_nth)
  ultimately show ?thesis using migrate_ok [OF assms] rows by blast
next
  case False
  then show ?thesis using migrate_ok [OF assms] migrate_new_rows [OF assms] by (auto simp: old_layout_def)
qed

theorem migration_preserves_audit_rows_witness:
  "let row = new_settlement ''b'' ''s'' \<lparr>pa_input_tokens = 1, pa_output_tokens = 1, pa_cached_tokens = 0,
           pa_model_calls = 1, pa_estimated_cost_micros = 0\<rparr> ''measured'' ''x'' False 4;
       db = empty_ledger\<lparr>settle_columns := carried_columns @ [''outcome''],
        settlement_rows := [row\<lparr>sr_charge_trigger := None, sr_outcome := Some ''actual_overage''\<rparr>]\<rparr>
   in old_layout (settle_columns db)
      \<and> (\<exists>db'. migrate_provider_settlements db = Inr db' \<and> same_charges db db'
           \<and> list_all2 two_phase_row (settlement_rows db) (settlement_rows db'))"
proof -
  let ?row = "new_settlement ''b'' ''s'' \<lparr>pa_input_tokens = 1, pa_output_tokens = 1, pa_cached_tokens = 0,
           pa_model_calls = 1, pa_estimated_cost_micros = 0\<rparr> ''measured'' ''x'' False 4"
  let ?db = "empty_ledger\<lparr>settle_columns := carried_columns @ [''outcome''],
        settlement_rows := [?row\<lparr>sr_charge_trigger := None, sr_outcome := Some ''actual_overage''\<rparr>]\<rparr>"
  have old: "old_layout (settle_columns ?db)" by code_simp
  have "is_ok (migrate_provider_settlements ?db)" by code_simp
  then obtain db' where m: "migrate_provider_settlements ?db = Inr db'" by (auto simp: is_ok_iff)
  then have "same_charges ?db db' \<and> list_all2 two_phase_row (settlement_rows ?db) (settlement_rows db')"
    using migration_preserves_audit_rows [OF m] old by blast
  then show ?thesis using m old unfolding Let_def by blast
qed

end
