(* ===== verification/PyJson.thy ===== *)
theory PyJson
  imports Prelude
begin

section \<open>JSON values and \<open>json.loads\<close>\<close>

text \<open>
  JSON documents as the Python standard library's decoder reads them, with the two hooks this
  program passes to it: \<open>object_pairs_hook\<close> rejecting a repeated key and \<open>parse_constant\<close>
  rejecting \<open>NaN\<close> and the infinities. A fractional or exponent number keeps its literal text.
  Escapes of code points above 255 are outside the model and are refused.

  The parser takes fuel. A value recurses on a strictly shorter rest and an element list first on the
  same rest as a value, so two units per character and two more are enough;
  \<open>json_loads_no_fuel_error\<close> proves that the fuel error is never returned.
\<close>

datatype json =
    JNull
  | JBool bool
  | JInt int
  | JFloat string
  | JStr string
  | JArr "json list"
  | JObj "(string \<times> json) list"

datatype json_error = BadJson | DuplicateKey string | NonFinite string | OutOfFuel

definition json_ws :: "char \<Rightarrow> bool" where
  "json_ws c \<longleftrightarrow> of_char c \<in> {32, 9, 10, 13 :: nat}"

definition skip_ws :: "string \<Rightarrow> string" where
  "skip_ws s = dropWhile json_ws s"

definition quote :: char where "quote = char_of (34 :: nat)"

definition backslash :: char where "backslash = char_of (92 :: nat)"

definition simple_escape :: "char \<Rightarrow> char option" where
  "simple_escape c =
     (if c = quote then Some quote
      else if c = backslash then Some backslash
      else if c = CHR ''/'' then Some (CHR ''/'')
      else if c = CHR ''b'' then Some (char_of (8 :: nat))
      else if c = CHR ''f'' then Some (char_of (12 :: nat))
      else if c = CHR ''n'' then Some (char_of (10 :: nat))
      else if c = CHR ''r'' then Some (char_of (13 :: nat))
      else if c = CHR ''t'' then Some (char_of (9 :: nat))
      else None)"

definition hex_digit :: "char \<Rightarrow> nat option" where
  "hex_digit c = (let n = (of_char c :: nat) in
     if 48 \<le> n \<and> n \<le> 57 then Some (n - 48)
     else if 65 \<le> n \<and> n \<le> 70 then Some (n - 55)
     else if 97 \<le> n \<and> n \<le> 102 then Some (n - 87) else None)"

text \<open>The escape after a backslash: the character it stands for and the rest.\<close>

definition scan_unicode :: "string \<Rightarrow> (char \<times> string) option" where
  "scan_unicode s =
     (if length s < 4 then None
      else case (hex_digit (s ! 0), hex_digit (s ! 1), hex_digit (s ! 2), hex_digit (s ! 3)) of
        (Some a, Some b, Some m, Some n) \<Rightarrow> if a = 0 \<and> b = 0 then Some (char_of (16 * m + n), drop 4 s) else None
      | _ \<Rightarrow> None)"

definition scan_escape :: "string \<Rightarrow> (char \<times> string) option" where
  "scan_escape s =
     (case s of
        [] \<Rightarrow> None
      | e # t \<Rightarrow> if e = CHR ''u'' then scan_unicode t else map_option (\<lambda>d. (d, t)) (simple_escape e))"

lemma scan_escape_length: "scan_escape s = Some (d, t) \<Longrightarrow> length t < length s"
  by (auto simp: scan_escape_def scan_unicode_def split: list.splits if_splits option.splits)

function scan_string :: "string \<Rightarrow> (json_error, string \<times> string) result" where
  "scan_string [] = Inl BadJson"
| "scan_string (c # s) =
     (if c = quote then Inr ([], s)
      else if c = backslash then
        (case scan_escape s of
           None \<Rightarrow> Inl BadJson
         | Some (d, t) \<Rightarrow> bind_res (scan_string t) (\<lambda>(str, rest). Inr (d # str, rest)))
      else if (of_char c :: nat) < 32 then Inl BadJson
      else bind_res (scan_string s) (\<lambda>(str, rest). Inr (c # str, rest)))"
  by pat_completeness auto
termination
  by (relation "measure length") (auto dest: scan_escape_length)

definition span_digits :: "string \<Rightarrow> string \<times> string" where
  "span_digits s = (takeWhile (\<lambda>c. char_digit c \<noteq> None) s, dropWhile (\<lambda>c. char_digit c \<noteq> None) s)"

text \<open>The number pattern \<open>(-?(?:0|[1-9]\d*))(\.\d+)?([eE][-+]?\d+)?\<close> of the decoder.\<close>

definition scan_frac :: "string \<Rightarrow> string \<times> string" where
  "scan_frac s =
     (case s of
        c # t \<Rightarrow> if c = CHR ''.'' \<and> fst (span_digits t) \<noteq> [] then (c # fst (span_digits t), snd (span_digits t)) else ([], s)
      | [] \<Rightarrow> ([], s))"

definition scan_sign :: "string \<Rightarrow> string" where
  "scan_sign s = (case s of d # _ \<Rightarrow> if d = CHR ''-'' \<or> d = CHR ''+'' then [d] else [] | [] \<Rightarrow> [])"

definition scan_exp :: "string \<Rightarrow> string \<times> string" where
  "scan_exp s =
     (case s of
        c # t \<Rightarrow>
          let ds = span_digits (drop (length (scan_sign t)) t)
          in if (c = CHR ''e'' \<or> c = CHR ''E'') \<and> fst ds \<noteq> [] then (c # scan_sign t @ fst ds, snd ds) else ([], s)
      | [] \<Rightarrow> ([], s))"

definition scan_int :: "string \<Rightarrow> (string \<times> string) option" where
  "scan_int s =
     (case s of
        [] \<Rightarrow> None
      | c # t \<Rightarrow> if c = CHR ''0'' then Some (''0'', t)
                 else if char_digit c \<noteq> None then Some (span_digits s) else None)"

definition scan_number :: "string \<Rightarrow> (json \<times> string) option" where
  "scan_number s =
     (let neg = (s \<noteq> [] \<and> hd s = CHR ''-'');
          body = (if neg then tl s else s)
      in case scan_int body of
           None \<Rightarrow> None
         | Some (ds, r) \<Rightarrow>
             let (fr, r1) = scan_frac r; (ex, r2) = scan_exp r1
             in if fr = [] \<and> ex = []
                then map_option (\<lambda>n. (JInt (if neg then - int n else int n), r)) (parse_digits 0 ds)
                else Some (JFloat ((if neg then ''-'' else []) @ ds @ fr @ ex), r2))"

definition scan_literal :: "string \<Rightarrow> (json_error, json \<times> string) result" where
  "scan_literal s =
     (if startswith s ''null'' then Inr (JNull, drop 4 s)
      else if startswith s ''true'' then Inr (JBool True, drop 4 s)
      else if startswith s ''false'' then Inr (JBool False, drop 5 s)
      else if startswith s ''NaN'' then Inl (NonFinite ''NaN'')
      else if startswith s ''Infinity'' then Inl (NonFinite ''Infinity'')
      else if startswith s ''-Infinity'' then Inl (NonFinite ''-Infinity'')
      else case scan_number s of None \<Rightarrow> Inl BadJson | Some p \<Rightarrow> Inr p)"

fun first_duplicate :: "string list \<Rightarrow> (string \<times> json) list \<Rightarrow> string option" where
  "first_duplicate seen [] = None"
| "first_duplicate seen ((k, v) # ps) = (if k \<in> set seen then Some k else first_duplicate (k # seen) ps)"

definition pairs_hook :: "(string \<times> json) list \<Rightarrow> (json_error, json) result" where
  "pairs_hook ps = (case first_duplicate [] ps of Some k \<Rightarrow> Inl (DuplicateKey k) | None \<Rightarrow> Inr (JObj ps))"

fun parse_value :: "nat \<Rightarrow> string \<Rightarrow> (json_error, json \<times> string) result"
and parse_elems :: "nat \<Rightarrow> string \<Rightarrow> (json_error, json list \<times> string) result"
and parse_members :: "nat \<Rightarrow> string \<Rightarrow> (json_error, (string \<times> json) list \<times> string) result" where
  "parse_value 0 s = Inl OutOfFuel"
| "parse_value (Suc n) s =
     (case s of
        [] \<Rightarrow> Inl BadJson
      | c # t \<Rightarrow>
          if c = quote then bind_res (scan_string t) (\<lambda>(str, r). Inr (JStr str, r))
          else if c = CHR ''['' then
            (case skip_ws t of
               [] \<Rightarrow> Inl BadJson
             | d # r \<Rightarrow> if d = CHR '']'' then Inr (JArr [], r)
                        else bind_res (parse_elems n (d # r)) (\<lambda>(vs, r'). Inr (JArr vs, r')))
          else if c = CHR ''{'' then
            (case skip_ws t of
               [] \<Rightarrow> Inl BadJson
             | d # r \<Rightarrow> if d = CHR ''}'' then Inr (JObj [], r)
                        else bind_res (parse_members n (d # r))
                               (\<lambda>(ps, r'). bind_res (pairs_hook ps) (\<lambda>v. Inr (v, r'))))
          else scan_literal s)"
| "parse_elems 0 s = Inl OutOfFuel"
| "parse_elems (Suc n) s =
     bind_res (parse_value n s) (\<lambda>(v, r).
       case skip_ws r of
         [] \<Rightarrow> Inl BadJson
       | d # r' \<Rightarrow>
           if d = CHR '']'' then Inr ([v], r')
           else if d = CHR '','' then bind_res (parse_elems n (skip_ws r')) (\<lambda>(vs, r2). Inr (v # vs, r2))
           else Inl BadJson)"
| "parse_members 0 s = Inl OutOfFuel"
| "parse_members (Suc n) s =
     (case s of
        [] \<Rightarrow> Inl BadJson
      | c # t \<Rightarrow>
          if c \<noteq> quote then Inl BadJson
          else bind_res (scan_string t) (\<lambda>(k, r).
            case skip_ws r of
              [] \<Rightarrow> Inl BadJson
            | d # r1 \<Rightarrow>
                if d \<noteq> CHR '':'' then Inl BadJson
                else bind_res (parse_value n (skip_ws r1)) (\<lambda>(v, r2).
                  case skip_ws r2 of
                    [] \<Rightarrow> Inl BadJson
                  | e # r3 \<Rightarrow>
                      if e = CHR ''}'' then Inr ([(k, v)], r3)
                      else if e = CHR '','' then
                        bind_res (parse_members n (skip_ws r3)) (\<lambda>(ps, r4). Inr ((k, v) # ps, r4))
                      else Inl BadJson)))"

definition json_loads :: "string \<Rightarrow> (json_error, json) result" where
  "json_loads s =
     bind_res (parse_value (2 * length s + 2) (skip_ws s)) (\<lambda>(v, r). if skip_ws r = [] then Inr v else Inl BadJson)"

subsection \<open>Python's view of a JSON value\<close>

text \<open>The truth value, and \<open>str\<close>, where \<open>py_str\<close> is \<open>str\<close> on a value that is not a string.\<close>

fun json_truthy :: "json \<Rightarrow> bool" where
  "json_truthy JNull = False"
| "json_truthy (JBool b) = b"
| "json_truthy (JInt n) = (n \<noteq> 0)"
| "json_truthy (JFloat t) = (\<exists>c \<in> set (takeWhile (\<lambda>c. c \<noteq> CHR ''e'' \<and> c \<noteq> CHR ''E'') t). c \<notin> {CHR ''-'', CHR ''.'', CHR ''0''})"
| "json_truthy (JStr s) = (s \<noteq> [])"
| "json_truthy (JArr vs) = (vs \<noteq> [])"
| "json_truthy (JObj ps) = (ps \<noteq> [])"

definition str_of :: "(json \<Rightarrow> string) \<Rightarrow> json \<Rightarrow> string" where
  "str_of py_str v = (case v of JStr s \<Rightarrow> s | _ \<Rightarrow> py_str v)"

text \<open>A Python dict with string keys, in insertion order: \<open>d.get(k)\<close> and \<open>k in d\<close>.\<close>

type_synonym dict = "(string \<times> json) list"

definition dict_get :: "dict \<Rightarrow> string \<Rightarrow> json" where
  "dict_get obj k = (case map_of obj k of None \<Rightarrow> JNull | Some v \<Rightarrow> v)"

definition has_key :: "dict \<Rightarrow> string \<Rightarrow> bool" where
  "has_key obj k \<longleftrightarrow> k \<in> set (map fst obj)"

definition str_value :: "json \<Rightarrow> string" where
  "str_value v = (case v of JStr s \<Rightarrow> s | _ \<Rightarrow> [])"

subsection \<open>The fuel is enough\<close>

lemma skip_ws_length [simp]: "length (skip_ws s) \<le> length s"
  by (simp add: skip_ws_def length_dropWhile_le)

lemma skip_ws_Cons_length: "skip_ws s = c # t \<Longrightarrow> length t < length s"
  using skip_ws_length [of s] by simp

lemma scan_string_result:
  "scan_string s \<noteq> Inl OutOfFuel \<and> (\<forall>x r. scan_string s = Inr (x, r) \<longrightarrow> length r < length s)"
proof (induction s rule: length_induct)
  case (1 s)
  show ?case
  proof (cases s)
    case Nil
    then show ?thesis by simp
  next
    case (Cons c t)
    have push: "bind_res (scan_string u) (\<lambda>(str, rest). Inr (d # str, rest)) \<noteq> Inl OutOfFuel
        \<and> (\<forall>x r. bind_res (scan_string u) (\<lambda>(str, rest). Inr (d # str, rest)) = Inr (x, r) \<longrightarrow> length r < length s)"
      if "length u \<le> length t" for d u
      using 1 that Cons by (cases "scan_string u") (force simp: less_Suc_eq_le)+
    show ?thesis
    proof (cases "c = backslash \<and> c \<noteq> quote")
      case True
      show ?thesis
      proof (cases "scan_escape t")
        case None
        then show ?thesis using True Cons by simp
      next
        case (Some p)
        then obtain d u where du: "scan_escape t = Some (d, u)" by (cases p) auto
        show ?thesis using True Cons du push [of u d] scan_escape_length [OF du] by simp
      qed
    next
      case False
      then show ?thesis using Cons push [of t c] by auto
    qed
  qed
qed

lemma span_digits_length: "length (snd (span_digits s)) \<le> length s"
  by (simp add: span_digits_def length_dropWhile_le)

lemma scan_frac_length: "length (snd (scan_frac s)) \<le> length s"
  using span_digits_length by (auto simp: scan_frac_def le_SucI split: list.splits)

lemma scan_exp_length: "length (snd (scan_exp s)) \<le> length s"
proof (cases s)
  case Nil
  then show ?thesis by (simp add: scan_exp_def)
next
  case (Cons c t)
  have "length (snd (span_digits (drop k t))) \<le> length s" for k
    using span_digits_length [of "drop k t"] Cons by simp
  then show ?thesis using Cons by (simp add: scan_exp_def Let_def)
qed

lemma scan_int_length: "scan_int s = Some (ds, r) \<Longrightarrow> length r < length s"
proof (cases s)
  case (Cons c t)
  assume "scan_int s = Some (ds, r)"
  moreover have "char_digit c \<noteq> None \<Longrightarrow> span_digits s = (c # fst (span_digits t), snd (span_digits t))"
    using Cons by (simp add: span_digits_def)
  ultimately show ?thesis
    using Cons span_digits_length [of t] by (auto simp: scan_int_def split: if_splits)
qed (simp add: scan_int_def)

lemma scan_number_length: "scan_number s = Some (v, r) \<Longrightarrow> length r < length s"
proof -
  assume h: "scan_number s = Some (v, r)"
  let ?b = "if s \<noteq> [] \<and> hd s = CHR ''-'' then tl s else s"
  obtain ds r0 where i: "scan_int ?b = Some (ds, r0)"
    using h by (auto simp: scan_number_def Let_def split: option.splits)
  have "length r \<le> length r0"
    using h i scan_frac_length [of r0] scan_exp_length [of "snd (scan_frac r0)"]
    by (auto simp: scan_number_def Let_def split: prod.splits if_splits)
  also have "\<dots> < length ?b" using scan_int_length [OF i] .
  also have "\<dots> \<le> length s" by auto
  finally show ?thesis .
qed

lemma startswith_drop_length: "startswith s p \<Longrightarrow> p \<noteq> [] \<Longrightarrow> length (drop (length p) s) < length s"
  by (cases s) (auto simp: startswith_def)

lemma scan_literal_result:
  "scan_literal s \<noteq> Inl OutOfFuel \<and> (\<forall>v r. scan_literal s = Inr (v, r) \<longrightarrow> length r < length s)"
  using startswith_drop_length [of s "''null''"] startswith_drop_length [of s "''true''"]
    startswith_drop_length [of s "''false''"] scan_number_length [of s]
  by (cases "scan_number s") (auto simp: scan_literal_def)

definition consumes :: "string \<Rightarrow> (json_error, 'a \<times> string) result \<Rightarrow> bool" where
  "consumes s res \<longleftrightarrow> res \<noteq> Inl OutOfFuel \<and> (\<forall>v r. res = Inr (v, r) \<longrightarrow> length r < length s)"

lemma consumes_bind:
  assumes "consumes s m" "\<And>v r. m = Inr (v, r) \<Longrightarrow> length r < length s \<Longrightarrow> consumes s (f (v, r))"
  shows "consumes s (bind_res m f)"
  using assms by (cases m) (auto simp: consumes_def)

lemma consumes_shorter: "consumes t m \<Longrightarrow> length t \<le> length s \<Longrightarrow> consumes s m"
  by (force simp: consumes_def)

lemma consumes_simps [simp]:
  "consumes s (Inr (v, r)) \<longleftrightarrow> length r < length s"
  "consumes s (Inl e) \<longleftrightarrow> e \<noteq> OutOfFuel"
  by (auto simp: consumes_def)

lemma consumes_string: "consumes s (scan_string s)"
  using scan_string_result [of s] by (simp add: consumes_def)

lemma consumes_literal: "consumes s (scan_literal s)"
  using scan_literal_result [of s] by (simp add: consumes_def)

lemma consumes_pairs_hook: "length r < length s \<Longrightarrow> consumes s (bind_res (pairs_hook ps) (\<lambda>v. Inr (v, r)))"
  by (auto simp: pairs_hook_def split: option.splits)

lemma parse_fuel:
  "2 * length s + 1 \<le> n \<Longrightarrow> consumes s (parse_value n s)"
  "2 * length s + 2 \<le> n \<Longrightarrow> consumes s (parse_elems n s)"
  "2 * length s + 2 \<le> n \<Longrightarrow> consumes s (parse_members n s)"
proof (induction n arbitrary: s)
  case 0
  { case 1 then show ?case by simp }
  { case 2 then show ?case by simp }
  { case 3 then show ?case by simp }
next
  case (Suc n)
  {
    case 1
    show ?case
    proof (cases s)
      case Nil
      then show ?thesis by simp
    next
      case (Cons c t)
      have sub: "consumes s (parse_elems n u)" "consumes s (parse_members n u)" if "length u \<le> length t" for u
        using Suc.IH(2,3) [of u] 1 that Cons by (auto intro: consumes_shorter)
      have str: "consumes s (scan_string t)"
        using consumes_shorter [OF consumes_string, of t s] Cons by simp
      have ws: "skip_ws t = d # r \<Longrightarrow> length (d # r) \<le> length t" for d r
        by (metis skip_ws_length)
      show ?thesis
        using Cons str ws sub consumes_literal [of s]
        by (auto intro!: consumes_bind consumes_pairs_hook split: list.splits dest: ws)
    qed
  }
  {
    case 2
    have v: "consumes s (parse_value n s)" using Suc.IH(1) [of s] 2 by simp
    have e: "consumes s (parse_elems n u)" if "length u < length s" for u
      using Suc.IH(2) [of u] 2 that by (auto intro: consumes_shorter)
    show ?case
      using v by (auto intro!: consumes_bind e dest!: skip_ws_Cons_length split: list.splits)
        (meson le_less_trans less_trans skip_ws_length)+
  }
  {
    case 3
    have v: "consumes s (parse_value n u)" if "length u < length s" for u
      using Suc.IH(1) [of u] 3 that by (auto intro: consumes_shorter)
    have m: "consumes s (parse_members n u)" if "length u < length s" for u
      using Suc.IH(3) [of u] 3 that by (auto intro: consumes_shorter)
    show ?case
    proof (cases s)
      case Nil
      then show ?thesis by simp
    next
      case (Cons c t)
      have "consumes s (scan_string t)" using consumes_shorter [OF consumes_string, of t s] Cons by simp
      moreover have "consumes s (parse_value n (skip_ws u))" "consumes s (parse_members n (skip_ws u))" if "length u < length s" for u
        using v m that skip_ws_length [of u] by (meson le_less_trans)+
      ultimately show ?thesis
        using Cons by (auto intro!: consumes_bind dest!: skip_ws_Cons_length split: list.splits)
    qed
  }
qed

lemma json_loads_no_fuel_error: "json_loads s \<noteq> Inl OutOfFuel"
proof -
  have "consumes (skip_ws s) (parse_value (2 * length s + 2) (skip_ws s))"
    using parse_fuel(1) skip_ws_length [of s] by (metis add_le_mono mult_le_mono2 one_le_numeral)
  then show ?thesis
    by (auto simp: json_loads_def consumes_def bind_res_def simp del: parse_value.simps split: sum.splits if_splits)
qed

end
