(* ===== verification/AIGateway.thy ===== *)
theory AIGateway
  imports BudgetLedger PyJson "HOL-Library.AList"
begin

section \<open>The offline fixture gateway\<close>

text \<open>
  \<open>packages/product/gateway/ai.py\<close>: the in-process \<open>GatewayBudget\<close> with its reservations, the
  closed fixture types, strict decoding, and \<open>OfflineFixtureAIGateway.run\<close>, which settles usage in
  the volatile budget and in the persistent ledger of \<open>BudgetLedger\<close> before it decodes.

  \<open>run\<close> is a program in the state-and-exception shape of \<open>Prelude\<close> over \<open>run_state\<close>: the budget, the
  ledger and the local variables of the method. A call of the ledger may fail before its
  transaction commits or after it (the committed-but-unseen case the code retries); which calls fail
  is the environment's \<open>fault_at\<close>, their clock readings are \<open>clk_at\<close>. The decoders of
  \<open>ResearchMemo\<close>, \<open>FeatureProposal\<close>, \<open>StrategySpec\<close> and \<open>SelectionDecision\<close> live in other packages
  and are the environment's \<open>decoder\<close>; \<open>py_str\<close> is Python's \<open>str\<close> on a JSON value that is not a string
  and \<open>digest\<close> the prompt digest.
\<close>

datatype gw_error =
    GRuntimeError string
  | GLedger ledger_error
  | GSchemaRejected string
  | GProviderError string
  | GUsageError
  | GValueError string
  | GTypeError string
  | GOperationalError

subsection \<open>The volatile budget\<close>

record reservation =
  reservation_id :: string
  r_calls :: int
  r_tokens :: int

record gateway_budget =
  max_calls :: int
  max_tokens :: int
  calls_used :: int
  tokens_used :: int
  reserved_tokens :: int
  reserved_calls :: int
  reservations :: "(string \<times> reservation) list"

type_synonym 'a budget_op = "(gateway_budget, gw_error, 'a) sx"

definition new_gateway_budget :: "int \<Rightarrow> int \<Rightarrow> gateway_budget" where
  "new_gateway_budget mc mt = \<lparr>max_calls = mc, max_tokens = mt, calls_used = 0, tokens_used = 0,
     reserved_tokens = 0, reserved_calls = 0, reservations = []\<rparr>"

definition reserve :: "string \<Rightarrow> int \<Rightarrow> int \<Rightarrow> reservation budget_op" where
  "reserve uuid calls0 tokens0 b =
     (let calls = max 0 calls0; tokens = max 0 tokens0 in
      if calls_used b + reserved_calls b + calls > max_calls b
      then (Inl (GRuntimeError ''AI gateway model call budget exhausted (reserve)''), b)
      else if tokens_used b + reserved_tokens b + tokens > max_tokens b
      then (Inl (GRuntimeError ''AI gateway token budget exhausted (reserve)''), b)
      else let r = \<lparr>reservation_id = uuid, r_calls = calls, r_tokens = tokens\<rparr>
           in (Inr r, b\<lparr>reserved_calls := reserved_calls b + calls, reserved_tokens := reserved_tokens b + tokens,
                        reservations := AList.update uuid r (reservations b)\<rparr>))"

definition release_exact :: "reservation \<Rightarrow> bool budget_op" where
  "release_exact r b =
     (case map_of (reservations b) (reservation_id r) of
        None \<Rightarrow> (Inr False, b)
      | Some current \<Rightarrow>
          if current \<noteq> r then (Inl (GRuntimeError ''AI gateway budget reservation mismatch''), b)
          else if reserved_calls b - r_calls current < 0 \<or> reserved_tokens b - r_tokens current < 0
          then (Inl (GRuntimeError ''AI gateway budget reservation state invalid''), b)
          else (Inr True, b\<lparr>reservations := AList.delete (reservation_id r) (reservations b),
                            reserved_calls := reserved_calls b - r_calls current,
                            reserved_tokens := reserved_tokens b - r_tokens current\<rparr>))"

definition release_reservation :: "reservation \<Rightarrow> bool budget_op" where
  "release_reservation r = release_exact r"

definition settle_budget :: "reservation \<Rightarrow> int \<Rightarrow> int \<Rightarrow> bool budget_op" where
  "settle_budget r calls0 tokens0 =
     (let calls = max 0 calls0; tokens = max 0 tokens0 in
      sx_bind (release_exact r) (\<lambda>released.
        if \<not> released then sx_raise (GRuntimeError ''AI gateway budget reservation already released'')
        else (\<lambda>b. (Inr (calls_used b + calls > max_calls b \<or> tokens_used b + tokens > max_tokens b),
                   b\<lparr>calls_used := calls_used b + calls, tokens_used := tokens_used b + tokens\<rparr>))))"

definition reconcile :: "reservation \<Rightarrow> int \<Rightarrow> int \<Rightarrow> unit budget_op" where
  "reconcile r calls tokens =
     sx_bind (settle_budget r calls tokens)
       (\<lambda>over. if over then sx_raise (GRuntimeError ''AI gateway actual usage exceeded volatile budget'') else sx_return ())"

definition charge :: "string \<Rightarrow> int \<Rightarrow> unit budget_op" where
  "charge uuid tokens =
     (let estimate = max 0 tokens in
      sx_bind (reserve uuid 1 estimate) (\<lambda>r.
        sx_finally (reconcile r 1 estimate) (sx_seq (release_reservation r) (sx_return ()))))"

subsection \<open>Fixtures\<close>

datatype fixture_mode = MINIMAL_SUCCESS | PAYLOAD | PROVIDER_ERROR | INVALID_USAGE

record fixture_usage =
  fu_input_tokens :: int
  fu_output_tokens :: int
  fu_cached_tokens :: int

record fixture =
  mode :: fixture_mode
  payload_json :: "string option"
  fixture_usage :: "fixture_usage option"
  error_message :: "string option"

definition check_fixture_usage :: "fixture_usage \<Rightarrow> (gw_error, unit) result" where
  "check_fixture_usage u =
     (if fu_input_tokens u < 0 then Inl (GValueError ''input_tokens must be an integer >= 0'')
      else if fu_output_tokens u < 0 then Inl (GValueError ''output_tokens must be an integer >= 0'')
      else if fu_cached_tokens u < 0 then Inl (GValueError ''cached_tokens must be an integer >= 0'')
      else if fu_cached_tokens u > fu_input_tokens u then Inl (GValueError ''cached_tokens must be a subset of input_tokens'')
      else if fu_input_tokens u + fu_output_tokens u < 1 then Inl (GValueError ''offline fixture usage must contain at least one token'')
      else Inr ())"

definition strict_json_object :: "string \<Rightarrow> (gw_error, (string \<times> json) list) result" where
  "strict_json_object raw =
     (case json_loads raw of
        Inl (DuplicateKey k) \<Rightarrow> Inl (GValueError (''duplicate JSON key rejected: '' @ k))
      | Inl (NonFinite v) \<Rightarrow> Inl (GValueError (''non-finite JSON number rejected: '' @ v))
      | Inl _ \<Rightarrow> Inl (GValueError ''invalid JSON'')
      | Inr (JObj ps) \<Rightarrow> Inr ps
      | Inr _ \<Rightarrow> Inl (GValueError ''offline fixture payload must be a JSON object''))"

definition utf8_length :: "string \<Rightarrow> nat" where
  "utf8_length s = sum_list (map (\<lambda>c. if (of_char c :: nat) < 128 then 1 else 2) s)"

definition check_payload_fixture :: "fixture \<Rightarrow> (gw_error, unit) result" where
  "check_payload_fixture f =
     (case payload_json f of
        None \<Rightarrow> Inl (GValueError ''PAYLOAD fixture requires bounded payload_json'')
      | Some p \<Rightarrow>
          if p = [] \<or> utf8_length p > 64 * 1024 then Inl (GValueError ''PAYLOAD fixture requires bounded payload_json'')
          else bind_res (strict_json_object p) (\<lambda>ps.
            if ''usage'' \<in> set (map fst ps) \<or> ''usage_tokens'' \<in> set (map fst ps)
            then Inl (GValueError ''fixture usage must use OfflineFixtureUsage'')
            else if error_message f \<noteq> None then Inl (GValueError ''PAYLOAD fixture cannot carry error_message'')
            else Inr ()))"

definition check_fixture :: "fixture \<Rightarrow> (gw_error, unit) result" where
  "check_fixture f =
     bind_res (case fixture_usage f of None \<Rightarrow> Inr () | Some u \<Rightarrow> check_fixture_usage u) (\<lambda>_.
       if mode f = PAYLOAD then check_payload_fixture f
       else if payload_json f \<noteq> None then Inl (GValueError ''fixture cannot carry payload_json'')
       else if mode f = PROVIDER_ERROR then
         (case error_message f of
            None \<Rightarrow> Inl (GValueError ''PROVIDER_ERROR requires bounded error_message'')
          | Some m \<Rightarrow> if m = [] \<or> m \<noteq> strip m \<or> length m > 256
                      then Inl (GValueError ''PROVIDER_ERROR requires bounded error_message'') else Inr ())
       else if error_message f \<noteq> None then Inl (GValueError ''fixture cannot carry error_message'')
       else if mode f = INVALID_USAGE \<and> fixture_usage f \<noteq> None then Inl (GValueError ''INVALID_USAGE cannot claim measured usage'')
       else Inr ())"

definition require_exact_fixture :: "fixture \<Rightarrow> (gw_error, fixture) result" where
  "require_exact_fixture f =
     (case check_fixture f of Inl _ \<Rightarrow> Inl (GTypeError ''offline fixture invalid'') | Inr _ \<Rightarrow> Inr f)"

subsection \<open>Stub bodies and strict decoding\<close>

definition allowed_output_schemas :: "string list" where
  "allowed_output_schemas = [''ResearchMemo'', ''FeatureProposal'', ''StrategySpec'', ''Insight'', ''SelectionDecision'']"

definition insight_schema_version :: string where
  "insight_schema_version = ''insight/v1''"

definition minimal_stub_body :: "string \<Rightarrow> string \<Rightarrow> string \<Rightarrow> string \<Rightarrow> (gw_error, (string \<times> json) list) result" where
  "minimal_stub_body schema role task prompt =
     (if schema = ''Insight'' then
        Inr [(''role'', JStr role), (''task'', JStr task), (''summary'', JStr ''offline_stub''),
             (''prompt_chars'', JInt (int (length prompt))), (''schema_version'', JStr insight_schema_version)]
      else if schema = ''ResearchMemo'' then
        Inr [(''role'', JStr role), (''as_of'', JStr ''1970-01-01T00:00:00+00:00''), (''thesis'', JStr ''offline_stub''),
             (''evidence'', JArr []), (''feature_proposals'', JArr [])]
      else if schema = ''FeatureProposal'' then
        Inr [(''feature_id'', JStr ''offline_stub_feature''), (''intended_role'', JStr ''signal''),
             (''rationale'', JStr ''offline_stub''), (''status'', JStr ''candidate'')]
      else if schema = ''StrategySpec'' then
        Inr [(''version'', JStr ''strategy-spec/v2''), (''strategy_id'', JStr ''offline_stub_strategy''),
             (''rationale'', JStr ''offline_stub''), (''rebalance'', JStr ''daily''),
             (''rule'', JObj [(''type'', JStr ''threshold''),
                (''feature'', JObj [(''id'', JStr ''offline_feature''), (''version'', JStr ''v1'')]),
                (''threshold'', JFloat ''0.0'')])]
      else if schema = ''SelectionDecision'' then
        Inr [(''decision'', JStr ''HOLD''), (''reason_codes'', JArr [JStr ''offline_stub'']), (''subject_id'', JStr ''offline_subject'')]
      else Inl (GSchemaRejected ''no offline stub for schema''))"

definition banned_keys :: "string list" where
  "banned_keys = [''code'', ''python'', ''exec'', ''eval'', ''script'', ''shell'', ''bytecode'', ''payload_code'']"

fun find_banned_keys :: "string \<Rightarrow> json \<Rightarrow> string list"
and banned_in_items :: "string \<Rightarrow> (string \<times> json) list \<Rightarrow> string list"
and banned_in_elems :: "string \<Rightarrow> nat \<Rightarrow> json list \<Rightarrow> string list" where
  "find_banned_keys path (JObj ps) = banned_in_items path ps"
| "find_banned_keys path (JArr vs) = banned_in_elems path 0 vs"
| "find_banned_keys path _ = []"
| "banned_in_items path [] = []"
| "banned_in_items path ((k, v) # ps) =
     (let here = (if path \<noteq> [] then path @ ''.'' @ k else k)
      in (if k \<in> set banned_keys then [here] else []) @ find_banned_keys here v @ banned_in_items path ps)"
| "banned_in_elems path i [] = []"
| "banned_in_elems path i (v # vs) =
     find_banned_keys (path @ ''['' @ nat_str i @ '']'') v @ banned_in_elems path (Suc i) vs"

definition insight_allowed_keys :: "string list" where
  "insight_allowed_keys = [''role'', ''task'', ''summary'', ''prompt_chars'', ''schema_version'']"

definition version_or_default :: "(json \<Rightarrow> string) \<Rightarrow> (string \<times> json) list \<Rightarrow> string" where
  "version_or_default py_str body =
     (case map_of body ''schema_version'' of
        None \<Rightarrow> insight_schema_version
      | Some v \<Rightarrow> if json_truthy v then str_of py_str v else insight_schema_version)"

datatype 'p decoded = InsightBody "(string \<times> json) list" | Typed 'p

datatype fault = NoFault | FailBefore | FailAfter

record 'p gw_env =
  fault_at :: "nat \<Rightarrow> fault"
  clk_at :: "nat \<Rightarrow> nat \<Rightarrow> int"
  decoder :: "string \<Rightarrow> (string \<times> json) list \<Rightarrow> (string, 'p) result"
  spec_version :: "'p \<Rightarrow> string option"
  py_str :: "json \<Rightarrow> string"
  digest :: "string \<Rightarrow> string"

definition decode_typed :: "('p, 'z) gw_env_scheme \<Rightarrow> string \<Rightarrow> (string \<times> json) list \<Rightarrow> (gw_error, 'p decoded) result" where
  "decode_typed env schema payload =
     (let body = filter (\<lambda>(k, v). k \<notin> {''schema'', ''gateway''}) payload in
      if ''operator_override'' \<in> set (map fst body) then Inl (GSchemaRejected ''operator_override rejected'')
      else if banned_in_items [] body \<noteq> [] then Inl (GSchemaRejected ''banned executable field(s)'')
      else if schema \<in> {''ResearchMemo'', ''FeatureProposal'', ''StrategySpec'', ''SelectionDecision''} then
        (case decoder env schema body of
           Inl m \<Rightarrow> Inl (GSchemaRejected (schema @ '' decode failed: '' @ m))
         | Inr t \<Rightarrow> Inr (Typed t))
      else if schema = ''Insight'' then
        (if \<exists>k \<in> set (map fst body). k \<notin> set insight_allowed_keys
         then Inl (GSchemaRejected (schema @ '' decode failed: Insight unknown field(s)''))
         else Inr (InsightBody (AList.update ''schema_version'' (JStr (version_or_default (py_str env) body)) body)))
      else Inl (GSchemaRejected ''no decoder for schema''))"

subsection \<open>Usage and capability checks\<close>

record gw_usage =
  gu_input_tokens :: int
  gu_output_tokens :: int
  gu_total_tokens :: int
  gu_cached_tokens :: int
  gu_calls :: int

definition settlement_usage :: "fixture_usage option \<Rightarrow> reservation \<Rightarrow> gw_usage \<times> string" where
  "settlement_usage fu r =
     (case fu of
        None \<Rightarrow> (\<lparr>gu_input_tokens = r_tokens r, gu_output_tokens = 0, gu_total_tokens = r_tokens r,
                   gu_cached_tokens = 0, gu_calls = r_calls r\<rparr>, ''reserved_estimate'')
      | Some u \<Rightarrow> (\<lparr>gu_input_tokens = fu_input_tokens u, gu_output_tokens = fu_output_tokens u,
                    gu_total_tokens = fu_input_tokens u + fu_output_tokens u,
                    gu_cached_tokens = fu_cached_tokens u, gu_calls = r_calls r\<rparr>, ''measured''))"

definition require_exact_budget_capability :: "capability option \<Rightarrow> (gw_error, capability) result" where
  "require_exact_budget_capability c =
     (case c of
        None \<Rightarrow> Inl (GLedger (MassResearchDisabledError ''exact ResearchBudgetCapability is required''))
      | Some cap \<Rightarrow>
          if budget_id cap = [] \<or> budget_id cap \<noteq> strip (budget_id cap) \<or> length (budget_id cap) > 128
          then Inl (GLedger (MassResearchDisabledError ''ResearchBudgetCapability state invalid''))
          else (case check_offline_budget (limits cap) of
              Inl _ \<Rightarrow> Inl (GLedger (MassResearchDisabledError ''ResearchBudgetCapability state invalid''))
            | Inr _ \<Rightarrow> (case check_capability cap of Inl e \<Rightarrow> Inl (GLedger e) | Inr _ \<Rightarrow> Inr cap)))"

subsection \<open>\<open>run\<close>\<close>

record run_state =
  gbudget :: gateway_budget
  ledger :: ledger_db
  ledger_calls :: nat
  volatile_settled :: bool
  persistent_settled :: bool
  persistent_over_limit :: bool
  volatile_over_limit :: bool
  run_trigger :: string
  terminal_finalized :: bool
  terminal_intent :: "string option"

type_synonym 'a gw = "(run_state, gw_error, 'a) sx"

record run_args =
  ra_cap :: capability
  ra_reservation :: reservation
  ra_settlement_id :: string
  ra_usage :: gw_usage
  ra_source :: string

definition ledger_call :: "('p, 'z) gw_env_scheme \<Rightarrow> ((nat \<Rightarrow> int) \<Rightarrow> 'a ledger_tx) \<Rightarrow> 'a gw" where
  "ledger_call env op s =
     (let k = ledger_calls s; s1 = s\<lparr>ledger_calls := Suc k\<rparr> in
      if fault_at env k = FailBefore then (Inl GOperationalError, s1)
      else case op (clk_at env k) (ledger s) of
          (Inl e, db) \<Rightarrow> (Inl (GLedger e), s1\<lparr>ledger := db\<rparr>)
        | (Inr x, db) \<Rightarrow> (if fault_at env k = FailAfter then Inl GOperationalError else Inr x, s1\<lparr>ledger := db\<rparr>))"

definition on_budget :: "'a budget_op \<Rightarrow> 'a gw" where
  "on_budget op s = (case op (gbudget s) of (r, b) \<Rightarrow> (r, s\<lparr>gbudget := b\<rparr>))"

definition usage_amounts :: "gw_usage \<Rightarrow> provider_amounts" where
  "usage_amounts u = \<lparr>pa_input_tokens = gu_input_tokens u, pa_output_tokens = gu_output_tokens u,
     pa_cached_tokens = gu_cached_tokens u, pa_model_calls = gu_calls u, pa_estimated_cost_micros = 0\<rparr>"

definition persist_usage_once :: "('p, 'z) gw_env_scheme \<Rightarrow> run_args \<Rightarrow> bool gw" where
  "persist_usage_once env a s =
     ledger_call env (\<lambda>clock. settle_provider_usage_once (ra_cap a) clock (ra_settlement_id a)
        (usage_amounts (ra_usage a)) (ra_source a) (run_trigger s)) s"

definition settle_volatile :: "run_args \<Rightarrow> unit gw" where
  "settle_volatile a s =
     (if volatile_settled s then (Inr (), s)
      else sx_bind (on_budget (settle_budget (ra_reservation a) (gu_calls (ra_usage a)) (gu_total_tokens (ra_usage a))))
             (\<lambda>over. sx_modify (\<lambda>t. t\<lparr>volatile_over_limit := over, volatile_settled := True\<rparr>)) s)"

definition settle_persistent :: "('p, 'z) gw_env_scheme \<Rightarrow> run_args \<Rightarrow> unit gw" where
  "settle_persistent env a s =
     (if persistent_settled s then (Inr (), s)
      else sx_bind (sx_catch (persist_usage_once env a) (\<lambda>_. persist_usage_once env a))
             (\<lambda>over. sx_modify (\<lambda>t. t\<lparr>persistent_over_limit := over, persistent_settled := True\<rparr>)) s)"

definition settle_started_usage :: "('p, 'z) gw_env_scheme \<Rightarrow> run_args \<Rightarrow> unit gw" where
  "settle_started_usage env a = sx_seq (settle_volatile a) (settle_persistent env a)"

definition finalize_call :: "('p, 'z) gw_env_scheme \<Rightarrow> run_args \<Rightarrow> string \<Rightarrow> unit gw" where
  "finalize_call env a outcome =
     ledger_call env (\<lambda>clock. finalize_provider_settlement_once (ra_cap a) (clock 0) (ra_settlement_id a) outcome)"

definition finalize_terminal :: "('p, 'z) gw_env_scheme \<Rightarrow> run_args \<Rightarrow> string \<Rightarrow> unit gw" where
  "finalize_terminal env a outcome =
     sx_seq (sx_modify (\<lambda>t. t\<lparr>terminal_intent := Some outcome\<rparr>))
       (sx_seq (sx_catch (finalize_call env a outcome) (\<lambda>_. finalize_call env a outcome))
          (sx_modify (\<lambda>t. t\<lparr>terminal_finalized := True\<rparr>)))"

definition raise_settlement_overage :: "('p, 'z) gw_env_scheme \<Rightarrow> run_args \<Rightarrow> unit gw" where
  "raise_settlement_overage env a s =
     (if persistent_over_limit s then
        sx_seq (finalize_terminal env a ''actual_overage'')
          (sx_raise (GLedger (BudgetExhaustedError ''provider usage exceeded persistent budget after start; usage recorded''))) s
      else if volatile_over_limit s then
        sx_seq (finalize_terminal env a ''actual_overage'')
          (sx_raise (GRuntimeError ''AI gateway actual usage exceeded volatile budget'')) s
      else (Inr (), s))"

definition set_trigger :: "string \<Rightarrow> unit gw" where
  "set_trigger t = sx_modify (\<lambda>s. s\<lparr>run_trigger := t\<rparr>)"

definition lift_res :: "(gw_error, 'a) result \<Rightarrow> 'a gw" where
  "lift_res r = (case r of Inl e \<Rightarrow> sx_raise e | Inr x \<Rightarrow> sx_return x)"

definition settle_and_check :: "('p, 'z) gw_env_scheme \<Rightarrow> run_args \<Rightarrow> unit gw" where
  "settle_and_check env a = sx_seq (settle_started_usage env a) (raise_settlement_overage env a)"

definition start_provider ::
    "('p, 'z) gw_env_scheme \<Rightarrow> run_args \<Rightarrow> fixture \<Rightarrow> string \<Rightarrow> string \<Rightarrow> string \<Rightarrow> string \<Rightarrow> (string \<times> json) list gw" where
  "start_provider env a f expected_schema role task prompt =
     (if mode f = PROVIDER_ERROR then
        sx_seq (set_trigger ''provider_error'') (sx_seq (settle_and_check env a)
          (sx_seq (finalize_terminal env a ''provider_error'')
             (sx_raise (GProviderError (case error_message f of None \<Rightarrow> ''provider error'' | Some m \<Rightarrow> m)))))
      else if mode f = INVALID_USAGE then
        sx_seq (set_trigger ''invalid_usage'') (sx_seq (settle_and_check env a)
          (sx_seq (finalize_terminal env a ''invalid_usage'') (sx_raise GUsageError)))
      else
        sx_seq (set_trigger ''provider_response'')
          (sx_bind (lift_res (if mode f = MINIMAL_SUCCESS then minimal_stub_body expected_schema role task prompt
                              else strict_json_object (case payload_json f of None \<Rightarrow> [] | Some p \<Rightarrow> p)))
             (\<lambda>raw. sx_seq (settle_and_check env a) (sx_return raw))))"

definition check_schema_field :: "(json \<Rightarrow> string) \<Rightarrow> string \<Rightarrow> (string \<times> json) list \<Rightarrow> (gw_error, unit) result" where
  "check_schema_field pystr expected_schema raw =
     (case map_of raw ''schema'' of
        None \<Rightarrow> Inr ()
      | Some v \<Rightarrow>
          if str_of pystr v \<notin> set allowed_output_schemas then Inl (GSchemaRejected ''provider returned non-closed schema'')
          else if str_of pystr v \<noteq> expected_schema then Inl (GSchemaRejected ''provider schema != expected'')
          else Inr ())"

definition decode_result :: "('p, 'z) gw_env_scheme \<Rightarrow> string \<Rightarrow> (string \<times> json) list \<Rightarrow> (gw_error, 'p decoded) result" where
  "decode_result env expected_schema raw =
     bind_res (check_schema_field (py_str env) expected_schema raw) (\<lambda>_. decode_typed env expected_schema raw)"

record 'p gw_result =
  payload :: "'p decoded"
  schema_name :: string
  request_id :: string
  result_usage :: gw_usage
  schema_version :: string
  prompt_digest :: string
  result_budget_id :: string

definition result_schema_version :: "('p, 'z) gw_env_scheme \<Rightarrow> string \<Rightarrow> 'p decoded \<Rightarrow> string" where
  "result_schema_version env schema typed =
     (case typed of
        InsightBody body \<Rightarrow> if schema = ''Insight'' then version_or_default (py_str env) body else schema
      | Typed t \<Rightarrow> if schema = ''StrategySpec'' then (case spec_version env t of None \<Rightarrow> schema | Some v \<Rightarrow> v) else schema)"

definition decode_and_finish ::
    "('p, 'z) gw_env_scheme \<Rightarrow> run_args \<Rightarrow> string \<Rightarrow> string \<Rightarrow> (string \<times> json) list \<Rightarrow> 'p gw_result gw" where
  "decode_and_finish env a expected_schema prompt raw =
     (case decode_result env expected_schema raw of
        Inl e \<Rightarrow> sx_seq (finalize_terminal env a ''schema_reject'') (sx_raise e)
      | Inr typed \<Rightarrow>
          sx_seq (finalize_terminal env a ''success'')
            (sx_return \<lparr>payload = typed, schema_name = expected_schema, request_id = ra_settlement_id a,
               result_usage = ra_usage a, schema_version = result_schema_version env expected_schema typed,
               prompt_digest = digest env prompt, result_budget_id = budget_id (ra_cap a)\<rparr>))"

definition fallback_outcome :: "run_state \<Rightarrow> string" where
  "fallback_outcome s =
     (case terminal_intent s of
        Some t \<Rightarrow> t
      | None \<Rightarrow>
          if persistent_over_limit s \<or> volatile_over_limit s then ''actual_overage''
          else if run_trigger s = ''provider_response'' then ''schema_reject''
          else run_trigger s)"

definition recover_and_raise :: "('p, 'z) gw_env_scheme \<Rightarrow> run_args \<Rightarrow> gw_error \<Rightarrow> 'a gw" where
  "recover_and_raise env a e s =
     (if persistent_settled s \<and> \<not> terminal_finalized s
      then sx_seq (finalize_terminal env a (fallback_outcome s)) (sx_raise e) s
      else (Inl e, s))"

definition run_started ::
    "('p, 'z) gw_env_scheme \<Rightarrow> run_args \<Rightarrow> fixture \<Rightarrow> string \<Rightarrow> string \<Rightarrow> string \<Rightarrow> string \<Rightarrow> 'p gw_result gw" where
  "run_started env a f expected_schema role task prompt =
     sx_catch
       (sx_bind
          (sx_finally (start_provider env a f expected_schema role task prompt) (settle_started_usage env a))
          (\<lambda>raw. decode_and_finish env a expected_schema prompt raw))
       (\<lambda>e. recover_and_raise env a e)"

definition run ::
    "('p, 'z) gw_env_scheme \<Rightarrow> fixture \<Rightarrow> capability option \<Rightarrow> capability option \<Rightarrow> bool \<Rightarrow>
     string \<Rightarrow> string \<Rightarrow> string \<Rightarrow> string \<Rightarrow> string \<Rightarrow> string \<Rightarrow>
     gateway_budget \<times> ledger_db \<Rightarrow> (gw_error + 'p gw_result) \<times> gateway_budget \<times> ledger_db" where
  "run env f self_cap research_budget operator_override expected_schema role task prompt uuid1 uuid2 gs =
     (case gs of (b, db) \<Rightarrow>
      if operator_override then (Inl (GLedger (MassResearchDisabledError ''operator_override cannot substitute for ResearchBudgetCapability'')), gs)
      else if expected_schema \<notin> set allowed_output_schemas then (Inl (GValueError ''unsupported output schema''), gs)
      else case require_exact_budget_capability (case research_budget of None \<Rightarrow> self_cap | Some c \<Rightarrow> Some c) of
        Inl e \<Rightarrow> (Inl e, gs)
      | Inr cap \<Rightarrow>
          (case require_exact_fixture f of
             Inl e \<Rightarrow> (Inl e, gs)
           | Inr f' \<Rightarrow>
               (case reserve uuid1 1 (max 1 (int (length prompt div 4))) b of
                  (Inl e, b') \<Rightarrow> (Inl e, b', db)
                | (Inr r, b') \<Rightarrow>
                    let us = settlement_usage (fixture_usage f') r;
                        a = \<lparr>ra_cap = cap, ra_reservation = r, ra_settlement_id = uuid2, ra_usage = fst us, ra_source = snd us\<rparr>;
                        s0 = \<lparr>gbudget = b', ledger = db, ledger_calls = 0, volatile_settled = False, persistent_settled = False,
                              persistent_over_limit = False, volatile_over_limit = False, run_trigger = ''provider_error'',
                              terminal_finalized = False, terminal_intent = None\<rparr>
                    in (case run_started env a f' expected_schema role task prompt s0 of
                          (res, s) \<Rightarrow> (res, gbudget s, ledger s)))))"

subsection \<open>Reservations are conserved\<close>

definition gb_ok :: "gateway_budget \<Rightarrow> bool" where
  "gb_ok b \<longleftrightarrow>
     distinct (map fst (reservations b))
     \<and> (\<forall>(k, r) \<in> set (reservations b). reservation_id r = k \<and> 0 \<le> r_calls r \<and> 0 \<le> r_tokens r)
     \<and> reserved_calls b = sum_list (map (r_calls \<circ> snd) (reservations b))
     \<and> reserved_tokens b = sum_list (map (r_tokens \<circ> snd) (reservations b))"

lemma alist_update_fresh: "k \<notin> fst ` set xs \<Longrightarrow> AList.update k v xs = xs @ [(k, v)]"
  by (induction xs) auto

lemma alist_delete_append: "k \<notin> fst ` set xs \<Longrightarrow> AList.delete k (xs @ [(k, v)]) = xs"
  by (induction xs) (auto simp: AList.delete_eq)

lemma sum_list_delete:
  assumes "distinct (map fst xs)" "map_of xs k = Some r"
  shows "sum_list (map (f \<circ> snd) (AList.delete k xs)) = sum_list (map (f \<circ> snd) xs) - (f r :: int)"
  using assms
proof (induction xs)
  case Nil
  then show ?case by simp
next
  case (Cons x xs)
  show ?case
  proof (cases "fst x = k")
    case True
    then have "k \<notin> fst ` set xs" using Cons.prems(1) by auto
    then have "AList.delete k xs = xs" by (induction xs) auto
    then show ?thesis using True Cons.prems(2) by (cases x) auto
  next
    case False
    then show ?thesis using Cons by (cases x) auto
  qed
qed

lemma sum_list_member_le:
  "(\<forall>(k, r) \<in> set xs. 0 \<le> f r) \<Longrightarrow> (k, r) \<in> set xs \<Longrightarrow> (f r :: int) \<le> sum_list (map (f \<circ> snd) xs)"
proof (induction xs)
  case Nil
  then show ?case by simp
next
  case (Cons x xs)
  have "0 \<le> sum_list (map (f \<circ> snd) xs)" using Cons.prems(1) by (force intro!: sum_list_nonneg)
  then show ?case using Cons by (cases x) (auto simp: add_increasing comp_def)
qed

lemma release_exact_member:
  assumes ok: "gb_ok b" and r: "map_of (reservations b) (reservation_id r) = Some r"
  shows "release_exact r b = (Inr True, b\<lparr>reservations := AList.delete (reservation_id r) (reservations b),
      reserved_calls := reserved_calls b - r_calls r, reserved_tokens := reserved_tokens b - r_tokens r\<rparr>)"
proof -
  have mem: "(reservation_id r, r) \<in> set (reservations b)" using r by (rule map_of_SomeD)
  have "r_calls r \<le> reserved_calls b" "r_tokens r \<le> reserved_tokens b"
    using ok sum_list_member_le [OF _ mem, of r_calls] sum_list_member_le [OF _ mem, of r_tokens]
    by (auto simp: gb_ok_def)
  then show ?thesis using r by (simp add: release_exact_def)
qed

lemma release_exact_ok:
  assumes ok: "gb_ok b"
  shows "gb_ok (snd (release_exact r b))"
proof (cases "map_of (reservations b) (reservation_id r) = Some r")
  case True
  then show ?thesis
    using ok sum_list_delete [of "reservations b" "reservation_id r" r r_calls]
      sum_list_delete [of "reservations b" "reservation_id r" r r_tokens]
    by (auto simp: release_exact_member gb_ok_def AList.delete_eq distinct_map_filter)
next
  case False
  then show ?thesis using ok by (auto simp: release_exact_def split: option.splits)
qed

lemma reserve_ok:
  assumes "gb_ok b" "uuid \<notin> fst ` set (reservations b)"
  shows "gb_ok (snd (reserve uuid c t b))"
  using assms by (auto simp: reserve_def Let_def gb_ok_def alist_update_fresh)

lemma settle_budget_ok: "gb_ok b \<Longrightarrow> gb_ok (snd (settle_budget r c t b))"
proof -
  assume "gb_ok b"
  then have "gb_ok (snd (release_exact r b))" by (rule release_exact_ok)
  then show ?thesis
    by (auto simp: settle_budget_def sx_defs Let_def gb_ok_def split: prod.splits sum.splits)
qed

lemma reconcile_snd: "snd (reconcile r c t b) = snd (settle_budget r c t b)"
  by (auto simp: reconcile_def sx_defs split: prod.splits sum.splits)

lemma charge_ok:
  assumes "gb_ok b" "uuid \<notin> fst ` set (reservations b)"
  shows "gb_ok (snd (charge uuid t b))"
proof -
  obtain x b1 where res: "reserve uuid 1 (max 0 t) b = (x, b1)" by fastforce
  have b1: "gb_ok b1" using reserve_ok [OF assms, of 1 "max 0 t"] res by simp
  show ?thesis
  proof (cases x)
    case (Inl e)
    then show ?thesis using res b1 by (simp add: charge_def sx_bind_def Let_def)
  next
    case (Inr r)
    have "gb_ok (snd (release_exact r (snd (reconcile r 1 (max 0 t) b1))))"
      unfolding reconcile_snd by (intro release_exact_ok settle_budget_ok b1)
    then show ?thesis
      using res Inr by (auto simp: charge_def release_reservation_def sx_defs Let_def split: prod.splits sum.splits)
  qed
qed

text \<open>Every interleaving of the operations of a budget; \<open>uuid4\<close> never repeats a live identifier.\<close>

inductive gb_step :: "gateway_budget \<Rightarrow> gateway_budget \<Rightarrow> bool" where
  step_reserve: "uuid \<notin> fst ` set (reservations b) \<Longrightarrow> gb_step b (snd (reserve uuid c t b))"
| step_release: "gb_step b (snd (release_reservation r b))"
| step_settle: "gb_step b (snd (settle_budget r c t b))"
| step_reconcile: "gb_step b (snd (reconcile r c t b))"
| step_charge: "uuid \<notin> fst ` set (reservations b) \<Longrightarrow> gb_step b (snd (charge uuid t b))"

inductive_cases gb_stepE: "gb_step b b'"

lemma gb_step_ok: "gb_step b b' \<Longrightarrow> gb_ok b \<Longrightarrow> gb_ok b'"
  by (erule gb_stepE)
     (simp_all add: reserve_ok release_exact_ok release_reservation_def settle_budget_ok reconcile_snd charge_ok)

lemma gb_steps_ok: "gb_step\<^sup>*\<^sup>* b b' \<Longrightarrow> gb_ok b \<Longrightarrow> gb_ok b'"
  by (induction rule: rtranclp_induct) (auto intro: gb_step_ok)

lemma gb_ok_new [simp]: "gb_ok (new_gateway_budget mc mt)"
  by (simp add: gb_ok_def new_gateway_budget_def)

subsection \<open>Retried ledger calls\<close>

text \<open>
  What the gateway relies on when it repeats a call whose answer it did not see: from a state that
  permits the call it succeeds, and repeated after success it returns the same answer and changes
  nothing. Then one retry hides every single fault, before or after the commit.
\<close>

definition no_double_fault :: "('p, 'z) gw_env_scheme \<Rightarrow> bool" where
  "no_double_fault env \<longleftrightarrow> (\<forall>k. fault_at env k = NoFault \<or> fault_at env (Suc k) = NoFault)"

locale retried_call =
  fixes op :: "(nat \<Rightarrow> int) \<Rightarrow> 'a ledger_tx"
    and pre :: "ledger_db \<Rightarrow> bool"
    and post :: "'a \<Rightarrow> ledger_db \<Rightarrow> ledger_db \<Rightarrow> bool"
  assumes first_call: "pre db \<Longrightarrow> \<exists>x db'. op clock db = (Inr x, db') \<and> post x db db'"
    and repeated_call: "pre db \<Longrightarrow> post x db db' \<Longrightarrow> op clock db' = (Inr x, db')"
begin

lemma retry_hides_fault:
  assumes faults: "no_double_fault env" and pre: "pre (ledger s)"
  shows "\<exists>x db' n. post x (ledger s) db'
     \<and> sx_catch (ledger_call env op) (\<lambda>_. ledger_call env op) s = (Inr x, s\<lparr>ledger_calls := n, ledger := db'\<rparr>)"
proof -
  let ?k = "ledger_calls s"
  obtain x db1 where one: "op (clk_at env ?k) (ledger s) = (Inr x, db1)" "post x (ledger s) db1"
    using first_call [OF pre] by blast
  show ?thesis
  proof (cases "fault_at env ?k")
    case NoFault
    then have "sx_catch (ledger_call env op) (\<lambda>_. ledger_call env op) s = (Inr x, s\<lparr>ledger_calls := Suc ?k, ledger := db1\<rparr>)"
      using one by (simp add: sx_catch_def ledger_call_def Let_def)
    then show ?thesis using one(2) by blast
  next
    case FailBefore
    then have nxt: "fault_at env (Suc ?k) = NoFault" using faults by (metis no_double_fault_def fault.distinct(1))
    obtain y db2 where two: "op (clk_at env (Suc ?k)) (ledger s) = (Inr y, db2)" "post y (ledger s) db2"
      using first_call [OF pre] by blast
    have "sx_catch (ledger_call env op) (\<lambda>_. ledger_call env op) s = (Inr y, s\<lparr>ledger_calls := Suc (Suc ?k), ledger := db2\<rparr>)"
      using two FailBefore nxt by (simp add: sx_catch_def ledger_call_def Let_def)
    then show ?thesis using two(2) by blast
  next
    case FailAfter
    then have nxt: "fault_at env (Suc ?k) = NoFault" using faults by (metis no_double_fault_def fault.distinct(3))
    have "op (clk_at env (Suc ?k)) db1 = (Inr x, db1)" using repeated_call [OF pre one(2)] .
    then have "sx_catch (ledger_call env op) (\<lambda>_. ledger_call env op) s = (Inr x, s\<lparr>ledger_calls := Suc (Suc ?k), ledger := db1\<rparr>)"
      using one FailAfter nxt by (simp add: sx_catch_def ledger_call_def Let_def)
    then show ?thesis using one(2) by blast
  qed
qed

end

definition overage :: "capability \<Rightarrow> provider_amounts \<Rightarrow> ledger_db \<Rightarrow> bool" where
  "overage cap a db \<longleftrightarrow> (\<exists>cd \<in> set (amounts_of a). crosses_limit cap db cd)"

definition can_settle :: "capability \<Rightarrow> string \<Rightarrow> provider_amounts \<Rightarrow> string \<Rightarrow> string \<Rightarrow> ledger_db \<Rightarrow> bool" where
  "can_settle cap sid a src trg db \<longleftrightarrow>
     wf_ledger db \<and> validate_settlement_id sid = Inr () \<and> src \<in> set usage_sources \<and> trg \<in> set charge_triggers
     \<and> check_settle_amounts (amounts_of a) = Inr () \<and> find_settlement (budget_id cap) sid (create_tables db) = None"

definition settled_once :: "capability \<Rightarrow> string \<Rightarrow> provider_amounts \<Rightarrow> string \<Rightarrow> string \<Rightarrow> bool \<Rightarrow> ledger_db \<Rightarrow> ledger_db \<Rightarrow> bool" where
  "settled_once cap sid a src trg over db db' \<longleftrightarrow>
     wf_ledger db' \<and> over = overage cap a db \<and> lease_rows db' = lease_rows db
     \<and> (\<forall>b c. used b c db' = used b c db + (if b = budget_id cap then amount_of (amounts_of a) c else 0))
     \<and> (\<exists>t. settlement_rows db' = settlement_rows db @ [new_settlement (budget_id cap) sid a src trg over t])"

lemma overage_create_tables [simp]: "overage cap a (create_tables db) = overage cap a db"
proof -
  have "crosses_limit cap (create_tables db) cd = crosses_limit cap db cd" for cd
    by (simp add: crosses_limit_def cong: option.case_cong)
  then show ?thesis by (simp add: overage_def)
qed

lemma settle_first_call:
  assumes "can_settle cap sid a src trg db"
  shows "\<exists>over db'. settle_provider_usage_once cap clock sid a src trg db = (Inr over, db')
     \<and> settled_once cap sid a src trg over db db'"
proof -
  have wf: "wf_ledger db" using assms by (simp add: can_settle_def)
  have new: "find_settlement (budget_id cap) sid (create_tables db) = None" using assms by (simp add: can_settle_def)
  let ?db = "snd (settle_tx cap clock sid a src trg (create_tables db))"
  have "settle_tx cap clock sid a src trg (create_tables db) = (Inr (overage cap a (create_tables db)), ?db)"
    using new by (simp add: settle_tx_def Let_def overage_def)
  then have eq: "settle_provider_usage_once cap clock sid a src trg db = (Inr (overage cap a db), ?db)"
    using assms wf by (simp add: settle_provider_usage_once_def can_settle_def)
  have "wf_ledger ?db" "lease_rows ?db = lease_rows db"
    using ledger_exec_wf [OF wf, of cap "OpSettle clock sid a src trg"] lease_rows_settle [OF wf, of cap clock sid a src trg] eq by simp_all
  moreover have "settlement_rows ?db = settlement_rows db @ [new_settlement (budget_id cap) sid a src trg (overage cap a db) (clock 0)]"
    using new wf overage_create_tables [of cap a db] by (simp add: settle_tx_def Let_def overage_def)
  ultimately show ?thesis
    using eq settle_tx_effect(1) [OF new] by (auto simp: settled_once_def)
qed

lemma settled_once_find:
  assumes "settled_once cap sid a src trg over db db'"
  obtains t where "find_settlement (budget_id cap) sid db' = Some (new_settlement (budget_id cap) sid a src trg over t)"
    "create_tables db' = db'" "settlement_rows db' = settlement_rows db @ [new_settlement (budget_id cap) sid a src trg over t]"
proof -
  obtain t where rows: "settlement_rows db' = settlement_rows db @ [new_settlement (budget_id cap) sid a src trg over t]"
    and wf: "wf_ledger db'" using assms by (auto simp: settled_once_def)
  then have "find_settlement (budget_id cap) sid db' = Some (new_settlement (budget_id cap) sid a src trg over t)"
    using find_settlement_Some [OF wf] by simp
  moreover have "create_tables db' = db'" using settlement_rows_v2 [OF wf] rows by simp
  ultimately show ?thesis using that rows by blast
qed

lemma settle_repeated_call:
  assumes "can_settle cap sid a src trg db" "settled_once cap sid a src trg over db db'"
  shows "settle_provider_usage_once cap clock sid a src trg db' = (Inr over, db')"
proof -
  have wf: "wf_ledger db'" using assms(2) by (simp add: settled_once_def)
  obtain t where "find_settlement (budget_id cap) sid db' = Some (new_settlement (budget_id cap) sid a src trg over t)"
    "create_tables db' = db'" using settled_once_find [OF assms(2)] by blast
  moreover have "sr_usage_source (new_settlement (budget_id cap) sid a src trg over t) = src"
    "sr_charge_trigger (new_settlement (budget_id cap) sid a src trg over t) = Some trg"
    "sr_over_limit (new_settlement (budget_id cap) sid a src trg over t) = over"
    by (simp_all add: new_settlement_def)
  ultimately show ?thesis
    using assms(1) wf by (simp add: settle_provider_usage_once_def settle_tx_def can_settle_def)
qed

interpretation settle_call: retried_call
  "\<lambda>clock. settle_provider_usage_once cap clock sid a src trg" "can_settle cap sid a src trg" "settled_once cap sid a src trg"
  for cap sid a src trg
  by unfold_locales (use settle_first_call settle_repeated_call in blast)+

definition can_finalize :: "capability \<Rightarrow> string \<Rightarrow> string \<Rightarrow> ledger_db \<Rightarrow> bool" where
  "can_finalize cap sid oc db \<longleftrightarrow>
     wf_ledger db \<and> validate_settlement_id sid = Inr () \<and> oc \<in> set terminal_outcomes \<and> create_tables db = db
     \<and> (case find_settlement (budget_id cap) sid db of
          None \<Rightarrow> False
        | Some r \<Rightarrow> sr_terminal_outcome r = None \<and> (expected_trigger oc = None \<or> sr_charge_trigger r = expected_trigger oc))"

definition finalized_once :: "capability \<Rightarrow> string \<Rightarrow> string \<Rightarrow> ledger_db \<Rightarrow> ledger_db \<Rightarrow> bool" where
  "finalized_once cap sid oc db db' \<longleftrightarrow>
     wf_ledger db' \<and> (\<exists>t. db' = db\<lparr>settlement_rows := map (finalize_row (budget_id cap) sid oc t) (settlement_rows db)\<rparr>)"

lemma finalize_first_call:
  assumes "can_finalize cap sid oc db"
  shows "\<exists>x db'. finalize_provider_settlement_once cap now sid oc db = (Inr x, db') \<and> finalized_once cap sid oc db db'"
proof -
  have wf: "wf_ledger db" using assms by (simp add: can_finalize_def)
  let ?db = "db\<lparr>settlement_rows := map (finalize_row (budget_id cap) sid oc now) (settlement_rows db)\<rparr>"
  have eq: "finalize_provider_settlement_once cap now sid oc db = (Inr (), ?db)"
    using assms wf by (auto simp: finalize_provider_settlement_once_def finalize_tx_def can_finalize_def split: option.splits)
  then have "wf_ledger ?db" using ledger_exec_wf [OF wf, of cap "OpFinalize now sid oc"] by simp
  then show ?thesis using eq by (auto simp: finalized_once_def)
qed

lemma finalize_repeated_call:
  assumes pre: "can_finalize cap sid oc db" and post: "finalized_once cap sid oc db db'"
  shows "finalize_provider_settlement_once cap now sid oc db' = (Inr x, db')"
proof -
  obtain r where r: "find_settlement (budget_id cap) sid db = Some r" "sr_terminal_outcome r = None"
      "expected_trigger oc = None \<or> sr_charge_trigger r = expected_trigger oc"
    using pre by (auto simp: can_finalize_def split: option.splits)
  have wf: "wf_ledger db" "wf_ledger db'" using pre post by (simp_all add: can_finalize_def finalized_once_def)
  obtain t where db': "db' = db\<lparr>settlement_rows := map (finalize_row (budget_id cap) sid oc t) (settlement_rows db)\<rparr>"
    using post by (auto simp: finalized_once_def)
  let ?q = "finalize_row (budget_id cap) sid oc t r"
  have mem: "r \<in> set (settlement_rows db)" "settlement_key r = (budget_id cap, sid)"
    using find_settlement_Some [OF wf(1)] r(1) by auto
  then have q: "?q \<in> set (settlement_rows db')" "settlement_key ?q = (budget_id cap, sid)" "sr_terminal_outcome ?q = Some oc"
      "sr_charge_trigger ?q = sr_charge_trigger r"
    using r(2) by (simp_all add: db' finalize_row_def settlement_key_def)
  then have "find_settlement (budget_id cap) sid db' = Some ?q" using find_settlement_Some [OF wf(2)] by simp
  moreover have "create_tables db' = db'" using settlement_rows_v2 [OF wf(2)] q(1) by fastforce
  ultimately show ?thesis
    using wf(2) pre r(3) q by (auto simp: finalize_provider_settlement_once_def finalize_tx_def can_finalize_def)
qed

interpretation finalize_call: retried_call
  "\<lambda>clock. finalize_provider_settlement_once cap (clock 0) sid oc" "can_finalize cap sid oc" "\<lambda>_. finalized_once cap sid oc"
  for cap sid oc
  by unfold_locales (use finalize_first_call finalize_repeated_call in blast)+

subsection \<open>\<open>run\<close> step by step\<close>

definition run_recorded ::
    "capability \<Rightarrow> string \<Rightarrow> provider_amounts \<Rightarrow> string \<Rightarrow> string \<Rightarrow> string \<Rightarrow> ledger_db \<Rightarrow> ledger_db \<Rightarrow> bool" where
  "run_recorded cap sid a src trg oc db db' \<longleftrightarrow>
     wf_ledger db' \<and> lease_rows db' = lease_rows db
     \<and> (\<forall>b c. used b c db' = used b c db + (if b = budget_id cap then amount_of (amounts_of a) c else 0))
     \<and> (\<exists>t t'. settlement_rows db' = settlement_rows db @
          [(new_settlement (budget_id cap) sid a src trg (overage cap a db) t)\<lparr>sr_terminal_outcome := Some oc, sr_finalized_at := Some t'\<rparr>])"

lemma settled_then_finalized:
  assumes st: "settled_once cap sid a src trg over db db1" and fin: "finalized_once cap sid oc db1 db2"
  shows "run_recorded cap sid a src trg oc db db2"
proof -
  obtain t where rows: "settlement_rows db1 = settlement_rows db @ [new_settlement (budget_id cap) sid a src trg over t]"
    using settled_once_find [OF st] by blast
  obtain t' where db2: "db2 = db1\<lparr>settlement_rows := map (finalize_row (budget_id cap) sid oc t') (settlement_rows db1)\<rparr>"
    and wf2: "wf_ledger db2" using fin by (auto simp: finalized_once_def)
  have "distinct (map settlement_key (settlement_rows db1))" using st by (simp add: settled_once_def wf_ledger_def)
  then have others: "settlement_key q \<noteq> (budget_id cap, sid)" if "q \<in> set (settlement_rows db)" for q
    using that rows by force
  have keep: "map (finalize_row (budget_id cap) sid oc t') (settlement_rows db) = settlement_rows db"
    using others by (intro map_idI) (simp add: finalize_row_def)
  have new: "finalize_row (budget_id cap) sid oc t' (new_settlement (budget_id cap) sid a src trg over t)
      = (new_settlement (budget_id cap) sid a src trg over t)\<lparr>sr_terminal_outcome := Some oc, sr_finalized_at := Some t'\<rparr>"
    by (simp add: finalize_row_def settlement_key_def new_settlement_def)
  have "settlement_rows db2 = settlement_rows db @
      [(new_settlement (budget_id cap) sid a src trg over t)\<lparr>sr_terminal_outcome := Some oc, sr_finalized_at := Some t'\<rparr>]"
    using rows keep new by (simp add: db2)
  moreover have "over = overage cap a db" "lease_rows db2 = lease_rows db" "used b c db2 = used b c db1" for b c
    using st by (simp_all add: settled_once_def db2)
  ultimately show ?thesis using st wf2 by (auto simp: run_recorded_def settled_once_def)
qed

definition settled_in :: "run_args \<Rightarrow> string \<Rightarrow> ledger_db \<Rightarrow> gateway_budget \<Rightarrow> run_state \<Rightarrow> bool" where
  "settled_in a trg db b s \<longleftrightarrow>
     volatile_settled s \<and> persistent_settled s \<and> gbudget s = b \<and> run_trigger s = trg \<and> \<not> terminal_finalized s
     \<and> validate_settlement_id (ra_settlement_id a) = Inr ()
     \<and> settled_once (ra_cap a) (ra_settlement_id a) (usage_amounts (ra_usage a)) (ra_source a) trg (persistent_over_limit s) db (ledger s)"

definition finished_in :: "run_args \<Rightarrow> string \<Rightarrow> string \<Rightarrow> ledger_db \<Rightarrow> gateway_budget \<Rightarrow> run_state \<Rightarrow> bool" where
  "finished_in a trg oc db b s \<longleftrightarrow>
     volatile_settled s \<and> persistent_settled s \<and> gbudget s = b \<and> terminal_finalized s
     \<and> run_recorded (ra_cap a) (ra_settlement_id a) (usage_amounts (ra_usage a)) (ra_source a) trg oc db (ledger s)"

lemma persist_usage_retry:
  "sx_catch (persist_usage_once env a) (\<lambda>_. persist_usage_once env a) s
   = sx_catch (ledger_call env (\<lambda>clock. settle_provider_usage_once (ra_cap a) clock (ra_settlement_id a)
        (usage_amounts (ra_usage a)) (ra_source a) (run_trigger s)))
      (\<lambda>_. ledger_call env (\<lambda>clock. settle_provider_usage_once (ra_cap a) clock (ra_settlement_id a)
        (usage_amounts (ra_usage a)) (ra_source a) (run_trigger s))) s"
  by (auto simp: sx_catch_def persist_usage_once_def ledger_call_def Let_def split: prod.splits sum.splits)

lemma settle_started_usage_ok:
  assumes faults: "no_double_fault env"
    and can: "can_settle (ra_cap a) (ra_settlement_id a) (usage_amounts (ra_usage a)) (ra_source a) (run_trigger s) (ledger s)"
    and fresh: "\<not> volatile_settled s" "\<not> persistent_settled s" "\<not> terminal_finalized s"
    and vol: "settle_budget (ra_reservation a) (gu_calls (ra_usage a)) (gu_total_tokens (ra_usage a)) (gbudget s) = (Inr vover, b)"
  shows "\<exists>s'. settle_started_usage env a s = (Inr (), s') \<and> settled_in a (run_trigger s) (ledger s) b s'
     \<and> persistent_over_limit s' = overage (ra_cap a) (usage_amounts (ra_usage a)) (ledger s) \<and> volatile_over_limit s' = vover"
proof -
  let ?s1 = "s\<lparr>gbudget := b, volatile_over_limit := vover, volatile_settled := True\<rparr>"
  have v: "settle_volatile a s = (Inr (), ?s1)"
    using fresh vol by (simp add: settle_volatile_def on_budget_def sx_bind_def sx_modify_def)
  obtain over db' n where post: "settled_once (ra_cap a) (ra_settlement_id a) (usage_amounts (ra_usage a)) (ra_source a) (run_trigger s) over (ledger s) db'"
    and call: "sx_catch (persist_usage_once env a) (\<lambda>_. persist_usage_once env a) ?s1 = (Inr over, ?s1\<lparr>ledger_calls := n, ledger := db'\<rparr>)"
    using settle_call.retry_hides_fault [OF faults, of _ _ _ _ _ ?s1] can
    unfolding persist_usage_retry by fastforce
  have "settle_started_usage env a s = (Inr (), ?s1\<lparr>ledger_calls := n, ledger := db', persistent_over_limit := over, persistent_settled := True\<rparr>)"
    using v call fresh by (simp add: settle_started_usage_def settle_persistent_def sx_seq_def sx_bind_def sx_modify_def)
  moreover have "over = overage (ra_cap a) (usage_amounts (ra_usage a)) (ledger s)" using post by (simp add: settled_once_def)
  ultimately show ?thesis using post fresh can by (auto simp: settled_in_def can_settle_def)
qed

lemma settled_can_finalize:
  assumes st: "settled_in a trg db b s" and oc: "oc \<in> set terminal_outcomes" "expected_trigger oc = None \<or> expected_trigger oc = Some trg"
  shows "can_finalize (ra_cap a) (ra_settlement_id a) oc (ledger s)"
proof -
  have so: "settled_once (ra_cap a) (ra_settlement_id a) (usage_amounts (ra_usage a)) (ra_source a) trg (persistent_over_limit s) db (ledger s)"
    using st by (simp add: settled_in_def)
  obtain t where "find_settlement (budget_id (ra_cap a)) (ra_settlement_id a) (ledger s)
      = Some (new_settlement (budget_id (ra_cap a)) (ra_settlement_id a) (usage_amounts (ra_usage a)) (ra_source a) trg (persistent_over_limit s) t)"
    "create_tables (ledger s) = ledger s" using settled_once_find [OF so] by blast
  then show ?thesis using st so oc
    by (auto simp: can_finalize_def settled_in_def settled_once_def new_settlement_def)
qed

lemma finalize_terminal_ok:
  assumes faults: "no_double_fault env" and st: "settled_in a trg db b s"
    and oc: "oc \<in> set terminal_outcomes" "expected_trigger oc = None \<or> expected_trigger oc = Some trg"
  shows "\<exists>s'. finalize_terminal env a oc s = (Inr (), s') \<and> finished_in a trg oc db b s'"
proof -
  let ?s1 = "s\<lparr>terminal_intent := Some oc\<rparr>"
  have "can_finalize (ra_cap a) (ra_settlement_id a) oc (ledger ?s1)" using settled_can_finalize [OF st oc] by simp
  from finalize_call.retry_hides_fault [OF faults this]
  obtain x db' n where fin: "finalized_once (ra_cap a) (ra_settlement_id a) oc (ledger s) db'"
    and call: "sx_catch (finalize_call env a oc) (\<lambda>_. finalize_call env a oc) ?s1 = (Inr x, ?s1\<lparr>ledger_calls := n, ledger := db'\<rparr>)"
    unfolding finalize_call_def by auto
  have "finalize_terminal env a oc s = (Inr (), ?s1\<lparr>ledger_calls := n, ledger := db', terminal_finalized := True\<rparr>)"
    using call by (simp add: finalize_terminal_def sx_seq_def sx_bind_def sx_modify_def)
  moreover have "run_recorded (ra_cap a) (ra_settlement_id a) (usage_amounts (ra_usage a)) (ra_source a) trg oc db db'"
    using settled_then_finalized [OF _ fin] st unfolding settled_in_def by blast
  ultimately show ?thesis using st by (auto simp: settled_in_def finished_in_def)
qed

lemma raise_settlement_overage_ok:
  assumes faults: "no_double_fault env" and st: "settled_in a trg db b s"
  shows "if persistent_over_limit s \<or> volatile_over_limit s
    then \<exists>e s'. raise_settlement_overage env a s = (Inl e, s') \<and> finished_in a trg ''actual_overage'' db b s'
    else raise_settlement_overage env a s = (Inr (), s)"
proof -
  have "''actual_overage'' \<in> set terminal_outcomes" "expected_trigger ''actual_overage'' = None"
    by (simp_all add: terminal_outcomes_def expected_trigger_def)
  then obtain s' where "finalize_terminal env a ''actual_overage'' s = (Inr (), s')" "finished_in a trg ''actual_overage'' db b s'"
    using finalize_terminal_ok [OF faults st] by blast
  then show ?thesis by (auto simp: raise_settlement_overage_def sx_seq_def sx_bind_def sx_raise_def)
qed

lemma finished_settle_noop: "finished_in a trg oc db b s \<Longrightarrow> settle_started_usage env a s = (Inr (), s)"
  by (simp add: finished_in_def settle_started_usage_def settle_volatile_def settle_persistent_def sx_seq_def sx_bind_def)

lemma settled_settle_noop: "settled_in a trg db b s \<Longrightarrow> settle_started_usage env a s = (Inr (), s)"
  by (simp add: settled_in_def settle_started_usage_def settle_volatile_def settle_persistent_def sx_seq_def sx_bind_def)

lemma finished_recover_noop: "finished_in a trg oc db b s \<Longrightarrow> recover_and_raise env a e s = (Inl e, s)"
  by (simp add: finished_in_def recover_and_raise_def)

definition fixture_trigger :: "fixture \<Rightarrow> string" where
  "fixture_trigger f = (case mode f of PROVIDER_ERROR \<Rightarrow> ''provider_error'' | INVALID_USAGE \<Rightarrow> ''invalid_usage'' | _ \<Rightarrow> ''provider_response'')"

definition fixture_body :: "fixture \<Rightarrow> string \<Rightarrow> string \<Rightarrow> string \<Rightarrow> string \<Rightarrow> (gw_error, (string \<times> json) list) result" where
  "fixture_body f expected_schema role task prompt =
     (if mode f = MINIMAL_SUCCESS then minimal_stub_body expected_schema role task prompt
      else strict_json_object (case payload_json f of None \<Rightarrow> [] | Some p \<Rightarrow> p))"

definition run_outcome :: "('p, 'z) gw_env_scheme \<Rightarrow> fixture \<Rightarrow> string \<Rightarrow> string \<Rightarrow> string \<Rightarrow> string \<Rightarrow> bool \<Rightarrow> string" where
  "run_outcome env f expected_schema role task prompt over =
     (if over then ''actual_overage''
      else if mode f \<in> {PROVIDER_ERROR, INVALID_USAGE} then fixture_trigger f
      else if is_ok (bind_res (fixture_body f expected_schema role task prompt) (decode_result env expected_schema))
      then ''success'' else ''schema_reject'')"

lemma minimal_stub_ok: "schema \<in> set allowed_output_schemas \<Longrightarrow> is_ok (minimal_stub_body schema role task prompt)"
  by (auto simp: allowed_output_schemas_def minimal_stub_body_def)

lemma check_fixture_body:
  assumes "check_fixture f = Inr ()" "schema \<in> set allowed_output_schemas" "mode f \<in> {MINIMAL_SUCCESS, PAYLOAD}"
  shows "is_ok (fixture_body f schema role task prompt)"
proof (cases "mode f = MINIMAL_SUCCESS")
  case True
  then show ?thesis using assms minimal_stub_ok by (simp add: fixture_body_def)
next
  case False
  then have "check_payload_fixture f = Inr ()" using assms by (auto simp: check_fixture_def bind_res_Inr_iff)
  then show ?thesis
    using False by (auto simp: check_payload_fixture_def fixture_body_def bind_res_Inr_iff split: option.splits if_splits)
qed

lemma outcome_triggers:
  "''success'' \<in> set terminal_outcomes" "expected_trigger ''success'' = Some ''provider_response''"
  "''schema_reject'' \<in> set terminal_outcomes" "expected_trigger ''schema_reject'' = Some ''provider_response''"
  "''provider_error'' \<in> set terminal_outcomes" "expected_trigger ''provider_error'' = Some ''provider_error''"
  "''invalid_usage'' \<in> set terminal_outcomes" "expected_trigger ''invalid_usage'' = Some ''invalid_usage''"
  by (simp_all add: terminal_outcomes_def expected_trigger_def)

text \<open>The provider phase: settle, report an overage, or hand over the body with the usage settled.\<close>

definition phase_done :: "run_args \<Rightarrow> fixture \<Rightarrow> bool \<Rightarrow> (gw_error, (string \<times> json) list) result \<Rightarrow> ledger_db \<Rightarrow> gateway_budget \<Rightarrow>
    (gw_error, (string \<times> json) list) result \<Rightarrow> run_state \<Rightarrow> bool" where
  "phase_done a f over body db b r s \<longleftrightarrow>
     (if over then \<not> is_ok r \<and> finished_in a (fixture_trigger f) ''actual_overage'' db b s
      else if mode f \<in> {PROVIDER_ERROR, INVALID_USAGE} then \<not> is_ok r \<and> finished_in a (fixture_trigger f) (fixture_trigger f) db b s
      else r = body \<and> settled_in a (fixture_trigger f) db b s)"

lemma settle_and_check_ok:
  assumes "no_double_fault env"
    "can_settle (ra_cap a) (ra_settlement_id a) (usage_amounts (ra_usage a)) (ra_source a) (run_trigger s) (ledger s)"
    "\<not> volatile_settled s" "\<not> persistent_settled s" "\<not> terminal_finalized s"
    "settle_budget (ra_reservation a) (gu_calls (ra_usage a)) (gu_total_tokens (ra_usage a)) (gbudget s) = (Inr vover, b)"
  shows "if overage (ra_cap a) (usage_amounts (ra_usage a)) (ledger s) \<or> vover
    then \<exists>e s'. settle_and_check env a s = (Inl e, s') \<and> finished_in a (run_trigger s) ''actual_overage'' (ledger s) b s'
    else \<exists>s'. settle_and_check env a s = (Inr (), s') \<and> settled_in a (run_trigger s) (ledger s) b s'"
proof -
  obtain s1 where s1: "settle_started_usage env a s = (Inr (), s1)" "settled_in a (run_trigger s) (ledger s) b s1"
      "persistent_over_limit s1 = overage (ra_cap a) (usage_amounts (ra_usage a)) (ledger s)" "volatile_over_limit s1 = vover"
    using settle_started_usage_ok [OF assms] by blast
  show ?thesis
    using raise_settlement_overage_ok [OF assms(1) s1(2)] s1
    by (auto simp: settle_and_check_def sx_seq_def sx_bind_def)
qed

lemma start_provider_ok:
  assumes faults: "no_double_fault env"
    and can: "can_settle (ra_cap a) (ra_settlement_id a) (usage_amounts (ra_usage a)) (ra_source a) (fixture_trigger f) (ledger s)"
    and fresh: "\<not> volatile_settled s" "\<not> persistent_settled s" "\<not> terminal_finalized s"
    and vol: "settle_budget (ra_reservation a) (gu_calls (ra_usage a)) (gu_total_tokens (ra_usage a)) (gbudget s) = (Inr vover, b)"
    and body: "mode f \<in> {MINIMAL_SUCCESS, PAYLOAD} \<longrightarrow> is_ok (fixture_body f schema role task prompt)"
  shows "\<exists>r s'. start_provider env a f schema role task prompt s = (r, s')
     \<and> phase_done a f (overage (ra_cap a) (usage_amounts (ra_usage a)) (ledger s) \<or> vover)
          (fixture_body f schema role task prompt) (ledger s) b r s'"
proof -
  let ?s = "s\<lparr>run_trigger := fixture_trigger f\<rparr>"
  let ?over = "overage (ra_cap a) (usage_amounts (ra_usage a)) (ledger s) \<or> vover"
  have set: "set_trigger (fixture_trigger f) s = (Inr (), ?s)" by (simp add: set_trigger_def sx_modify_def)
  have sc: "if ?over
    then \<exists>e s'. settle_and_check env a ?s = (Inl e, s') \<and> finished_in a (fixture_trigger f) ''actual_overage'' (ledger s) b s'
    else \<exists>s'. settle_and_check env a ?s = (Inr (), s') \<and> settled_in a (fixture_trigger f) (ledger s) b s'"
    using settle_and_check_ok [OF faults, of a ?s vover b] can fresh vol by (simp cong: if_cong)
  have fin: "\<exists>s''. finalize_terminal env a (fixture_trigger f) s' = (Inr (), s'') \<and> finished_in a (fixture_trigger f) (fixture_trigger f) (ledger s) b s''"
    if "settled_in a (fixture_trigger f) (ledger s) b s'" "mode f \<in> {PROVIDER_ERROR, INVALID_USAGE}" for s'
    using finalize_terminal_ok [OF faults that(1), of "fixture_trigger f"] that(2) outcome_triggers
    by (auto simp: fixture_trigger_def)
  show ?thesis
  proof (cases "mode f \<in> {PROVIDER_ERROR, INVALID_USAGE}")
    case True
    then obtain err where eq: "start_provider env a f schema role task prompt =
        sx_seq (set_trigger (fixture_trigger f)) (sx_seq (settle_and_check env a)
          (sx_seq (finalize_terminal env a (fixture_trigger f)) (sx_raise err)))"
      by (auto simp: start_provider_def fixture_trigger_def)
    show ?thesis
    proof (cases ?over)
      case True
      then show ?thesis using eq sc set by (auto simp: phase_done_def sx_seq_def sx_bind_def)
    next
      case False
      then obtain s' where s': "settle_and_check env a ?s = (Inr (), s')" "settled_in a (fixture_trigger f) (ledger s) b s'"
        using sc by auto
      obtain s'' where "finalize_terminal env a (fixture_trigger f) s' = (Inr (), s'')"
          "finished_in a (fixture_trigger f) (fixture_trigger f) (ledger s) b s''"
        using fin [OF s'(2) True] by blast
      then show ?thesis using eq s' set False True by (simp add: phase_done_def sx_seq_def sx_bind_def sx_raise_def)
    qed
  next
    case False
    then have m: "mode f \<in> {MINIMAL_SUCCESS, PAYLOAD}" by (cases "mode f") auto
    then obtain raw where raw: "fixture_body f schema role task prompt = Inr raw" using body by (auto simp: is_ok_iff)
    have trg: "fixture_trigger f = ''provider_response''" using m by (auto simp: fixture_trigger_def)
    have eq: "start_provider env a f schema role task prompt s = sx_seq (settle_and_check env a) (sx_return raw) ?s"
      using False raw set
      by (simp add: start_provider_def fixture_body_def trg lift_res_def sx_seq_def sx_bind_def sx_return_def split: if_splits)
    show ?thesis
      using sc False raw unfolding eq by (auto simp: phase_done_def sx_seq_def sx_bind_def sx_return_def split: if_splits)
  qed
qed

lemma decode_and_finish_ok:
  assumes faults: "no_double_fault env" and st: "settled_in a ''provider_response'' db b s"
  shows "\<exists>r s'. decode_and_finish env a schema prompt raw s = (r, s')
     \<and> finished_in a ''provider_response'' (if is_ok (decode_result env schema raw) then ''success'' else ''schema_reject'') db b s'
     \<and> is_ok r = is_ok (decode_result env schema raw)"
proof -
  let ?oc = "if is_ok (decode_result env schema raw) then ''success'' else ''schema_reject''"
  have "?oc \<in> set terminal_outcomes" "expected_trigger ?oc = Some ''provider_response''"
    using outcome_triggers by simp_all
  then obtain s' where "finalize_terminal env a ?oc s = (Inr (), s')" "finished_in a ''provider_response'' ?oc db b s'"
    using finalize_terminal_ok [OF faults st] by blast
  then show ?thesis
    by (cases "decode_result env schema raw")
       (auto simp: decode_and_finish_def sx_seq_def sx_bind_def sx_raise_def sx_return_def)
qed

lemma run_started_ok:
  assumes faults: "no_double_fault env"
    and can: "can_settle (ra_cap a) (ra_settlement_id a) (usage_amounts (ra_usage a)) (ra_source a) (fixture_trigger f) (ledger s)"
    and fresh: "\<not> volatile_settled s" "\<not> persistent_settled s" "\<not> terminal_finalized s"
    and vol: "settle_budget (ra_reservation a) (gu_calls (ra_usage a)) (gu_total_tokens (ra_usage a)) (gbudget s) = (Inr vover, b)"
    and body: "mode f \<in> {MINIMAL_SUCCESS, PAYLOAD} \<longrightarrow> is_ok (fixture_body f schema role task prompt)"
    and oc: "oc = run_outcome env f schema role task prompt (overage (ra_cap a) (usage_amounts (ra_usage a)) (ledger s) \<or> vover)"
  shows "\<exists>r s'. run_started env a f schema role task prompt s = (r, s')
     \<and> finished_in a (fixture_trigger f) oc (ledger s) b s' \<and> (is_ok r \<longleftrightarrow> oc = ''success'')"
proof -
  let ?over = "overage (ra_cap a) (usage_amounts (ra_usage a)) (ledger s) \<or> vover"
  obtain r s1 where sp: "start_provider env a f schema role task prompt s = (r, s1)"
    and ph: "phase_done a f ?over (fixture_body f schema role task prompt) (ledger s) b r s1"
    using start_provider_ok [OF assms(1-7)] by blast
  show ?thesis
  proof (cases "?over \<or> mode f \<in> {PROVIDER_ERROR, INVALID_USAGE}")
    case True
    let ?oc = "if ?over then ''actual_overage'' else fixture_trigger f"
    have fin: "finished_in a (fixture_trigger f) ?oc (ledger s) b s1" and bad: "\<not> is_ok r"
      using ph True by (auto simp: phase_done_def split: if_splits)
    obtain e where e: "r = Inl e" using bad by (cases r) auto
    have "run_started env a f schema role task prompt s = (Inl e, s1)"
      using sp e finished_settle_noop [OF fin, of env] finished_recover_noop [OF fin, of env]
      by (simp add: run_started_def sx_catch_def sx_bind_def sx_finally_def)
    moreover have "oc = ?oc" "?oc \<noteq> ''success''"
      using True by (auto simp: oc run_outcome_def fixture_trigger_def)
    ultimately show ?thesis using fin by auto
  next
    case False
    then have m: "mode f \<in> {MINIMAL_SUCCESS, PAYLOAD}" by (cases "mode f") auto
    then obtain raw where raw: "fixture_body f schema role task prompt = Inr raw" using body by (auto simp: is_ok_iff)
    have trg: "fixture_trigger f = ''provider_response''" using m by (auto simp: fixture_trigger_def)
    have st: "settled_in a ''provider_response'' (ledger s) b s1" and r: "r = Inr raw"
      using ph False raw trg by (auto simp: phase_done_def)
    obtain q s2 where d: "decode_and_finish env a schema prompt raw s1 = (q, s2)"
      "finished_in a ''provider_response'' (if is_ok (decode_result env schema raw) then ''success'' else ''schema_reject'') (ledger s) b s2"
      "is_ok q = is_ok (decode_result env schema raw)"
      using decode_and_finish_ok [OF faults st] by blast
    have "run_started env a f schema role task prompt s = (q, s2)"
      using sp r settled_settle_noop [OF st, of env] d finished_recover_noop [OF d(2), of env]
      by (cases q) (auto simp: run_started_def sx_catch_def sx_bind_def sx_finally_def)
    moreover have "oc = (if is_ok (decode_result env schema raw) then ''success'' else ''schema_reject'')"
      using False raw by (simp add: oc run_outcome_def)
    ultimately show ?thesis using d trg by auto
  qed
qed

lemma find_settlement_create_tables [simp]:
  "wf_ledger db \<Longrightarrow> find_settlement b s (create_tables db) = find_settlement b s db"
  by (simp add: find_settlement_def)

lemma reserve_fresh:
  assumes "uuid \<notin> fst ` set (reservations b)" "calls_used b + reserved_calls b + 1 \<le> max_calls b"
    "tokens_used b + reserved_tokens b + t \<le> max_tokens b" "0 \<le> t"
  defines "r \<equiv> \<lparr>reservation_id = uuid, r_calls = 1, r_tokens = t\<rparr>"
  shows "reserve uuid 1 t b = (Inr r, b\<lparr>reserved_calls := reserved_calls b + 1, reserved_tokens := reserved_tokens b + t,
      reservations := reservations b @ [(uuid, r)]\<rparr>)"
  using assms by (simp add: reserve_def Let_def alist_update_fresh)

lemma settle_budget_fresh:
  assumes ok: "gb_ok b" and fresh: "uuid \<notin> fst ` set (reservations b)" and t: "0 \<le> t"
  defines "r \<equiv> \<lparr>reservation_id = uuid, r_calls = 1, r_tokens = t\<rparr>"
  shows "settle_budget r 1 n (b\<lparr>reserved_calls := reserved_calls b + 1, reserved_tokens := reserved_tokens b + t,
      reservations := reservations b @ [(uuid, r)]\<rparr>)
    = (Inr (calls_used b + 1 > max_calls b \<or> tokens_used b + max 0 n > max_tokens b),
       b\<lparr>calls_used := calls_used b + 1, tokens_used := tokens_used b + max 0 n\<rparr>)"
proof -
  let ?b = "b\<lparr>reserved_calls := reserved_calls b + 1, reserved_tokens := reserved_tokens b + t,
      reservations := reservations b @ [(uuid, r)]\<rparr>"
  have "gb_ok ?b" using ok fresh t by (auto simp: gb_ok_def r_def)
  moreover have "map_of (reservations ?b) (reservation_id r) = Some r"
    using fresh by (simp add: r_def map_add_def map_of_eq_None_iff split: option.splits)
       (metis image_eqI fst_conv map_of_SomeD)
  ultimately have "release_exact r ?b = (Inr True, b)"
    using release_exact_member [of ?b r] alist_delete_append [OF fresh, of r] by (simp add: r_def)
  then show ?thesis by (simp add: settle_budget_def Let_def sx_bind_def)
qed

lemma settlement_usage_valid:
  assumes "check_fixture f = Inr ()" "0 \<le> r_tokens r" "0 \<le> r_calls r"
  shows "check_settle_amounts (amounts_of (usage_amounts (fst (settlement_usage (fixture_usage f) r)))) = Inr ()"
    and "snd (settlement_usage (fixture_usage f) r) \<in> set usage_sources"
    and "gu_calls (fst (settlement_usage (fixture_usage f) r)) = r_calls r"
proof -
  have "\<forall>u. fixture_usage f = Some u \<longrightarrow> check_fixture_usage u = Inr ()"
    using assms(1) by (auto simp: check_fixture_def bind_res_Inr_iff)
  then show "check_settle_amounts (amounts_of (usage_amounts (fst (settlement_usage (fixture_usage f) r)))) = Inr ()"
    using assms(2,3)
    by (auto simp: settlement_usage_def usage_amounts_def amounts_of_def check_fixture_usage_def split: option.splits if_splits)
  show "snd (settlement_usage (fixture_usage f) r) \<in> set usage_sources" "gu_calls (fst (settlement_usage (fixture_usage f) r)) = r_calls r"
    by (auto simp: settlement_usage_def usage_sources_def split: option.splits)
qed

lemma fixture_trigger_valid: "fixture_trigger f \<in> set charge_triggers"
  by (cases "mode f") (simp_all add: fixture_trigger_def charge_triggers_def)

subsection \<open>Banned keys, declaratively\<close>

inductive occurs_key :: "string \<Rightarrow> json \<Rightarrow> bool" where
  here: "(k, v) \<in> set ps \<Longrightarrow> occurs_key k (JObj ps)"
| in_object: "(k', v) \<in> set ps \<Longrightarrow> occurs_key k v \<Longrightarrow> occurs_key k (JObj ps)"
| in_array: "v \<in> set vs \<Longrightarrow> occurs_key k v \<Longrightarrow> occurs_key k (JArr vs)"

inductive_simps occurs_key_simps [simp]:
  "occurs_key k (JObj ps)" "occurs_key k (JArr vs)" "occurs_key k JNull" "occurs_key k (JBool b)"
  "occurs_key k (JInt n)" "occurs_key k (JFloat t)" "occurs_key k (JStr s)"

lemma find_banned_keys_iff:
  "find_banned_keys path v = [] \<longleftrightarrow> (\<forall>k \<in> set banned_keys. \<not> occurs_key k v)"
  "banned_in_items path ps = [] \<longleftrightarrow> (\<forall>k \<in> set banned_keys. \<forall>(k', v) \<in> set ps. k' \<noteq> k \<and> \<not> occurs_key k v)"
  "banned_in_elems path i vs = [] \<longleftrightarrow> (\<forall>k \<in> set banned_keys. \<forall>v \<in> set vs. \<not> occurs_key k v)"
proof (induction path v and path ps and path i vs rule: find_banned_keys_banned_in_items_banned_in_elems.induct)
  case (1 path ps)
  then show ?case by (auto; blast)
qed (auto simp: Let_def)

subsection \<open>Properties of the gateway\<close>

text \<open>C1: One run that passes the pre-call checks charges exactly once, whatever single faults the
  ledger calls meet. The ledger gains one settlement row, charged with the measured usage (or the
  reserved estimate) and already finalized with the outcome of the run; its counters grow by exactly that
  usage; the volatile budget has the reservation gone and the usage added; and the run returns a
  result exactly when the recorded outcome is success.\<close>

theorem run_settles_exactly_once:
  assumes "wf_ledger db" "gb_ok b" "no_double_fault env" "schema \<in> set allowed_output_schemas"
    "require_exact_budget_capability (case research_budget of None \<Rightarrow> self_cap | Some c \<Rightarrow> Some c) = Inr cap"
    "check_fixture f = Inr ()" "est = max 1 (int (length prompt div 4))"
    "calls_used b + reserved_calls b + 1 \<le> max_calls b" "tokens_used b + reserved_tokens b + est \<le> max_tokens b"
    "uuid1 \<notin> fst ` set (reservations b)" "validate_settlement_id uuid2 = Inr ()" "find_settlement (budget_id cap) uuid2 db = None"
    "settlement_usage (fixture_usage f) \<lparr>reservation_id = uuid1, r_calls = 1, r_tokens = est\<rparr> = (u, src)"
    "oc = run_outcome env f schema role task prompt (overage cap (usage_amounts u) db
            \<or> calls_used b + 1 > max_calls b \<or> tokens_used b + max 0 (gu_total_tokens u) > max_tokens b)"
  shows "\<exists>res db'. run env f self_cap research_budget False schema role task prompt uuid1 uuid2 (b, db)
        = (res, b\<lparr>calls_used := calls_used b + 1, tokens_used := tokens_used b + max 0 (gu_total_tokens u)\<rparr>, db')
     \<and> run_recorded cap uuid2 (usage_amounts u) src (fixture_trigger f) oc db db'
     \<and> (is_ok res \<longleftrightarrow> oc = ''success'')"
proof -
  let ?r = "\<lparr>reservation_id = uuid1, r_calls = 1, r_tokens = est\<rparr>"
  let ?b1 = "b\<lparr>reserved_calls := reserved_calls b + 1, reserved_tokens := reserved_tokens b + est, reservations := reservations b @ [(uuid1, ?r)]\<rparr>"
  let ?a = "\<lparr>ra_cap = cap, ra_reservation = ?r, ra_settlement_id = uuid2, ra_usage = u, ra_source = src\<rparr>"
  let ?s0 = "\<lparr>gbudget = ?b1, ledger = db, ledger_calls = 0, volatile_settled = False, persistent_settled = False,
      persistent_over_limit = False, volatile_over_limit = False, run_trigger = ''provider_error'',
      terminal_finalized = False, terminal_intent = None\<rparr>"
  have est: "0 \<le> est" using assms(7) by simp
  have us: "check_settle_amounts (amounts_of (usage_amounts u)) = Inr ()" "src \<in> set usage_sources" "gu_calls u = 1"
    using settlement_usage_valid [OF assms(6), of ?r] est assms(13) by simp_all
  have can: "can_settle cap uuid2 (usage_amounts u) src (fixture_trigger f) db"
    using assms(1,11,12) us fixture_trigger_valid by (simp add: can_settle_def)
  have vol: "settle_budget ?r (gu_calls u) (gu_total_tokens u) ?b1
      = (Inr (calls_used b + 1 > max_calls b \<or> tokens_used b + max 0 (gu_total_tokens u) > max_tokens b),
         b\<lparr>calls_used := calls_used b + 1, tokens_used := tokens_used b + max 0 (gu_total_tokens u)\<rparr>)"
    unfolding us(3) using settle_budget_fresh [OF assms(2,10) est] .
  have body: "mode f \<in> {MINIMAL_SUCCESS, PAYLOAD} \<longrightarrow> is_ok (fixture_body f schema role task prompt)"
    using check_fixture_body [OF assms(6,4)] by blast
  have "\<exists>res s'. run_started env ?a f schema role task prompt ?s0 = (res, s')
      \<and> finished_in ?a (fixture_trigger f) oc (ledger ?s0) (b\<lparr>calls_used := calls_used b + 1, tokens_used := tokens_used b + max 0 (gu_total_tokens u)\<rparr>) s'
      \<and> (is_ok res \<longleftrightarrow> oc = ''success'')"
    by (rule run_started_ok [OF assms(3)]) (use can vol body assms(14) in simp_all)
  then obtain res s' where st: "run_started env ?a f schema role task prompt ?s0 = (res, s')"
    and fin: "finished_in ?a (fixture_trigger f) oc db (b\<lparr>calls_used := calls_used b + 1, tokens_used := tokens_used b + max 0 (gu_total_tokens u)\<rparr>) s'"
    and ok: "is_ok res \<longleftrightarrow> oc = ''success''"
    by auto
  have "run env f self_cap research_budget False schema role task prompt uuid1 uuid2 (b, db) = (res, gbudget s', ledger s')"
    using assms(4-7,13) reserve_fresh [OF assms(10,8,9) est] st
    by (simp add: run_def require_exact_fixture_def Let_def)
  then show ?thesis using fin ok by (auto simp: finished_in_def)
qed

theorem run_settles_exactly_once_witness:
  "let cap = \<lparr>budget_id = ''b'', limits = default_offline_budget\<rparr>;
       f = \<lparr>mode = MINIMAL_SUCCESS, payload_json = None, fixture_usage = None, error_message = None\<rparr>;
       env = \<lparr>fault_at = (\<lambda>k. if k = 0 then FailAfter else NoFault), clk_at = (\<lambda>_ _. 0), decoder = (\<lambda>_ _. Inl ''none''),
              spec_version = (\<lambda>_ :: unit. None), py_str = (\<lambda>_. []), digest = (\<lambda>p. p)\<rparr>
   in \<exists>res db'. run env f (Some cap) None False ''Insight'' ''r'' ''t'' ''hello'' ''u1'' ''u2'' (new_gateway_budget 20 100000, empty_ledger)
        = (res, (new_gateway_budget 20 100000)\<lparr>calls_used := 1, tokens_used := 1\<rparr>, db') \<and> is_ok res
      \<and> used ''b'' ''model_calls'' db' = 1"
proof -
  let ?cap = "\<lparr>budget_id = ''b'', limits = default_offline_budget\<rparr>"
  let ?f = "\<lparr>mode = MINIMAL_SUCCESS, payload_json = None, fixture_usage = None, error_message = None\<rparr>"
  let ?env = "\<lparr>fault_at = (\<lambda>k. if k = 0 then FailAfter else NoFault), clk_at = (\<lambda>_ _. 0), decoder = (\<lambda>_ _. Inl ''none''),
              spec_version = (\<lambda>_ :: unit. None), py_str = (\<lambda>_. []), digest = (\<lambda>p. p)\<rparr>"
  let ?b = "new_gateway_budget 20 100000"
  let ?u = "\<lparr>gu_input_tokens = 1, gu_output_tokens = 0, gu_total_tokens = 1, gu_cached_tokens = 0, gu_calls = 1\<rparr>"
  have b: "reservations ?b = []" "calls_used ?b = 0" "reserved_calls ?b = 0" "max_calls ?b = 20"
      "tokens_used ?b = 0" "reserved_tokens ?b = 0" "max_tokens ?b = 100000"
    by (simp_all add: new_gateway_budget_def)
  have cap: "require_exact_budget_capability (Some ?cap) = Inr ?cap" by code_simp
  have new: "find_settlement ''b'' ''u2'' empty_ledger = None" by code_simp
  have oc: "''success'' = run_outcome ?env ?f ''Insight'' ''r'' ''t'' ''hello'' (overage ?cap (usage_amounts ?u) empty_ledger
        \<or> calls_used ?b + 1 > max_calls ?b \<or> tokens_used ?b + max 0 (gu_total_tokens ?u) > max_tokens ?b)"
    by code_simp
  have "\<exists>res db'. run ?env ?f (Some ?cap) None False ''Insight'' ''r'' ''t'' ''hello'' ''u1'' ''u2'' (?b, empty_ledger)
        = (res, ?b\<lparr>calls_used := calls_used ?b + 1, tokens_used := tokens_used ?b + max 0 (gu_total_tokens ?u)\<rparr>, db')
     \<and> run_recorded ?cap ''u2'' (usage_amounts ?u) ''reserved_estimate'' (fixture_trigger ?f) ''success'' empty_ledger db'
     \<and> (is_ok res \<longleftrightarrow> ''success'' = ''success'')"
    by (rule run_settles_exactly_once [OF _ _ _ _ _ _ refl _ _ _ _ _ _ oc])
       (simp_all add: b cap no_double_fault_def allowed_output_schemas_def check_fixture_def validate_settlement_id_def
          strip_def py_isspace_def new settlement_usage_def)
  moreover have "amount_of (amounts_of (usage_amounts ?u)) ''model_calls'' = 1" by code_simp
  ultimately show ?thesis by (auto simp: Let_def b run_recorded_def)
qed

text \<open>A run that fails a pre-call check (override, schema, capability, fixture, volatile budget)
  raises with the volatile budget and the ledger untouched.\<close>

theorem run_refusal_changes_nothing:
  assumes "operator_override \<or> schema \<notin> set allowed_output_schemas
     \<or> \<not> is_ok (require_exact_budget_capability (case research_budget of None \<Rightarrow> self_cap | Some c \<Rightarrow> Some c))
     \<or> \<not> is_ok (check_fixture f)
     \<or> calls_used b + reserved_calls b + 1 > max_calls b
     \<or> tokens_used b + reserved_tokens b + max 1 (int (length prompt div 4)) > max_tokens b"
  shows "\<exists>e. run env f self_cap research_budget operator_override schema role task prompt uuid1 uuid2 (b, db) = (Inl e, b, db)"
proof -
  let ?est = "max 1 (int (length prompt div 4))"
  have full: "calls_used b + reserved_calls b + 1 > max_calls b \<or> tokens_used b + reserved_tokens b + ?est > max_tokens b \<Longrightarrow>
      \<exists>e. reserve uuid1 1 ?est b = (Inl e, b)"
    by (auto simp: reserve_def Let_def)
  show ?thesis
    using assms full
    by (auto simp: run_def require_exact_fixture_def is_ok_def split: sum.splits prod.splits)
qed

theorem run_refusal_changes_nothing_witness:
  "\<exists>e. run \<lparr>fault_at = (\<lambda>_. NoFault), clk_at = (\<lambda>_ _. 0), decoder = (\<lambda>_ _. Inl ''none''),
              spec_version = (\<lambda>_ :: unit. None), py_str = (\<lambda>_. []), digest = (\<lambda>p. p)\<rparr>
       \<lparr>mode = MINIMAL_SUCCESS, payload_json = None, fixture_usage = None, error_message = None\<rparr>
       None None False ''Insight'' ''r'' ''t'' ''hello'' ''u1'' ''u2'' (new_gateway_budget 20 100000, empty_ledger)
     = (Inl e, new_gateway_budget 20 100000, empty_ledger)"
  by (rule run_refusal_changes_nothing) (simp add: require_exact_budget_capability_def)

text \<open>C8: Reservation accounting of the volatile budget. In every state reached from a new budget the
  reserved totals are the sums over the live reservations, and each live reservation can be
  released: the first release takes exactly it out, a second one returns false and changes nothing.\<close>

theorem reservations_conserved:
  assumes "gb_step\<^sup>*\<^sup>* (new_gateway_budget mc mt) b" "map_of (reservations b) (reservation_id r) = Some r"
  shows "reserved_calls b = sum_list (map (r_calls \<circ> snd) (reservations b))
    \<and> reserved_tokens b = sum_list (map (r_tokens \<circ> snd) (reservations b))
    \<and> fst (release_reservation r b) = Inr True
    \<and> reserved_calls (snd (release_reservation r b)) = reserved_calls b - r_calls r
    \<and> release_reservation r (snd (release_reservation r b)) = (Inr False, snd (release_reservation r b))"
proof -
  have ok: "gb_ok b" using gb_steps_ok [OF assms(1)] by simp
  have "map_of (AList.delete (reservation_id r) (reservations b)) (reservation_id r) = None"
    by (simp add: AList.delete_conv)
  then show ?thesis
    using ok release_exact_member [OF ok assms(2)]
    by (simp add: gb_ok_def release_reservation_def) (simp add: release_exact_def)
qed

theorem reservations_conserved_witness:
  "let b = snd (reserve ''a'' 1 10 (new_gateway_budget 20 100)); r = \<lparr>reservation_id = ''a'', r_calls = 1, r_tokens = 10\<rparr>
   in fst (release_reservation r b) = Inr True \<and> release_reservation r (snd (release_reservation r b)) = (Inr False, snd (release_reservation r b))"
proof -
  let ?init = "new_gateway_budget 20 100"
  let ?b = "snd (reserve ''a'' 1 10 ?init)"
  have "gb_step ?init ?b" by (rule step_reserve) (simp add: new_gateway_budget_def)
  then have steps: "gb_step\<^sup>*\<^sup>* ?init ?b" by simp
  have "map_of (reservations ?b) ''a'' = Some \<lparr>reservation_id = ''a'', r_calls = 1, r_tokens = 10\<rparr>" by code_simp
  then show ?thesis
    using reservations_conserved [OF steps, of "\<lparr>reservation_id = ''a'', r_calls = 1, r_tokens = 10\<rparr>"]
    by (simp add: Let_def)
qed

text \<open>C9: Strict decoding lets no executable field through: a body it accepts has no banned key at any
  nesting depth, and a body with one is rejected.\<close>

theorem decode_rejects_banned_keys:
  assumes "body = filter (\<lambda>(k, v). k \<notin> {''schema'', ''gateway''}) payload_items"
  shows "if \<exists>k \<in> set banned_keys. occurs_key k (JObj body)
    then \<exists>m. decode_typed env schema payload_items = Inl (GSchemaRejected m)
    else ''operator_override'' \<notin> set (map fst body) \<longrightarrow> schema = ''Insight'' \<longrightarrow>
      is_ok (decode_typed env schema payload_items) = (set (map fst body) \<subseteq> set insight_allowed_keys)"
proof -
  have "(\<exists>k \<in> set banned_keys. occurs_key k (JObj body)) \<longleftrightarrow> banned_in_items [] body \<noteq> []"
    using find_banned_keys_iff(1) [of "[]" "JObj body"] by auto
  then show ?thesis
    unfolding decode_typed_def Let_def assms [symmetric] by auto
qed

theorem decode_rejects_banned_keys_witness:
  "\<exists>m. decode_typed \<lparr>fault_at = (\<lambda>_. NoFault), clk_at = (\<lambda>_ _. 0), decoder = (\<lambda>_ _. Inl ''none''),
              spec_version = (\<lambda>_ :: unit. None), py_str = (\<lambda>_. []), digest = (\<lambda>p. p)\<rparr>
     ''Insight'' [(''summary'', JArr [JObj [(''exec'', JNull)]])] = Inl (GSchemaRejected m)"
  using decode_rejects_banned_keys [of "[(''summary'', JArr [JObj [(''exec'', JNull)]])]" "[(''summary'', JArr [JObj [(''exec'', JNull)]])]"
     "\<lparr>fault_at = (\<lambda>_. NoFault), clk_at = (\<lambda>_ _. 0), decoder = (\<lambda>_ _. Inl ''none''),
              spec_version = (\<lambda>_ :: unit. None), py_str = (\<lambda>_. []), digest = (\<lambda>p. p)\<rparr>" "''Insight''"]
  by (simp add: banned_keys_def)

end
