(* ===== verification/PyDate.thy ===== *)
theory PyDate
  imports Prelude
begin

section \<open>Python calendar dates and ISO strings\<close>

text \<open>
  The part of Python's \<open>datetime\<close> module that the sources use: \<open>date\<close> values of the
  proleptic Gregorian calendar, \<open>isoformat\<close> and \<open>fromisoformat\<close> (Python 3.11 and later:
  the calendar forms \<open>YYYY-MM-DD\<close> and \<open>YYYYMMDD\<close> and the week forms), ordinals, adding
  days, the last day of a month, and the UTC \<open>datetime.isoformat()\<close>. The facts proved
  are the ones the components rest on: ISO strings of valid dates parse back, and their
  string order is the calendar order and the order of ordinals.
\<close>

datatype date = Date (year_of: nat) (month_of: nat) (day_of: nat)

instantiation date :: linorder
begin

definition less_eq_date :: "date \<Rightarrow> date \<Rightarrow> bool" where
  "less_eq_date a b \<longleftrightarrow>
     year_of a < year_of b \<or> year_of a = year_of b \<and>
       (month_of a < month_of b \<or> month_of a = month_of b \<and> day_of a \<le> day_of b)"

definition less_date :: "date \<Rightarrow> date \<Rightarrow> bool" where
  "less_date a b \<longleftrightarrow>
     year_of a < year_of b \<or> year_of a = year_of b \<and>
       (month_of a < month_of b \<or> month_of a = month_of b \<and> day_of a < day_of b)"

instance
  by standard (auto simp: less_eq_date_def less_date_def date.expand)

end

definition is_leap :: "nat \<Rightarrow> bool" where
  "is_leap y \<longleftrightarrow> y mod 4 = 0 \<and> (y mod 100 \<noteq> 0 \<or> y mod 400 = 0)"

definition days_in_month :: "nat \<Rightarrow> nat \<Rightarrow> nat" where
  "days_in_month y m =
     (if m = 2 then (if is_leap y then 29 else 28)
      else if m = 4 \<or> m = 6 \<or> m = 9 \<or> m = 11 then 30 else 31)"

definition valid_date :: "date \<Rightarrow> bool" where
  "valid_date d \<longleftrightarrow>
     1 \<le> year_of d \<and> year_of d \<le> 9999 \<and> 1 \<le> month_of d \<and> month_of d \<le> 12 \<and>
     1 \<le> day_of d \<and> day_of d \<le> days_in_month (year_of d) (month_of d)"

definition mk_date :: "nat \<Rightarrow> nat \<Rightarrow> nat \<Rightarrow> date option" where
  "mk_date y m d = (if valid_date (Date y m d) then Some (Date y m d) else None)"

subsection \<open>Ordinals\<close>

definition days_before_year :: "nat \<Rightarrow> nat" where
  "days_before_year y = (y - 1) * 365 + (y - 1) div 4 - (y - 1) div 100 + (y - 1) div 400"

fun days_before_month :: "nat \<Rightarrow> nat \<Rightarrow> nat" where
  "days_before_month y 0 = 0"
| "days_before_month y (Suc m) = (if m = 0 then 0 else days_before_month y m + days_in_month y m)"

definition toordinal :: "date \<Rightarrow> nat" where
  "toordinal d = days_before_year (year_of d) + days_before_month (year_of d) (month_of d) + day_of d"

text \<open>The day after, which \<open>date.fromordinal(d.toordinal() + 1)\<close> and \<open>d + timedelta(days=1)\<close>
  return; after the last representable day Python raises \<open>OverflowError\<close>, here None.\<close>

definition next_day :: "date \<Rightarrow> date option" where
  "next_day d =
     (if day_of d < days_in_month (year_of d) (month_of d) then Some (Date (year_of d) (month_of d) (day_of d + 1))
      else if month_of d < 12 then Some (Date (year_of d) (month_of d + 1) 1)
      else if year_of d < 9999 then Some (Date (year_of d + 1) 1 1)
      else None)"

fun add_days :: "date \<Rightarrow> nat \<Rightarrow> date option" where
  "add_days d 0 = Some d"
| "add_days d (Suc n) = (case next_day d of None \<Rightarrow> None | Some e \<Rightarrow> add_days e n)"

definition last_of_month :: "date \<Rightarrow> date" where
  "last_of_month d = Date (year_of d) (month_of d) (days_in_month (year_of d) (month_of d))"

definition first_of_month :: "date \<Rightarrow> date" where
  "first_of_month d = Date (year_of d) (month_of d) 1"

lemma days_in_month_bounds [simp]:
  "1 \<le> days_in_month y m" "Suc 0 \<le> days_in_month y m" "days_in_month y m \<le> 31"
  by (simp_all add: days_in_month_def)

lemma days_in_month_pos [simp]: "0 < days_in_month y m"
  by (simp add: days_in_month_def)

lemma less_date_simp [simp]:
  "Date y m d < Date y' m' d' \<longleftrightarrow> y < y' \<or> y = y' \<and> (m < m' \<or> m = m' \<and> d < d')"
  by (simp add: less_date_def)

lemma less_eq_date_simp [simp]:
  "Date y m d \<le> Date y' m' d' \<longleftrightarrow> y < y' \<or> y = y' \<and> (m < m' \<or> m = m' \<and> d \<le> d')"
  by (simp add: less_eq_date_def)

lemma valid_next_day: "valid_date d \<Longrightarrow> next_day d = Some e \<Longrightarrow> valid_date e"
  by (cases d) (auto simp: valid_date_def next_day_def split: if_splits)

lemma next_day_greater: "next_day d = Some e \<Longrightarrow> d < e"
  by (cases d) (auto simp: next_day_def split: if_splits)

text \<open>There is no valid date strictly between a date and the next one.\<close>

lemma next_day_least: "valid_date d \<Longrightarrow> valid_date f \<Longrightarrow> next_day d = Some e \<Longrightarrow> d < f \<Longrightarrow> e \<le> f"
  by (cases d; cases f) (auto simp: valid_date_def next_day_def split: if_splits)

lemma next_day_None: "valid_date d \<Longrightarrow> valid_date f \<Longrightarrow> next_day d = None \<Longrightarrow> f \<le> d"
  by (cases d; cases f) (auto simp: valid_date_def next_day_def days_in_month_def split: if_splits)

lemma next_day_before: "valid_date d \<Longrightarrow> valid_date f \<Longrightarrow> d < f \<Longrightarrow> \<exists>e. next_day d = Some e \<and> e \<le> f"
  by (metis leD next_day_None next_day_least option.exhaust)

lemma div_Suc_step: "Suc k div n = k div n + (if n dvd Suc k then 1 else 0)"
  by (simp add: div_Suc dvd_eq_mod_eq_0)

lemma leap_count_step:
  fixes a b c k :: nat
  assumes "b \<le> a" and "t \<Longrightarrow> s" and "f \<Longrightarrow> t"
  shows "Suc k * 365 + (a + (if s then 1 else 0)) - (b + (if t then 1 else 0)) + (c + (if f then 1 else 0)) =
    k * 365 + a - b + c + (if s \<and> (\<not> t \<or> f) then 366 else 365)"
  using assms by (cases s; cases t; cases f) auto

lemma days_before_year_Suc:
  assumes "1 \<le> y"
  shows "days_before_year (Suc y) = days_before_year y + (if is_leap y then 366 else 365)"
proof -
  obtain k where k: "y = Suc k" using assms by (cases y) auto
  have m100: "100 dvd Suc k \<Longrightarrow> 4 dvd Suc k"
    by (rule dvd_trans [where b = 100]) simp_all
  have m400: "400 dvd Suc k \<Longrightarrow> 100 dvd Suc k"
    by (rule dvd_trans [where b = 400]) simp_all
  have le: "k div 100 \<le> k div 4" by (rule div_le_mono2) simp_all
  have leap: "is_leap y \<longleftrightarrow> 4 dvd Suc k \<and> (\<not> 100 dvd Suc k \<or> 400 dvd Suc k)"
    by (simp only: is_leap_def k dvd_eq_mod_eq_0)
  have "days_before_year (Suc y) = Suc k * 365 + Suc k div 4 - Suc k div 100 + Suc k div 400"
    by (simp only: days_before_year_def k diff_Suc_1)
  also have "\<dots> = k * 365 + k div 4 - k div 100 + k div 400 + (if is_leap y then 366 else 365)"
    unfolding div_Suc_step leap by (rule leap_count_step [OF le m100 m400])
  also have "k * 365 + k div 4 - k div 100 + k div 400 = days_before_year y"
    by (simp only: days_before_year_def k diff_Suc_1)
  finally show ?thesis .
qed

lemma days_in_year: "days_before_month y 12 + days_in_month y 12 = (if is_leap y then 366 else 365)"
  by (simp add: days_in_month_def numeral_eq_Suc)

lemma toordinal_next_day:
  assumes "valid_date d" and "next_day d = Some e"
  shows "toordinal e = Suc (toordinal d)"
proof (cases d)
  case (Date y m dd)
  have y: "1 \<le> y" and m: "1 \<le> m" "m \<le> 12" and dd: "dd \<le> days_in_month y m"
    using assms(1) by (simp_all add: Date valid_date_def)
  consider (day) "dd < days_in_month y m" | (month) "dd = days_in_month y m" "m < 12"
    | (year) "dd = days_in_month y m" "m = 12"
    using dd m by linarith
  then show ?thesis
  proof cases
    case day
    then show ?thesis using assms(2) by (auto simp: Date next_day_def toordinal_def)
  next
    case month
    obtain k where "m = Suc k" using m(1) by (cases m) auto
    with month assms(2) show ?thesis by (auto simp: Date next_day_def toordinal_def)
  next
    case year
    have "e = Date (Suc y) 1 1"
      using year assms(2) by (simp add: Date next_day_def split: if_splits)
    then show ?thesis
      using year days_before_year_Suc [OF y] days_in_year [of y]
      by (simp add: Date toordinal_def numeral_eq_Suc)
  qed
qed

lemma add_days_valid: "valid_date d \<Longrightarrow> add_days d n = Some e \<Longrightarrow> valid_date e"
  by (induction n arbitrary: d) (auto split: option.splits dest: valid_next_day)

lemma toordinal_add_days: "valid_date d \<Longrightarrow> add_days d n = Some e \<Longrightarrow> toordinal e = toordinal d + n"
proof (induction n arbitrary: d)
  case 0
  then show ?case by simp
next
  case (Suc n)
  then obtain f where f: "next_day d = Some f" "add_days f n = Some e"
    by (auto split: option.splits)
  then have "toordinal e = toordinal f + n"
    using Suc.IH Suc.prems(1) valid_next_day by blast
  then show ?case using toordinal_next_day [OF Suc.prems(1) f(1)] by simp
qed

lemma add_days_ge: "add_days d n = Some e \<Longrightarrow> d \<le> e"
proof (induction n arbitrary: d)
  case 0
  then show ?case by simp
next
  case (Suc n)
  then obtain f where "next_day d = Some f" "add_days f n = Some e"
    by (auto split: option.splits)
  then show ?case using Suc.IH next_day_greater by fastforce
qed

text \<open>Every valid date is a number of days after any earlier one, so ordinals order dates.\<close>

lemma days_before_month_mono: "m \<le> m' \<Longrightarrow> days_before_month y m \<le> days_before_month y m'"
  by (induction m') (auto simp: le_Suc_eq)

lemma days_before_month_less:
  assumes "1 \<le> m" and "m < m'"
  shows "days_before_month y m + days_in_month y m \<le> days_before_month y m'"
proof -
  have "days_before_month y m + days_in_month y m = days_before_month y (Suc m)"
    using assms by simp
  also have "\<dots> \<le> days_before_month y m'" using assms by (intro days_before_month_mono) simp
  finally show ?thesis .
qed

lemma days_before_year_less:
  assumes "1 \<le> y" and "y < y'"
  shows "days_before_year y + (if is_leap y then 366 else 365) \<le> days_before_year y'"
  using assms
proof (induction y')
  case 0
  then show ?case by simp
next
  case (Suc y')
  show ?case
  proof (cases "y = y'")
    case True
    then show ?thesis using Suc.prems by (simp add: days_before_year_Suc)
  next
    case False
    with Suc show ?thesis by (simp add: days_before_year_Suc split: if_splits)
  qed
qed

lemma day_of_year_bound:
  assumes "valid_date (Date y m d)"
  shows "days_before_month y m + d \<le> (if is_leap y then 366 else 365)"
proof (cases "m = 12")
  case True
  then show ?thesis using assms days_in_year [of y] by (simp add: valid_date_def)
next
  case False
  then have "days_before_month y m + days_in_month y m \<le> days_before_month y 12"
    using assms by (intro days_before_month_less) (auto simp: valid_date_def)
  then show ?thesis using assms days_in_year [of y] by (simp add: valid_date_def split: if_splits)
qed

lemma toordinal_strict_mono:
  assumes "valid_date a" and "valid_date b" and "a < b"
  shows "toordinal a < toordinal b"
proof (cases a; cases b)
  fix y m d y' m' d'
  assume ab: "a = Date y m d" "b = Date y' m' d'"
  have d': "1 \<le> d'" and y: "1 \<le> y" and m: "1 \<le> m" and d: "d \<le> days_in_month y m"
    using assms ab by (simp_all add: valid_date_def)
  consider "y < y'" | "y = y'" "m < m'" | "y = y'" "m = m'" "d < d'"
    using assms(3) ab by auto
  then show ?thesis
  proof cases
    case 1
    have "days_before_month y m + d \<le> (if is_leap y then 366 else 365)"
      using assms(1) ab by (intro day_of_year_bound) simp
    with days_before_year_less [OF y 1] d' show ?thesis
      by (simp add: ab toordinal_def)
  next
    case 2
    with days_before_month_less [OF m 2(2), of y] d d' show ?thesis
      by (simp add: ab toordinal_def)
  next
    case 3
    then show ?thesis by (simp add: ab toordinal_def)
  qed
qed

lemma toordinal_less_iff: "valid_date a \<Longrightarrow> valid_date b \<Longrightarrow> toordinal a < toordinal b \<longleftrightarrow> a < b"
  by (metis less_asym linorder_neqE toordinal_strict_mono)

lemma toordinal_le_iff: "valid_date a \<Longrightarrow> valid_date b \<Longrightarrow> toordinal a \<le> toordinal b \<longleftrightarrow> a \<le> b"
  by (meson leD leI toordinal_less_iff)

lemma toordinal_inj: "valid_date a \<Longrightarrow> valid_date b \<Longrightarrow> toordinal a = toordinal b \<longleftrightarrow> a = b"
  by (metis less_irrefl linorder_neqE toordinal_less_iff)

lemma valid_last_of_month [simp]: "valid_date d \<Longrightarrow> valid_date (last_of_month d)"
  by (simp add: valid_date_def last_of_month_def)

lemma valid_first_of_month [simp]: "valid_date d \<Longrightarrow> valid_date (first_of_month d)"
  by (simp add: valid_date_def first_of_month_def)

lemma last_of_month_ge: "valid_date d \<Longrightarrow> d \<le> last_of_month d"
  by (cases d) (simp add: valid_date_def last_of_month_def)

lemma first_of_month_le: "valid_date d \<Longrightarrow> first_of_month d \<le> d"
  by (cases d) (simp add: valid_date_def first_of_month_def)

subsection \<open>ISO strings\<close>

definition isoformat :: "date \<Rightarrow> string" where
  "isoformat d = zpad 4 (year_of d) @ ''-'' @ zpad 2 (month_of d) @ ''-'' @ zpad 2 (day_of d)"

text \<open>\<open>strftime("%Y-%m")\<close>, the calendar-month segment id (years from 1000 on, where the C
  library pads nothing).\<close>

definition month_id :: "date \<Rightarrow> string" where
  "month_id d = zpad 4 (year_of d) @ ''-'' @ zpad 2 (month_of d)"

definition digits_at :: "string \<Rightarrow> nat \<Rightarrow> nat \<Rightarrow> nat option" where
  "digits_at s i n = (let t = take n (drop i s) in if length t = n then parse_digits 0 t else None)"

definition char_at :: "string \<Rightarrow> nat \<Rightarrow> char option" where
  "char_at s i = (if i < length s then Some (s ! i) else None)"

text \<open>Week \<open>w\<close>, day \<open>k\<close> of ISO year \<open>y\<close>: the Monday of week 1 is the Monday on or before
  January 1 if that day is at most a Thursday, else the next one.\<close>

definition iso_week_date :: "nat \<Rightarrow> nat \<Rightarrow> nat \<Rightarrow> date option" where
  "iso_week_date y w k =
     (let first = days_before_year y + 1; wd = (first + 6) mod 7;
          week53 = (first mod 7 = 4 \<or> (first mod 7 = 3 \<and> is_leap y));
          off = (if wd > 3 then 7 - int wd else - int wd) + (int w - 1) * 7 + (int k - 1)
      in if y < 1 \<or> y > 9999 \<or> \<not> ((0 < w \<and> w < 53) \<or> (w = 53 \<and> week53)) \<or> k < 1 \<or> 7 < k then None
         else if 0 \<le> off then add_days (Date y 1 1) (nat off)
         else if 2 \<le> y then Some (Date (y - 1) 12 (nat (32 + off))) else None)"

definition fromisoformat :: "string \<Rightarrow> date option" where
  "fromisoformat s =
     (if length s \<noteq> 7 \<and> length s \<noteq> 8 \<and> length s \<noteq> 10 then None
      else case digits_at s 0 4 of None \<Rightarrow> None | Some y \<Rightarrow>
        (let sep = (char_at s 4 = Some CHR ''-''); p = (if sep then 5 else 4)
         in if char_at s p = Some CHR ''W'' then
              (case digits_at s (p + 1) 2 of None \<Rightarrow> None | Some w \<Rightarrow>
                 if length s \<le> p + 3 then iso_week_date y w 1
                 else if sep \<and> char_at s (p + 3) \<noteq> Some CHR ''-'' then None
                 else (case digits_at s (if sep then p + 4 else p + 3) 1 of None \<Rightarrow> None
                       | Some k \<Rightarrow> iso_week_date y w k))
            else
              (case digits_at s p 2 of None \<Rightarrow> None | Some m \<Rightarrow>
                 if sep \<and> char_at s (p + 2) \<noteq> Some CHR ''-'' then None
                 else (case digits_at s (if sep then p + 3 else p + 2) 2 of None \<Rightarrow> None
                       | Some d \<Rightarrow> if (if sep then p + 5 else p + 4) = length s then mk_date y m d else None))))"

lemma valid_date_widths:
  "valid_date d \<Longrightarrow> year_of d < 10 ^ 4" "valid_date d \<Longrightarrow> month_of d < 10 ^ 2" "valid_date d \<Longrightarrow> day_of d < 10 ^ 2"
  using order_trans [OF _ days_in_month_bounds(3) [of "year_of d" "month_of d"], of "day_of d"]
  by (auto simp: valid_date_def)

lemma length_isoformat [simp]: "length (isoformat d) = 10"
  by (simp add: isoformat_def)

lemma digits_at_append: "length xs = i \<Longrightarrow> digits_at (xs @ ys) i n = digits_at ys 0 n"
  by (auto simp: digits_at_def)

lemma digits_at_zpad: "n < 10 ^ w \<Longrightarrow> digits_at (zpad w n @ ys) 0 w = Some n"
  by (simp add: digits_at_def parse_digits_zpad)

lemma char_at_append: "length xs = i \<Longrightarrow> char_at (xs @ c # ys) i = Some c"
  by (auto simp: char_at_def)

lemma char_at_drop: "char_at s i = Some c \<Longrightarrow> drop i s = c # drop (Suc i) s"
  by (auto simp: char_at_def Cons_nth_drop_Suc split: if_splits)

lemma digits_at_no_W:
  assumes "digits_at s i n = Some k" and "0 < n"
  shows "char_at s i \<noteq> Some CHR ''W''"
proof
  assume "char_at s i = Some CHR ''W''"
  then have "drop i s = CHR ''W'' # drop (Suc i) s" by (rule char_at_drop)
  moreover obtain n' where "n = Suc n'" using assms(2) by (cases n) auto
  ultimately show False
    using assms(1) by (simp add: digits_at_def char_digit_def split: if_splits)
qed

lemma fromisoformat_isoformat [simp]:
  assumes "valid_date d"
  shows "fromisoformat (isoformat d) = Some d"
proof -
  let ?s = "isoformat d"
  note w = valid_date_widths [OF assms]
  have y: "digits_at ?s 0 4 = Some (year_of d)"
    unfolding isoformat_def by (rule digits_at_zpad [OF w(1)])
  have c4: "char_at ?s 4 = Some CHR ''-''"
    unfolding isoformat_def by (simp add: char_at_append)
  have m: "digits_at ?s 5 2 = Some (month_of d)"
    using digits_at_append [of "zpad 4 (year_of d) @ ''-''" 5 "zpad 2 (month_of d) @ ''-'' @ zpad 2 (day_of d)" 2]
      digits_at_zpad [OF w(2)] by (simp add: isoformat_def)
  have c7: "char_at ?s 7 = Some CHR ''-''"
    using char_at_append [of "zpad 4 (year_of d) @ ''-'' @ zpad 2 (month_of d)" 7 "CHR ''-''" "zpad 2 (day_of d)"]
    by (simp add: isoformat_def)
  have dd: "digits_at ?s 8 2 = Some (day_of d)"
    using digits_at_append [of "zpad 4 (year_of d) @ ''-'' @ zpad 2 (month_of d) @ ''-''" 8 "zpad 2 (day_of d) @ []" 2]
      digits_at_zpad [OF w(3), of "[]"] by (simp add: isoformat_def)
  have c5: "char_at ?s 5 \<noteq> Some CHR ''W''"
    by (rule digits_at_no_W [OF m]) simp
  show ?thesis
    using c5 assms unfolding fromisoformat_def by (simp add: y c4 m c7 dd mk_date_def)
qed

lemma isoformat_inject: "valid_date a \<Longrightarrow> valid_date b \<Longrightarrow> isoformat a = isoformat b \<longleftrightarrow> a = b"
  by (metis fromisoformat_isoformat option.inject)

lemma isoformat_less_iff:
  assumes "valid_date a" and "valid_date b"
  shows "isoformat a < isoformat b \<longleftrightarrow> a < b"
  using valid_date_widths [OF assms(1)] valid_date_widths [OF assms(2)]
  by (simp add: isoformat_def lex_append_less_iff zpad_less_iff zpad_inject less_date_def)

lemma isoformat_le_iff: "valid_date a \<Longrightarrow> valid_date b \<Longrightarrow> isoformat a \<le> isoformat b \<longleftrightarrow> a \<le> b"
  by (meson isoformat_less_iff leD leI)

lemma mk_date_valid: "mk_date y m d = Some e \<Longrightarrow> valid_date e"
  by (auto simp: mk_date_def split: if_splits)

lemma valid_new_year: "1 \<le> y \<Longrightarrow> y \<le> 9999 \<Longrightarrow> valid_date (Date y 1 1)"
  by (simp add: valid_date_def)

lemma iso_week_date_valid:
  assumes "iso_week_date y w k = Some e"
  shows "valid_date e"
proof -
  define wd where "wd = (days_before_year y + 1 + 6) mod 7"
  define off where "off = (if wd > 3 then 7 - int wd else - int wd) + (int w - 1) * 7 + (int k - 1)"
  have wd: "wd < 7" by (simp add: wd_def)
  have y: "1 \<le> y" "y \<le> 9999" "1 \<le> w" "1 \<le> k"
    and e: "if 0 \<le> off then add_days (Date y 1 1) (nat off) = Some e else 2 \<le> y \<and> e = Date (y - 1) 12 (nat (32 + off))"
    using assms unfolding iso_week_date_def Let_def wd_def [symmetric] off_def [symmetric]
    by (auto split: if_splits)
  show ?thesis
  proof (cases "0 \<le> off")
    case True
    then show ?thesis using e add_days_valid [OF valid_new_year [OF y(1,2)]] by auto
  next
    case False
    have "- 3 \<le> off" using y wd unfolding off_def by (auto split: if_splits)
    then have "29 \<le> nat (32 + off)" "nat (32 + off) \<le> 31" using False by auto
    then show ?thesis using e False y by (auto simp: valid_date_def days_in_month_def)
  qed
qed

lemma fromisoformat_valid: "fromisoformat s = Some d \<Longrightarrow> valid_date d"
  by (auto simp: fromisoformat_def Let_def dest: mk_date_valid iso_week_date_valid split: if_splits option.splits)

lemma strip_isoformat [simp]: "strip (isoformat d) = isoformat d"
proof (rule strip_id)
  have y: "zpad 4 (year_of d) \<noteq> []" and dd: "zpad 2 (day_of d) \<noteq> []"
    by (metis length_zpad list.size(3) zero_neq_numeral)+
  show "\<not> py_isspace (hd (isoformat d))"
    using zpad_not_space [OF hd_in_set [OF y]] y by (simp add: isoformat_def)
  show "\<not> py_isspace (last (isoformat d))"
    using zpad_not_space [OF last_in_set [OF dd]] dd by (simp add: isoformat_def)
  show "isoformat d \<noteq> []" by (simp add: isoformat_def)
qed

lemma isoformat_not_Nil [simp]: "isoformat d \<noteq> []"
  by (simp add: isoformat_def)

subsection \<open>UTC timestamps\<close>

text \<open>\<open>datetime.isoformat()\<close> of an aware UTC instant: the microseconds are printed only
  when they are not zero, and the offset \<open>+00:00\<close> follows.\<close>

record instant =
  on_day :: date
  hour :: nat
  minute :: nat
  second :: nat
  microsecond :: nat

definition valid_instant :: "instant \<Rightarrow> bool" where
  "valid_instant t \<longleftrightarrow> valid_date (on_day t) \<and> hour t < 24 \<and> minute t < 60 \<and> second t < 60 \<and>
     microsecond t < 1000000"

definition micros :: "instant \<Rightarrow> nat" where
  "micros t = (((toordinal (on_day t) * 24 + hour t) * 60 + minute t) * 60 + second t) * 1000000 + microsecond t"

definition iso_utc :: "instant \<Rightarrow> string" where
  "iso_utc t = isoformat (on_day t) @ ''T'' @ zpad 2 (hour t) @ '':'' @ zpad 2 (minute t) @ '':'' @
     zpad 2 (second t) @ (if microsecond t = 0 then [] else ''.'' @ zpad 6 (microsecond t)) @ ''+00:00''"

lemma mixed_radix_step:
  fixes a b x y n :: nat
  assumes "x < n" and "a < b"
  shows "a * n + x < b * n + y"
proof -
  have "a * n + x < Suc a * n" using assms(1) by simp
  also have "Suc a * n \<le> b * n" using assms(2) by (intro mult_le_mono1) simp
  finally show ?thesis by simp
qed

lemma mixed_radix_less:
  fixes a b x y n :: nat
  assumes "x < n" and "y < n"
  shows "a * n + x < b * n + y \<longleftrightarrow> a < b \<or> (a = b \<and> x < y)"
  using mixed_radix_step [OF assms(1), of a b y] mixed_radix_step [OF assms(2), of b a x]
  by (metis add_less_cancel_left less_asym linorder_neqE_nat)

lemma mixed_radix_eq:
  fixes a b x y n :: nat
  assumes "x < n" and "y < n"
  shows "a * n + x = b * n + y \<longleftrightarrow> a = b \<and> x = y"
  using mixed_radix_less [OF assms, of a b] mixed_radix_less [OF assms(2,1), of b a]
  by (metis add_left_cancel less_irrefl linorder_neqE_nat)

lemma fraction_suffix_less_iff:
  assumes "a < 1000000" and "b < 1000000"
  shows "(if a = 0 then [] else ''.'' @ zpad 6 a) @ ''+00:00'' <
      (if b = 0 then [] else ''.'' @ zpad 6 b) @ ''+00:00'' \<longleftrightarrow> a < b"
  using assms zpad_less_iff [of a 6 b] by (auto simp: lex_append_less_iff)

text \<open>Comparing such strings compares the instants, also when one of them prints no
  fraction: \<open>+\<close> sorts before the decimal point.\<close>

lemma iso_utc_less_iff:
  assumes "valid_instant s" and "valid_instant t"
  shows "iso_utc s < iso_utc t \<longleftrightarrow> micros s < micros t"
proof -
  have v: "valid_date (on_day s)" "valid_date (on_day t)" "hour s < 24" "hour t < 24" "minute s < 60"
    "minute t < 60" "second s < 60" "second t < 60" "microsecond s < 1000000" "microsecond t < 1000000"
    using assms by (simp_all add: valid_instant_def)
  have "iso_utc s < iso_utc t \<longleftrightarrow>
      on_day s < on_day t \<or> (on_day s = on_day t \<and> (hour s < hour t \<or> (hour s = hour t \<and>
        (minute s < minute t \<or> (minute s = minute t \<and> (second s < second t \<or> (second s = second t \<and>
          microsecond s < microsecond t)))))))"
    unfolding iso_utc_def using v fraction_suffix_less_iff [OF v(9,10)]
    by (simp only: lex_append_less_iff length_isoformat length_zpad isoformat_less_iff isoformat_inject
        zpad_less_iff zpad_inject order_less_trans [where y = 60] power2_eq_square less_irrefl simp_thms)
  also have "\<dots> \<longleftrightarrow> micros s < micros t"
    unfolding micros_def using v
    by (simp only: mixed_radix_less mixed_radix_eq toordinal_less_iff toordinal_inj) blast
  finally show ?thesis .
qed

end
