(* ===== verification/MembershipRuns.thy ===== *)
theory MembershipRuns
  imports PyDate
begin

section \<open>Run-length universe membership\<close>

text \<open>
  \<open>packages/data_plane/data_contracts/membership_runs.py\<close>: a point-in-time universe stored as
  inclusive date runs of equal code lists. Dates are ISO strings as in the code and are compared as
  strings; \<open>PyDate\<close> shows that this is calendar order. Code tuples are lists; \<open>_next_day\<close> raises
  \<open>OverflowError\<close> after 9999-12-31, the generator of \<open>iter_run_days\<close> likewise, and both are errors
  here. The code's identity tests on interned tuples are equality tests here: the interning
  dictionary makes the two agree, and an empty tuple is one object in CPython.
\<close>

datatype mr_error = MValueError string | MKeyError string | MOverflowError

definition iso_date :: "string \<Rightarrow> (mr_error, string) result" where
  "iso_date value =
     (let txt = strip value in
      case fromisoformat txt of
        None \<Rightarrow> Inl (MValueError ''Invalid isoformat string'')
      | Some d \<Rightarrow> if isoformat d \<noteq> txt then Inl (MValueError ''membership date is not ISO'') else Inr txt)"

definition next_day_str :: "string \<Rightarrow> (mr_error, string) result" where
  "next_day_str v =
     (case fromisoformat v of
        None \<Rightarrow> Inl (MValueError ''Invalid isoformat string'')
      | Some d \<Rightarrow> (case next_day d of None \<Rightarrow> Inl MOverflowError | Some e \<Rightarrow> Inr (isoformat e)))"

text \<open>\<open>is_tuple\<close> is the \<open>isinstance(codes, tuple)\<close> test of the fast path.\<close>

definition canonical_run_codes :: "bool \<Rightarrow> string list \<Rightarrow> (mr_error, string list) result" where
  "canonical_run_codes is_tuple codes =
     (if is_tuple \<and> codes \<noteq> [] \<and> (\<forall>c \<in> set codes. c \<noteq> [] \<and> strip c = c) \<and> distinct codes \<and> sort codes = codes
      then Inr codes
      else let items = map strip codes in
        if items = [] \<or> (\<exists>c \<in> set items. c = []) then Inl (MValueError ''membership run codes are empty'')
        else if \<not> distinct items then Inl (MValueError ''membership run codes are not unique'')
        else if sort items \<noteq> items then Inl (MValueError ''membership run codes are not sorted'')
        else Inr items)"

record membership_run =
  run_start :: string
  run_end :: string
  run_codes :: "string list"

definition mk_run :: "string \<Rightarrow> string \<Rightarrow> bool \<Rightarrow> string list \<Rightarrow> (mr_error, membership_run) result" where
  "mk_run s e is_tuple codes =
     bind_res (iso_date s) (\<lambda>start. bind_res (iso_date e) (\<lambda>end'.
       if start > end' then Inl (MValueError ''membership run is reversed'')
       else bind_res (canonical_run_codes is_tuple codes) (\<lambda>cs. Inr \<lparr>run_start = start, run_end = end', run_codes = cs\<rparr>)))"

definition contains_day :: "membership_run \<Rightarrow> string \<Rightarrow> bool" where
  "contains_day r day \<longleftrightarrow> run_start r \<le> day \<and> day \<le> run_end r"

text \<open>The loop of \<open>validate_membership_runs\<close>: \<open>acc\<close> holds the validated runs in reverse, so its head is
  \<open>previous\<close>.\<close>

fun validate_loop :: "string \<Rightarrow> string \<Rightarrow> bool \<Rightarrow> membership_run list \<Rightarrow> membership_run list \<Rightarrow> (mr_error, membership_run list) result" where
  "validate_loop start end' coal acc [] =
     (if acc = [] then Inl (MValueError ''membership runs are empty'') else Inr (rev acc))"
| "validate_loop start end' coal acc (run # rest) =
     (if run_start run < start \<or> run_end run > end' then Inl (MValueError ''membership run is outside its period'')
      else case acc of
        [] \<Rightarrow> validate_loop start end' coal [run] rest
      | prev # before \<Rightarrow>
          if run_start run \<le> run_end prev then Inl (MValueError ''membership runs overlap or are out of order'')
          else bind_res (if coal \<and> run_codes prev = run_codes run
                         then map_sum id (\<lambda>n. n = run_start run) (next_day_str (run_end prev)) else Inr False)
            (\<lambda>adjacent.
               if adjacent
               then bind_res (mk_run (run_start prev) (run_end run) True (run_codes prev))
                      (\<lambda>merged. validate_loop start end' coal (merged # before) rest)
               else validate_loop start end' coal (run # acc) rest))"

definition validate_membership_runs :: "membership_run list \<Rightarrow> string \<Rightarrow> string \<Rightarrow> bool \<Rightarrow> (mr_error, membership_run list) result" where
  "validate_membership_runs runs period_start period_end coal =
     bind_res (iso_date period_start) (\<lambda>start. bind_res (iso_date period_end) (\<lambda>end'.
       if start > end' then Inl (MValueError ''membership period is reversed'')
       else validate_loop start end' coal [] runs))"

fun coalesce_loop :: "membership_run list \<Rightarrow> string list \<Rightarrow> string \<Rightarrow> string \<Rightarrow> (string \<times> string list) list \<Rightarrow> (mr_error, membership_run list) result" where
  "coalesce_loop runs current start end' [] =
     (if start \<noteq> [] then bind_res (mk_run start end' True current) (\<lambda>r. Inr (runs @ [r])) else Inr runs)"
| "coalesce_loop runs current start end' ((raw_day, raw_codes) # rest) =
     bind_res (iso_date raw_day) (\<lambda>day.
     bind_res (if raw_codes = current then Inr current else canonical_run_codes True raw_codes) (\<lambda>codes.
     bind_res (if start \<noteq> [] \<and> current = codes then map_sum id (\<lambda>n. n = day) (next_day_str end') else Inr False) (\<lambda>extends.
       if extends then coalesce_loop runs current start day rest
       else if start \<noteq> [] then bind_res (mk_run start end' True current) (\<lambda>r. coalesce_loop (runs @ [r]) codes day day rest)
       else coalesce_loop runs codes day day rest)))"

definition coalesce_daily_memberships :: "(string \<times> string list) list \<Rightarrow> (mr_error, membership_run list) result" where
  "coalesce_daily_memberships pairs = coalesce_loop [] [] [] [] pairs"

function search_runs :: "membership_run list \<Rightarrow> string \<Rightarrow> int \<Rightarrow> int \<Rightarrow> (mr_error, string list) result" where
  "search_runs runs day lo hi =
     (if lo \<le> hi then
        (let mid = (lo + hi) div 2; run = runs ! nat mid in
         if day < run_start run then search_runs runs day lo (mid - 1)
         else if day > run_end run then search_runs runs day (mid + 1) hi
         else Inr (run_codes run))
      else Inl (MKeyError day))"
  by pat_completeness auto
termination
  by (relation "measure (\<lambda>(runs, day, lo, hi). nat (hi - lo + 1))") auto

declare search_runs.simps [simp del]

definition codes_for_runs :: "membership_run list \<Rightarrow> string \<Rightarrow> (mr_error, string list) result" where
  "codes_for_runs runs decision_date =
     bind_res (iso_date decision_date) (\<lambda>day. search_runs runs day 0 (int (length runs) - 1))"

function run_days :: "date \<Rightarrow> date \<Rightarrow> string list \<Rightarrow> (mr_error, (string \<times> string list) list) result" where
  "run_days cursor stop codes =
     (if cursor \<le> stop then
        (case next_day cursor of
           None \<Rightarrow> Inl MOverflowError
         | Some c \<Rightarrow> bind_res (run_days c stop codes) (\<lambda>ds. Inr ((isoformat cursor, codes) # ds)))
      else Inr [])"
  by pat_completeness auto
termination
  by (relation "measures [\<lambda>(c, s, cs). 9999 - year_of c, \<lambda>(c, s, cs). 12 - month_of c, \<lambda>(c, s, cs). 31 - day_of c]")
     (auto simp: next_day_def split: if_splits intro: diff_less_mono2 less_le_trans [OF _ days_in_month_bounds(3)])

declare run_days.simps [simp del]

fun iter_run_days :: "membership_run list \<Rightarrow> (mr_error, (string \<times> string list) list) result" where
  "iter_run_days [] = Inr []"
| "iter_run_days (run # rest) =
     (case (fromisoformat (run_start run), fromisoformat (run_end run)) of
        (Some cursor, Some stop) \<Rightarrow>
          bind_res (run_days cursor stop (run_codes run)) (\<lambda>ds. bind_res (iter_run_days rest) (\<lambda>es. Inr (ds @ es)))
      | _ \<Rightarrow> Inl (MValueError ''Invalid isoformat string''))"

definition decision_dates :: "membership_run list \<Rightarrow> (mr_error, string list) result" where
  "decision_dates runs = bind_res (iter_run_days runs) (\<lambda>ds. Inr (map fst ds))"

record membership_map =
  map_runs :: "membership_run list"
  map_dates :: "string list"

definition mk_membership_map :: "membership_run list \<Rightarrow> (mr_error, membership_map) result" where
  "mk_membership_map runs = bind_res (decision_dates runs) (\<lambda>ds. Inr \<lparr>map_runs = runs, map_dates = ds\<rparr>)"

definition membership_getitem :: "membership_map \<Rightarrow> string \<Rightarrow> (mr_error, string list) result" where
  "membership_getitem m key =
     (case codes_for_runs (map_runs m) key of
        Inl (MKeyError _) \<Rightarrow> Inl (MKeyError key) | Inl (MValueError _) \<Rightarrow> Inl (MKeyError key)
      | Inl e \<Rightarrow> Inl e | Inr cs \<Rightarrow> Inr cs)"

definition membership_len :: "membership_map \<Rightarrow> nat" where
  "membership_len m = length (map_dates m)"

subsection \<open>Dates, codes and runs that validation accepts\<close>

lemma iso_date_ok: "iso_date v = Inr t \<longleftrightarrow> (\<exists>d. valid_date d \<and> t = isoformat d \<and> strip v = t)"
  by (auto simp: iso_date_def Let_def dest: fromisoformat_valid split: option.splits if_splits)

lemma iso_date_isoformat [simp]: "valid_date d \<Longrightarrow> iso_date (isoformat d) = Inr (isoformat d)"
  by (simp add: iso_date_def Let_def)

lemma next_day_str_isoformat [simp]:
  "valid_date d \<Longrightarrow> next_day_str (isoformat d) = (case next_day d of None \<Rightarrow> Inl MOverflowError | Some e \<Rightarrow> Inr (isoformat e))"
  by (simp add: next_day_str_def)

definition canonical_codes :: "string list \<Rightarrow> bool" where
  "canonical_codes cs \<longleftrightarrow> cs \<noteq> [] \<and> (\<forall>c \<in> set cs. c \<noteq> [] \<and> strip c = c) \<and> distinct cs \<and> sorted cs"

lemma canonical_run_codes_ok:
  "canonical_run_codes t cs = Inr ds \<longleftrightarrow> ds = map strip cs \<and> canonical_codes ds"
proof (cases "t \<and> cs \<noteq> [] \<and> (\<forall>c \<in> set cs. c \<noteq> [] \<and> strip c = c) \<and> distinct cs \<and> sort cs = cs")
  case True
  then have "map strip cs = cs" "canonical_codes cs" by (simp_all add: map_idI canonical_codes_def sort_eq_self_iff)
  then show ?thesis using True by (auto simp: canonical_run_codes_def)
next
  case False
  have all: "(\<forall>c \<in> set (map strip cs). c \<noteq> [] \<and> strip c = c) \<longleftrightarrow> \<not> (\<exists>c \<in> set (map strip cs). c = [])"
    by force
  show ?thesis
  proof (cases "ds = map strip cs")
    case True
    then show ?thesis
      unfolding canonical_run_codes_def if_not_P [OF False] Let_def canonical_codes_def True all sort_eq_self_iff
      by (auto simp del: set_map intro: sym [OF map_idI])
  next
    case ne: False
    then show ?thesis unfolding canonical_run_codes_def if_not_P [OF False] Let_def by auto
  qed
qed

lemma canonical_run_codes_same [simp]: "canonical_codes cs \<Longrightarrow> canonical_run_codes t cs = Inr cs"
  unfolding canonical_run_codes_ok by (auto simp: canonical_codes_def map_idI)

definition wf_run :: "membership_run \<Rightarrow> date \<Rightarrow> date \<Rightarrow> bool" where
  "wf_run r s e \<longleftrightarrow> valid_date s \<and> valid_date e \<and> s \<le> e \<and> run_start r = isoformat s \<and> run_end r = isoformat e
     \<and> canonical_codes (run_codes r)"

lemma mk_run_ok:
  "mk_run a b t cs = Inr r \<Longrightarrow> \<exists>s e. wf_run r s e \<and> run_codes r = map strip cs"
proof -
  assume "mk_run a b t cs = Inr r"
  then obtain s e where "valid_date s" "valid_date e" "\<not> isoformat e < isoformat s" "canonical_codes (map strip cs)"
      "r = \<lparr>run_start = isoformat s, run_end = isoformat e, run_codes = map strip cs\<rparr>"
    by (auto simp: mk_run_def bind_res_Inr_iff iso_date_ok canonical_run_codes_ok split: if_splits)
  then have "wf_run r s e \<and> run_codes r = map strip cs" by (simp add: wf_run_def isoformat_less_iff not_less)
  then show ?thesis by blast
qed

lemma mk_run_dates:
  "valid_date s \<Longrightarrow> valid_date e \<Longrightarrow> s \<le> e \<Longrightarrow> canonical_codes cs \<Longrightarrow>
     mk_run (isoformat s) (isoformat e) t cs = Inr \<lparr>run_start = isoformat s, run_end = isoformat e, run_codes = cs\<rparr>"
  by (simp add: mk_run_def isoformat_less_iff not_less)

definition wf_runs :: "membership_run list \<Rightarrow> bool" where
  "wf_runs rs \<longleftrightarrow> (\<forall>r \<in> set rs. \<exists>s e. wf_run r s e) \<and> sorted_wrt (\<lambda>a b. run_end a < run_start b) rs"

subsection \<open>The days of a run\<close>

lemma run_days_empty: "stop < cursor \<Longrightarrow> run_days cursor stop cs = Inr []"
  by (subst run_days.simps) (auto simp: not_le)

lemma run_days_set:
  assumes "valid_date c" "valid_date s" "run_days c s cs = Inr ds"
  shows "set ds = {(isoformat d, cs) | d. valid_date d \<and> c \<le> d \<and> d \<le> s}"
  using assms
proof (induction c s cs arbitrary: ds rule: run_days.induct)
  case (1 c s cs)
  show ?case
  proof (cases "c \<le> s")
    case True
    then obtain e es where e: "next_day c = Some e" "run_days e s cs = Inr es" "ds = (isoformat c, cs) # es"
      using "1.prems"(3) by (auto simp: run_days.simps [of c] bind_res_Inr_iff split: option.splits)
    have IH: "set es = {(isoformat d, cs) | d. valid_date d \<and> e \<le> d \<and> d \<le> s}"
      using "1.IH" [OF True e(1)] valid_next_day [OF "1.prems"(1) e(1)] "1.prems"(2) e(2) by blast
    have "valid_date d \<and> c \<le> d \<and> d \<le> s \<longleftrightarrow> d = c \<or> (valid_date d \<and> e \<le> d \<and> d \<le> s)" for d
      using next_day_least [OF "1.prems"(1) _ e(1)] next_day_greater [OF e(1)] "1.prems"(1) True
      by (metis le_less less_le_trans)
    then show ?thesis using e(3) IH by auto
  next
    case False
    then show ?thesis using "1.prems"(3) by (auto simp: run_days_empty)
  qed
qed

lemma run_days_sorted:
  assumes "valid_date c" "valid_date s" "run_days c s cs = Inr ds"
  shows "sorted_wrt (<) (map fst ds)"
  using assms
proof (induction c s cs arbitrary: ds rule: run_days.induct)
  case (1 c s cs)
  show ?case
  proof (cases "c \<le> s")
    case True
    then obtain e es where e: "next_day c = Some e" "run_days e s cs = Inr es" "ds = (isoformat c, cs) # es"
      using "1.prems"(3) by (auto simp: run_days.simps [of c] bind_res_Inr_iff split: option.splits)
    note ve = valid_next_day [OF "1.prems"(1) e(1)]
    have "isoformat c < isoformat d" if "valid_date d" "e \<le> d" for d
      using that next_day_greater [OF e(1)] "1.prems"(1) by (simp add: isoformat_less_iff)
    then show ?thesis
      using "1.IH" [OF True e(1) ve "1.prems"(2) e(2)] run_days_set [OF ve "1.prems"(2) e(2)] e(3) by auto
  next
    case False
    then show ?thesis using "1.prems"(3) by (auto simp: run_days_empty)
  qed
qed

lemma run_days_total:
  assumes "valid_date c" "valid_date s" "s < Date 9999 12 31"
  shows "\<exists>ds. run_days c s cs = Inr ds"
  using assms
proof (induction c s cs rule: run_days.induct)
  case (1 c s cs)
  show ?case
  proof (cases "c \<le> s")
    case True
    have "valid_date (Date 9999 12 31)" by (simp add: valid_date_def days_in_month_def)
    then obtain e where e: "next_day c = Some e"
      using next_day_before [OF "1.prems"(1), of "Date 9999 12 31"] True "1.prems"(3) by (meson le_less_trans)
    then show ?thesis
      using "1.IH" [OF True e valid_next_day [OF "1.prems"(1) e] "1.prems"(2,3)] True
      by (auto simp: run_days.simps [of c])
  next
    case False
    then show ?thesis by (simp add: run_days_empty)
  qed
qed

lemma run_days_join:
  assumes "valid_date s" "valid_date e" "s \<le> e" "next_day e = Some f" "f \<le> g"
  shows "run_days s g cs = bind_res (run_days s e cs) (\<lambda>A. bind_res (run_days f g cs) (\<lambda>B. Inr (A @ B)))"
  using assms
proof (induction s e cs rule: run_days.induct)
  case (1 s e cs)
  have sg: "s \<le> g" using "1.prems"(3,4,5) next_day_greater by fastforce
  show ?case
  proof (cases "s = e")
    case True
    have "run_days f e cs = Inr []" using next_day_greater [OF "1.prems"(4)] by (rule run_days_empty)
    then have "run_days s e cs = Inr [(isoformat e, cs)]" using True "1.prems"(4) by (simp add: run_days.simps [of e])
    then show ?thesis using True sg "1.prems"(4) by (simp add: run_days.simps [of e g])
  next
    case False
    then have "s < e" using "1.prems"(3) by order
    then obtain c where c: "next_day s = Some c" "c \<le> e" using next_day_before [OF "1.prems"(1,2)] by blast
    have "run_days c g cs = bind_res (run_days c e cs) (\<lambda>A. bind_res (run_days f g cs) (\<lambda>B. Inr (A @ B)))"
      using "1.IH" [OF "1.prems"(3) c(1) valid_next_day [OF "1.prems"(1) c(1)] "1.prems"(2) c(2) "1.prems"(4,5)] .
    then show ?thesis
      using sg c "1.prems"(3) by (cases "run_days c e cs"; cases "run_days f g cs") (simp_all add: run_days.simps [of s])
  qed
qed

lemma iter_run_days_append:
  "iter_run_days (xs @ ys) = bind_res (iter_run_days xs) (\<lambda>ds. bind_res (iter_run_days ys) (\<lambda>es. Inr (ds @ es)))"
proof (induction xs)
  case Nil
  then show ?case by (cases "iter_run_days ys") auto
next
  case (Cons r xs)
  then show ?case by (cases "iter_run_days xs"; cases "iter_run_days ys") (auto simp: bind_res_def split: option.splits sum.splits)
qed

lemma iter_single:
  "wf_run r s e \<Longrightarrow> iter_run_days [r] = bind_res (run_days s e (run_codes r)) Inr"
  by (cases "run_days s e (run_codes r)") (auto simp: wf_run_def)

subsection \<open>Binary search finds the run of a day\<close>

lemma wf_runs_nth:
  assumes "wf_runs rs" "i < j" "j < length rs"
  shows "run_end (rs ! i) < run_start (rs ! j)"
  using assms by (auto simp: wf_runs_def sorted_wrt_iff_nth_less)

lemma wf_run_le: "wf_run r s e \<Longrightarrow> run_start r \<le> run_end r"
  by (simp add: wf_run_def isoformat_le_iff)

lemma wf_runs_le: "wf_runs rs \<Longrightarrow> i < length rs \<Longrightarrow> run_start (rs ! i) \<le> run_end (rs ! i)"
  unfolding wf_runs_def by (metis nth_mem wf_run_le)

lemma contains_before:
  assumes "wf_runs rs" "i < length rs" "m < length rs" "contains_day (rs ! i) day" "day < run_start (rs ! m)"
  shows "i < m"
proof (rule ccontr)
  assume "\<not> i < m"
  then have "run_start (rs ! m) \<le> run_start (rs ! i)"
    using wf_runs_nth [OF assms(1), of m i] wf_runs_le [OF assms(1,3)] assms(2) by (cases "m = i") (auto intro: order_trans less_imp_le)
  then show False using assms(4,5) by (auto simp: contains_day_def)
qed

lemma contains_after:
  assumes "wf_runs rs" "i < length rs" "m < length rs" "contains_day (rs ! i) day" "run_end (rs ! m) < day"
  shows "m < i"
proof (rule ccontr)
  assume "\<not> m < i"
  then have "run_end (rs ! i) \<le> run_end (rs ! m)"
    using wf_runs_nth [OF assms(1), of i m] wf_runs_le [OF assms(1,3)] assms(3) by (cases "m = i") (auto intro: order_trans less_imp_le)
  then show False using assms(4,5) by (auto simp: contains_day_def)
qed

lemma search_runs_found:
  assumes "wf_runs rs" "0 \<le> lo" "hi < int (length rs)" "lo \<le> int i" "int i \<le> hi" "contains_day (rs ! i) day"
  shows "search_runs rs day lo hi = Inr (run_codes (rs ! i))"
  using assms
proof (induction rs day lo hi rule: search_runs.induct)
  case (1 rs day lo hi)
  define mid where "mid = (lo + hi) div 2"
  have le: "lo \<le> hi" using "1.prems" by simp
  then have mid: "lo \<le> mid" "mid \<le> hi" by (simp_all add: mid_def)
  then have m: "nat mid < length rs" "i < length rs" using "1.prems" by linarith+
  have unfold: "search_runs rs day lo hi =
      (if day < run_start (rs ! nat mid) then search_runs rs day lo (mid - 1)
       else if day > run_end (rs ! nat mid) then search_runs rs day (mid + 1) hi
       else Inr (run_codes (rs ! nat mid)))"
    using le by (simp add: search_runs.simps [of rs day lo hi] Let_def mid_def)
  consider (low) "day < run_start (rs ! nat mid)"
    | (high) "\<not> day < run_start (rs ! nat mid)" "run_end (rs ! nat mid) < day"
    | (hit) "contains_day (rs ! nat mid) day"
    unfolding contains_day_def by (meson not_less)
  then show ?case
  proof cases
    case low
    then have "int i \<le> mid - 1" using contains_before [OF "1.prems"(1) m(2,1) "1.prems"(6)] by linarith
    then have "search_runs rs day lo (mid - 1) = Inr (run_codes (rs ! i))"
      using "1.IH"(1) [OF le mid_def refl low "1.prems"(1,2) _ "1.prems"(4) _ "1.prems"(6)] mid "1.prems"(3) by simp
    then show ?thesis using unfold low by simp
  next
    case high
    then have "mid + 1 \<le> int i" using contains_after [OF "1.prems"(1) m(2,1) "1.prems"(6)] mid "1.prems"(2) by linarith
    then have "search_runs rs day (mid + 1) hi = Inr (run_codes (rs ! i))"
      using "1.IH"(2) [OF le mid_def refl high "1.prems"(1) _ "1.prems"(3) _ "1.prems"(5,6)] mid "1.prems"(2) by simp
    then show ?thesis using unfold high by simp
  next
    case hit
    have "\<not> nat mid < i" "\<not> i < nat mid"
      using hit "1.prems"(6) wf_runs_nth [OF "1.prems"(1), of "nat mid" i] wf_runs_nth [OF "1.prems"(1), of i "nat mid"] m
      by (auto simp: contains_day_def)
    then have "i = nat mid" by simp
    moreover have "\<not> day < run_start (rs ! nat mid)" "\<not> run_end (rs ! nat mid) < day"
      using hit unfolding contains_day_def by (meson leD)+
    ultimately show ?thesis using unfold by simp
  qed
qed

lemma search_runs_missing:
  assumes "0 \<le> lo" "hi < int (length rs)" "\<forall>r \<in> set rs. \<not> contains_day r day"
  shows "search_runs rs day lo hi = Inl (MKeyError day)"
  using assms
proof (induction rs day lo hi rule: search_runs.induct)
  case (1 rs day lo hi)
  define mid where "mid = (lo + hi) div 2"
  show ?case
  proof (cases "lo \<le> hi")
    case True
    then have mid: "lo \<le> mid" "mid \<le> hi" by (simp_all add: mid_def)
    then have "rs ! nat mid \<in> set rs" using "1.prems" by (intro nth_mem) linarith
    then have out: "day < run_start (rs ! nat mid) \<or> run_end (rs ! nat mid) < day"
      using "1.prems"(3) by (auto simp: contains_day_def not_le)
    show ?thesis
      using "1.IH"(1) [OF True mid_def refl _ "1.prems"(1) _ "1.prems"(3)] "1.IH"(2) [OF True mid_def refl _ _ _ "1.prems"(2,3)]
        out mid "1.prems"(1,2) True
      by (auto simp: search_runs.simps [of rs day lo hi] Let_def mid_def [symmetric])
  next
    case False
    then show ?thesis by (simp add: search_runs.simps [of rs day lo hi])
  qed
qed

lemma codes_for_runs_iff:
  assumes wf: "wf_runs rs" and d: "valid_date d"
  shows "(\<exists>r \<in> set rs. contains_day r (isoformat d) \<and> codes_for_runs rs (isoformat d) = Inr (run_codes r))
    \<or> ((\<forall>r \<in> set rs. \<not> contains_day r (isoformat d)) \<and> codes_for_runs rs (isoformat d) = Inl (MKeyError (isoformat d)))"
proof (cases "\<exists>r \<in> set rs. contains_day r (isoformat d)")
  case True
  then obtain i where i: "i < length rs" "contains_day (rs ! i) (isoformat d)" by (metis in_set_conv_nth)
  then have "search_runs rs (isoformat d) 0 (int (length rs) - 1) = Inr (run_codes (rs ! i))"
    by (intro search_runs_found wf) auto
  then show ?thesis using i d nth_mem [OF i(1)] by (auto simp: codes_for_runs_def)
next
  case False
  then show ?thesis using d search_runs_missing by (auto simp: codes_for_runs_def)
qed

lemma contains_day_wf:
  "wf_run r s e \<Longrightarrow> valid_date d \<Longrightarrow> contains_day r (isoformat d) \<longleftrightarrow> s \<le> d \<and> d \<le> e"
  by (simp add: wf_run_def contains_day_def isoformat_le_iff)

lemma iter_run_days_set:
  assumes "\<forall>r \<in> set rs. \<exists>s e. wf_run r s e" "iter_run_days rs = Inr ds"
  shows "set ds = {(isoformat d, run_codes r) | d r. valid_date d \<and> r \<in> set rs \<and> contains_day r (isoformat d)}"
  using assms
proof (induction rs arbitrary: ds)
  case Nil
  then show ?case by simp
next
  case (Cons r rs)
  obtain s e where r: "wf_run r s e" using Cons.prems(1) by auto
  then have v: "valid_date s" "valid_date e" "fromisoformat (run_start r) = Some s" "fromisoformat (run_end r) = Some e"
    by (simp_all add: wf_run_def)
  obtain A B where AB: "run_days s e (run_codes r) = Inr A" "iter_run_days rs = Inr B" "ds = A @ B"
    using Cons.prems(2) v by (auto simp: bind_res_Inr_iff)
  have "set A = {(isoformat d, run_codes r) | d. valid_date d \<and> contains_day r (isoformat d)}"
    using run_days_set [OF v(1,2) AB(1)] contains_day_wf [OF r] by auto
  moreover have "set B = {(isoformat d, run_codes r') | d r'. valid_date d \<and> r' \<in> set rs \<and> contains_day r' (isoformat d)}"
    using Cons.IH [OF _ AB(2)] Cons.prems(1) by simp
  ultimately show ?case using AB(3) by auto
qed

lemma contains_unique:
  assumes "wf_runs rs" "r \<in> set rs" "q \<in> set rs" "contains_day r day" "contains_day q day"
  shows "r = q"
proof -
  obtain i j where ij: "i < length rs" "r = rs ! i" "j < length rs" "q = rs ! j" using assms(2,3) by (metis in_set_conv_nth)
  have "\<not> i < j" "\<not> j < i"
    using wf_runs_nth [OF assms(1), of i j] wf_runs_nth [OF assms(1), of j i] ij assms(4,5)
    by (auto simp: contains_day_def)
  then show ?thesis using ij by simp
qed

lemma lookup_is_expansion:
  assumes wf: "wf_runs rs" and it: "iter_run_days rs = Inr ds" and d: "valid_date d"
  shows "codes_for_runs rs (isoformat d) =
    (case map_of ds (isoformat d) of None \<Rightarrow> Inl (MKeyError (isoformat d)) | Some cs \<Rightarrow> Inr cs)"
proof -
  have set: "set ds = {(isoformat e, run_codes r) | e r. valid_date e \<and> r \<in> set rs \<and> contains_day r (isoformat e)}"
    using iter_run_days_set [OF _ it] wf by (auto simp: wf_runs_def)
  show ?thesis
  proof (cases "map_of ds (isoformat d)")
    case None
    then have "(isoformat d, cs) \<notin> set ds" for cs by (metis fst_conv image_eqI map_of_eq_None_iff)
    then show ?thesis using codes_for_runs_iff [OF wf d] set d None by auto
  next
    case (Some cs)
    then have "(isoformat d, cs) \<in> set ds" by (rule map_of_SomeD)
    then obtain r where r: "r \<in> set rs" "contains_day r (isoformat d)" "cs = run_codes r" using set by auto
    then have "codes_for_runs rs (isoformat d) = Inr (run_codes r)"
      using codes_for_runs_iff [OF wf d] contains_unique [OF wf] by metis
    then show ?thesis using r Some by simp
  qed
qed

subsection \<open>Merging adjacent runs\<close>

lemma iter_merge:
  assumes "wf_run p s e" "wf_run r f g" "run_codes p = run_codes r" "next_day e = Some f"
    "m = \<lparr>run_start = isoformat s, run_end = isoformat g, run_codes = run_codes p\<rparr>"
  shows "wf_run m s g" "iter_run_days ([p, r] @ rest) = iter_run_days ([m] @ rest)"
proof -
  have v: "valid_date s" "valid_date e" "s \<le> e" "valid_date f" "valid_date g" "f \<le> g"
    using assms(1,2) by (simp_all add: wf_run_def)
  have "s \<le> g" using v next_day_greater [OF assms(4)] by (meson less_imp_le order_trans)
  then show m: "wf_run m s g" using assms v by (simp add: wf_run_def)
  have "iter_run_days [p, r] = bind_res (iter_run_days [p]) (\<lambda>A. bind_res (iter_run_days [r]) (\<lambda>B. Inr (A @ B)))"
    using iter_run_days_append [of "[p]" "[r]"] by simp
  also have "\<dots> = bind_res (run_days s g (run_codes p)) Inr"
    using run_days_join [OF v(1-3) assms(4) v(6), of "run_codes p"] assms(3)
    unfolding iter_single [OF assms(1)] iter_single [OF assms(2)]
    by (cases "run_days s e (run_codes p)"; cases "run_days f g (run_codes p)") simp_all
  also have "\<dots> = iter_run_days [m]" using iter_single [OF m] assms(5) by simp
  finally show "iter_run_days ([p, r] @ rest) = iter_run_days ([m] @ rest)"
    unfolding iter_run_days_append [of "[p, r]"] iter_run_days_append [of "[m]"] by simp
qed

lemma wf_runs_snoc:
  "wf_runs (xs @ [p]) \<Longrightarrow> wf_run r f g \<Longrightarrow> run_end p < run_start r \<Longrightarrow> wf_runs (xs @ [p, r])"
proof -
  assume a: "wf_runs (xs @ [p])" "wf_run r f g" "run_end p < run_start r"
  have "run_end x < run_start r" if "x \<in> set xs" for x
  proof -
    have "run_end x < run_start p" using a(1) that by (auto simp: wf_runs_def sorted_wrt_append)
    also have "\<dots> \<le> run_end p" using a(1) wf_run_le by (auto simp: wf_runs_def)
    finally show ?thesis using a(3) by order
  qed
  then show ?thesis using a by (auto simp: wf_runs_def sorted_wrt_append)
qed

lemma wf_runs_replace_last:
  assumes "wf_runs (xs @ [p])" "wf_run m s g" "run_start m = run_start p"
  shows "wf_runs (xs @ [m])"
  using assms by (auto simp: wf_runs_def sorted_wrt_append)

definition in_period :: "string \<Rightarrow> string \<Rightarrow> membership_run list \<Rightarrow> bool" where
  "in_period st en rs \<longleftrightarrow> (\<forall>r \<in> set rs. st \<le> run_start r \<and> run_end r \<le> en)"

lemma validate_loop_ok:
  assumes "validate_loop st en coal acc rest = Inr out" "wf_runs (rev acc)" "in_period st en acc"
    "\<forall>r \<in> set rest. \<exists>s e. wf_run r s e"
  shows "wf_runs out \<and> in_period st en out \<and> iter_run_days out = iter_run_days (rev acc @ rest) \<and> out \<noteq> []"
  using assms
proof (induction st en coal acc rest rule: validate_loop.induct)
  case (1 st en coal acc)
  then show ?case by (auto simp: in_period_def split: if_splits)
next
  case (2 st en coal acc run rest)
  obtain f g where run: "wf_run run f g" using "2.prems"(4) by auto
  have per: "\<not> (run_start run < st \<or> run_end run > en)" using "2.prems"(1) by (auto split: if_splits)
  then have inp: "in_period st en [run]" by (auto simp: in_period_def)
  show ?case
  proof (cases acc)
    case Nil
    have "wf_runs [run]" using run by (auto simp: wf_runs_def)
    then show ?thesis using "2.IH"(1) [OF per Nil] "2.prems" Nil per inp by simp
  next
    case (Cons p before)
    have ord: "\<not> run_start run \<le> run_end p" using "2.prems"(1) per Cons by (auto split: if_splits)
    obtain s e where p: "wf_run p s e" using "2.prems"(2) Cons by (auto simp: wf_runs_def)
    let ?adj = "if coal \<and> run_codes p = run_codes run then map_sum id (\<lambda>n. n = run_start run) (next_day_str (run_end p)) else Inr False"
    obtain adj where adj: "?adj = Inr adj" using "2.prems"(1) per Cons ord by (cases ?adj) auto
    show ?thesis
    proof (cases adj)
      case True
      then have same: "coal" "run_codes p = run_codes run" and nx: "next_day_str (run_end p) = Inr (run_start run)"
        using adj by (auto split: if_splits) (cases "next_day_str (run_end p)"; auto)
      then obtain f' where "next_day e = Some f'" "isoformat f' = isoformat f"
        using p run by (auto simp: wf_run_def split: option.splits)
      moreover have "valid_date f'" using calculation(1) p by (auto simp: wf_run_def intro: valid_next_day)
      ultimately have nd: "next_day e = Some f" using run by (simp add: wf_run_def isoformat_inject)
      let ?m = "\<lparr>run_start = isoformat s, run_end = isoformat g, run_codes = run_codes p\<rparr>"
      note mg = iter_merge [OF p run same(2) nd refl]
      have mk: "mk_run (run_start p) (run_end run) True (run_codes p) = Inr ?m"
        using mk_run_dates [of s g "run_codes p"] mg(1) p run by (simp add: wf_run_def)
      have "wf_runs (rev before @ [?m])"
        using wf_runs_replace_last [OF _ mg(1), of "rev before" p] "2.prems"(2) Cons p by (simp add: wf_run_def)
      moreover have "in_period st en (?m # before)"
        using "2.prems"(3) Cons inp p run by (auto simp: in_period_def wf_run_def)
      moreover have "validate_loop st en coal (?m # before) rest = Inr out"
        using "2.prems"(1) per Cons ord adj True mk by simp
      ultimately have "wf_runs out \<and> in_period st en out \<and> iter_run_days out = iter_run_days (rev (?m # before) @ rest) \<and> out \<noteq> []"
        using "2.IH"(2) [OF per Cons ord True] "2.prems"(4) by simp
      moreover have "iter_run_days (rev (?m # before) @ rest) = iter_run_days (rev acc @ run # rest)"
        using mg(2) [of rest] Cons iter_run_days_append [of "rev before"] by simp
      ultimately show ?thesis by simp
    next
      case False
      have "run_end p < run_start run" using ord by order
      then have "wf_runs (rev before @ [p, run])" using wf_runs_snoc [OF _ run] "2.prems"(2) Cons by simp
      moreover have "validate_loop st en coal (run # acc) rest = Inr out"
        using "2.prems"(1) per Cons ord adj False by simp
      moreover have "in_period st en (run # acc)" using "2.prems"(3) inp by (simp add: in_period_def)
      ultimately show ?thesis
        using "2.IH"(3) [OF per Cons ord False] "2.prems"(4) Cons by simp
    qed
  qed
qed

subsection \<open>Coalescing and expanding\<close>

definition daily_pair :: "string \<times> string list \<Rightarrow> bool" where
  "daily_pair p \<longleftrightarrow> (\<exists>d. valid_date d \<and> d < Date 9999 12 31 \<and> fst p = isoformat d \<and> canonical_codes (snd p))"

lemma last_day_next:
  assumes "valid_date d" "d < Date 9999 12 31"
  obtains e where "next_day d = Some e" "valid_date e"
proof -
  have "valid_date (Date 9999 12 31)" by (simp add: valid_date_def days_in_month_def)
  then show ?thesis using next_day_before [OF assms(1) _ assms(2)] valid_next_day [OF assms(1)] that by blast
qed

lemma run_days_single:
  assumes "valid_date d" "d < Date 9999 12 31"
  shows "run_days d d cs = Inr [(isoformat d, cs)]"
proof -
  obtain e where e: "next_day d = Some e" using last_day_next [OF assms] .
  then have "run_days e d cs = Inr []" by (intro run_days_empty next_day_greater)
  then show ?thesis using e by (simp add: run_days.simps [of d d])
qed

lemma coalesce_loop_ok:
  assumes "\<forall>p \<in> set ps. daily_pair p" "wf_run r s e" "e < Date 9999 12 31"
    "iter_run_days runs = Inr D" "run_days s e (run_codes r) = Inr A"
  shows "\<exists>out. coalesce_loop runs (run_codes r) (run_start r) (run_end r) ps = Inr out \<and> iter_run_days out = Inr (D @ A @ ps)
     \<and> (wf_runs (runs @ [r]) \<and> sorted_wrt (<) (run_end r # map fst ps) \<longrightarrow> wf_runs out)"
  using assms
proof (induction ps arbitrary: runs r s e D A)
  case Nil
  have "mk_run (run_start r) (run_end r) True (run_codes r) = Inr r"
    using Nil.prems(2) mk_run_dates [of s e "run_codes r"] by (simp add: wf_run_def)
  then show ?case
    using Nil.prems iter_run_days_append [of runs "[r]"] iter_single [OF Nil.prems(2)] by (simp add: wf_run_def)
next
  case (Cons p ps)
  obtain x cs where p: "p = (x, cs)" by fastforce
  obtain d where d: "valid_date d" "d < Date 9999 12 31" "x = isoformat d" "canonical_codes cs"
    using Cons.prems(1) p by (auto simp: daily_pair_def)
  have rest: "\<forall>p \<in> set ps. daily_pair p" using Cons.prems(1) by simp
  have r: "valid_date s" "valid_date e" "s \<le> e" "run_start r = isoformat s" "run_end r = isoformat e" "canonical_codes (run_codes r)"
    using Cons.prems(2) by (simp_all add: wf_run_def)
  obtain f where f: "next_day e = Some f" "valid_date f" using last_day_next [OF r(2) Cons.prems(3)] .
  have mk: "mk_run (isoformat s) (isoformat e) True (run_codes r) = Inr r"
    using mk_run_dates [OF r(1-3,6)] r by simp
  have codes: "(if cs = run_codes r then Inr (run_codes r) else canonical_run_codes True cs) = Inr cs"
    using d(4) by simp
  let ?q = "\<lparr>run_start = x, run_end = x, run_codes = cs\<rparr>"
  show ?case
  proof (cases "run_codes r = cs \<and> f = d")
    case True
    let ?r = "\<lparr>run_start = run_start r, run_end = x, run_codes = cs\<rparr>"
    have le: "s \<le> d" using True f(1) r(3) next_day_greater by fastforce
    have wf: "wf_run ?r s d" using r d le by (simp add: wf_run_def)
    have "run_days s d cs = Inr (A @ [(x, cs)])"
      using run_days_join [OF r(1-3), of d d cs] f True Cons.prems(5) run_days_single [OF d(1,2)] d(3) by simp
    from Cons.IH [OF rest wf d(2) Cons.prems(4)] this
    obtain out where out: "coalesce_loop runs cs (run_start r) x ps = Inr out" "iter_run_days out = Inr (D @ (A @ [(x, cs)]) @ ps)"
      "wf_runs (runs @ [?r]) \<and> sorted_wrt (<) (x # map fst ps) \<longrightarrow> wf_runs out" by auto
    have "coalesce_loop runs (run_codes r) (run_start r) (run_end r) (p # ps) = coalesce_loop runs cs (run_start r) x ps"
      using d r f True codes by (simp add: p)
    moreover have "wf_runs (runs @ [r]) \<longrightarrow> wf_runs (runs @ [?r])"
      using wf_runs_replace_last [OF _ wf, of runs r] by simp
    ultimately show ?thesis using out by (auto simp: p)
  next
    case False
    have wf: "wf_run ?q d d" using d by (simp add: wf_run_def)
    have it: "iter_run_days (runs @ [r]) = Inr (D @ A)"
      using iter_run_days_append [of runs "[r]"] iter_single [OF Cons.prems(2)] Cons.prems(4,5) by simp
    from Cons.IH [OF rest wf d(2) it, of "[(x, cs)]"] run_days_single [OF d(1,2)] d(3)
    obtain out where out: "coalesce_loop (runs @ [r]) cs x x ps = Inr out" "iter_run_days out = Inr ((D @ A) @ [(x, cs)] @ ps)"
      "wf_runs ((runs @ [r]) @ [?q]) \<and> sorted_wrt (<) (x # map fst ps) \<longrightarrow> wf_runs out" by auto
    have ext: "(if run_codes r = cs then map_sum id (\<lambda>n. n = x) (next_day_str (isoformat e)) else Inr False) = Inr False"
      using False f d r(2) isoformat_inject [OF f(2) d(1)] by auto
    have "coalesce_loop runs (run_codes r) (run_start r) (run_end r) (p # ps) = coalesce_loop (runs @ [r]) cs x x ps"
      using d r codes ext mk unfolding p by (cases "run_codes r = cs") (simp_all del: next_day_str_isoformat)
    moreover have "wf_runs (runs @ [r]) \<and> run_end r < x \<longrightarrow> wf_runs ((runs @ [r]) @ [?q])"
      using wf_runs_snoc [OF _ wf, of runs r] by simp
    ultimately show ?thesis using out by (auto simp: p)
  qed
qed

lemma coalesce_ok:
  assumes "\<forall>p \<in> set ps. daily_pair p"
  shows "\<exists>out. coalesce_daily_memberships ps = Inr out \<and> iter_run_days out = Inr ps
    \<and> (sorted_wrt (<) (map fst ps) \<longrightarrow> wf_runs out)"
proof (cases ps)
  case Nil
  then show ?thesis by (simp add: coalesce_daily_memberships_def wf_runs_def)
next
  case (Cons p qs)
  obtain x cs where p: "p = (x, cs)" by fastforce
  obtain d where d: "valid_date d" "d < Date 9999 12 31" "x = isoformat d" "canonical_codes cs"
    using assms p Cons by (auto simp: daily_pair_def)
  let ?q = "\<lparr>run_start = x, run_end = x, run_codes = cs\<rparr>"
  have wf: "wf_run ?q d d" using d by (simp add: wf_run_def)
  have "coalesce_daily_memberships ps = coalesce_loop [] cs x x qs"
    using d by (simp add: coalesce_daily_memberships_def Cons p canonical_codes_def)
  moreover have "wf_runs [?q]" using wf by (auto simp: wf_runs_def)
  ultimately show ?thesis
    using coalesce_loop_ok [OF _ wf d(2), of qs "[]" "[]" "[(x, cs)]"] run_days_single [OF d(1,2)] d(3) assms Cons p
    by auto
qed

lemma daily_pairI:
  "valid_date d \<Longrightarrow> d < Date 9999 12 31 \<Longrightarrow> canonical_codes cs \<Longrightarrow> daily_pair (isoformat d, cs)"
  by (auto simp: daily_pair_def)

subsection \<open>Properties of membership runs\<close>

text \<open>C10: Round trip. Coalescing a sequence of daily memberships always succeeds, and iterating the
  resulting runs yields exactly that sequence, day by day and in order.\<close>

theorem coalesce_roundtrip:
  assumes "\<forall>p \<in> set ps. daily_pair p"
  shows "\<exists>runs. coalesce_daily_memberships ps = Inr runs \<and> iter_run_days runs = Inr ps"
  using coalesce_ok [OF assms] by blast

theorem coalesce_roundtrip_witness:
  "let ps = [(isoformat (Date 2024 2 28), [''1301'']), (isoformat (Date 2024 2 29), [''1301'']), (isoformat (Date 2024 3 4), [''1301'', ''1302''])]
   in \<exists>runs. coalesce_daily_memberships ps = Inr runs \<and> iter_run_days runs = Inr ps"
proof -
  have "canonical_codes [''1301'']" "canonical_codes [''1301'', ''1302'']" by code_simp+
  moreover have "valid_date (Date 2024 2 28)" "valid_date (Date 2024 2 29)" "valid_date (Date 2024 3 4)"
    by (simp_all add: valid_date_def days_in_month_def is_leap_def)
  ultimately show ?thesis
    unfolding Let_def by (intro coalesce_roundtrip) (simp add: daily_pairI)
qed

text \<open>C11: Lookup. For daily memberships in date order, the binary search on the coalesced runs answers
  every valid date as the uncompressed table does: its codes where the table has the day, a key error
  where it has not.\<close>

theorem coalesced_lookup_is_table:
  assumes "\<forall>p \<in> set ps. daily_pair p" "sorted_wrt (<) (map fst ps)" "coalesce_daily_memberships ps = Inr runs" "valid_date d"
  shows "codes_for_runs runs (isoformat d) =
    (case map_of ps (isoformat d) of None \<Rightarrow> Inl (MKeyError (isoformat d)) | Some cs \<Rightarrow> Inr cs)"
proof -
  have "iter_run_days runs = Inr ps" "wf_runs runs" using coalesce_ok [OF assms(1)] assms(2,3) by auto
  then show ?thesis using lookup_is_expansion assms(4) by blast
qed

theorem coalesced_lookup_is_table_witness:
  "let ps = [(isoformat (Date 2024 2 28), [''1301'']), (isoformat (Date 2024 2 29), [''1301''])]
   in \<exists>runs. coalesce_daily_memberships ps = Inr runs
      \<and> codes_for_runs runs (isoformat (Date 2024 2 29)) = Inr [''1301''] \<and> \<not> is_ok (codes_for_runs runs (isoformat (Date 2024 3 1)))"
proof -
  let ?ps = "[(isoformat (Date 2024 2 28), [''1301'']), (isoformat (Date 2024 2 29), [''1301''])]"
  have c: "canonical_codes [''1301'']" by code_simp
  have v: "valid_date (Date 2024 2 28)" "valid_date (Date 2024 2 29)" "valid_date (Date 2024 3 1)"
    by (simp_all add: valid_date_def days_in_month_def is_leap_def)
  then have ps: "\<forall>p \<in> set ?ps. daily_pair p" "sorted_wrt (<) (map fst ?ps)" using c by (auto simp: daily_pairI isoformat_less_iff)
  obtain runs where runs: "coalesce_daily_memberships ?ps = Inr runs" using coalesce_ok [OF ps(1)] by blast
  show ?thesis
    using coalesced_lookup_is_table [OF ps runs v(2)] coalesced_lookup_is_table [OF ps runs v(3)] runs v
    by (auto simp: Let_def isoformat_inject)
qed

text \<open>Validation. What \<open>validate_membership_runs\<close> returns is non-empty, ordered, without overlap, inside
  the period, and expands to exactly the days and codes of its input; merging adjacent runs loses
  and adds nothing.\<close>

theorem validate_preserves_days:
  assumes "validate_membership_runs rs ps pe coal = Inr out" "\<forall>r \<in> set rs. \<exists>s e. wf_run r s e"
  shows "out \<noteq> [] \<and> wf_runs out \<and> iter_run_days out = iter_run_days rs
    \<and> (\<forall>r \<in> set out. strip ps \<le> run_start r \<and> run_end r \<le> strip pe)"
proof -
  obtain st en where "iso_date ps = Inr st" "iso_date pe = Inr en" "validate_loop st en coal [] rs = Inr out"
    using assms(1) by (auto simp: validate_membership_runs_def bind_res_Inr_iff split: if_splits)
  moreover from this have "strip ps = st" "strip pe = en" by (auto simp: iso_date_ok)
  ultimately show ?thesis
    using validate_loop_ok [of st en coal "[]" rs out] assms(2) by (auto simp: wf_runs_def in_period_def)
qed

theorem validate_preserves_days_witness:
  "let r1 = \<lparr>run_start = isoformat (Date 2024 1 1), run_end = isoformat (Date 2024 1 31), run_codes = [''1301'']\<rparr>;
       r2 = \<lparr>run_start = isoformat (Date 2024 2 1), run_end = isoformat (Date 2024 2 5), run_codes = [''1301'']\<rparr>
   in \<exists>out. validate_membership_runs [r1, r2] (isoformat (Date 2024 1 1)) (isoformat (Date 2024 12 31)) True = Inr out
      \<and> iter_run_days out = iter_run_days [r1, r2]"
proof -
  let ?r1 = "\<lparr>run_start = isoformat (Date 2024 1 1), run_end = isoformat (Date 2024 1 31), run_codes = [''1301'']\<rparr>"
  let ?r2 = "\<lparr>run_start = isoformat (Date 2024 2 1), run_end = isoformat (Date 2024 2 5), run_codes = [''1301'']\<rparr>"
  have v: "valid_date (Date 2024 1 1)" "valid_date (Date 2024 1 31)" "valid_date (Date 2024 2 1)" "valid_date (Date 2024 2 5)"
      "valid_date (Date 2024 12 31)"
    by (simp_all add: valid_date_def days_in_month_def is_leap_def)
  have n: "next_day (Date 2024 1 31) = Some (Date 2024 2 1)" by (simp add: next_day_def days_in_month_def)
  have c: "canonical_codes [''1301'']" by code_simp
  have "wf_run ?r1 (Date 2024 1 1) (Date 2024 1 31)" "wf_run ?r2 (Date 2024 2 1) (Date 2024 2 5)" using v c by (simp_all add: wf_run_def)
  then have wf: "\<forall>r \<in> set [?r1, ?r2]. \<exists>s e. wf_run r s e" by (metis empty_iff empty_set set_ConsD)
  have "is_ok (validate_membership_runs [?r1, ?r2] (isoformat (Date 2024 1 1)) (isoformat (Date 2024 12 31)) True)"
    using v n c by (simp add: validate_membership_runs_def isoformat_less_iff isoformat_le_iff mk_run_dates)
  then obtain out where "validate_membership_runs [?r1, ?r2] (isoformat (Date 2024 1 1)) (isoformat (Date 2024 12 31)) True = Inr out"
    by (auto simp: is_ok_iff)
  then show ?thesis unfolding Let_def using validate_preserves_days wf by blast
qed

end
