(* ===== verification/PyBytes.thy ===== *)
theory PyBytes
  imports PyJson
begin

section \<open>Bytes: Base64, UTF-8 and canonical JSON text\<close>

text \<open>
  The standard-library encodings the receipt code uses. Bytes are strings of characters, one per byte.
  \<open>base64.b64encode\<close> and the canonical decoding built on it; \<open>bytes.decode("utf-8")\<close> for code points
  up to 255 (a longer sequence is outside the model and is refused); and
  \<open>json.dumps(value, sort_keys=True, separators=(",", ":"))\<close> with \<open>ensure_ascii\<close>. A number with a fraction is printed
  as it was written. Python's \<open>==\<close> on decoded values: dicts compare without order, and \<open>True == 1\<close>.
\<close>

subsection \<open>Base64\<close>

definition b64_alphabet :: string where
  "b64_alphabet = ''ABCDEFGHIJKLMNOPQRSTUVWXYZabcdefghijklmnopqrstuvwxyz0123456789+/''"

definition b64_char :: "nat \<Rightarrow> char" where
  "b64_char n = b64_alphabet ! n"

definition b64_value :: "char \<Rightarrow> nat option" where
  "b64_value c = List.find (\<lambda>n. b64_char n = c) [0..<64]"

fun b64_groups :: "nat list \<Rightarrow> string" where
  "b64_groups [] = []"
| "b64_groups [a] = [b64_char (a div 4), b64_char (a mod 4 * 16), CHR ''='', CHR ''='']"
| "b64_groups [a, b] = [b64_char (a div 4), b64_char (a mod 4 * 16 + b div 16), b64_char (b mod 16 * 4), CHR ''='']"
| "b64_groups (a # b # c # r) =
     b64_char (a div 4) # b64_char (a mod 4 * 16 + b div 16) # b64_char (b mod 16 * 4 + c div 64) # b64_char (c mod 64) # b64_groups r"

definition b64encode :: "string \<Rightarrow> string" where
  "b64encode raw = b64_groups (map of_char raw)"

fun b64_ungroup :: "string \<Rightarrow> nat list option" where
  "b64_ungroup [] = Some []"
| "b64_ungroup (p # q # r # s # rest) =
     (case (b64_value p, b64_value q) of
        (Some a, Some b) \<Rightarrow>
          if s = CHR ''='' then
            (if rest \<noteq> [] then None
             else if r = CHR ''='' then Some [a * 4 + b div 16]
             else map_option (\<lambda>c. [a * 4 + b div 16, b mod 16 * 16 + c div 4]) (b64_value r))
          else
            (case (b64_value r, b64_value s) of
               (Some c, Some d) \<Rightarrow>
                 map_option (\<lambda>t. (a * 4 + b div 16) # (b mod 16 * 16 + c div 4) # (c mod 4 * 64 + d) # t) (b64_ungroup rest)
             | _ \<Rightarrow> None)
      | _ \<Rightarrow> None)"
| "b64_ungroup _ = None"

definition b64decode :: "string \<Rightarrow> string option" where
  "b64decode s = map_option (map char_of) (b64_ungroup s)"

lemma b64_value_char_all: "\<forall>n \<in> set [0..<64]. b64_value (b64_char n) = Some n \<and> b64_char n \<noteq> CHR ''=''"
  by code_simp

lemma b64_value_char [simp]: "n < 64 \<Longrightarrow> b64_value (b64_char n) = Some n"
  and b64_char_not_pad [simp]: "n < 64 \<Longrightarrow> b64_char n \<noteq> CHR ''=''"
  using b64_value_char_all by auto

lemma b64_ungroup_groups: "\<forall>a \<in> set xs. a < 256 \<Longrightarrow> b64_ungroup (b64_groups xs) = Some xs"
proof (induction xs rule: b64_groups.induct)
  case (4 a b c r)
  have "a div 4 < 64" "a mod 4 * 16 + b div 16 < 64" "b mod 16 * 4 + c div 64 < 64" "c mod 64 < 64"
    using 4 by auto
  moreover have "a div 4 * 4 + (a mod 4 * 16 + b div 16) div 16 = a"
    "(a mod 4 * 16 + b div 16) mod 16 * 16 + (b mod 16 * 4 + c div 64) div 4 = b"
    "(b mod 16 * 4 + c div 64) mod 4 * 64 + c mod 64 = c"
    using 4(2) by auto
  ultimately show ?case using 4 by simp
next
  case (3 a b)
  have "a div 4 < 64" "a mod 4 * 16 + b div 16 < 64" "b mod 16 * 4 < 64"
    using 3 by auto
  moreover have "a div 4 * 4 + (a mod 4 * 16 + b div 16) div 16 = a"
    "(a mod 4 * 16 + b div 16) mod 16 * 16 + b mod 16 * 4 div 4 = b"
    using 3 by auto
  ultimately show ?case by simp
next
  case (2 a)
  have "a div 4 < 64" "a mod 4 * 16 < 64" using 2 by auto
  moreover have "a div 4 * 4 + a mod 4 * 16 div 16 = a" by simp
  ultimately show ?case by simp
qed simp

lemma b64decode_encode [simp]: "b64decode (b64encode raw) = Some raw"
proof -
  have "b64_ungroup (b64_groups (map of_char raw)) = Some (map of_char raw)"
    by (rule b64_ungroup_groups) auto
  then show ?thesis by (simp add: b64decode_def b64encode_def o_def)
qed

lemma b64encode_inject [simp]: "b64encode a = b64encode b \<longleftrightarrow> a = b"
  by (metis b64decode_encode option.inject)

subsection \<open>UTF-8\<close>

fun utf8_decode :: "string \<Rightarrow> string option" where
  "utf8_decode [] = Some []"
| "utf8_decode (c # r) =
     (let n = (of_char c :: nat) in
      if n < 128 then map_option (Cons c) (utf8_decode r)
      else if n = 194 \<or> n = 195 then
        (case r of
           [] \<Rightarrow> None
         | d # r' \<Rightarrow>
             let m = (of_char d :: nat) in
             if 128 \<le> m \<and> m < 192 then map_option (Cons (char_of ((n - 194) * 64 + m))) (utf8_decode r') else None)
      else None)"

definition ascii_only :: "string \<Rightarrow> bool" where
  "ascii_only s \<longleftrightarrow> (\<forall>c \<in> set s. (of_char c :: nat) < 128)"

lemma utf8_decode_ascii: "ascii_only s \<Longrightarrow> utf8_decode s = Some s"
  by (induction s) (auto simp: ascii_only_def Let_def)

subsection \<open>Canonical JSON text\<close>

definition hex_char :: "nat \<Rightarrow> char" where
  "hex_char n = ''0123456789abcdef'' ! n"

definition escape_char :: "char \<Rightarrow> string" where
  "escape_char c =
     (let n = (of_char c :: nat) in
      if c = quote then [backslash, quote]
      else if c = backslash then [backslash, backslash]
      else if n = 10 then [backslash, CHR ''n'']
      else if n = 13 then [backslash, CHR ''r'']
      else if n = 9 then [backslash, CHR ''t'']
      else if n = 12 then [backslash, CHR ''f'']
      else if n = 8 then [backslash, CHR ''b'']
      else if n < 32 \<or> 126 < n then [backslash, CHR ''u'', CHR ''0'', CHR ''0'', hex_char (n div 16), hex_char (n mod 16)]
      else [c])"

definition dump_string :: "string \<Rightarrow> string" where
  "dump_string s = quote # concat (map escape_char s) @ [quote]"

definition int_str :: "int \<Rightarrow> string" where
  "int_str i = (if i < 0 then CHR ''-'' # nat_str (nat (- i)) else nat_str (nat i))"

fun intercalate :: "string \<Rightarrow> string list \<Rightarrow> string" where
  "intercalate sep [] = []"
| "intercalate sep [x] = x"
| "intercalate sep (x # y # zs) = x @ sep @ intercalate sep (y # zs)"

fun json_dumps :: "json \<Rightarrow> string" where
  "json_dumps JNull = ''null''"
| "json_dumps (JBool b) = (if b then ''true'' else ''false'')"
| "json_dumps (JInt i) = int_str i"
| "json_dumps (JFloat t) = t"
| "json_dumps (JStr s) = dump_string s"
| "json_dumps (JArr vs) = CHR ''['' # intercalate '','' (map json_dumps vs) @ '']''"
| "json_dumps (JObj ps) =
     CHR ''{'' # intercalate '','' (map (\<lambda>(k, t). dump_string k @ '':'' @ t) (sort_key fst (map (\<lambda>(k, v). (k, json_dumps v)) ps))) @ ''}''"

subsection \<open>Python equality of decoded values\<close>

definition num_value :: "json \<Rightarrow> int option" where
  "num_value v = (case v of JInt i \<Rightarrow> Some i | JBool b \<Rightarrow> Some (if b then 1 else 0) | _ \<Rightarrow> None)"

function py_eq :: "json \<Rightarrow> json \<Rightarrow> bool" where
  "py_eq (JObj ps) w =
     (case w of JObj qs \<Rightarrow> length ps = length qs \<and> (\<forall>(k, v) \<in> set ps. case map_of qs k of None \<Rightarrow> False | Some u \<Rightarrow> py_eq v u) | _ \<Rightarrow> False)"
| "py_eq (JArr vs) w =
     (case w of JArr us \<Rightarrow> length vs = length us \<and> (\<forall>(v, u) \<in> set (zip vs us). py_eq v u) | _ \<Rightarrow> False)"
| "py_eq JNull w = (w = JNull)"
| "py_eq (JStr s) w = (w = JStr s)"
| "py_eq (JFloat t) w = (w = JFloat t)"
| "py_eq (JInt i) w = (num_value w = Some i)"
| "py_eq (JBool b) w = (num_value w = Some (if b then 1 else 0))"
  by pat_completeness auto
termination
  by (relation "measure (size \<circ> fst)") (auto dest!: set_zip_leftD simp: less_Suc_eq_le intro: size_list_estimation' le_SucI)

end
