(* ===== verification/JsonText.thy ===== *)
theory JsonText
  imports PyBytes
begin

section \<open>Reading back canonical JSON text\<close>

text \<open>
  \<open>json.loads\<close> of \<open>json.dumps(value, sort_keys=True)\<close> is the value with its keys sorted, for every value without
  fractional numbers and without repeated keys. The proof follows the printer: a text reads as a value when the parser,
  with two units of fuel per character, returns the value and stops at the text's end.
\<close>

fun canon :: "json \<Rightarrow> json" where
  "canon (JArr vs) = JArr (map canon vs)"
| "canon (JObj ps) = JObj (sort_key fst (map (\<lambda>(k, v). (k, canon v)) ps))"
| "canon v = v"

fun exact_json :: "json \<Rightarrow> bool" where
  "exact_json (JArr vs) = (\<forall>v \<in> set vs. exact_json v)"
| "exact_json (JObj ps) = (distinct (map fst ps) \<and> (\<forall>(k, v) \<in> set ps. exact_json v))"
| "exact_json (JFloat t) = False"
| "exact_json v = True"

subsection \<open>Strings\<close>

lemma hex_digit_char_all: "\<forall>n \<in> set [0..<16]. hex_digit (hex_char n) = Some n"
  by code_simp

lemma hex_digit_char [simp]: "n < 16 \<Longrightarrow> hex_digit (hex_char n) = Some n"
  using hex_digit_char_all by auto

lemma quote_backslash [simp]: "quote \<noteq> backslash" "backslash \<noteq> quote"
  by code_simp+

lemma special_chars: "of_char quote = (34 :: nat)" "of_char backslash = (92 :: nat)"
  by (simp_all add: quote_def backslash_def)

lemma scan_unicode_hex:
  assumes "n < 256"
  shows "scan_unicode (CHR ''0'' # CHR ''0'' # hex_char (n div 16) # hex_char (n mod 16) # s) = Some (char_of n, s)"
proof -
  have "n div 16 < 16" "n mod 16 < 16" using assms by auto
  moreover have "hex_digit (CHR ''0'') = Some 0" by code_simp
  ultimately show ?thesis by (simp add: scan_unicode_def nth_Cons' mult.commute)
qed

lemma char_of_code: "of_char c = n \<Longrightarrow> char_of (n :: nat) = c"
  by (metis char_of_char)

lemma simple_escapes:
  "simple_escape quote = Some quote" "simple_escape backslash = Some backslash"
  "simple_escape (CHR ''n'') = Some (char_of (10 :: nat))" "simple_escape (CHR ''r'') = Some (char_of (13 :: nat))"
  "simple_escape (CHR ''t'') = Some (char_of (9 :: nat))" "simple_escape (CHR ''f'') = Some (char_of (12 :: nat))"
  "simple_escape (CHR ''b'') = Some (char_of (8 :: nat))" "quote \<noteq> CHR ''u''" "backslash \<noteq> CHR ''u''"
  by code_simp+

lemma scan_escape_char:
  "scan_string (escape_char c @ s) = bind_res (scan_string s) (\<lambda>(str, rest). Inr (c # str, rest))"
proof -
  have "(of_char c :: nat) < 256" by simp
  then show ?thesis
    by (auto simp: escape_char_def Let_def scan_escape_def simple_escapes scan_unicode_hex char_of_code not_less)
qed

lemma scan_dump_string: "scan_string (concat (map escape_char s) @ quote # rest) = Inr (s, rest)"
  by (induction s) (simp_all add: scan_escape_char)

subsection \<open>Numbers\<close>

definition value_end :: "string \<Rightarrow> bool" where
  "value_end rest \<longleftrightarrow> (case rest of [] \<Rightarrow> True | c # _ \<Rightarrow> c \<in> {CHR '','', CHR '']'', CHR ''}''})"

lemma nat_str_digits: "c \<in> set (nat_str n) \<Longrightarrow> char_digit c \<noteq> None"
proof (induction n rule: nat_str.induct)
  case (1 n)
  then show ?case by (cases "n < 10") (auto simp: nat_str.simps [of n])
qed

lemma parse_digits_nat_str: "parse_digits 0 (nat_str n) = Some n"
proof (induction n rule: nat_str.induct)
  case (1 n)
  then show ?case by (cases "n < 10") (auto simp: nat_str.simps [of n] parse_digits_append)
qed

lemma nat_str_head: "\<exists>d r. nat_str n = digit_char d # r \<and> d < 10 \<and> (n = 0 \<or> 0 < d) \<and> (d = 0 \<longrightarrow> r = [])"
proof (induction n rule: nat_str.induct)
  case (1 n)
  show ?case
  proof (cases "n < 10")
    case True
    then show ?thesis by (auto simp: nat_str.simps [of n])
  next
    case False
    then obtain d r where "nat_str (n div 10) = digit_char d # r" "d < 10" "0 < d" using 1 by force
    then show ?thesis using False by (auto simp: nat_str.simps [of n])
  qed
qed

lemma value_end_not_digit: "value_end rest \<Longrightarrow> rest = [] \<or> char_digit (hd rest) = None"
  by (auto simp: value_end_def char_digit_def split: list.splits)

lemma span_digits_nat_str: "value_end rest \<Longrightarrow> span_digits (nat_str n @ rest) = (nat_str n, rest)"
  using value_end_not_digit [of rest] nat_str_digits [of _ n]
  by (cases rest) (auto simp: span_digits_def takeWhile_append dropWhile_append)

lemma digit_zero: "digit_char 0 = CHR ''0''" by code_simp

lemma scan_int_nat_str: "value_end rest \<Longrightarrow> scan_int (nat_str n @ rest) = Some (nat_str n, rest)"
proof -
  assume e: "value_end rest"
  obtain d r where d: "nat_str n = digit_char d # r" "d < 10" "d = 0 \<longrightarrow> r = []" using nat_str_head by blast
  show ?thesis
  proof (cases "d = 0")
    case True
    then show ?thesis using d by (simp add: scan_int_def digit_zero)
  next
    case False
    then have "digit_char d \<noteq> CHR ''0''" using d digit_zero digit_char_eq_iff [of d 0] by auto
    then show ?thesis using d span_digits_nat_str [OF e, of n] by (simp add: scan_int_def)
  qed
qed

lemma scan_rest: "value_end rest \<Longrightarrow> scan_frac rest = ([], rest) \<and> scan_exp rest = ([], rest)"
  by (cases rest) (auto simp: value_end_def scan_frac_def scan_exp_def Let_def)

lemma scan_number_int_str: "value_end rest \<Longrightarrow> scan_number (int_str i @ rest) = Some (JInt i, rest)"
proof -
  assume e: "value_end rest"
  have plain: "nat_str n \<noteq> [] \<and> hd (nat_str n) \<noteq> CHR ''-''" for n
  proof -
    obtain d r where "nat_str n = digit_char d # r" "d < 10" using nat_str_head by blast
    moreover have "char_digit (CHR ''-'') = None" by code_simp
    ultimately show ?thesis by (metis char_digit_digit_char list.sel(1) list.distinct(1) option.distinct(1))
  qed
  show ?thesis
    using plain scan_rest [OF e] scan_int_nat_str [OF e] parse_digits_nat_str
    by (auto simp: scan_number_def int_str_def Let_def)
qed

lemma scan_literal_int: "value_end rest \<Longrightarrow> scan_literal (int_str i @ rest) = Inr (JInt i, rest)"
proof -
  assume e: "value_end rest"
  obtain d r where d: "nat_str (nat \<bar>i\<bar>) = digit_char d # r" "d < 10" using nat_str_head by blast
  have head: "digit_char d \<noteq> c" if "char_digit c = None" for c
    using that char_digit_digit_char [OF d(2)] by auto
  have "char_digit (CHR ''n'') = None" "char_digit (CHR ''t'') = None" "char_digit (CHR ''f'') = None" "char_digit (CHR ''N'') = None"
    "char_digit (CHR ''I'') = None" "char_digit (CHR ''-'') = None" by code_simp+
  then have "\<not> startswith (int_str i @ rest) w" if "w \<in> {''null'', ''true'', ''false'', ''NaN'', ''Infinity'', ''-Infinity''}" for w
    using that head d by (cases "i < 0") (auto simp: int_str_def startswith_def)
  then show ?thesis using scan_number_int_str [OF e] by (simp add: scan_literal_def)
qed

subsection \<open>Values\<close>

definition value_start :: "char \<Rightarrow> bool" where
  "value_start c \<longleftrightarrow> \<not> json_ws c \<and> c \<notin> {CHR '']'', CHR ''}''}"

lemma int_str_head: "\<exists>c t. int_str i = c # t \<and> value_start c \<and> c \<notin> {quote, CHR ''['', CHR ''{''}"
proof -
  obtain d r where d: "nat_str (nat \<bar>i\<bar>) = digit_char d # r" "d < 10" using nat_str_head by blast
  have "\<forall>d \<in> set [0..<10]. value_start (digit_char d) \<and> digit_char d \<notin> {quote, CHR ''['', CHR ''{''}" by code_simp
  moreover have "value_start (CHR ''-'') \<and> CHR ''-'' \<notin> {quote, CHR ''['', CHR ''{''}" by code_simp
  ultimately show ?thesis using d by (cases "i < 0") (auto simp: int_str_def)
qed

lemma json_dumps_head: "exact_json j \<Longrightarrow> \<exists>c t. json_dumps j = c # t \<and> value_start c"
proof -
  assume "exact_json j"
  moreover have "value_start (CHR ''n'')" "value_start (CHR ''t'')" "value_start (CHR ''f'')" "value_start quote"
    "value_start (CHR ''['')" "value_start (CHR ''{'')" by code_simp+
  ultimately show ?thesis using int_str_head by (cases j) (force simp: dump_string_def)+
qed

lemma skip_ws_start: "value_start c \<Longrightarrow> skip_ws (c # t) = c # t"
  by (simp add: skip_ws_def value_start_def)

lemma skip_ws_sep: "skip_ws (CHR '','' # t) = CHR '','' # t" "skip_ws (CHR '']'' # t) = CHR '']'' # t" "skip_ws (CHR ''}'' # t) = CHR ''}'' # t"
    "skip_ws (CHR '':'' # t) = CHR '':'' # t" "skip_ws (quote # t) = quote # t"
  by (simp_all add: skip_ws_def json_ws_def quote_def)

lemma quote_not_bracket [simp]: "CHR ''['' \<noteq> quote" "CHR ''{'' \<noteq> quote" "CHR ''n'' \<noteq> quote" "CHR ''t'' \<noteq> quote" "CHR ''f'' \<noteq> quote"
  by code_simp+

lemma parse_value_start:
  "parse_value (Suc n) (CHR ''['' # t) =
     (case skip_ws t of [] \<Rightarrow> Inl BadJson
      | d # r \<Rightarrow> if d = CHR '']'' then Inr (JArr [], r) else bind_res (parse_elems n (d # r)) (\<lambda>(vs, r'). Inr (JArr vs, r')))"
  "parse_value (Suc n) (CHR ''{'' # t) =
     (case skip_ws t of [] \<Rightarrow> Inl BadJson
      | d # r \<Rightarrow> if d = CHR ''}'' then Inr (JObj [], r)
                 else bind_res (parse_members n (d # r)) (\<lambda>(ps, r'). bind_res (pairs_hook ps) (\<lambda>v. Inr (v, r'))))"
  "parse_value (Suc n) (quote # t) = bind_res (scan_string t) (\<lambda>(str, r). Inr (JStr str, r))"
  by simp_all

definition reads_as :: "json \<Rightarrow> string \<Rightarrow> bool" where
  "reads_as v t \<longleftrightarrow> (\<forall>n rest. 2 * length t \<le> n \<longrightarrow> value_end rest \<longrightarrow> parse_value n (t @ rest) = Inr (v, rest))
     \<and> (\<exists>c t'. t = c # t' \<and> value_start c)"

lemma intercalate_Cons: "intercalate sep (x # xs) = x @ (if xs = [] then [] else sep @ intercalate sep xs)"
  by (cases xs) auto

lemma value_start_not: "value_start c \<Longrightarrow> c \<noteq> CHR '']'' \<and> c \<noteq> CHR ''}''"
  by (simp add: value_start_def)

lemma parse_elems_reads:
  assumes "list_all2 reads_as vs ts" "ts \<noteq> []" "2 * length (intercalate '','' ts) + 1 \<le> n"
  shows "parse_elems n (intercalate '','' ts @ CHR '']'' # rest) = Inr (vs, rest)"
  using assms
proof (induction vs ts arbitrary: n rule: list_all2_induct)
  case Nil
  then show ?case by simp
next
  case (Cons v vs t ts)
  obtain m where n: "n = Suc m" using Cons by (cases n) auto
  have read: "parse_value m (t @ r) = Inr (v, r)" if "value_end r" for r
    using Cons that n by (auto simp: reads_as_def intercalate_Cons)
  show ?case
  proof (cases "ts = []")
    case True
    then show ?thesis using Cons n read [of "CHR '']'' # rest"] by (simp add: value_end_def skip_ws_sep)
  next
    case False
    have len: "2 * length (intercalate '','' ts) + 1 \<le> m" using Cons.prems n False by (simp add: intercalate_Cons)
    obtain u us where ts: "ts = u # us" using False by (cases ts) auto
    then obtain c u' where "u = c # u'" "value_start c" using Cons.hyps by (auto simp: reads_as_def list_all2_Cons2)
    then have "skip_ws (intercalate '','' ts @ CHR '']'' # rest) = intercalate '','' ts @ CHR '']'' # rest"
      by (simp add: ts intercalate_Cons skip_ws_start)
    then show ?thesis
      using n False read [of "CHR '','' # intercalate '','' ts @ CHR '']'' # rest"] Cons.IH [OF False len]
      by (simp add: intercalate_Cons value_end_def skip_ws_sep)
  qed
qed

definition member_text :: "string \<times> string \<Rightarrow> string" where
  "member_text = (\<lambda>(k, t). dump_string k @ '':'' @ t)"

lemma parse_members_reads:
  assumes "list_all2 (\<lambda>p q. fst p = fst q \<and> reads_as (snd p) (snd q)) ps qs" "qs \<noteq> []"
    "2 * length (intercalate '','' (map member_text qs)) + 1 \<le> n"
  shows "parse_members n (intercalate '','' (map member_text qs) @ CHR ''}'' # rest) = Inr (ps, rest)"
  using assms
proof (induction ps qs arbitrary: n rule: list_all2_induct)
  case Nil
  then show ?case by simp
next
  case (Cons p ps q qs)
  obtain m where n: "n = Suc m" using Cons by (cases n) auto
  obtain k v t where kv: "p = (k, v)" "q = (k, t)" using Cons.hyps by (cases p, cases q) auto
  have rd: "reads_as v t" using Cons.hyps kv by simp
  then obtain c t' where t: "t = c # t'" "value_start c" by (auto simp: reads_as_def)
  have read: "parse_value m (t @ r) = Inr (v, r)" if "value_end r" for r
    using Cons.prems rd that n kv by (auto simp: reads_as_def intercalate_Cons member_text_def)
  have shape: "parse_members n (member_text q @ r) = (bind_res (parse_value m (skip_ws (t @ r))) (\<lambda>(v, r2).
                  case skip_ws r2 of
                    [] \<Rightarrow> Inl BadJson
                  | e # r3 \<Rightarrow>
                      if e = CHR ''}'' then Inr ([(k, v)], r3)
                      else if e = CHR '','' then bind_res (parse_members m (skip_ws r3)) (\<lambda>(ps, r4). Inr ((k, v) # ps, r4))
                      else Inl BadJson))" for r
    using scan_dump_string [of k "CHR '':'' # t @ r"] by (simp add: n kv member_text_def dump_string_def skip_ws_sep)
  have tr: "skip_ws (t @ r) = t @ r" for r using t by (simp add: skip_ws_start)
  show ?case
  proof (cases "qs = []")
    case True
    then show ?thesis using Cons shape [of "CHR ''}'' # rest"] read [of "CHR ''}'' # rest"] by (simp add: tr value_end_def skip_ws_sep kv)
  next
    case False
    let ?r = "intercalate '','' (map member_text qs) @ CHR ''}'' # rest"
    have len: "2 * length (intercalate '','' (map member_text qs)) + 1 \<le> m" using Cons.prems n False by (simp add: intercalate_Cons)
    obtain q' qs' where qs: "qs = q' # qs'" using False by (cases qs) auto
    then have "skip_ws ?r = ?r" by (cases q') (simp add: intercalate_Cons member_text_def dump_string_def skip_ws_sep)
    then show ?thesis
      using False shape [of "CHR '','' # ?r"] read [of "CHR '','' # ?r"] Cons.IH [OF False len]
      by (simp add: intercalate_Cons value_end_def skip_ws_sep tr kv)
  qed
qed

lemma first_duplicate_distinct: "distinct (map fst ps) \<Longrightarrow> set (map fst ps) \<inter> set seen = {} \<Longrightarrow> first_duplicate seen ps = None"
  by (induction seen ps rule: first_duplicate.induct) auto

lemma reads_as_arr:
  assumes "list_all2 reads_as vs ts"
  shows "reads_as (JArr vs) (CHR ''['' # intercalate '','' ts @ '']'')"
proof -
  have "parse_value n (CHR ''['' # intercalate '','' ts @ CHR '']'' # rest) = Inr (JArr vs, rest)"
    if n: "2 * length (intercalate '','' ts) + 4 \<le> n" for n rest
  proof -
    obtain m where m: "n = Suc m" using n by (cases n) auto
    show ?thesis
    proof (cases ts)
      case Nil
      then show ?thesis using assms by (simp add: m skip_ws_sep del: parse_value.simps add: parse_value_start)
    next
      case (Cons u us)
      then obtain c u' where u: "u = c # u'" "value_start c" using assms by (auto simp: reads_as_def list_all2_Cons2)
      obtain r where r: "intercalate '','' ts @ CHR '']'' # rest = c # r" using u Cons by (simp add: intercalate_Cons)
      have "parse_elems m (c # r) = Inr (vs, rest)"
        using parse_elems_reads [OF assms, of m rest] n m Cons r by simp
      then show ?thesis using r u value_start_not [OF u(2)]
        by (simp add: m skip_ws_start parse_value_start del: parse_value.simps)
    qed
  qed
  then show ?thesis by (auto simp: reads_as_def value_start_def json_ws_def)
qed

lemma reads_as_obj:
  assumes "list_all2 (\<lambda>p q. fst p = fst q \<and> reads_as (snd p) (snd q)) ps qs" "distinct (map fst ps)"
  shows "reads_as (JObj ps) (CHR ''{'' # intercalate '','' (map member_text qs) @ ''}'')"
proof -
  have hook: "pairs_hook ps = Inr (JObj ps)" using first_duplicate_distinct [OF assms(2), of "[]"] by (simp add: pairs_hook_def)
  have "parse_value n (CHR ''{'' # intercalate '','' (map member_text qs) @ CHR ''}'' # rest) = Inr (JObj ps, rest)"
    if n: "2 * length (intercalate '','' (map member_text qs)) + 4 \<le> n" for n rest
  proof -
    obtain m where m: "n = Suc m" using n by (cases n) auto
    show ?thesis
    proof (cases qs)
      case Nil
      then show ?thesis using assms by (simp add: m skip_ws_sep parse_value_start del: parse_value.simps)
    next
      case (Cons q qs')
      obtain r where r: "intercalate '','' (map member_text qs) @ CHR ''}'' # rest = quote # r"
        using Cons by (cases q) (simp add: intercalate_Cons member_text_def dump_string_def)
      have "parse_members m (quote # r) = Inr (ps, rest)"
        using parse_members_reads [OF assms(1), of m rest] n m Cons r by simp
      moreover have "quote \<noteq> CHR ''}''" by code_simp
      ultimately show ?thesis using r hook by (simp add: m skip_ws_sep parse_value_start del: parse_value.simps)
    qed
  qed
  then show ?thesis by (auto simp: reads_as_def value_start_def json_ws_def)
qed

lemma parse_scalar:
  "c \<noteq> quote \<Longrightarrow> c \<noteq> CHR ''['' \<Longrightarrow> c \<noteq> CHR ''{'' \<Longrightarrow> parse_value (Suc n) (c # t) = scan_literal (c # t)"
  by simp

lemma reads_as_literal:
  assumes "t = c # t'" "value_start c" "c \<noteq> quote" "c \<noteq> CHR ''[''" "c \<noteq> CHR ''{''"
    "\<And>rest. value_end rest \<Longrightarrow> scan_literal (t @ rest) = Inr (v, rest)"
  shows "reads_as v t"
proof -
  have "parse_value n (t @ rest) = Inr (v, rest)" if len: "2 * length t \<le> n" "value_end rest" for n rest
  proof -
    obtain m where "n = Suc m" using len assms(1) by (cases n) auto
    then show ?thesis using assms len parse_scalar [of c m "t' @ rest"] by simp
  qed
  then show ?thesis using assms(1,2) by (auto simp: reads_as_def)
qed

lemma reads_as_str: "reads_as (JStr s) (dump_string s)"
proof -
  have "parse_value n (dump_string s @ rest) = Inr (JStr s, rest)" if len: "2 * length (dump_string s) \<le> n" for n rest
  proof -
    obtain m where "n = Suc m" using len by (cases n) (auto simp: dump_string_def)
    then show ?thesis using scan_dump_string by (simp add: dump_string_def parse_value_start del: parse_value.simps)
  qed
  moreover have "value_start quote" by code_simp
  ultimately show ?thesis by (auto simp: reads_as_def dump_string_def)
qed

lemma insort_key_map: "insort_key f (g x) (map g xs) = map g (insort_key (\<lambda>y. f (g y)) x xs)"
  by (induction xs) auto

lemma sort_key_map: "sort_key f (map g xs) = map g (sort_key (\<lambda>y. f (g y)) xs)"
  by (induction xs) (simp_all add: insort_key_map)

lemma sort_key_map_fst: "sort_key fst (map (\<lambda>(k, v). (k, f v)) ps) = map (\<lambda>(k, v). (k, f v)) (sort_key fst ps)"
  by (simp add: sort_key_map case_prod_unfold)

lemma fst_map_pair: "map fst (map (\<lambda>(k, v). (k, f v)) ps) = map fst ps"
  by (induction ps) auto

lemma reads_as_dumps: "exact_json j \<Longrightarrow> reads_as (canon j) (json_dumps j)"
proof (induction j)
  case JNull
  show ?case by (rule reads_as_literal [of _ "CHR ''n''"]) (auto simp: value_start_def json_ws_def scan_literal_def startswith_def)
next
  case (JBool b)
  show ?case
    by (cases b; rule reads_as_literal) (auto simp: value_start_def json_ws_def scan_literal_def startswith_def)
next
  case (JInt i)
  obtain c t where "int_str i = c # t" "value_start c" "c \<notin> {quote, CHR ''['', CHR ''{''}" using int_str_head by blast
  then have "reads_as (JInt i) (int_str i)"
    by (intro reads_as_literal [of "int_str i" c t "JInt i"] scan_literal_int) simp_all
  then show ?case by simp
next
  case (JStr s)
  then show ?case by (simp add: reads_as_str)
next
  case (JArr vs)
  then have "list_all2 reads_as (map canon vs) (map json_dumps vs)"
    by (simp add: list_all2_map1 list_all2_map2 list_all2_same)
  then show ?case using reads_as_arr by simp
next
  case (JObj ps)
  let ?ps = "map (\<lambda>(k, v). (k, canon v)) (sort_key fst ps)" and ?qs = "map (\<lambda>(k, v). (k, json_dumps v)) (sort_key fst ps)"
  have rel: "list_all2 (\<lambda>p q. fst p = fst q \<and> reads_as (snd p) (snd q)) ?ps ?qs"
    using JObj by (force simp: list_all2_map1 list_all2_map2 intro!: list.rel_refl_strong)
  have "distinct (map fst (sort_key fst ps))" using JObj.prems by (simp add: distinct_map)
  then have "distinct (map fst ?ps)" unfolding fst_map_pair .
  then show ?case
    using reads_as_obj [OF rel] by (simp add: sort_key_map_fst member_text_def)
qed simp


lemma json_loads_ws_dumps:
  assumes j: "exact_json j" and b: "\<forall>c \<in> set b. json_ws c"
  shows "json_loads (b @ json_dumps j) = Inr (canon j)"
proof -
  obtain c t where h: "json_dumps j = c # t" "value_start c" using json_dumps_head [OF j] by blast
  have skip: "skip_ws (b @ json_dumps j) = json_dumps j"
    using h b by (simp add: skip_ws_def dropWhile_append value_start_def)
  have "parse_value (2 * length (b @ json_dumps j) + 2) (json_dumps j @ []) = Inr (canon j, [])"
    using conjunct1 [OF reads_as_dumps [OF j, unfolded reads_as_def], rule_format, of "2 * length (b @ json_dumps j) + 2" "[]"]
    by (simp add: value_end_def del: parse_value.simps)
  then show ?thesis unfolding json_loads_def skip by (simp add: skip_ws_def [of "[]"] del: parse_value.simps)
qed

lemma json_loads_dumps: "exact_json j \<Longrightarrow> json_loads (json_dumps j) = Inr (canon j)"
  using json_loads_ws_dumps [of j "[]"] by simp

subsection \<open>The text is ASCII and canonical\<close>

lemma ascii_escape: "ascii_only (escape_char c)"
proof -
  have hexes: "\<forall>n \<in> set [0..<16]. (of_char (hex_char n) :: nat) < 128" by code_simp
  have "(of_char c :: nat) div 16 < 16" "(of_char c :: nat) mod 16 < 16"
    using less_mult_imp_div_less [of "of_char c" 16 16] by simp_all
  then have "(of_char (hex_char (of_char c div 16)) :: nat) < 128" "(of_char (hex_char (of_char c mod 16)) :: nat) < 128"
    using hexes by auto
  then show ?thesis by (auto simp: escape_char_def Let_def ascii_only_def special_chars)
qed

lemma ascii_append [simp]: "ascii_only (s @ t) \<longleftrightarrow> ascii_only s \<and> ascii_only t" "ascii_only (c # s) \<longleftrightarrow> (of_char c :: nat) < 128 \<and> ascii_only s"
  "ascii_only []"
  by (auto simp: ascii_only_def)

lemma ascii_dump_string: "ascii_only (dump_string s)"
proof -
  have "ascii_only (concat (map escape_char s))" by (induction s) (auto simp: ascii_escape)
  then show ?thesis by (simp add: dump_string_def special_chars)
qed

lemma ascii_nat_str: "ascii_only (nat_str n)"
proof (induction n rule: nat_str.induct)
  case (1 n)
  then show ?case by (cases "n < 10") (auto simp: nat_str.simps [of n])
qed

lemma ascii_intercalate: "ascii_only sep \<Longrightarrow> (\<And>t. t \<in> set ts \<Longrightarrow> ascii_only t) \<Longrightarrow> ascii_only (intercalate sep ts)"
  by (induction sep ts rule: intercalate.induct) auto

lemma ascii_json_dumps: "exact_json j \<Longrightarrow> ascii_only (json_dumps j)"
proof (induction j)
  case (JArr vs)
  then show ?case by (auto intro!: ascii_intercalate)
next
  case (JObj ps)
  then show ?case by (force intro!: ascii_intercalate simp: ascii_dump_string)
qed (auto simp: ascii_dump_string int_str_def ascii_nat_str)

lemma sort_key_idem: "sort_key f (sort_key f xs) = sort_key f xs"
  by (rule sort_key_id_if_sorted) simp

lemma json_dumps_canon: "json_dumps (canon j) = json_dumps j"
proof (induction j)
  case (JArr vs)
  then have "map json_dumps (map canon vs) = map json_dumps vs" by simp
  then show ?case by (simp only: canon.simps json_dumps.simps)
next
  case (JObj ps)
  then have "map (\<lambda>(k, v). (k, json_dumps v)) (map (\<lambda>(k, v). (k, canon v)) (sort_key fst ps)) = map (\<lambda>(k, v). (k, json_dumps v)) (sort_key fst ps)"
    by (force simp: case_prod_unfold)
  then have "sort_key fst (map (\<lambda>(k, v). (k, json_dumps v)) (sort_key fst (map (\<lambda>(k, v). (k, canon v)) ps)))
      = sort_key fst (map (\<lambda>(k, v). (k, json_dumps v)) ps)"
    by (simp only: sort_key_map_fst sort_key_idem)
  then show ?case by (simp only: canon.simps json_dumps.simps)
qed simp_all

lemma json_dumps_eq_iff:
  assumes "exact_json a" "exact_json b"
  shows "json_dumps a = json_dumps b \<longleftrightarrow> canon a = canon b"
  by (metis assms json_dumps_canon json_loads_dumps sum.inject(2))

end
