(* ===== verification/ReceiptCrypto.thy ===== *)
theory ReceiptCrypto
  imports JsonText
begin

section \<open>Receipt signatures and the pinned key registries\<close>

text \<open>
  \<open>packages/data_plane/storage/receipt_crypto.py\<close>: the pinned public-key registries of receipt
  authorities, their parsing, the generation chain, and signature verification. What the module takes from
  outside is the record \<open>crypto_env\<close>: SHA-256, the two Ed25519 operations of the cryptography package (whether 32 bytes
  load as a public key, and whether a signature verifies), and the contents of the four pinned files (\<open>None\<close> when a
  file cannot be read). Nothing is assumed of them. The caches of the module are keyed by content and do not show.
  An error is the exception; messages leave out the quoted values.
\<close>

datatype rc_error =
    KeyConfigurationError string
  | ReceiptVerificationError string
  | RcTypeError string
  | RcValueError string
  | RcKeyError string

type_synonym 'a rc = "(rc_error, 'a) result"

record crypto_env =
  ce_sha256_hex :: "string \<Rightarrow> string"
  ce_key_loads :: "string \<Rightarrow> bool"
  ce_ed25519_verify :: "string \<Rightarrow> string \<Rightarrow> string \<Rightarrow> bool"
  ce_instances_file :: "string option"
  ce_scoped_file :: "string \<Rightarrow> string option"
  ce_registry_file :: "string option"
  ce_prior_file :: "string option"

subsection \<open>Pins and closed field sets\<close>

definition pinned_instances_raw_digest :: string where
  "pinned_instances_raw_digest = ''sha256:a5fb439f33956c06c2ea709d716795ea9125ccd87f786169786061de0df351fe''"

definition pinned_instances_document_digest :: string where
  "pinned_instances_document_digest = ''sha256:77c26eddcbf3da9871e5aa5e2624a03c63203239184b1f71af55a79de772ad12''"

definition pinned_instance_digest :: "string \<Rightarrow> string" where
  "pinned_instance_digest e =
     (if e = ''production'' then ''sha256:e6d7df1b9000481d15b8987f5ffda7f3a0b0c051a43cf0051d04a38e58e372a6''
      else ''sha256:5104b2d3b85ddbbd44fb9e4ddc2689898232c2e6e175727c71c1ce2cb6ec9bff'')"

definition pinned_scoped_raw_digest :: "string \<Rightarrow> string" where
  "pinned_scoped_raw_digest e =
     (if e = ''production'' then ''sha256:c258de1ff4a1d8c917aefe6656f0892a602f8d0de635ca21a4c8d7160d84ab33''
      else ''sha256:af8d2d91373da794d90cdfccc0d653eb6eacae89b394acfbe82866c0015c53f7'')"

definition pinned_registry_raw_digest :: string where
  "pinned_registry_raw_digest = ''sha256:dc6095db1d09bf775f972cb428944a1ba5bc47fefa0af19e77c3f3a157ae47f5''"

definition pinned_registry_document_digest :: string where
  "pinned_registry_document_digest = ''sha256:188c39c9833802026ff614a2de6ad3c48e7c83e628c43958b00f003097a36516''"

definition pinned_registry_generation :: int where "pinned_registry_generation = 2"

definition pinned_authority_status :: string where "pinned_authority_status = ''PENDING''"

definition pinned_prior_registry_digest :: string where
  "pinned_prior_registry_digest = ''sha256:087cfea679c27c267c4e79aaa7518097778d3b44d251c931e5bb6fd2803a2465''"

definition pinned_prior_raw_digest :: string where
  "pinned_prior_raw_digest = ''sha256:de08e72ea133bf4ab876944e27520a5aa7207e7bdfee412b8866131b9e7b1c90''"

definition pinned_prior_document_digest :: string where
  "pinned_prior_document_digest = ''sha256:087cfea679c27c267c4e79aaa7518097778d3b44d251c931e5bb6fd2803a2465''"

definition pinned_prior_generation :: int where "pinned_prior_generation = 1"

definition pinned_prior_authority_status :: string where "pinned_prior_authority_status = ''REVOKED''"

definition pinned_registry_body_digest :: string where
  "pinned_registry_body_digest = ''sha256:7dbf4eae91e927d74bd7075bc69210232030bb9077052d55853dc09f0c7bb921''"

definition parser_normalizer_version :: string where
  "parser_normalizer_version = ''coverage-receipt/v4-ed25519-closure''"

definition signed_claims_version :: string where "signed_claims_version = ''signed-receipt-claims/v3''"

definition audit_claims_version_v2 :: string where "audit_claims_version_v2 = ''signed-receipt-claims/v2''"

definition legacy_claims_version :: string where "legacy_claims_version = ''signed-receipt-claims/v1''"

definition production_receipt_environment :: string where "production_receipt_environment = ''production''"

definition standard_claim_keys :: "string list" where
  "standard_claim_keys =
     [''version'', ''environment'', ''authority_instance_digest'', ''coverage_policy_version'', ''dataset'', ''source'',
      ''contract_id'', ''segment_id'', ''segment_start'', ''segment_end'', ''receipt_issue_digest'', ''artifact_key'',
      ''artifact_byte_count'', ''manifest_key'', ''manifest_byte_count'', ''raw_manifest_key'', ''raw_manifest_byte_count'',
      ''raw_byte_count'', ''natural_key_digest'', ''expected_scope'', ''expected_items'', ''observed_items'',
      ''raw_page_count'', ''source_request_digest'', ''raw_manifest_digest'', ''raw_digest'', ''raw_count'',
      ''structured_digest'', ''structured_count'', ''parser_normalizer_version'', ''structured_generation'',
      ''pagination_exhausted'', ''discovery_exhausted'', ''status'', ''error'', ''scope_digest'', ''observation_digest'',
      ''run_id'', ''issuer_id'', ''issued_at'', ''checked_at'', ''extra_digests'', ''raw'', ''eligibility'', ''signature'',
      ''signed_body_b64'', ''issuer_class'', ''issuer_key_id'', ''body_digest'']"

definition registry_fields :: "string list" where
  "registry_fields = [''schema_version'', ''purpose'', ''generation'', ''authority_status'', ''prior_registry_digest'', ''keys'', ''registry_digest'']"

definition registry_key_fields :: "string list" where
  "registry_key_fields = [''key_id'', ''algorithm'', ''public_key_base64'', ''status'']"

definition scoped_registry_fields :: "string list" where
  "scoped_registry_fields = registry_fields @ [''environment'', ''authority_instance_digest'']"

definition prior_registry_fields :: "string list" where
  "prior_registry_fields = [''schema_version'', ''purpose'', ''keys'']"

definition prior_registry_key_fields :: "string list" where
  "prior_registry_key_fields = [''key_id'', ''public_key_b64'', ''algorithm'', ''status'', ''note'']"

subsection \<open>Documents and digests\<close>

text \<open>\<open>json.dumps\<close> of a receipt body or a registry, encoded: the text is ASCII.\<close>

definition canonical_receipt_body :: "dict \<Rightarrow> string" where
  "canonical_receipt_body d = json_dumps (JObj d)"

definition strict_json_document :: "string \<Rightarrow> dict rc" where
  "strict_json_document raw =
     (case utf8_decode raw of
        None \<Rightarrow> Inl (KeyConfigurationError ''cannot load the pinned receipt public-key registry'')
      | Some txt \<Rightarrow>
          (case json_loads txt of
             Inl (DuplicateKey k) \<Rightarrow> Inl (KeyConfigurationError (''receipt registry contains duplicate key '' @ k))
           | Inl (NonFinite v) \<Rightarrow> Inl (KeyConfigurationError (''receipt registry contains non-finite value '' @ v))
           | Inl _ \<Rightarrow> Inl (KeyConfigurationError ''cannot load the pinned receipt public-key registry'')
           | Inr (JObj d) \<Rightarrow> Inr d
           | Inr _ \<Rightarrow> Inl (KeyConfigurationError ''pinned receipt public-key registry is invalid'')))"

definition body_digest :: "('a crypto_env_scheme) \<Rightarrow> string \<Rightarrow> string" where
  "body_digest env body = ''sha256:'' @ ce_sha256_hex env body"

definition canonical_evidence_digest :: "('a crypto_env_scheme) \<Rightarrow> json \<Rightarrow> string" where
  "canonical_evidence_digest env payload = body_digest env (json_dumps payload)"

definition registry_body_digest :: "('a crypto_env_scheme) \<Rightarrow> dict \<Rightarrow> string" where
  "registry_body_digest env doc = body_digest env (canonical_receipt_body (filter (\<lambda>(k, v). k \<noteq> ''registry_digest'') doc))"

definition decode_canonical_base64 :: "string \<Rightarrow> nat option \<Rightarrow> string option" where
  "decode_canonical_base64 value expected_length =
     (case b64decode value of
        None \<Rightarrow> None
      | Some raw \<Rightarrow>
          if b64encode raw \<noteq> value then None
          else if (case expected_length of None \<Rightarrow> False | Some n \<Rightarrow> length raw \<noteq> n) then None
          else Some raw)"

definition decode_canonical_signed_body :: "string \<Rightarrow> string option" where
  "decode_canonical_signed_body value = decode_canonical_base64 value None"

definition hex_chars :: string where "hex_chars = ''0123456789abcdef''"

definition is_sha256_digest :: "string \<Rightarrow> bool" where
  "is_sha256_digest value \<longleftrightarrow> length value = 71 \<and> startswith value ''sha256:'' \<and> (\<forall>c \<in> set (drop 7 value). c \<in> set hex_chars)"

definition is_json_str :: "json \<Rightarrow> bool" where
  "is_json_str v \<longleftrightarrow> (case v of JStr _ \<Rightarrow> True | _ \<Rightarrow> False)"

definition is_json_sha256 :: "json \<Rightarrow> bool" where
  "is_json_sha256 v \<longleftrightarrow> (case v of JStr s \<Rightarrow> is_sha256_digest s | _ \<Rightarrow> False)"

text \<open>\<open>v in {...}\<close> for a set of strings: a list or a dict is not hashable.\<close>

definition py_in :: "json \<Rightarrow> string list \<Rightarrow> bool rc" where
  "py_in v xs = (case v of JStr s \<Rightarrow> Inr (s \<in> set xs) | JArr _ \<Rightarrow> Inl (RcTypeError ''unhashable type'')
     | JObj _ \<Rightarrow> Inl (RcTypeError ''unhashable type'') | _ \<Rightarrow> Inr False)"

definition number_is :: "json \<Rightarrow> int \<Rightarrow> bool" where
  "number_is v n \<longleftrightarrow> (case v of JInt i \<Rightarrow> i = n | JFloat t \<Rightarrow> t = int_str n @ ''.0'' | _ \<Rightarrow> False)"

definition int_of :: "json \<Rightarrow> int" where
  "int_of v = (case v of JInt i \<Rightarrow> i | _ \<Rightarrow> 0)"

definition generation_ok :: "dict \<Rightarrow> bool" where
  "generation_ok doc \<longleftrightarrow> (case dict_get doc ''generation'' of JInt g \<Rightarrow> 1 \<le> g | _ \<Rightarrow> False)"

definition prior_digest_ok :: "dict \<Rightarrow> bool" where
  "prior_digest_ok doc \<longleftrightarrow>
     (let g = int_of (dict_get doc ''generation'') in
      (g = 1 \<longrightarrow> dict_get doc ''prior_registry_digest'' = JNull)
      \<and> (1 < g \<longrightarrow> is_json_sha256 (dict_get doc ''prior_registry_digest'')))"

definition key_rows :: "dict \<Rightarrow> json list option" where
  "key_rows doc = (case dict_get doc ''keys'' of JArr rows \<Rightarrow> Some rows | _ \<Rightarrow> None)"

definition string_or_none :: "json \<Rightarrow> string option" where
  "string_or_none v = (case v of JStr s \<Rightarrow> Some s | _ \<Rightarrow> None)"

subsection \<open>Verify keys and registries\<close>

text \<open>A verify key is its id and its 32 public bytes.\<close>

type_synonym verify_key = "string \<times> string"

definition verify_key_verify :: "('a crypto_env_scheme) \<Rightarrow> string \<Rightarrow> string \<Rightarrow> string \<Rightarrow> bool" where
  "verify_key_verify env public_key body signature =
     (if \<not> startswith signature ''ed25519:'' then False
      else case decode_canonical_base64 (drop (length ''ed25519:'') signature) (Some 64) of
             None \<Rightarrow> False
           | Some raw \<Rightarrow> ce_ed25519_verify env public_key raw body)"

record registry_entry =
  re_key_id :: string
  re_public_key_bytes :: string
  re_status :: string

record verify_registry =
  vr_generation :: int
  vr_authority_status :: string
  vr_environment :: "string option"
  vr_authority_instance_digest :: "string option"
  vr_prior_registry_digest :: "string option"
  vr_registry_digest :: string
  vr_entries :: "registry_entry list"
  vr_active_keys :: "verify_key list"
  vr_audit_keys :: "verify_key list"

record prior_registry =
  pr_generation :: int
  pr_authority_status :: string
  pr_document_digest :: string
  pr_entries :: "registry_entry list"

text \<open>The variables of the row loop.\<close>

record registry_acc =
  ra_active :: "verify_key list"
  ra_audit :: "verify_key list"
  ra_entries :: "registry_entry list"
  ra_seen_ids :: "string list"
  ra_seen_keys :: "(string \<times> string) list"
  ra_pending :: nat

definition empty_acc :: registry_acc where
  "empty_acc = \<lparr>ra_active = [], ra_audit = [], ra_entries = [], ra_seen_ids = [], ra_seen_keys = [], ra_pending = 0\<rparr>"

definition closed_row :: "string list \<Rightarrow> json \<Rightarrow> dict rc" where
  "closed_row flds row =
     (case row of
        JObj r \<Rightarrow>
          if set (map fst r) \<noteq> set flds then Inl (KeyConfigurationError ''receipt registry row is not closed'')
          else if \<exists>f \<in> set flds. \<not> is_json_str (dict_get r f) then Inl (KeyConfigurationError ''receipt registry fields must be exact strings'')
          else Inr r
      | _ \<Rightarrow> Inl (KeyConfigurationError ''receipt registry row is not closed''))"

definition fresh_key_id :: "string \<Rightarrow> string list \<Rightarrow> bool" where
  "fresh_key_id k seen \<longleftrightarrow> strip k = k \<and> k \<noteq> [] \<and> k \<notin> set seen"

definition reuses_live_bytes :: "registry_acc \<Rightarrow> string \<Rightarrow> string \<Rightarrow> bool" where
  "reuses_live_bytes acc raw_key status \<longleftrightarrow>
     (case map_of (ra_seen_keys acc) raw_key of None \<Rightarrow> False | Some prior \<Rightarrow> prior \<noteq> ''revoked'' \<or> status \<noteq> ''revoked'')"

definition record_key :: "string \<Rightarrow> string \<Rightarrow> string \<Rightarrow> registry_acc \<Rightarrow> registry_acc" where
  "record_key k raw_key status acc =
     acc\<lparr>ra_seen_ids := k # ra_seen_ids acc,
         ra_seen_keys := (raw_key, status) # ra_seen_keys acc,
         ra_entries := ra_entries acc @ [\<lparr>re_key_id = k, re_public_key_bytes = raw_key, re_status = status\<rparr>],
         ra_active := (if status = ''active'' then ra_active acc @ [(k, raw_key)] else ra_active acc),
         ra_audit := (if status = ''active'' \<or> status = ''revoked'' then ra_audit acc @ [(k, raw_key)] else ra_audit acc),
         ra_pending := (if status = ''active'' \<or> status = ''revoked'' then ra_pending acc else ra_pending acc + 1)\<rparr>"

definition registry_row :: "('a crypto_env_scheme) \<Rightarrow> json \<Rightarrow> registry_acc \<Rightarrow> registry_acc rc" where
  "registry_row env row acc =
     bind_res (closed_row registry_key_fields row) (\<lambda>r.
       let k = str_value (dict_get r ''key_id''); status = str_value (dict_get r ''status'') in
       if \<not> fresh_key_id k (ra_seen_ids acc) then Inl (KeyConfigurationError ''pinned receipt registry key ids must be trimmed, non-empty, and unique'')
       else if str_value (dict_get r ''algorithm'') \<noteq> ''Ed25519'' then Inl (KeyConfigurationError ''pinned receipt registry requires Ed25519 entries'')
       else if status \<notin> set [''active'', ''pending'', ''revoked''] then Inl (KeyConfigurationError ''pinned receipt registry requires an explicit key status'')
       else case decode_canonical_base64 (str_value (dict_get r ''public_key_base64'')) (Some 32) of
              None \<Rightarrow> Inl (KeyConfigurationError (''invalid pinned receipt public key: '' @ k))
            | Some raw_key \<Rightarrow>
                if \<not> ce_key_loads env raw_key then Inl (KeyConfigurationError (''invalid pinned receipt public key: '' @ k))
                else if reuses_live_bytes acc raw_key status
                then Inl (KeyConfigurationError ''active or pending receipt public keys must not reuse public-key bytes'')
                else Inr (record_key k raw_key status acc))"

definition scoped_registry_row :: "('a crypto_env_scheme) \<Rightarrow> json \<Rightarrow> registry_acc \<Rightarrow> registry_acc rc" where
  "scoped_registry_row env row acc =
     bind_res (closed_row registry_key_fields row) (\<lambda>r.
       let k = str_value (dict_get r ''key_id''); status = str_value (dict_get r ''status'') in
       if \<not> fresh_key_id k (ra_seen_ids acc) then Inl (KeyConfigurationError ''scoped receipt registry key ids must be trimmed and unique'')
       else if str_value (dict_get r ''algorithm'') \<noteq> ''Ed25519'' \<or> status \<notin> set [''active'', ''pending'', ''revoked'']
       then Inl (KeyConfigurationError ''scoped receipt registry key lifecycle is invalid'')
       else case decode_canonical_base64 (str_value (dict_get r ''public_key_base64'')) (Some 32) of
              None \<Rightarrow> Inl (KeyConfigurationError (''invalid scoped receipt public key: '' @ k))
            | Some raw_key \<Rightarrow>
                if reuses_live_bytes acc raw_key status
                then Inl (KeyConfigurationError ''active or pending scoped receipt keys must not reuse bytes'')
                else if \<not> ce_key_loads env raw_key then Inl (RcValueError ''invalid Ed25519 public key'')
                else Inr (record_key k raw_key status acc))"

fun registry_rows :: "(json \<Rightarrow> registry_acc \<Rightarrow> registry_acc rc) \<Rightarrow> json list \<Rightarrow> registry_acc \<Rightarrow> registry_acc rc" where
  "registry_rows f [] acc = Inr acc"
| "registry_rows f (row # rows) acc = bind_res (f row acc) (registry_rows f rows)"

definition expected_active :: "dict \<Rightarrow> nat" where
  "expected_active doc = (if dict_get doc ''authority_status'' = JStr ''ACTIVE'' then 1 else 0)"

definition registry_of :: "dict \<Rightarrow> string option \<Rightarrow> string option \<Rightarrow> registry_acc \<Rightarrow> verify_registry" where
  "registry_of doc environment authority acc =
     \<lparr>vr_generation = int_of (dict_get doc ''generation''), vr_authority_status = str_value (dict_get doc ''authority_status''),
      vr_environment = environment, vr_authority_instance_digest = authority,
      vr_prior_registry_digest = string_or_none (dict_get doc ''prior_registry_digest''),
      vr_registry_digest = str_value (dict_get doc ''registry_digest''), vr_entries = ra_entries acc,
      vr_active_keys = ra_active acc, vr_audit_keys = ra_audit acc\<rparr>"

definition parse_registry_document :: "('a crypto_env_scheme) \<Rightarrow> string \<Rightarrow> verify_registry rc" where
  "parse_registry_document env raw =
     bind_res (strict_json_document raw) (\<lambda>doc.
       if set (map fst doc) \<noteq> set registry_fields
          \<or> dict_get doc ''schema_version'' \<noteq> JInt 2
          \<or> dict_get doc ''purpose'' \<noteq> JStr ''receipt_verification''
          \<or> \<not> generation_ok doc
          \<or> dict_get doc ''authority_status'' \<notin> set [JStr ''ACTIVE'', JStr ''PENDING'']
          \<or> \<not> prior_digest_ok doc
          \<or> \<not> is_json_sha256 (dict_get doc ''registry_digest'')
          \<or> (case key_rows doc of None \<Rightarrow> True | Some rows \<Rightarrow> length rows < 1 \<or> 16 < length rows)
       then Inl (KeyConfigurationError ''pinned receipt public-key registry is invalid'')
       else if JStr (registry_body_digest env doc) \<noteq> dict_get doc ''registry_digest''
       then Inl (KeyConfigurationError ''pinned receipt registry body digest mismatch'')
       else bind_res (registry_rows (registry_row env) (the (key_rows doc)) empty_acc) (\<lambda>acc.
         if length (ra_active acc) \<noteq> expected_active doc
         then Inl (KeyConfigurationError ''pinned receipt registry active keys do not match authority status'')
         else if ra_pending acc > 1 then Inl (KeyConfigurationError ''pinned receipt registry permits at most one pending key'')
         else Inr (registry_of doc None None acc)))"

subsection \<open>The revoked predecessor registry\<close>

definition prior_registry_row :: "json \<Rightarrow> registry_acc \<Rightarrow> registry_acc rc" where
  "prior_registry_row row acc =
     bind_res (closed_row prior_registry_key_fields row) (\<lambda>r.
       let k = str_value (dict_get r ''key_id''); note = str_value (dict_get r ''note'') in
       if \<not> fresh_key_id k (ra_seen_ids acc)
       then Inl (KeyConfigurationError ''pinned prior receipt registry key ids must be trimmed, non-empty, and unique'')
       else if str_value (dict_get r ''algorithm'') \<noteq> ''Ed25519'' \<or> str_value (dict_get r ''status'') \<noteq> ''revoked'' \<or> strip note \<noteq> note \<or> note = []
       then Inl (KeyConfigurationError ''pinned prior receipt registry must remain revoked audit evidence'')
       else case decode_canonical_base64 (str_value (dict_get r ''public_key_b64'')) (Some 32) of
              None \<Rightarrow> Inl (KeyConfigurationError (''invalid pinned prior receipt public key: '' @ k))
            | Some raw_key \<Rightarrow>
                Inr (acc\<lparr>ra_seen_ids := k # ra_seen_ids acc,
                         ra_entries := ra_entries acc @ [\<lparr>re_key_id = k, re_public_key_bytes = raw_key, re_status = ''revoked''\<rparr>]\<rparr>))"

definition parse_prior_registry_document :: "('a crypto_env_scheme) \<Rightarrow> string \<Rightarrow> prior_registry rc" where
  "parse_prior_registry_document env raw =
     bind_res (strict_json_document raw) (\<lambda>doc.
       if set (map fst doc) \<noteq> set prior_registry_fields
          \<or> dict_get doc ''schema_version'' \<noteq> JInt 1
          \<or> dict_get doc ''purpose'' \<noteq> JStr ''receipt_verification''
          \<or> (case key_rows doc of None \<Rightarrow> True | Some rows \<Rightarrow> length rows < 1 \<or> 16 < length rows)
       then Inl (KeyConfigurationError ''pinned prior receipt registry is invalid'')
       else bind_res (registry_rows prior_registry_row (the (key_rows doc)) empty_acc) (\<lambda>acc.
         Inr \<lparr>pr_generation = 1, pr_authority_status = ''REVOKED'', pr_document_digest = body_digest env (canonical_receipt_body doc),
              pr_entries = ra_entries acc\<rparr>))"

subsection \<open>Authority instances\<close>

definition resource_shapes :: "(string \<times> string list) list" where
  "resource_shapes =
     [(''d1'', [''binding'', ''database_name'', ''database_id'']),
      (''authority_evidence_r2'', [''binding'', ''bucket_name'', ''raw_prefix'', ''product_prefix'']),
      (''raw_r2'', [''binding'', ''bucket_name'']),
      (''structured_r2'', [''binding'', ''bucket_name'']),
      (''durable_object'', [''binding'', ''class_name'']),
      (''acquisition_service'', [''binding'', ''service'', ''entrypoint''])]"

definition nonempty_json_str :: "json \<Rightarrow> bool" where
  "nonempty_json_str v \<longleftrightarrow> (case v of JStr s \<Rightarrow> s \<noteq> [] | _ \<Rightarrow> False)"

definition closed_object :: "json \<Rightarrow> string list \<Rightarrow> bool" where
  "closed_object v flds \<longleftrightarrow> (case v of JObj d \<Rightarrow> set (map fst d) = set flds | _ \<Rightarrow> False)"

definition object_of :: "json \<Rightarrow> dict" where
  "object_of v = (case v of JObj d \<Rightarrow> d | _ \<Rightarrow> [])"

definition resource_ok :: "dict \<Rightarrow> string \<times> string list \<Rightarrow> bool" where
  "resource_ok resources shape \<longleftrightarrow>
     (case shape of (name, flds) \<Rightarrow>
        closed_object (dict_get resources name) flds
        \<and> (\<forall>f \<in> set flds. nonempty_json_str (dict_get (object_of (dict_get resources name)) f)))"

definition check_instance :: "('a crypto_env_scheme) \<Rightarrow> dict \<Rightarrow> string \<Rightarrow> (string \<times> json) rc" where
  "check_instance env instances e =
     (let inst = dict_get instances e; d = object_of inst in
      if \<not> closed_object inst [''environment'', ''authority_id'', ''worker_name'', ''resources'']
         \<or> dict_get d ''environment'' \<noteq> JStr e
         \<or> dict_get d ''authority_id'' \<noteq> JStr ''receipt-evidence-authority''
         \<or> \<not> nonempty_json_str (dict_get d ''worker_name'')
         \<or> \<not> closed_object (dict_get d ''resources'') (map fst resource_shapes)
      then Inl (KeyConfigurationError ''pinned receipt authority instance is invalid'')
      else if \<exists>sh \<in> set resource_shapes. \<not> resource_ok (object_of (dict_get d ''resources'')) sh
      then Inl (KeyConfigurationError ''pinned receipt authority resource binding is invalid'')
      else if canonical_evidence_digest env inst \<noteq> pinned_instance_digest e
      then Inl (KeyConfigurationError ''pinned receipt authority instance digest mismatch'')
      else Inr (e, inst))"

definition load_pinned_authority_instances :: "('a crypto_env_scheme) \<Rightarrow> dict rc" where
  "load_pinned_authority_instances env =
     (case ce_instances_file env of
        None \<Rightarrow> Inl (KeyConfigurationError ''cannot read the pinned receipt authority instance contract'')
      | Some raw \<Rightarrow>
          if body_digest env raw \<noteq> pinned_instances_raw_digest
          then Inl (KeyConfigurationError ''pinned receipt authority instance raw digest mismatch'')
          else bind_res (strict_json_document raw) (\<lambda>doc.
            if body_digest env (canonical_receipt_body doc) \<noteq> pinned_instances_document_digest
               \<or> set (map fst doc) \<noteq> {''schema_version'', ''instances''}
               \<or> dict_get doc ''schema_version'' \<noteq> JStr ''receipt-authority-instances/v1''
               \<or> \<not> closed_object (dict_get doc ''instances'') [''production'', ''staging'']
            then Inl (KeyConfigurationError ''pinned receipt authority instance contract is invalid'')
            else map_res (check_instance env (object_of (dict_get doc ''instances''))) [''production'', ''staging'']))"

definition receipt_authority_instance_digest :: "('a crypto_env_scheme) \<Rightarrow> string \<Rightarrow> string rc" where
  "receipt_authority_instance_digest env e =
     (if e \<notin> set [''production'', ''staging''] then Inl (KeyConfigurationError ''receipt authority environment must be production or staging'')
      else bind_res (load_pinned_authority_instances env) (\<lambda>_. Inr (pinned_instance_digest e)))"

subsection \<open>The registry of one environment\<close>

definition scoped_header_ok :: "('a crypto_env_scheme) \<Rightarrow> dict \<Rightarrow> bool rc" where
  "scoped_header_ok env doc =
     (if set (map fst doc) \<noteq> set scoped_registry_fields \<or> \<not> number_is (dict_get doc ''schema_version'') 3
         \<or> dict_get doc ''purpose'' \<noteq> JStr ''receipt_verification'' \<or> \<not> generation_ok doc
      then Inr False
      else bind_res (py_in (dict_get doc ''authority_status'') [''ACTIVE'', ''PENDING'']) (\<lambda>status_ok.
        if \<not> status_ok then Inr False
        else bind_res (py_in (dict_get doc ''environment'') [''production'', ''staging'']) (\<lambda>env_ok.
          Inr (env_ok \<and> is_json_sha256 (dict_get doc ''authority_instance_digest'') \<and> prior_digest_ok doc
               \<and> is_json_sha256 (dict_get doc ''registry_digest'')
               \<and> (case key_rows doc of None \<Rightarrow> False | Some rows \<Rightarrow> length rows \<le> 16)
               \<and> JStr (registry_body_digest env doc) = dict_get doc ''registry_digest''))))"

definition parse_scoped_registry_document :: "('a crypto_env_scheme) \<Rightarrow> string \<Rightarrow> verify_registry rc" where
  "parse_scoped_registry_document env raw =
     bind_res (strict_json_document raw) (\<lambda>doc.
     bind_res (scoped_header_ok env doc) (\<lambda>ok.
       if \<not> ok then Inl (KeyConfigurationError ''pinned scoped receipt public-key registry is invalid'')
       else bind_res (receipt_authority_instance_digest env (str_value (dict_get doc ''environment''))) (\<lambda>authority.
         if dict_get doc ''authority_instance_digest'' \<noteq> JStr authority
         then Inl (KeyConfigurationError ''scoped receipt registry authority instance mismatch'')
         else bind_res (registry_rows (scoped_registry_row env) (the (key_rows doc)) empty_acc) (\<lambda>acc.
           if length (ra_active acc) \<noteq> expected_active doc \<or> ra_pending acc > 1
           then Inl (KeyConfigurationError ''scoped receipt registry keys do not match authority status'')
           else Inr (registry_of doc (Some (str_value (dict_get doc ''environment''))) (Some authority) acc)))))"

definition load_pinned_scoped_registry :: "('a crypto_env_scheme) \<Rightarrow> string \<Rightarrow> string \<Rightarrow> verify_registry rc" where
  "load_pinned_scoped_registry env e authority =
     (if e \<notin> set [''production'', ''staging''] then Inl (KeyConfigurationError ''receipt verifier expected authority scope is not pinned'')
      else bind_res (receipt_authority_instance_digest env e) (\<lambda>pinned.
        if authority \<noteq> pinned then Inl (KeyConfigurationError ''receipt verifier expected authority scope is not pinned'')
        else case ce_scoped_file env e of
               None \<Rightarrow> Inl (KeyConfigurationError ''cannot read the pinned scoped receipt public-key registry'')
             | Some raw \<Rightarrow>
                 if body_digest env raw \<noteq> pinned_scoped_raw_digest e
                 then Inl (KeyConfigurationError ''pinned scoped receipt registry raw digest mismatch'')
                 else bind_res (parse_scoped_registry_document env raw) (\<lambda>reg.
                   if vr_environment reg \<noteq> Some e \<or> vr_authority_instance_digest reg \<noteq> Some authority
                   then Inl (KeyConfigurationError ''pinned scoped receipt registry selection mismatch'')
                   else Inr reg)))"

subsection \<open>The unscoped registry and its chain\<close>

definition load_pinned_prior_registry :: "('a crypto_env_scheme) \<Rightarrow> prior_registry rc" where
  "load_pinned_prior_registry env =
     (case ce_prior_file env of
        None \<Rightarrow> Inl (KeyConfigurationError ''cannot read the pinned prior receipt public-key registry'')
      | Some raw \<Rightarrow>
          if body_digest env raw \<noteq> pinned_prior_raw_digest
          then Inl (KeyConfigurationError ''pinned prior receipt registry raw digest mismatch'')
          else bind_res (strict_json_document raw) (\<lambda>doc.
            if body_digest env (canonical_receipt_body doc) \<noteq> pinned_prior_document_digest
            then Inl (KeyConfigurationError ''pinned prior receipt registry document digest mismatch'')
            else bind_res (parse_prior_registry_document env raw) (\<lambda>prior.
              if pr_generation prior \<noteq> pinned_prior_generation \<or> pr_authority_status prior \<noteq> pinned_prior_authority_status
                 \<or> pr_document_digest prior \<noteq> pinned_prior_document_digest
              then Inl (KeyConfigurationError ''pinned prior receipt registry code pins mismatch'')
              else Inr prior)))"

definition entry_by_id :: "registry_entry list \<Rightarrow> string \<Rightarrow> registry_entry option" where
  "entry_by_id es k = List.find (\<lambda>x. re_key_id x = k) (rev es)"

definition carried_revoked :: "registry_entry list \<Rightarrow> registry_entry \<Rightarrow> bool" where
  "carried_revoked current p \<longleftrightarrow>
     (case entry_by_id current (re_key_id p) of
        None \<Rightarrow> False
      | Some c \<Rightarrow> re_public_key_bytes c = re_public_key_bytes p \<and> re_status p = ''revoked'' \<and> re_status c = ''revoked'')"

definition validate_registry_chain :: "prior_registry \<Rightarrow> verify_registry \<Rightarrow> unit rc" where
  "validate_registry_chain prior current =
     (if vr_generation current \<noteq> pr_generation prior + 1
         \<or> vr_prior_registry_digest current \<noteq> Some (pr_document_digest prior)
         \<or> (pr_authority_status prior, vr_authority_status current) \<noteq> (''REVOKED'', ''PENDING'')
      then Inl (KeyConfigurationError ''pinned receipt registry prior chain mismatch'')
      else if \<exists>p \<in> set (pr_entries prior). \<not> carried_revoked (vr_entries current) p
      then Inl (KeyConfigurationError ''pinned receipt registry revoked history transition mismatch'')
      else Inr ())"

definition load_pinned_registry :: "('a crypto_env_scheme) \<Rightarrow> verify_registry rc" where
  "load_pinned_registry env =
     (case ce_registry_file env of
        None \<Rightarrow> Inl (KeyConfigurationError ''cannot read the pinned receipt public-key registry'')
      | Some raw \<Rightarrow>
          if body_digest env raw \<noteq> pinned_registry_raw_digest
          then Inl (KeyConfigurationError ''pinned receipt registry raw digest mismatch'')
          else bind_res (strict_json_document raw) (\<lambda>doc.
            if body_digest env (canonical_receipt_body doc) \<noteq> pinned_registry_document_digest
            then Inl (KeyConfigurationError ''pinned receipt registry document digest mismatch'')
            else bind_res (parse_registry_document env raw) (\<lambda>reg.
              if vr_generation reg \<noteq> pinned_registry_generation \<or> vr_authority_status reg \<noteq> pinned_authority_status
                 \<or> vr_prior_registry_digest reg \<noteq> Some pinned_prior_registry_digest
                 \<or> vr_registry_digest reg \<noteq> pinned_registry_body_digest
              then Inl (KeyConfigurationError ''pinned receipt registry generation chain mismatch'')
              else if 1 < vr_generation reg
              then bind_res (load_pinned_prior_registry env) (\<lambda>prior. bind_res (validate_registry_chain prior reg) (\<lambda>_. Inr reg))
              else Inr reg)))"

subsection \<open>Keys and signatures\<close>

definition load_verify_keys :: "('a crypto_env_scheme) \<Rightarrow> verify_key list rc" where
  "load_verify_keys env = bind_res (load_pinned_registry env) (\<lambda>reg. Inr (vr_active_keys reg))"

definition load_scoped_verify_keys :: "('a crypto_env_scheme) \<Rightarrow> string \<Rightarrow> string \<Rightarrow> verify_key list rc" where
  "load_scoped_verify_keys env e authority = bind_res (load_pinned_scoped_registry env e authority) (\<lambda>reg. Inr (vr_active_keys reg))"

definition load_audit_verify_keys :: "('a crypto_env_scheme) \<Rightarrow> verify_key list rc" where
  "load_audit_verify_keys env = bind_res (load_pinned_registry env) (\<lambda>reg. Inr (vr_audit_keys reg))"

definition load_scoped_audit_verify_keys :: "('a crypto_env_scheme) \<Rightarrow> string \<Rightarrow> string \<Rightarrow> verify_key list rc" where
  "load_scoped_audit_verify_keys env e authority = bind_res (load_pinned_scoped_registry env e authority) (\<lambda>reg. Inr (vr_audit_keys reg))"

definition status_of :: "registry_entry list \<Rightarrow> string \<Rightarrow> string option rc" where
  "status_of es k =
     (case filter (\<lambda>x. re_key_id x = k) es of
        [] \<Rightarrow> Inr None
      | [x] \<Rightarrow> Inr (Some (re_status x))
      | _ \<Rightarrow> Inl (KeyConfigurationError ''receipt registry contains a duplicate key id''))"

definition receipt_verify_key_status :: "('a crypto_env_scheme) \<Rightarrow> string \<Rightarrow> string option rc" where
  "receipt_verify_key_status env k =
     (if k = [] \<or> strip k \<noteq> k then Inr None
      else bind_res (load_pinned_registry env) (\<lambda>reg. status_of (vr_entries reg) k))"

definition scoped_receipt_verify_key_status :: "('a crypto_env_scheme) \<Rightarrow> string \<Rightarrow> string \<Rightarrow> string \<Rightarrow> string option rc" where
  "scoped_receipt_verify_key_status env k e authority =
     (if k = [] \<or> strip k \<noteq> k then Inr None
      else bind_res (load_pinned_scoped_registry env e authority) (\<lambda>reg. status_of (vr_entries reg) k))"

definition partition_extra_digests :: "dict \<Rightarrow> dict" where
  "partition_extra_digests extras = filter (\<lambda>(k, v). k \<notin> set standard_claim_keys) extras"

definition verify_with :: "('a crypto_env_scheme) \<Rightarrow> verify_key list \<Rightarrow> string \<Rightarrow> string \<Rightarrow> string \<Rightarrow> bool" where
  "verify_with env keys key_id body signature =
     (case map_of keys key_id of None \<Rightarrow> False | Some public_key \<Rightarrow> verify_key_verify env public_key body signature)"

definition verify_receipt_signature_values ::
    "('a crypto_env_scheme) \<Rightarrow> string \<Rightarrow> string \<Rightarrow> string \<Rightarrow> string \<Rightarrow> string \<Rightarrow> bool rc" where
  "verify_receipt_signature_values env body signature key_id e authority =
     (if key_id = [] \<or> strip key_id \<noteq> key_id then Inr False
      else bind_res (load_scoped_verify_keys env e authority) (\<lambda>keys. Inr (verify_with env keys key_id body signature)))"

definition verify_receipt_signature_values_for_audit ::
    "('a crypto_env_scheme) \<Rightarrow> string \<Rightarrow> string \<Rightarrow> string \<Rightarrow> string option \<Rightarrow> string option \<Rightarrow> bool rc" where
  "verify_receipt_signature_values_for_audit env body signature key_id e authority =
     (if key_id = [] \<or> strip key_id \<noteq> key_id then Inr False
      else case (e, authority) of
             (None, None) \<Rightarrow> bind_res (load_audit_verify_keys env) (\<lambda>keys. Inr (verify_with env keys key_id body signature))
           | (Some e', Some a') \<Rightarrow> bind_res (load_scoped_audit_verify_keys env e' a') (\<lambda>keys. Inr (verify_with env keys key_id body signature))
           | _ \<Rightarrow> Inr False)"

definition verify_receipt_signature :: "('a crypto_env_scheme) \<Rightarrow> dict \<Rightarrow> string \<Rightarrow> string \<Rightarrow> bool rc" where
  "verify_receipt_signature env digests e authority =
     (case (dict_get digests ''signed_body_b64'', dict_get digests ''signature'', dict_get digests ''issuer_key_id'') of
        (JStr body_b64, JStr signature, JStr key_id) \<Rightarrow>
          if key_id = [] \<or> strip key_id \<noteq> key_id then Inr False
          else (case decode_canonical_signed_body body_b64 of
                  None \<Rightarrow> Inr False
                | Some body \<Rightarrow> verify_receipt_signature_values env body signature key_id e authority)
      | _ \<Rightarrow> Inr False)"

subsection \<open>Canonical Base64\<close>

lemma decode_canonical_base64_iff:
  "decode_canonical_base64 v n = Some raw \<longleftrightarrow> v = b64encode raw \<and> (n = None \<or> n = Some (length raw))"
  by (auto simp: decode_canonical_base64_def split: option.splits)

subsection \<open>What a parsed registry guarantees\<close>

text \<open>Ids are unique, the active list is the active entries, the audit list the active and the revoked ones, and public
  bytes are shared by revoked entries only.\<close>

definition key_of :: "registry_entry \<Rightarrow> verify_key" where
  "key_of x = (re_key_id x, re_public_key_bytes x)"

definition entries_sound :: "registry_entry list \<Rightarrow> bool" where
  "entries_sound es \<longleftrightarrow>
     distinct (map re_key_id es)
     \<and> (\<forall>x \<in> set es. re_status x \<in> {''active'', ''pending'', ''revoked''} \<and> length (re_public_key_bytes x) = 32 \<and> re_key_id x \<noteq> [])
     \<and> (\<forall>x \<in> set es. \<forall>y \<in> set es. re_public_key_bytes x = re_public_key_bytes y \<longrightarrow> x = y \<or> re_status x = ''revoked'' \<and> re_status y = ''revoked'')"

definition acc_sound :: "registry_acc \<Rightarrow> bool" where
  "acc_sound acc \<longleftrightarrow>
     entries_sound (ra_entries acc)
     \<and> set (ra_seen_ids acc) = set (map re_key_id (ra_entries acc))
     \<and> (\<forall>b s. map_of (ra_seen_keys acc) b = Some s \<longrightarrow> (\<exists>x \<in> set (ra_entries acc). re_public_key_bytes x = b \<and> re_status x = s))
     \<and> (\<forall>x \<in> set (ra_entries acc). map_of (ra_seen_keys acc) (re_public_key_bytes x) = Some (re_status x))
     \<and> ra_active acc = map key_of (filter (\<lambda>x. re_status x = ''active'') (ra_entries acc))
     \<and> ra_audit acc = map key_of (filter (\<lambda>x. re_status x \<in> {''active'', ''revoked''}) (ra_entries acc))
     \<and> ra_pending acc = length (filter (\<lambda>x. re_status x = ''pending'') (ra_entries acc))"

lemma acc_sound_empty [simp]: "acc_sound empty_acc"
  by (simp add: acc_sound_def empty_acc_def entries_sound_def)

lemma entries_sound_snoc:
  assumes "entries_sound es" "re_key_id x \<notin> re_key_id ` set es" "re_status x \<in> {''active'', ''pending'', ''revoked''}"
    "length (re_public_key_bytes x) = 32" "re_key_id x \<noteq> []"
    "\<forall>y \<in> set es. re_public_key_bytes y = re_public_key_bytes x \<longrightarrow> re_status y = ''revoked'' \<and> re_status x = ''revoked''"
  shows "entries_sound (es @ [x])"
  using assms unfolding entries_sound_def by (auto; metis)

lemma record_key_sound:
  assumes "acc_sound acc" "fresh_key_id k (ra_seen_ids acc)" "status \<in> {''active'', ''pending'', ''revoked''}"
    "length raw_key = 32" "\<not> reuses_live_bytes acc raw_key status"
  shows "acc_sound (record_key k raw_key status acc)"
proof -
  let ?x = "\<lparr>re_key_id = k, re_public_key_bytes = raw_key, re_status = status\<rparr>"
  have reuse: "re_status y = ''revoked'' \<and> status = ''revoked''"
    if "y \<in> set (ra_entries acc)" "re_public_key_bytes y = raw_key" for y
    using that assms(1,5) unfolding acc_sound_def reuses_live_bytes_def by (auto split: option.splits)
  have es: "entries_sound (ra_entries acc @ [?x])"
    by (rule entries_sound_snoc) (use assms reuse in \<open>auto simp: acc_sound_def fresh_key_id_def\<close>)
  show ?thesis
    using assms es reuse unfolding acc_sound_def record_key_def by (auto simp: key_of_def fresh_key_id_def)
qed

lemma registry_rows_inv:
  assumes "\<And>row a a'. f row a = Inr a' \<Longrightarrow> Q a \<Longrightarrow> Q a'"
  shows "registry_rows f rows acc = Inr acc' \<Longrightarrow> Q acc \<Longrightarrow> Q acc'"
  by (induction rows arbitrary: acc) (auto simp: bind_res_Inr_iff dest: assms)

lemma registry_row_sound: "registry_row env row a = Inr a' \<Longrightarrow> acc_sound a \<Longrightarrow> acc_sound a'"
  by (auto simp: registry_row_def bind_res_Inr_iff Let_def decode_canonical_base64_iff split: if_splits option.splits
      intro!: record_key_sound)

lemma scoped_registry_row_sound: "scoped_registry_row env row a = Inr a' \<Longrightarrow> acc_sound a \<Longrightarrow> acc_sound a'"
  by (auto simp: scoped_registry_row_def bind_res_Inr_iff Let_def decode_canonical_base64_iff split: if_splits option.splits
      intro!: record_key_sound)

definition registry_sound :: "verify_registry \<Rightarrow> bool" where
  "registry_sound reg \<longleftrightarrow>
     entries_sound (vr_entries reg)
     \<and> vr_active_keys reg = map key_of (filter (\<lambda>x. re_status x = ''active'') (vr_entries reg))
     \<and> vr_audit_keys reg = map key_of (filter (\<lambda>x. re_status x \<in> {''active'', ''revoked''}) (vr_entries reg))
     \<and> length (vr_active_keys reg) = (if vr_authority_status reg = ''ACTIVE'' then 1 else 0)
     \<and> length (filter (\<lambda>x. re_status x = ''pending'') (vr_entries reg)) \<le> 1"

lemma registry_of_sound:
  assumes "acc_sound acc" "length (ra_active acc) = expected_active doc" "ra_pending acc \<le> 1"
  shows "registry_sound (registry_of doc e a acc)"
  using assms by (auto simp: registry_sound_def acc_sound_def registry_of_def expected_active_def str_value_def split: if_splits json.splits)

lemma parse_registry_sound: "parse_registry_document env raw = Inr reg \<Longrightarrow> registry_sound reg"
  by (auto simp: parse_registry_document_def bind_res_Inr_iff split: if_splits
      intro!: registry_of_sound intro: registry_rows_inv [where Q = acc_sound, OF registry_row_sound])

lemma parse_scoped_registry_sound: "parse_scoped_registry_document env raw = Inr reg \<Longrightarrow> registry_sound reg"
  by (auto simp: parse_scoped_registry_document_def bind_res_Inr_iff split: if_splits
      intro!: registry_of_sound intro: registry_rows_inv [where Q = acc_sound, OF scoped_registry_row_sound])

lemma load_scoped_sound:
  assumes "load_pinned_scoped_registry env e a = Inr reg"
  shows "registry_sound reg" "e \<in> {''production'', ''staging''}" "a = pinned_instance_digest e" "vr_environment reg = Some e"
    "vr_authority_instance_digest reg = Some a"
  using assms parse_scoped_registry_sound
  by (auto simp: load_pinned_scoped_registry_def receipt_authority_instance_digest_def bind_res_Inr_iff split: if_splits option.splits)

lemma map_of_keys:
  "distinct (map re_key_id es) \<Longrightarrow> map_of (map key_of (filter P es)) k = Some b \<longleftrightarrow> (\<exists>x \<in> set es. P x \<and> re_key_id x = k \<and> re_public_key_bytes x = b)"
proof -
  assume "distinct (map re_key_id es)"
  then have "distinct (map fst (map key_of (filter P es)))"
    by (simp add: comp_def key_of_def distinct_map_filter)
  then show ?thesis by (auto simp: map_of_eq_Some_iff key_of_def)
qed

lemma verify_with_iff:
  assumes "distinct (map re_key_id es)"
  shows "verify_with env (map key_of (filter P es)) k body sig \<longleftrightarrow>
    (\<exists>x \<in> set es. P x \<and> re_key_id x = k \<and> verify_key_verify env (re_public_key_bytes x) body sig)"
proof (cases "map_of (map key_of (filter P es)) k")
  case None
  then have "k \<notin> fst ` set (map key_of (filter P es))" by (simp add: map_of_eq_None_iff)
  then show ?thesis using None by (auto simp: verify_with_def key_of_def image_def)
next
  case (Some b)
  then obtain x where x: "x \<in> set es" "P x" "re_key_id x = k" "re_public_key_bytes x = b"
    using map_of_keys [OF assms] by blast
  have uniq: "y = x" if "y \<in> set es" "re_key_id y = k" for y
    using that x(1,3) assms by (auto simp: distinct_map dest: inj_onD)
  have "verify_with env (map key_of (filter P es)) k body sig \<longleftrightarrow> verify_key_verify env b body sig"
    using Some by (simp add: verify_with_def)
  also have "\<dots> \<longleftrightarrow> (\<exists>x \<in> set es. P x \<and> re_key_id x = k \<and> verify_key_verify env (re_public_key_bytes x) body sig)"
    using x uniq by blast
  finally show ?thesis .
qed

lemma verify_key_verify_iff:
  "verify_key_verify env pk body sig \<longleftrightarrow>
     (\<exists>raw. sig = ''ed25519:'' @ b64encode raw \<and> length raw = 64 \<and> ce_ed25519_verify env pk raw body)"
proof -
  have "startswith sig ''ed25519:'' \<longleftrightarrow> (\<exists>r. sig = ''ed25519:'' @ r)"
    by (metis append_take_drop_id startswith_append startswith_def)
  then show ?thesis
    by (auto simp: verify_key_verify_def decode_canonical_base64_iff split: option.splits)
      (auto simp: decode_canonical_base64_def)
qed

lemma strict_json_canonical:
  assumes "exact_json (JObj d)"
  shows "strict_json_document (canonical_receipt_body d) = Inr (object_of (canon (JObj d)))"
  using utf8_decode_ascii [OF ascii_json_dumps [OF assms]] json_loads_dumps [OF assms]
  by (simp add: strict_json_document_def canonical_receipt_body_def object_of_def)

lemma entry_by_id_Some: "entry_by_id es k = Some x \<Longrightarrow> x \<in> set es \<and> re_key_id x = k"
  unfolding entry_by_id_def using find_Some_set by fastforce

lemma load_pinned_registry_parts:
  assumes "load_pinned_registry env = Inr reg"
  shows "registry_sound reg" "vr_authority_status reg = ''PENDING''"
    "\<exists>prior. load_pinned_prior_registry env = Inr prior \<and> validate_registry_chain prior reg = Inr ()"
proof -
  obtain raw where parse: "parse_registry_document env raw = Inr reg" "vr_generation reg = 2" "vr_authority_status reg = ''PENDING''"
      "bind_res (load_pinned_prior_registry env) (\<lambda>prior. bind_res (validate_registry_chain prior reg) (\<lambda>_. Inr reg)) = Inr reg"
    using assms by (auto simp: load_pinned_registry_def bind_res_Inr_iff pinned_registry_generation_def pinned_authority_status_def
        split: if_splits option.splits)
  show "registry_sound reg" using parse(1) by (rule parse_registry_sound)
  show "vr_authority_status reg = ''PENDING''" by fact
  show "\<exists>prior. load_pinned_prior_registry env = Inr prior \<and> validate_registry_chain prior reg = Inr ()"
    using parse(4) by (auto simp: bind_res_Inr_iff)
qed

lemma chain_keeps_revoked:
  assumes "validate_registry_chain prior reg = Inr ()" "p \<in> set (pr_entries prior)"
  shows "\<exists>x \<in> set (vr_entries reg). re_key_id x = re_key_id p \<and> re_public_key_bytes x = re_public_key_bytes p \<and> re_status x = ''revoked''"
proof -
  have "carried_revoked (vr_entries reg) p" using assms by (auto simp: validate_registry_chain_def split: if_splits)
  then obtain x where "entry_by_id (vr_entries reg) (re_key_id p) = Some x" "re_public_key_bytes x = re_public_key_bytes p" "re_status x = ''revoked''"
    by (auto simp: carried_revoked_def split: option.splits)
  then show ?thesis using entry_by_id_Some by blast
qed

lemma filter_unique_key:
  "distinct (map re_key_id es) \<Longrightarrow> x \<in> set es \<Longrightarrow> filter (\<lambda>y. re_key_id y = re_key_id x) es = [x]"
  by (induction es) (auto simp: filter_empty_conv image_iff)

lemma status_of_unique:
  "distinct (map re_key_id es) \<Longrightarrow> x \<in> set es \<Longrightarrow> status_of es (re_key_id x) = Inr (Some (re_status x))"
  by (simp add: status_of_def filter_unique_key)

lemma registry_sound_keys:
  assumes "registry_sound reg"
  shows "vr_active_keys reg = map key_of (filter (\<lambda>x. re_status x = ''active'') (vr_entries reg))"
    "vr_audit_keys reg = map key_of (filter (\<lambda>x. re_status x \<in> {''active'', ''revoked''}) (vr_entries reg))"
    "length (vr_active_keys reg) = (if vr_authority_status reg = ''ACTIVE'' then 1 else 0)"
  using assms unfolding registry_sound_def by blast+

lemma prior_ids_trimmed:
  assumes "load_pinned_prior_registry env = Inr prior" "p \<in> set (pr_entries prior)"
  shows "strip (re_key_id p) = re_key_id p"
proof -
  let ?ok = "\<lambda>x :: registry_entry. strip (re_key_id x) = re_key_id x"
  let ?Q = "\<lambda>a. list_all ?ok (ra_entries a)"
  have step: "?Q a'" if "prior_registry_row row a = Inr a'" "?Q a" for row a a'
    using that by (auto simp: prior_registry_row_def bind_res_Inr_iff Let_def fresh_key_id_def simp del: list_all_iff split: if_splits option.splits)
  obtain rows acc where "registry_rows prior_registry_row rows empty_acc = Inr acc" "pr_entries prior = ra_entries acc"
    using assms(1) by (auto simp: load_pinned_prior_registry_def parse_prior_registry_document_def bind_res_Inr_iff split: if_splits option.splits)
  then have "list_all ?ok (pr_entries prior)"
    using registry_rows_inv [of prior_registry_row ?Q rows empty_acc acc, OF step] by (simp add: empty_acc_def)
  then show ?thesis using assms(2) unfolding list_all_iff by blast
qed

subsection \<open>A concrete environment\<close>

text \<open>Documents and a digest function under which every pin holds: one authority per environment, an active
  scoped key, and an unscoped registry that carries one revoked key. The stand-in digest tells the documents apart by
  their fields, and a leading blank marks the raw file.\<close>

definition sample_key :: string where "sample_key = replicate 32 (CHR ''k'')"

definition sample_resource :: "string list \<Rightarrow> json" where
  "sample_resource flds = JObj (map (\<lambda>f. (f, JStr ''x'')) (sort flds))"

definition sample_instance :: "string \<Rightarrow> dict" where
  "sample_instance e =
     [(''authority_id'', JStr ''receipt-evidence-authority''), (''environment'', JStr e),
      (''resources'', JObj (sort_key fst (map (\<lambda>(n, flds). (n, sample_resource flds)) resource_shapes))),
      (''worker_name'', JStr ''w'')]"

definition sample_instances :: dict where
  "sample_instances =
     [(''instances'', JObj [(''production'', JObj (sample_instance ''production'')), (''staging'', JObj (sample_instance ''staging''))]),
      (''schema_version'', JStr ''receipt-authority-instances/v1'')]"

definition zero_digest :: string where "zero_digest = ''sha256:'' @ replicate 64 (CHR ''0'')"

definition sample_key_row :: "string \<Rightarrow> string \<Rightarrow> json" where
  "sample_key_row k status =
     JObj [(''algorithm'', JStr ''Ed25519''), (''key_id'', JStr k), (''public_key_base64'', JStr (b64encode sample_key)), (''status'', JStr status)]"

definition sample_scoped :: dict where
  "sample_scoped =
     [(''authority_instance_digest'', JStr (pinned_instance_digest ''production'')), (''authority_status'', JStr ''ACTIVE''),
      (''environment'', JStr ''production''), (''generation'', JInt 1), (''keys'', JArr [sample_key_row ''key-1'' ''active'']),
      (''prior_registry_digest'', JNull), (''purpose'', JStr ''receipt_verification''),
      (''registry_digest'', JStr zero_digest), (''schema_version'', JInt 3)]"

definition sample_registry :: dict where
  "sample_registry =
     [(''authority_status'', JStr ''PENDING''), (''generation'', JInt 2), (''keys'', JArr [sample_key_row ''old'' ''revoked'']),
      (''prior_registry_digest'', JStr pinned_prior_registry_digest), (''purpose'', JStr ''receipt_verification''),
      (''registry_digest'', JStr pinned_registry_body_digest), (''schema_version'', JInt 2)]"

definition sample_prior :: dict where
  "sample_prior =
     [(''keys'', JArr [JObj [(''algorithm'', JStr ''Ed25519''), (''key_id'', JStr ''old''), (''note'', JStr ''retired''),
        (''public_key_b64'', JStr (b64encode sample_key)), (''status'', JStr ''revoked'')]]),
      (''purpose'', JStr ''receipt_verification''), (''schema_version'', JInt 1)]"

definition digest_by_fields :: "bool \<Rightarrow> dict \<Rightarrow> string" where
  "digest_by_fields raw d =
     (if has_key d ''instances'' then (if raw then pinned_instances_raw_digest else pinned_instances_document_digest)
      else if has_key d ''worker_name'' then pinned_instance_digest (str_value (dict_get d ''environment''))
      else if has_key d ''authority_status'' then
        (if has_key d ''environment'' then (if raw then pinned_scoped_raw_digest ''production'' else zero_digest)
         else if raw then pinned_registry_raw_digest
         else if has_key d ''registry_digest'' then pinned_registry_document_digest else pinned_registry_body_digest)
      else if has_key d ''keys'' then
        (if dict_get d ''purpose'' = JStr ''coverage_complete_transition_verification'' then ''sha256:9e6c239cf85ab09999ef4aa90881a55abdcc246488df2c1ded9e9d2a5947de49''
         else if raw then pinned_prior_raw_digest else pinned_prior_document_digest)
      else zero_digest)"

definition sample_sha :: "string \<Rightarrow> string" where
  "sample_sha s = drop 7 (case json_loads s of Inr (JObj d) \<Rightarrow> digest_by_fields (hd s = CHR '' '') d | _ \<Rightarrow> zero_digest)"

definition raw_file :: "dict \<Rightarrow> string" where
  "raw_file d = CHR '' '' # canonical_receipt_body d"

definition sample_env :: "'a \<Rightarrow> 'a crypto_env_scheme" where
  "sample_env m = \<lparr>ce_sha256_hex = sample_sha, ce_key_loads = (\<lambda>k. length k = 32), ce_ed25519_verify = (\<lambda>k sig body. take 32 sig = k),
     ce_instances_file = Some (raw_file sample_instances), ce_scoped_file = (\<lambda>e. Some (raw_file sample_scoped)),
     ce_registry_file = Some (raw_file sample_registry), ce_prior_file = Some (raw_file sample_prior), \<dots> = m\<rparr>"

definition canonical_dict :: "dict \<Rightarrow> bool" where
  "canonical_dict d \<longleftrightarrow> exact_json (JObj d) \<and> canon (JObj d) = JObj d"

lemma canonical_dict_reads:
  assumes "canonical_dict d"
  shows "strict_json_document (canonical_receipt_body d) = Inr d" "strict_json_document (raw_file d) = Inr d"
    "json_loads (canonical_receipt_body d) = Inr (JObj d)" "json_loads (raw_file d) = Inr (JObj d)"
proof -
  have a: "ascii_only (canonical_receipt_body d)" unfolding canonical_receipt_body_def
    by (rule ascii_json_dumps) (use assms in \<open>simp add: canonical_dict_def\<close>)
  have e: "exact_json (JObj d)" "canon (JObj d) = JObj d" using assms by (simp_all add: canonical_dict_def)
  show plain: "json_loads (canonical_receipt_body d) = Inr (JObj d)"
    using json_loads_dumps [OF e(1)] e(2) by (simp add: canonical_receipt_body_def)
  have "json_ws (CHR '' '')" by code_simp
  then show blank: "json_loads (raw_file d) = Inr (JObj d)"
    using json_loads_ws_dumps [OF e(1), of "'' ''"] e(2) by (simp add: raw_file_def canonical_receipt_body_def)
  show "strict_json_document (canonical_receipt_body d) = Inr d"
    using utf8_decode_ascii [OF a] plain by (simp add: strict_json_document_def)
  show "strict_json_document (raw_file d) = Inr d"
    using utf8_decode_ascii [of "raw_file d"] a blank by (simp add: strict_json_document_def raw_file_def)
qed

lemma raw_hd: "hd (raw_file d) = CHR '' ''" "hd (canonical_receipt_body d) = CHR ''{''"
  by (simp_all add: raw_file_def canonical_receipt_body_def)

lemma digest_fields_prefix: "''sha256:'' @ drop 7 (digest_by_fields b d) = digest_by_fields b d"
  by (simp add: digest_by_fields_def pinned_instances_raw_digest_def pinned_instances_document_digest_def pinned_instance_digest_def
      zero_digest_def pinned_scoped_raw_digest_def pinned_registry_raw_digest_def pinned_registry_document_digest_def
      pinned_registry_body_digest_def pinned_prior_raw_digest_def pinned_prior_document_digest_def)

lemma sample_digests:
  assumes "canonical_dict d"
  shows "body_digest (sample_env m) (raw_file d) = digest_by_fields True d"
    "body_digest (sample_env m) (canonical_receipt_body d) = digest_by_fields False d"
  using digest_fields_prefix canonical_dict_reads [OF assms]
  by (simp_all add: body_digest_def sample_env_def sample_sha_def raw_hd)

lemma sample_canonical:
  "canonical_dict sample_instances" "canonical_dict sample_scoped" "canonical_dict sample_registry" "canonical_dict sample_prior"
  "canonical_dict (sample_instance ''production'')" "canonical_dict (sample_instance ''staging'')"
  "canonical_dict (filter (\<lambda>(k, v). k \<noteq> ''registry_digest'') sample_scoped)"
  "canonical_dict (filter (\<lambda>(k, v). k \<noteq> ''registry_digest'') sample_registry)"
  by code_simp+

definition sample_instance_values :: dict where
  "sample_instance_values = [(''production'', JObj (sample_instance ''production'')), (''staging'', JObj (sample_instance ''staging''))]"

lemma sample_instance_shape:
  "\<forall>e \<in> set [''production'', ''staging'']. dict_get sample_instance_values e = JObj (sample_instance e)
    \<and> closed_object (JObj (sample_instance e)) [''environment'', ''authority_id'', ''worker_name'', ''resources'']
    \<and> dict_get (sample_instance e) ''environment'' = JStr e
    \<and> dict_get (sample_instance e) ''authority_id'' = JStr ''receipt-evidence-authority''
    \<and> nonempty_json_str (dict_get (sample_instance e) ''worker_name'')
    \<and> closed_object (dict_get (sample_instance e) ''resources'') (map fst resource_shapes)
    \<and> (\<forall>sh \<in> set resource_shapes. resource_ok (object_of (dict_get (sample_instance e) ''resources'')) sh)
    \<and> digest_by_fields False (sample_instance e) = pinned_instance_digest e"
  by code_simp

lemma sample_check_instance:
  assumes "e \<in> set [''production'', ''staging'']"
  shows "check_instance (sample_env m) sample_instance_values e = Inr (e, JObj (sample_instance e))"
proof -
  have "canonical_evidence_digest (sample_env m) (JObj (sample_instance e)) = pinned_instance_digest e"
    using sample_digests [where m = m and d = "sample_instance e"] sample_canonical sample_instance_shape assms
    by (auto simp: canonical_evidence_digest_def canonical_receipt_body_def)
  then show ?thesis
    using bspec [OF sample_instance_shape assms] by (simp add: check_instance_def Let_def object_of_def)
qed

lemma sample_instances_header:
  "digest_by_fields True sample_instances = pinned_instances_raw_digest"
  "digest_by_fields False sample_instances = pinned_instances_document_digest"
  "set (map fst sample_instances) = {''schema_version'', ''instances''}"
  "dict_get sample_instances ''schema_version'' = JStr ''receipt-authority-instances/v1''"
  "dict_get sample_instances ''instances'' = JObj sample_instance_values"
  "closed_object (JObj sample_instance_values) [''production'', ''staging'']"
  by code_simp+

lemma sample_authority: "e \<in> set [''production'', ''staging''] \<Longrightarrow> receipt_authority_instance_digest (sample_env m) e = Inr (pinned_instance_digest e)"
proof -
  assume e: "e \<in> set [''production'', ''staging'']"
  have f: "ce_instances_file (sample_env m) = Some (raw_file sample_instances)" by (simp add: sample_env_def)
  have "load_pinned_authority_instances (sample_env m)
      = Inr [(''production'', JObj (sample_instance ''production'')), (''staging'', JObj (sample_instance ''staging''))]"
    unfolding load_pinned_authority_instances_def f
    using sample_digests [where m = m, OF sample_canonical(1)] canonical_dict_reads [OF sample_canonical(1)] sample_instances_header
      sample_check_instance [where m = m and e = "''production''"] sample_check_instance [where m = m and e = "''staging''"]
    by (simp add: object_of_def)
  then show ?thesis using e by (simp add: receipt_authority_instance_digest_def)
qed

definition sample_acc :: "string \<Rightarrow> string \<Rightarrow> registry_acc" where
  "sample_acc k status = record_key k sample_key status empty_acc"

lemma sample_rows:
  "registry_rows (scoped_registry_row (sample_env m)) (the (key_rows sample_scoped)) empty_acc = Inr (sample_acc ''key-1'' ''active'')"
  "registry_rows (registry_row (sample_env m)) (the (key_rows sample_registry)) empty_acc = Inr (sample_acc ''old'' ''revoked'')"
proof -
  have loads: "ce_key_loads (sample_env m) sample_key" by (simp add: sample_env_def sample_key_def)
  have row: "closed_row registry_key_fields (sample_key_row k st) = Inr (object_of (sample_key_row k st))" for k st
    by (simp add: closed_row_def registry_key_fields_def sample_key_row_def dict_get_def is_json_str_def object_of_def insert_commute)
  have flds: "str_value (dict_get (object_of (sample_key_row k st)) ''key_id'') = k"
    "str_value (dict_get (object_of (sample_key_row k st)) ''status'') = st"
    "str_value (dict_get (object_of (sample_key_row k st)) ''algorithm'') = ''Ed25519''"
    "str_value (dict_get (object_of (sample_key_row k st)) ''public_key_base64'') = b64encode sample_key" for k st
    by (simp_all add: sample_key_row_def object_of_def dict_get_def str_value_def)
  have fresh: "fresh_key_id ''key-1'' []" "fresh_key_id ''old'' []" by code_simp+
  have bytes: "decode_canonical_base64 (b64encode sample_key) (Some 32) = Some sample_key"
    by (simp add: decode_canonical_base64_iff sample_key_def)
  have keys: "the (key_rows sample_scoped) = [sample_key_row ''key-1'' ''active'']" "the (key_rows sample_registry) = [sample_key_row ''old'' ''revoked'']"
    by (simp_all add: key_rows_def sample_scoped_def sample_registry_def dict_get_def)
  have seen: "ra_seen_ids empty_acc = []" "\<not> reuses_live_bytes empty_acc b s" for b s by (simp_all add: empty_acc_def reuses_live_bytes_def)
  show "registry_rows (scoped_registry_row (sample_env m)) (the (key_rows sample_scoped)) empty_acc = Inr (sample_acc ''key-1'' ''active'')"
    using keys seen bytes fresh loads by (simp add: scoped_registry_row_def row flds Let_def sample_acc_def)
  show "registry_rows (registry_row (sample_env m)) (the (key_rows sample_registry)) empty_acc = Inr (sample_acc ''old'' ''revoked'')"
    using keys seen bytes fresh loads by (simp add: registry_row_def row flds Let_def sample_acc_def)
qed

definition sample_verify_registry :: verify_registry where
  "sample_verify_registry = registry_of sample_scoped (Some ''production'') (Some (pinned_instance_digest ''production'')) (sample_acc ''key-1'' ''active'')"

lemma sample_scoped_header:
  "set (map fst sample_scoped) = set scoped_registry_fields" "number_is (dict_get sample_scoped ''schema_version'') 3"
  "dict_get sample_scoped ''purpose'' = JStr ''receipt_verification''" "generation_ok sample_scoped"
  "py_in (dict_get sample_scoped ''authority_status'') [''ACTIVE'', ''PENDING''] = Inr True"
  "py_in (dict_get sample_scoped ''environment'') [''production'', ''staging''] = Inr True"
  "is_json_sha256 (dict_get sample_scoped ''authority_instance_digest'')" "prior_digest_ok sample_scoped"
  "is_json_sha256 (dict_get sample_scoped ''registry_digest'')"
  "case key_rows sample_scoped of None \<Rightarrow> False | Some rows \<Rightarrow> length rows \<le> 16"
  "JStr (digest_by_fields False (filter (\<lambda>(k, v). k \<noteq> ''registry_digest'') sample_scoped)) = dict_get sample_scoped ''registry_digest''"
  "dict_get sample_scoped ''authority_instance_digest'' = JStr (pinned_instance_digest ''production'')"
  "str_value (dict_get sample_scoped ''environment'') = ''production''" "digest_by_fields True sample_scoped = pinned_scoped_raw_digest ''production''"
  "length (ra_active (sample_acc ''key-1'' ''active'')) = expected_active sample_scoped" "ra_pending (sample_acc ''key-1'' ''active'') = 0"
  by code_simp+

lemma sample_scoped_loads:
  "load_pinned_scoped_registry (sample_env m) ''production'' (pinned_instance_digest ''production'') = Inr sample_verify_registry"
proof -
  have f: "ce_scoped_file (sample_env m) ''production'' = Some (raw_file sample_scoped)" by (simp add: sample_env_def)
  have "scoped_header_ok (sample_env m) sample_scoped = Inr True"
    using sample_scoped_header sample_digests [where m = m, OF sample_canonical(7)]
    by (simp add: scoped_header_ok_def registry_body_digest_def del: filter.simps)
  then have "parse_scoped_registry_document (sample_env m) (raw_file sample_scoped) = Inr sample_verify_registry"
    using canonical_dict_reads [OF sample_canonical(2)] sample_scoped_header sample_authority [where m = m and e = "''production''"] sample_rows(1) [where m = m]
    by (simp add: parse_scoped_registry_document_def sample_verify_registry_def)
  moreover have "vr_environment sample_verify_registry = Some ''production''"
    "vr_authority_instance_digest sample_verify_registry = Some (pinned_instance_digest ''production'')"
    by (simp_all add: sample_verify_registry_def registry_of_def)
  ultimately show ?thesis
    using f sample_authority [where m = m and e = "''production''"] sample_digests [where m = m, OF sample_canonical(2)] sample_scoped_header
    by (simp add: load_pinned_scoped_registry_def)
qed

definition sample_unscoped :: verify_registry where
  "sample_unscoped = registry_of sample_registry None None (sample_acc ''old'' ''revoked'')"

definition sample_old_entry :: registry_entry where
  "sample_old_entry = \<lparr>re_key_id = ''old'', re_public_key_bytes = sample_key, re_status = ''revoked''\<rparr>"

definition sample_prior_registry :: prior_registry where
  "sample_prior_registry = \<lparr>pr_generation = 1, pr_authority_status = ''REVOKED'', pr_document_digest = pinned_prior_document_digest,
     pr_entries = [sample_old_entry]\<rparr>"

lemma sample_prior_loads: "load_pinned_prior_registry (sample_env m) = Inr sample_prior_registry"
proof -
  have f: "ce_prior_file (sample_env m) = Some (raw_file sample_prior)" by (simp add: sample_env_def)
  have h: "digest_by_fields True sample_prior = pinned_prior_raw_digest" "digest_by_fields False sample_prior = pinned_prior_document_digest"
    "set (map fst sample_prior) = set prior_registry_fields" "dict_get sample_prior ''schema_version'' = JInt 1"
    "dict_get sample_prior ''purpose'' = JStr ''receipt_verification''"
    "\<not> (case key_rows sample_prior of None \<Rightarrow> True | Some rows \<Rightarrow> length rows < 1 \<or> 16 < length rows)"
    "registry_rows prior_registry_row (the (key_rows sample_prior)) empty_acc
       = Inr (empty_acc\<lparr>ra_seen_ids := [''old''], ra_entries := [sample_old_entry]\<rparr>)"
    by code_simp+
  have "parse_prior_registry_document (sample_env m) (raw_file sample_prior) = Inr sample_prior_registry"
    using h canonical_dict_reads [OF sample_canonical(4)] sample_digests [where m = m, OF sample_canonical(4)]
    by (simp add: parse_prior_registry_document_def sample_prior_registry_def)
  then show ?thesis
    using f h canonical_dict_reads [OF sample_canonical(4)] sample_digests [where m = m, OF sample_canonical(4)]
    by (simp add: load_pinned_prior_registry_def sample_prior_registry_def pinned_prior_generation_def pinned_prior_authority_status_def)
qed

lemma sample_registry_header:
  "digest_by_fields True sample_registry = pinned_registry_raw_digest" "digest_by_fields False sample_registry = pinned_registry_document_digest"
  "set (map fst sample_registry) = set registry_fields" "dict_get sample_registry ''schema_version'' = JInt 2"
  "dict_get sample_registry ''purpose'' = JStr ''receipt_verification''" "generation_ok sample_registry"
  "dict_get sample_registry ''authority_status'' = JStr ''PENDING''" "prior_digest_ok sample_registry"
  "is_json_sha256 (dict_get sample_registry ''registry_digest'')"
  "\<not> (case key_rows sample_registry of None \<Rightarrow> True | Some rows \<Rightarrow> length rows < 1 \<or> 16 < length rows)"
  "JStr (digest_by_fields False (filter (\<lambda>(k, v). k \<noteq> ''registry_digest'') sample_registry)) = dict_get sample_registry ''registry_digest''"
  "length (ra_active (sample_acc ''old'' ''revoked'')) = expected_active sample_registry" "ra_pending (sample_acc ''old'' ''revoked'') = 0"
  "vr_generation sample_unscoped = pinned_registry_generation \<and> vr_authority_status sample_unscoped = pinned_authority_status
    \<and> vr_prior_registry_digest sample_unscoped = Some pinned_prior_registry_digest \<and> vr_registry_digest sample_unscoped = pinned_registry_body_digest
    \<and> 1 < vr_generation sample_unscoped"
  "validate_registry_chain sample_prior_registry sample_unscoped = Inr ()"
  by code_simp+

lemma sample_registry_loads: "load_pinned_registry (sample_env m) = Inr sample_unscoped"
proof -
  have f: "ce_registry_file (sample_env m) = Some (raw_file sample_registry)" by (simp add: sample_env_def)
  have "registry_body_digest (sample_env m) sample_registry = digest_by_fields False (filter (\<lambda>(k, v). k \<noteq> ''registry_digest'') sample_registry)"
    using sample_digests [where m = m, OF sample_canonical(8)] by (simp add: registry_body_digest_def)
  then have "parse_registry_document (sample_env m) (raw_file sample_registry) = Inr sample_unscoped"
    using canonical_dict_reads [OF sample_canonical(3)] sample_registry_header sample_rows(2) [where m = m]
    by (simp add: parse_registry_document_def sample_unscoped_def)
  then show ?thesis
    using f canonical_dict_reads [OF sample_canonical(3)] sample_digests [where m = m, OF sample_canonical(3)] sample_registry_header sample_prior_loads [where m = m]
    by (simp add: load_pinned_registry_def)
qed

definition sample_signature :: string where
  "sample_signature = ''ed25519:'' @ b64encode (replicate 64 (CHR ''k''))"

lemma sample_signature_verifies:
  "verify_receipt_signature_values (sample_env m) body sample_signature ''key-1'' ''production'' (pinned_instance_digest ''production'') = Inr True"
proof -
  have "vr_active_keys sample_verify_registry = [(''key-1'', sample_key)]"
    by (simp add: sample_verify_registry_def registry_of_def sample_acc_def record_key_def empty_acc_def)
  moreover have "verify_key_verify (sample_env m) sample_key body sample_signature"
    unfolding verify_key_verify_iff sample_signature_def by (simp add: sample_env_def sample_key_def)
  moreover have "strip ''key-1'' = ''key-1''" by code_simp
  ultimately show ?thesis using sample_scoped_loads [where m = m]
    by (simp add: verify_receipt_signature_values_def load_scoped_verify_keys_def verify_with_def)
qed

subsection \<open>Properties\<close>

text \<open>C26: A signature counts only under an active key of the pinned registry of that environment: the registry is sound, its
  authority is active, exactly one entry carries the key id and it is active, the environment and its authority digest
  are the pinned ones, and the signature is the canonical Base64 of 64 bytes that verify over the body under that
  entry's public bytes. The audit verifier of the same scope accepts it too.\<close>

theorem signature_needs_active_key:
  assumes "verify_receipt_signature_values env body sig key_id e a = Inr True"
  shows "\<exists>reg x raw. load_pinned_scoped_registry env e a = Inr reg \<and> registry_sound reg \<and> vr_authority_status reg = ''ACTIVE''
    \<and> filter (\<lambda>y. re_key_id y = key_id) (vr_entries reg) = [x] \<and> re_status x = ''active''
    \<and> e \<in> {''production'', ''staging''} \<and> a = pinned_instance_digest e
    \<and> sig = ''ed25519:'' @ b64encode raw \<and> length raw = 64 \<and> ce_ed25519_verify env (re_public_key_bytes x) raw body
    \<and> verify_receipt_signature_values_for_audit env body sig key_id (Some e) (Some a) = Inr True"
proof -
  obtain reg where reg: "load_pinned_scoped_registry env e a = Inr reg" and v: "verify_with env (vr_active_keys reg) key_id body sig"
      and id: "key_id \<noteq> []" "strip key_id = key_id"
    using assms by (auto simp: verify_receipt_signature_values_def load_scoped_verify_keys_def bind_res_Inr_iff split: if_splits)
  note s = load_scoped_sound [OF reg]
  have es: "distinct (map re_key_id (vr_entries reg))" using s(1) by (simp add: registry_sound_def entries_sound_def)
  have "\<exists>x \<in> set (vr_entries reg). re_status x = ''active'' \<and> re_key_id x = key_id \<and> verify_key_verify env (re_public_key_bytes x) body sig"
    using v unfolding registry_sound_keys(1) [OF s(1)] verify_with_iff [OF es] .
  then obtain x where x: "x \<in> set (vr_entries reg)" "re_status x = ''active''" "re_key_id x = key_id"
      and vx: "verify_key_verify env (re_public_key_bytes x) body sig" by blast
  have "vr_active_keys reg \<noteq> []" using v by (auto simp: verify_with_def)
  then have active: "vr_authority_status reg = ''ACTIVE''" using registry_sound_keys(3) [OF s(1)] by (auto split: if_splits)
  have uniq: "filter (\<lambda>y. re_key_id y = key_id) (vr_entries reg) = [x]" using filter_unique_key [OF es x(1)] x(3) by simp
  have "verify_with env (vr_audit_keys reg) key_id body sig"
    unfolding registry_sound_keys(2) [OF s(1)] verify_with_iff [OF es] using x vx by blast
  then have audit: "verify_receipt_signature_values_for_audit env body sig key_id (Some e) (Some a) = Inr True"
    using reg id by (simp add: verify_receipt_signature_values_for_audit_def load_scoped_audit_verify_keys_def)
  show ?thesis using vx [unfolded verify_key_verify_iff] reg s active uniq x(2) audit by blast
qed

theorem signature_needs_active_key_witness:
  "\<exists>reg x. load_pinned_scoped_registry (sample_env ()) ''production'' (pinned_instance_digest ''production'') = Inr reg
    \<and> vr_authority_status reg = ''ACTIVE'' \<and> filter (\<lambda>y. re_key_id y = ''key-1'') (vr_entries reg) = [x] \<and> re_status x = ''active''"
  using signature_needs_active_key [OF sample_signature_verifies [of "()" "''body''"]] by blast

text \<open>A key of the revoked predecessor registry stays revoked: whenever the pinned registry loads, the key's status is revoked,
  no entry with its public bytes is anything but revoked, and no active key is left at all while the
  authority is pending.\<close>

theorem revoked_history_stays_revoked:
  assumes "load_pinned_registry env = Inr reg" "load_pinned_prior_registry env = Inr prior" "p \<in> set (pr_entries prior)"
  shows "receipt_verify_key_status env (re_key_id p) = Inr (Some ''revoked'')
    \<and> (\<forall>x \<in> set (vr_entries reg). re_public_key_bytes x = re_public_key_bytes p \<longrightarrow> re_status x = ''revoked'')
    \<and> load_verify_keys env = Inr []"
proof -
  note parts = load_pinned_registry_parts [OF assms(1)]
  have sound: "entries_sound (vr_entries reg)" using parts(1) by (simp add: registry_sound_def)
  obtain c where c: "c \<in> set (vr_entries reg)" "re_key_id c = re_key_id p" "re_public_key_bytes c = re_public_key_bytes p" "re_status c = ''revoked''"
    using chain_keeps_revoked parts(3) assms(2,3) by force
  have "receipt_verify_key_status env (re_key_id p) = Inr (Some ''revoked'')"
    using assms(1) prior_ids_trimmed [OF assms(2,3)] c sound status_of_unique [OF _ c(1)]
    by (auto simp: receipt_verify_key_status_def entries_sound_def)
  moreover have "re_status x = ''revoked''" if "x \<in> set (vr_entries reg)" "re_public_key_bytes x = re_public_key_bytes p" for x
    using sound c that unfolding entries_sound_def by metis
  moreover have "vr_active_keys reg = []" using registry_sound_keys(3) [OF parts(1)] parts(2) by simp
  ultimately show ?thesis using assms(1) by (simp add: load_verify_keys_def)
qed

theorem revoked_history_stays_revoked_witness:
  "receipt_verify_key_status (sample_env ()) ''old'' = Inr (Some ''revoked'') \<and> load_verify_keys (sample_env ()) = Inr []"
  using revoked_history_stays_revoked [OF sample_registry_loads [of "()"] sample_prior_loads, of sample_old_entry]
  by (simp add: sample_prior_registry_def sample_old_entry_def)

text \<open>The canonical body determines the document: the strict decoder reads a canonical body back as the same
  fields in key order, and two documents have the same body exactly when they are equal up to the order of keys.\<close>

theorem canonical_body_roundtrip:
  assumes "exact_json (JObj d)" "exact_json (JObj d')"
  shows "strict_json_document (canonical_receipt_body d) = Inr (object_of (canon (JObj d)))
    \<and> (canonical_receipt_body d = canonical_receipt_body d' \<longleftrightarrow> canon (JObj d) = canon (JObj d'))"
  using strict_json_canonical [OF assms(1)] json_dumps_eq_iff [OF assms] unfolding canonical_receipt_body_def by blast

theorem canonical_body_roundtrip_witness:
  "strict_json_document (canonical_receipt_body [(''b'', JInt 1), (''a'', JNull)]) = Inr [(''a'', JNull), (''b'', JInt 1)]"
proof -
  have "exact_json (JObj [(''b'', JInt 1), (''a'', JNull)])" by code_simp
  moreover have "object_of (canon (JObj [(''b'', JInt 1), (''a'', JNull)])) = [(''a'', JNull), (''b'', JInt 1)]" by code_simp
  ultimately show ?thesis using canonical_body_roundtrip by metis
qed

end
