(* ===== verification/SourceCapability.thy ===== *)
theory SourceCapability
  imports PyJson PyDate
begin

section \<open>Source capability contracts\<close>

text \<open>
  \<open>packages/data_plane/data_contracts/source_capability.py\<close>: decoding of the official-availability
  contract of a dataset from its JSON row, the consistency rules between its fields, the required
  domain and coverage fields derived from it, and the query clamp. A JSON object is a Python dict, an
  association list with distinct keys. An error is the exception with its message; messages carry the
  label of the field and leave out the value repr. The files of the package directory are an
  argument of the loader: their names and parsed documents, in the sorted order of \<open>glob\<close>. A number with a fraction equals
  the integer 3 here only when it is written 3.0.
\<close>

datatype sc_error = SCValueError string | SCRuntimeError string | SCKeyError string

type_synonym 'a sc = "(sc_error, 'a) result"

subsection \<open>Vocabularies\<close>

definition sc_policy_version :: string where "sc_policy_version = ''source-capability/v3''"

definition collection_coverage_v3 :: string where "collection_coverage_v3 = ''collection-coverage/v3''"

definition bundled_contract_files :: "string list" where
  "bundled_contract_files =
     [''equities_bars_daily.json'', ''equities_bars_daily_am.json'', ''equities_earnings_calendar.json'',
      ''equities_master.json'', ''equities_valuation.json'', ''fins_details.json'', ''fins_dividend.json'',
      ''fins_earnings_date.json'', ''fins_summary.json'', ''indices_bars_daily_topix.json'',
      ''jsda_corporate_bond_transactions.json'', ''jsda_otc_bond_reference_prices.json'',
      ''jsda_tokyo_repo_rates.json'', ''markets_calendar.json'']"

definition history_modes :: "string list" where
  "history_modes = [''bounded_history'', ''recent_snapshot'', ''next_business_day_snapshot'', ''event_stream'',
     ''official_archive_index'', ''periodic_archive'']"

definition tip_snapshot_modes :: "string list" where
  "tip_snapshot_modes = [''recent_snapshot'', ''next_business_day_snapshot'']"

definition required_domain_bases :: "string list" where
  "required_domain_bases = [''calendar_months_from_official_start'', ''publication_windows_from_official_start'',
     ''issued_same_trading_day_snapshot'', ''issued_collection_cutoff_snapshot'',
     ''official_archive_publication_days'', ''official_archive_periods'', ''official_time_series_file'']"

definition empty_success_policies :: "string list" where
  "empty_success_policies = [''never_complete'', ''trusted_exhausted_receipt_may_complete'']"

definition dataset_fields :: "string list" where
  "dataset_fields = [''dataset_id'', ''source'', ''upstream_locator'', ''official_evidence_url'', ''history_mode'',
     ''earliest_official_availability'', ''historical_research_eligible'', ''tip_only_operational'',
     ''supported_query_parameters'', ''publication_calendar'', ''entitlement_semantics'', ''collection_window'',
     ''freshness_sla'', ''event_time'', ''available_at'', ''revision_semantics'',
     ''research_profile_eligibility'', ''required_domain_semantics'']"

definition dataset_allowed :: "string list" where
  "dataset_allowed = dataset_fields @ [''policy_version'']"

definition bundle_allowed :: "string list" where
  "bundle_allowed = [''policy_version'', ''datasets'', ''schema_version'']"

definition basis_history_mode :: "string \<Rightarrow> string option" where
  "basis_history_mode = map_of
     [(''calendar_months_from_official_start'', ''bounded_history''),
      (''publication_windows_from_official_start'', ''event_stream''),
      (''issued_same_trading_day_snapshot'', ''recent_snapshot''),
      (''issued_collection_cutoff_snapshot'', ''next_business_day_snapshot''),
      (''official_archive_publication_days'', ''official_archive_index''),
      (''official_archive_periods'', ''periodic_archive''),
      (''official_time_series_file'', ''bounded_history'')]"

definition basis_grain :: "string \<Rightarrow> string option" where
  "basis_grain = map_of
     [(''calendar_months_from_official_start'', ''calendar_month''),
      (''publication_windows_from_official_start'', ''calendar_month''),
      (''issued_same_trading_day_snapshot'', ''same_trading_day_am_snapshot''),
      (''issued_collection_cutoff_snapshot'', ''collection_cutoff_snapshot''),
      (''official_archive_publication_days'', ''official_archive_index_day''),
      (''official_archive_periods'', ''official_archive_year''),
      (''official_time_series_file'', ''source_time_series_file'')]"

subsection \<open>Field readers\<close>

definition json_or :: "json \<Rightarrow> json \<Rightarrow> json" where
  "json_or a b = (if json_truthy a then a else b)"

definition reject_unknown :: "dict \<Rightarrow> string list \<Rightarrow> string \<Rightarrow> unit sc" where
  "reject_unknown raw allowed label =
     (if \<exists>k \<in> set (map fst raw). k \<notin> set allowed then Inl (SCValueError (label @ '' unknown field(s)'')) else Inr ())"

definition require_object :: "json \<Rightarrow> string \<Rightarrow> dict sc" where
  "require_object v label = (case v of JObj ps \<Rightarrow> Inr ps | _ \<Rightarrow> Inl (SCValueError (label @ '' must be an object'')))"

definition nonempty :: "json \<Rightarrow> string \<Rightarrow> string sc" where
  "nonempty v label =
     (case v of JStr s \<Rightarrow> if strip s = [] then Inl (SCValueError (label @ '' must be a non-empty string'')) else Inr (strip s)
      | _ \<Rightarrow> Inl (SCValueError (label @ '' must be a non-empty string'')))"

definition as_bool :: "json \<Rightarrow> string \<Rightarrow> bool sc" where
  "as_bool v label = (case v of JBool b \<Rightarrow> Inr b | _ \<Rightarrow> Inl (SCValueError (label @ '' must be a boolean'')))"

definition nonblank_str :: "json \<Rightarrow> bool" where
  "nonblank_str v = (case v of JStr s \<Rightarrow> strip s \<noteq> [] | _ \<Rightarrow> False)"

definition string_tuple :: "json \<Rightarrow> string \<Rightarrow> string list sc" where
  "string_tuple v label =
     (case v of
        JArr vs \<Rightarrow>
          if \<exists>x \<in> set vs. \<not> nonblank_str x then Inl (SCValueError (label @ '' must be an array of non-empty strings''))
          else Inr (map (\<lambda>x. strip (str_value x)) vs)
      | _ \<Rightarrow> Inl (SCValueError (label @ '' must be an array of non-empty strings'')))"

definition sc_iso_date :: "json \<Rightarrow> string \<Rightarrow> string sc" where
  "sc_iso_date v label =
     bind_res (nonempty v label) (\<lambda>txt.
       if fromisoformat txt = None \<or> length txt \<noteq> 10 then Inl (SCValueError (label @ '' must be ISO date YYYY-MM-DD'')) else Inr txt)"

definition optional_str :: "dict \<Rightarrow> string \<Rightarrow> string \<Rightarrow> string option sc" where
  "optional_str raw key label =
     (if dict_get raw key = JNull then Inr None else bind_res (nonempty (dict_get raw key) label) (\<lambda>s. Inr (Some s)))"

definition https_url :: "json \<Rightarrow> string \<Rightarrow> string sc" where
  "https_url v label =
     bind_res (nonempty v label) (\<lambda>txt.
       if \<not> startswith txt ''https://'' then Inl (SCValueError (label @ '' must be an https URL'')) else Inr txt)"

subsection \<open>The parts of a contract\<close>

record publication_calendar =
  pc_kind :: string
  pc_timezone :: string
  pc_index_url :: "string option"

definition publication_calendar_from_dict :: "json \<Rightarrow> string \<Rightarrow> publication_calendar sc" where
  "publication_calendar_from_dict raw label =
     bind_res (require_object raw label) (\<lambda>obj.
       if \<not> has_key obj ''kind'' \<or> \<not> has_key obj ''timezone'' then Inl (SCValueError (label @ '' missing kind/timezone''))
       else bind_res (optional_str obj ''index_url'' (label @ ''.index_url'')) (\<lambda>u0.
            bind_res (case u0 of None \<Rightarrow> Inr None
                      | Some u \<Rightarrow> bind_res (https_url (JStr u) (label @ ''.index_url'')) (\<lambda>x. Inr (Some x))) (\<lambda>u.
            bind_res (nonempty (dict_get obj ''kind'') (label @ ''.kind'')) (\<lambda>k.
            bind_res (nonempty (dict_get obj ''timezone'') (label @ ''.timezone'')) (\<lambda>tz.
              Inr \<lparr>pc_kind = k, pc_timezone = tz, pc_index_url = u\<rparr>)))))"

record entitlement_semantics =
  clamp_before_earliest :: bool
  subscription_floor :: "string option"

definition entitlement_semantics_from_dict :: "json \<Rightarrow> string \<Rightarrow> entitlement_semantics sc" where
  "entitlement_semantics_from_dict raw label =
     bind_res (require_object raw label) (\<lambda>obj.
       let clamp = (if dict_get obj ''clamp_before_earliest'' = JNull
                    then JBool (json_truthy (dict_get obj ''subscription_floor_is_not_historical_required_start''))
                    else dict_get obj ''clamp_before_earliest'')
       in bind_res (optional_str obj ''subscription_floor'' (label @ ''.subscription_floor'')) (\<lambda>f0.
          bind_res (case f0 of None \<Rightarrow> Inr None
                    | Some f \<Rightarrow> bind_res (sc_iso_date (JStr f) (label @ ''.subscription_floor'')) (\<lambda>x. Inr (Some x))) (\<lambda>f.
          bind_res (as_bool clamp (label @ ''.clamp_before_earliest'')) (\<lambda>c.
            Inr \<lparr>clamp_before_earliest = c, subscription_floor = f\<rparr>))))"

record collection_window =
  cw_grain :: string
  cw_open :: string
  cw_close :: string

definition collection_window_from_dict :: "(json \<Rightarrow> string) \<Rightarrow> json \<Rightarrow> string \<Rightarrow> collection_window sc" where
  "collection_window_from_dict pystr raw label =
     bind_res (require_object raw label) (\<lambda>obj.
       if \<not> has_key obj ''grain'' then Inl (SCValueError (label @ '' missing grain''))
       else
         let open_v = json_or (dict_get obj ''open'') (json_or (dict_get obj ''required_domain_start'') (dict_get obj ''pit_history_start''));
             close_v = json_or (dict_get obj ''close'') (json_or (dict_get obj ''required_domain_end'') (JStr []))
         in bind_res (nonempty (dict_get obj ''grain'') (label @ ''.grain'')) (\<lambda>g.
            bind_res (nonempty open_v (label @ ''.open'')) (\<lambda>op.
              Inr \<lparr>cw_grain = g, cw_open = op, cw_close = str_of pystr close_v\<rparr>)))"

record freshness_sla =
  fs_expected_after :: string
  fs_usable_by :: string
  fs_timezone :: string
  fs_rule :: string

definition freshness_sla_from_dict :: "(json \<Rightarrow> string) \<Rightarrow> json \<Rightarrow> string \<Rightarrow> freshness_sla sc" where
  "freshness_sla_from_dict pystr raw label =
     bind_res (require_object raw label) (\<lambda>obj.
       let tz = json_or (dict_get obj ''timezone'') (JStr ''UTC'');
           rule = json_or (dict_get obj ''rule'') (json_or (dict_get obj ''policy'') (JStr ''unspecified''));
           expected = json_or (dict_get obj ''expected_after'') (json_or (dict_get obj ''next_business_day_after'') (JStr []));
           usable = json_or (dict_get obj ''usable_by'') expected
       in bind_res (nonempty tz (label @ ''.timezone'')) (\<lambda>t.
          bind_res (nonempty rule (label @ ''.rule'')) (\<lambda>r.
            Inr \<lparr>fs_expected_after = str_of pystr expected, fs_usable_by = str_of pystr usable, fs_timezone = t, fs_rule = r\<rparr>)))"

text \<open>\<open>obj.get(key) if isinstance(obj.get(key), list) else []\<close>, then a tuple of its strings.\<close>

definition optional_tuple :: "dict \<Rightarrow> string \<Rightarrow> string \<Rightarrow> string list sc" where
  "optional_tuple obj key label =
     (case dict_get obj key of
        JArr vs \<Rightarrow> if vs = [] then Inr [] else string_tuple (JArr vs) label
      | _ \<Rightarrow> Inr [])"

record event_time_spec =
  et_policy :: string
  et_fields :: "string list"

definition event_time_from_dict :: "json \<Rightarrow> string \<Rightarrow> event_time_spec sc" where
  "event_time_from_dict raw label =
     bind_res (require_object raw label) (\<lambda>obj.
       if \<not> has_key obj ''policy'' then Inl (SCValueError (label @ '' missing policy''))
       else bind_res (nonempty (dict_get obj ''policy'') (label @ ''.policy'')) (\<lambda>p.
            bind_res (optional_tuple obj ''fields'' (label @ ''.fields'')) (\<lambda>fs. Inr \<lparr>et_policy = p, et_fields = fs\<rparr>)))"

record available_at_spec =
  aa_policy :: string
  aa_field :: "string option"
  aa_known_publication_lag :: "string option"

definition nullable_str :: "json \<Rightarrow> string \<Rightarrow> string option sc" where
  "nullable_str v label =
     (if v = JNull then Inr None
      else if \<not> nonblank_str v then Inl (SCValueError (label @ '' must be a non-empty string or null''))
      else Inr (Some (strip (str_value v))))"

definition available_at_from_dict :: "json \<Rightarrow> string \<Rightarrow> available_at_spec sc" where
  "available_at_from_dict raw label =
     bind_res (require_object raw label) (\<lambda>obj.
       if \<not> has_key obj ''policy'' then Inl (SCValueError (label @ '' missing policy''))
       else bind_res (nullable_str (dict_get obj ''field'') (label @ ''.field'')) (\<lambda>f.
            bind_res (nullable_str (dict_get obj ''known_publication_lag'') (label @ ''.known_publication_lag'')) (\<lambda>l.
            bind_res (nonempty (dict_get obj ''policy'') (label @ ''.policy'')) (\<lambda>p.
              Inr \<lparr>aa_policy = p, aa_field = f, aa_known_publication_lag = l\<rparr>))))"

record revision_semantics =
  rs_policy :: string
  rs_generation_on_revision :: bool

definition revision_semantics_from_dict :: "json \<Rightarrow> string \<Rightarrow> revision_semantics sc" where
  "revision_semantics_from_dict raw label =
     bind_res (require_object raw label) (\<lambda>obj.
       let policy = json_or (dict_get obj ''policy'') (dict_get obj ''kind'');
           gen = (if dict_get obj ''generation_on_revision'' = JNull then JBool False else dict_get obj ''generation_on_revision'')
       in if \<not> json_truthy policy then Inl (SCValueError (label @ '' missing policy''))
          else bind_res (nonempty policy (label @ ''.policy'')) (\<lambda>p.
               bind_res (as_bool gen (label @ ''.generation_on_revision'')) (\<lambda>g.
                 Inr \<lparr>rs_policy = p, rs_generation_on_revision = g\<rparr>)))"

record research_profile_eligibility =
  rp_include_in :: "string list"
  rp_exclude_from :: "string list"
  rp_exclusion_reason :: string

definition research_profile_from_dict :: "json \<Rightarrow> string \<Rightarrow> research_profile_eligibility sc" where
  "research_profile_from_dict raw label =
     bind_res (require_object raw label) (\<lambda>obj.
       bind_res (optional_tuple obj ''include_in'' (label @ ''.include_in'')) (\<lambda>inc.
       bind_res (optional_tuple obj ''exclude_from'' (label @ ''.exclude_from'')) (\<lambda>exc.
         Inr \<lparr>rp_include_in = inc, rp_exclude_from = exc, rp_exclusion_reason = str_value (dict_get obj ''exclusion_reason'')\<rparr>)))"

record required_domain_semantics =
  rd_basis :: string
  rd_empty_success_policy :: string

definition required_domain_from_dict :: "json \<Rightarrow> string \<Rightarrow> required_domain_semantics sc" where
  "required_domain_from_dict raw label =
     bind_res (require_object raw label) (\<lambda>obj.
       if \<not> has_key obj ''basis'' \<or> \<not> has_key obj ''empty_success_policy'' then Inl (SCValueError (label @ '' missing basis/empty_success_policy''))
       else bind_res (nonempty (dict_get obj ''basis'') (label @ ''.basis'')) (\<lambda>b.
         if b \<notin> set required_domain_bases then Inl (SCValueError (label @ ''.basis must be one of the required domain bases''))
         else bind_res (nonempty (dict_get obj ''empty_success_policy'') (label @ ''.empty_success_policy'')) (\<lambda>e.
           if e \<notin> set empty_success_policies then Inl (SCValueError (label @ ''.empty_success_policy must be one of the policies''))
           else Inr \<lparr>rd_basis = b, rd_empty_success_policy = e\<rparr>)))"

subsection \<open>The contract\<close>

record source_capability =
  sc_dataset_id :: string
  sc_source :: string
  sc_upstream_locator :: string
  sc_official_evidence_url :: string
  sc_history_mode :: string
  sc_earliest :: string
  sc_historical :: bool
  sc_tip_only :: bool
  sc_query_parameters :: "string list"
  sc_publication_calendar :: publication_calendar
  sc_entitlement :: entitlement_semantics
  sc_window :: collection_window
  sc_freshness :: freshness_sla
  sc_event_time :: event_time_spec
  sc_available_at :: available_at_spec
  sc_revision :: revision_semantics
  sc_research :: research_profile_eligibility
  sc_domain :: required_domain_semantics

definition validate_required_domain_semantics ::
    "string \<Rightarrow> string \<Rightarrow> json \<Rightarrow> json \<Rightarrow> collection_window \<Rightarrow> required_domain_semantics \<Rightarrow> unit sc" where
  "validate_required_domain_semantics ds mode hist tip win sem =
     bind_res (as_bool hist (ds @ ''.historical_research_eligible'')) (\<lambda>historical.
     bind_res (as_bool tip (ds @ ''.tip_only_operational'')) (\<lambda>tip_only.
       if Some mode \<noteq> basis_history_mode (rd_basis sem) then Inl (SCValueError (ds @ ''.required_domain_semantics.basis requires history_mode''))
       else if Some (cw_grain win) \<noteq> basis_grain (rd_basis sem) then Inl (SCValueError (ds @ ''.required_domain_semantics.basis requires collection_window.grain''))
       else if tip_only \<noteq> (mode \<in> set tip_snapshot_modes) then Inl (SCValueError (ds @ ''.tip_only_operational must match snapshot history_mode''))
       else if historical = tip_only then Inl (SCValueError (ds @ '' historical_research_eligible and tip_only_operational must be opposite''))
       else if mode \<in> set (tip_snapshot_modes @ [''official_archive_index'', ''periodic_archive'']) \<and> rd_empty_success_policy sem \<noteq> ''never_complete''
       then Inl (SCValueError (ds @ '' snapshot/archive empty SUCCESS must never COMPLETE''))
       else Inr ()))"

definition check_policy_version :: "dict \<Rightarrow> unit sc" where
  "check_policy_version obj =
     (if has_key obj ''policy_version'' then
        bind_res (nonempty (dict_get obj ''policy_version'') ''policy_version'') (\<lambda>v.
          if v \<noteq> sc_policy_version then Inl (SCValueError ''unsupported SourceCapabilityContract policy_version'') else Inr ())
      else Inr ())"

definition source_capability_from_dict :: "(json \<Rightarrow> string) \<Rightarrow> json \<Rightarrow> source_capability sc" where
  "source_capability_from_dict pystr raw =
     bind_res (require_object raw ''SourceCapabilityContract'') (\<lambda>obj.
     bind_res (reject_unknown obj dataset_allowed ''SourceCapabilityContract'') (\<lambda>_.
       if \<not> has_key obj ''dataset_id'' then Inl (SCValueError ''SourceCapabilityContract missing dataset_id'')
       else if \<exists>n \<in> set dataset_fields. \<not> has_key obj n then Inl (SCValueError ''SourceCapabilityContract missing fields'')
       else
     bind_res (check_policy_version obj) (\<lambda>_.
     bind_res (nonempty (dict_get obj ''dataset_id'') ''dataset_id'') (\<lambda>ds.
     bind_res (nonempty (dict_get obj ''history_mode'') (ds @ ''.history_mode'')) (\<lambda>hm.
       if hm \<notin> set history_modes then Inl (SCValueError (ds @ ''.history_mode must be one of the history modes''))
       else
     bind_res (collection_window_from_dict pystr (dict_get obj ''collection_window'') (ds @ ''.collection_window'')) (\<lambda>win.
     bind_res (required_domain_from_dict (dict_get obj ''required_domain_semantics'') (ds @ ''.required_domain_semantics'')) (\<lambda>sem.
     bind_res (validate_required_domain_semantics ds hm (dict_get obj ''historical_research_eligible'') (dict_get obj ''tip_only_operational'') win sem) (\<lambda>_.
     bind_res (nonempty (dict_get obj ''source'') (ds @ ''.source'')) (\<lambda>src.
     bind_res (nonempty (dict_get obj ''upstream_locator'') (ds @ ''.upstream_locator'')) (\<lambda>loc.
     bind_res (https_url (dict_get obj ''official_evidence_url'') (ds @ ''.official_evidence_url'')) (\<lambda>url.
     bind_res (sc_iso_date (dict_get obj ''earliest_official_availability'') (ds @ ''.earliest_official_availability'')) (\<lambda>earliest.
     bind_res (as_bool (dict_get obj ''historical_research_eligible'') (ds @ ''.historical_research_eligible'')) (\<lambda>hist.
     bind_res (as_bool (dict_get obj ''tip_only_operational'') (ds @ ''.tip_only_operational'')) (\<lambda>tip.
     bind_res (string_tuple (dict_get obj ''supported_query_parameters'') (ds @ ''.supported_query_parameters'')) (\<lambda>qp.
     bind_res (publication_calendar_from_dict (dict_get obj ''publication_calendar'') (ds @ ''.publication_calendar'')) (\<lambda>cal.
     bind_res (entitlement_semantics_from_dict (dict_get obj ''entitlement_semantics'') (ds @ ''.entitlement_semantics'')) (\<lambda>ent.
     bind_res (freshness_sla_from_dict pystr (dict_get obj ''freshness_sla'') (ds @ ''.freshness_sla'')) (\<lambda>sla.
     bind_res (event_time_from_dict (dict_get obj ''event_time'') (ds @ ''.event_time'')) (\<lambda>et.
     bind_res (available_at_from_dict (dict_get obj ''available_at'') (ds @ ''.available_at'')) (\<lambda>aa.
     bind_res (revision_semantics_from_dict (dict_get obj ''revision_semantics'') (ds @ ''.revision_semantics'')) (\<lambda>rv.
     bind_res (research_profile_from_dict (dict_get obj ''research_profile_eligibility'') (ds @ ''.research_profile_eligibility'')) (\<lambda>rp.
       Inr \<lparr>sc_dataset_id = ds, sc_source = src, sc_upstream_locator = loc, sc_official_evidence_url = url, sc_history_mode = hm,
            sc_earliest = earliest, sc_historical = hist, sc_tip_only = tip, sc_query_parameters = qp, sc_publication_calendar = cal,
            sc_entitlement = ent, sc_window = win, sc_freshness = sla, sc_event_time = et, sc_available_at = aa, sc_revision = rv,
            sc_research = rp, sc_domain = sem\<rparr>))))))))))))))))))))))"

record official_domain =
  od_dataset_id :: string
  od_policy_version :: string
  od_history_mode :: string
  od_earliest :: string
  od_historical :: bool
  od_tip_only :: bool
  od_admit_historical :: bool
  od_publication_days_only :: bool
  od_grain :: string
  od_query_parameters :: "string list"
  od_include_in :: "string list"
  od_exclude_from :: "string list"
  od_basis :: string
  od_empty_success_policy :: string

definition required_domain_subset_official :: "source_capability \<Rightarrow> official_domain" where
  "required_domain_subset_official c =
     \<lparr>od_dataset_id = sc_dataset_id c, od_policy_version = sc_policy_version, od_history_mode = sc_history_mode c,
      od_earliest = sc_earliest c, od_historical = sc_historical c, od_tip_only = sc_tip_only c,
      od_admit_historical = (sc_historical c \<and> sc_history_mode c \<notin> set tip_snapshot_modes),
      od_publication_days_only = (sc_history_mode c = ''official_archive_index''),
      od_grain = cw_grain (sc_window c), od_query_parameters = sc_query_parameters c,
      od_include_in = rp_include_in (sc_research c), od_exclude_from = rp_exclude_from (sc_research c),
      od_basis = rd_basis (sc_domain c), od_empty_success_policy = rd_empty_success_policy (sc_domain c)\<rparr>"

definition derive_collection_coverage_v3 :: "source_capability \<Rightarrow> (string \<times> string) list" where
  "derive_collection_coverage_v3 c =
     [(''policy_version'', collection_coverage_v3), (''history_target_start'', sc_earliest c), (''history_mode'', sc_history_mode c),
      (''segment_granularity'', cw_grain (sc_window c)), (''required_domain_basis'', rd_basis (sc_domain c)),
      (''empty_success_policy'', rd_empty_success_policy (sc_domain c))]"

definition parse_policy_version :: "json \<Rightarrow> string sc" where
  "parse_policy_version v =
     bind_res (nonempty v ''policy_version'') (\<lambda>x.
       if x \<noteq> sc_policy_version then Inl (SCValueError ''unsupported SourceCapabilityContract policy_version'') else Inr x)"

definition parse_dataset_row :: "(json \<Rightarrow> string) \<Rightarrow> string \<Rightarrow> json \<Rightarrow> source_capability sc" where
  "parse_dataset_row pystr origin row =
     (case row of JObj _ \<Rightarrow> source_capability_from_dict pystr row | _ \<Rightarrow> Inl (SCValueError (origin @ '' datasets[] must be an object'')))"

definition parse_source_capability_document :: "(json \<Rightarrow> string) \<Rightarrow> json \<Rightarrow> string \<Rightarrow> source_capability list sc" where
  "parse_source_capability_document pystr raw origin =
     bind_res (require_object raw origin) (\<lambda>obj.
       if has_key obj ''datasets'' then
         bind_res (reject_unknown obj bundle_allowed origin) (\<lambda>_.
           if \<not> has_key obj ''policy_version'' then Inl (SCValueError (origin @ '' missing policy_version''))
           else bind_res (parse_policy_version (dict_get obj ''policy_version'')) (\<lambda>_.
             if has_key obj ''schema_version'' \<and> dict_get obj ''schema_version'' \<notin> {JInt 3, JFloat ''3.0''}
             then Inl (SCValueError (origin @ '' schema_version must be 3''))
             else case dict_get obj ''datasets'' of
                 JArr rows \<Rightarrow> map_res (parse_dataset_row pystr origin) rows
               | _ \<Rightarrow> Inl (SCValueError (origin @ '' datasets must be an array''))))
       else bind_res (source_capability_from_dict pystr (JObj obj)) (\<lambda>c. Inr [c]))"

fun add_contracts :: "string \<Rightarrow> (string \<times> source_capability) list \<Rightarrow> source_capability list \<Rightarrow> (string \<times> source_capability) list sc" where
  "add_contracts origin acc [] = Inr acc"
| "add_contracts origin acc (c # cs) =
     (if sc_dataset_id c \<in> set (map fst acc) then Inl (SCValueError ''duplicate SourceCapabilityContract dataset_id'')
      else add_contracts origin (acc @ [(sc_dataset_id c, c)]) cs)"

fun load_documents :: "(json \<Rightarrow> string) \<Rightarrow> (string \<times> source_capability) list \<Rightarrow> (string \<times> json) list \<Rightarrow> (string \<times> source_capability) list sc" where
  "load_documents pystr acc [] = Inr acc"
| "load_documents pystr acc ((name, doc) # rest) =
     (if name = ''schema.json'' then load_documents pystr acc rest
      else bind_res (require_object doc name) (\<lambda>_.
           bind_res (parse_source_capability_document pystr doc name) (\<lambda>cs.
           bind_res (add_contracts name acc cs) (\<lambda>acc'. load_documents pystr acc' rest))))"

text \<open>\<open>files = None\<close> is a missing directory.\<close>

definition load_source_capability_dir :: "(json \<Rightarrow> string) \<Rightarrow> bool \<Rightarrow> (string \<times> json) list option \<Rightarrow> (string \<times> source_capability) list sc" where
  "load_source_capability_dir pystr bundled files =
     (case files of
        None \<Rightarrow> if bundled then Inl (SCRuntimeError ''bundled SourceCapability authority missing'') else Inr []
      | Some fs \<Rightarrow>
          if bundled \<and> set (map fst fs) \<noteq> set bundled_contract_files
          then Inl (SCRuntimeError ''bundled SourceCapability authority inventory mismatch'')
          else load_documents pystr [] fs)"

type_synonym registry = "(string \<times> source_capability) list"

definition source_capability_contract_or_none :: "registry \<Rightarrow> string \<Rightarrow> source_capability option" where
  "source_capability_contract_or_none reg ds = map_of reg ds"

definition source_capability_contract_for :: "registry \<Rightarrow> string \<Rightarrow> source_capability sc" where
  "source_capability_contract_for reg ds =
     (case source_capability_contract_or_none reg ds of None \<Rightarrow> Inl (SCKeyError ds) | Some c \<Rightarrow> Inr c)"

definition collection_coverage_v3_overrides :: "registry \<Rightarrow> string \<Rightarrow> (string \<times> string) list option" where
  "collection_coverage_v3_overrides reg ds = map_option derive_collection_coverage_v3 (source_capability_contract_or_none reg ds)"

definition coverage_v3_dataset_ids :: "registry \<Rightarrow> string set" where
  "coverage_v3_dataset_ids reg = set (map fst reg)"

definition apply_official_query_clamp :: "string \<Rightarrow> source_capability \<Rightarrow> string sc" where
  "apply_official_query_clamp query_date c =
     (let day = take 10 (strip query_date) in
      if length day \<noteq> 10 then Inl (SCValueError ''query_date must be ISO date YYYY-MM-DD'')
      else if day < sc_earliest c then Inr (sc_earliest c) else Inr (strip query_date))"

subsection \<open>What an accepted contract satisfies\<close>

lemma if_error_Inr: "(if P then Inl e else r) = Inr x \<longleftrightarrow> \<not> P \<and> r = Inr x"
  by simp

definition consistent_contract :: "source_capability \<Rightarrow> bool" where
  "consistent_contract c \<longleftrightarrow>
     sc_history_mode c \<in> set history_modes \<and> rd_basis (sc_domain c) \<in> set required_domain_bases
     \<and> basis_history_mode (rd_basis (sc_domain c)) = Some (sc_history_mode c)
     \<and> basis_grain (rd_basis (sc_domain c)) = Some (cw_grain (sc_window c))
     \<and> (sc_tip_only c \<longleftrightarrow> sc_history_mode c \<in> set tip_snapshot_modes) \<and> sc_historical c = (\<not> sc_tip_only c)
     \<and> (sc_history_mode c \<notin> {''bounded_history'', ''event_stream''} \<longrightarrow> rd_empty_success_policy (sc_domain c) = ''never_complete'')
     \<and> fromisoformat (sc_earliest c) \<noteq> None \<and> length (sc_earliest c) = 10 \<and> strip (sc_earliest c) = sc_earliest c"

lemma nonempty_ok: "nonempty v l = Inr t \<Longrightarrow> t \<noteq> [] \<and> strip t = t"
  by (auto simp: nonempty_def split: json.splits if_splits)

lemma sc_iso_date_ok: "sc_iso_date v l = Inr t \<Longrightarrow> fromisoformat t \<noteq> None \<and> length t = 10 \<and> strip t = t"
  by (auto simp: sc_iso_date_def bind_res_Inr_iff dest: nonempty_ok split: if_splits)

lemma required_domain_ok: "required_domain_from_dict v l = Inr d \<Longrightarrow> rd_basis d \<in> set required_domain_bases"
  by (auto simp: required_domain_from_dict_def bind_res_Inr_iff split: if_splits)

lemma validate_domain_ok:
  assumes "validate_required_domain_semantics ds mode (JBool h) (JBool t) win sem = Inr u" "mode \<in> set history_modes"
  shows "basis_history_mode (rd_basis sem) = Some mode \<and> basis_grain (rd_basis sem) = Some (cw_grain win)
    \<and> (t \<longleftrightarrow> mode \<in> set tip_snapshot_modes) \<and> h = (\<not> t)
    \<and> (mode \<notin> {''bounded_history'', ''event_stream''} \<longrightarrow> rd_empty_success_policy sem = ''never_complete'')"
  using assms
  by (auto simp: validate_required_domain_semantics_def as_bool_def history_modes_def tip_snapshot_modes_def split: if_splits)

lemma as_bool_ok: "as_bool v l = Inr b \<longleftrightarrow> v = JBool b"
  by (auto simp: as_bool_def split: json.splits)

lemma from_dict_parts:
  assumes "source_capability_from_dict pystr raw = Inr c"
  obtains obj where "raw = JObj obj" "\<forall>k \<in> set (map fst obj). k \<in> set dataset_allowed" "\<forall>n \<in> set dataset_fields. has_key obj n"
    "sc_history_mode c \<in> set history_modes"
    "required_domain_from_dict (dict_get obj ''required_domain_semantics'') (sc_dataset_id c @ ''.required_domain_semantics'') = Inr (sc_domain c)"
    "validate_required_domain_semantics (sc_dataset_id c) (sc_history_mode c) (dict_get obj ''historical_research_eligible'')
       (dict_get obj ''tip_only_operational'') (sc_window c) (sc_domain c) = Inr ()"
    "sc_iso_date (dict_get obj ''earliest_official_availability'') (sc_dataset_id c @ ''.earliest_official_availability'') = Inr (sc_earliest c)"
    "dict_get obj ''historical_research_eligible'' = JBool (sc_historical c)" "dict_get obj ''tip_only_operational'' = JBool (sc_tip_only c)"
proof -
  obtain obj where raw: "raw = JObj obj"
    using assms unfolding source_capability_from_dict_def bind_res_Inr_iff by (auto simp: require_object_def split: json.splits)
  have obj: "require_object raw l = Inr obj" for l using raw by (simp add: require_object_def)
  from assms show ?thesis
    unfolding source_capability_from_dict_def obj bind_res_simps bind_res_Inr_iff if_error_Inr as_bool_ok
    apply (elim exE conjE)
    apply (rule that [OF raw])
           apply (auto simp: reject_unknown_def split: if_splits)
    done
qed

lemma from_dict_consistent:
  assumes "source_capability_from_dict pystr raw = Inr c"
  shows "consistent_contract c"
proof -
  obtain obj where obj: "sc_history_mode c \<in> set history_modes"
    "required_domain_from_dict (dict_get obj ''required_domain_semantics'') (sc_dataset_id c @ ''.required_domain_semantics'') = Inr (sc_domain c)"
    "validate_required_domain_semantics (sc_dataset_id c) (sc_history_mode c) (dict_get obj ''historical_research_eligible'')
       (dict_get obj ''tip_only_operational'') (sc_window c) (sc_domain c) = Inr ()"
    "sc_iso_date (dict_get obj ''earliest_official_availability'') (sc_dataset_id c @ ''.earliest_official_availability'') = Inr (sc_earliest c)"
    "dict_get obj ''historical_research_eligible'' = JBool (sc_historical c)" "dict_get obj ''tip_only_operational'' = JBool (sc_tip_only c)"
    using from_dict_parts [OF assms] by metis
  show ?thesis
    unfolding consistent_contract_def
    using validate_domain_ok [OF obj(3) [unfolded obj(5,6)] obj(1)] required_domain_ok [OF obj(2)] sc_iso_date_ok [OF obj(4)] obj(1)
    by blast
qed

lemma add_contracts_ok:
  assumes "add_contracts origin acc cs = Inr out" "distinct (map fst acc)" "\<forall>(k, c) \<in> set acc. sc_dataset_id c = k \<and> P c" "\<forall>c \<in> set cs. P c"
  shows "distinct (map fst out) \<and> (\<forall>(k, c) \<in> set out. sc_dataset_id c = k \<and> P c)"
  using assms by (induction origin acc cs rule: add_contracts.induct) (auto split: if_splits)

lemma parse_document_consistent:
  assumes "parse_source_capability_document pystr raw origin = Inr cs" "c \<in> set cs"
  shows "consistent_contract c"
  using assms from_dict_consistent
  by (auto simp: parse_source_capability_document_def bind_res_Inr_iff parse_dataset_row_def dest!: map_res_Inr_set
      split: if_splits json.splits)

lemma load_documents_ok:
  assumes "load_documents pystr acc files = Inr out" "distinct (map fst acc)" "\<forall>(k, c) \<in> set acc. sc_dataset_id c = k \<and> consistent_contract c"
  shows "distinct (map fst out) \<and> (\<forall>(k, c) \<in> set out. sc_dataset_id c = k \<and> consistent_contract c)"
  using assms
proof (induction pystr acc files rule: load_documents.induct)
  case (1 pystr acc)
  then show ?case by simp
next
  case (2 pystr acc name doc rest)
  show ?case
  proof (cases "name = ''schema.json''")
    case True
    then show ?thesis using 2 by simp
  next
    case False
    then obtain cs acc' u where cs: "require_object doc name = Inr u" "parse_source_capability_document pystr doc name = Inr cs"
        "add_contracts name acc cs = Inr acc'" "load_documents pystr acc' rest = Inr out"
      using "2.prems"(1) by (auto simp: bind_res_Inr_iff)
    have "distinct (map fst acc') \<and> (\<forall>(k, c) \<in> set acc'. sc_dataset_id c = k \<and> consistent_contract c)"
      using add_contracts_ok [OF cs(3) "2.prems"(2,3)] parse_document_consistent [OF cs(2)] by blast
    then show ?thesis using "2.IH"(2) [OF False cs(4)] by blast
  qed
qed

subsection \<open>Properties of the contracts\<close>

definition sample_contract_row :: dict where
  "sample_contract_row =
     [(''dataset_id'', JStr ''equities_master''), (''source'', JStr ''jquants''), (''upstream_locator'', JStr ''/v2/equities/master''),
      (''official_evidence_url'', JStr ''https://jpx-jquants.com/''), (''history_mode'', JStr ''bounded_history''),
      (''earliest_official_availability'', JStr ''2008-05-07''), (''historical_research_eligible'', JBool True),
      (''tip_only_operational'', JBool False), (''supported_query_parameters'', JArr [JStr ''code'', JStr ''date'']),
      (''publication_calendar'', JObj [(''kind'', JStr ''business_day''), (''timezone'', JStr ''Asia/Tokyo'')]),
      (''entitlement_semantics'', JObj [(''clamp_before_earliest'', JBool True)]),
      (''collection_window'', JObj [(''grain'', JStr ''calendar_month''), (''open'', JStr ''2008-05-07'')]),
      (''freshness_sla'', JObj [(''rule'', JStr ''next_business_day'')]),
      (''event_time'', JObj [(''policy'', JStr ''snapshot_date'')]), (''available_at'', JObj [(''policy'', JStr ''collected_at'')]),
      (''revision_semantics'', JObj [(''policy'', JStr ''append'')]), (''research_profile_eligibility'', JObj []),
      (''required_domain_semantics'', JObj [(''basis'', JStr ''calendar_months_from_official_start''),
         (''empty_success_policy'', JStr ''never_complete'')])]"

lemma sample_contract_accepted: "is_ok (source_capability_from_dict (\<lambda>_. []) (JObj sample_contract_row))"
  by code_simp

text \<open>C36: Every contract the decoder accepts is consistent: its domain basis fixes its history mode and window grain,
  it is tip-only exactly when its mode is a snapshot mode and historical otherwise, snapshot and
  archive modes never let an empty success complete, and the official start is a date. So the official domain
  admits historical segments exactly when the contract is historical.\<close>

theorem accepted_contract_consistent:
  assumes "source_capability_from_dict pystr raw = Inr c"
  shows "consistent_contract c \<and> od_admit_historical (required_domain_subset_official c) = sc_historical c"
  using from_dict_consistent [OF assms] by (auto simp: consistent_contract_def required_domain_subset_official_def)

theorem accepted_contract_consistent_witness:
  "\<exists>c. source_capability_from_dict (\<lambda>_. []) (JObj sample_contract_row) = Inr c \<and> consistent_contract c"
  using accepted_contract_consistent sample_contract_accepted by (metis is_ok_iff)

text \<open>Decoding is closed: a row with a field outside the dataset field set, or without one of the
  required fields, is rejected.\<close>

theorem unknown_or_missing_field_rejected:
  assumes "(\<exists>k \<in> set (map fst obj). k \<notin> set dataset_allowed) \<or> (\<exists>n \<in> set dataset_fields. n \<notin> set (map fst obj))"
  shows "\<exists>m. source_capability_from_dict pystr (JObj obj) = Inl (SCValueError m)"
proof -
  have "\<exists>n \<in> set dataset_fields. \<not> has_key obj n" if "\<not> has_key obj ''dataset_id''"
    using that by (auto simp: dataset_fields_def)
  then show ?thesis
    using assms by (auto simp: source_capability_from_dict_def require_object_def reject_unknown_def has_key_def)
qed

theorem unknown_or_missing_field_rejected_witness:
  "\<exists>m. source_capability_from_dict (\<lambda>_. []) (JObj ((''history_start'', JStr ''2000-01-01'') # sample_contract_row)) = Inl (SCValueError m)"
  by (rule unknown_or_missing_field_rejected) (simp add: dataset_allowed_def dataset_fields_def)

text \<open>C37: Loading. A registry that loads has one contract per dataset id, filed under its own id and
  consistent; the bundled authority loads only with exactly the governed file set.\<close>

theorem loaded_registry_sound:
  assumes "load_source_capability_dir pystr bundled files = Inr reg"
  shows "distinct (map fst reg) \<and> (\<forall>ds c. source_capability_contract_or_none reg ds = Some c \<longrightarrow> sc_dataset_id c = ds \<and> consistent_contract c)
    \<and> (bundled \<longrightarrow> (\<exists>fs. files = Some fs \<and> set (map fst fs) = set bundled_contract_files))"
proof (cases files)
  case None
  then show ?thesis using assms by (auto simp: load_source_capability_dir_def source_capability_contract_or_none_def split: if_splits)
next
  case (Some fs)
  then have "load_documents pystr [] fs = Inr reg" and b: "bundled \<longrightarrow> set (map fst fs) = set bundled_contract_files"
    using assms by (auto simp: load_source_capability_dir_def split: if_splits)
  then have "distinct (map fst reg) \<and> (\<forall>(k, c) \<in> set reg. sc_dataset_id c = k \<and> consistent_contract c)"
    using load_documents_ok [of pystr "[]" fs reg] by simp
  then show ?thesis using b Some by (auto simp: source_capability_contract_or_none_def dest: map_of_SomeD)
qed

theorem loaded_registry_sound_witness:
  "\<exists>reg c. load_source_capability_dir (\<lambda>_. []) False (Some [(''equities_master.json'', JObj sample_contract_row)]) = Inr reg
     \<and> distinct (map fst reg) \<and> reg = [(sc_dataset_id c, c)]"
proof -
  obtain c where c: "source_capability_from_dict (\<lambda>_. []) (JObj sample_contract_row) = Inr c"
    using sample_contract_accepted by (auto simp: is_ok_iff)
  have "\<not> has_key sample_contract_row ''datasets''" by (simp add: has_key_def sample_contract_row_def)
  then have "load_source_capability_dir (\<lambda>_. []) False (Some [(''equities_master.json'', JObj sample_contract_row)]) = Inr [(sc_dataset_id c, c)]"
    using c by (simp add: load_source_capability_dir_def parse_source_capability_document_def require_object_def)
  from loaded_registry_sound [OF this] this show ?thesis by blast
qed

text \<open>The query clamp never lets a query reach before the official start, leaves later queries as they are,
  and clamping twice is clamping once.\<close>

theorem query_clamp_bounds:
  assumes "consistent_contract c" "apply_official_query_clamp q c = Inr r"
  shows "sc_earliest c \<le> take 10 r \<and> apply_official_query_clamp r c = Inr r \<and> (r = sc_earliest c \<or> r = strip q)"
  using assms by (auto simp: apply_official_query_clamp_def Let_def consistent_contract_def not_less split: if_splits)

theorem query_clamp_bounds_witness:
  "\<exists>c r. source_capability_from_dict (\<lambda>_. []) (JObj sample_contract_row) = Inr c
     \<and> apply_official_query_clamp ''2001-01-01'' c = Inr r \<and> sc_earliest c \<le> take 10 r"
proof -
  obtain c where c: "source_capability_from_dict (\<lambda>_. []) (JObj sample_contract_row) = Inr c"
    using sample_contract_accepted by (auto simp: is_ok_iff)
  have "strip ''2001-01-01'' = ''2001-01-01''" by code_simp
  then have "is_ok (apply_official_query_clamp ''2001-01-01'' c)" by (simp add: apply_official_query_clamp_def Let_def)
  then obtain r where r: "apply_official_query_clamp ''2001-01-01'' c = Inr r" by (auto simp: is_ok_iff)
  have "consistent_contract c" using c by (rule from_dict_consistent)
  then show ?thesis using c r query_clamp_bounds by blast
qed

end
