(* ===== verification/CoveragePlan.thy ===== *)
theory CoveragePlan
  imports SourceCapability "HOL-Library.AList"
begin

section \<open>Required coverage inventory\<close>

text \<open>
  \<open>packages/data_plane/data_contracts/coverage.py\<close>, the collection policy of a dataset, and the planning half of
  \<open>packages/data_plane/storage/coverage_ledger.py\<close>: the inventory of segments a policy requires, clipped to
  the official domain of \<open>SourceCapability\<close>. The registries that both modules load at import are
  arguments. The publication days the official index lists (\<open>ingestion/jsda/official_index.py\<close>, an HTML
  reader) are the argument \<open>index_days\<close>. A scope is a Python dict, an association list of JSON values.
\<close>

datatype plan_error = PValueError string | PKeyError string

subsection \<open>Collection policies\<close>

definition snapshot_segment_granularities :: "string list" where
  "snapshot_segment_granularities = [''collection_cutoff_snapshot'', ''same_trading_day_am_snapshot'']"

definition segment_granularities :: "string list" where
  "segment_granularities = [''calendar_month'', ''official_archive_day'', ''official_archive_index_day'',
     ''official_archive_year'', ''source_time_series_file''] @ snapshot_segment_granularities"

definition governance_tiers :: "string list" where
  "governance_tiers = [''governed'', ''experimental'']"

definition cc_required_strings :: "string list" where
  "cc_required_strings = [''collection_scope'', ''history_target_start'', ''history_target_end_rule'', ''coverage_mode'',
     ''expected_frequency'', ''universe_rule'', ''segment_granularity'', ''governance_tier'']"

definition cc_required_bools :: "string list" where
  "cc_required_bools = [''raw_retention_required'', ''structured_reconciliation_required'']"

definition cc_optional_strings :: "string list" where
  "cc_optional_strings = [''policy_version'', ''history_mode'', ''required_domain_basis'', ''empty_success_policy'',
     ''not_historical_required_start'', ''earliest_official_availability'', ''official_mode'',
     ''vendor_data_provision_start'', ''vendor_history_policy'', ''vendor_data_provision_citation'',
     ''vendor_history_policy_citation'']"

text \<open>The four optional fields that code reads are fields of the record; the vendor annotations are kept as
  they are.\<close>

record coverage_contract =
  cc_dataset_id :: string
  cc_collection_scope :: string
  cc_history_target_start :: string
  cc_history_target_end_rule :: string
  cc_coverage_mode :: string
  cc_expected_frequency :: string
  cc_universe_rule :: string
  cc_raw_retention_required :: bool
  cc_structured_reconciliation_required :: bool
  cc_segment_granularity :: string
  cc_governance_tier :: string
  cc_policy_version :: "string option"
  cc_history_mode :: "string option"
  cc_required_domain_basis :: "string option"
  cc_empty_success_policy :: "string option"
  cc_vendor_annotations :: "(string \<times> string) list"

definition is_nonempty_str :: "json \<Rightarrow> bool" where
  "is_nonempty_str v \<longleftrightarrow> (case v of JStr s \<Rightarrow> s \<noteq> [] | _ \<Rightarrow> False)"

definition is_bool_json :: "json \<Rightarrow> bool" where
  "is_bool_json v \<longleftrightarrow> (case v of JBool _ \<Rightarrow> True | _ \<Rightarrow> False)"

definition optional_value :: "dict \<Rightarrow> string \<Rightarrow> string option" where
  "optional_value raw k = (case dict_get raw k of JStr s \<Rightarrow> Some s | _ \<Rightarrow> None)"

definition check_v3_fields :: "string \<Rightarrow> dict \<Rightarrow> (plan_error, unit) result" where
  "check_v3_fields ds raw =
     (if optional_value raw ''policy_version'' \<noteq> Some collection_coverage_v3 then Inr ()
      else case (optional_value raw ''history_mode'', optional_value raw ''required_domain_basis'', optional_value raw ''empty_success_policy'') of
        (Some _, Some b, Some e) \<Rightarrow>
          if b \<notin> set required_domain_bases then Inl (PValueError (ds @ ''.required_domain_basis is not supported''))
          else if e \<notin> set empty_success_policies then Inl (PValueError (ds @ ''.empty_success_policy is not supported''))
          else Inr ()
      | _ \<Rightarrow> Inl (PValueError (ds @ '' collection-coverage/v3 missing fields'')))"

definition coverage_contract_from_dict :: "string \<Rightarrow> dict \<Rightarrow> (plan_error, coverage_contract) result" where
  "coverage_contract_from_dict ds raw =
     (if \<exists>n \<in> set (cc_required_strings @ cc_required_bools). \<not> has_key raw n then Inl (PValueError ''coverage contract missing fields'')
      else if \<exists>n \<in> set cc_required_strings. \<not> is_nonempty_str (dict_get raw n) then Inl (PValueError (ds @ '' field must be non-empty string''))
      else if str_value (dict_get raw ''governance_tier'') \<notin> set governance_tiers then Inl (PValueError (ds @ ''.governance_tier must be governed or experimental''))
      else if str_value (dict_get raw ''segment_granularity'') \<notin> set segment_granularities then Inl (PValueError (ds @ ''.segment_granularity is not supported''))
      else if \<exists>n \<in> set cc_required_bools. \<not> is_bool_json (dict_get raw n) then Inl (PValueError (ds @ '' field must be boolean''))
      else if \<exists>n \<in> set cc_optional_strings. dict_get raw n \<noteq> JNull \<and> \<not> is_nonempty_str (dict_get raw n) then Inl (PValueError (ds @ '' field must be non-empty string''))
      else bind_res (check_v3_fields ds raw) (\<lambda>_.
        Inr \<lparr>cc_dataset_id = ds, cc_collection_scope = str_value (dict_get raw ''collection_scope''),
             cc_history_target_start = str_value (dict_get raw ''history_target_start''),
             cc_history_target_end_rule = str_value (dict_get raw ''history_target_end_rule''),
             cc_coverage_mode = str_value (dict_get raw ''coverage_mode''),
             cc_expected_frequency = str_value (dict_get raw ''expected_frequency''),
             cc_universe_rule = str_value (dict_get raw ''universe_rule''),
             cc_raw_retention_required = (dict_get raw ''raw_retention_required'' = JBool True),
             cc_structured_reconciliation_required = (dict_get raw ''structured_reconciliation_required'' = JBool True),
             cc_segment_granularity = str_value (dict_get raw ''segment_granularity''),
             cc_governance_tier = str_value (dict_get raw ''governance_tier''),
             cc_policy_version = optional_value raw ''policy_version'', cc_history_mode = optional_value raw ''history_mode'',
             cc_required_domain_basis = optional_value raw ''required_domain_basis'',
             cc_empty_success_policy = optional_value raw ''empty_success_policy'',
             cc_vendor_annotations = List.map_filter (\<lambda>n. map_option (Pair n) (optional_value raw n)) (drop 4 cc_optional_strings)\<rparr>))"

type_synonym policies = "(string \<times> coverage_contract) list"

definition coverage_contract_for :: "policies \<Rightarrow> string \<Rightarrow> (plan_error, coverage_contract) result" where
  "coverage_contract_for ps ds = (case map_of ps ds of None \<Rightarrow> Inl (PKeyError ds) | Some p \<Rightarrow> Inr p)"

subsection \<open>Planning\<close>

record required_segment =
  rs_source :: string
  rs_dataset :: string
  rs_segment_id :: string
  rs_segment_start :: string
  rs_segment_end :: string
  rs_expected_scope :: dict
  rs_expected_items :: "int option"

definition tip_coverage_modes :: "string list" where
  "tip_coverage_modes = [''recent_snapshot'', ''next_business_day_snapshot'', ''same_day_am_snapshot'', ''tip_snapshot'']"

definition official_archive_index_modes :: "string list" where
  "official_archive_index_modes = [''official_archive_index'', ''official_archive_index_reconciled'']"

definition official_archive_index_datasets :: "string list" where
  "official_archive_index_datasets = [''jsda_otc_bond_reference_prices'']"

definition month_end :: "date \<Rightarrow> date" where
  "month_end d = last_of_month d"

definition official_domain_for :: "source_capability option \<Rightarrow> official_domain option" where
  "official_domain_for c = map_option required_domain_subset_official c"

definition is_tip_snapshot_policy :: "coverage_contract \<Rightarrow> official_domain option \<Rightarrow> bool" where
  "is_tip_snapshot_policy p od \<longleftrightarrow>
     (case od of Some d \<Rightarrow> \<not> od_admit_historical d | None \<Rightarrow> False)
     \<or> cc_segment_granularity p \<in> set snapshot_segment_granularities
     \<or> cc_coverage_mode p \<in> set tip_coverage_modes
     \<or> (case cc_history_mode p of Some m \<Rightarrow> m \<in> set tip_snapshot_modes | None \<Rightarrow> False)"

definition snapshot_history_mode :: "coverage_contract \<Rightarrow> official_domain option \<Rightarrow> string" where
  "snapshot_history_mode p od =
     (case od of Some d \<Rightarrow> od_history_mode d
      | None \<Rightarrow> (case cc_history_mode p of Some m \<Rightarrow> if m \<noteq> [] then m else cc_coverage_mode p | None \<Rightarrow> cc_coverage_mode p))"

definition snapshot_extra_scope :: "coverage_contract \<Rightarrow> source_capability option \<Rightarrow> official_domain option \<Rightarrow> string \<Rightarrow> dict" where
  "snapshot_extra_scope p cap od grain =
     (let hm = snapshot_history_mode p od in
      [(''history_mode'', JStr hm), (''tip_only_operational'', JBool True)] @
      (case cap of None \<Rightarrow> []
       | Some c \<Rightarrow>
           [(''freshness_sla'', JObj [(''expected_after'', JStr (fs_expected_after (sc_freshness c))),
               (''usable_by'', JStr (fs_usable_by (sc_freshness c))), (''timezone'', JStr (fs_timezone (sc_freshness c))),
               (''rule'', JStr (fs_rule (sc_freshness c)))]),
            (''collection_window'', JObj [(''grain'', JStr grain), (''open'', JStr (cw_open (sc_window c))),
               (''close'', JStr (cw_close (sc_window c)))])] @
           (if hm = ''next_business_day_snapshot''
            then [(''evaluate_via'', JArr [JStr ''collection_generation'', JStr ''collection_cutoff'', JStr ''freshness_sla''])]
            else [])))"

definition uses_official_archive_index :: "coverage_contract \<Rightarrow> official_domain option \<Rightarrow> bool" where
  "uses_official_archive_index p od \<longleftrightarrow>
     cc_dataset_id p \<in> set official_archive_index_datasets
     \<or> cc_coverage_mode p \<in> set official_archive_index_modes
     \<or> cc_history_mode p = Some ''official_archive_index''
     \<or> (case od of None \<Rightarrow> False | Some d \<Rightarrow> od_history_mode d = ''official_archive_index'' \<or> od_publication_days_only d)"

definition official_index_days :: "string \<Rightarrow> string list \<Rightarrow> string list" where
  "official_index_days ds index_days = (if ds \<notin> set official_archive_index_datasets then [] else index_days)"

definition parse_date :: "string \<Rightarrow> (plan_error, date) result" where
  "parse_date s = (case fromisoformat s of None \<Rightarrow> Inl (PValueError ''Invalid isoformat string'') | Some d \<Rightarrow> Inr d)"

record plan_context =
  px_policy :: coverage_contract
  px_source :: string
  px_granularity :: string
  px_extra :: dict
  px_expected :: "(string \<times> int) list option"

definition append_segment :: "plan_context \<Rightarrow> string \<Rightarrow> date \<Rightarrow> date \<Rightarrow> (plan_error, required_segment) result" where
  "append_segment px sid s e =
     (let p = px_policy px;
          given = (case px_expected px of None \<Rightarrow> None | Some m \<Rightarrow> map_of m sid);
          unit_name = (if cc_expected_frequency p = ''event_driven'' then ''source_event'' else ''source_query'')
      in if (case given of None \<Rightarrow> False | Some n \<Rightarrow> n < 0) then Inl (PValueError ''expected segment items must be non-negative'')
         else Inr \<lparr>rs_source = px_source px, rs_dataset = cc_dataset_id p, rs_segment_id = sid,
                   rs_segment_start = isoformat s, rs_segment_end = isoformat e,
                   rs_expected_scope = fold (\<lambda>(k, v). AList.update k v) (px_extra px)
                     [(''coverage_mode'', JStr (cc_coverage_mode p)), (''expected_frequency'', JStr (cc_expected_frequency p)),
                      (''expected_item_unit'', JStr unit_name), (''segment_end'', JStr (isoformat e)),
                      (''segment_start'', JStr (isoformat s)), (''universe_rule'', JStr (cc_universe_rule p)),
                      (''segment_granularity'', JStr (px_granularity px))],
                   rs_expected_items = (if given = None \<and> unit_name = ''source_query'' then Some 1 else given)\<rparr>)"

text \<open>\<open>date.fromordinal(d.toordinal() + 1)\<close> is the next day; after 9999-12-31 it raises.\<close>

fun index_loop :: "plan_context \<Rightarrow> date \<Rightarrow> date \<Rightarrow> string list \<Rightarrow> (plan_error, required_segment list) result" where
  "index_loop px start end' [] = Inr []"
| "index_loop px start end' (day_s # rest) =
     bind_res (parse_date day_s) (\<lambda>day.
       if start \<le> day \<and> day \<le> end'
       then bind_res (append_segment px day_s day day) (\<lambda>s. bind_res (index_loop px start end' rest) (\<lambda>ss. Inr (s # ss)))
       else index_loop px start end' rest)"

function month_loop :: "plan_context \<Rightarrow> date \<Rightarrow> date \<Rightarrow> (plan_error, required_segment list) result" where
  "month_loop px cursor end' =
     (if cursor \<le> end' then
        (let seg_end = min (month_end cursor) end' in
         bind_res (append_segment px (month_id cursor) cursor seg_end) (\<lambda>s.
           case next_day seg_end of
             None \<Rightarrow> Inl (PValueError ''year 10000 is out of range'')
           | Some c \<Rightarrow> bind_res (month_loop px c end') (\<lambda>ss. Inr (s # ss))))
      else Inr [])"
  by pat_completeness auto
termination
proof (relation "measures [\<lambda>(px, c, e). if e < c then 0 else 1, \<lambda>(px, c, e). 9999 - year_of c, \<lambda>(px, c, e). 12 - month_of c]",
    goal_cases)
  case 1
  then show ?case by simp
next
  case (2 px cursor end' seg_end x c)
  show ?case
  proof (cases "end' \<le> month_end cursor")
    case True
    then have "seg_end = end'" using 2 by (simp add: min_def)
    then have "end' < c" using 2 next_day_greater by blast
    then show ?thesis using 2 by (simp add: not_less)
  next
    case False
    then have "month_end cursor \<le> end'" by simp
    then have "seg_end = last_of_month cursor" using 2 by (simp add: month_end_def min_absorb1)
    then have "month_of c = month_of cursor + 1 \<and> year_of c = year_of cursor \<and> month_of cursor < 12
        \<or> year_of c = year_of cursor + 1 \<and> year_of cursor < 9999"
      using 2 by (auto simp: next_day_def last_of_month_def split: if_splits)
    then show ?thesis using 2 by auto
  qed
qed

declare month_loop.simps [simp del]

fun year_loop :: "plan_context \<Rightarrow> date \<Rightarrow> date \<Rightarrow> nat list \<Rightarrow> (plan_error, required_segment list) result" where
  "year_loop px start end' [] = Inr []"
| "year_loop px start end' (y # ys) =
     bind_res (append_segment px (nat_str y) (max start (Date y 1 1)) (min end' (Date y 12 31))) (\<lambda>s.
       bind_res (year_loop px start end' ys) (\<lambda>ss. Inr (s # ss)))"

function day_loop :: "plan_context \<Rightarrow> date \<Rightarrow> date \<Rightarrow> (plan_error, required_segment list) result" where
  "day_loop px cursor end' =
     (if cursor \<le> end' then
        bind_res (append_segment px (isoformat cursor) cursor cursor) (\<lambda>s.
          case next_day cursor of
            None \<Rightarrow> Inl (PValueError ''year 10000 is out of range'')
          | Some c \<Rightarrow> bind_res (day_loop px c end') (\<lambda>ss. Inr (s # ss)))
      else Inr [])"
  by pat_completeness auto
termination
  by (relation "measures [\<lambda>(px, c, e). 9999 - year_of c, \<lambda>(px, c, e). 12 - month_of c, \<lambda>(px, c, e). 31 - day_of c]")
     (auto simp: next_day_def split: if_splits intro: diff_less_mono2 less_le_trans [OF _ days_in_month_bounds(3)])

declare day_loop.simps [simp del]

definition raise_start :: "date \<Rightarrow> string option \<Rightarrow> (plan_error, date) result" where
  "raise_start start floor =
     (case floor of None \<Rightarrow> Inr start
      | Some f \<Rightarrow> bind_res (parse_date f) (\<lambda>d. Inr (if d > start then d else start)))"

definition plan_grain :: "coverage_contract \<Rightarrow> official_domain option \<Rightarrow> bool \<Rightarrow> string" where
  "plan_grain p od tip =
     (if tip then
        (let g = (case od of Some d \<Rightarrow> od_grain d | None \<Rightarrow> cc_segment_granularity p) in
         if g \<in> set snapshot_segment_granularities then g
         else if cc_segment_granularity p \<in> set snapshot_segment_granularities then cc_segment_granularity p
         else ''collection_cutoff_snapshot'')
      else cc_segment_granularity p)"

definition timeseries_segment_id :: "string \<Rightarrow> string" where
  "timeseries_segment_id ds = (if ds = ''jsda_tokyo_repo_rates'' then ''jsda-era-timeseries'' else ds @ ''_timeseries'')"

definition expand_grain :: "plan_context \<Rightarrow> official_domain option \<Rightarrow> bool \<Rightarrow> string list \<Rightarrow> date \<Rightarrow> date \<Rightarrow> (plan_error, required_segment list) result" where
  "expand_grain px od tip index_days start end' =
     (let p = px_policy px; g = px_granularity px in
      if tip then bind_res (append_segment px (isoformat end') end' end') (\<lambda>s. Inr [s])
      else if uses_official_archive_index p od \<or> g = ''official_archive_index_day''
      then index_loop px start end' (official_index_days (cc_dataset_id p) index_days)
      else if g = ''calendar_month'' then month_loop px start end'
      else if g = ''official_archive_year'' then year_loop px start end' [year_of start..<year_of end' + 1]
      else if g = ''official_archive_day'' then day_loop px start end'
      else if g = ''source_time_series_file''
      then bind_res (append_segment px (timeseries_segment_id (cc_dataset_id p)) start end') (\<lambda>s. Inr [s])
      else Inl (PValueError ''unsupported segment granularity''))"

definition effective_start :: "registry \<Rightarrow> coverage_contract \<Rightarrow> string option \<Rightarrow> (plan_error, date) result" where
  "effective_start reg p range_start =
     bind_res (parse_date (cc_history_target_start p)) (\<lambda>start0.
     bind_res (raise_start start0 (map_option od_earliest (official_domain_for (source_capability_contract_or_none reg (cc_dataset_id p))))) (\<lambda>start1.
       raise_start start1 range_start))"

definition plan_required_segments ::
    "registry \<Rightarrow> coverage_contract \<Rightarrow> string \<Rightarrow> string \<Rightarrow> (string \<times> int) list option \<Rightarrow> string list \<Rightarrow> string option \<Rightarrow> (plan_error, required_segment list) result" where
  "plan_required_segments reg p target_end source expected index_days range_start =
     (let cap = source_capability_contract_or_none reg (cc_dataset_id p); od = official_domain_for cap in
      bind_res (effective_start reg p range_start) (\<lambda>start.
      bind_res (parse_date target_end) (\<lambda>end'.
        if end' < start then Inl (PValueError ''target_end precedes coverage history target'')
        else
          let tip = is_tip_snapshot_policy p od; g = plan_grain p od tip;
              px = \<lparr>px_policy = p, px_source = source, px_granularity = g,
                    px_extra = (if tip then snapshot_extra_scope p cap od g else []), px_expected = expected\<rparr>
          in expand_grain px od tip index_days start end')))"

subsection \<open>Declared and compiled windows\<close>

definition warmup_coverage_datasets :: "string list" where
  "warmup_coverage_datasets = [''indices_bars_daily_topix'', ''markets_calendar'']"

definition full_collection_month_range :: "string \<Rightarrow> string \<Rightarrow> (plan_error, string \<times> string) result" where
  "full_collection_month_range floor period_end =
     bind_res (parse_date floor) (\<lambda>f. bind_res (parse_date period_end) (\<lambda>e.
       Inr (isoformat (first_of_month f), isoformat (month_end e))))"

fun min_string :: "string list \<Rightarrow> string \<Rightarrow> string" where
  "min_string [] m = m"
| "min_string (x # xs) m = min_string xs (min m x)"

definition declared_floor ::
    "coverage_contract \<Rightarrow> string \<Rightarrow> string list \<Rightarrow> string \<Rightarrow> string option \<Rightarrow> string option \<Rightarrow> (plan_error, string \<times> bool) result" where
  "declared_floor p ds events lookback_start bar_split period_start =
     (if ds = ''equities_bars_daily'' then
        (let f1 = (case bar_split of Some b \<Rightarrow> if b \<noteq> [] then min lookback_start b else lookback_start | None \<Rightarrow> lookback_start)
         in Inr (min_string events f1, True))
      else if ds \<in> set warmup_coverage_datasets then
        Inr (case period_start of Some s \<Rightarrow> if s \<noteq> [] then s else lookback_start | None \<Rightarrow> lookback_start, True)
      else case events of
        [] \<Rightarrow> Inl (PValueError ''declared coverage events are missing'')
      | e # es \<Rightarrow> Inr (min_string es e, cc_expected_frequency p = ''event_driven''))"

definition declared_for ::
    "registry \<Rightarrow> policies \<Rightarrow> string \<Rightarrow> string \<Rightarrow> (string \<Rightarrow> string list) \<Rightarrow> string option \<Rightarrow> string option \<Rightarrow> string \<Rightarrow> (plan_error, required_segment list) result" where
  "declared_for reg ps lookback_start period_end selected bar_split period_start ds =
     bind_res (coverage_contract_for ps ds) (\<lambda>p.
     bind_res (declared_floor p ds (selected ds) lookback_start bar_split period_start) (\<lambda>(floor, keep_all).
     bind_res (full_collection_month_range floor period_end) (\<lambda>(range_start, range_end).
     bind_res (plan_required_segments reg p range_end ''jquants'' None [] (Some range_start)) (\<lambda>segs.
       let kept = (if keep_all then segs
                   else filter (\<lambda>s. \<exists>day \<in> set (selected ds). rs_segment_start s \<le> day \<and> day \<le> rs_segment_end s) segs)
       in if kept = [] then Inl (PValueError ''declared coverage inventory is empty'') else Inr kept))))"

definition declared_coverage_segments ::
    "registry \<Rightarrow> policies \<Rightarrow> string list \<Rightarrow> string \<Rightarrow> string \<Rightarrow> (string \<Rightarrow> string list) \<Rightarrow> string option \<Rightarrow> string option \<Rightarrow> (plan_error, required_segment list) result" where
  "declared_coverage_segments reg ps datasets lookback_start period_end selected bar_split period_start =
     bind_res (map_res (declared_for reg ps lookback_start period_end selected bar_split period_start) datasets) (\<lambda>xs. Inr (concat xs))"

definition compiled_for :: "registry \<Rightarrow> policies \<Rightarrow> string \<Rightarrow> string \<Rightarrow> string \<Rightarrow> (plan_error, required_segment list) result" where
  "compiled_for reg ps period_start period_end ds =
     bind_res (coverage_contract_for ps ds) (\<lambda>p.
     bind_res (full_collection_month_range period_start period_end) (\<lambda>(range_start, range_end).
     bind_res (plan_required_segments reg p range_end ''jquants'' None [] (Some range_start)) (\<lambda>segs.
       if segs = [] then Inl (PValueError ''declared coverage inventory is empty'') else Inr segs)))"

definition compiled_period_collection_segments ::
    "registry \<Rightarrow> policies \<Rightarrow> string list \<Rightarrow> string \<Rightarrow> string \<Rightarrow> (plan_error, required_segment list) result" where
  "compiled_period_collection_segments reg ps datasets period_start period_end =
     bind_res (map_res (compiled_for reg ps period_start period_end) datasets) (\<lambda>xs. Inr (concat xs))"

subsection \<open>Tilings of a date range\<close>

text \<open>Consecutive spans from \<open>s\<close> to \<open>e\<close> without gap or overlap.\<close>

fun tiles :: "date \<Rightarrow> date \<Rightarrow> (date \<times> date) list \<Rightarrow> bool" where
  "tiles s e [] \<longleftrightarrow> e < s"
| "tiles s e ((a, b) # r) \<longleftrightarrow>
     a = s \<and> a \<le> b \<and> b \<le> e \<and> valid_date b \<and> (case next_day b of None \<Rightarrow> r = [] \<and> b = e | Some c \<Rightarrow> tiles c e r)"

definition covers :: "date \<Rightarrow> date \<times> date \<Rightarrow> bool" where
  "covers d ab \<longleftrightarrow> fst ab \<le> d \<and> d \<le> snd ab"

lemma covers_pair [simp]: "covers d (a, b) \<longleftrightarrow> a \<le> d \<and> d \<le> b"
  by (simp add: covers_def)

lemma tiles_bounds: "tiles s e sp \<Longrightarrow> (a, b) \<in> set sp \<Longrightarrow> s \<le> a \<and> a \<le> b \<and> b \<le> e"
proof (induction s e sp rule: tiles.induct)
  case (1 s e)
  then show ?case by simp
next
  case (2 s e a' b' r)
  show ?case
  proof (cases "(a, b) = (a', b')")
    case True
    then show ?thesis using "2.prems" by auto
  next
    case False
    then obtain c where c: "next_day b' = Some c" "tiles c e r" using "2.prems" by (auto split: option.splits)
    then have "c \<le> a \<and> a \<le> b \<and> b \<le> e" using "2.IH" "2.prems"(2) False by auto
    moreover have "s \<le> c" using "2.prems"(1) next_day_greater [OF c(1)] by auto
    ultimately show ?thesis by (meson order_trans)
  qed
qed

lemma tiles_cover_once:
  assumes "tiles s e sp" "valid_date s" "valid_date e" "valid_date d"
  shows "length (filter (covers d) sp) = (if s \<le> d \<and> d \<le> e then 1 else 0)"
  using assms
proof (induction s e sp rule: tiles.induct)
  case (1 s e)
  then show ?case by auto
next
  case (2 s e a b r)
  have ab: "a = s" "a \<le> b" "b \<le> e" "valid_date b" using "2.prems"(1) by auto
  show ?case
  proof (cases "next_day b")
    case None
    then have "r = []" "b = e" using "2.prems"(1) by simp_all
    then show ?thesis using ab by auto
  next
    case (Some c)
    have vc: "valid_date c" using valid_next_day [OF ab(4) Some] .
    have IH: "length (filter (covers d) r) = (if c \<le> d \<and> d \<le> e then 1 else 0)"
      using "2.IH" [OF Some _ vc "2.prems"(3,4)] "2.prems"(1) Some by simp
    show ?thesis
    proof (cases "d \<le> b")
      case True
      then have "\<not> c \<le> d" using next_day_greater [OF Some] by order
      then show ?thesis using IH True ab by auto
    next
      case False
      then have "c \<le> d" using next_day_least [OF ab(4) "2.prems"(4) Some] by simp
      then show ?thesis using IH False ab by auto
    qed
  qed
qed

subsection \<open>What the loops append\<close>

definition span_of :: "required_segment \<Rightarrow> date \<times> date \<Rightarrow> bool" where
  "span_of s ab \<longleftrightarrow> rs_segment_start s = isoformat (fst ab) \<and> rs_segment_end s = isoformat (snd ab)"

lemma append_segment_ok:
  "append_segment px sid a b = Inr s \<Longrightarrow>
     span_of s (a, b) \<and> rs_segment_id s = sid \<and> rs_dataset s = cc_dataset_id (px_policy px) \<and> rs_source s = px_source px"
  by (auto simp: append_segment_def Let_def span_of_def split: if_splits)

definition nonneg_expected :: "(string \<times> int) list option \<Rightarrow> bool" where
  "nonneg_expected m \<longleftrightarrow> (case m of None \<Rightarrow> True | Some xs \<Rightarrow> \<forall>(k, n) \<in> set xs. 0 \<le> n)"

lemma append_segment_total: "nonneg_expected (px_expected px) \<Longrightarrow> \<exists>s. append_segment px sid a b = Inr s"
  by (auto simp: append_segment_def Let_def nonneg_expected_def split: option.splits dest!: map_of_SomeD)

lemma month_end_facts:
  assumes "valid_date c"
  shows "c \<le> month_end c" "valid_date (month_end c)"
  using assms by (simp_all add: month_end_def last_of_month_ge)

lemma month_loop_ok:
  assumes "month_loop px c e = Inr ss" "valid_date c" "valid_date e"
  shows "\<exists>sp. tiles c e sp \<and> list_all2 span_of ss sp \<and> map rs_segment_id ss = map (month_id \<circ> fst) sp
    \<and> (\<forall>(a, b) \<in> set sp. b \<le> last_of_month a)"
  using assms
proof (induction px c e arbitrary: ss rule: month_loop.induct)
  case (1 px c e)
  show ?case
  proof (cases "c \<le> e")
    case True
    let ?b = "min (month_end c) e"
    obtain s n rest where s: "append_segment px (month_id c) c ?b = Inr s" "next_day ?b = Some n"
        "month_loop px n e = Inr rest" "ss = s # rest"
      using "1.prems"(1) True by (auto simp: month_loop.simps [of px c] Let_def bind_res_Inr_iff split: option.splits)
    have vb: "valid_date ?b" using month_end_facts [OF "1.prems"(2)] "1.prems"(3) by (simp add: min_def)
    obtain sp where sp: "tiles n e sp" "list_all2 span_of rest sp" "map rs_segment_id rest = map (month_id \<circ> fst) sp"
        "\<forall>(a, b) \<in> set sp. b \<le> last_of_month a"
      using "1.IH" [OF True refl s(2) s(3) valid_next_day [OF vb s(2)] "1.prems"(3)] by blast
    have "c \<le> ?b" "?b \<le> e" "?b \<le> last_of_month c" using True month_end_facts(1) [OF "1.prems"(2)] by (auto simp: month_end_def min_def)
    then have "tiles c e ((c, ?b) # sp) \<and> list_all2 span_of ss ((c, ?b) # sp) \<and> map rs_segment_id ss = map (month_id \<circ> fst) ((c, ?b) # sp)
        \<and> (\<forall>(a, b) \<in> set ((c, ?b) # sp). b \<le> last_of_month a)"
      using sp s vb append_segment_ok [OF s(1)] by simp
    then show ?thesis by blast
  next
    case False
    then show ?thesis using "1.prems"(1) by (auto simp: month_loop.simps [of px c] intro!: exI [of _ "[]"])
  qed
qed

lemma day_loop_ok:
  assumes "day_loop px c e = Inr ss" "valid_date c" "valid_date e"
  shows "\<exists>sp. tiles c e sp \<and> list_all2 span_of ss sp"
  using assms
proof (induction px c e arbitrary: ss rule: day_loop.induct)
  case (1 px c e)
  show ?case
  proof (cases "c \<le> e")
    case True
    obtain s n rest where s: "append_segment px (isoformat c) c c = Inr s" "next_day c = Some n"
        "day_loop px n e = Inr rest" "ss = s # rest"
      using "1.prems"(1) True by (auto simp: day_loop.simps [of px c] bind_res_Inr_iff split: option.splits)
    obtain sp where sp: "tiles n e sp" "list_all2 span_of rest sp"
      using "1.IH" [OF True s(2) s(3) valid_next_day [OF "1.prems"(2) s(2)] "1.prems"(3)] by blast
    have "tiles c e ((c, c) # sp) \<and> list_all2 span_of ss ((c, c) # sp)"
      using sp s True "1.prems"(2) append_segment_ok [OF s(1)] by simp
    then show ?thesis by blast
  next
    case False
    then show ?thesis using "1.prems"(1) by (auto simp: day_loop.simps [of px c] intro!: exI [of _ "[]"])
  qed
qed

lemma year_loop_ok:
  assumes "year_loop px s e ys = Inr ss"
  shows "list_all2 span_of ss (map (\<lambda>y. (max s (Date y 1 1), min e (Date y 12 31))) ys)"
  using assms by (induction ys arbitrary: ss) (auto simp: bind_res_Inr_iff dest!: append_segment_ok)

lemma valid_date_year_end: "valid_date d \<Longrightarrow> d \<le> Date (year_of d) 12 31" "valid_date d \<Longrightarrow> Date (year_of d) 1 1 \<le> d"
  "valid_date d \<Longrightarrow> year_of d \<le> y \<Longrightarrow> y \<le> 9999 \<Longrightarrow> valid_date (Date y 12 31)"
proof -
  assume v: "valid_date d"
  then show "d \<le> Date (year_of d) 12 31"
    using order_trans [OF _ days_in_month_bounds(3) [of "year_of d" "month_of d"], of "day_of d"]
    by (cases d) (auto simp: valid_date_def)
  show "Date (year_of d) 1 1 \<le> d" using v by (cases d) (auto simp: valid_date_def)
  assume "year_of d \<le> y" "y \<le> 9999"
  then show "valid_date (Date y 12 31)" using v by (auto simp: valid_date_def days_in_month_def)
qed

lemma year_spans_tile:
  assumes "valid_date s" "valid_date e" "year_of s \<le> y" "y \<le> year_of e" "s \<le> e"
  shows "tiles (max s (Date y 1 1)) e (map (\<lambda>y. (max s (Date y 1 1), min e (Date y 12 31))) [y..<year_of e + 1])"
  using assms
proof (induction "year_of e - y" arbitrary: y)
  case 0
  then have y: "y = year_of e" by simp
  have e: "min e (Date y 12 31) = e" using valid_date_year_end(1) [OF assms(2)] y by (simp add: min_absorb1)
  have "max s (Date y 1 1) \<le> e" using valid_date_year_end(2) [OF assms(2)] y assms(5) by simp
  then show ?case using y e assms(2) next_day_greater by (auto split: option.splits)
next
  case (Suc n)
  then have y: "y < year_of e" by simp
  have ye: "year_of e \<le> 9999" using assms(2) by (simp add: valid_date_def)
  have e: "min e (Date y 12 31) = Date y 12 31" using y by (cases e) (auto simp: min_def)
  have nxt: "next_day (Date y 12 31) = Some (Date (Suc y) 1 1)" using y ye by (simp add: next_day_def days_in_month_def)
  have mx: "max s (Date (Suc y) 1 1) = Date (Suc y) 1 1" using Suc.prems(3) by (cases s) (auto simp: max_def)
  have IH: "tiles (Date (Suc y) 1 1) e (map (\<lambda>y. (max s (Date y 1 1), min e (Date y 12 31))) [Suc y..<year_of e + 1])"
    using Suc.hyps(1) [of "Suc y"] Suc.hyps(2) Suc.prems y mx by simp
  have "max s (Date y 1 1) \<le> Date y 12 31"
    using valid_date_year_end(1) [OF assms(1)] Suc.prems(3) by (cases s) auto
  moreover have "Date y 12 31 \<le> e" using y by (cases e) auto
  moreover have "valid_date (Date y 12 31)" using valid_date_year_end(3) [OF assms(1)] Suc.prems(3) y ye by simp
  moreover have "[y..<year_of e + 1] = y # [Suc y..<year_of e + 1]" using y by (simp add: upt_conv_Cons)
  ultimately show ?case using IH e nxt by simp
qed

lemma index_loop_ok:
  assumes "index_loop px s e days = Inr ss" "x \<in> set ss"
  shows "\<exists>d. valid_date d \<and> s \<le> d \<and> d \<le> e \<and> span_of x (d, d)"
  using assms
proof (induction days arbitrary: ss)
  case Nil
  then show ?case by simp
next
  case (Cons day_s days)
  obtain d where d: "fromisoformat day_s = Some d" using Cons.prems(1) by (auto simp: bind_res_Inr_iff parse_date_def split: option.splits)
  show ?case
  proof (cases "s \<le> d \<and> d \<le> e")
    case True
    then obtain y ys where "append_segment px day_s d d = Inr y" "index_loop px s e days = Inr ys" "ss = y # ys"
      using Cons.prems(1) d by (auto simp: bind_res_Inr_iff parse_date_def)
    then show ?thesis using Cons append_segment_ok fromisoformat_valid [OF d] True by fastforce
  next
    case False
    then show ?thesis using Cons d by (auto simp: parse_date_def)
  qed
qed

lemma list_all2_count:
  assumes "list_all2 span_of ss sp" "\<forall>(a, b) \<in> set sp. valid_date a \<and> valid_date b" "valid_date d"
  shows "length (filter (\<lambda>s. rs_segment_start s \<le> isoformat d \<and> isoformat d \<le> rs_segment_end s) ss) = length (filter (covers d) sp)"
  using assms
  by (induction ss sp rule: list_all2_induct) (auto simp: span_of_def isoformat_le_iff)

lemma tiles_valid: "tiles s e sp \<Longrightarrow> valid_date s \<Longrightarrow> (a, b) \<in> set sp \<Longrightarrow> valid_date a \<and> valid_date b"
  by (induction s e sp rule: tiles.induct) (auto split: option.splits dest: valid_next_day)

subsection \<open>The planned window\<close>

lemma parse_date_ok: "parse_date s = Inr d \<longleftrightarrow> fromisoformat s = Some d"
  by (auto simp: parse_date_def split: option.splits)

lemma raise_start_ok:
  assumes "raise_start s f = Inr t" "valid_date s"
  shows "valid_date t \<and> s \<le> t \<and> (\<forall>x. f = Some x \<longrightarrow> (\<exists>d. fromisoformat x = Some d \<and> d \<le> t))"
  using assms by (auto simp: raise_start_def bind_res_Inr_iff parse_date_ok not_less dest: fromisoformat_valid split: option.splits if_splits)

lemma effective_start_ok:
  assumes "effective_start reg p rs = Inr st"
  shows "valid_date st" "\<exists>d. fromisoformat (cc_history_target_start p) = Some d \<and> d \<le> st"
    "\<And>c. source_capability_contract_or_none reg (cc_dataset_id p) = Some c \<Longrightarrow> \<exists>d. fromisoformat (sc_earliest c) = Some d \<and> d \<le> st"
    "\<And>r. rs = Some r \<Longrightarrow> \<exists>d. fromisoformat r = Some d \<and> d \<le> st"
proof -
  obtain d0 d1 where d: "fromisoformat (cc_history_target_start p) = Some d0"
    "raise_start d0 (map_option od_earliest (official_domain_for (source_capability_contract_or_none reg (cc_dataset_id p)))) = Inr d1"
    "raise_start d1 rs = Inr st"
    using assms by (auto simp: effective_start_def bind_res_Inr_iff parse_date_ok)
  note v0 = fromisoformat_valid [OF d(1)]
  note r1 = raise_start_ok [OF d(2) v0]
  then have v1: "valid_date d1" by simp
  note r2 = raise_start_ok [OF d(3) v1]
  show "valid_date st" using r2 by simp
  show "\<exists>d. fromisoformat (cc_history_target_start p) = Some d \<and> d \<le> st" using d(1) r1 r2 by (auto intro: order_trans)
  show "\<exists>d. fromisoformat (sc_earliest c) = Some d \<and> d \<le> st" if "source_capability_contract_or_none reg (cc_dataset_id p) = Some c" for c
    using r1 r2 that by (auto simp: official_domain_for_def required_domain_subset_official_def intro: order_trans)
  show "\<exists>d. fromisoformat r = Some d \<and> d \<le> st" if "rs = Some r" for r using r2 that by auto
qed

lemma plan_Inr:
  assumes "plan_required_segments reg p te src ex idx rs = Inr segs"
  obtains st en px where "effective_start reg p rs = Inr st" "fromisoformat te = Some en" "st \<le> en"
    "px_policy px = p" "px_source px = src" "px_expected px = ex"
    "px_granularity px = plan_grain p (official_domain_for (source_capability_contract_or_none reg (cc_dataset_id p)))
       (is_tip_snapshot_policy p (official_domain_for (source_capability_contract_or_none reg (cc_dataset_id p))))"
    "expand_grain px (official_domain_for (source_capability_contract_or_none reg (cc_dataset_id p)))
       (is_tip_snapshot_policy p (official_domain_for (source_capability_contract_or_none reg (cc_dataset_id p)))) idx st en = Inr segs"
proof -
  let ?od = "official_domain_for (source_capability_contract_or_none reg (cc_dataset_id p))"
  let ?tip = "is_tip_snapshot_policy p ?od"
  let ?px = "\<lparr>px_policy = p, px_source = src, px_granularity = plan_grain p ?od ?tip,
      px_extra = (if ?tip then snapshot_extra_scope p (source_capability_contract_or_none reg (cc_dataset_id p)) ?od (plan_grain p ?od ?tip) else []),
      px_expected = ex\<rparr>"
  obtain st en where "effective_start reg p rs = Inr st" "fromisoformat te = Some en" "\<not> en < st"
      "expand_grain ?px ?od ?tip idx st en = Inr segs"
    using assms unfolding plan_required_segments_def Let_def bind_res_Inr_iff parse_date_ok if_error_Inr by blast
  then show ?thesis using that [of st en ?px] by (simp add: not_less)
qed

lemma spans_within:
  assumes "list_all2 span_of ss sp" "tiles s e sp" "valid_date s" "x \<in> set ss"
  shows "\<exists>a b. valid_date a \<and> valid_date b \<and> s \<le> a \<and> a \<le> b \<and> b \<le> e \<and> span_of x (a, b)"
proof -
  have "\<exists>ab \<in> set sp. span_of x ab" using assms(1,4) by (induction ss sp rule: list_all2_induct) auto
  then obtain a b where "(a, b) \<in> set sp" "span_of x (a, b)" by auto
  then show ?thesis using tiles_bounds [OF assms(2)] tiles_valid [OF assms(2,3)] by blast
qed

text \<open>The grains that tile the whole window.\<close>

definition tiling_grain :: "coverage_contract \<Rightarrow> official_domain option \<Rightarrow> bool" where
  "tiling_grain p od \<longleftrightarrow> \<not> is_tip_snapshot_policy p od \<and> \<not> uses_official_archive_index p od
     \<and> cc_segment_granularity p \<noteq> ''official_archive_index_day''"

lemma expand_grain_tiles:
  assumes "expand_grain px od False idx st en = Inr segs" "\<not> uses_official_archive_index (px_policy px) od"
    "px_granularity px \<noteq> ''official_archive_index_day''" "valid_date st" "valid_date en" "st \<le> en"
  shows "\<exists>sp. tiles st en sp \<and> list_all2 span_of segs sp"
proof -
  consider "month_loop px st en = Inr segs" | "year_loop px st en [year_of st..<year_of en + 1] = Inr segs" | "day_loop px st en = Inr segs"
    | sid s where "append_segment px sid st en = Inr s" "segs = [s]"
    using assms(1-3) by (auto simp: expand_grain_def Let_def bind_res_Inr_iff split: if_splits)
  then show ?thesis
  proof cases
    case 1
    then show ?thesis using month_loop_ok [OF 1 assms(4,5)] by blast
  next
    case 2
    have le: "year_of st \<le> year_of en" using assms(6) by (auto simp: less_eq_date_def)
    have "max st (Date (year_of st) 1 1) = st" using valid_date_year_end(2) [OF assms(4)] by (simp add: max_absorb1)
    then show ?thesis using year_loop_ok [OF 2] year_spans_tile [OF assms(4,5) order_refl le assms(6)] by auto
  next
    case 3
    then show ?thesis using day_loop_ok [OF 3 assms(4,5)] by blast
  next
    case 4
    then have "tiles st en [(st, en)] \<and> list_all2 span_of segs [(st, en)]"
      using assms(5,6) append_segment_ok [OF 4(1)] next_day_greater by (auto split: option.splits)
    then show ?thesis by blast
  qed
qed

lemma expand_grain_within:
  assumes "expand_grain px od tip idx st en = Inr segs" "valid_date st" "valid_date en" "st \<le> en" "x \<in> set segs"
  shows "\<exists>a b. valid_date a \<and> valid_date b \<and> st \<le> a \<and> a \<le> b \<and> b \<le> en \<and> span_of x (a, b)"
proof (cases tip)
  case True
  then have "span_of x (en, en)" using assms(1,5) by (auto simp: expand_grain_def Let_def bind_res_Inr_iff dest: append_segment_ok)
  then show ?thesis using assms by blast
next
  case False
  show ?thesis
  proof (cases "uses_official_archive_index (px_policy px) od \<or> px_granularity px = ''official_archive_index_day''")
    case True
    then have "index_loop px st en (official_index_days (cc_dataset_id (px_policy px)) idx) = Inr segs"
      using assms(1) False by (simp add: expand_grain_def Let_def)
    then show ?thesis using index_loop_ok assms(5) by blast
  next
    case not_index: False
    then show ?thesis
      using expand_grain_tiles [of px od idx st en segs] spans_within assms False by fastforce
  qed
qed

lemma index_loop_ids:
  assumes "index_loop px st en days = Inr segs"
  shows "map rs_segment_id segs = filter (\<lambda>x. \<exists>d. fromisoformat x = Some d \<and> st \<le> d \<and> d \<le> en) days"
  using assms
proof (induction days arbitrary: segs)
  case Nil
  then show ?case by simp
next
  case (Cons x days)
  obtain d where d: "fromisoformat x = Some d" using Cons.prems by (auto simp: bind_res_Inr_iff parse_date_ok)
  then have p: "parse_date x = Inr d" by (simp add: parse_date_ok)
  show ?case
  proof (cases "st \<le> d \<and> d \<le> en")
    case True
    then obtain y ys where "append_segment px x d d = Inr y" "index_loop px st en days = Inr ys" "segs = y # ys"
      using Cons.prems p by (auto simp: bind_res_Inr_iff)
    then show ?thesis using Cons.IH append_segment_ok True d by fastforce
  next
    case False
    then show ?thesis using Cons d p by auto
  qed
qed

subsection \<open>Planning returns\<close>

lemma last_date_valid: "valid_date (Date 9999 12 31)"
  by (simp add: valid_date_def days_in_month_def)

lemma next_day_exists: "valid_date d \<Longrightarrow> d < Date 9999 12 31 \<Longrightarrow> \<exists>c. next_day d = Some c"
  using next_day_before [OF _ last_date_valid] by blast

lemma month_loop_total:
  assumes "nonneg_expected (px_expected px)" "valid_date c" "valid_date e" "e < Date 9999 12 31"
  shows "\<exists>ss. month_loop px c e = Inr ss"
  using assms
proof (induction px c e rule: month_loop.induct)
  case (1 px c e)
  show ?case
  proof (cases "c \<le> e")
    case True
    let ?b = "min (month_end c) e"
    have b: "valid_date ?b" "?b < Date 9999 12 31"
      using month_end_facts [OF "1.prems"(2)] "1.prems"(3,4) by (auto simp: min_def intro: le_less_trans)
    obtain n where n: "next_day ?b = Some n" using next_day_exists [OF b] by blast
    obtain s where s: "append_segment px (month_id c) c ?b = Inr s" using append_segment_total [OF "1.prems"(1)] by blast
    show ?thesis
      using "1.IH" [OF True refl n "1.prems"(1) valid_next_day [OF b(1) n] "1.prems"(3,4)] True n s
      by (auto simp: month_loop.simps [of px c] Let_def)
  next
    case False
    then show ?thesis by (simp add: month_loop.simps [of px c])
  qed
qed

lemma day_loop_total:
  assumes "nonneg_expected (px_expected px)" "valid_date c" "valid_date e" "e < Date 9999 12 31"
  shows "\<exists>ss. day_loop px c e = Inr ss"
  using assms
proof (induction px c e rule: day_loop.induct)
  case (1 px c e)
  show ?case
  proof (cases "c \<le> e")
    case True
    then have "c < Date 9999 12 31" using "1.prems"(4) by (rule le_less_trans)
    then obtain n where n: "next_day c = Some n" using next_day_exists [OF "1.prems"(2)] by blast
    obtain s where s: "append_segment px (isoformat c) c c = Inr s" using append_segment_total [OF "1.prems"(1)] by blast
    show ?thesis
      using "1.IH" [OF True n "1.prems"(1) valid_next_day [OF "1.prems"(2) n] "1.prems"(3,4)] True n s
      by (auto simp: day_loop.simps [of px c])
  next
    case False
    then show ?thesis by (simp add: day_loop.simps [of px c])
  qed
qed

lemma year_loop_total: "nonneg_expected (px_expected px) \<Longrightarrow> \<exists>ss. year_loop px s e ys = Inr ss"
proof (induction ys)
  case Nil
  then show ?case by simp
next
  case (Cons y ys)
  then obtain ss where "year_loop px s e ys = Inr ss" by blast
  moreover obtain x where "append_segment px (nat_str y) (max s (Date y 1 1)) (min e (Date y 12 31)) = Inr x"
    using append_segment_total [OF Cons.prems] by blast
  ultimately show ?case by simp
qed

lemma index_loop_total:
  "nonneg_expected (px_expected px) \<Longrightarrow> \<forall>x \<in> set days. fromisoformat x \<noteq> None \<Longrightarrow> \<exists>ss. index_loop px s e days = Inr ss"
proof (induction days)
  case Nil
  then show ?case by simp
next
  case (Cons x days)
  then obtain ss d where sd: "index_loop px s e days = Inr ss" "fromisoformat x = Some d" by auto
  obtain y where "append_segment px x d d = Inr y" using append_segment_total [OF Cons.prems(1)] by blast
  then show ?case using sd by (auto simp: parse_date_def)
qed

lemma plan_returns:
  assumes "effective_start reg p rs = Inr st" "fromisoformat te = Some en" "st \<le> en" "en < Date 9999 12 31" "nonneg_expected ex"
    "cc_segment_granularity p \<in> set segment_granularities" "\<forall>x \<in> set idx. fromisoformat x \<noteq> None"
  shows "\<exists>segs. plan_required_segments reg p te src ex idx rs = Inr segs"
proof -
  let ?od = "official_domain_for (source_capability_contract_or_none reg (cc_dataset_id p))"
  let ?tip = "is_tip_snapshot_policy p ?od"
  have v: "valid_date st" "valid_date en" using effective_start_ok(1) [OF assms(1)] fromisoformat_valid [OF assms(2)] by auto
  have "\<exists>segs. expand_grain px ?od ?tip idx st en = Inr segs"
    if px: "px_policy px = p" "px_expected px = ex" "px_granularity px = plan_grain p ?od ?tip" for px
  proof -
    have ne: "nonneg_expected (px_expected px)" using px assms(5) by simp
    note loops = month_loop_total [OF ne v assms(4)] day_loop_total [OF ne v assms(4)] year_loop_total [OF ne, of st en "[year_of st..<year_of en + 1]"]
    have idx: "\<exists>ss. index_loop px st en (official_index_days (cc_dataset_id p) idx) = Inr ss"
      using index_loop_total [OF ne] assms(7) by (simp add: official_index_days_def)
    have one: "\<exists>s. append_segment px sid a b = Inr s" for sid a b by (rule append_segment_total [OF ne])
    have grain: "?tip \<or> px_granularity px \<in> {''calendar_month'', ''official_archive_day'', ''official_archive_index_day'', ''official_archive_year'', ''source_time_series_file''}"
      using assms(6) px(3) by (auto simp: plan_grain_def segment_granularities_def is_tip_snapshot_policy_def)
    show ?thesis
      using loops idx grain one [of "isoformat en" en en] one [of "timeseries_segment_id (cc_dataset_id p)" st en] px(1)
      by (auto simp: expand_grain_def Let_def)
  qed
  then show ?thesis using assms(1-3) by (auto simp: plan_required_segments_def Let_def parse_date_def not_less)
qed

lemma plan_counts:
  assumes "plan_required_segments reg p te src ex idx rs = Inr segs"
    "tiling_grain p (official_domain_for (source_capability_contract_or_none reg (cc_dataset_id p)))"
    "effective_start reg p rs = Inr st" "fromisoformat te = Some en" "valid_date d"
  shows "length (filter (\<lambda>s. rs_segment_start s \<le> isoformat d \<and> isoformat d \<le> rs_segment_end s) segs)
    = (if st \<le> d \<and> d \<le> en then 1 else 0)"
proof -
  let ?od = "official_domain_for (source_capability_contract_or_none reg (cc_dataset_id p))"
  obtain px where pl: "st \<le> en" "px_policy px = p" "px_granularity px = cc_segment_granularity p"
      "expand_grain px ?od False idx st en = Inr segs"
    using plan_Inr [OF assms(1)] assms(2-4) by (auto simp: tiling_grain_def plan_grain_def)
  have v: "valid_date st" "valid_date en" using effective_start_ok(1) [OF assms(3)] fromisoformat_valid [OF assms(4)] by auto
  obtain sp where sp: "tiles st en sp" "list_all2 span_of segs sp"
    using expand_grain_tiles [OF pl(4) _ _ v pl(1)] pl(2,3) assms(2) by (auto simp: tiling_grain_def)
  have "\<forall>(a, b) \<in> set sp. valid_date a \<and> valid_date b" using tiles_valid [OF sp(1) v(1)] by blast
  then show ?thesis using list_all2_count [OF sp(2) _ assms(5)] tiles_cover_once [OF sp(1) v assms(5)] by simp
qed

definition sample_policy :: "string \<Rightarrow> string \<Rightarrow> coverage_contract" where
  "sample_policy ds grain =
     \<lparr>cc_dataset_id = ds, cc_collection_scope = ''full'', cc_history_target_start = isoformat (Date 2024 1 15),
      cc_history_target_end_rule = ''today'', cc_coverage_mode = ''calendar'', cc_expected_frequency = ''daily'',
      cc_universe_rule = ''all'', cc_raw_retention_required = True, cc_structured_reconciliation_required = True,
      cc_segment_granularity = grain, cc_governance_tier = ''governed'', cc_policy_version = None, cc_history_mode = None,
      cc_required_domain_basis = None, cc_empty_success_policy = None, cc_vendor_annotations = []\<rparr>"

lemma sample_dates: "valid_date (Date 2024 1 15)" "valid_date (Date 2024 3 10)" "valid_date (Date 2024 2 1)"
  by (simp_all add: valid_date_def days_in_month_def is_leap_def)

lemma sample_effective_start: "effective_start [] (sample_policy ds g) None = Inr (Date 2024 1 15)"
  using sample_dates
  by (simp add: effective_start_def sample_policy_def parse_date_def source_capability_contract_or_none_def official_domain_for_def raise_start_def)

lemma sample_plan:
  assumes "g \<in> set segment_granularities"
  shows "\<exists>segs. plan_required_segments [] (sample_policy ds g) (isoformat (Date 2024 3 10)) ''jquants'' None [isoformat (Date 2024 2 1)] None = Inr segs"
  by (rule plan_returns [OF sample_effective_start]) (use assms sample_dates in \<open>auto simp: nonneg_expected_def sample_policy_def\<close>)

subsection \<open>Properties of the plan\<close>

text \<open>C30: Every planned segment, whatever the grain, lies inside the window: it starts no earlier than the policy's history
  target, the official start of the dataset and the requested range start, ends no later than the
  target end, and is not reversed. The plan never asks for history the source does not officially have.\<close>

theorem plan_within_official_domain:
  assumes "plan_required_segments reg p te src ex idx rs = Inr segs" "x \<in> set segs"
  shows "\<exists>a b en. rs_segment_start x = isoformat a \<and> rs_segment_end x = isoformat b \<and> valid_date a \<and> valid_date b
    \<and> a \<le> b \<and> fromisoformat te = Some en \<and> b \<le> en
    \<and> (\<exists>d. fromisoformat (cc_history_target_start p) = Some d \<and> d \<le> a)
    \<and> (case source_capability_contract_or_none reg (cc_dataset_id p) of None \<Rightarrow> True
       | Some c \<Rightarrow> \<exists>d. fromisoformat (sc_earliest c) = Some d \<and> d \<le> a)
    \<and> (case rs of None \<Rightarrow> True | Some r \<Rightarrow> \<exists>d. fromisoformat r = Some d \<and> d \<le> a)"
proof -
  obtain st en px where pl: "effective_start reg p rs = Inr st" "fromisoformat te = Some en" "st \<le> en"
    "expand_grain px (official_domain_for (source_capability_contract_or_none reg (cc_dataset_id p)))
       (is_tip_snapshot_policy p (official_domain_for (source_capability_contract_or_none reg (cc_dataset_id p)))) idx st en = Inr segs"
    using plan_Inr [OF assms(1)] by metis
  note eff = effective_start_ok [OF pl(1)]
  obtain a b where ab: "valid_date a" "valid_date b" "st \<le> a" "a \<le> b" "b \<le> en" "span_of x (a, b)"
    using expand_grain_within [OF pl(4) eff(1) fromisoformat_valid [OF pl(2)] pl(3) assms(2)] by blast
  then show ?thesis
    using pl(2) eff(2-4)
    by (intro exI [of _ a] exI [of _ b] exI [of _ en]) (auto simp: span_of_def split: option.splits intro: order_trans)
qed

theorem plan_within_official_domain_witness:
  "\<exists>segs. plan_required_segments [] (sample_policy ''d'' ''calendar_month'') (isoformat (Date 2024 3 10)) ''jquants'' None [isoformat (Date 2024 2 1)] None = Inr segs
     \<and> (\<exists>x \<in> set segs. \<exists>b. rs_segment_end x = isoformat b \<and> b \<le> Date 2024 3 10)"
proof -
  obtain segs where segs: "plan_required_segments [] (sample_policy ''d'' ''calendar_month'') (isoformat (Date 2024 3 10)) ''jquants'' None [isoformat (Date 2024 2 1)] None = Inr segs"
    using sample_plan by (auto simp: segment_granularities_def)
  have "tiling_grain (sample_policy ''d'' ''calendar_month'') None"
    by (simp add: tiling_grain_def sample_policy_def is_tip_snapshot_policy_def uses_official_archive_index_def
        snapshot_segment_granularities_def tip_coverage_modes_def official_archive_index_datasets_def official_archive_index_modes_def)
  then have "length (filter (\<lambda>s. rs_segment_start s \<le> isoformat (Date 2024 2 1) \<and> isoformat (Date 2024 2 1) \<le> rs_segment_end s) segs) = 1"
    using plan_counts [OF segs _ sample_effective_start _ sample_dates(3), of "Date 2024 3 10"] sample_dates
    by (simp add: source_capability_contract_or_none_def official_domain_for_def)
  then obtain x where "x \<in> set segs" by (cases segs) auto
  then show ?thesis
    using plan_within_official_domain [OF segs] segs sample_dates by fastforce
qed

text \<open>C29: A plan on a tiling grain (calendar month, archive year, archive day, time-series file) covers every date of
  the window by exactly one segment and no other date by any.\<close>

theorem plan_covers_each_day_once:
  assumes "plan_required_segments reg p te src ex idx rs = Inr segs"
    "tiling_grain p (official_domain_for (source_capability_contract_or_none reg (cc_dataset_id p)))"
    "effective_start reg p rs = Inr st" "fromisoformat te = Some en" "valid_date d"
  shows "length (filter (\<lambda>s. rs_segment_start s \<le> isoformat d \<and> isoformat d \<le> rs_segment_end s) segs)
    = (if st \<le> d \<and> d \<le> en then 1 else 0)"
  using assms by (rule plan_counts)

theorem plan_covers_each_day_once_witness:
  "\<exists>segs. plan_required_segments [] (sample_policy ''d'' ''calendar_month'') (isoformat (Date 2024 3 10)) ''jquants'' None [isoformat (Date 2024 2 1)] None = Inr segs
     \<and> length (filter (\<lambda>s. rs_segment_start s \<le> isoformat (Date 2024 2 1) \<and> isoformat (Date 2024 2 1) \<le> rs_segment_end s) segs) = 1"
proof -
  obtain segs where segs: "plan_required_segments [] (sample_policy ''d'' ''calendar_month'') (isoformat (Date 2024 3 10)) ''jquants'' None [isoformat (Date 2024 2 1)] None = Inr segs"
    using sample_plan by (auto simp: segment_granularities_def)
  have "tiling_grain (sample_policy ''d'' ''calendar_month'') None"
    by (simp add: tiling_grain_def sample_policy_def is_tip_snapshot_policy_def uses_official_archive_index_def
        snapshot_segment_granularities_def tip_coverage_modes_def official_archive_index_datasets_def official_archive_index_modes_def)
  then show ?thesis
    using plan_covers_each_day_once [OF segs _ sample_effective_start _ sample_dates(3), of "Date 2024 3 10"] sample_dates segs
    by (simp add: source_capability_contract_or_none_def official_domain_for_def)
qed

text \<open>Snapshot datasets get the current collection window only: one segment, for the target day.\<close>

theorem tip_plan_is_current_window:
  assumes "plan_required_segments reg p te src ex idx rs = Inr segs"
    "is_tip_snapshot_policy p (official_domain_for (source_capability_contract_or_none reg (cc_dataset_id p)))"
  shows "\<exists>en s. fromisoformat te = Some en \<and> segs = [s] \<and> rs_segment_id s = isoformat en
    \<and> rs_segment_start s = isoformat en \<and> rs_segment_end s = isoformat en"
proof -
  obtain st en px where pl: "fromisoformat te = Some en"
    "expand_grain px (official_domain_for (source_capability_contract_or_none reg (cc_dataset_id p)))
       (is_tip_snapshot_policy p (official_domain_for (source_capability_contract_or_none reg (cc_dataset_id p)))) idx st en = Inr segs"
    using plan_Inr [OF assms(1)] by metis
  then obtain s where "append_segment px (isoformat en) en en = Inr s" "segs = [s]"
    using assms(2) by (auto simp: expand_grain_def Let_def bind_res_Inr_iff)
  then show ?thesis using pl(1) append_segment_ok by (auto simp: span_of_def)
qed

theorem tip_plan_is_current_window_witness:
  "\<exists>s. plan_required_segments [] (sample_policy ''d'' ''collection_cutoff_snapshot'') (isoformat (Date 2024 3 10)) ''jquants'' None [isoformat (Date 2024 2 1)] None = Inr [s]
     \<and> rs_segment_id s = isoformat (Date 2024 3 10)"
proof -
  obtain segs where segs: "plan_required_segments [] (sample_policy ''d'' ''collection_cutoff_snapshot'') (isoformat (Date 2024 3 10)) ''jquants'' None [isoformat (Date 2024 2 1)] None = Inr segs"
    using sample_plan by (auto simp: segment_granularities_def snapshot_segment_granularities_def)
  have "is_tip_snapshot_policy (sample_policy ''d'' ''collection_cutoff_snapshot'') od" for od
    by (simp add: is_tip_snapshot_policy_def sample_policy_def snapshot_segment_granularities_def)
  then show ?thesis using tip_plan_is_current_window [OF segs] segs sample_dates by auto
qed

text \<open>Archive-index datasets take listed publication days only: the segment ids are exactly the listed days
  inside the window, in the listed order; with no listed day the plan is empty.\<close>

theorem index_plan_is_listed_days:
  assumes "plan_required_segments reg p te src ex idx rs = Inr segs"
    "\<not> is_tip_snapshot_policy p (official_domain_for (source_capability_contract_or_none reg (cc_dataset_id p)))"
    "cc_dataset_id p \<in> set official_archive_index_datasets" "effective_start reg p rs = Inr st" "fromisoformat te = Some en"
  shows "map rs_segment_id segs = filter (\<lambda>x. \<exists>d. fromisoformat x = Some d \<and> st \<le> d \<and> d \<le> en) idx"
proof -
  obtain px where pl: "px_policy px = p"
      "expand_grain px (official_domain_for (source_capability_contract_or_none reg (cc_dataset_id p))) False idx st en = Inr segs"
    using plan_Inr [OF assms(1)] assms(2,4,5) by auto
  then have "index_loop px st en idx = Inr segs"
    using assms(3) by (simp add: expand_grain_def Let_def uses_official_archive_index_def official_index_days_def)
  then show ?thesis by (rule index_loop_ids)
qed

theorem index_plan_is_listed_days_witness:
  "\<exists>segs. plan_required_segments [] (sample_policy ''jsda_otc_bond_reference_prices'' ''official_archive_index_day'') (isoformat (Date 2024 3 10))
      ''jquants'' None [isoformat (Date 2024 2 1)] None = Inr segs \<and> map rs_segment_id segs = [isoformat (Date 2024 2 1)]"
proof -
  let ?p = "sample_policy ''jsda_otc_bond_reference_prices'' ''official_archive_index_day''"
  obtain segs where segs: "plan_required_segments [] ?p (isoformat (Date 2024 3 10)) ''jquants'' None [isoformat (Date 2024 2 1)] None = Inr segs"
    using sample_plan by (auto simp: segment_granularities_def)
  have "\<not> is_tip_snapshot_policy ?p None" "cc_dataset_id ?p \<in> set official_archive_index_datasets"
    by (simp_all add: is_tip_snapshot_policy_def sample_policy_def snapshot_segment_granularities_def tip_coverage_modes_def official_archive_index_datasets_def)
  then show ?thesis
    using index_plan_is_listed_days [OF segs _ _ sample_effective_start, of "Date 2024 3 10"] sample_dates segs
    by (auto simp: source_capability_contract_or_none_def official_domain_for_def)
qed

text \<open>C31: Planning returns: with a start that does not pass the target end, a target end before the last
  representable day, non-negative expectations, a supported grain and listed days that are dates, a plan is
  produced for every grain.\<close>

theorem plan_always_returns:
  assumes "effective_start reg p rs = Inr st" "fromisoformat te = Some en" "st \<le> en" "en < Date 9999 12 31" "nonneg_expected ex"
    "cc_segment_granularity p \<in> set segment_granularities" "\<forall>x \<in> set idx. fromisoformat x \<noteq> None"
  shows "\<exists>segs. plan_required_segments reg p te src ex idx rs = Inr segs"
  using assms by (rule plan_returns)

theorem plan_always_returns_witness:
  "\<exists>segs. plan_required_segments [] (sample_policy ''d'' ''official_archive_year'') (isoformat (Date 2024 3 10)) ''jquants'' None [] None = Inr segs"
  by (rule plan_always_returns [OF sample_effective_start])
     (use sample_dates in \<open>auto simp: nonneg_expected_def sample_policy_def segment_granularities_def\<close>)

end
