(* ===== verification/VerifiedReceipt.thy ===== *)
theory VerifiedReceipt
  imports ReceiptCrypto CoveragePlan "HOL-Library.AList"
begin

section \<open>Verified collection receipts\<close>

text \<open>
  \<open>packages/data_plane/storage/verified_receipt.py\<close>: a persisted receipt is an untrusted mirror of signed claims. The
  verifier decodes the signed body, checks the signature, recomputes the digest chain and binds every field of the receipt
  and of its envelope to the claims; only then is a closure minted. The fields of a receipt are JSON values, so that
  the exact type checks of the source are checks of the model. The JSON-schema validator of the jsonschema package
  is a parameter of the environment: whether the claims document satisfies the closed schema.
\<close>

record receipt_env = crypto_env +
  rv_schema_ok :: "dict \<Rightarrow> bool"

record collection_receipt =
  cr_source :: json
  cr_dataset :: json
  cr_segment_id :: json
  cr_segment_start :: json
  cr_segment_end :: json
  cr_expected_scope :: json
  cr_expected_items :: json
  cr_observed_items :: json
  cr_raw_page_count :: json
  cr_raw_row_count :: json
  cr_structured_row_count :: json
  cr_pagination_exhausted :: json
  cr_digests :: json
  cr_run_id :: json
  cr_status :: json
  cr_error :: json
  cr_checked_at :: json

record frozen_input =
  fi_receipt :: collection_receipt
  fi_digests :: dict
  fi_claims :: dict
  fi_signed_body :: string

record verified_closure =
  vc_claims :: dict
  vc_receipt_digest :: string

subsection \<open>Closed field sets\<close>

definition receipt_strings :: "collection_receipt \<Rightarrow> json list" where
  "receipt_strings r = [cr_source r, cr_dataset r, cr_segment_id r, cr_segment_start r, cr_segment_end r, cr_status r, cr_checked_at r]"

definition receipt_ints :: "collection_receipt \<Rightarrow> json list" where
  "receipt_ints r = [cr_observed_items r, cr_raw_page_count r, cr_raw_row_count r, cr_structured_row_count r, cr_run_id r]"

definition signed_envelope_fields :: "string list" where
  "signed_envelope_fields =
     [''eligibility'', ''issuer_class'', ''issuer_key_id'', ''issuer_id'', ''parser_normalizer_version'', ''signed_body_b64'', ''signature'',
      ''body_digest'', ''issued_at'', ''checked_at'', ''source_request_digest'', ''raw_manifest_digest'', ''raw'', ''structured_generation'',
      ''structured_digest'', ''scope_digest'', ''observation_digest'', ''extra_digests'']"

definition v3_signed_envelope_fields :: "string list" where
  "v3_signed_envelope_fields = signed_envelope_fields @ [''environment'', ''authority_instance_digest'']"

definition authority_base_extra_fields :: "string list" where
  "authority_base_extra_fields =
     [''acquisition_collection_manifest_file_digest'', ''acquisition_collection_digest'', ''acquisition_terminal_chain_digest'',
      ''product_artifact_digest'', ''product_manifest_digest'']"

definition master_calendar_extra_fields :: "string list" where
  "master_calendar_extra_fields =
     [''official_calendar_evidence_digest'', ''official_calendar_raw_body_digest'', ''official_calendar_query_digest'',
      ''official_business_dates_digest'', ''official_calendar_binding_digest'']"

definition schema_only_digest :: string where
  "schema_only_digest = ''sha256:'' @ replicate 64 (CHR ''0'')"

subsection \<open>Reading the receipt\<close>

definition require :: "bool \<Rightarrow> string \<Rightarrow> unit rc" where
  "require c m = (if c then Inr () else Inl (ReceiptVerificationError m))"

definition claim :: "dict \<Rightarrow> string \<Rightarrow> json rc" where
  "claim d k = (case map_of d k of None \<Rightarrow> Inl (RcKeyError k) | Some v \<Rightarrow> Inr v)"

definition nonneg_json_int :: "json \<Rightarrow> bool" where
  "nonneg_json_int v \<longleftrightarrow> (case v of JInt i \<Rightarrow> 0 \<le> i | _ \<Rightarrow> False)"

definition copy_exact_json :: "json \<Rightarrow> string \<Rightarrow> json rc" where
  "copy_exact_json v field =
     (if exact_json v then Inr v else Inl (ReceiptVerificationError (field @ '' must contain only exact JSON built-in values'')))"

definition decode_strict_signed_claims :: "string \<Rightarrow> (dict \<times> string) rc" where
  "decode_strict_signed_claims body_b64 =
     (case decode_canonical_signed_body body_b64 of
        None \<Rightarrow> Inl (ReceiptVerificationError ''signed body is not canonical base64'')
      | Some raw \<Rightarrow>
          (case utf8_decode raw of
             None \<Rightarrow> Inl (ReceiptVerificationError ''signed body is not valid JSON'')
           | Some txt \<Rightarrow>
               (case json_loads txt of
                  Inl (DuplicateKey k) \<Rightarrow> Inl (ReceiptVerificationError (''signed body contains duplicate key '' @ k))
                | Inl (NonFinite v) \<Rightarrow> Inl (ReceiptVerificationError (''signed body contains non-finite value '' @ v))
                | Inl _ \<Rightarrow> Inl (ReceiptVerificationError ''signed body is not valid JSON'')
                | Inr (JObj d) \<Rightarrow> bind_res (copy_exact_json (JObj d) ''signed claims'') (\<lambda>_. Inr (d, raw))
                | Inr _ \<Rightarrow> Inl (ReceiptVerificationError ''signed body must be an object''))))"

definition is_object :: "json \<Rightarrow> bool" where
  "is_object v \<longleftrightarrow> (case v of JObj _ \<Rightarrow> True | _ \<Rightarrow> False)"

definition envelope_contract :: "dict \<Rightarrow> string list" where
  "envelope_contract claims =
     (if dict_get claims ''version'' = JStr signed_claims_version then v3_signed_envelope_fields else signed_envelope_fields)"

definition check_envelope :: "dict \<Rightarrow> dict \<Rightarrow> unit rc" where
  "check_envelope digests claims =
     bind_res (require (is_object (dict_get claims ''extra_digests'')) ''signed extra_digests must be an exact object'') (\<lambda>_.
     bind_res (require (set (map fst digests) = set (envelope_contract claims @ map fst (object_of (dict_get claims ''extra_digests''))))
       ''signed receipt envelope fields are not closed'') (\<lambda>_.
     bind_res (require (\<forall>f \<in> set (filter (\<lambda>f. f \<notin> {''structured_generation'', ''extra_digests''}) (envelope_contract claims)). nonempty_json_str (dict_get digests f))
       ''signed receipt envelope strings must be exact and non-empty'') (\<lambda>_.
       require (nonneg_json_int (dict_get digests ''structured_generation'') \<and> is_object (dict_get digests ''extra_digests''))
         ''signed receipt envelope structured values are invalid'')))"

definition materialize_receipt_input :: "collection_receipt \<Rightarrow> frozen_input rc" where
  "materialize_receipt_input r =
     bind_res (require (\<forall>v \<in> set (receipt_strings r). nonempty_json_str v) ''receipt string fields must be exact non-empty strings'') (\<lambda>_.
     bind_res (require (\<forall>v \<in> set (receipt_ints r). nonneg_json_int v) ''receipt count/run fields must be exact non-negative integers'') (\<lambda>_.
     bind_res (require (cr_expected_items r = JNull \<or> nonneg_json_int (cr_expected_items r))
       ''receipt expected_items must be an exact non-negative integer or null'') (\<lambda>_.
     bind_res (require (is_bool_json (cr_pagination_exhausted r)) ''receipt pagination_exhausted must be an exact bool'') (\<lambda>_.
     bind_res (require (cr_error r = JNull \<or> is_json_str (cr_error r)) ''receipt error must be an exact string or null'') (\<lambda>_.
     bind_res (copy_exact_json (cr_expected_scope r) ''receipt.expected_scope'') (\<lambda>scope.
     bind_res (require (is_object scope) ''receipt expected_scope must be an exact object'') (\<lambda>_.
     bind_res (require (is_object (cr_digests r)) ''receipt digests must be an exact built-in dict'') (\<lambda>_.
     bind_res (copy_exact_json (cr_digests r) ''receipt.digests'') (\<lambda>dg.
     let digests = object_of dg in
     bind_res (require (nonempty_json_str (dict_get digests ''signed_body_b64'')) ''missing signed_body_b64'') (\<lambda>_.
     bind_res (decode_strict_signed_claims (str_value (dict_get digests ''signed_body_b64''))) (\<lambda>(claims, body).
     bind_res (check_envelope digests claims) (\<lambda>_.
       Inr \<lparr>fi_receipt = r, fi_digests = digests, fi_claims = claims, fi_signed_body = body\<rparr>))))))))))))"

subsection \<open>Schema and digest inventory\<close>

definition validate_schema :: "('a receipt_env_scheme) \<Rightarrow> dict \<Rightarrow> unit rc" where
  "validate_schema env claims = require (rv_schema_ok env claims) ''signed claims fail closed schema''"

definition is_master_dataset :: "dict \<Rightarrow> bool" where
  "is_master_dataset claims \<longleftrightarrow> dict_get claims ''source'' = JStr ''jquants'' \<and> dict_get claims ''dataset'' = JStr ''equities_master''"

definition expected_extra_fields :: "dict \<Rightarrow> string list" where
  "expected_extra_fields claims = authority_base_extra_fields @ (if is_master_dataset claims then master_calendar_extra_fields else [])"

definition validate_v3_dataset_digest_inventory :: "dict \<Rightarrow> unit rc" where
  "validate_v3_dataset_digest_inventory claims =
     bind_res (require (is_object (dict_get claims ''extra_digests'')) ''signed extra_digests must be an exact object'') (\<lambda>_.
     let extras = object_of (dict_get claims ''extra_digests'') in
     bind_res (require (set (map fst extras) = set (expected_extra_fields claims)) ''signed J-Quants authority digest inventory does not match source/dataset'') (\<lambda>_.
     bind_res (require (\<forall>n \<in> set (expected_extra_fields claims). is_json_sha256 (dict_get extras n)) ''signed J-Quants authority digest is not sha256'') (\<lambda>_.
       require (dict_get extras ''product_artifact_digest'' = dict_get claims ''structured_digest'')
         ''signed product artifact digest does not bind structured digest'')))"

definition dict_setdefault :: "string \<times> json \<Rightarrow> dict \<Rightarrow> dict" where
  "dict_setdefault kv d = (if has_key d (fst kv) then d else d @ [kv])"

definition normalize_legacy_claims_for_schema :: "dict \<Rightarrow> string \<Rightarrow> string \<Rightarrow> dict" where
  "normalize_legacy_claims_for_schema claims e a =
     (let n1 = AList.update ''version'' (JStr signed_claims_version) claims;
          n2 = fold dict_setdefault
            [(''environment'', JStr e), (''authority_instance_digest'', JStr a), (''contract_id'', JStr ''schema-only-legacy-contract''),
             (''receipt_issue_digest'', JStr schema_only_digest), (''artifact_key'', JStr ''schema-only/legacy/artifact''),
             (''artifact_byte_count'', JInt 1), (''manifest_key'', JStr ''schema-only/legacy/manifest''), (''manifest_byte_count'', JInt 1),
             (''raw_manifest_key'', JStr ''schema-only/legacy/raw-manifest''), (''raw_manifest_byte_count'', JInt 1),
             (''raw_byte_count'', JInt 1), (''natural_key_digest'', JStr schema_only_digest)] n1
      in AList.update ''extra_digests'' (JObj (map (\<lambda>n. (n, JStr schema_only_digest)) (expected_extra_fields n2))) n2)"

subsection \<open>Binding\<close>

text \<open>\<open>_same\<close>: dicts by Python equality, otherwise the same type and value.\<close>

definition same :: "json \<Rightarrow> json \<Rightarrow> bool" where
  "same l r =
     (case l of
        JObj _ \<Rightarrow> (case r of JObj _ \<Rightarrow> py_eq l r | _ \<Rightarrow> False)
      | JArr _ \<Rightarrow> (case r of JArr _ \<Rightarrow> py_eq l r | _ \<Rightarrow> False)
      | _ \<Rightarrow> l = r)"

definition require_same :: "string \<Rightarrow> json \<Rightarrow> json \<Rightarrow> unit rc" where
  "require_same label signed outer = require (same signed outer) (''signed '' @ label @ '' does not bind untrusted receipt'')"

definition bind_claim :: "dict \<Rightarrow> string \<times> json \<Rightarrow> unit rc" where
  "bind_claim claims nv = bind_res (claim claims (fst nv)) (\<lambda>v. require_same (fst nv) v (snd nv))"

definition pick :: "dict \<Rightarrow> string list \<Rightarrow> dict rc" where
  "pick claims names = map_res (\<lambda>n. bind_res (claim claims n) (\<lambda>v. Inr (n, v))) names"

definition legacy_scope_fields :: "string list" where
  "legacy_scope_fields = [''coverage_policy_version'', ''source'', ''dataset'', ''segment_id'', ''segment_start'', ''segment_end'', ''expected_scope'', ''expected_items'']"

definition scope_fields :: "string list" where
  "scope_fields = [''environment'', ''authority_instance_digest'', ''coverage_policy_version'', ''source'', ''contract_id'', ''dataset'',
     ''segment_id'', ''segment_start'', ''segment_end'', ''expected_scope'', ''expected_items'']"

definition observation_fields :: "bool \<Rightarrow> string list" where
  "observation_fields scoped =
     [''observed_items'', ''raw_page_count'', ''raw_count'', ''structured_count'', ''status'', ''error'', ''pagination_exhausted'', ''discovery_exhausted'']
     @ (if scoped then [''receipt_issue_digest'', ''artifact_key'', ''artifact_byte_count'', ''manifest_key'', ''manifest_byte_count'', ''raw_manifest_key'',
          ''raw_manifest_byte_count'', ''raw_byte_count'', ''natural_key_digest''] else [])
     @ [''source_request_digest'', ''raw_manifest_digest'', ''raw_digest'', ''structured_digest'', ''structured_generation'', ''scope_digest'', ''run_id'',
        ''checked_at'', ''extra_digests'']"

definition validate_digest_chain :: "('a crypto_env_scheme) \<Rightarrow> dict \<Rightarrow> bool \<Rightarrow> unit rc" where
  "validate_digest_chain env claims scoped =
     bind_res (pick claims legacy_scope_fields) (\<lambda>legacy.
     bind_res (if scoped then pick claims scope_fields else Inr legacy) (\<lambda>scope.
     bind_res (claim claims ''scope_digest'') (\<lambda>sd.
     bind_res (require_same ''scope_digest chain'' sd (JStr (canonical_evidence_digest env (JObj scope)))) (\<lambda>_.
     bind_res (pick claims (observation_fields scoped)) (\<lambda>obs.
     bind_res (claim claims ''observation_digest'') (\<lambda>od.
       require_same ''observation_digest chain'' od (JStr (canonical_evidence_digest env (JObj (scope @ obs))))))))))"

definition outer_bindings :: "collection_receipt \<Rightarrow> dict" where
  "outer_bindings r =
     [(''source'', cr_source r), (''dataset'', cr_dataset r), (''segment_id'', cr_segment_id r), (''segment_start'', cr_segment_start r),
      (''segment_end'', cr_segment_end r), (''expected_scope'', cr_expected_scope r), (''expected_items'', cr_expected_items r),
      (''observed_items'', cr_observed_items r), (''raw_page_count'', cr_raw_page_count r), (''raw_count'', cr_raw_row_count r),
      (''structured_count'', cr_structured_row_count r), (''pagination_exhausted'', cr_pagination_exhausted r), (''run_id'', cr_run_id r),
      (''status'', cr_status r), (''error'', cr_error r), (''checked_at'', cr_checked_at r)]"

definition envelope_bindings :: "dict \<Rightarrow> bool \<Rightarrow> dict" where
  "envelope_bindings digests scoped =
     map (\<lambda>(c, d). (c, dict_get digests d))
       ((if scoped then [(''environment'', ''environment''), (''authority_instance_digest'', ''authority_instance_digest'')] else [])
        @ [(''raw_digest'', ''raw''), (''structured_digest'', ''structured_digest''), (''parser_normalizer_version'', ''parser_normalizer_version''),
           (''source_request_digest'', ''source_request_digest''), (''raw_manifest_digest'', ''raw_manifest_digest''),
           (''structured_generation'', ''structured_generation''), (''scope_digest'', ''scope_digest''),
           (''observation_digest'', ''observation_digest''), (''issued_at'', ''issued_at'')])"

definition items_json :: "int option \<Rightarrow> json" where
  "items_json n = (case n of None \<Rightarrow> JNull | Some i \<Rightarrow> JInt i)"

definition required_bindings :: "required_segment \<Rightarrow> dict" where
  "required_bindings s =
     [(''source'', JStr (rs_source s)), (''dataset'', JStr (rs_dataset s)), (''segment_id'', JStr (rs_segment_id s)),
      (''segment_start'', JStr (rs_segment_start s)), (''segment_end'', JStr (rs_segment_end s)),
      (''expected_scope'', JObj (rs_expected_scope s)), (''expected_items'', items_json (rs_expected_items s))]"

definition validate_required_scope :: "dict \<Rightarrow> required_segment option \<Rightarrow> string option \<Rightarrow> unit rc" where
  "validate_required_scope claims required policy =
     bind_res (case required of
        None \<Rightarrow> Inr ()
      | Some s \<Rightarrow>
          bind_res (copy_exact_json (JObj (rs_expected_scope s)) ''required.expected_scope'') (\<lambda>_.
          bind_res (require (\<forall>x \<in> {rs_source s, rs_dataset s, rs_segment_id s, rs_segment_start s, rs_segment_end s}. x \<noteq> [])
            ''required identity fields must be exact non-empty strings'') (\<lambda>_.
          bind_res (require (case rs_expected_items s of None \<Rightarrow> True | Some n \<Rightarrow> 0 \<le> n)
            ''required expected_items must be an exact non-negative integer or null'') (\<lambda>_.
          bind_res (map_res (bind_claim claims) (required_bindings s)) (\<lambda>_. Inr ()))))) (\<lambda>_.
     case policy of
       None \<Rightarrow> Inr ()
     | Some v \<Rightarrow> bind_claim claims (''coverage_policy_version'', JStr v))"

definition compute_raw_digest :: "('a crypto_env_scheme) \<Rightarrow> string \<Rightarrow> string" where
  "compute_raw_digest env raw = ''sha256:'' @ ce_sha256_hex env raw"

definition check_schema :: "('a receipt_env_scheme) \<Rightarrow> dict \<Rightarrow> string \<Rightarrow> string \<Rightarrow> bool \<Rightarrow> unit rc" where
  "check_schema env claims e a scoped =
     (if scoped then bind_res (validate_v3_dataset_digest_inventory claims) (\<lambda>_. validate_schema env claims)
      else validate_schema env (normalize_legacy_claims_for_schema claims e a))"

definition check_extras :: "dict \<Rightarrow> dict \<Rightarrow> unit rc" where
  "check_extras digests extras =
     bind_res (require (py_eq (dict_get digests ''extra_digests'') (JObj extras)) ''extra_digests namespace does not bind'') (\<lambda>_.
       require (\<forall>(k, v) \<in> set extras. has_key digests k \<longrightarrow> same (dict_get digests k) v) ''extra_digests does not bind envelope'')"

definition check_evidence :: "('a crypto_env_scheme) \<Rightarrow> dict \<Rightarrow> string option \<Rightarrow> string option \<Rightarrow> unit rc" where
  "check_evidence env claims raw structured_digest =
     bind_res (case raw of None \<Rightarrow> Inr () | Some b \<Rightarrow> bind_claim claims (''raw_digest'', JStr (compute_raw_digest env b))) (\<lambda>_.
       case structured_digest of None \<Rightarrow> Inr () | Some d \<Rightarrow> bind_claim claims (''structured_digest'', JStr d))"

definition validate_bound_closure_fields ::
    "('a receipt_env_scheme) \<Rightarrow> frozen_input \<Rightarrow> string \<Rightarrow> string \<Rightarrow> bool \<Rightarrow> required_segment option \<Rightarrow> string option \<Rightarrow> string option \<Rightarrow> string option \<Rightarrow> unit rc" where
  "validate_bound_closure_fields env frozen e a scoped required policy raw structured_digest =
     (let claims = fi_claims frozen; digests = fi_digests frozen in
      bind_res (check_schema env claims e a scoped) (\<lambda>_.
      bind_res (validate_digest_chain env claims scoped) (\<lambda>_.
      bind_res (require (dict_get digests ''body_digest'' = JStr (body_digest env (fi_signed_body frozen))) ''signed body_digest mismatch'') (\<lambda>_.
      bind_res (claim claims ''extra_digests'') (\<lambda>extras.
      bind_res (require (\<forall>k \<in> set (map fst (object_of extras)). k \<notin> set standard_claim_keys) ''extra_digests overrides standard claims'') (\<lambda>_.
      bind_res (claim claims ''parser_normalizer_version'') (\<lambda>pv.
      bind_res (require (pv = JStr parser_normalizer_version) ''parser_normalizer_version mismatch'') (\<lambda>_.
      bind_res (if scoped then bind_res (bind_claim claims (''environment'', JStr e)) (\<lambda>_. bind_claim claims (''authority_instance_digest'', JStr a)) else Inr ()) (\<lambda>_.
      bind_res (map_res (bind_claim claims) (outer_bindings (fi_receipt frozen))) (\<lambda>_.
      bind_res (map_res (bind_claim claims) (envelope_bindings digests scoped)) (\<lambda>_.
      bind_res (bind_claim claims (''issuer_id'', dict_get digests ''issuer_id'')) (\<lambda>_.
      bind_res (bind_claim claims (''issuer_id'', dict_get digests ''issuer_key_id'')) (\<lambda>_.
      bind_res (check_extras digests (object_of extras)) (\<lambda>_.
      bind_res (validate_required_scope claims required policy) (\<lambda>_.
        check_evidence env claims raw structured_digest)))))))))))))))"

subsection \<open>Verification and audit\<close>

definition check_trusted_envelope :: "dict \<Rightarrow> string \<Rightarrow> unit rc" where
  "check_trusted_envelope digests verb =
     bind_res (require (\<not> json_truthy (dict_get digests ''synthetic'')) (''synthetic receipts are not '' @ verb)) (\<lambda>_.
     bind_res (require (dict_get digests ''eligibility'' = JStr ''TRUSTED_COLLECTION'') ''receipt is not a trusted collection'') (\<lambda>_.
       require (dict_get digests ''issuer_class'' = JStr ''SignedReceiptAuthority'') ''receipt issuer class is not trusted''))"

definition verify_collection_closure ::
    "('a receipt_env_scheme) \<Rightarrow> collection_receipt \<Rightarrow> string \<Rightarrow> string \<Rightarrow> required_segment option \<Rightarrow> string option \<Rightarrow> string option \<Rightarrow> string option \<Rightarrow> verified_closure rc" where
  "verify_collection_closure env r e a required policy raw structured_digest =
     bind_res (materialize_receipt_input r) (\<lambda>frozen.
     let digests = fi_digests frozen; claims = fi_claims frozen; version = dict_get claims ''version'' in
     bind_res (check_trusted_envelope digests ''verifiable'') (\<lambda>_.
     bind_res (py_in version [legacy_claims_version, audit_claims_version_v2]) (\<lambda>legacy.
     bind_res (require (\<not> legacy) ''claims version is audit-only and not COMPLETE-eligible'') (\<lambda>_.
     bind_res (require (version = JStr signed_claims_version) ''unsupported signed claims version'') (\<lambda>_.
     bind_res (verify_receipt_signature_values env (fi_signed_body frozen) (str_value (dict_get digests ''signature''))
                 (str_value (dict_get digests ''issuer_key_id'')) e a) (\<lambda>ok.
     bind_res (require ok ''Ed25519 signature is invalid'') (\<lambda>_.
     bind_res (validate_bound_closure_fields env frozen e a True required policy raw structured_digest) (\<lambda>_.
       Inr \<lparr>vc_claims = claims, vc_receipt_digest = str_value (dict_get digests ''body_digest'')\<rparr>))))))))"

definition require_verified_collection_closure :: "('a receipt_env_scheme) \<Rightarrow> collection_receipt \<Rightarrow> string \<Rightarrow> string \<Rightarrow> verified_closure rc" where
  "require_verified_collection_closure env r e a = verify_collection_closure env r e a None None None None"

definition require_scope :: "verified_closure \<Rightarrow> required_segment \<Rightarrow> string option \<Rightarrow> unit rc" where
  "require_scope c required policy = validate_required_scope (vc_claims c) (Some required) policy"

definition audit_versions :: "string list" where
  "audit_versions = [legacy_claims_version, audit_claims_version_v2, signed_claims_version]"

definition scope_option :: "bool \<Rightarrow> string \<Rightarrow> string option" where
  "scope_option scoped v = (if scoped then Some v else None)"

definition audit_collection_closure ::
    "('a receipt_env_scheme) \<Rightarrow> collection_receipt \<Rightarrow> string \<Rightarrow> string \<Rightarrow> required_segment option \<Rightarrow> string option \<Rightarrow> string option \<Rightarrow> string option \<Rightarrow> dict rc" where
  "audit_collection_closure env r e a required policy raw structured_digest =
     bind_res (materialize_receipt_input r) (\<lambda>frozen.
     let digests = fi_digests frozen; claims = fi_claims frozen; version = dict_get claims ''version''; scoped = (version = JStr signed_claims_version) in
     bind_res (check_trusted_envelope digests ''auditable'') (\<lambda>_.
     bind_res (py_in version audit_versions) (\<lambda>known.
     bind_res (require known ''unsupported signed claims version'') (\<lambda>_.
     bind_res (verify_receipt_signature_values_for_audit env (fi_signed_body frozen) (str_value (dict_get digests ''signature''))
                 (str_value (dict_get digests ''issuer_key_id'')) (scope_option scoped e) (scope_option scoped a)) (\<lambda>ok.
     bind_res (require ok ''Ed25519 audit signature is invalid'') (\<lambda>_.
     bind_res (validate_bound_closure_fields env frozen e a scoped required policy raw structured_digest) (\<lambda>_. Inr claims)))))))"

text \<open>A scope taken from the claims: an absent value is \<open>None\<close>; a value that is no string names no pinned scope, like the
  empty string.\<close>

definition scope_argument :: "json \<Rightarrow> string option" where
  "scope_argument v = (case v of JNull \<Rightarrow> None | JStr s \<Rightarrow> Some s | _ \<Rightarrow> Some [])"

definition audit_signed_receipt_claims :: "('a crypto_env_scheme) \<Rightarrow> collection_receipt \<Rightarrow> dict rc" where
  "audit_signed_receipt_claims env r =
     bind_res (materialize_receipt_input r) (\<lambda>frozen.
     let digests = fi_digests frozen; claims = fi_claims frozen; version = dict_get claims ''version''; scoped = (version = JStr signed_claims_version) in
     bind_res (py_in version audit_versions) (\<lambda>known.
     bind_res (require known ''unsupported signed claims version'') (\<lambda>_.
     bind_res (verify_receipt_signature_values_for_audit env (fi_signed_body frozen) (str_value (dict_get digests ''signature''))
                 (str_value (dict_get digests ''issuer_key_id''))
                 (if scoped then scope_argument (dict_get claims ''environment'') else None)
                 (if scoped then scope_argument (dict_get claims ''authority_instance_digest'') else None)) (\<lambda>ok.
     bind_res (require ok ''Ed25519 signature is invalid'') (\<lambda>_.
     bind_res (require (dict_get digests ''body_digest'' = JStr (body_digest env (fi_signed_body frozen))) ''signed body_digest mismatch'') (\<lambda>_.
     bind_res (require (dict_get claims ''issuer_id'' = dict_get digests ''issuer_key_id'') ''signed audit issuer_id mismatch'') (\<lambda>_.
     bind_res (require (dict_get digests ''issuer_id'' = dict_get digests ''issuer_key_id'') ''audit envelope issuer_id mismatch'') (\<lambda>_. Inr claims))))))))"

definition receipt_claim_names :: "string list" where
  "receipt_claim_names = [''source'', ''dataset'', ''segment_id'', ''segment_start'', ''segment_end'', ''expected_scope'', ''expected_items'',
     ''observed_items'', ''raw_page_count'', ''raw_count'', ''structured_count'', ''pagination_exhausted'', ''run_id'', ''status'', ''error'', ''checked_at'']"

definition receipt_of_claims :: "dict \<Rightarrow> json \<Rightarrow> collection_receipt" where
  "receipt_of_claims claims dg =
     (let g = dict_get claims in
       \<lparr>cr_source = g ''source'', cr_dataset = g ''dataset'', cr_segment_id = g ''segment_id'', cr_segment_start = g ''segment_start'',
            cr_segment_end = g ''segment_end'', cr_expected_scope = g ''expected_scope'', cr_expected_items = g ''expected_items'',
            cr_observed_items = g ''observed_items'', cr_raw_page_count = g ''raw_page_count'', cr_raw_row_count = g ''raw_count'',
            cr_structured_row_count = g ''structured_count'', cr_pagination_exhausted = g ''pagination_exhausted'', cr_digests = dg,
            cr_run_id = g ''run_id'', cr_status = g ''status'', cr_error = g ''error'', cr_checked_at = g ''checked_at''\<rparr>)"

definition collection_receipt_from_signed_envelope :: "json \<Rightarrow> collection_receipt rc" where
  "collection_receipt_from_signed_envelope envelope =
     bind_res (require (is_object envelope) ''signed receipt envelope must be an exact object'') (\<lambda>_.
     bind_res (copy_exact_json envelope ''signed receipt envelope'') (\<lambda>dg.
     bind_res (require (nonempty_json_str (dict_get (object_of dg) ''signed_body_b64'')) ''missing signed_body_b64'') (\<lambda>_.
     bind_res (decode_strict_signed_claims (str_value (dict_get (object_of dg) ''signed_body_b64''))) (\<lambda>(claims, body).
     bind_res (require (\<forall>n \<in> set receipt_claim_names. has_key claims n) ''signed claims are missing a required collection field'') (\<lambda>_.
       Inr (receipt_of_claims claims dg))))))"

subsection \<open>What the checks establish\<close>

lemma bind_res_assoc: "bind_res (bind_res m k) h = bind_res m (\<lambda>x. bind_res (k x) h)"
  by (cases m) auto

lemma bind_res_Inr_right: "bind_res m Inr = m"
  by (cases m) auto

lemma require_iff [simp]: "require b m = Inr u \<longleftrightarrow> b"
  by (simp add: require_def)

lemma require_True [simp]: "require True m = Inr ()"
  by (simp add: require_def)

lemma claim_iff: "claim d k = Inr v \<longleftrightarrow> map_of d k = Some v"
  by (auto simp: claim_def split: option.splits)

lemma map_of_dict_get: "map_of d k = Some v \<Longrightarrow> has_key d k \<and> dict_get d k = v"
  by (auto simp: dict_get_def has_key_def dest: map_of_SomeD intro: rev_image_eqI)

lemma has_key_map_of: "has_key d k \<longleftrightarrow> map_of d k = Some (dict_get d k)"
proof (cases "map_of d k")
  case None
  then have "k \<notin> fst ` set d" by (simp add: map_of_eq_None_iff)
  then show ?thesis using None by (simp only: has_key_def set_map) simp
next
  case (Some v)
  then show ?thesis using map_of_dict_get [OF Some] by simp
qed

lemma bind_claim_iff: "bind_claim claims (n, v) = Inr u \<longleftrightarrow> has_key claims n \<and> same (dict_get claims n) v"
  by (auto simp: bind_claim_def bind_res_Inr_iff claim_iff require_same_def has_key_map_of dict_get_def)

lemma map_res_unit_iff: "(\<exists>us. map_res f xs = Inr us) \<longleftrightarrow> (\<forall>x \<in> set xs. \<exists>u. f x = Inr u)"
  by (induction xs) (auto split: sum.splits)

definition scalar :: "json \<Rightarrow> bool" where
  "scalar v \<longleftrightarrow> (case v of JObj _ \<Rightarrow> False | JArr _ \<Rightarrow> False | _ \<Rightarrow> True)"

lemma same_scalar: "scalar v \<Longrightarrow> same u v \<longleftrightarrow> u = v"
  by (cases u; cases v) (auto simp: same_def scalar_def)

lemma scalar_simps [simp]: "scalar JNull" "scalar (JStr s)" "scalar (JInt i)" "scalar (JBool b)"
  by (simp_all add: scalar_def)

lemma scalar_kinds: "nonempty_json_str v \<Longrightarrow> scalar v" "nonneg_json_int v \<Longrightarrow> scalar v" "is_bool_json v \<Longrightarrow> scalar v" "is_json_str v \<Longrightarrow> scalar v"
  by (cases v; simp add: nonempty_json_str_def nonneg_json_int_def is_bool_json_def is_json_str_def)+

text \<open>What a materialized receipt satisfies.\<close>

definition exact_receipt :: "collection_receipt \<Rightarrow> bool" where
  "exact_receipt r \<longleftrightarrow>
     (\<forall>v \<in> set (receipt_strings r). nonempty_json_str v) \<and> (\<forall>v \<in> set (receipt_ints r). nonneg_json_int v)
     \<and> (cr_expected_items r = JNull \<or> nonneg_json_int (cr_expected_items r)) \<and> is_bool_json (cr_pagination_exhausted r)
     \<and> (cr_error r = JNull \<or> is_json_str (cr_error r)) \<and> exact_json (cr_expected_scope r) \<and> is_object (cr_expected_scope r)"

lemma materialize_facts:
  assumes "materialize_receipt_input r = Inr f"
  shows "exact_receipt r" "fi_receipt f = r" "cr_digests r = JObj (fi_digests f)" "exact_json (JObj (fi_digests f))"
    "\<exists>b. dict_get (fi_digests f) ''signed_body_b64'' = JStr b \<and> b \<noteq> [] \<and> decode_strict_signed_claims b = Inr (fi_claims f, fi_signed_body f)"
    "check_envelope (fi_digests f) (fi_claims f) = Inr ()"
  using assms
  by (auto simp: materialize_receipt_input_def bind_res_Inr_iff exact_receipt_def copy_exact_json_def Let_def object_of_def is_object_def
      nonempty_json_str_def str_value_def split: if_splits json.splits)

lemma decode_claims_body:
  assumes "decode_strict_signed_claims b = Inr (claims, body)"
  shows "b = b64encode body" "exact_json (JObj claims)"
  using assms
  by (auto simp: decode_strict_signed_claims_def decode_canonical_signed_body_def decode_canonical_base64_iff copy_exact_json_def
      bind_res_Inr_iff split: option.splits sum.splits json.splits json_error.splits if_splits)

lemma validate_bound_facts:
  assumes "validate_bound_closure_fields env f e a scoped required policy raw sd = Inr ()"
  shows "validate_digest_chain env (fi_claims f) scoped = Inr ()" "check_schema env (fi_claims f) e a scoped = Inr ()"
    "dict_get (fi_digests f) ''body_digest'' = JStr (body_digest env (fi_signed_body f))"
    "scoped \<Longrightarrow> dict_get (fi_claims f) ''environment'' = JStr e \<and> dict_get (fi_claims f) ''authority_instance_digest'' = JStr a"
    "\<forall>(n, v) \<in> set (outer_bindings (fi_receipt f)). has_key (fi_claims f) n \<and> same (dict_get (fi_claims f) n) v"
    "\<forall>(n, v) \<in> set (envelope_bindings (fi_digests f) scoped). has_key (fi_claims f) n \<and> same (dict_get (fi_claims f) n) v"
    "validate_required_scope (fi_claims f) required policy = Inr ()"
    "check_evidence env (fi_claims f) raw sd = Inr ()"
proof -
  note d = assms [unfolded validate_bound_closure_fields_def Let_def bind_res_Inr_iff]
  show "validate_digest_chain env (fi_claims f) scoped = Inr ()" "check_schema env (fi_claims f) e a scoped = Inr ()"
    "dict_get (fi_digests f) ''body_digest'' = JStr (body_digest env (fi_signed_body f))"
    "validate_required_scope (fi_claims f) required policy = Inr ()" "check_evidence env (fi_claims f) raw sd = Inr ()"
    using d by auto
  show "scoped \<Longrightarrow> dict_get (fi_claims f) ''environment'' = JStr e \<and> dict_get (fi_claims f) ''authority_instance_digest'' = JStr a"
    using d by (auto simp: bind_res_Inr_iff bind_claim_iff same_scalar)
  have all: "\<forall>(n, v) \<in> set ps. has_key (fi_claims f) n \<and> same (dict_get (fi_claims f) n) v" if "\<exists>us. map_res (bind_claim (fi_claims f)) ps = Inr us" for ps
    using that unfolding map_res_unit_iff by (auto simp: bind_claim_iff)
  show "\<forall>(n, v) \<in> set (outer_bindings (fi_receipt f)). has_key (fi_claims f) n \<and> same (dict_get (fi_claims f) n) v"
    by (rule all) (use d in blast)
  show "\<forall>(n, v) \<in> set (envelope_bindings (fi_digests f) scoped). has_key (fi_claims f) n \<and> same (dict_get (fi_claims f) n) v"
    by (rule all) (use d in blast)
qed

lemma verify_facts:
  assumes "verify_collection_closure env r e a required policy raw sd = Inr c"
  obtains f where "materialize_receipt_input r = Inr f" "vc_claims c = fi_claims f" "vc_receipt_digest c = str_value (dict_get (fi_digests f) ''body_digest'')"
    "dict_get (fi_claims f) ''version'' = JStr signed_claims_version"
    "verify_receipt_signature_values env (fi_signed_body f) (str_value (dict_get (fi_digests f) ''signature''))
       (str_value (dict_get (fi_digests f) ''issuer_key_id'')) e a = Inr True"
    "check_trusted_envelope (fi_digests f) ''verifiable'' = Inr ()"
    "validate_bound_closure_fields env f e a True required policy raw sd = Inr ()"
  using assms by (auto simp: verify_collection_closure_def bind_res_Inr_iff Let_def)

lemma outer_scalar:
  assumes "exact_receipt r" "(n, v) \<in> set (outer_bindings r)" "n \<noteq> ''expected_scope''"
  shows "scalar v"
proof -
  have "scalar (cr_expected_items r)" "scalar (cr_error r)"
    using assms(1) scalar_kinds(2) [of "cr_expected_items r"] scalar_kinds(4) [of "cr_error r"] by (auto simp: exact_receipt_def)
  then have "list_all (\<lambda>(n, v). n = ''expected_scope'' \<or> scalar v) (outer_bindings r)"
    using assms(1) by (simp add: outer_bindings_def exact_receipt_def receipt_strings_def receipt_ints_def scalar_kinds)
  then show ?thesis using assms(2,3) unfolding list_all_iff by blast
qed

lemma bound_claims:
  assumes "exact_receipt r" "\<forall>(n, v) \<in> set (outer_bindings r). has_key claims n \<and> same (dict_get claims n) v"
  shows "(n, v) \<in> set (outer_bindings r) \<Longrightarrow> n \<noteq> ''expected_scope'' \<Longrightarrow> dict_get claims n = v"
    "\<exists>d s. dict_get claims ''expected_scope'' = JObj d \<and> cr_expected_scope r = JObj s \<and> py_eq (JObj d) (JObj s)"
    "\<forall>n \<in> set receipt_claim_names. has_key claims n"
proof -
  show "dict_get claims n = v" if "(n, v) \<in> set (outer_bindings r)" "n \<noteq> ''expected_scope''"
    using that assms outer_scalar same_scalar by blast
  have "same (dict_get claims ''expected_scope'') (cr_expected_scope r)" "is_object (cr_expected_scope r)"
    using assms by (auto simp: outer_bindings_def exact_receipt_def)
  then show "\<exists>d s. dict_get claims ''expected_scope'' = JObj d \<and> cr_expected_scope r = JObj s \<and> py_eq (JObj d) (JObj s)"
    by (cases "dict_get claims ''expected_scope''"; cases "cr_expected_scope r") (auto simp: same_def is_object_def)
  have "\<forall>n \<in> fst ` set (outer_bindings r). has_key claims n" using assms(2) by auto
  then show "\<forall>n \<in> set receipt_claim_names. has_key claims n" by (simp add: outer_bindings_def receipt_claim_names_def)
qed

lemma verify_envelope_rebuilds:
  assumes "verify_collection_closure env r e a required policy raw sd = Inr c"
  shows "collection_receipt_from_signed_envelope (cr_digests r) = Inr (r\<lparr>cr_expected_scope := dict_get (vc_claims c) ''expected_scope''\<rparr>)"
proof -
  obtain f where f: "materialize_receipt_input r = Inr f" "vc_claims c = fi_claims f" and v: "validate_bound_closure_fields env f e a True required policy raw sd = Inr ()"
    using assms by (rule verify_facts)
  note m = materialize_facts [OF f(1)]
  obtain b where b: "dict_get (fi_digests f) ''signed_body_b64'' = JStr b" "decode_strict_signed_claims b = Inr (fi_claims f, fi_signed_body f)"
      and ne: "b \<noteq> []" using m(5) by blast
  have bound: "\<forall>(n, v) \<in> set (outer_bindings r). has_key (fi_claims f) n \<and> same (dict_get (fi_claims f) n) v"
    using validate_bound_facts(5) [OF v] m(2) by simp
  have eq: "dict_get (fi_claims f) n = v" if "(n, v) \<in> set (outer_bindings r)" "n \<noteq> ''expected_scope''" for n v
    using bound_claims(1) [OF m(1) bound] that by blast
  have "\<forall>(n, v) \<in> set (filter (\<lambda>(n, v). n \<noteq> ''expected_scope'') (outer_bindings r)). dict_get (fi_claims f) n = v"
    using eq by auto
  then show ?thesis
    using m(3,4) b ne bound_claims(3) [OF m(1) bound]
    by (simp add: collection_receipt_from_signed_envelope_def is_object_def copy_exact_json_def object_of_def nonempty_json_str_def str_value_def
        outer_bindings_def receipt_of_claims_def Let_def f(2) collection_receipt.equality)
qed

text \<open>One-shot verification against a required segment is verification followed by the scope check of the closure.\<close>

lemma check_evidence_None [simp]: "check_evidence env claims None None = Inr ()"
  by (simp add: check_evidence_def)

lemma validate_required_scope_None [simp]: "validate_required_scope claims None None = Inr ()"
  by (simp add: validate_required_scope_def)

lemma validate_bound_split:
  "validate_bound_closure_fields env f e a scoped required policy None None
     = bind_res (validate_bound_closure_fields env f e a scoped None None None None) (\<lambda>_. validate_required_scope (fi_claims f) required policy)"
  by (simp add: validate_bound_closure_fields_def Let_def bind_res_assoc bind_res_Inr_right)

lemma verify_unit_bind: "verify_collection_closure env r e a required policy None None =
   bind_res (require_verified_collection_closure env r e a) (\<lambda>c. bind_res (validate_required_scope (vc_claims c) required policy) (\<lambda>_. Inr c))"
  by (simp add: require_verified_collection_closure_def verify_collection_closure_def Let_def bind_res_assoc
      validate_bound_split [of env _ e a True required policy])

lemma from_envelope_claims:
  assumes "collection_receipt_from_signed_envelope (JObj dg) = Inr q"
  shows "\<exists>claims body. decode_strict_signed_claims (str_value (dict_get dg ''signed_body_b64'')) = Inr (claims, body) \<and> q = receipt_of_claims claims (JObj dg)"
  using assms by (auto simp: collection_receipt_from_signed_envelope_def bind_res_Inr_iff copy_exact_json_def object_of_def split: if_splits)

lemma required_bound:
  "map_res (bind_claim claims) (required_bindings s) = Inr us \<Longrightarrow> (n, v) \<in> set (required_bindings s) \<Longrightarrow> same (dict_get claims n) v"
  using map_res_unit_iff [of "bind_claim claims" "required_bindings s"] by (force simp: bind_claim_iff)

lemma verified_claims_decoded:
  assumes "verify_collection_closure env r e a required policy raw sd = Inr c" "cr_digests r = JObj dg"
  shows "\<exists>b body. dict_get dg ''signed_body_b64'' = JStr b \<and> decode_strict_signed_claims b = Inr (vc_claims c, body)"
proof -
  obtain f where f: "materialize_receipt_input r = Inr f" "vc_claims c = fi_claims f" using assms(1) by (rule verify_facts)
  then show ?thesis using materialize_facts(3,5) [OF f(1)] assms(2) by auto
qed

lemma verified_scope_equal:
  assumes "verify_collection_closure env r e a required policy raw sd = Inr c"
  shows "py_eq (dict_get (vc_claims c) ''expected_scope'') (cr_expected_scope r)"
proof -
  obtain f where f: "materialize_receipt_input r = Inr f" "vc_claims c = fi_claims f" "validate_bound_closure_fields env f e a True required policy raw sd = Inr ()"
    using assms by (rule verify_facts)
  obtain d s where "dict_get (fi_claims f) ''expected_scope'' = JObj d" "cr_expected_scope r = JObj s" "py_eq (JObj d) (JObj s)"
    using bound_claims(2) [OF materialize_facts(1) [OF f(1)] validate_bound_facts(5) [OF f(3), unfolded materialize_facts(2) [OF f(1)]]] by blast
  then show ?thesis using f(2) by (simp del: py_eq.simps)
qed

text \<open>The entries of the envelope that the signed body fixes.\<close>

definition signed_entries :: "(string \<times> string) list" where
  "signed_entries = [(''environment'', ''environment''), (''authority_instance_digest'', ''authority_instance_digest''), (''raw_digest'', ''raw''),
     (''structured_digest'', ''structured_digest''), (''parser_normalizer_version'', ''parser_normalizer_version''), (''source_request_digest'', ''source_request_digest''),
     (''raw_manifest_digest'', ''raw_manifest_digest''), (''structured_generation'', ''structured_generation''), (''scope_digest'', ''scope_digest''),
     (''observation_digest'', ''observation_digest''), (''issued_at'', ''issued_at''), (''issuer_id'', ''issuer_id''), (''issuer_id'', ''issuer_key_id'')]"

lemma signed_entries_fields:
  "(n, k) \<in> set signed_entries \<Longrightarrow> k = ''structured_generation''
     \<or> k \<in> set (filter (\<lambda>f. f \<notin> {''structured_generation'', ''extra_digests''}) v3_signed_envelope_fields)"
proof -
  have "\<forall>(n, k) \<in> set signed_entries. k = ''structured_generation''
     \<or> k \<in> set (filter (\<lambda>f. f \<notin> {''structured_generation'', ''extra_digests''}) v3_signed_envelope_fields)" by code_simp
  then show "(n, k) \<in> set signed_entries \<Longrightarrow> ?thesis" by blast
qed

lemma verified_envelope:
  assumes "verify_collection_closure env r e a required policy raw sd = Inr c" "cr_digests r = JObj dg"
  shows "\<forall>(n, k) \<in> set signed_entries. dict_get dg k = dict_get (vc_claims c) n"
    and "dict_get dg ''eligibility'' = JStr ''TRUSTED_COLLECTION''" "dict_get dg ''issuer_class'' = JStr ''SignedReceiptAuthority''"
proof -
  obtain f where f: "materialize_receipt_input r = Inr f" "vc_claims c = fi_claims f" "dict_get (fi_claims f) ''version'' = JStr signed_claims_version"
      "check_trusted_envelope (fi_digests f) ''verifiable'' = Inr ()" "validate_bound_closure_fields env f e a True required policy raw sd = Inr ()"
    using assms(1) by (rule verify_facts)
  note m = materialize_facts [OF f(1)] and b = validate_bound_facts [OF f(5)]
  have dg: "fi_digests f = dg" using m(3) assms(2) by simp
  show "dict_get dg ''eligibility'' = JStr ''TRUSTED_COLLECTION''" "dict_get dg ''issuer_class'' = JStr ''SignedReceiptAuthority''"
    using f(4) by (simp_all add: dg check_trusted_envelope_def bind_res_Inr_iff)
  have kinds: "nonempty_json_str (dict_get dg k) \<or> nonneg_json_int (dict_get dg k)" if "(n, k) \<in> set signed_entries" for n k
  proof -
    have all: "\<forall>f \<in> set (filter (\<lambda>f. f \<notin> {''structured_generation'', ''extra_digests''}) v3_signed_envelope_fields). nonempty_json_str (dict_get dg f)"
        "nonneg_json_int (dict_get dg ''structured_generation'')"
      using m(6) f(3) by (simp_all add: dg check_envelope_def bind_res_Inr_iff envelope_contract_def)
    have "k = ''structured_generation'' \<or> k \<in> set (filter (\<lambda>f. f \<notin> {''structured_generation'', ''extra_digests''}) v3_signed_envelope_fields)"
      using signed_entries_fields that by blast
    then show ?thesis using all by blast
  qed
  have "same (dict_get (fi_claims f) ''issuer_id'') (dict_get dg ''issuer_id'')" "same (dict_get (fi_claims f) ''issuer_id'') (dict_get dg ''issuer_key_id'')"
    using f(5) by (auto simp: dg validate_bound_closure_fields_def Let_def bind_res_Inr_iff bind_claim_iff)
  then have bound: "\<forall>(n, k) \<in> set signed_entries. same (dict_get (fi_claims f) n) (dict_get dg k)"
    using b(6) by (simp add: dg signed_entries_def envelope_bindings_def)
  have "dict_get dg k = dict_get (vc_claims c) n" if entry: "(n, k) \<in> set signed_entries" for n k
  proof -
    have "scalar (dict_get dg k)" using kinds [OF entry] scalar_kinds by blast
    moreover have "same (dict_get (fi_claims f) n) (dict_get dg k)" using bound entry by blast
    ultimately show ?thesis using f(2) by (simp add: same_scalar)
  qed
  then show "\<forall>(n, k) \<in> set signed_entries. dict_get dg k = dict_get (vc_claims c) n" by blast
qed

subsection \<open>A concrete receipt\<close>

definition sample_segment :: required_segment where
  "sample_segment = \<lparr>rs_source = ''jquants'', rs_dataset = ''fins_summary'', rs_segment_id = ''2024-01'', rs_segment_start = ''2024-01-01'',
     rs_segment_end = ''2024-01-31'', rs_expected_scope = [(''coverage_mode'', JStr ''calendar''), (''expected_frequency'', JStr ''daily''), (''expected_item_unit'', JStr ''source_query''),
       (''segment_end'', JStr ''2024-01-31''), (''segment_start'', JStr ''2024-01-01''), (''universe_rule'', JStr ''all''),
       (''segment_granularity'', JStr ''calendar_month'')], rs_expected_items = Some 1\<rparr>"

definition sample_scope_object :: dict where
  "sample_scope_object = sort_key fst (rs_expected_scope sample_segment)"

definition sample_extras :: dict where
  "sample_extras = map (\<lambda>n. (n, JStr zero_digest))
     [''acquisition_collection_digest'', ''acquisition_collection_manifest_file_digest'', ''acquisition_terminal_chain_digest'', ''product_artifact_digest'', ''product_manifest_digest'']"

definition sample_claims :: dict where
  "sample_claims =
    [(''artifact_byte_count'', JInt 1), (''artifact_key'', JStr ''k''),
     (''authority_instance_digest'', JStr (pinned_instance_digest ''production'')), (''checked_at'', JStr ''2024-02-01T00:00:00Z''),
     (''contract_id'', JStr ''c''), (''coverage_policy_version'', JStr ''collection-coverage/v3''), (''dataset'', JStr ''fins_summary''),
     (''discovery_exhausted'', JBool True), (''environment'', JStr ''production''), (''error'', JNull), (''expected_items'', JInt 1),
     (''expected_scope'', JObj sample_scope_object), (''extra_digests'', JObj sample_extras),
     (''issued_at'', JStr ''2024-02-01T00:00:00Z''), (''issuer_id'', JStr ''key-1''), (''manifest_byte_count'', JInt 1),
     (''manifest_key'', JStr ''k''), (''natural_key_digest'', JStr zero_digest), (''observation_digest'', JStr zero_digest),
     (''observed_items'', JInt 1), (''pagination_exhausted'', JBool True), (''parser_normalizer_version'', JStr parser_normalizer_version),
     (''raw_byte_count'', JInt 1), (''raw_count'', JInt 2), (''raw_digest'', JStr zero_digest), (''raw_manifest_byte_count'', JInt 1),
     (''raw_manifest_digest'', JStr zero_digest), (''raw_manifest_key'', JStr ''k''), (''raw_page_count'', JInt 1),
     (''receipt_issue_digest'', JStr zero_digest), (''run_id'', JInt 7), (''scope_digest'', JStr zero_digest),
     (''segment_end'', JStr ''2024-01-31''), (''segment_id'', JStr ''2024-01''), (''segment_start'', JStr ''2024-01-01''),
     (''source'', JStr ''jquants''), (''source_request_digest'', JStr zero_digest), (''status'', JStr ''SUCCESS''),
     (''structured_count'', JInt 2), (''structured_digest'', JStr zero_digest), (''structured_generation'', JInt 1),
     (''version'', JStr signed_claims_version)]"

definition sample_body :: string where "sample_body = canonical_receipt_body sample_claims"

definition sample_envelope :: "string \<Rightarrow> string \<Rightarrow> dict" where
  "sample_envelope b64 sig = sort_key fst
     ([(''eligibility'', JStr ''TRUSTED_COLLECTION''), (''issuer_class'', JStr ''SignedReceiptAuthority''), (''issuer_key_id'', JStr ''key-1''),
      (''issuer_id'', JStr ''key-1''), (''parser_normalizer_version'', JStr parser_normalizer_version), (''signed_body_b64'', JStr b64),
      (''signature'', JStr sig), (''body_digest'', JStr zero_digest), (''issued_at'', JStr ''2024-02-01T00:00:00Z''),
      (''checked_at'', JStr ''2024-02-01T00:00:00Z''), (''source_request_digest'', JStr zero_digest), (''raw_manifest_digest'', JStr zero_digest),
      (''raw'', JStr zero_digest), (''structured_generation'', JInt 1), (''structured_digest'', JStr zero_digest),
      (''scope_digest'', JStr zero_digest), (''observation_digest'', JStr zero_digest), (''extra_digests'', JObj sample_extras),
      (''environment'', JStr ''production''), (''authority_instance_digest'', JStr (pinned_instance_digest ''production''))] @ sample_extras)"

definition sample_receipt :: collection_receipt where
  "sample_receipt = receipt_of_claims sample_claims (JObj (sample_envelope (b64encode sample_body) sample_signature))"

definition sample_receipt_env :: receipt_env where
  "sample_receipt_env = sample_env \<lparr>rv_schema_ok = (\<lambda>d. has_key d ''version'')\<rparr>"

lemma b64encode_Nil_iff [simp]: "b64encode s = [] \<longleftrightarrow> s = []"
  by (metis b64encode_inject b64_groups.simps(1) b64encode_def list.simps(8))

lemma decode_canonical_claims:
  assumes "canonical_dict d"
  shows "decode_strict_signed_claims (b64encode (canonical_receipt_body d)) = Inr (d, canonical_receipt_body d)"
proof -
  have "ascii_only (canonical_receipt_body d)" unfolding canonical_receipt_body_def
    by (rule ascii_json_dumps) (use assms in \<open>simp add: canonical_dict_def\<close>)
  then show ?thesis
    using canonical_dict_reads(3) [OF assms] assms
    by (simp add: decode_strict_signed_claims_def decode_canonical_signed_body_def decode_canonical_base64_def utf8_decode_ascii
        copy_exact_json_def canonical_dict_def)
qed

lemma sample_evidence_digest:
  assumes "exact_json (JObj d)" "digest_by_fields False (object_of (canon (JObj d))) = zero_digest"
  shows "canonical_evidence_digest (sample_env m) (JObj d) = zero_digest"
proof -
  have "body_digest (sample_env m) (canonical_receipt_body d) = digest_by_fields False (object_of (canon (JObj d)))"
    using json_loads_dumps [OF assms(1)] digest_fields_prefix [of False "object_of (canon (JObj d))"]
    by (simp add: body_digest_def sample_env_def sample_sha_def canonical_receipt_body_def object_of_def)
  then show ?thesis using assms(2) by (simp add: canonical_evidence_digest_def canonical_receipt_body_def)
qed

lemma sample_claims_canonical: "canonical_dict sample_claims" by code_simp

lemma sample_claims_facts:
  "digest_by_fields False sample_claims = zero_digest"
  "dict_get sample_claims ''version'' = JStr signed_claims_version" "exact_receipt (receipt_of_claims sample_claims JNull)"
  "validate_v3_dataset_digest_inventory sample_claims = Inr ()" "has_key sample_claims ''version''"
  by code_simp+

lemma pick_all: "\<forall>n \<in> set names. has_key d n \<Longrightarrow> pick d names = Inr (map (\<lambda>n. (n, dict_get d n)) names)"
  by (induction names) (auto simp: pick_def claim_def has_key_map_of)

definition sample_scope :: "dict" where
  "sample_scope = map (\<lambda>n. (n, dict_get sample_claims n)) scope_fields"

definition sample_observation :: "dict" where
  "sample_observation = map (\<lambda>n. (n, dict_get sample_claims n)) (observation_fields True)"

lemma sample_chain_facts:
  "\<forall>n \<in> set (legacy_scope_fields @ scope_fields @ observation_fields True). has_key sample_claims n"
  "exact_json (JObj sample_scope)" "digest_by_fields False (object_of (canon (JObj sample_scope))) = zero_digest"
  "exact_json (JObj (sample_scope @ sample_observation))"
  "digest_by_fields False (object_of (canon (JObj (sample_scope @ sample_observation)))) = zero_digest"
  "claim sample_claims ''scope_digest'' = Inr (JStr zero_digest)" "claim sample_claims ''observation_digest'' = Inr (JStr zero_digest)"
  by code_simp+

lemma sample_digest_chain: "validate_digest_chain (sample_env m) sample_claims True = Inr ()"
proof -
  have "pick sample_claims legacy_scope_fields = Inr (map (\<lambda>n. (n, dict_get sample_claims n)) legacy_scope_fields)"
    "pick sample_claims scope_fields = Inr sample_scope" "pick sample_claims (observation_fields True) = Inr sample_observation"
    using sample_chain_facts(1) by (auto simp: sample_scope_def sample_observation_def intro!: pick_all)
  then show ?thesis
    using sample_chain_facts sample_evidence_digest [where m = m, OF sample_chain_facts(2,3)] sample_evidence_digest [where m = m, OF sample_chain_facts(4,5)]
    by (simp add: validate_digest_chain_def require_same_def same_scalar)
qed

lemma sample_envelope_facts:
  "exact_json (JObj (sample_envelope b s))" "check_envelope (sample_envelope (x # b) (y # s)) sample_claims = Inr ()"
  "check_trusted_envelope (sample_envelope b s) ''verifiable'' = Inr ()"
  "map_res (bind_claim sample_claims) (envelope_bindings (sample_envelope b s) True) = Inr (replicate 11 ())"
  "bind_claim sample_claims (''issuer_id'', dict_get (sample_envelope b s) ''issuer_id'') = Inr ()"
  "bind_claim sample_claims (''issuer_id'', dict_get (sample_envelope b s) ''issuer_key_id'') = Inr ()"
  "check_extras (sample_envelope b s) sample_extras = Inr ()"
  "dict_get (sample_envelope b s) ''signed_body_b64'' = JStr b" "dict_get (sample_envelope b s) ''body_digest'' = JStr zero_digest"
  "dict_get (sample_envelope b s) ''signature'' = JStr s" "dict_get (sample_envelope b s) ''issuer_key_id'' = JStr ''key-1''"
  by code_simp+

lemma sample_binding_facts:
  "map_res (bind_claim sample_claims) (outer_bindings (receipt_of_claims sample_claims dg)) = Inr (replicate 16 ())"
  "claim sample_claims ''extra_digests'' = Inr (JObj sample_extras)" "claim sample_claims ''parser_normalizer_version'' = Inr (JStr parser_normalizer_version)"
  "\<forall>k \<in> set (map fst sample_extras). k \<notin> set standard_claim_keys"
  "bind_claim sample_claims (''environment'', JStr ''production'') = Inr ()"
  "bind_claim sample_claims (''authority_instance_digest'', JStr (pinned_instance_digest ''production'')) = Inr ()"
  "validate_required_scope sample_claims (Some sample_segment) (Some ''collection-coverage/v3'') = Inr ()"
  by code_simp+

definition sample_closure :: verified_closure where
  "sample_closure = \<lparr>vc_claims = sample_claims, vc_receipt_digest = zero_digest\<rparr>"

lemma sample_materializes:
  "materialize_receipt_input sample_receipt =
     Inr \<lparr>fi_receipt = sample_receipt, fi_digests = sample_envelope (b64encode sample_body) sample_signature, fi_claims = sample_claims, fi_signed_body = sample_body\<rparr>"
proof -
  let ?e = "sample_envelope (b64encode sample_body) sample_signature"
  have nonempty: "b64encode sample_body \<noteq> []" by (simp add: sample_body_def canonical_receipt_body_def)
  obtain x b y s where env: "?e = sample_envelope (x # b) (y # s)"
    using nonempty by (cases "b64encode sample_body") (auto simp: sample_signature_def)
  have exact: "exact_receipt sample_receipt"
    using sample_claims_facts(3) by (simp add: sample_receipt_def exact_receipt_def receipt_strings_def receipt_ints_def receipt_of_claims_def Let_def)
  have digests: "cr_digests sample_receipt = JObj ?e" by (simp add: sample_receipt_def receipt_of_claims_def Let_def)
  have "decode_strict_signed_claims (b64encode sample_body) = Inr (sample_claims, sample_body)"
    unfolding sample_body_def by (rule decode_canonical_claims [OF sample_claims_canonical])
  then show ?thesis
    using exact nonempty sample_envelope_facts(1) [where b = "b64encode sample_body" and s = sample_signature] sample_envelope_facts(2) [where x = x and b = b and y = y and s = s]
      sample_envelope_facts(8) [where b = "b64encode sample_body" and s = sample_signature]
    by (simp add: materialize_receipt_input_def exact_receipt_def digests is_object_def copy_exact_json_def object_of_def nonempty_json_str_def
        str_value_def env [symmetric] Let_def)
qed

lemma sample_verifies:
  "require_verified_collection_closure sample_receipt_env sample_receipt ''production'' (pinned_instance_digest ''production'') = Inr sample_closure"
proof -
  let ?e = "sample_envelope (b64encode sample_body) sample_signature" and ?m = "\<lparr>rv_schema_ok = (\<lambda>d. has_key d ''version'')\<rparr>"
  let ?f = "\<lparr>fi_receipt = sample_receipt, fi_digests = ?e, fi_claims = sample_claims, fi_signed_body = sample_body\<rparr>"
  note e = sample_envelope_facts [where b = "b64encode sample_body" and s = sample_signature]
  have digest: "body_digest sample_receipt_env sample_body = zero_digest"
    using sample_digests(2) [where m = ?m, OF sample_claims_canonical] sample_claims_facts(1) by (simp add: sample_body_def sample_receipt_env_def)
  have schema: "check_schema sample_receipt_env sample_claims x y True = Inr ()" for x y
    using sample_claims_facts by (simp add: check_schema_def validate_schema_def sample_receipt_env_def sample_env_def)
  have "validate_bound_closure_fields sample_receipt_env ?f ''production'' (pinned_instance_digest ''production'') True None None None None = Inr ()"
    using schema sample_digest_chain [where m = ?m] digest e sample_binding_facts sample_binding_facts(1) [of "JObj ?e"]
    by (simp add: validate_bound_closure_fields_def sample_receipt_env_def sample_receipt_def object_of_def del: map_res.simps)
      (force simp: require_def)
  moreover have "py_in (JStr signed_claims_version) [legacy_claims_version, audit_claims_version_v2] = Inr False" by code_simp
  ultimately show ?thesis
    using sample_materializes e sample_claims_facts sample_signature_verifies [of ?m sample_body]
    by (simp add: require_verified_collection_closure_def verify_collection_closure_def Let_def str_value_def sample_receipt_env_def sample_closure_def)
qed

lemma sample_verifies_scope:
  "verify_collection_closure sample_receipt_env sample_receipt ''production'' (pinned_instance_digest ''production'')
     (Some sample_segment) (Some ''collection-coverage/v3'') None None = Inr sample_closure"
  using sample_binding_facts(7) by (simp add: verify_unit_bind sample_verifies sample_closure_def)

definition fails_closed :: "'b rc \<Rightarrow> bool" where
  "fails_closed m \<longleftrightarrow> (case m of Inr _ \<Rightarrow> True | Inl x \<Rightarrow> \<exists>t. x = ReceiptVerificationError t)"

lemma fails_closed_simps [simp]: "fails_closed (Inr x)" "fails_closed (Inl (ReceiptVerificationError t))" "fails_closed (require b t)"
  "fails_closed (copy_exact_json v f)"
  by (simp_all add: fails_closed_def require_def copy_exact_json_def)

lemma fails_closed_bind: "fails_closed m \<Longrightarrow> (\<And>x. m = Inr x \<Longrightarrow> fails_closed (k x)) \<Longrightarrow> fails_closed (bind_res m k)"
  by (cases m) (simp_all add: fails_closed_def)

lemma fails_closed_decode: "fails_closed (decode_strict_signed_claims b)"
  by (auto simp: decode_strict_signed_claims_def intro!: fails_closed_bind split: option.splits sum.splits json.splits json_error.splits)

lemma fails_closed_materialize: "fails_closed (materialize_receipt_input r)"
  unfolding materialize_receipt_input_def check_envelope_def Let_def case_prod_unfold
  by (intro fails_closed_bind fails_closed_decode fails_closed_simps)

lemma verified_claim_types:
  assumes "verify_collection_closure env r e a required policy raw sd = Inr c"
  shows "\<forall>n \<in> set [''source'', ''dataset'', ''segment_id'', ''segment_start'', ''segment_end'', ''status'', ''checked_at'', ''raw_digest'']. nonempty_json_str (dict_get (vc_claims c) n)"
    "\<forall>n \<in> set [''observed_items'', ''raw_page_count'', ''raw_count'', ''structured_count'', ''run_id'']. nonneg_json_int (dict_get (vc_claims c) n)"
    "dict_get (vc_claims c) ''expected_items'' = JNull \<or> nonneg_json_int (dict_get (vc_claims c) ''expected_items'')"
    "is_bool_json (dict_get (vc_claims c) ''pagination_exhausted'')" "is_object (dict_get (vc_claims c) ''expected_scope'')"
    "is_object (dict_get (vc_claims c) ''extra_digests'')"
    "\<forall>n \<in> set (expected_extra_fields (vc_claims c)). is_json_sha256 (dict_get (object_of (dict_get (vc_claims c) ''extra_digests'')) n)"
proof -
  obtain f where f: "materialize_receipt_input r = Inr f" "vc_claims c = fi_claims f" "dict_get (fi_claims f) ''version'' = JStr signed_claims_version"
      and v: "validate_bound_closure_fields env f e a True required policy raw sd = Inr ()"
    using assms by (rule verify_facts)
  note m = materialize_facts [OF f(1)] and b = validate_bound_facts [OF v]
  have eq: "(n, w) \<in> set (outer_bindings r) \<Longrightarrow> n \<noteq> ''expected_scope'' \<Longrightarrow> dict_get (fi_claims f) n = w" for n w
    using bound_claims(1) [OF m(1)] b(5) m(2) by simp
  have "nonempty_json_str (dict_get (fi_digests f) ''raw'')"
    using m(6) f(3) by (simp add: check_envelope_def bind_res_Inr_iff envelope_contract_def v3_signed_envelope_fields_def signed_envelope_fields_def)
  moreover have "same (dict_get (fi_claims f) ''raw_digest'') (dict_get (fi_digests f) ''raw'')" using b(6) by (simp add: envelope_bindings_def)
  ultimately have raw: "nonempty_json_str (dict_get (fi_claims f) ''raw_digest'')" using scalar_kinds(1) same_scalar by metis
  have "\<forall>(n, w) \<in> set (filter (\<lambda>(n, w). n \<noteq> ''expected_scope'') (outer_bindings r)). dict_get (fi_claims f) n = w" using eq by auto
  then have eqs: "dict_get (fi_claims f) ''source'' = cr_source r" "dict_get (fi_claims f) ''dataset'' = cr_dataset r"
      "dict_get (fi_claims f) ''segment_id'' = cr_segment_id r" "dict_get (fi_claims f) ''segment_start'' = cr_segment_start r"
      "dict_get (fi_claims f) ''segment_end'' = cr_segment_end r" "dict_get (fi_claims f) ''status'' = cr_status r"
      "dict_get (fi_claims f) ''checked_at'' = cr_checked_at r" "dict_get (fi_claims f) ''observed_items'' = cr_observed_items r"
      "dict_get (fi_claims f) ''raw_page_count'' = cr_raw_page_count r" "dict_get (fi_claims f) ''raw_count'' = cr_raw_row_count r"
      "dict_get (fi_claims f) ''structured_count'' = cr_structured_row_count r" "dict_get (fi_claims f) ''run_id'' = cr_run_id r"
      "dict_get (fi_claims f) ''expected_items'' = cr_expected_items r" "dict_get (fi_claims f) ''pagination_exhausted'' = cr_pagination_exhausted r"
    by (simp_all add: outer_bindings_def)
  show "\<forall>n \<in> set [''source'', ''dataset'', ''segment_id'', ''segment_start'', ''segment_end'', ''status'', ''checked_at'', ''raw_digest'']. nonempty_json_str (dict_get (vc_claims c) n)"
    "\<forall>n \<in> set [''observed_items'', ''raw_page_count'', ''raw_count'', ''structured_count'', ''run_id'']. nonneg_json_int (dict_get (vc_claims c) n)"
    "dict_get (vc_claims c) ''expected_items'' = JNull \<or> nonneg_json_int (dict_get (vc_claims c) ''expected_items'')"
    "is_bool_json (dict_get (vc_claims c) ''pagination_exhausted'')"
    using m(1) raw eqs f(2) by (simp_all add: exact_receipt_def receipt_strings_def receipt_ints_def)
  show "is_object (dict_get (vc_claims c) ''expected_scope'')"
    using bound_claims(2) [OF m(1) b(5) [unfolded m(2)]] f(2) by (auto simp: is_object_def)
  show "is_object (dict_get (vc_claims c) ''extra_digests'')"
    "\<forall>n \<in> set (expected_extra_fields (vc_claims c)). is_json_sha256 (dict_get (object_of (dict_get (vc_claims c) ''extra_digests'')) n)"
    using b(2) f(2) by (auto simp: check_schema_def validate_v3_dataset_digest_inventory_def bind_res_Inr_iff Let_def)
qed

lemma sample_digests_eq: "cr_digests sample_receipt = JObj (sample_envelope (b64encode sample_body) sample_signature)"
  by (simp add: sample_receipt_def receipt_of_claims_def Let_def)

subsection \<open>Properties\<close>

text \<open>C23: A verified closure is signed and bound. Whenever verification succeeds, the receipt carries the canonical Base64
  of a body that decodes to exactly the claims of the closure, the body verifies under the signature policy of the
  requested scope, the digest of the closure is the digest of that body, the claims are version 3 and name the requested
  environment and authority, every field of the receipt and of the required segment is the signed one, and a
  caller's raw bytes have the signed digest.\<close>

theorem verified_closure_binds:
  assumes "verify_collection_closure env r e a required policy raw sd = Inr c"
  shows "\<exists>dg body. cr_digests r = JObj dg \<and> dict_get dg ''signed_body_b64'' = JStr (b64encode body)
    \<and> decode_strict_signed_claims (b64encode body) = Inr (vc_claims c, body) \<and> vc_receipt_digest c = body_digest env body
    \<and> verify_receipt_signature_values env body (str_value (dict_get dg ''signature'')) (str_value (dict_get dg ''issuer_key_id'')) e a = Inr True
    \<and> dict_get dg ''eligibility'' = JStr ''TRUSTED_COLLECTION'' \<and> \<not> json_truthy (dict_get dg ''synthetic'')
    \<and> dict_get (vc_claims c) ''version'' = JStr signed_claims_version
    \<and> dict_get (vc_claims c) ''environment'' = JStr e \<and> dict_get (vc_claims c) ''authority_instance_digest'' = JStr a
    \<and> (\<forall>(n, v) \<in> set (outer_bindings r). same (dict_get (vc_claims c) n) v)
    \<and> (case required of None \<Rightarrow> True | Some s \<Rightarrow> \<forall>(n, v) \<in> set (required_bindings s). same (dict_get (vc_claims c) n) v)
    \<and> (case raw of None \<Rightarrow> True | Some b \<Rightarrow> dict_get (vc_claims c) ''raw_digest'' = JStr (compute_raw_digest env b))"
proof -
  obtain f where f: "materialize_receipt_input r = Inr f" "vc_claims c = fi_claims f"
      "vc_receipt_digest c = str_value (dict_get (fi_digests f) ''body_digest'')" "dict_get (fi_claims f) ''version'' = JStr signed_claims_version"
      and sig: "verify_receipt_signature_values env (fi_signed_body f) (str_value (dict_get (fi_digests f) ''signature''))
       (str_value (dict_get (fi_digests f) ''issuer_key_id'')) e a = Inr True"
      and tr: "check_trusted_envelope (fi_digests f) ''verifiable'' = Inr ()"
      and v: "validate_bound_closure_fields env f e a True required policy raw sd = Inr ()"
    using assms by (rule verify_facts)
  note m = materialize_facts [OF f(1)] and b = validate_bound_facts [OF v]
  obtain b64 where body: "dict_get (fi_digests f) ''signed_body_b64'' = JStr b64" "decode_strict_signed_claims b64 = Inr (fi_claims f, fi_signed_body f)"
    using m(5) by blast
  have "\<forall>(n, v) \<in> set (outer_bindings r). same (dict_get (fi_claims f) n) v" using b(5) m(2) by auto
  moreover have "case required of None \<Rightarrow> True | Some s \<Rightarrow> \<forall>(n, v) \<in> set (required_bindings s). same (dict_get (fi_claims f) n) v"
    using b(7) by (auto simp: validate_required_scope_def bind_res_Inr_iff split: option.splits dest: required_bound)
  moreover have "case raw of None \<Rightarrow> True | Some b \<Rightarrow> dict_get (fi_claims f) ''raw_digest'' = JStr (compute_raw_digest env b)"
    using b(8) by (auto simp: check_evidence_def bind_res_Inr_iff bind_claim_iff same_scalar split: option.splits)
  moreover have "str_value (dict_get (fi_digests f) ''body_digest'') = body_digest env (fi_signed_body f)" using b(3) by (simp add: str_value_def)
  moreover have "dict_get (fi_digests f) ''eligibility'' = JStr ''TRUSTED_COLLECTION'' \<and> \<not> json_truthy (dict_get (fi_digests f) ''synthetic'')"
    using tr by (auto simp: check_trusted_envelope_def bind_res_Inr_iff)
  ultimately show ?thesis
    unfolding f(2) using f(3,4) m(3) body decode_claims_body(1) [OF body(2)] sig b(4)
    by (intro exI [of _ "fi_digests f"] exI [of _ "fi_signed_body f"]) simp
qed

theorem verified_closure_binds_witness:
  "\<exists>body. decode_strict_signed_claims (b64encode body) = Inr (vc_claims sample_closure, body)
    \<and> dict_get (vc_claims sample_closure) ''environment'' = JStr ''production''
    \<and> (\<forall>(n, v) \<in> set (required_bindings sample_segment). same (dict_get (vc_claims sample_closure) n) v)"
  using verified_closure_binds [OF sample_verifies_scope] by auto

text \<open>C27: No field of a verified receipt can be altered: two receipts that carry the same signed body and both verify have equal claims and agree on
  every field outside the envelope, except that the scope object is fixed only up to Python equality (\<open>true\<close> and \<open>1\<close> are equal); and their
  envelopes agree on environment, authority, issuer and key, on the raw, structured, request, manifest, scope and observation digests, on the generation, the
  parser version, the time of issue and the trust labels. The signature text, the body digest, the envelope's copy of the check time and the extra digests are not compared.\<close>

theorem verified_receipt_unalterable:
  assumes "verify_collection_closure env r e a required policy raw sd = Inr c" "verify_collection_closure env' r' e' a' required' policy' raw' sd' = Inr c'"
    "cr_digests r = JObj dg" "cr_digests r' = JObj dg'" "dict_get dg ''signed_body_b64'' = dict_get dg' ''signed_body_b64''"
  shows "r\<lparr>cr_expected_scope := x, cr_digests := y\<rparr> = r'\<lparr>cr_expected_scope := x, cr_digests := y\<rparr>
    \<and> vc_claims c = vc_claims c' \<and> py_eq (dict_get (vc_claims c) ''expected_scope'') (cr_expected_scope r)
    \<and> py_eq (dict_get (vc_claims c) ''expected_scope'') (cr_expected_scope r')
    \<and> (\<forall>k \<in> {''environment'', ''authority_instance_digest'', ''issuer_id'', ''issuer_key_id'', ''raw'', ''structured_digest'', ''source_request_digest'',
           ''raw_manifest_digest'', ''scope_digest'', ''observation_digest'', ''structured_generation'', ''parser_normalizer_version'', ''issued_at'',
           ''eligibility'', ''issuer_class''}. dict_get dg k = dict_get dg' k)"
proof -
  obtain q q' where q: "collection_receipt_from_signed_envelope (JObj dg) = Inr (r\<lparr>cr_expected_scope := q\<rparr>)" "q = dict_get (vc_claims c) ''expected_scope''"
      "collection_receipt_from_signed_envelope (JObj dg') = Inr (r'\<lparr>cr_expected_scope := q'\<rparr>)" "q' = dict_get (vc_claims c') ''expected_scope''"
    using verify_envelope_rebuilds [OF assms(1)] verify_envelope_rebuilds [OF assms(2)] assms(3,4) by simp
  obtain claims body claims' body' where d: "decode_strict_signed_claims (str_value (dict_get dg ''signed_body_b64'')) = Inr (claims, body)"
      "r\<lparr>cr_expected_scope := q\<rparr> = receipt_of_claims claims (JObj dg)"
      "decode_strict_signed_claims (str_value (dict_get dg' ''signed_body_b64'')) = Inr (claims', body')"
      "r'\<lparr>cr_expected_scope := q'\<rparr> = receipt_of_claims claims' (JObj dg')"
    using from_envelope_claims [OF q(1)] from_envelope_claims [OF q(3)] by blast
  have env: "r\<lparr>cr_expected_scope := q\<rparr> = (r'\<lparr>cr_expected_scope := q'\<rparr>)\<lparr>cr_digests := JObj dg\<rparr>"
    using d assms(5) by (simp add: receipt_of_claims_def Let_def)
  have "vc_claims c = claims" "vc_claims c' = claims"
    using verified_claims_decoded [OF assms(1,3)] verified_claims_decoded [OF assms(2,4)] d(1) assms(5) by (auto simp: str_value_def)
  moreover have "r\<lparr>cr_expected_scope := x, cr_digests := y\<rparr> = r'\<lparr>cr_expected_scope := x, cr_digests := y\<rparr>"
    using arg_cong [OF env, of "\<lambda>r. r\<lparr>cr_expected_scope := x, cr_digests := y\<rparr>"] by simp
  moreover have "dict_get dg k = dict_get dg' k" if "k \<in> snd ` set signed_entries \<union> {''eligibility'', ''issuer_class''}" for k
    using that verified_envelope [OF assms(1,3)] verified_envelope [OF assms(2,4)] calculation by fastforce
  ultimately show ?thesis using verified_scope_equal [OF assms(1)] verified_scope_equal [OF assms(2)] by (simp add: signed_entries_def)
qed

theorem verified_receipt_unalterable_witness:
  "verify_collection_closure sample_receipt_env sample_receipt ''production'' (pinned_instance_digest ''production'')
     (Some sample_segment) (Some ''collection-coverage/v3'') None None = Inr sample_closure
    \<and> py_eq (dict_get (vc_claims sample_closure) ''expected_scope'') (cr_expected_scope sample_receipt)"
  using verified_receipt_unalterable [OF sample_verifies_scope sample_verifies_scope] sample_digests_eq sample_verifies_scope by blast

text \<open>Verification can be split: verifying against a required segment and policy accepts a receipt exactly when plain
  verification mints that closure and the closure's own scope check then passes. This is how the coverage evaluation
  verifies once and checks many segments.\<close>

theorem scoped_verification_splits:
  "verify_collection_closure env r e a (Some s) policy None None = Inr c \<longleftrightarrow>
     require_verified_collection_closure env r e a = Inr c \<and> require_scope c s policy = Inr ()"
  by (auto simp: verify_unit_bind bind_res_Inr_iff require_scope_def)

text \<open>The envelope alone rebuilds a verified receipt: converting its signed envelope gives the receipt back, with the signed
  scope object.\<close>

theorem envelope_rebuilds_receipt:
  assumes "verify_collection_closure env r e a required policy raw sd = Inr c"
  shows "collection_receipt_from_signed_envelope (cr_digests r) = Inr (r\<lparr>cr_expected_scope := dict_get (vc_claims c) ''expected_scope''\<rparr>)"
  using assms by (rule verify_envelope_rebuilds)

theorem envelope_rebuilds_receipt_witness:
  "collection_receipt_from_signed_envelope (cr_digests sample_receipt)
     = Inr (sample_receipt\<lparr>cr_expected_scope := dict_get (vc_claims sample_closure) ''expected_scope''\<rparr>)"
  using envelope_rebuilds_receipt [OF sample_verifies_scope] .

text \<open>Claims of version 1 and 2 are for audit only: no receipt whose signed body carries them verifies, whatever its
  signature, and the refusal is a verification error.\<close>

theorem legacy_claims_never_verify:
  assumes "cr_digests r = JObj dg" "dict_get dg ''signed_body_b64'' = JStr b" "decode_strict_signed_claims b = Inr (claims, body)"
    "dict_get claims ''version'' \<in> {JStr legacy_claims_version, JStr audit_claims_version_v2}"
  shows "\<exists>t. verify_collection_closure env r e a required policy raw sd = Inl (ReceiptVerificationError t)"
proof (cases "materialize_receipt_input r")
  case (Inl x)
  then show ?thesis using fails_closed_materialize [of r] by (auto simp: fails_closed_def verify_collection_closure_def)
next
  case (Inr f)
  have "fi_claims f = claims" using materialize_facts(3,5) [OF Inr] assms(1-3) by auto
  then have "py_in (dict_get (fi_claims f) ''version'') [legacy_claims_version, audit_claims_version_v2] = Inr True"
    using assms(4) by (auto simp: py_in_def)
  then show ?thesis
    using Inr by (auto simp: verify_collection_closure_def Let_def check_trusted_envelope_def require_def)
qed

theorem legacy_claims_never_verify_witness:
  "\<exists>t. verify_collection_closure sample_receipt_env
     (sample_receipt\<lparr>cr_digests := JObj [(''signed_body_b64'', JStr (b64encode (canonical_receipt_body [(''version'', JStr legacy_claims_version)])))]\<rparr>)
     ''production'' (pinned_instance_digest ''production'') None None None None = Inl (ReceiptVerificationError t)"
proof -
  have c: "canonical_dict [(''version'', JStr legacy_claims_version)]" by code_simp
  have d: "dict_get [(k, v)] k = v" for k v by (simp add: dict_get_def)
  have v: "dict_get [(''version'', JStr legacy_claims_version)] ''version'' \<in> {JStr legacy_claims_version, JStr audit_claims_version_v2}"
    unfolding d by blast
  show ?thesis by (rule legacy_claims_never_verify [OF _ d decode_canonical_claims [OF c] v]) simp
qed

text \<open>C28: The claims of a verified closure have the types the coverage rules read: identities and digests are non-empty strings,
  counts are non-negative integers, the flag is a boolean, and every authority digest the source and dataset call for is a
  SHA-256 digest.\<close>

theorem verified_closure_typed:
  assumes "verify_collection_closure env r e a required policy raw sd = Inr c"
  shows "(\<forall>n \<in> set [''source'', ''dataset'', ''segment_id'', ''segment_start'', ''segment_end'', ''status'', ''checked_at'', ''raw_digest'']. nonempty_json_str (dict_get (vc_claims c) n))
    \<and> (\<forall>n \<in> set [''observed_items'', ''raw_page_count'', ''raw_count'', ''structured_count'', ''run_id'']. nonneg_json_int (dict_get (vc_claims c) n))
    \<and> (dict_get (vc_claims c) ''expected_items'' = JNull \<or> nonneg_json_int (dict_get (vc_claims c) ''expected_items''))
    \<and> is_bool_json (dict_get (vc_claims c) ''pagination_exhausted'') \<and> is_object (dict_get (vc_claims c) ''expected_scope'')
    \<and> (\<forall>n \<in> set (expected_extra_fields (vc_claims c)). is_json_sha256 (dict_get (object_of (dict_get (vc_claims c) ''extra_digests'')) n))"
  using verified_claim_types [OF assms] by blast

theorem verified_closure_typed_witness: "nonempty_json_str (dict_get (vc_claims sample_closure) ''raw_digest'')"
  using verified_closure_typed [OF sample_verifies_scope] by simp

lemma same_conflates_bool_int: "same (JObj [(''limit'', JBool True)]) (JObj [(''limit'', JInt 1)])"
  by (simp add: same_def num_value_def)

end
