(* ===== verification/CoverageEval.thy ===== *)
theory CoverageEval
  imports VerifiedReceipt "HOL-Library.Product_Lexorder"
begin

section \<open>Coverage evaluation\<close>

text \<open>
  \<open>packages/data_plane/storage/coverage_ledger.py\<close> (evaluation of planned segments against receipts, the observed window and
  freshness, the aggregate statuses, the refresh gate) and \<open>receipt_policy.py\<close>. Receipts are prepared once:
  each is verified or kept with its verification error; a configuration error of the key registry stops the evaluation. Receipts come
  from ledger rows, whose identity columns are strings and whose counts are integers; the rank of an unverified
  receipt reads them so. The registry of source capabilities is an argument, as in the planner. A status is its
  string, a detail its reason.
\<close>

subsection \<open>Receipt policy\<close>

definition receipt_source_by_canonical :: "(string \<times> string) list" where
  "receipt_source_by_canonical = [(''jquants_premium_core'', ''jquants''), (''jquants_addon'', ''jquants''), (''jsda_governed'', ''jsda'')]"

definition recovered_receipt_origins :: "string list" where
  "recovered_receipt_origins = [''recovered-raw-only'', ''parsed-staging-only'', ''offline-test-fixture'']"

definition receipt_source_for_canonical_source :: "string \<Rightarrow> string rc" where
  "receipt_source_for_canonical_source s =
     (if s = [] then Inl (RcValueError ''canonical receipt source must be a non-empty exact string'')
      else case map_of receipt_source_by_canonical s of
             None \<Rightarrow> Inl (RcValueError (''unsupported canonical receipt source: '' @ s))
           | Some r \<Rightarrow> Inr r)"

definition is_recovered_only_digests :: "json \<Rightarrow> bool" where
  "is_recovered_only_digests v =
     (case v of
        JObj d \<Rightarrow>
          has_key d ''eligibility'' \<and> dict_get d ''eligibility'' \<notin> {JStr ''TRUSTED_COLLECTION'', JStr ''RECOVERED_RAW_ONLY''}
          \<or> has_key d ''origin'' \<and> \<not> is_json_str (dict_get d ''origin'')
          \<or> has_key d ''synthetic'' \<and> \<not> is_bool_json (dict_get d ''synthetic'')
          \<or> dict_get d ''eligibility'' = JStr ''RECOVERED_RAW_ONLY''
          \<or> dict_get d ''origin'' \<in> JStr ` set recovered_receipt_origins
          \<or> dict_get d ''synthetic'' = JBool True
      | _ \<Rightarrow> True)"

subsection \<open>Reading a closure\<close>

definition cl_str :: "verified_closure \<Rightarrow> string \<Rightarrow> string" where
  "cl_str c k = str_value (dict_get (vc_claims c) k)"

definition cl_int :: "verified_closure \<Rightarrow> string \<Rightarrow> int" where
  "cl_int c k = int_of (dict_get (vc_claims c) k)"

definition cl_bool :: "verified_closure \<Rightarrow> string \<Rightarrow> bool" where
  "cl_bool c k = json_truthy (dict_get (vc_claims c) k)"

definition cl_expected_items :: "verified_closure \<Rightarrow> int option" where
  "cl_expected_items c = (case dict_get (vc_claims c) ''expected_items'' of JNull \<Rightarrow> None | v \<Rightarrow> Some (int_of v))"

definition cl_extra_digests :: "verified_closure \<Rightarrow> dict" where
  "cl_extra_digests c = object_of (dict_get (vc_claims c) ''extra_digests'')"

definition expected_empty_with_evidence :: string where
  "expected_empty_with_evidence = ''EXPECTED_EMPTY_WITH_EVIDENCE''"

definition has_nonempty_trusted_raw_evidence :: "verified_closure \<Rightarrow> bool" where
  "has_nonempty_trusted_raw_evidence c \<longleftrightarrow> 0 < cl_int c ''raw_count'' \<or> json_truthy (dict_get (cl_extra_digests c) expected_empty_with_evidence)"

subsection \<open>Prepared receipts\<close>

record prepared_receipt =
  pp_receipt :: collection_receipt
  pp_closure :: "verified_closure option"
  pp_error :: "string option"

definition prepare_receipt :: "('a receipt_env_scheme) \<Rightarrow> string \<Rightarrow> string \<Rightarrow> collection_receipt \<Rightarrow> prepared_receipt rc" where
  "prepare_receipt env e a r =
     (case require_verified_collection_closure env r e a of
        Inr c \<Rightarrow> Inr \<lparr>pp_receipt = r, pp_closure = Some c, pp_error = None\<rparr>
      | Inl (ReceiptVerificationError m) \<Rightarrow> Inr \<lparr>pp_receipt = r, pp_closure = None, pp_error = Some m\<rparr>
      | Inl x \<Rightarrow> Inl x)"

definition prepare_receipts :: "('a receipt_env_scheme) \<Rightarrow> string \<Rightarrow> string \<Rightarrow> collection_receipt list \<Rightarrow> prepared_receipt list rc" where
  "prepare_receipts env e a rs = map_res (prepare_receipt env e a) rs"

definition item_count :: "prepared_receipt \<Rightarrow> int" where
  "item_count p = (case pp_closure p of Some c \<Rightarrow> cl_int c ''structured_count'' | None \<Rightarrow> int_of (cr_structured_row_count (pp_receipt p)))"

definition item_checked_at :: "prepared_receipt \<Rightarrow> string" where
  "item_checked_at p = (case pp_closure p of Some c \<Rightarrow> cl_str c ''checked_at'' | None \<Rightarrow> str_value (cr_checked_at (pp_receipt p)))"

definition item_run_id :: "prepared_receipt \<Rightarrow> int" where
  "item_run_id p = (case pp_closure p of Some c \<Rightarrow> cl_int c ''run_id'' | None \<Rightarrow> int_of (cr_run_id (pp_receipt p)))"

definition is_trusted :: "prepared_receipt \<Rightarrow> bool" where
  "is_trusted p \<longleftrightarrow> (case pp_closure p of Some c \<Rightarrow> has_nonempty_trusted_raw_evidence c | None \<Rightarrow> False)"

type_synonym rank = "int \<times> int \<times> int \<times> string \<times> int"

definition rank_of :: "prepared_receipt \<Rightarrow> rank" where
  "rank_of p =
     ((if is_trusted p then 1 else 0), (if is_recovered_only_digests (cr_digests (pp_receipt p)) then - 1 else 0),
      item_count p, item_checked_at p, item_run_id p)"

text \<open>\<open>max(items, key=...)\<close>: the first item of the largest key.\<close>

fun max_by :: "('a \<Rightarrow> 'b :: linorder) \<Rightarrow> 'a \<Rightarrow> 'a list \<Rightarrow> 'a" where
  "max_by k x [] = x"
| "max_by k x (y # ys) = max_by k (if k x < k y then y else x) ys"

definition max_item :: "('a \<Rightarrow> 'b :: linorder) \<Rightarrow> 'a list \<Rightarrow> 'a option" where
  "max_item k xs = (case xs of [] \<Rightarrow> None | x # ys \<Rightarrow> Some (max_by k x ys))"

type_synonym segment_key = "json list"

definition closure_key :: "verified_closure \<Rightarrow> segment_key" where
  "closure_key c = map (\<lambda>k. JStr (cl_str c k)) [''source'', ''dataset'', ''segment_id'', ''segment_start'', ''segment_end'']"

definition prepared_key :: "prepared_receipt \<Rightarrow> segment_key" where
  "prepared_key p =
     (case pp_closure p of
        Some c \<Rightarrow> closure_key c
      | None \<Rightarrow> let r = pp_receipt p in [cr_source r, cr_dataset r, cr_segment_id r, cr_segment_start r, cr_segment_end r])"

definition required_key :: "required_segment \<Rightarrow> segment_key" where
  "required_key s = map JStr [rs_source s, rs_dataset s, rs_segment_id s, rs_segment_start s, rs_segment_end s]"

definition index_add :: "prepared_receipt \<Rightarrow> (segment_key \<times> prepared_receipt list) list \<Rightarrow> (segment_key \<times> prepared_receipt list) list" where
  "index_add p m = AList.update (prepared_key p) ((case map_of m (prepared_key p) of None \<Rightarrow> [] | Some ps \<Rightarrow> ps) @ [p]) m"

definition index_prepared_receipts :: "prepared_receipt list \<Rightarrow> (segment_key \<times> prepared_receipt list) list" where
  "index_prepared_receipts ps = fold index_add ps []"

subsection \<open>Evaluating a segment\<close>

definition empty_observed_forbids_complete :: "registry \<Rightarrow> coverage_contract \<Rightarrow> bool" where
  "empty_observed_forbids_complete reg p \<longleftrightarrow>
     (let od = official_domain_for (source_capability_contract_or_none reg (cc_dataset_id p)); mode = cc_coverage_mode p;
          grain = cc_segment_granularity p; hm = (case cc_history_mode p of None \<Rightarrow> [] | Some m \<Rightarrow> m) in
      is_tip_snapshot_policy p od \<or> uses_official_archive_index p od
      \<or> contains_sub mode ''snapshot'' \<or> contains_sub hm ''snapshot''
      \<or> grain \<in> set snapshot_segment_granularities
      \<or> startswith grain ''collection_cutoff'' \<or> startswith grain ''same_trading_day''
      \<or> grain = ''official_archive_index_day'' \<or> contains_sub mode ''official_archive_index'')"

type_synonym evaluation = "string \<times> string \<times> verified_closure option"

definition evaluate_closure :: "registry \<Rightarrow> coverage_contract \<Rightarrow> required_segment \<Rightarrow> verified_closure \<Rightarrow> string \<times> string" where
  "evaluate_closure reg p s c =
     (if cl_str c ''status'' \<noteq> ''SUCCESS'' then (''FAILED'', ''collection failed'')
      else if \<not> cl_bool c ''pagination_exhausted'' \<or> \<not> cl_bool c ''discovery_exhausted'' then (''PARTIAL'', ''collection discovery is not exhausted'')
      else if cl_int c ''observed_items'' = 0 \<and> empty_observed_forbids_complete reg p
      then (''PARTIAL'', ''empty tip-snapshot or archive-index receipt is not complete'')
      else if cc_expected_frequency p \<noteq> ''event_driven'' \<and> rs_expected_items s = None then (''PARTIAL'', ''non-event segment lacks explicit expected items'')
      else if (case cl_expected_items c of None \<Rightarrow> False | Some n \<Rightarrow> cl_int c ''observed_items'' \<noteq> n) then (''PARTIAL'', ''expected scope not fully observed'')
      else if cc_expected_frequency p \<noteq> ''event_driven'' \<and> cl_int c ''observed_items'' = 0
      then (''PARTIAL'', ''empty receipt is complete only for event-driven windows'')
      else if cc_raw_retention_required p \<and> (cl_int c ''raw_page_count'' < 1 \<or> cl_str c ''raw_digest'' = []) then (''PARTIAL'', ''raw pages/digest not retained'')
      else if cc_structured_reconciliation_required p \<and> cl_int c ''raw_count'' \<noteq> cl_int c ''structured_count'' then (''FAILED'', ''raw/structured row mismatch'')
      else if \<not> has_nonempty_trusted_raw_evidence c
      then (''PARTIAL'', ''empty raw is not COMPLETE-eligible without EXPECTED_EMPTY_WITH_EVIDENCE'')
      else (''COMPLETE'', ''receipt reconciled''))"

definition evaluate_prepared_segment :: "registry \<Rightarrow> coverage_contract \<Rightarrow> required_segment \<Rightarrow> prepared_receipt option \<Rightarrow> evaluation rc" where
  "evaluate_prepared_segment reg p s prepared =
     (case prepared of
        None \<Rightarrow> Inr (''PARTIAL'', ''missing collection receipt'', None)
      | Some q \<Rightarrow>
          (case pp_closure q of
             None \<Rightarrow> Inr (''PARTIAL'', ''receipt closure invalid: '' @ (case pp_error q of None \<Rightarrow> ''None'' | Some m \<Rightarrow> m), None)
           | Some c \<Rightarrow>
               (case require_scope c s (cc_policy_version p) of
                  Inl (ReceiptVerificationError m) \<Rightarrow> Inr (''PARTIAL'', ''receipt closure invalid: '' @ m, None)
                | Inl x \<Rightarrow> Inl x
                | Inr _ \<Rightarrow> Inr (fst (evaluate_closure reg p s c), snd (evaluate_closure reg p s c), Some c))))"

definition evaluate_segment_with_closure ::
    "('a receipt_env_scheme) \<Rightarrow> string \<Rightarrow> string \<Rightarrow> registry \<Rightarrow> coverage_contract \<Rightarrow> required_segment \<Rightarrow> collection_receipt option \<Rightarrow> evaluation rc" where
  "evaluate_segment_with_closure env e a reg p s receipt =
     (case receipt of
        None \<Rightarrow> Inr (''PARTIAL'', ''missing collection receipt'', None)
      | Some r \<Rightarrow> bind_res (prepare_receipts env e a [r]) (\<lambda>ps. evaluate_prepared_segment reg p s (Some (hd ps))))"

definition evaluate_segment ::
    "('a receipt_env_scheme) \<Rightarrow> string \<Rightarrow> string \<Rightarrow> registry \<Rightarrow> coverage_contract \<Rightarrow> required_segment \<Rightarrow> collection_receipt option \<Rightarrow> (string \<times> string) rc" where
  "evaluate_segment env e a reg p s receipt =
     bind_res (evaluate_segment_with_closure env e a reg p s receipt) (\<lambda>(status, detail, c). Inr (status, detail))"

record evaluated_segment =
  es_required :: required_segment
  es_receipt :: "collection_receipt option"
  es_status :: string
  es_detail :: string
  es_closure :: "verified_closure option"

definition best_prepared :: "(segment_key \<times> prepared_receipt list) list \<Rightarrow> required_segment \<Rightarrow> prepared_receipt option" where
  "best_prepared indexed s = max_item rank_of (case map_of indexed (required_key s) of None \<Rightarrow> [] | Some ps \<Rightarrow> ps)"

definition evaluate_one :: "registry \<Rightarrow> coverage_contract \<Rightarrow> (segment_key \<times> prepared_receipt list) list \<Rightarrow> required_segment \<Rightarrow> evaluated_segment rc" where
  "evaluate_one reg p indexed s =
     bind_res (evaluate_prepared_segment reg p s (best_prepared indexed s)) (\<lambda>(status, detail, c).
       Inr \<lparr>es_required = s, es_receipt = map_option pp_receipt (best_prepared indexed s), es_status = status, es_detail = detail, es_closure = c\<rparr>)"

definition evaluate_prepared_segments ::
    "registry \<Rightarrow> coverage_contract \<Rightarrow> required_segment list \<Rightarrow> (segment_key \<times> prepared_receipt list) list \<Rightarrow> evaluated_segment list rc" where
  "evaluate_prepared_segments reg p segs indexed = map_res (evaluate_one reg p indexed) segs"

definition aggregate_statuses :: "string list \<Rightarrow> string" where
  "aggregate_statuses sts =
     (if ''FAILED'' \<in> set sts then ''FAILED''
      else if sts \<noteq> [] \<and> (\<forall>x \<in> set sts. x = ''COMPLETE'') then ''COMPLETE''
      else ''PARTIAL'')"

definition evaluate_required_segments ::
    "('a receipt_env_scheme) \<Rightarrow> registry \<Rightarrow> coverage_contract \<Rightarrow> required_segment list \<Rightarrow> collection_receipt list \<Rightarrow> (string \<times> evaluated_segment list) rc" where
  "evaluate_required_segments env reg p segs receipts =
     bind_res (prepare_receipts env production_receipt_environment (pinned_instance_digest production_receipt_environment) receipts) (\<lambda>ps.
     bind_res (evaluate_prepared_segments reg p segs (index_prepared_receipts ps)) (\<lambda>evs.
       Inr (aggregate_statuses (map es_status evs), evs)))"

definition closure_rank :: "collection_receipt \<times> verified_closure \<Rightarrow> int \<times> string \<times> int" where
  "closure_rank x = (cl_int (snd x) ''structured_count'', cl_str (snd x) ''checked_at'', cl_int (snd x) ''run_id'')"

definition complete_candidate :: "registry \<Rightarrow> coverage_contract \<Rightarrow> required_segment \<Rightarrow> prepared_receipt \<Rightarrow> (collection_receipt \<times> verified_closure) option rc" where
  "complete_candidate reg p s q =
     bind_res (evaluate_prepared_segment reg p s (Some q)) (\<lambda>(status, detail, c).
       Inr (if status = ''COMPLETE'' then map_option (Pair (pp_receipt q)) c else None))"

definition latest_complete_receipt_for_required ::
    "registry \<Rightarrow> coverage_contract \<Rightarrow> required_segment \<Rightarrow> prepared_receipt list \<Rightarrow> (collection_receipt \<times> verified_closure) option rc" where
  "latest_complete_receipt_for_required reg p s ps =
     bind_res (map_res (complete_candidate reg p s) ps) (\<lambda>cs. Inr (max_item closure_rank (List.map_filter id cs)))"

definition receipt_eligibility :: "('a receipt_env_scheme) \<Rightarrow> collection_receipt \<Rightarrow> string rc" where
  "receipt_eligibility env r =
     (case require_verified_collection_closure env r production_receipt_environment (pinned_instance_digest production_receipt_environment) of
        Inr _ \<Rightarrow> Inr ''TRUSTED_COLLECTION''
      | Inl (ReceiptVerificationError m) \<Rightarrow> Inr ''RECOVERED_RAW_ONLY''
      | Inl x \<Rightarrow> Inl x)"

definition is_complete_eligible_receipt :: "('a receipt_env_scheme) \<Rightarrow> collection_receipt \<Rightarrow> bool rc" where
  "is_complete_eligible_receipt env r =
     (case require_verified_collection_closure env r production_receipt_environment (pinned_instance_digest production_receipt_environment) of
        Inr c \<Rightarrow> Inr (has_nonempty_trusted_raw_evidence c)
      | Inl (ReceiptVerificationError m) \<Rightarrow> Inr False
      | Inl x \<Rightarrow> Inl x)"

definition is_synthetic_receipt :: "collection_receipt \<Rightarrow> bool" where
  "is_synthetic_receipt r = json_truthy (dict_get (object_of (cr_digests r)) ''synthetic'')"

subsection \<open>Aggregates over segment counts\<close>

definition honest_status_counts :: "(string \<times> int) list \<Rightarrow> (string \<times> int) list" where
  "honest_status_counts counts = filter (\<lambda>(s, n). 0 < n) (sort_key fst counts)"

definition aggregate_status_from_segment_counts :: "(string \<times> int) list \<Rightarrow> string" where
  "aggregate_status_from_segment_counts status_counts =
     (let counts = filter (\<lambda>(s, n). 0 < n) status_counts; total = sum_list (map snd counts);
          get = (\<lambda>k. case map_of counts k of None \<Rightarrow> 0 | Some n \<Rightarrow> n) in
      if total \<le> 0 then ''UNKNOWN''
      else if 0 < get ''FAILED'' then ''FAILED''
      else if get ''COMPLETE'' = total then ''COMPLETE''
      else ''PARTIAL'')"

subsection \<open>Observed window and freshness\<close>

definition date_prefix :: "string option \<Rightarrow> string option" where
  "date_prefix v = (case v of None \<Rightarrow> None | Some t \<Rightarrow> if length (strip t) < 10 then None else Some (take 10 (strip t)))"

definition closure_window :: "prepared_receipt \<Rightarrow> (string \<times> string \<times> int) option" where
  "closure_window q =
     (case pp_closure q of
        None \<Rightarrow> None
      | Some c \<Rightarrow>
          if cl_int c ''raw_count'' \<le> 0 then None
          else case (date_prefix (Some (cl_str c ''segment_start'')), date_prefix (Some (cl_str c ''segment_end''))) of
                 (Some s, Some e) \<Rightarrow> Some (s, e, cl_int c ''raw_count'')
               | _ \<Rightarrow> None)"

definition receipt_observed_window :: "prepared_receipt list \<Rightarrow> string option \<times> string option \<times> int" where
  "receipt_observed_window ps =
     (case List.map_filter closure_window ps of
        [] \<Rightarrow> (None, None, 0)
      | w # ws \<Rightarrow> (Some (foldl min (fst w) (map fst ws)), Some (foldl max (fst (snd w)) (map (fst \<circ> snd) ws)), sum_list (map (snd \<circ> snd) (w # ws))))"

definition keep_hot :: "string option \<Rightarrow> string option \<Rightarrow> string option" where
  "keep_hot merged hot =
     (case (merged, hot) of (Some m, Some h) \<Rightarrow> if date_prefix hot = Some m then Some h else Some m | _ \<Rightarrow> merged)"

definition merge_options :: "(string \<Rightarrow> string \<Rightarrow> string) \<Rightarrow> string option \<Rightarrow> string option \<Rightarrow> string option" where
  "merge_options f x y = (case (x, y) of (Some a, Some b) \<Rightarrow> Some (f a b) | (Some a, None) \<Rightarrow> Some a | (None, b) \<Rightarrow> b)"

definition merge_observed_window :: "string option \<Rightarrow> string option \<Rightarrow> string option \<Rightarrow> string option \<Rightarrow> string option \<times> string option" where
  "merge_observed_window hot_start hot_end receipt_start receipt_end =
     (let ms = merge_options min (date_prefix hot_start) (date_prefix receipt_start);
          me = merge_options max (date_prefix hot_end) (date_prefix receipt_end) in
      if ms = None \<and> me = None then (hot_start, hot_end) else (keep_hot ms hot_start, keep_hot me hot_end))"

definition calendar_days_between :: "string \<Rightarrow> string \<Rightarrow> int option" where
  "calendar_days_between s e =
     (case (fromisoformat (take 10 s), fromisoformat (take 10 e)) of
        (Some a, Some b) \<Rightarrow> Some (int (toordinal b) - int (toordinal a))
      | _ \<Rightarrow> None)"

record check_result =
  ck_id :: string
  ck_dataset :: "string option"
  ck_status :: string
  ck_detail :: string
  ck_metrics :: dict

definition freshness_result :: "string \<Rightarrow> string \<Rightarrow> string \<Rightarrow> int \<Rightarrow> int \<Rightarrow> json \<Rightarrow> check_result" where
  "freshness_result ds receipt_hi ref max_days days hot =
     \<lparr>ck_id = ''C8'', ck_dataset = Some ds, ck_status = (if days \<le> max_days then ''pass'' else ''fail''),
      ck_detail = (if days \<le> max_days then int_str days @ '' day(s) since latest event_time''
                   else ''stale: '' @ int_str days @ '' day(s) > '' @ int_str max_days),
      ck_metrics = [(''latest_event_time'', JStr receipt_hi), (''reference'', JStr ref), (''max_days'', JInt max_days), (''days_lag'', JInt days),
                    (''source'', JStr ''receipt_observed_end''), (''hot_latest_event_time'', hot)]\<rparr>"

definition is_c8_of :: "string \<Rightarrow> check_result \<Rightarrow> bool" where
  "is_c8_of ds r \<longleftrightarrow> ck_id r = ''C8'' \<and> (case ck_dataset r of None \<Rightarrow> [] | Some d \<Rightarrow> d) = ds"

definition hot_is_newer :: "(json \<Rightarrow> string) \<Rightarrow> string \<Rightarrow> check_result \<Rightarrow> bool" where
  "hot_is_newer pystr receipt_hi r \<longleftrightarrow>
     (let hot = dict_get (ck_metrics r) ''latest_event_time'' in
      if hot = JNull then False
      else case date_prefix (Some (str_of pystr hot)) of None \<Rightarrow> False | Some h \<Rightarrow> receipt_hi \<le> h)"

definition apply_receipt_freshness_c8 ::
    "(json \<Rightarrow> string) \<Rightarrow> check_result list \<Rightarrow> string \<Rightarrow> string option \<Rightarrow> string \<Rightarrow> int \<Rightarrow> check_result list" where
  "apply_receipt_freshness_c8 pystr evidence ds receipt_end reference freshness_days =
     (case receipt_end of
        None \<Rightarrow> evidence
      | Some re \<Rightarrow>
          let ref = (case date_prefix (Some reference) of Some r \<Rightarrow> r | None \<Rightarrow> take 10 reference) in
          (case date_prefix (Some re) of
             None \<Rightarrow> evidence
           | Some receipt_hi \<Rightarrow>
               (case calendar_days_between receipt_hi ref of
                  None \<Rightarrow> evidence
                | Some days \<Rightarrow>
                    let rescored = (\<lambda>r. is_c8_of ds r \<and> \<not> hot_is_newer pystr receipt_hi r);
                        out = map (\<lambda>r. if rescored r
                          then freshness_result ds receipt_hi ref freshness_days days (dict_get (ck_metrics r) ''latest_event_time'') else r) evidence
                    in if \<exists>r \<in> set evidence. rescored r then out
                       else out @ [freshness_result ds receipt_hi ref freshness_days days JNull])))"

definition last_check :: "check_result list \<Rightarrow> string \<Rightarrow> check_result option" where
  "last_check results k = List.find (\<lambda>r. ck_id r = k) (rev results)"

definition metric :: "check_result option \<Rightarrow> string \<Rightarrow> json" where
  "metric r k = (case r of None \<Rightarrow> JNull | Some x \<Rightarrow> dict_get (ck_metrics x) k)"

definition dataset_status :: "check_result list \<Rightarrow> string \<times> int \<times> json \<times> json" where
  "dataset_status results =
     (let row_count = int_of (metric (last_check results ''C3'') ''row_count'');
          os = metric (last_check results ''C4'') ''event_time_min''; oe = metric (last_check results ''C4'') ''event_time_max'' in
      if \<exists>r \<in> set results. ck_id r \<in> set [''C1'', ''C2'', ''C3'', ''C4'', ''C5''] \<and> ck_status r = ''fail'' then (''FAILED'', row_count, os, oe)
      else if (case last_check results ''C8'' of None \<Rightarrow> False | Some r \<Rightarrow> ck_status r = ''fail'') then (''STALE'', row_count, os, oe)
      else if metric (last_check results ''C2'') ''source'' \<noteq> JStr ''ingestion_validation'' then (''UNKNOWN'', row_count, os, oe)
      else if metric (last_check results ''C2'') ''validation_status'' \<noteq> JStr ''pass'' then (''FAILED'', row_count, os, oe)
      else (''COMPLETE'', row_count, os, oe))"

subsection \<open>Maxima and the index\<close>

lemma max_by_split:
  "\<exists>as bs. x # ys = as @ max_by k x ys # bs \<and> (\<forall>a \<in> set as. k a < k (max_by k x ys)) \<and> (\<forall>b \<in> set bs. k b \<le> k (max_by k x ys))"
proof (induction ys arbitrary: x)
  case Nil
  show ?case by (intro exI [of _ "[]"]) simp
next
  case (Cons y ys)
  let ?z = "if k x < k y then y else x"
  obtain as bs where IH: "?z # ys = as @ max_by k ?z ys # bs" "\<forall>a \<in> set as. k a < k (max_by k ?z ys)" "\<forall>b \<in> set bs. k b \<le> k (max_by k ?z ys)"
    using Cons.IH [of ?z] by blast
  show ?case
  proof (cases "k x < k y")
    case True
    then have eq: "max_by k x (y # ys) = max_by k y ys" by simp
    have "x # y # ys = (x # as) @ max_by k y ys # bs" using IH(1) True by simp
    moreover have "k x < k (max_by k y ys)" using IH True by (cases as) auto
    ultimately show ?thesis using IH(2,3) True unfolding eq by (intro exI [of _ "x # as"] exI [of _ bs]) simp
  next
    case False
    then have eq: "max_by k x (y # ys) = max_by k x ys" by simp
    show ?thesis
    proof (cases as)
      case Nil
      then have "max_by k x ys = x" "bs = ys" using IH(1) False by auto
      then show ?thesis using IH False unfolding eq by (intro exI [of _ "[]"] exI [of _ "y # ys"]) auto
    next
      case (Cons a as')
      then have "x # y # ys = (x # y # as') @ max_by k x ys # bs" "k x < k (max_by k x ys)" using IH False by auto
      then show ?thesis using IH Cons False unfolding eq by (intro exI [of _ "x # y # as'"] exI [of _ bs]) auto
    qed
  qed
qed

lemma max_by_prefix:
  "\<forall>a \<in> set as. k a < k x \<Longrightarrow> \<forall>b \<in> set bs. k b \<le> k x \<Longrightarrow> k z < k x \<Longrightarrow> max_by k z (as @ x # bs) = x"
proof (induction as arbitrary: z)
  case Nil
  have "\<forall>b \<in> set bs. k b \<le> k x \<Longrightarrow> max_by k x bs = x" by (induction bs) (auto simp: not_less)
  then show ?case using Nil by simp
qed simp

lemma max_item_iff:
  "max_item k xs = Some x \<longleftrightarrow> (\<exists>as bs. xs = as @ x # bs \<and> (\<forall>a \<in> set as. k a < k x) \<and> (\<forall>b \<in> set bs. k b \<le> k x))"
proof
  assume "max_item k xs = Some x"
  then show "\<exists>as bs. xs = as @ x # bs \<and> (\<forall>a \<in> set as. k a < k x) \<and> (\<forall>b \<in> set bs. k b \<le> k x)"
    using max_by_split [of "hd xs" "tl xs" k] by (cases xs) (auto simp: max_item_def)
next
  assume "\<exists>as bs. xs = as @ x # bs \<and> (\<forall>a \<in> set as. k a < k x) \<and> (\<forall>b \<in> set bs. k b \<le> k x)"
  then obtain as bs where xs: "xs = as @ x # bs" "\<forall>a \<in> set as. k a < k x" "\<forall>b \<in> set bs. k b \<le> k x" by blast
  have "\<forall>b \<in> set bs. k b \<le> k x \<Longrightarrow> max_by k x bs = x" by (induction bs) (auto simp: not_less)
  then show "max_item k xs = Some x" using xs by (cases as) (auto simp: max_item_def max_by_prefix)
qed

lemma max_item_None [simp]: "max_item k xs = None \<longleftrightarrow> xs = []"
  by (cases xs) (auto simp: max_item_def)

lemma max_item_Nil [simp]: "max_item k [] = None"
  by (simp add: max_item_def)

lemma max_item_in: "max_item k xs = Some x \<Longrightarrow> x \<in> set xs \<and> (\<forall>y \<in> set xs. k y \<le> k x)"
  by (auto simp: max_item_iff less_imp_le)

lemma max_item_filter:
  assumes "\<exists>x \<in> set xs. P x" "\<And>x y. P x \<Longrightarrow> \<not> P y \<Longrightarrow> k y < k x"
  shows "max_item k (filter P xs) = max_item k xs"
proof -
  obtain x where x: "max_item k xs = Some x" using assms(1) by (cases "max_item k xs") auto
  obtain as bs where "xs = as @ x # bs" "\<forall>a \<in> set as. k a < k x" "\<forall>b \<in> set bs. k b \<le> k x" using x by (auto simp: max_item_iff)
  moreover have "P x" using assms max_item_in [OF x] by (meson not_less)
  ultimately have "max_item k (filter P xs) = Some x" unfolding max_item_iff by (intro exI [of _ "filter P as"] exI [of _ "filter P bs"]) auto
  then show ?thesis using x by simp
qed

lemma index_lookup:
  "(case map_of (index_prepared_receipts ps) k of None \<Rightarrow> [] | Some qs \<Rightarrow> qs) = filter (\<lambda>p. prepared_key p = k) ps"
proof (induction ps rule: rev_induct)
  case (snoc p ps)
  then show ?case by (auto simp: index_prepared_receipts_def index_add_def update_conv' split: option.splits)
qed (simp add: index_prepared_receipts_def)

lemma best_prepared_eq: "best_prepared (index_prepared_receipts ps) s = max_item rank_of (filter (\<lambda>p. prepared_key p = required_key s) ps)"
  by (simp add: best_prepared_def index_lookup)

lemma trusted_outranks: "is_trusted p \<Longrightarrow> \<not> is_trusted q \<Longrightarrow> rank_of q < rank_of p"
  by (simp add: rank_of_def)

subsection \<open>What a verified closure shows\<close>

lemma verified_extra_keys:
  assumes "verify_collection_closure env r e a required policy raw sd = Inr c"
  shows "set (map fst (cl_extra_digests c)) = set (expected_extra_fields (vc_claims c))"
proof -
  obtain f where f: "vc_claims c = fi_claims f" "validate_bound_closure_fields env f e a True required policy raw sd = Inr ()"
    using assms by (rule verify_facts)
  have "validate_v3_dataset_digest_inventory (fi_claims f) = Inr ()"
    using validate_bound_facts(2) [OF f(2)] by (auto simp: check_schema_def bind_res_Inr_iff)
  then show ?thesis unfolding validate_v3_dataset_digest_inventory_def Let_def bind_res_Inr_iff require_iff cl_extra_digests_def f(1) by blast
qed

lemma no_signed_empty_marker: "expected_empty_with_evidence \<notin> set (expected_extra_fields claims)"
  by (simp add: expected_empty_with_evidence_def expected_extra_fields_def authority_base_extra_fields_def master_calendar_extra_fields_def)

lemma dict_get_absent: "k \<notin> set (map fst d) \<Longrightarrow> dict_get d k = JNull"
  by (simp add: dict_get_def map_of_eq_None_iff split: option.splits)
    (metis image_eqI map_of_SomeD fst_conv)

lemma verified_raw_evidence:
  assumes "verify_collection_closure env r e a required policy raw sd = Inr c"
  shows "has_nonempty_trusted_raw_evidence c \<longleftrightarrow> 0 < cl_int c ''raw_count''"
  using verified_extra_keys [OF assms] no_signed_empty_marker [of "vc_claims c"]
  by (auto simp: has_nonempty_trusted_raw_evidence_def dict_get_absent)

lemma prepare_receipt_closure:
  assumes "prepare_receipt env e a r = Inr q"
  shows "pp_receipt q = r" "pp_closure q = Some c \<Longrightarrow> require_verified_collection_closure env r e a = Inr c"
  using assms by (auto simp: prepare_receipt_def split: sum.splits rc_error.splits)

text \<open>What \<open>COMPLETE\<close> means for one segment.\<close>

definition closure_satisfies :: "registry \<Rightarrow> coverage_contract \<Rightarrow> required_segment \<Rightarrow> verified_closure \<Rightarrow> bool" where
  "closure_satisfies reg p s c \<longleftrightarrow>
     cl_str c ''status'' = ''SUCCESS'' \<and> cl_bool c ''pagination_exhausted'' \<and> cl_bool c ''discovery_exhausted''
     \<and> (cl_int c ''observed_items'' = 0 \<longrightarrow> cc_expected_frequency p = ''event_driven'' \<and> \<not> empty_observed_forbids_complete reg p)
     \<and> (cc_expected_frequency p = ''event_driven'' \<or> rs_expected_items s \<noteq> None)
     \<and> (case cl_expected_items c of None \<Rightarrow> True | Some n \<Rightarrow> cl_int c ''observed_items'' = n)
     \<and> (cc_raw_retention_required p \<longrightarrow> 1 \<le> cl_int c ''raw_page_count'' \<and> cl_str c ''raw_digest'' \<noteq> [])
     \<and> (cc_structured_reconciliation_required p \<longrightarrow> cl_int c ''raw_count'' = cl_int c ''structured_count'')
     \<and> has_nonempty_trusted_raw_evidence c"

lemma evaluate_closure_complete: "fst (evaluate_closure reg p s c) = ''COMPLETE'' \<longleftrightarrow> closure_satisfies reg p s c"
  by (auto simp: evaluate_closure_def closure_satisfies_def split: option.splits)

lemma evaluate_prepared_complete:
  "evaluate_prepared_segment reg p s prepared = Inr (''COMPLETE'', d, c) \<longleftrightarrow>
     (\<exists>q v. prepared = Some q \<and> pp_closure q = Some v \<and> c = Some v \<and> require_scope v s (cc_policy_version p) = Inr ()
        \<and> closure_satisfies reg p s v \<and> d = snd (evaluate_closure reg p s v))"
  by (auto simp: evaluate_prepared_segment_def evaluate_closure_complete [symmetric] split: option.splits sum.splits rc_error.splits)

lemma evaluate_one_complete:
  assumes "evaluate_one reg p (index_prepared_receipts ps) s = Inr ev" "es_status ev = ''COMPLETE''"
  shows "\<exists>q v. q \<in> set ps \<and> best_prepared (index_prepared_receipts ps) s = Some q \<and> pp_closure q = Some v \<and> es_closure ev = Some v
    \<and> es_receipt ev = Some (pp_receipt q) \<and> require_scope v s (cc_policy_version p) = Inr () \<and> closure_satisfies reg p s v"
proof -
  obtain d c where "evaluate_prepared_segment reg p s (best_prepared (index_prepared_receipts ps) s) = Inr (''COMPLETE'', d, c)"
      "ev = \<lparr>es_required = s, es_receipt = map_option pp_receipt (best_prepared (index_prepared_receipts ps) s), es_status = ''COMPLETE'', es_detail = d, es_closure = c\<rparr>"
    using assms by (auto simp: evaluate_one_def bind_res_Inr_iff)
  moreover have "q \<in> set ps" if "best_prepared (index_prepared_receipts ps) s = Some q" for q
    using max_item_in [OF that [unfolded best_prepared_eq]] by simp
  ultimately show ?thesis unfolding evaluate_prepared_complete by auto
qed

lemma aggregate_complete: "aggregate_statuses sts = ''COMPLETE'' \<longleftrightarrow> sts \<noteq> [] \<and> (\<forall>x \<in> set sts. x = ''COMPLETE'')"
  by (auto simp: aggregate_statuses_def)

lemma prepared_from_receipts:
  assumes "prepare_receipts env e a rs = Inr ps" "q \<in> set ps" "pp_closure q = Some v"
  shows "\<exists>r \<in> set rs. pp_receipt q = r \<and> require_verified_collection_closure env r e a = Inr v"
  using map_res_Inr_set [OF assms(1) [unfolded prepare_receipts_def] assms(2)] prepare_receipt_closure assms(3) by metis

abbreviation production_digest :: string where
  "production_digest \<equiv> pinned_instance_digest production_receipt_environment"

lemma prepared_complete_verified:
  assumes "prepare_receipts env e a rs = Inr ps" "q \<in> set ps" "pp_closure q = Some v"
    "require_scope v s (cc_policy_version p) = Inr ()" "closure_satisfies reg p s v"
  shows "\<exists>r \<in> set rs. pp_receipt q = r \<and> verify_collection_closure env r e a (Some s) (cc_policy_version p) None None = Inr v
    \<and> closure_satisfies reg p s v \<and> 0 < cl_int v ''raw_count''"
proof -
  obtain r where r: "r \<in> set rs" "pp_receipt q = r" "require_verified_collection_closure env r e a = Inr v" using prepared_from_receipts [OF assms(1-3)] by blast
  then have "verify_collection_closure env r e a (Some s) (cc_policy_version p) None None = Inr v"
    using assms(4) by (auto simp: verify_unit_bind bind_res_Inr_iff require_scope_def)
  moreover from this have "0 < cl_int v ''raw_count''" using assms(5) by (simp add: closure_satisfies_def verified_raw_evidence)
  ultimately show ?thesis using r(1,2) assms(5) by blast
qed

lemma count_list_pos: "0 < count_list xs x \<longleftrightarrow> x \<in> set xs"
  by (induction xs) auto

lemma sum_counts:
  assumes "distinct ks" "set xs \<subseteq> set ks"
  shows "sum_list (map (\<lambda>k. int (count_list xs k)) ks) = int (length xs)"
  using assms(2)
proof (induction xs)
  case (Cons x xs)
  have "(\<Sum>k\<leftarrow>ks. int (count_list (x # xs) k)) = (\<Sum>k\<leftarrow>ks. (if x = k then 1 else 0) + int (count_list xs k))"
    by (rule arg_cong [of _ _ sum_list], rule map_cong) auto
  also have "\<dots> = (\<Sum>k\<leftarrow>ks. if x = k then 1 else 0) + (\<Sum>k\<leftarrow>ks. int (count_list xs k))" by (simp add: sum_list_addf)
  also have "(\<Sum>k\<leftarrow>ks. if x = k then 1 else 0) = (1 :: int)"
    using assms(1) Cons.prems by (simp add: sum_list_distinct_conv_sum_set)
  finally show ?case using Cons by simp
qed simp

lemma count_list_length: "count_list xs x = length xs \<longleftrightarrow> (\<forall>y \<in> set xs. y = x)"
proof (induction xs)
  case (Cons y ys)
  then show ?case using count_le_length [of ys x] by auto
qed simp

lemma positive_counts:
  assumes "distinct (map fst counts)" "\<forall>(k, n) \<in> set counts. n = int (count_list sts k)" "set sts \<subseteq> set (map fst counts)"
  shows "sum_list (map snd (filter (\<lambda>(s, n). 0 < n) counts)) = int (length sts)"
    "(case map_of (filter (\<lambda>(s, n). 0 < n) counts) k of None \<Rightarrow> 0 | Some n \<Rightarrow> n) = int (count_list sts k)"
proof -
  let ?c = "filter (\<lambda>(s, n). 0 < n) counts"
  have n: "snd x = int (count_list sts (fst x))" if "x \<in> set counts" for x using assms(2) that by auto
  have "map snd ?c = map (\<lambda>k. int (count_list sts k)) (map fst ?c)" using n by auto
  moreover have "set sts \<subseteq> set (map fst ?c)"
  proof
    fix x assume x: "x \<in> set sts"
    then obtain y where y: "y \<in> set counts" "fst y = x" using assms(3) by auto
    then have "y \<in> set ?c" using n [OF y(1)] x count_list_pos [of sts x] by (simp add: case_prod_beta)
    then show "x \<in> set (map fst ?c)" using y(2) by force
  qed
  ultimately show "sum_list (map snd ?c) = int (length sts)"
    using sum_counts [of "map fst ?c" sts] assms(1) by (simp only: distinct_map_filter)
  show "(case map_of ?c k of None \<Rightarrow> 0 | Some n \<Rightarrow> n) = int (count_list sts k)"
  proof (cases "map_of ?c k")
    case None
    then have "k \<notin> set sts" using \<open>set sts \<subseteq> set (map fst ?c)\<close> by (auto simp: map_of_eq_None_iff)
    then show ?thesis using None count_list_pos [of sts k] by simp
  next
    case (Some m)
    then have "(k, m) \<in> set counts" by (auto dest: map_of_SomeD)
    then show ?thesis using Some n by fastforce
  qed
qed

lemma last_check_snoc: "last_check (rs @ [r]) k = (if ck_id r = k then Some r else last_check rs k)"
  by (simp add: last_check_def)

lemma date_prefix_isoformat: "date_prefix (Some (isoformat d)) = Some (isoformat d)"
  by (simp add: date_prefix_def)

definition sample_eval_policy :: coverage_contract where
  "sample_eval_policy = (sample_policy ''fins_summary'' ''calendar_month'')
     \<lparr>cc_history_target_start := ''2024-01-01'', cc_policy_version := Some ''collection-coverage/v3''\<rparr>"

definition sample_check :: "string \<Rightarrow> string \<Rightarrow> dict \<Rightarrow> check_result" where
  "sample_check k st ms = \<lparr>ck_id = k, ck_dataset = Some ''fins_summary'', ck_status = st, ck_detail = [], ck_metrics = ms\<rparr>"

definition sample_evidence :: "check_result list" where
  "sample_evidence =
     [sample_check ''C2'' ''pass'' [(''source'', JStr ''ingestion_validation''), (''validation_status'', JStr ''pass'')],
      sample_check ''C8'' ''pass'' [(''latest_event_time'', JStr (isoformat (Date 2024 3 9)))]]"

lemma sample_satisfies: "closure_satisfies [] sample_eval_policy sample_segment sample_closure"
  by code_simp

lemma sample_scope_ok: "require_scope sample_closure sample_segment (cc_policy_version sample_eval_policy) = Inr ()"
  using sample_verifies_scope by (auto simp: verify_unit_bind bind_res_Inr_iff require_scope_def sample_verifies sample_eval_policy_def)

definition sample_prepared :: prepared_receipt where
  "sample_prepared = \<lparr>pp_receipt = sample_receipt, pp_closure = Some sample_closure, pp_error = None\<rparr>"

lemma sample_prepares: "prepare_receipts sample_receipt_env ''production'' (pinned_instance_digest ''production'') [sample_receipt] = Inr [sample_prepared]"
  by (simp add: prepare_receipts_def prepare_receipt_def sample_verifies sample_prepared_def)

lemma sample_key: "prepared_key sample_prepared = required_key sample_segment"
  unfolding prepared_key_def sample_prepared_def by (simp add: closure_key_def) code_simp

lemma sample_evaluates:
  "\<exists>evs. evaluate_required_segments sample_receipt_env [] sample_eval_policy [sample_segment] [sample_receipt] = Inr (''COMPLETE'', evs)"
proof -
  have "best_prepared (index_prepared_receipts [sample_prepared]) sample_segment = Some sample_prepared"
    by (simp add: best_prepared_eq sample_key max_item_def)
  moreover have "evaluate_prepared_segment [] sample_eval_policy sample_segment (Some sample_prepared)
      = Inr (''COMPLETE'', snd (evaluate_closure [] sample_eval_policy sample_segment sample_closure), Some sample_closure)"
    unfolding evaluate_prepared_complete by (simp add: sample_prepared_def sample_satisfies sample_scope_ok)
  ultimately show ?thesis
    using sample_prepares
    by (simp add: evaluate_required_segments_def production_receipt_environment_def evaluate_prepared_segments_def evaluate_one_def aggregate_statuses_def)
qed

subsection \<open>Properties of the evaluation\<close>

text \<open>C24: Coverage is complete only on signed evidence. When the evaluation of required segments answers \<open>COMPLETE\<close> there
  is at least one required segment, and every one of them has a receipt among those given that verifies for the
  production authority against that very segment and policy version, reports success with discovery and pagination
  exhausted, observed the expected items, kept raw pages, reconciles raw and structured rows where the policy asks for it, and carries at least one raw row.\<close>

theorem complete_needs_verified_receipts:
  assumes "evaluate_required_segments env reg p segs receipts = Inr (''COMPLETE'', evs)"
  shows "segs \<noteq> [] \<and> (\<forall>s \<in> set segs. \<exists>r \<in> set receipts. \<exists>c.
    verify_collection_closure env r production_receipt_environment production_digest (Some s) (cc_policy_version p) None None = Inr c
    \<and> closure_satisfies reg p s c \<and> 0 < cl_int c ''raw_count'')"
proof -
  obtain ps where ps: "prepare_receipts env production_receipt_environment production_digest receipts = Inr ps"
      and evs: "map_res (evaluate_one reg p (index_prepared_receipts ps)) segs = Inr evs" and agg: "aggregate_statuses (map es_status evs) = ''COMPLETE''"
    using assms by (auto simp: evaluate_required_segments_def evaluate_prepared_segments_def bind_res_Inr_iff)
  have "\<exists>r \<in> set receipts. \<exists>c. verify_collection_closure env r production_receipt_environment production_digest (Some s) (cc_policy_version p) None None = Inr c
      \<and> closure_satisfies reg p s c \<and> 0 < cl_int c ''raw_count''" if "s \<in> set segs" for s
  proof -
    obtain i where i: "i < length segs" "segs ! i = s" using \<open>s \<in> set segs\<close> by (auto simp: in_set_conv_nth)
    have "i < length evs" using i(1) map_res_Inr_length [OF evs] by simp
    then have one: "evaluate_one reg p (index_prepared_receipts ps) s = Inr (evs ! i)" "es_status (evs ! i) = ''COMPLETE''"
      using map_res_Inr_nth [OF evs i(1)] i(2) agg unfolding aggregate_complete by auto
    obtain q v where "q \<in> set ps" "pp_closure q = Some v" "require_scope v s (cc_policy_version p) = Inr ()" "closure_satisfies reg p s v"
      using evaluate_one_complete [OF one] by blast
    then show ?thesis using prepared_complete_verified [OF ps] by blast
  qed
  moreover have "segs \<noteq> []" using agg evs map_res_Inr_length [OF evs] by (auto simp: aggregate_complete)
  ultimately show ?thesis by blast
qed

theorem complete_needs_verified_receipts_witness:
  "\<exists>c. verify_collection_closure sample_receipt_env sample_receipt production_receipt_environment production_digest (Some sample_segment)
     (cc_policy_version sample_eval_policy) None None = Inr c \<and> 0 < cl_int c ''raw_count''"
  using sample_evaluates complete_needs_verified_receipts [of sample_receipt_env "[]" sample_eval_policy "[sample_segment]" "[sample_receipt]"] by auto

text \<open>C25: A receipt without verified raw evidence never displaces one that has it. When one of the receipts for a segment is
  trusted, the receipt chosen for the segment is the one chosen among the trusted receipts alone, so forged, recovered
  or empty receipts, whatever their counts and times, change nothing.\<close>

theorem untrusted_never_displaces:
  assumes "q \<in> set ps" "is_trusted q" "prepared_key q = required_key s"
  shows "best_prepared (index_prepared_receipts ps) s = best_prepared (index_prepared_receipts (filter is_trusted ps)) s
    \<and> (\<exists>b. best_prepared (index_prepared_receipts ps) s = Some b \<and> is_trusted b \<and> rank_of q \<le> rank_of b)"
proof -
  let ?xs = "filter (\<lambda>p. prepared_key p = required_key s) ps"
  have eq: "max_item rank_of (filter is_trusted ?xs) = max_item rank_of ?xs"
    by (rule max_item_filter) (use assms trusted_outranks in auto)
  have com: "filter (\<lambda>p. prepared_key p = required_key s) (filter is_trusted ps) = filter is_trusted ?xs" by (simp add: conj_commute)
  have q: "q \<in> set (filter is_trusted ?xs)" using assms by simp
  then obtain b where b: "max_item rank_of (filter is_trusted ?xs) = Some b" by (cases "max_item rank_of (filter is_trusted ?xs)") (simp_all only: max_item_None, simp)
  have "is_trusted b \<and> rank_of q \<le> rank_of b" using max_item_in [OF b] q by simp
  then show ?thesis unfolding best_prepared_eq com using eq b by simp
qed

theorem untrusted_never_displaces_witness:
  "best_prepared (index_prepared_receipts [sample_prepared\<lparr>pp_closure := None\<rparr>, sample_prepared]) sample_segment = Some sample_prepared"
proof -
  have t: "is_trusted sample_prepared" "\<not> is_trusted (sample_prepared\<lparr>pp_closure := None\<rparr>)"
    using sample_satisfies by (simp_all add: is_trusted_def sample_prepared_def closure_satisfies_def)
  show ?thesis
    using untrusted_never_displaces [of sample_prepared "[sample_prepared\<lparr>pp_closure := None\<rparr>, sample_prepared]" sample_segment] t
    by (simp add: best_prepared_eq sample_key max_item_def)
qed

text \<open>C38: The two aggregations agree: the status computed from the status counts of the segment table equals the status
  the evaluation computes from the list of segment statuses, except that no segment is \<open>UNKNOWN\<close> to the first and
  \<open>PARTIAL\<close> to the second.\<close>

theorem aggregations_agree:
  assumes "distinct (map fst counts)" "\<forall>(k, n) \<in> set counts. n = int (count_list sts k)" "set sts \<subseteq> set (map fst counts)"
  shows "aggregate_status_from_segment_counts counts = (if sts = [] then ''UNKNOWN'' else aggregate_statuses sts)"
  unfolding aggregate_status_from_segment_counts_def Let_def positive_counts [OF assms] aggregate_statuses_def
  using count_list_length [of sts "''COMPLETE''"] count_list_pos [of sts "''FAILED''"] by auto

theorem aggregations_agree_witness:
  "aggregate_status_from_segment_counts [(''COMPLETE'', 2), (''PARTIAL'', 1)] = ''PARTIAL''"
  using aggregations_agree [of "[(''COMPLETE'', 2), (''PARTIAL'', 1)]" "[''COMPLETE'', ''PARTIAL'', ''COMPLETE'']"] by (simp add: aggregate_statuses_def)

text \<open>C39: Re-scoring freshness from receipts can only see the receipt. When the stored facts are at least as recent as the last
  receipt, the freshness check of the receipt is still appended after theirs and decides: a dataset whose own freshness
  check passes is \<open>STALE\<close> as soon as its last receipt is older than the limit.\<close>

theorem older_receipt_overrides_fresh_facts:
  assumes "date_prefix (Some re) = Some hi" "date_prefix (Some reference) = Some ref" "calendar_days_between hi ref = Some days" "limit < days"
    "\<forall>r \<in> set evidence. is_c8_of ds r \<longrightarrow> hot_is_newer pystr hi r"
    "\<forall>r \<in> set evidence. ck_id r \<in> set [''C1'', ''C2'', ''C3'', ''C4'', ''C5''] \<longrightarrow> ck_status r \<noteq> ''fail''"
  shows "fst (dataset_status (apply_receipt_freshness_c8 pystr evidence ds (Some re) reference limit)) = ''STALE''"
proof -
  have "apply_receipt_freshness_c8 pystr evidence ds (Some re) reference limit = evidence @ [freshness_result ds hi ref limit days JNull]"
    using assms by (auto simp: apply_receipt_freshness_c8_def Let_def intro!: map_idI)
  then show ?thesis using assms(4,6) by (auto simp: dataset_status_def Let_def last_check_snoc freshness_result_def)
qed

theorem older_receipt_overrides_fresh_facts_witness:
  "fst (dataset_status sample_evidence) = ''COMPLETE''
   \<and> fst (dataset_status (apply_receipt_freshness_c8 (\<lambda>_. []) sample_evidence ''fins_summary'' (Some (isoformat (Date 2024 1 31))) (isoformat (Date 2024 3 10)) 7)) = ''STALE''"
proof -
  have v: "valid_date (Date 2024 1 31)" "valid_date (Date 2024 3 10)" "valid_date (Date 2024 3 9)" by (simp_all add: valid_date_def days_in_month_def is_leap_def)
  have days: "calendar_days_between (isoformat (Date 2024 1 31)) (isoformat (Date 2024 3 10)) = Some 39"
    using v days_before_month.simps [of 2024] by (simp add: calendar_days_between_def toordinal_def days_before_year_def numeral_3_eq_3 numeral_2_eq_2 days_in_month_def is_leap_def)
  have hot: "\<forall>r \<in> set sample_evidence. is_c8_of ''fins_summary'' r \<longrightarrow> hot_is_newer (\<lambda>_. []) (isoformat (Date 2024 1 31)) r"
    using v by (simp add: sample_evidence_def sample_check_def is_c8_of_def hot_is_newer_def dict_get_def date_prefix_isoformat str_of_def isoformat_le_iff)
  have ok: "\<forall>r \<in> set sample_evidence. ck_id r \<in> set [''C1'', ''C2'', ''C3'', ''C4'', ''C5''] \<longrightarrow> ck_status r \<noteq> ''fail''"
    by (simp add: sample_evidence_def sample_check_def)
  have "fst (dataset_status sample_evidence) = ''COMPLETE''"
    by (simp add: sample_evidence_def sample_check_def dataset_status_def last_check_def metric_def dict_get_def Let_def)
  then show ?thesis
    using older_receipt_overrides_fresh_facts [OF date_prefix_isoformat date_prefix_isoformat days _ hot ok, of 7] by simp
qed

end
