(* ===== verification/LedgerJson.thy ===== *)
theory LedgerJson
  imports JsonText "HOL-Library.AList"
begin

section \<open>JSON columns of the ledger\<close>

text \<open>
  \<open>json.loads\<close> without hooks, as the ledger reads its text columns: an object with a repeated key keeps the last value
  at the place of the first, and \<open>NaN\<close> and the infinities are floats. \<open>_canonical_json\<close> of
  \<open>packages/data_plane/storage/coverage_ledger.py\<close> refuses those again. On a text the strict reader of the signed documents
  accepts, both readers agree.
\<close>

definition dict_of_pairs :: "(string \<times> json) list \<Rightarrow> (string \<times> json) list" where
  "dict_of_pairs ps = fold (\<lambda>(k, v). AList.update k v) ps []"

definition plain_literal :: "string \<Rightarrow> (json_error, json \<times> string) result" where
  "plain_literal s = (case scan_literal s of Inl (NonFinite t) \<Rightarrow> Inr (JFloat t, drop (length t) s) | r \<Rightarrow> r)"

fun plain_value :: "nat \<Rightarrow> string \<Rightarrow> (json_error, json \<times> string) result"
and plain_elems :: "nat \<Rightarrow> string \<Rightarrow> (json_error, json list \<times> string) result"
and plain_members :: "nat \<Rightarrow> string \<Rightarrow> (json_error, (string \<times> json) list \<times> string) result" where
  "plain_value 0 s = Inl OutOfFuel"
| "plain_value (Suc n) s =
     (case s of
        [] \<Rightarrow> Inl BadJson
      | c # t \<Rightarrow>
          if c = quote then bind_res (scan_string t) (\<lambda>(str, r). Inr (JStr str, r))
          else if c = CHR ''['' then
            (case skip_ws t of
               [] \<Rightarrow> Inl BadJson
             | d # r \<Rightarrow> if d = CHR '']'' then Inr (JArr [], r)
                        else bind_res (plain_elems n (d # r)) (\<lambda>(vs, r'). Inr (JArr vs, r')))
          else if c = CHR ''{'' then
            (case skip_ws t of
               [] \<Rightarrow> Inl BadJson
             | d # r \<Rightarrow> if d = CHR ''}'' then Inr (JObj [], r)
                        else bind_res (plain_members n (d # r)) (\<lambda>(ps, r'). Inr (JObj (dict_of_pairs ps), r')))
          else plain_literal s)"
| "plain_elems 0 s = Inl OutOfFuel"
| "plain_elems (Suc n) s =
     bind_res (plain_value n s) (\<lambda>(v, r).
       case skip_ws r of
         [] \<Rightarrow> Inl BadJson
       | d # r' \<Rightarrow>
           if d = CHR '']'' then Inr ([v], r')
           else if d = CHR '','' then bind_res (plain_elems n (skip_ws r')) (\<lambda>(vs, r2). Inr (v # vs, r2))
           else Inl BadJson)"
| "plain_members 0 s = Inl OutOfFuel"
| "plain_members (Suc n) s =
     (case s of
        [] \<Rightarrow> Inl BadJson
      | c # t \<Rightarrow>
          if c \<noteq> quote then Inl BadJson
          else bind_res (scan_string t) (\<lambda>(k, r).
            case skip_ws r of
              [] \<Rightarrow> Inl BadJson
            | d # r1 \<Rightarrow>
                if d \<noteq> CHR '':'' then Inl BadJson
                else bind_res (plain_value n (skip_ws r1)) (\<lambda>(v, r2).
                  case skip_ws r2 of
                    [] \<Rightarrow> Inl BadJson
                  | e # r3 \<Rightarrow>
                      if e = CHR ''}'' then Inr ([(k, v)], r3)
                      else if e = CHR '','' then
                        bind_res (plain_members n (skip_ws r3)) (\<lambda>(ps, r4). Inr ((k, v) # ps, r4))
                      else Inl BadJson)))"

definition plain_loads :: "string \<Rightarrow> (json_error, json) result" where
  "plain_loads s =
     bind_res (plain_value (2 * length s + 2) (skip_ws s)) (\<lambda>(v, r). if skip_ws r = [] then Inr v else Inl BadJson)"

fun non_finite :: "json \<Rightarrow> bool" where
  "non_finite (JFloat t) = (t \<in> set [''NaN'', ''Infinity'', ''-Infinity''])"
| "non_finite (JArr vs) = (\<exists>v \<in> set vs. non_finite v)"
| "non_finite (JObj ps) = (\<exists>v \<in> set (map snd ps). non_finite v)"
| "non_finite _ = False"

text \<open>\<open>_canonical_json\<close>: \<open>None\<close> where \<open>allow_nan=False\<close> raises \<open>ValueError\<close>.\<close>

definition canonical_json :: "json \<Rightarrow> string option" where
  "canonical_json v = (if non_finite v then None else Some (json_dumps v))"

subsection \<open>The strict reader is a restriction\<close>

lemma dict_of_pairs_snoc: "dict_of_pairs (ps @ [p]) = AList.update (fst p) (snd p) (dict_of_pairs ps)"
  by (cases p) (simp add: dict_of_pairs_def)

lemma update_fresh: "k \<notin> set (map fst d) \<Longrightarrow> AList.update k v d = d @ [(k, v)]"
  by (induction d) auto

lemma dict_of_pairs_distinct: "distinct (map fst ps) \<Longrightarrow> dict_of_pairs ps = ps"
proof (induction ps rule: rev_induct)
  case (snoc p ps)
  then show ?case by (cases p) (simp add: dict_of_pairs_snoc update_fresh)
qed (simp add: dict_of_pairs_def)

lemma first_duplicate_None: "first_duplicate seen ps = None \<Longrightarrow> distinct (map fst ps) \<and> set (map fst ps) \<inter> set seen = {}"
proof (induction ps arbitrary: seen)
  case (Cons p ps)
  obtain k v where p: "p = (k, v)" by (cases p)
  then have "k \<notin> set seen" "first_duplicate (k # seen) ps = None" using Cons.prems by (auto split: if_splits)
  then show ?case using Cons.IH [of "k # seen"] p by auto
qed simp

lemma pairs_hook_plain: "pairs_hook ps = Inr v \<Longrightarrow> v = JObj (dict_of_pairs ps)"
  by (auto simp: pairs_hook_def dict_of_pairs_distinct dest: first_duplicate_None split: option.splits)

lemma plain_literal_strict: "scan_literal s = Inr x \<Longrightarrow> plain_literal s = Inr x"
  by (simp add: plain_literal_def)

lemma bind_res_mono:
  assumes "bind_res m f = Inr y" "\<And>x. m = Inr x \<Longrightarrow> m' = Inr x" "\<And>x. f x = Inr y \<Longrightarrow> g x = Inr y"
  shows "bind_res m' g = Inr y"
  using assms by (auto simp: bind_res_Inr_iff)

lemma plain_strict_value:
  "parse_value n s = Inr x \<Longrightarrow> plain_value n s = Inr x"
  "parse_elems n s = Inr y \<Longrightarrow> plain_elems n s = Inr y"
  "parse_members n s = Inr z \<Longrightarrow> plain_members n s = Inr z"
proof (induction n arbitrary: s x y z)
  case 0
  {
    case 1
    then show ?case by simp
  next
    case 2
    then show ?case by simp
  next
    case 3
    then show ?case by simp
  }
next
  case (Suc n)
  note IH = Suc.IH
  {
    case 1
    then show ?case
      by (auto simp: bind_res_Inr_iff plain_literal_strict IH(2,3) quote_not_bracket [THEN not_sym] dest!: pairs_hook_plain split: list.splits if_splits)
  next
    case 2
    show ?case unfolding plain_elems.simps
      by (rule bind_res_mono [OF 2 [unfolded parse_elems.simps] IH(1)]) (auto split: list.splits if_splits elim!: bind_res_mono intro: IH)
  next
    case 3
    show ?case using 3 unfolding plain_members.simps parse_members.simps
      by (auto simp: IH split: list.splits if_splits elim!: bind_res_mono)
  }
qed

lemma plain_loads_strict: "json_loads s = Inr v \<Longrightarrow> plain_loads s = Inr v"
  by (auto simp: json_loads_def plain_loads_def bind_res_Inr_iff simp del: parse_value.simps plain_value.simps dest!: plain_strict_value(1) split: if_splits)

lemma plain_loads_dumps: "exact_json j \<Longrightarrow> plain_loads (json_dumps j) = Inr (canon j)"
  by (rule plain_loads_strict) (rule json_loads_dumps)

lemma exact_finite: "exact_json j \<Longrightarrow> \<not> non_finite j"
  by (induction j) auto

end
