(* ===== verification/CoverageGate.thy ===== *)
theory CoverageGate
  imports CoverageEval LedgerJson
begin

section \<open>The COMPLETE gate of the coverage ledger\<close>

text \<open>
  \<open>packages/data_plane/storage/coverage_ledger.py\<close>: the comparison of the segment table with the inventory regenerated from the
  contracts, the verification of the receipt each segment selects, and the gate a generic refresh passes before it
  writes an aggregate \<open>COMPLETE\<close>; with the policy bindings of \<open>data_contracts/coverage.py\<close>. The two tables are
  lists of rows with the columns of \<open>storage/migrations.py\<close>; a receipt table that cannot be read is \<open>None\<close>. The transaction around
  the reads changes nothing and is left out. A JSON text that cannot be read has the reason \<open>invalid JSON\<close>; a float in a scope keeps its text.
\<close>

datatype gate_error =
    AuthorityUnavailable string
  | GateValueError string
  | GateKeyError string
  | GateReceiptError rc_error
  | GateDbError string
  | GateRuntimeError string
  | GateTypeError string

type_synonym 'a gate = "(gate_error, 'a) result"

record authority =
  au_policies :: policies
  au_registry :: registry

subsection \<open>Policy bindings\<close>

definition opt_json :: "string option \<Rightarrow> json" where
  "opt_json v = (case v of None \<Rightarrow> JNull | Some s \<Rightarrow> JStr s)"

definition coverage_contract_to_dict :: "coverage_contract \<Rightarrow> dict" where
  "coverage_contract_to_dict p =
     [(''dataset_id'', JStr (cc_dataset_id p)), (''collection_scope'', JStr (cc_collection_scope p)),
      (''history_target_start'', JStr (cc_history_target_start p)), (''history_target_end_rule'', JStr (cc_history_target_end_rule p)),
      (''coverage_mode'', JStr (cc_coverage_mode p)), (''expected_frequency'', JStr (cc_expected_frequency p)),
      (''universe_rule'', JStr (cc_universe_rule p)), (''raw_retention_required'', JBool (cc_raw_retention_required p)),
      (''structured_reconciliation_required'', JBool (cc_structured_reconciliation_required p)),
      (''segment_granularity'', JStr (cc_segment_granularity p)), (''governance_tier'', JStr (cc_governance_tier p)),
      (''policy_version'', opt_json (cc_policy_version p)), (''history_mode'', opt_json (cc_history_mode p)),
      (''required_domain_basis'', opt_json (cc_required_domain_basis p)), (''empty_success_policy'', opt_json (cc_empty_success_policy p))]
     @ map (\<lambda>n. (n, opt_json (map_of (cc_vendor_annotations p) n))) (drop 4 cc_optional_strings)"

definition policy_for :: "authority \<Rightarrow> string \<Rightarrow> coverage_contract gate" where
  "policy_for au ds = (case map_of (au_policies au) ds of None \<Rightarrow> Inl (GateKeyError ds) | Some p \<Rightarrow> Inr p)"

definition coverage_policy_digest :: "('a crypto_env_scheme) \<Rightarrow> authority \<Rightarrow> string \<Rightarrow> string gate" where
  "coverage_policy_digest env au ds =
     bind_res (policy_for au ds) (\<lambda>p. Inr (''sha256:'' @ ce_sha256_hex env (json_dumps (JObj (coverage_contract_to_dict p)))))"

record policy_binding =
  pb_policy_id :: string
  pb_policy_version :: string
  pb_policy_digest :: string

definition coverage_policy_binding :: "('a crypto_env_scheme) \<Rightarrow> authority \<Rightarrow> string \<Rightarrow> policy_binding gate" where
  "coverage_policy_binding env au ds =
     bind_res (policy_for au ds) (\<lambda>p.
       case cc_policy_version p of
         None \<Rightarrow> Inl (GateValueError (''coverage policy version missing for '' @ ds))
       | Some v \<Rightarrow>
           if v = [] then Inl (GateValueError (''coverage policy version missing for '' @ ds))
           else bind_res (coverage_policy_digest env au ds) (\<lambda>d. Inr \<lparr>pb_policy_id = ds, pb_policy_version = v, pb_policy_digest = d\<rparr>))"

definition binding_json :: "policy_binding \<Rightarrow> json" where
  "binding_json b = JObj [(''policy_id'', JStr (pb_policy_id b)), (''policy_version'', JStr (pb_policy_version b)), (''policy_digest'', JStr (pb_policy_digest b))]"

text \<open>The binding of a set of datasets: effective version, digest and rows.\<close>

definition coverage_policy_set_binding :: "('a crypto_env_scheme) \<Rightarrow> authority \<Rightarrow> string list \<Rightarrow> (string \<times> string \<times> policy_binding list) gate" where
  "coverage_policy_set_binding env au ids =
     (if ids = [] \<or> \<not> distinct ids then Inl (GateValueError ''coverage policy set requires unique dataset ids'')
      else bind_res (map_res (coverage_policy_binding env au) (sort ids)) (\<lambda>rows.
        let digest = ''sha256:'' @ ce_sha256_hex env (json_dumps (JArr (map binding_json rows)));
            versions = sort (remdups (map pb_policy_version rows))
        in Inr (if length versions = 1 then hd versions else ''mixed:'' @ digest, digest, rows)))"

subsection \<open>Segment identities\<close>

record segment_row =
  sg_source :: string
  sg_dataset :: string
  sg_segment_id :: string
  sg_policy_version :: string
  sg_segment_start :: string
  sg_segment_end :: string
  sg_expected_scope :: string
  sg_expected_items :: "int option"
  sg_status :: string
  sg_receipt_run_id :: "int option"

record identity =
  id_source :: string
  id_dataset :: string
  id_segment_id :: string
  id_policy_id :: string
  id_policy_version :: string
  id_policy_digest :: string
  id_segment_start :: string
  id_segment_end :: string
  id_scope_json :: string
  id_expected_items :: "int option"

definition logical_key :: "identity \<Rightarrow> string \<times> string" where
  "logical_key i = (id_dataset i, id_segment_id i)"

definition storage_key :: "identity \<Rightarrow> string \<times> string \<times> string \<times> string" where
  "storage_key i = (id_source i, id_dataset i, id_segment_id i, id_policy_version i)"

definition identity_dict :: "identity \<Rightarrow> json \<Rightarrow> dict" where
  "identity_dict i scope =
     [(''source'', JStr (id_source i)), (''dataset'', JStr (id_dataset i)), (''segment_id'', JStr (id_segment_id i)),
      (''policy_id'', JStr (id_policy_id i)), (''policy_version'', JStr (id_policy_version i)), (''policy_digest'', JStr (id_policy_digest i)),
      (''segment_start'', JStr (id_segment_start i)), (''segment_end'', JStr (id_segment_end i)), (''expected_scope'', scope),
      (''expected_items'', items_json (id_expected_items i))]"

text \<open>\<open>_canonical_json(identity.to_dict())\<close>.\<close>

definition identity_key :: "identity \<Rightarrow> (string, string) result" where
  "identity_key i =
     (case plain_loads (id_scope_json i) of
        Inl _ \<Rightarrow> Inl ''invalid JSON''
      | Inr scope \<Rightarrow> (case canonical_json (JObj (identity_dict i scope)) of None \<Rightarrow> Inl ''Out of range float values are not JSON compliant'' | Some k \<Rightarrow> Inr k))"

definition canonical_segment_identity :: "('a crypto_env_scheme) \<Rightarrow> authority \<Rightarrow> required_segment \<Rightarrow> identity gate" where
  "canonical_segment_identity env au s =
     bind_res (coverage_policy_binding env au (rs_dataset s)) (\<lambda>b.
       case canonical_json (JObj (rs_expected_scope s)) of
         None \<Rightarrow> Inl (GateValueError ''Out of range float values are not JSON compliant'')
       | Some scope \<Rightarrow>
           Inr \<lparr>id_source = rs_source s, id_dataset = rs_dataset s, id_segment_id = rs_segment_id s, id_policy_id = pb_policy_id b,
                id_policy_version = pb_policy_version b, id_policy_digest = pb_policy_digest b, id_segment_start = rs_segment_start s,
                id_segment_end = rs_segment_end s, id_scope_json = scope, id_expected_items = rs_expected_items s\<rparr>)"

text \<open>A row whose scope cannot be read gives the text of the \<open>ValueError\<close>.\<close>

definition persisted_segment_identity :: "policy_binding \<Rightarrow> segment_row \<Rightarrow> (string, identity) result" where
  "persisted_segment_identity b row =
     (case plain_loads (sg_expected_scope row) of
        Inl _ \<Rightarrow> Inl ''invalid JSON''
      | Inr v \<Rightarrow>
          if \<not> is_object v then Inl ''coverage segment expected_scope must be an object''
          else case canonical_json v of
                 None \<Rightarrow> Inl ''Out of range float values are not JSON compliant''
               | Some scope \<Rightarrow>
                   Inr \<lparr>id_source = sg_source row, id_dataset = sg_dataset row, id_segment_id = sg_segment_id row, id_policy_id = pb_policy_id b,
                        id_policy_version = sg_policy_version row, id_policy_digest = pb_policy_digest b, id_segment_start = sg_segment_start row,
                        id_segment_end = sg_segment_end row, id_scope_json = scope, id_expected_items = sg_expected_items row\<rparr>)"

subsection \<open>Comparing the inventory\<close>

record inventory =
  iv_target_end :: string
  iv_expected_segments :: "required_segment list"
  iv_expected_identities :: "identity list"
  iv_actual :: "identity list"
  iv_missing :: "identity list"
  iv_unexpected :: "identity list"
  iv_duplicates :: "(string \<times> string \<times> nat) list"
  iv_wrong_policy :: "(string \<times> string \<times> string list) list"
  iv_malformed :: "(string \<times> string \<times> string) list"

definition exact_inventory :: "inventory \<Rightarrow> bool" where
  "exact_inventory iv \<longleftrightarrow> iv_missing iv = [] \<and> iv_unexpected iv = [] \<and> iv_duplicates iv = [] \<and> iv_wrong_policy iv = [] \<and> iv_malformed iv = []"

definition segments_for :: "inventory \<Rightarrow> string \<Rightarrow> required_segment list" where
  "segments_for iv ds = filter (\<lambda>s. rs_dataset s = ds) (iv_expected_segments iv)"

text \<open>The first twenty of every list, as the code shows them.\<close>

definition brief :: "identity \<Rightarrow> json" where
  "brief i = JArr (map JStr [id_source i, id_dataset i, id_segment_id i, id_policy_version i, id_segment_start i, id_segment_end i])"

definition triple_json :: "string \<times> string \<times> string \<Rightarrow> json" where
  "triple_json t = (case t of (d, s, m) \<Rightarrow> JArr [JStr d, JStr s, JStr m])"

definition inventory_detail :: "inventory \<Rightarrow> dict" where
  "inventory_detail iv =
     [(''target_end'', JStr (iv_target_end iv)), (''expected_count'', JInt (int (length (iv_expected_identities iv)))),
      (''actual_count'', JInt (int (length (iv_actual iv)))), (''missing'', JArr (map brief (take 20 (iv_missing iv)))),
      (''unexpected'', JArr (map brief (take 20 (iv_unexpected iv)))),
      (''duplicate'', JArr (map (\<lambda>(d, s, n). JArr [JStr d, JStr s, JInt (int n)]) (take 20 (iv_duplicates iv)))),
      (''wrong_policy'', JArr (map (\<lambda>(d, s, vs). JArr [JStr d, JStr s, JArr (map JStr vs)]) (take 20 (iv_wrong_policy iv)))),
      (''malformed'', JArr (map triple_json (take 20 (iv_malformed iv))))]"

definition deterministic_inventory_grains :: "string list" where
  "deterministic_inventory_grains = [''calendar_month'']"

definition expected_for :: "authority \<Rightarrow> string \<Rightarrow> string \<Rightarrow> required_segment list gate" where
  "expected_for au te ds =
     (let unavailable = (\<lambda>m. Inl (AuthorityUnavailable (''Coverage inventory authority unavailable for '' @ ds @ m))) in
      case map_of (au_policies au) ds of
        None \<Rightarrow> unavailable '': checked-in Coverage V3 policy is missing''
      | Some p \<Rightarrow>
          (case source_capability_contract_or_none (au_registry au) ds of
             None \<Rightarrow> unavailable '': checked-in V3 policy pair is required''
           | Some cap \<Rightarrow>
               if cc_policy_version p \<noteq> Some collection_coverage_v3 then unavailable '': checked-in V3 policy pair is required''
               else if cw_grain (sc_window cap) \<notin> set deterministic_inventory_grains \<or> cc_segment_granularity p \<noteq> cw_grain (sc_window cap)
               then unavailable '': grain requires an authority-issued inventory (C10 OPEN)''
               else case receipt_source_for_canonical_source (sc_source cap) of
                      Inl _ \<Rightarrow> unavailable '': unsupported source''
                    | Inr source \<Rightarrow>
                        (case plan_required_segments (au_registry au) p te source None [] None of
                           Inl (PValueError m) \<Rightarrow> Inl (GateValueError m)
                         | Inl (PKeyError m) \<Rightarrow> Inl (GateKeyError m)
                         | Inr [] \<Rightarrow> Inl (AuthorityUnavailable (''Coverage canonical inventory is empty for '' @ ds))
                         | Inr segs \<Rightarrow> Inr segs)))"

record scan =
  sn_actual :: "(string \<times> identity) list"
  sn_logical :: "((string \<times> string) \<times> segment_row list) list"
  sn_old_policy :: "((string \<times> string) \<times> segment_row list) list"
  sn_malformed :: "(string \<times> string \<times> string) list"

definition group_add :: "'k \<Rightarrow> 'v \<Rightarrow> ('k \<times> 'v list) list \<Rightarrow> ('k \<times> 'v list) list" where
  "group_add k v m = AList.update k ((case map_of m k of None \<Rightarrow> [] | Some vs \<Rightarrow> vs) @ [v]) m"

definition scan_row :: "(string \<times> policy_binding) list \<Rightarrow> segment_row \<Rightarrow> scan \<Rightarrow> scan" where
  "scan_row bindings row sn =
     (let logical = (sg_dataset row, sg_segment_id row) in
      case map_of bindings (sg_dataset row) of
        None \<Rightarrow> sn
      | Some b \<Rightarrow>
          if sg_policy_version row \<noteq> pb_policy_version b then sn\<lparr>sn_old_policy := group_add logical row (sn_old_policy sn)\<rparr>
          else
            let sn1 = sn\<lparr>sn_logical := group_add logical row (sn_logical sn)\<rparr>;
                bad = (\<lambda>m. sn1\<lparr>sn_malformed := sn_malformed sn @ [(sg_dataset row, sg_segment_id row, m)]\<rparr>)
            in case bind_res (persisted_segment_identity b row) (\<lambda>i. bind_res (identity_key i) (\<lambda>k. Inr (k, i))) of
                 Inl m \<Rightarrow> bad m
               | Inr (k, i) \<Rightarrow>
                   if k \<in> set (map fst (sn_actual sn)) then bad ''duplicate exact identity''
                   else sn1\<lparr>sn_actual := sn_actual sn @ [(k, i)]\<rparr>)"

definition by_identity_key :: "identity list \<Rightarrow> (string \<times> identity) list gate" where
  "by_identity_key is =
     bind_res (map_res (\<lambda>i. case identity_key i of Inl m \<Rightarrow> Inl (GateValueError m) | Inr k \<Rightarrow> Inr (k, i)) is) (\<lambda>kis.
       Inr (fold (\<lambda>(k, i). AList.update k i) kis []))"

definition row_order :: "segment_row \<Rightarrow> string \<times> string \<times> string \<times> string \<times> string" where
  "row_order r = (sg_dataset r, sg_segment_start r, sg_segment_id r, sg_source r, sg_policy_version r)"

definition compare_scan :: "string \<Rightarrow> required_segment list \<Rightarrow> identity list \<Rightarrow> (string \<times> identity) list \<Rightarrow> scan \<Rightarrow> inventory" where
  "compare_scan te segs identities expected sn =
     (let expected_logical = map logical_key identities in
      \<lparr>iv_target_end = te, iv_expected_segments = segs, iv_expected_identities = identities,
       iv_actual = map snd (sort_key fst (sn_actual sn)),
       iv_missing = map snd (sort_key fst (filter (\<lambda>(k, i). k \<notin> set (map fst (sn_actual sn))) expected)),
       iv_unexpected = map snd (sort_key fst (filter (\<lambda>(k, i). k \<notin> set (map fst expected)) (sn_actual sn))),
       iv_duplicates = sort (map (\<lambda>((d, s), g). (d, s, length g)) (filter (\<lambda>(l, g). length g \<noteq> 1) (sn_logical sn))),
       iv_wrong_policy = sort (map (\<lambda>((d, s), g). (d, s, sort (remdups (map sg_policy_version g))))
         (filter (\<lambda>(l, g). l \<in> set expected_logical \<and> l \<notin> set (map fst (sn_logical sn))) (sn_old_policy sn))),
       iv_malformed = sort (sn_malformed sn)\<rparr>)"

definition compare_exact_coverage_inventory ::
    "('a crypto_env_scheme) \<Rightarrow> authority \<Rightarrow> segment_row list \<Rightarrow> string list \<Rightarrow> string \<Rightarrow> inventory gate" where
  "compare_exact_coverage_inventory env au rows datasets te =
     (if datasets = [] \<or> datasets \<noteq> sort (remdups datasets)
      then Inl (GateValueError ''exact Coverage inventory datasets must be sorted and duplicate-free'')
      else bind_res (map_res (\<lambda>ds. bind_res (expected_for au te ds) (\<lambda>segs. bind_res (map_res (canonical_segment_identity env au) segs) (\<lambda>is. Inr (segs, is)))) datasets) (\<lambda>parts.
      bind_res (by_identity_key (concat (map snd parts))) (\<lambda>expected.
      bind_res (map_res (\<lambda>ds. bind_res (coverage_policy_binding env au ds) (\<lambda>b. Inr (ds, b))) datasets) (\<lambda>bindings.
        let selected = sort_key row_order (filter (\<lambda>r. sg_dataset r \<in> set datasets) rows);
            sn = fold (scan_row bindings) selected \<lparr>sn_actual = [], sn_logical = [], sn_old_policy = [], sn_malformed = []\<rparr>
        in Inr (compare_scan te (concat (map fst parts)) (concat (map snd parts)) expected sn)))))"

subsection \<open>Selected receipts\<close>

record receipt_row =
  rr_source :: string
  rr_dataset :: string
  rr_segment_id :: string
  rr_segment_start :: string
  rr_segment_end :: string
  rr_expected_scope :: string
  rr_expected_items :: "int option"
  rr_observed_items :: int
  rr_raw_page_count :: int
  rr_raw_row_count :: int
  rr_structured_row_count :: int
  rr_pagination_exhausted :: int
  rr_digests_json :: string
  rr_run_id :: int
  rr_status :: string
  rr_error :: "string option"
  rr_checked_at :: string

record coverage_db =
  db_segments :: "segment_row list"
  db_receipts :: "receipt_row list option"

definition required_from_inventory :: "segment_row \<Rightarrow> (string, required_segment) result" where
  "required_from_inventory row =
     (case plain_loads (sg_expected_scope row) of
        Inl _ \<Rightarrow> Inl ''coverage segment contains invalid expected scope''
      | Inr (JObj scope) \<Rightarrow>
          Inr \<lparr>rs_source = sg_source row, rs_dataset = sg_dataset row, rs_segment_id = sg_segment_id row, rs_segment_start = sg_segment_start row,
               rs_segment_end = sg_segment_end row, rs_expected_scope = scope, rs_expected_items = sg_expected_items row\<rparr>
      | Inr _ \<Rightarrow> Inl ''coverage segment expected scope must be an object'')"

definition receipt_from_row :: "receipt_row \<Rightarrow> (string, collection_receipt) result" where
  "receipt_from_row row =
     (case (plain_loads (rr_expected_scope row), plain_loads (rr_digests_json row)) of
        (Inr scope, Inr digests) \<Rightarrow>
          if \<not> is_object scope \<or> \<not> is_object digests then Inl ''collection receipt JSON evidence must be objects''
          else Inr \<lparr>cr_source = JStr (rr_source row), cr_dataset = JStr (rr_dataset row), cr_segment_id = JStr (rr_segment_id row),
                 cr_segment_start = JStr (rr_segment_start row), cr_segment_end = JStr (rr_segment_end row), cr_expected_scope = scope,
                 cr_expected_items = items_json (rr_expected_items row), cr_observed_items = JInt (rr_observed_items row),
                 cr_raw_page_count = JInt (rr_raw_page_count row), cr_raw_row_count = JInt (rr_raw_row_count row),
                 cr_structured_row_count = JInt (rr_structured_row_count row), cr_pagination_exhausted = JBool (rr_pagination_exhausted row \<noteq> 0),
                 cr_digests = digests, cr_run_id = JInt (rr_run_id row), cr_status = JStr (rr_status row), cr_error = opt_json (rr_error row),
                 cr_checked_at = JStr (rr_checked_at row)\<rparr>
      | _ \<Rightarrow> Inl ''collection receipt contains invalid JSON evidence'')"

text \<open>The \<open>LEFT JOIN\<close> of the segments with the receipt of the selected run; a null run id joins nothing.\<close>

definition joins :: "segment_row \<Rightarrow> receipt_row \<Rightarrow> bool" where
  "joins s r \<longleftrightarrow> rr_source r = sg_source s \<and> rr_dataset r = sg_dataset s \<and> rr_segment_id r = sg_segment_id s \<and> Some (rr_run_id r) = sg_receipt_run_id s"

definition left_join :: "segment_row list \<Rightarrow> receipt_row list \<Rightarrow> (segment_row \<times> receipt_row option) list" where
  "left_join ss rs = concat (map (\<lambda>s. case filter (joins s) rs of [] \<Rightarrow> [(s, None)] | ms \<Rightarrow> map (\<lambda>r. (s, Some r)) ms) ss)"

definition row_storage_key :: "segment_row \<Rightarrow> string \<times> string \<times> string \<times> string" where
  "row_storage_key s = (sg_source s, sg_dataset s, sg_segment_id s, sg_policy_version s)"

definition by_storage_key ::
    "(segment_row \<times> receipt_row option) list \<Rightarrow> ((string \<times> string \<times> string \<times> string) \<times> (segment_row \<times> receipt_row option)) list" where
  "by_storage_key rows = rev (map (\<lambda>(s, r). (row_storage_key s, (s, r))) rows)"

definition segment_changed :: "policy_binding \<Rightarrow> identity \<Rightarrow> segment_row \<Rightarrow> string option" where
  "segment_changed b i row =
     (case persisted_segment_identity b row of
        Inl m \<Rightarrow> Some (''canonical segment changed: '' @ m)
      | Inr j \<Rightarrow> if j \<noteq> i then Some ''canonical segment changed during receipt verification'' else None)"

definition evaluate_selected :: "('a receipt_env_scheme) \<Rightarrow> authority \<Rightarrow> required_segment \<Rightarrow> receipt_row \<Rightarrow> (string, verified_closure) result gate" where
  "evaluate_selected env au required row =
     (case receipt_from_row row of
        Inl m \<Rightarrow> Inr (Inl (''selected receipt malformed: '' @ m))
      | Inr receipt \<Rightarrow>
          bind_res (policy_for au (rs_dataset required)) (\<lambda>p.
            case evaluate_segment_with_closure env production_receipt_environment production_digest (au_registry au) p required (Some receipt) of
              Inl (KeyConfigurationError m) \<Rightarrow> Inl (GateReceiptError (KeyConfigurationError m))
            | Inl (RcKeyError m) \<Rightarrow> Inl (GateReceiptError (RcKeyError m))
            | Inl (ReceiptVerificationError m) \<Rightarrow> Inr (Inl (''selected receipt malformed: '' @ m))
            | Inl (RcTypeError m) \<Rightarrow> Inr (Inl (''selected receipt malformed: '' @ m))
            | Inl (RcValueError m) \<Rightarrow> Inr (Inl (''selected receipt malformed: '' @ m))
            | Inr (status, detail, Some c) \<Rightarrow> if status = ''COMPLETE'' then Inr (Inr c) else Inr (Inl (if detail = [] then ''receipt is not COMPLETE'' else detail))
            | Inr (status, detail, None) \<Rightarrow> Inr (Inl (if detail = [] then ''receipt is not COMPLETE'' else detail))))"

definition check_selected ::
    "('a receipt_env_scheme) \<Rightarrow> authority \<Rightarrow> ((string \<times> string \<times> string \<times> string) \<times> (segment_row \<times> receipt_row option)) list
       \<Rightarrow> identity \<Rightarrow> required_segment \<Rightarrow> (string, verified_closure) result gate" where
  "check_selected env au by_key i required =
     (case map_of by_key (storage_key i) of
        None \<Rightarrow> Inr (Inl ''canonical segment disappeared during receipt verification'')
      | Some (row, receipt) \<Rightarrow>
          bind_res (coverage_policy_binding env au (sg_dataset row)) (\<lambda>b.
            case segment_changed b i row of
              Some m \<Rightarrow> Inr (Inl m)
            | None \<Rightarrow>
                if sg_status row \<noteq> ''COMPLETE'' then Inr (Inl ''segment not COMPLETE'')
                else case (sg_receipt_run_id row, receipt) of
                       (Some _, Some r) \<Rightarrow> evaluate_selected env au required r
                     | _ \<Rightarrow> Inr (Inl ''selected signed receipt missing'')))"

type_synonym receipt_identity = "string \<times> string \<times> string \<times> int"

definition receipt_identity :: "verified_closure \<Rightarrow> receipt_identity" where
  "receipt_identity c = (cl_str c ''source'', cl_str c ''dataset'', cl_str c ''segment_id'', cl_int c ''run_id'')"

fun verify_selected ::
    "('a receipt_env_scheme) \<Rightarrow> authority \<Rightarrow> ((string \<times> string \<times> string \<times> string) \<times> (segment_row \<times> receipt_row option)) list
       \<Rightarrow> (identity \<times> required_segment) list \<Rightarrow> receipt_identity list \<Rightarrow> (verified_closure list \<times> (string \<times> string \<times> string) list) gate" where
  "verify_selected env au by_key [] seen = Inr ([], [])"
| "verify_selected env au by_key ((i, required) # rest) seen =
     bind_res (check_selected env au by_key i required) (\<lambda>verdict.
       case verdict of
         Inl m \<Rightarrow> bind_res (verify_selected env au by_key rest seen) (\<lambda>(cs, bad). Inr (cs, (rs_dataset required, rs_segment_id required, m) # bad))
       | Inr c \<Rightarrow>
           if receipt_identity c \<in> set seen
           then bind_res (verify_selected env au by_key rest seen) (\<lambda>(cs, bad).
             Inr (cs, (rs_dataset required, rs_segment_id required, ''selected receipt reused'') # bad))
           else bind_res (verify_selected env au by_key rest (receipt_identity c # seen)) (\<lambda>(cs, bad). Inr (c # cs, bad)))"

record complete_verification =
  cv_inventory :: inventory
  cv_closures :: "verified_closure list"
  cv_invalid :: "(string \<times> string \<times> string) list"

definition complete_eligible :: "complete_verification \<Rightarrow> bool" where
  "complete_eligible v \<longleftrightarrow> exact_inventory (cv_inventory v) \<and> cv_invalid v = [] \<and> length (cv_closures v) = length (iv_expected_segments (cv_inventory v))"

definition verification_detail :: "complete_verification \<Rightarrow> dict" where
  "verification_detail v = inventory_detail (cv_inventory v)
     @ [(''verified_receipt_count'', JInt (int (length (cv_closures v)))), (''invalid_selected_receipts'', JArr (map triple_json (take 20 (cv_invalid v))))]"

definition verify_exact_coverage_complete ::
    "('a receipt_env_scheme) \<Rightarrow> authority \<Rightarrow> coverage_db \<Rightarrow> string list \<Rightarrow> string \<Rightarrow> complete_verification gate" where
  "verify_exact_coverage_complete env au db datasets te =
     bind_res (compare_exact_coverage_inventory env au (db_segments db) datasets te) (\<lambda>iv.
       if \<not> exact_inventory iv then Inr \<lparr>cv_inventory = iv, cv_closures = [], cv_invalid = []\<rparr>
       else case db_receipts db of
              None \<Rightarrow> Inr \<lparr>cv_inventory = iv, cv_closures = [],
                cv_invalid = map (\<lambda>s. (rs_dataset s, rs_segment_id s, ''selected collection receipt ledger unavailable'')) (iv_expected_segments iv)\<rparr>
            | Some receipts \<Rightarrow>
                let selected = map rs_dataset (iv_expected_segments iv);
                    rows = left_join (filter (\<lambda>s. sg_dataset s \<in> set selected) (db_segments db)) receipts
                in bind_res (verify_selected env au (by_storage_key rows) (zip (iv_expected_identities iv) (iv_expected_segments iv)) []) (\<lambda>(cs, bad).
                     Inr \<lparr>cv_inventory = iv, cv_closures = cs, cv_invalid = bad\<rparr>))"

subsection \<open>The gate\<close>

text \<open>The copy of the policy in an aggregate row; SQLite stores the flags as 0 and 1.\<close>

record policy_columns =
  pq_collection_scope :: string
  pq_history_target_start :: string
  pq_history_target_end_rule :: string
  pq_coverage_mode :: string
  pq_expected_frequency :: string
  pq_universe_rule :: string
  pq_raw_retention_required :: int
  pq_structured_reconciliation_required :: int
  pq_governance_tier :: string

definition policy_columns_of :: "coverage_contract \<Rightarrow> policy_columns" where
  "policy_columns_of p =
     \<lparr>pq_collection_scope = cc_collection_scope p, pq_history_target_start = cc_history_target_start p,
      pq_history_target_end_rule = cc_history_target_end_rule p, pq_coverage_mode = cc_coverage_mode p,
      pq_expected_frequency = cc_expected_frequency p, pq_universe_rule = cc_universe_rule p,
      pq_raw_retention_required = (if cc_raw_retention_required p then 1 else 0),
      pq_structured_reconciliation_required = (if cc_structured_reconciliation_required p then 1 else 0),
      pq_governance_tier = cc_governance_tier p\<rparr>"

record aggregate_row =
  ar_dataset :: string
  ar_status :: string
  ar_policy_version :: string
  ar_policy :: policy_columns
  ar_observed_start :: json
  ar_observed_end :: json
  ar_row_count :: int
  ar_source_run_id :: "int option"
  ar_evaluated_at :: string
  ar_detail :: string

record gate_outcome =
  go_row :: aggregate_row
  go_computed_status :: string
  go_prior_status :: "string option"
  go_prior_policy_version :: "string option"
  go_inventory_status :: string
  go_receipt_status :: string
  go_blocker :: "string option"
  go_inventory :: json

text \<open>Inventory status, receipt status, blocker and inventory detail for a computed \<open>COMPLETE\<close>.\<close>

definition gate_verdict ::
    "('a receipt_env_scheme) \<Rightarrow> authority \<Rightarrow> coverage_db \<Rightarrow> string \<Rightarrow> aggregate_row \<Rightarrow> string option \<Rightarrow> string option \<Rightarrow> (string \<times> string \<times> string option \<times> json) gate" where
  "gate_verdict env au db te row prior_status prior_policy =
     (if prior_status \<noteq> Some ''COMPLETE'' then Inr (''NOT_EVALUATED'', ''NOT_EVALUATED'', Some ''transition_authority_required'', JNull)
      else if prior_policy \<noteq> Some (ar_policy_version row) then Inr (''NOT_EVALUATED'', ''NOT_EVALUATED'', Some ''prior_aggregate_policy_mismatch'', JNull)
      else case verify_exact_coverage_complete env au db [ar_dataset row] te of
             Inl (AuthorityUnavailable m) \<Rightarrow>
               Inr (''PENDING'', ''NOT_EVALUATED'', Some ''inventory_authority_pending'', JObj [(''target_end'', JStr te), (''reason'', JStr m)])
           | Inl x \<Rightarrow> Inl x
           | Inr v \<Rightarrow>
               let detail = JObj (verification_detail v) in
               if \<not> exact_inventory (cv_inventory v) then Inr (''MISMATCH'', ''NOT_EVALUATED'', Some ''inventory_mismatch'', detail)
               else if complete_eligible v then Inr (''EXACT'', ''VERIFIED'', None, detail)
               else Inr (''EXACT'', ''INVALID'', Some ''selected_receipt_invalid'', detail))"

text \<open>\<open>json.loads(text or "{}")\<close>, an empty dict when the text is no object; \<open>dict(v or {})\<close>, where a non-empty list, which no
  writer stores, counts as an error.\<close>

definition loaded_detail :: "string \<Rightarrow> dict" where
  "loaded_detail txt = (case plain_loads (if txt = [] then ''{}'' else txt) of Inr (JObj d) \<Rightarrow> d | _ \<Rightarrow> [])"

definition dict_arg :: "json \<Rightarrow> dict gate" where
  "dict_arg v = (if \<not> json_truthy v then Inr [] else case v of JObj d \<Rightarrow> Inr d | _ \<Rightarrow> Inl (GateTypeError ''not a mapping''))"

definition canonical_text :: "dict \<Rightarrow> string gate" where
  "canonical_text d = (case canonical_json (JObj d) of None \<Rightarrow> Inl (GateValueError ''Out of range float values are not JSON compliant'') | Some t \<Rightarrow> Inr t)"

definition gate_json :: "string \<Rightarrow> gate_outcome \<Rightarrow> json" where
  "gate_json te out =
     JObj [(''mode'', JStr ''generic_refresh_c10_transition_authority_unavailable''), (''computed_status'', JStr (go_computed_status out)),
           (''persisted_status'', JStr (ar_status (go_row out))), (''prior_status'', opt_json (go_prior_status out)),
           (''prior_policy_version'', opt_json (go_prior_policy_version out)), (''current_policy_version'', JStr (ar_policy_version (go_row out))),
           (''inventory_target_end'', JStr te), (''inventory_status'', JStr (go_inventory_status out)),
           (''selected_receipt_status'', JStr (go_receipt_status out)), (''blocker'', opt_json (go_blocker out)), (''inventory'', go_inventory out)]"

definition write_gate_detail :: "string \<Rightarrow> gate_outcome \<Rightarrow> gate_outcome gate" where
  "write_gate_detail te out =
     (let detail = loaded_detail (ar_detail (go_row out)) in
      bind_res (dict_arg (dict_get detail ''coverage_v2'')) (\<lambda>cov.
      bind_res (canonical_text (AList.update ''coverage_v2'' (JObj (AList.update ''aggregate_complete_gate'' (gate_json te out) cov)) detail)) (\<lambda>txt.
        Inr (out\<lparr>go_row := (go_row out)\<lparr>ar_detail := txt\<rparr>\<rparr>))))"

definition gate_row ::
    "('a receipt_env_scheme) \<Rightarrow> authority \<Rightarrow> coverage_db \<Rightarrow> (string \<times> (string \<times> string)) list \<Rightarrow> string \<Rightarrow> aggregate_row \<Rightarrow> gate_outcome gate" where
  "gate_row env au db prior te row =
     (let p = map_of prior (ar_dataset row); ps = map_option fst p; pv = map_option snd p;
          outcome = (\<lambda>r ist rst blk detail. \<lparr>go_row = r, go_computed_status = ar_status row, go_prior_status = ps, go_prior_policy_version = pv,
                                     go_inventory_status = ist, go_receipt_status = rst, go_blocker = blk, go_inventory = detail\<rparr>) in
      bind_res
        (if ar_status row = ''COMPLETE''
         then bind_res (gate_verdict env au db te row ps pv) (\<lambda>(ist, rst, blk, detail).
           Inr (outcome (if blk = None then row else row\<lparr>ar_status := ''PARTIAL''\<rparr>) ist rst blk detail))
         else Inr (outcome row ''NOT_EVALUATED'' ''NOT_EVALUATED'' (Some ''evaluation_not_complete'') JNull))
        (write_gate_detail te))"

definition apply_refresh_complete_gate ::
    "('a receipt_env_scheme) \<Rightarrow> authority \<Rightarrow> coverage_db \<Rightarrow> (string \<times> (string \<times> string)) list \<Rightarrow> string \<Rightarrow> aggregate_row list \<Rightarrow> gate_outcome list gate" where
  "apply_refresh_complete_gate env au db prior te rows = map_res (gate_row env au db prior te) rows"

subsection \<open>What the verification shows\<close>

lemma evaluate_with_closure_verified:
  assumes "evaluate_segment_with_closure env e a reg p s (Some r) = Inr (''COMPLETE'', d, Some c)"
  shows "verify_collection_closure env r e a (Some s) (cc_policy_version p) None None = Inr c \<and> closure_satisfies reg p s c \<and> 0 < cl_int c ''raw_count''"
proof -
  obtain ps where ps: "prepare_receipts env e a [r] = Inr ps" "evaluate_prepared_segment reg p s (Some (hd ps)) = Inr (''COMPLETE'', d, Some c)"
    using assms by (auto simp: evaluate_segment_with_closure_def bind_res_Inr_iff)
  then have hd: "hd ps \<in> set ps" by (auto simp: prepare_receipts_def split: sum.splits)
  have c: "pp_closure (hd ps) = Some c" "require_scope c s (cc_policy_version p) = Inr ()" "closure_satisfies reg p s c"
    using ps(2) by (auto simp: evaluate_prepared_complete)
  show ?thesis using prepared_complete_verified [OF ps(1) hd c] by auto
qed

definition receipt_row_verifies :: "('a receipt_env_scheme) \<Rightarrow> authority \<Rightarrow> required_segment \<Rightarrow> receipt_row \<Rightarrow> verified_closure \<Rightarrow> bool" where
  "receipt_row_verifies env au s row c \<longleftrightarrow>
     (\<exists>p r. map_of (au_policies au) (rs_dataset s) = Some p \<and> receipt_from_row row = Inr r
        \<and> verify_collection_closure env r production_receipt_environment production_digest (Some s) (cc_policy_version p) None None = Inr c
        \<and> closure_satisfies (au_registry au) p s c \<and> 0 < cl_int c ''raw_count'')"

lemma evaluate_selected_verified:
  assumes "evaluate_selected env au s row = Inr (Inr c)"
  shows "receipt_row_verifies env au s row c"
proof -
  obtain r p where r: "receipt_from_row row = Inr r" "map_of (au_policies au) (rs_dataset s) = Some p"
    using assms by (cases "receipt_from_row row") (auto simp: evaluate_selected_def policy_for_def bind_res_Inr_iff split: option.splits)
  obtain d where "evaluate_segment_with_closure env production_receipt_environment production_digest (au_registry au) p s (Some r) = Inr (''COMPLETE'', d, Some c)"
    using assms r
    by (cases "evaluate_segment_with_closure env production_receipt_environment production_digest (au_registry au) p s (Some r)")
      (auto simp: evaluate_selected_def policy_for_def split: option.splits rc_error.splits if_splits)
  from evaluate_with_closure_verified [OF this] show ?thesis using r by (auto simp: receipt_row_verifies_def)
qed

lemma by_storage_key_mem: "map_of (by_storage_key rows) k = Some (s, r) \<Longrightarrow> (s, r) \<in> set rows"
  by (auto simp: by_storage_key_def dest!: map_of_SomeD)

lemma left_join_one:
  "(s, Some r) \<in> set (case filter (joins x) rs of [] \<Rightarrow> [(x, None)] | ms \<Rightarrow> map (\<lambda>r. (x, Some r)) ms) \<longleftrightarrow> s = x \<and> r \<in> set rs \<and> joins x r"
proof -
  have "r \<in> set rs \<and> joins x r \<longleftrightarrow> r \<in> set (filter (joins x) rs)" by simp
  then show ?thesis by (cases "filter (joins x) rs") auto
qed

lemma left_join_mem: "(s, Some r) \<in> set (left_join ss rs) \<longleftrightarrow> s \<in> set ss \<and> r \<in> set rs \<and> joins s r"
  unfolding left_join_def set_concat set_map by (auto simp: left_join_one simp del: set_filter)

lemma check_selected_verified:
  assumes "check_selected env au (by_storage_key (left_join ss rs)) i s = Inr (Inr c)"
  shows "\<exists>row r b. row \<in> set ss \<and> r \<in> set rs \<and> joins row r \<and> sg_status row = ''COMPLETE'' \<and> persisted_segment_identity b row = Inr i
    \<and> receipt_row_verifies env au s r c"
proof -
  obtain row r b where m: "map_of (by_storage_key (left_join ss rs)) (storage_key i) = Some (row, Some r)"
      and st: "sg_status row = ''COMPLETE''" "segment_changed b i row = None" and ev: "evaluate_selected env au s r = Inr (Inr c)"
    using assms by (auto simp: check_selected_def bind_res_Inr_iff split: option.splits if_splits)
  have "row \<in> set ss \<and> r \<in> set rs \<and> joins row r" using by_storage_key_mem [OF m] left_join_mem by blast
  moreover have "persisted_segment_identity b row = Inr i" using st(2) by (auto simp: segment_changed_def split: sum.splits if_splits)
  ultimately show ?thesis using st(1) evaluate_selected_verified [OF ev] by blast
qed

lemma verify_selected_all:
  assumes "verify_selected env au bk ps seen = Inr (cs, [])"
  shows "list_all2 (\<lambda>(i, s) c. check_selected env au bk i s = Inr (Inr c)) ps cs \<and> distinct (map receipt_identity cs)
    \<and> set (map receipt_identity cs) \<inter> set seen = {}"
  using assms
proof (induction ps arbitrary: seen cs)
  case (Cons x ps)
  obtain i s where x: "x = (i, s)" by (cases x)
  obtain verdict where v: "check_selected env au bk i s = Inr verdict" using Cons.prems x by (auto simp: bind_res_Inr_iff)
  obtain c cs' where c: "verdict = Inr c" "receipt_identity c \<notin> set seen"
      "verify_selected env au bk ps (receipt_identity c # seen) = Inr (cs', [])" "cs = c # cs'"
    using Cons.prems x v by (cases verdict) (auto simp: bind_res_Inr_iff split: if_splits)
  then show ?case using Cons.IH [OF c(3)] x v by auto
qed simp

lemma compare_expected:
  assumes "compare_exact_coverage_inventory env au rows datasets te = Inr iv"
  shows "\<exists>parts. list_all2 (\<lambda>ds (segs, is). expected_for au te ds = Inr segs \<and> map_res (canonical_segment_identity env au) segs = Inr is) datasets parts
    \<and> iv_expected_segments iv = concat (map fst parts) \<and> iv_expected_identities iv = concat (map snd parts)"
proof -
  obtain parts where m: "map_res (\<lambda>ds. bind_res (expected_for au te ds) (\<lambda>segs. bind_res (map_res (canonical_segment_identity env au) segs) (\<lambda>is. Inr (segs, is)))) datasets = Inr parts"
      and eq: "iv_expected_segments iv = concat (map fst parts)" "iv_expected_identities iv = concat (map snd parts)"
    using assms by (auto simp: compare_exact_coverage_inventory_def compare_scan_def Let_def bind_res_Inr_iff split: if_splits)
  have "list_all2 (\<lambda>ds (segs, is). expected_for au te ds = Inr segs \<and> map_res (canonical_segment_identity env au) segs = Inr is) datasets parts"
    unfolding list_all2_conv_all_nth using map_res_Inr_length [OF m] map_res_Inr_nth [OF m]
    by (fastforce simp: bind_res_Inr_iff)
  then show ?thesis using eq by blast
qed

lemma expected_for_planned:
  assumes "expected_for au te ds = Inr segs"
  shows "segs \<noteq> [] \<and> (\<exists>p cap src. map_of (au_policies au) ds = Some p \<and> source_capability_contract_or_none (au_registry au) ds = Some cap
    \<and> cc_policy_version p = Some collection_coverage_v3 \<and> cc_segment_granularity p = ''calendar_month''
    \<and> receipt_source_for_canonical_source (sc_source cap) = Inr src
    \<and> plan_required_segments (au_registry au) p te src None [] None = Inr segs)"
  using assms by (auto simp: expected_for_def Let_def deterministic_inventory_grains_def split: option.splits sum.splits plan_error.splits list.splits if_splits)

lemma verify_complete_facts:
  assumes "verify_exact_coverage_complete env au db [ds] te = Inr v" "complete_eligible v"
  shows "\<exists>segs is receipts. expected_for au te ds = Inr segs \<and> map_res (canonical_segment_identity env au) segs = Inr is
    \<and> iv_expected_segments (cv_inventory v) = segs \<and> db_receipts db = Some receipts \<and> distinct (map receipt_identity (cv_closures v))
    \<and> list_all2 (\<lambda>(i, s) c. \<exists>row r b. row \<in> set (db_segments db) \<and> r \<in> set receipts \<and> joins row r \<and> sg_status row = ''COMPLETE''
        \<and> persisted_segment_identity b row = Inr i \<and> receipt_row_verifies env au s r c) (zip is segs) (cv_closures v)"
proof -
  obtain iv where iv: "compare_exact_coverage_inventory env au (db_segments db) [ds] te = Inr iv" "cv_inventory v = iv" "exact_inventory iv"
    using assms by (auto simp: verify_exact_coverage_complete_def bind_res_Inr_iff complete_eligible_def Let_def split: if_splits option.splits)
  obtain segs "is" where e: "expected_for au te ds = Inr segs" "map_res (canonical_segment_identity env au) segs = Inr is"
      "iv_expected_segments iv = segs" "iv_expected_identities iv = is"
    using compare_expected [OF iv(1)] by (auto simp: list_all2_Cons1)
  have ne: "segs \<noteq> []" using expected_for_planned [OF e(1)] by blast
  obtain receipts where rec: "db_receipts db = Some receipts"
    using assms ne iv e(3) by (cases "db_receipts db") (auto simp: verify_exact_coverage_complete_def complete_eligible_def)
  let ?ss = "filter (\<lambda>s. sg_dataset s \<in> set (map rs_dataset segs)) (db_segments db)"
  have "verify_selected env au (by_storage_key (left_join ?ss receipts)) (zip is segs) [] = Inr (cv_closures v, [])"
    using assms iv e rec by (cases v) (auto simp: verify_exact_coverage_complete_def complete_eligible_def bind_res_Inr_iff Let_def)
  note sel = verify_selected_all [OF this]
  have "list_all2 (\<lambda>(i, s) c. \<exists>row r b. row \<in> set (db_segments db) \<and> r \<in> set receipts \<and> joins row r \<and> sg_status row = ''COMPLETE''
        \<and> persisted_segment_identity b row = Inr i \<and> receipt_row_verifies env au s r c) (zip is segs) (cv_closures v)"
    by (rule list_all2_mono [OF conjunct1 [OF sel]]) (use check_selected_verified in \<open>fastforce\<close>)
  then show ?thesis using e iv(2) rec sel by blast
qed

lemma month_loop_dataset: "month_loop px c e = Inr ss \<Longrightarrow> s \<in> set ss \<Longrightarrow> rs_dataset s = cc_dataset_id (px_policy px)"
proof (induction px c e arbitrary: ss rule: month_loop.induct)
  case (1 px c e)
  show ?case
  proof (cases "c \<le> e")
    case True
    let ?b = "min (month_end c) e"
    obtain x n rest where x: "append_segment px (month_id c) c ?b = Inr x" "next_day ?b = Some n" "month_loop px n e = Inr rest" "ss = x # rest"
      using "1.prems"(1) True by (auto simp: month_loop.simps [of px c] Let_def bind_res_Inr_iff split: option.splits)
    then show ?thesis using "1.IH" [OF True refl x(2,3)] "1.prems"(2) append_segment_ok [OF x(1)] by auto
  qed (use 1 in \<open>auto simp: month_loop.simps [of px c]\<close>)
qed

lemma day_loop_dataset: "day_loop px c e = Inr ss \<Longrightarrow> s \<in> set ss \<Longrightarrow> rs_dataset s = cc_dataset_id (px_policy px)"
proof (induction px c e arbitrary: ss rule: day_loop.induct)
  case (1 px c e)
  show ?case
  proof (cases "c \<le> e")
    case True
    obtain x n rest where x: "append_segment px (isoformat c) c c = Inr x" "next_day c = Some n" "day_loop px n e = Inr rest" "ss = x # rest"
      using "1.prems"(1) True by (auto simp: day_loop.simps [of px c] bind_res_Inr_iff split: option.splits)
    then show ?thesis using "1.IH" [OF True x(2,3)] "1.prems"(2) append_segment_ok [OF x(1)] by auto
  qed (use 1 in \<open>auto simp: day_loop.simps [of px c]\<close>)
qed

lemma year_loop_dataset: "year_loop px a e ys = Inr ss \<Longrightarrow> s \<in> set ss \<Longrightarrow> rs_dataset s = cc_dataset_id (px_policy px)"
  by (induction ys arbitrary: ss) (auto simp: bind_res_Inr_iff dest: append_segment_ok)

lemma index_loop_dataset: "index_loop px a e ds = Inr ss \<Longrightarrow> s \<in> set ss \<Longrightarrow> rs_dataset s = cc_dataset_id (px_policy px)"
  by (induction ds arbitrary: ss) (auto simp: bind_res_Inr_iff dest: append_segment_ok split: if_splits)

lemma plan_dataset:
  assumes "plan_required_segments reg p te src ex idx rs = Inr segs" "s \<in> set segs"
  shows "rs_dataset s = cc_dataset_id p"
proof -
  obtain st en px od tip where "px_policy px = p" "expand_grain px od tip idx st en = Inr segs" using plan_Inr [OF assms(1)] by metis
  then show ?thesis
    using assms(2) month_loop_dataset day_loop_dataset year_loop_dataset index_loop_dataset
    by (auto simp: expand_grain_def Let_def bind_res_Inr_iff dest!: append_segment_ok split: if_splits)
qed

lemma verified_row_scope:
  assumes "receipt_row_verifies env au s row c"
  shows "rr_source row = rs_source s" "rr_dataset row = rs_dataset s" "rr_segment_id row = rs_segment_id s"
    "rr_segment_start row = rs_segment_start s" "rr_segment_end row = rs_segment_end s"
proof -
  obtain p :: coverage_contract and r where r: "receipt_from_row row = Inr r"
      and v: "verify_collection_closure env r production_receipt_environment production_digest (Some s) (cc_policy_version p) None None = Inr c"
    using assms unfolding receipt_row_verifies_def by blast
  obtain f where f: "materialize_receipt_input r = Inr f"
      "validate_bound_closure_fields env f production_receipt_environment production_digest True (Some s) (cc_policy_version p) None None = Inr ()"
    using v by (rule verify_facts)
  have outer: "\<forall>(n, w) \<in> set (outer_bindings r). same (dict_get (fi_claims f) n) w"
    using validate_bound_facts(5) [OF f(2)] materialize_facts(2) [OF f(1)] by auto
  have req: "\<forall>(n, w) \<in> set (required_bindings s). same (dict_get (fi_claims f) n) w"
    using validate_bound_facts(7) [OF f(2)] by (auto simp: validate_required_scope_def bind_res_Inr_iff split: option.splits dest: required_bound)
  have fields: "cr_source r = JStr (rr_source row)" "cr_dataset r = JStr (rr_dataset row)" "cr_segment_id r = JStr (rr_segment_id row)"
      "cr_segment_start r = JStr (rr_segment_start row)" "cr_segment_end r = JStr (rr_segment_end row)"
    using r by (auto simp: receipt_from_row_def split: sum.splits if_splits)
  show "rr_source row = rs_source s" "rr_dataset row = rs_dataset s" "rr_segment_id row = rs_segment_id s"
    "rr_segment_start row = rs_segment_start s" "rr_segment_end row = rs_segment_end s"
    using outer req fields by (simp_all add: outer_bindings_def required_bindings_def same_scalar)
qed

lemma gate_verdict_none:
  assumes "gate_verdict env au db te row ps pv = Inr (ist, rst, None, det)"
  shows "ps = Some ''COMPLETE'' \<and> pv = Some (ar_policy_version row) \<and> (\<exists>v. verify_exact_coverage_complete env au db [ar_dataset row] te = Inr v \<and> complete_eligible v)"
  using assms by (auto simp: gate_verdict_def Let_def split: if_splits sum.splits gate_error.splits)

lemma write_gate_detail_row:
  assumes "write_gate_detail te out = Inr out'"
  shows "\<exists>t. go_row out' = (go_row out)\<lparr>ar_detail := t\<rparr>" "go_blocker out' = go_blocker out"
  using assms by (auto simp: write_gate_detail_def Let_def bind_res_Inr_iff)

lemma gate_row_complete:
  assumes "gate_row env au db prior te row = Inr out" "ar_status (go_row out) = ''COMPLETE''"
  shows "ar_status row = ''COMPLETE'' \<and> (\<exists>t. go_row out = row\<lparr>ar_detail := t\<rparr>) \<and> map_of prior (ar_dataset row) = Some (''COMPLETE'', ar_policy_version row)
    \<and> go_blocker out = None \<and> (\<exists>v. verify_exact_coverage_complete env au db [ar_dataset row] te = Inr v \<and> complete_eligible v)"
proof -
  let ?p = "map_of prior (ar_dataset row)"
  obtain out0 where w: "write_gate_detail te out0 = Inr out"
      and pre: "(if ar_status row = ''COMPLETE'' then \<exists>ist rst det. gate_verdict env au db te row (map_option fst ?p) (map_option snd ?p) = Inr (ist, rst, go_blocker out0, det)
         \<and> go_row out0 = (if go_blocker out0 = None then row else row\<lparr>ar_status := ''PARTIAL''\<rparr>) else go_row out0 = row)"
    using assms(1) by (auto simp: gate_row_def Let_def bind_res_Inr_iff split: if_splits)
  obtain t where t: "go_row out = (go_row out0)\<lparr>ar_detail := t\<rparr>" using write_gate_detail_row(1) [OF w] by blast
  have st: "ar_status row = ''COMPLETE''" using pre t assms(2) by (auto split: if_splits)
  then obtain ist rst det where g: "gate_verdict env au db te row (map_option fst ?p) (map_option snd ?p) = Inr (ist, rst, go_blocker out0, det)"
      and row: "go_row out0 = (if go_blocker out0 = None then row else row\<lparr>ar_status := ''PARTIAL''\<rparr>)" using pre by auto
  have blk: "go_blocker out0 = None" using row t assms(2) by (auto split: if_splits)
  show ?thesis
    using gate_verdict_none [OF g [unfolded blk]] row blk t st write_gate_detail_row(2) [OF w] by (cases ?p) auto
qed

end
