(* ===== verification/CoverageLedger.thy ===== *)
theory CoverageLedger
  imports CoverageGate
begin

section \<open>The coverage ledger\<close>

text \<open>
  \<open>packages/data_plane/storage/coverage_ledger_io.py\<close> and the refresh of \<open>coverage_ledger.py\<close>: the three tables and every
  operation that writes them. A transaction that raises leaves the state as it was. The checks on the stored facts, the JSDA fact
  tables and the listed index days are read-only inputs of a refresh. An aggregate row has all its columns; the columns
  \<open>evaluated_at\<close> and \<open>detail_json\<close> of a segment are left out.
\<close>

record ledger = coverage_db +
  ld_coverage :: "aggregate_row list"

subsection \<open>Writers\<close>

definition coverage_statuses :: "string list" where
  "coverage_statuses = [''COMPLETE'', ''PARTIAL'', ''STALE'', ''UNKNOWN'', ''FAILED'']"

text \<open>The table constraints of \<open>storage/migrations.py\<close>.\<close>

definition segment_row_ok :: "segment_row \<Rightarrow> bool" where
  "segment_row_ok s \<longleftrightarrow> (case sg_expected_items s of None \<Rightarrow> True | Some n \<Rightarrow> 0 \<le> n) \<and> sg_status s \<in> set coverage_statuses \<and> sg_segment_start s \<le> sg_segment_end s"

definition receipt_row_ok :: "receipt_row \<Rightarrow> bool" where
  "receipt_row_ok r \<longleftrightarrow> (case rr_expected_items r of None \<Rightarrow> True | Some n \<Rightarrow> 0 \<le> n) \<and> 0 \<le> rr_observed_items r \<and> 0 \<le> rr_raw_page_count r
     \<and> 0 \<le> rr_raw_row_count r \<and> 0 \<le> rr_structured_row_count r \<and> rr_pagination_exhausted r \<in> {0, 1} \<and> rr_status r \<in> set [''SUCCESS'', ''FAILED'']
     \<and> rr_segment_start r \<le> rr_segment_end r"

definition receipt_key :: "receipt_row \<Rightarrow> string \<times> string \<times> string \<times> int" where
  "receipt_key r = (rr_source r, rr_dataset r, rr_segment_id r, rr_run_id r)"

text \<open>\<open>INSERT ... ON CONFLICT DO UPDATE\<close>: the row of the key is replaced in place, or appended.\<close>

definition upsert :: "('r \<Rightarrow> 'k) \<Rightarrow> 'r \<Rightarrow> 'r list \<Rightarrow> 'r list" where
  "upsert key r rows = (if key r \<in> set (map key rows) then map (\<lambda>x. if key x = key r then r else x) rows else rows @ [r])"

text \<open>The receipt is given as the row its values make: the JSON columns are canonical texts, the flag is 0 or 1.\<close>

definition record_collection_receipt :: "ledger \<Rightarrow> receipt_row \<Rightarrow> ledger gate" where
  "record_collection_receipt ld r =
     (if rr_status r \<notin> set [''SUCCESS'', ''FAILED''] then Inl (GateValueError ''receipt status must be SUCCESS or FAILED'')
      else if rr_observed_items r < 0 \<or> rr_raw_page_count r < 0 \<or> rr_raw_row_count r < 0 \<or> rr_structured_row_count r < 0
      then Inl (GateValueError ''receipt counts must be non-negative'')
      else case db_receipts ld of
             None \<Rightarrow> Inl (GateDbError ''no such table: collection_receipts'')
           | Some rs \<Rightarrow>
               if \<not> receipt_row_ok r then Inl (GateDbError ''CHECK constraint failed: collection_receipts'')
               else Inr (ld\<lparr>db_receipts := Some (upsert receipt_key r rs)\<rparr>))"

definition planned_row :: "string \<Rightarrow> string \<Rightarrow> int option \<Rightarrow> required_segment \<Rightarrow> segment_row gate" where
  "planned_row version status run_id s =
     (case canonical_json (JObj (rs_expected_scope s)) of
        None \<Rightarrow> Inl (GateValueError ''Out of range float values are not JSON compliant'')
      | Some scope \<Rightarrow>
          Inr \<lparr>sg_source = rs_source s, sg_dataset = rs_dataset s, sg_segment_id = rs_segment_id s, sg_policy_version = version,
               sg_segment_start = rs_segment_start s, sg_segment_end = rs_segment_end s, sg_expected_scope = scope,
               sg_expected_items = rs_expected_items s, sg_status = status, sg_receipt_run_id = run_id\<rparr>)"

definition required_row :: "('a crypto_env_scheme) \<Rightarrow> authority \<Rightarrow> string option \<Rightarrow> required_segment \<Rightarrow> segment_row gate" where
  "required_row env au version s =
     (if (case rs_expected_items s of None \<Rightarrow> False | Some n \<Rightarrow> n < 0) then Inl (GateValueError ''expected segment items must be non-negative'')
      else bind_res (case version of Some v \<Rightarrow> Inr v | None \<Rightarrow> bind_res (coverage_policy_binding env au (rs_dataset s)) (\<lambda>b. Inr (pb_policy_version b))) (\<lambda>v.
        planned_row v ''UNKNOWN'' None s))"

definition upsert_segment :: "segment_row \<Rightarrow> segment_row list \<Rightarrow> segment_row list gate" where
  "upsert_segment s rows = (if segment_row_ok s then Inr (upsert row_storage_key s rows) else Inl (GateDbError ''CHECK constraint failed: coverage_segments''))"

definition insert_segment :: "segment_row \<Rightarrow> segment_row list \<Rightarrow> segment_row list gate" where
  "insert_segment s rows =
     (if row_storage_key s \<in> set (map row_storage_key rows) then Inl (GateDbError ''UNIQUE constraint failed: coverage_segments'')
      else if \<not> segment_row_ok s then Inl (GateDbError ''CHECK constraint failed: coverage_segments'')
      else Inr (rows @ [s]))"

definition execute_many :: "('r \<Rightarrow> 's \<Rightarrow> 's gate) \<Rightarrow> 'r list \<Rightarrow> 's \<Rightarrow> 's gate" where
  "execute_many f rs st = fold (\<lambda>r m. bind_res m (f r)) rs (Inr st)"

definition record_required_segments :: "('a crypto_env_scheme) \<Rightarrow> authority \<Rightarrow> ledger \<Rightarrow> required_segment list \<Rightarrow> string option \<Rightarrow> ledger gate" where
  "record_required_segments env au ld segs version =
     bind_res (map_res (required_row env au version) segs) (\<lambda>rows.
     bind_res (execute_many upsert_segment rows (db_segments ld)) (\<lambda>ss. Inr (ld\<lparr>db_segments := ss\<rparr>)))"

type_synonym delete_key = "string \<times> string \<times> string"

definition delete_segments :: "delete_key list \<Rightarrow> segment_row list \<Rightarrow> segment_row list" where
  "delete_segments keys rows = filter (\<lambda>s. (sg_source s, sg_dataset s, sg_policy_version s) \<notin> set keys) rows"

definition persist_refreshed_coverage :: "ledger \<Rightarrow> delete_key list \<Rightarrow> segment_row list \<Rightarrow> aggregate_row list \<Rightarrow> ledger gate" where
  "persist_refreshed_coverage ld keys segs rows =
     (if \<exists>r \<in> set rows. ar_status r = ''COMPLETE'' then Inl (GateValueError ''generic Coverage persistence cannot write aggregate COMPLETE'')
      else bind_res (execute_many insert_segment segs (delete_segments keys (db_segments ld))) (\<lambda>ss.
        if \<exists>r \<in> set rows. ar_status r \<notin> set coverage_statuses then Inl (GateDbError ''CHECK constraint failed: dataset_coverage'')
        else Inr (ld\<lparr>db_segments := ss, ld_coverage := fold (upsert ar_dataset) rows (ld_coverage ld)\<rparr>)))"

definition update_dataset_coverage_row :: "ledger \<Rightarrow> string \<Rightarrow> string \<Rightarrow> string \<Rightarrow> string \<Rightarrow> ledger gate" where
  "update_dataset_coverage_row ld ds status detail now =
     (if status = ''COMPLETE'' then Inl (GateValueError ''generic Coverage update cannot write aggregate COMPLETE'')
      else if status \<notin> set coverage_statuses \<and> ds \<in> set (map ar_dataset (ld_coverage ld)) then Inl (GateDbError ''CHECK constraint failed: dataset_coverage'')
      else Inr (ld\<lparr>ld_coverage := map (\<lambda>r. if ar_dataset r = ds then r\<lparr>ar_status := status, ar_detail := detail, ar_evaluated_at := now\<rparr> else r) (ld_coverage ld)\<rparr>))"

definition is_current_complete :: "string \<Rightarrow> string \<Rightarrow> aggregate_row \<Rightarrow> bool" where
  "is_current_complete ds version r \<longleftrightarrow> ar_dataset r = ds \<and> ar_status r = ''COMPLETE'' \<and> ar_policy_version r = version"

definition preserve_existing_complete_coverage_row :: "ledger \<Rightarrow> aggregate_row \<Rightarrow> ledger gate" where
  "preserve_existing_complete_coverage_row ld row =
     (if ar_status row \<noteq> ''COMPLETE'' then Inl (GateValueError ''status-preserving Coverage update requires COMPLETE'')
      else if length (filter (is_current_complete (ar_dataset row) (ar_policy_version row)) (ld_coverage ld)) \<noteq> 1
      then Inl (GateRuntimeError ''verified COMPLETE aggregate disappeared or changed policy'')
      else Inr (ld\<lparr>ld_coverage := map (\<lambda>r. if is_current_complete (ar_dataset row) (ar_policy_version row) r then row else r) (ld_coverage ld)\<rparr>))"

definition update_existing_complete_coverage_evidence :: "ledger \<Rightarrow> string \<Rightarrow> string \<Rightarrow> string \<Rightarrow> string \<Rightarrow> ledger gate" where
  "update_existing_complete_coverage_evidence ld ds version detail now =
     (if length (filter (is_current_complete ds version) (ld_coverage ld)) \<noteq> 1
      then Inl (GateRuntimeError ''verified COMPLETE aggregate disappeared or changed policy'')
      else Inr (ld\<lparr>ld_coverage := map (\<lambda>r. if is_current_complete ds version r then r\<lparr>ar_detail := detail, ar_evaluated_at := now\<rparr> else r) (ld_coverage ld)\<rparr>))"

subsection \<open>The refresh of one dataset\<close>

text \<open>What a refresh reads beside the ledger: the clock, the target day and the day of the exact inventory, the freshness limit, the
  receipt source of each dataset, the results of the stored-fact checks, the status of the JSDA fact tables, the
  listed index days and the last validated run.\<close>

record refresh_input =
  ri_evaluated_at :: string
  ri_target_end :: string
  ri_inventory_end :: string
  ri_freshness_days :: int
  ri_canonical_source :: "string \<Rightarrow> string"
  ri_evidence :: "check_result list"
  ri_jsda_status :: "string \<Rightarrow> string \<times> int \<times> json \<times> json"
  ri_index_days :: "string list"
  ri_latest_run_id :: "string \<Rightarrow> int option"
  ri_py_str :: "json \<Rightarrow> string"

definition coverage_source :: "refresh_input \<Rightarrow> string \<Rightarrow> string gate" where
  "coverage_source ri ds = (case receipt_source_for_canonical_source (ri_canonical_source ri ds) of Inl x \<Rightarrow> Inl (GateReceiptError x) | Inr s \<Rightarrow> Inr s)"

definition json_opt :: "json \<Rightarrow> string option" where
  "json_opt v = (case v of JStr s \<Rightarrow> Some s | _ \<Rightarrow> None)"

definition inventory_rows :: "coverage_contract \<Rightarrow> string \<Rightarrow> segment_row list \<Rightarrow> (string \<times> segment_row) list" where
  "inventory_rows p ds rows =
     fold (\<lambda>s. AList.update (sg_segment_id s) s) (filter (\<lambda>s. sg_dataset s = ds \<and> Some (sg_policy_version s) = cc_policy_version p) rows) []"

definition kept_items :: "(string \<times> segment_row) list \<Rightarrow> required_segment \<Rightarrow> (string \<times> int) option" where
  "kept_items stock s =
     (case map_of stock (rs_segment_id s) of
        None \<Rightarrow> None
      | Some row \<Rightarrow>
          if sg_segment_start row = rs_segment_start s \<and> sg_segment_end row = rs_segment_end s
             \<and> Some (sg_expected_scope row) = canonical_json (JObj (rs_expected_scope s))
          then map_option (Pair (rs_segment_id s)) (sg_expected_items row)
          else None)"

definition plan_gate :: "(plan_error, 'b) result \<Rightarrow> 'b gate" where
  "plan_gate m = (case m of Inl (PValueError t) \<Rightarrow> Inl (GateValueError t) | Inl (PKeyError t) \<Rightarrow> Inl (GateKeyError t) | Inr x \<Rightarrow> Inr x)"

definition keeps_stored_inventory :: "registry \<Rightarrow> coverage_contract \<Rightarrow> bool" where
  "keeps_stored_inventory reg p \<longleftrightarrow>
     cc_segment_granularity p \<in> set [''official_archive_day'', ''source_time_series_file'']
     \<and> \<not> uses_official_archive_index p (official_domain_for (source_capability_contract_or_none reg (cc_dataset_id p)))"

definition stored_segments :: "string \<Rightarrow> string \<Rightarrow> (string \<times> segment_row) list \<Rightarrow> required_segment list gate" where
  "stored_segments src te stock =
     bind_res (map_res (\<lambda>row. case required_from_inventory row of Inl m \<Rightarrow> Inl (GateValueError m) | Inr s \<Rightarrow> Inr s)
        (filter (\<lambda>row. sg_source row = src \<and> (sg_segment_start row \<le> te \<or> sg_status row = ''COMPLETE'')) (map snd stock))) (\<lambda>segs.
       Inr (sort_key (\<lambda>s. (rs_segment_start s, rs_segment_id s)) segs))"

definition refresh_required :: "refresh_input \<Rightarrow> registry \<Rightarrow> coverage_contract \<Rightarrow> string \<Rightarrow> (string \<times> segment_row) list \<Rightarrow> required_segment list gate" where
  "refresh_required ri reg p src stock =
     (if keeps_stored_inventory reg p then stored_segments src (ri_target_end ri) stock
      else bind_res (plan_gate (plan_required_segments reg p (ri_target_end ri) src None (ri_index_days ri) None)) (\<lambda>base.
        plan_gate (plan_required_segments reg p (ri_target_end ri) src (Some (List.map_filter (kept_items stock) base)) (ri_index_days ri) None)))"

text \<open>Sticky completeness: a segment that was \<open>COMPLETE\<close> keeps the best receipt that still evaluates so.\<close>

definition sticky_evaluation ::
    "registry \<Rightarrow> coverage_contract \<Rightarrow> (segment_key \<times> prepared_receipt list) list \<Rightarrow> (string \<times> segment_row) list \<Rightarrow> evaluated_segment \<Rightarrow> evaluated_segment rc" where
  "sticky_evaluation reg p indexed stock ev =
     (let s = es_required ev; prior = map_option sg_status (map_of stock (rs_segment_id s)) in
      if es_status ev \<noteq> ''COMPLETE'' \<and> prior = Some ''COMPLETE''
      then bind_res (latest_complete_receipt_for_required reg p s (case map_of indexed (required_key s) of None \<Rightarrow> [] | Some ps \<Rightarrow> ps)) (\<lambda>found.
        case found of
          None \<Rightarrow> Inr ev
        | Some (r, c) \<Rightarrow> Inr (ev\<lparr>es_status := ''COMPLETE'', es_detail := ''sticky COMPLETE: eligible SUCCESS receipt retained'', es_receipt := Some r, es_closure := Some c\<rparr>))
      else Inr ev)"

definition selected_run_id :: "evaluated_segment \<Rightarrow> int option" where
  "selected_run_id ev =
     (if es_status ev = ''COMPLETE'' then map_option (\<lambda>c. cl_int c ''run_id'') (es_closure ev)
      else map_option (\<lambda>r. int_of (cr_run_id r)) (es_receipt ev))"

definition segment_row_of :: "coverage_contract \<Rightarrow> evaluated_segment \<Rightarrow> segment_row gate" where
  "segment_row_of p ev = planned_row (case cc_policy_version p of None \<Rightarrow> [] | Some v \<Rightarrow> v) (es_status ev) (selected_run_id ev) (es_required ev)"

definition refresh_status :: "string \<Rightarrow> string \<Rightarrow> bool \<Rightarrow> string list \<Rightarrow> string" where
  "refresh_status src validation global_failure sts =
     (if src = ''jquants'' \<and> global_failure then ''FAILED'' else if validation \<noteq> ''COMPLETE'' then validation else aggregate_statuses sts)"

definition lift_rc :: "'b rc \<Rightarrow> 'b gate" where
  "lift_rc m = (case m of Inl x \<Rightarrow> Inl (GateReceiptError x) | Inr y \<Rightarrow> Inr y)"

definition refresh_evidence :: "refresh_input \<Rightarrow> string \<Rightarrow> string \<Rightarrow> string option \<Rightarrow> check_result list" where
  "refresh_evidence ri ds src receipt_end =
     (let evidence = filter (\<lambda>r. ck_dataset r = Some ds) (ri_evidence ri) in
      if src = ''jquants'' then apply_receipt_freshness_c8 (ri_py_str ri) evidence ds receipt_end (ri_target_end ri) (ri_freshness_days ri) else evidence)"

definition refresh_validation :: "refresh_input \<Rightarrow> string \<Rightarrow> string \<Rightarrow> check_result list \<Rightarrow> string \<times> int \<times> json \<times> json" where
  "refresh_validation ri ds src evidence = (if src = ''jsda'' then ri_jsda_status ri ds else dataset_status evidence)"

definition global_failures :: "check_result list \<Rightarrow> check_result list" where
  "global_failures evidence = filter (\<lambda>r. ck_dataset r = None \<and> ck_status r = ''fail'') evidence"

definition as_log_dict :: "check_result \<Rightarrow> json" where
  "as_log_dict r = JObj [(''check_id'', JStr (ck_id r)), (''dataset'', opt_json (ck_dataset r)), (''status'', JStr (ck_status r)),
     (''detail'', JStr (ck_detail r)), (''metrics'', JObj (ck_metrics r))]"

text \<open>A dict of how often each status occurs, without zeros; the statuses in sorted order.\<close>

definition count_statuses :: "string list \<Rightarrow> (string \<times> int) list" where
  "count_statuses sts = List.map_filter (\<lambda>v. let n = length (filter (\<lambda>x. x = v) sts) in if n = 0 then None else Some (v, int n))
     [''COMPLETE'', ''FAILED'', ''PARTIAL'', ''STALE'', ''UNKNOWN'']"

definition refresh_detail :: "refresh_input \<Rightarrow> check_result list \<Rightarrow> string list \<Rightarrow> string option \<Rightarrow> string option \<Rightarrow> int \<Rightarrow> dict" where
  "refresh_detail ri evidence sts rs re raw_rows =
     [(''checks'', JArr (map as_log_dict evidence)), (''global_failures'', JArr (map as_log_dict (global_failures (ri_evidence ri)))),
      (''coverage_v2'', JObj [(''required_segments'', JInt (int (length sts))), (''status_counts'', JObj (map (\<lambda>(k, n). (k, JInt n)) (count_statuses sts))),
         (''target_end'', JStr (ri_target_end ri))]),
      (''observed_window'', JObj [(''receipt_start'', opt_json rs), (''receipt_end'', opt_json re), (''receipt_raw_rows'', JInt raw_rows),
         (''source'', JStr (if rs \<noteq> None \<or> re \<noteq> None then ''receipt_union_hot'' else ''hot_c4_only''))])]"

definition merged_window :: "json \<Rightarrow> json \<Rightarrow> string option \<Rightarrow> string option \<Rightarrow> json \<times> json" where
  "merged_window os oe rs re =
     (if rs = None \<and> re = None then (os, oe)
      else let (a, b) = merge_observed_window (json_opt os) (json_opt oe) rs re in (opt_json a, opt_json b))"

definition refresh_dataset ::
    "('a receipt_env_scheme) \<Rightarrow> authority \<Rightarrow> refresh_input \<Rightarrow> ledger \<Rightarrow> collection_receipt list \<Rightarrow> string \<Rightarrow> (segment_row list \<times> aggregate_row) gate" where
  "refresh_dataset env au ri ld receipts ds =
     bind_res (policy_for au ds) (\<lambda>p.
     bind_res (coverage_source ri ds) (\<lambda>src.
     bind_res (lift_rc (prepare_receipts env production_receipt_environment production_digest receipts)) (\<lambda>ps.
     let indexed = index_prepared_receipts ps; (rs, re, raw_rows) = receipt_observed_window ps; stock = inventory_rows p ds (db_segments ld);
         evidence = refresh_evidence ri ds src re; (validation, count, os, oe) = refresh_validation ri ds src evidence; (ms, me) = merged_window os oe rs re in
     bind_res (refresh_required ri (au_registry au) p src stock) (\<lambda>required.
     bind_res (lift_rc (evaluate_prepared_segments (au_registry au) p required indexed)) (\<lambda>evs.
     bind_res (lift_rc (map_res (sticky_evaluation (au_registry au) p indexed stock) evs)) (\<lambda>sticky.
     bind_res (map_res (segment_row_of p) sticky) (\<lambda>rows.
     bind_res (canonical_text (refresh_detail ri evidence (map es_status sticky) rs re raw_rows)) (\<lambda>detail.
       Inr (rows, \<lparr>ar_dataset = ds, ar_status = refresh_status src validation (global_failures (ri_evidence ri) \<noteq> []) (map es_status sticky),
                   ar_policy_version = (case cc_policy_version p of None \<Rightarrow> [] | Some v \<Rightarrow> v), ar_policy = policy_columns_of p,
                   ar_observed_start = ms, ar_observed_end = me, ar_row_count = count,
                   ar_source_run_id = (if src = ''jquants'' then ri_latest_run_id ri ds else max_item id (map (\<lambda>r. int_of (cr_run_id r)) receipts)),
                   ar_evaluated_at = ri_evaluated_at ri, ar_detail = detail\<rparr>)))))))))"

subsection \<open>The refresh\<close>

definition receipts_of :: "receipt_row list \<Rightarrow> string list \<Rightarrow> collection_receipt list gate" where
  "receipts_of rows datasets =
     map_res (\<lambda>row. case receipt_from_row row of Inl m \<Rightarrow> Inl (GateValueError m) | Inr r \<Rightarrow> Inr r)
       (sort_key (\<lambda>r. (rr_checked_at r, rr_run_id r)) (filter (\<lambda>r. rr_dataset r \<in> set datasets) rows))"

definition prior_coverage :: "aggregate_row list \<Rightarrow> string list \<Rightarrow> (string \<times> (string \<times> string)) list" where
  "prior_coverage rows datasets = map (\<lambda>r. (ar_dataset r, (ar_status r, ar_policy_version r))) (filter (\<lambda>r. ar_dataset r \<in> set datasets) rows)"

definition delete_keys_for :: "authority \<Rightarrow> refresh_input \<Rightarrow> string \<Rightarrow> delete_key gate" where
  "delete_keys_for au ri ds =
     bind_res (policy_for au ds) (\<lambda>p. bind_res (coverage_source ri ds) (\<lambda>src.
       case cc_policy_version p of None \<Rightarrow> Inl (GateValueError ''delete_key must be an exact built-in string'') | Some v \<Rightarrow> Inr (src, ds, v)))"

definition refresh_coverage_ledger :: "('a receipt_env_scheme) \<Rightarrow> authority \<Rightarrow> refresh_input \<Rightarrow> string list \<Rightarrow> ledger \<Rightarrow> (ledger \<times> gate_outcome list) gate" where
  "refresh_coverage_ledger env au ri datasets ld =
     (if datasets = [] then Inl (GateValueError ''datasets must not be empty'')
      else case db_receipts ld of
        None \<Rightarrow> Inl (GateDbError ''no such table: collection_receipts'')
      | Some receipt_rows \<Rightarrow>
          bind_res (map_res (policy_for au) datasets) (\<lambda>_.
          bind_res (receipts_of receipt_rows datasets) (\<lambda>receipts.
          bind_res (map_res (\<lambda>ds. refresh_dataset env au ri ld (filter (\<lambda>r. cr_dataset r = JStr ds) receipts) ds) datasets) (\<lambda>parts.
          bind_res (map_res (delete_keys_for au ri) datasets) (\<lambda>keys.
          bind_res (persist_refreshed_coverage ld keys (concat (map fst parts)) []) (\<lambda>ld1.
          bind_res (apply_refresh_complete_gate env au (coverage_db.truncate ld1) (prior_coverage (ld_coverage ld) datasets) (ri_inventory_end ri) (map snd parts)) (\<lambda>outs.
          bind_res (persist_refreshed_coverage ld1 [] [] (filter (\<lambda>r. ar_status r \<noteq> ''COMPLETE'') (map go_row outs))) (\<lambda>ld2.
          bind_res (execute_many (\<lambda>r l. preserve_existing_complete_coverage_row l r) (filter (\<lambda>r. ar_status r = ''COMPLETE'') (map go_row outs)) ld2) (\<lambda>ld3.
            Inr (ld3, outs))))))))))"

subsection \<open>Lemmas on the writers\<close>

lemma upsert_set: "set (upsert key r rows) \<subseteq> insert r (set rows)"
  by (auto simp: upsert_def split: if_splits)

lemma fold_upsert_set: "set (fold (upsert key) rs rows) \<subseteq> set rs \<union> set rows"
proof (induction rs arbitrary: rows)
  case (Cons r rs)
  then show ?case using upsert_set [of key r rows] Cons.IH [of "upsert key r rows"] by auto
qed simp

lemma execute_many_simps [simp]:
  "execute_many f [] st = Inr st" "execute_many f (r # rs) st = bind_res (f r st) (execute_many f rs)"
proof -
  have err: "fold (\<lambda>r m. bind_res m (f r)) rs (Inl x) = Inl x" for x by (induction rs) auto
  show "execute_many f (r # rs) st = bind_res (f r st) (execute_many f rs)"
    by (cases "f r st") (auto simp: execute_many_def err)
qed (simp add: execute_many_def)

lemma execute_many_inv:
  assumes "\<And>r st st'. r \<in> set rs \<Longrightarrow> P st \<Longrightarrow> f r st = Inr st' \<Longrightarrow> P st'"
  shows "P st \<Longrightarrow> execute_many f rs st = Inr st' \<Longrightarrow> P st'"
  using assms by (induction rs arbitrary: st) (auto simp: bind_res_Inr_iff)

subsection \<open>What a refresh does to one segment\<close>

lemma lift_rc_Inr [simp]: "lift_rc m = Inr x \<longleftrightarrow> m = Inr x"
  by (simp add: lift_rc_def split: sum.splits)

lemma refresh_dataset_parts:
  assumes "refresh_dataset env au ri ld receipts ds = Inr (rows, agg)"
  obtains p src ps required evs sticky where "map_of (au_policies au) ds = Some p" "coverage_source ri ds = Inr src"
    "prepare_receipts env production_receipt_environment production_digest receipts = Inr ps"
    "refresh_required ri (au_registry au) p src (inventory_rows p ds (db_segments ld)) = Inr required"
    "map_res (evaluate_one (au_registry au) p (index_prepared_receipts ps)) required = Inr evs"
    "map_res (sticky_evaluation (au_registry au) p (index_prepared_receipts ps) (inventory_rows p ds (db_segments ld))) evs = Inr sticky"
    "map_res (segment_row_of p) sticky = Inr rows" "ar_dataset agg = ds"
    "ar_status agg = ''COMPLETE'' \<Longrightarrow> aggregate_statuses (map es_status sticky) = ''COMPLETE''"
proof -
  obtain p src ps required evs sticky where f: "policy_for au ds = Inr p" "coverage_source ri ds = Inr src"
    "prepare_receipts env production_receipt_environment production_digest receipts = Inr ps"
    "refresh_required ri (au_registry au) p src (inventory_rows p ds (db_segments ld)) = Inr required"
    "evaluate_prepared_segments (au_registry au) p required (index_prepared_receipts ps) = Inr evs"
    "map_res (sticky_evaluation (au_registry au) p (index_prepared_receipts ps) (inventory_rows p ds (db_segments ld))) evs = Inr sticky"
    "map_res (segment_row_of p) sticky = Inr rows" and agg: "ar_dataset agg = ds" "\<exists>v g. ar_status agg = refresh_status src v g (map es_status sticky)"
    using assms unfolding refresh_dataset_def Let_def case_prod_beta bind_res_Inr_iff lift_rc_Inr by fastforce
  have "ar_status agg = ''COMPLETE'' \<Longrightarrow> aggregate_statuses (map es_status sticky) = ''COMPLETE''"
    using agg(2) by (auto simp: refresh_status_def split: if_splits)
  then show ?thesis using that f agg(1) by (auto simp: policy_for_def evaluate_prepared_segments_def split: option.splits)
qed

lemma candidates_found:
  assumes "latest_complete_receipt_for_required reg p s qs = Inr found"
    and "q \<in> set qs" "evaluate_prepared_segment reg p s (Some q) = Inr (''COMPLETE'', d, Some c)"
  shows "found \<noteq> None"
proof -
  obtain cs where cs: "map_res (complete_candidate reg p s) qs = Inr cs" "found = max_item closure_rank (List.map_filter id cs)"
    using assms(1) by (auto simp: latest_complete_receipt_for_required_def bind_res_Inr_iff)
  obtain i where i: "i < length qs" "qs ! i = q" using assms(2) by (auto simp: in_set_conv_nth)
  then have "cs ! i = Some (pp_receipt q, c)" using map_res_Inr_nth [OF cs(1) i(1)] assms(3) by (simp add: complete_candidate_def)
  moreover have "cs ! i \<in> set cs" using i(1) map_res_Inr_length [OF cs(1)] by simp
  ultimately have "(pp_receipt q, c) \<in> set (List.map_filter id cs)" by (force simp: List.map_filter_def)
  then have "List.map_filter id cs \<noteq> []" by auto
  then show ?thesis using cs(2) by simp
qed

lemma candidate_complete:
  assumes "latest_complete_receipt_for_required reg p s qs = Inr (Some (r, c))"
  shows "\<exists>q d. q \<in> set qs \<and> pp_receipt q = r \<and> evaluate_prepared_segment reg p s (Some q) = Inr (''COMPLETE'', d, Some c)"
proof -
  obtain cs where cs: "map_res (complete_candidate reg p s) qs = Inr cs" "max_item closure_rank (List.map_filter id cs) = Some (r, c)"
    using assms by (auto simp: latest_complete_receipt_for_required_def bind_res_Inr_iff)
  then have "Some (r, c) \<in> set cs" using max_item_in by (fastforce simp: List.map_filter_def)
  then obtain q where "q \<in> set qs" "complete_candidate reg p s q = Inr (Some (r, c))" using map_res_Inr_set [OF cs(1)] by blast
  then show ?thesis by (auto simp: complete_candidate_def bind_res_Inr_iff split: if_splits)
qed

lemma sticky_complete:
  assumes "sticky_evaluation reg p (index_prepared_receipts ps) stock ev = Inr ev'" "es_status ev' = ''COMPLETE''"
    "evaluate_one reg p (index_prepared_receipts ps) (es_required ev) = Inr ev"
  shows "\<exists>q c. q \<in> set ps \<and> pp_closure q = Some c \<and> es_closure ev' = Some c \<and> es_receipt ev' = Some (pp_receipt q)
    \<and> require_scope c (es_required ev) (cc_policy_version p) = Inr () \<and> closure_satisfies reg p (es_required ev) c"
proof (cases "es_status ev = ''COMPLETE''")
  case True
  then have "ev' = ev" using assms(1) by (simp add: sticky_evaluation_def Let_def)
  then show ?thesis using evaluate_one_complete [OF assms(3) True] by auto
next
  case False
  then obtain r c where f: "latest_complete_receipt_for_required reg p (es_required ev)
        (case map_of (index_prepared_receipts ps) (required_key (es_required ev)) of None \<Rightarrow> [] | Some ps \<Rightarrow> ps) = Inr (Some (r, c))"
      "es_receipt ev' = Some r" "es_closure ev' = Some c"
    using assms(1,2) by (auto simp: sticky_evaluation_def Let_def bind_res_Inr_iff split: if_splits option.splits)
  obtain q d where "q \<in> set ps" "pp_receipt q = r" "evaluate_prepared_segment reg p (es_required ev) (Some q) = Inr (''COMPLETE'', d, Some c)"
    using candidate_complete [OF f(1)] unfolding index_lookup by auto
  then show ?thesis using f(2,3) by (auto simp: evaluate_prepared_complete)
qed

lemma sticky_kept:
  assumes "sticky_evaluation reg p (index_prepared_receipts ps) stock ev = Inr ev'"
    "map_of stock (rs_segment_id (es_required ev)) = Some row" "sg_status row = ''COMPLETE''"
    "q \<in> set ps" "prepared_key q = required_key (es_required ev)" "evaluate_prepared_segment reg p (es_required ev) (Some q) = Inr (''COMPLETE'', d, Some c)"
  shows "es_status ev' = ''COMPLETE''"
proof (cases "es_status ev = ''COMPLETE''")
  case False
  let ?qs = "case map_of (index_prepared_receipts ps) (required_key (es_required ev)) of None \<Rightarrow> [] | Some ps \<Rightarrow> ps"
  obtain found where f: "latest_complete_receipt_for_required reg p (es_required ev) ?qs = Inr found"
    using assms(1-3) False by (auto simp: sticky_evaluation_def Let_def bind_res_Inr_iff)
  have "q \<in> set ?qs" using assms(4,5) unfolding index_lookup by simp
  then have "found \<noteq> None" using candidates_found [OF f _ assms(6)] by blast
  then show ?thesis using assms(1-3) False f by (auto simp: sticky_evaluation_def Let_def)
qed (use assms(1) in \<open>simp add: sticky_evaluation_def Let_def\<close>)

lemma evaluate_one_required: "evaluate_one reg p indexed s = Inr ev \<Longrightarrow> es_required ev = s"
  by (auto simp: evaluate_one_def bind_res_Inr_iff)

lemma sticky_required: "sticky_evaluation reg p indexed stock ev = Inr ev' \<Longrightarrow> es_required ev' = es_required ev"
  by (auto simp: sticky_evaluation_def Let_def bind_res_Inr_iff split: if_splits option.splits)

definition backed :: "('a receipt_env_scheme) \<Rightarrow> authority \<Rightarrow> coverage_contract \<Rightarrow> collection_receipt list \<Rightarrow> required_segment \<Rightarrow> verified_closure \<Rightarrow> bool" where
  "backed env au p receipts s c \<longleftrightarrow>
     (\<exists>r \<in> set receipts. verify_collection_closure env r production_receipt_environment production_digest (Some s) (cc_policy_version p) None None = Inr c)
     \<and> closure_satisfies (au_registry au) p s c \<and> 0 < cl_int c ''raw_count''"

lemma verified_closure_key:
  assumes "verify_collection_closure env r e a (Some s) policy None None = Inr c"
  shows "closure_key c = required_key s"
proof -
  obtain f where f: "materialize_receipt_input r = Inr f" "vc_claims c = fi_claims f" "validate_bound_closure_fields env f e a True (Some s) policy None None = Inr ()"
    using assms by (rule verify_facts)
  have "\<forall>(n, w) \<in> set (required_bindings s). same (dict_get (vc_claims c) n) w"
    using validate_bound_facts(7) [OF f(3)] f(2) by (auto simp: validate_required_scope_def bind_res_Inr_iff split: option.splits dest: required_bound)
  then show ?thesis by (simp add: closure_key_def required_key_def cl_str_def required_bindings_def same_scalar str_value_def)
qed

lemma backed_prepared:
  assumes "prepare_receipts env production_receipt_environment production_digest receipts = Inr ps" "backed env au p receipts s c"
  shows "\<exists>q d. q \<in> set ps \<and> prepared_key q = required_key s \<and> evaluate_prepared_segment (au_registry au) p s (Some q) = Inr (''COMPLETE'', d, Some c)"
proof -
  obtain r where r: "r \<in> set receipts" and v: "verify_collection_closure env r production_receipt_environment production_digest (Some s) (cc_policy_version p) None None = Inr c"
      and sat: "closure_satisfies (au_registry au) p s c"
    using assms(2) unfolding backed_def by blast
  have plain: "require_verified_collection_closure env r production_receipt_environment production_digest = Inr c" "require_scope c s (cc_policy_version p) = Inr ()"
    using v by (auto simp: verify_unit_bind bind_res_Inr_iff require_scope_def)
  obtain i where i: "i < length receipts" "receipts ! i = r" using r by (auto simp: in_set_conv_nth)
  let ?q = "\<lparr>pp_receipt = r, pp_closure = Some c, pp_error = None\<rparr>"
  have "ps ! i = ?q" using map_res_Inr_nth [OF assms(1) [unfolded prepare_receipts_def] i(1)] i(2) plain(1) by (simp add: prepare_receipt_def)
  then have "?q \<in> set ps" using i(1) map_res_Inr_length [OF assms(1) [unfolded prepare_receipts_def]] by (metis nth_mem)
  moreover have "prepared_key ?q = required_key s" using verified_closure_key [OF v] by (simp add: prepared_key_def)
  moreover have "evaluate_prepared_segment (au_registry au) p s (Some ?q) = Inr (''COMPLETE'', snd (evaluate_closure (au_registry au) p s c), Some c)"
    using plain(2) sat by (simp add: evaluate_prepared_complete)
  ultimately show ?thesis by blast
qed

lemma segment_row_of_fields:
  assumes "segment_row_of p ev = Inr row"
  shows "sg_status row = es_status ev" "sg_receipt_run_id row = selected_run_id ev" "sg_segment_id row = rs_segment_id (es_required ev)"
    "sg_source row = rs_source (es_required ev)" "sg_dataset row = rs_dataset (es_required ev)"
    "sg_segment_start row = rs_segment_start (es_required ev)" "sg_segment_end row = rs_segment_end (es_required ev)"
  using assms by (auto simp: segment_row_of_def planned_row_def split: option.splits)

lemma refreshed_segment:
  assumes "refresh_dataset env au ri ld receipts ds = Inr (rows, agg)" "map_of (au_policies au) ds = Some p" "coverage_source ri ds = Inr src"
    "refresh_required ri (au_registry au) p src (inventory_rows p ds (db_segments ld)) = Inr required" "i < length required"
  shows "length rows = length required" "sg_segment_id (rows ! i) = rs_segment_id (required ! i)" "sg_segment_start (rows ! i) = rs_segment_start (required ! i)"
    "sg_segment_end (rows ! i) = rs_segment_end (required ! i)"
    "sg_status (rows ! i) = ''COMPLETE'' \<Longrightarrow> \<exists>c. backed env au p receipts (required ! i) c \<and> sg_receipt_run_id (rows ! i) = Some (cl_int c ''run_id'')"
    "map_of (inventory_rows p ds (db_segments ld)) (rs_segment_id (required ! i)) = Some old \<Longrightarrow> sg_status old = ''COMPLETE'' \<Longrightarrow>
       backed env au p receipts (required ! i) c \<Longrightarrow> sg_status (rows ! i) = ''COMPLETE''"
proof -
  obtain ps evs sticky where ps: "prepare_receipts env production_receipt_environment production_digest receipts = Inr ps"
      and evs: "map_res (evaluate_one (au_registry au) p (index_prepared_receipts ps)) required = Inr evs"
      and st: "map_res (sticky_evaluation (au_registry au) p (index_prepared_receipts ps) (inventory_rows p ds (db_segments ld))) evs = Inr sticky"
      and rows: "map_res (segment_row_of p) sticky = Inr rows"
    using assms(1) by (rule refresh_dataset_parts) (use assms(2-4) in auto)
  note len = map_res_Inr_length [OF evs] map_res_Inr_length [OF st] map_res_Inr_length [OF rows]
  have ev: "evaluate_one (au_registry au) p (index_prepared_receipts ps) (required ! i) = Inr (evs ! i)" using map_res_Inr_nth [OF evs assms(5)] .
  have s: "sticky_evaluation (au_registry au) p (index_prepared_receipts ps) (inventory_rows p ds (db_segments ld)) (evs ! i) = Inr (sticky ! i)"
    using map_res_Inr_nth [OF st] len assms(5) by simp
  have r: "segment_row_of p (sticky ! i) = Inr (rows ! i)" using map_res_Inr_nth [OF rows] len assms(5) by simp
  note f = segment_row_of_fields [OF r] and q = evaluate_one_required [OF ev] sticky_required [OF s]
  show "length rows = length required" using len by simp
  show "sg_segment_id (rows ! i) = rs_segment_id (required ! i)" "sg_segment_start (rows ! i) = rs_segment_start (required ! i)"
    "sg_segment_end (rows ! i) = rs_segment_end (required ! i)" using f q by simp_all
  show "\<exists>c. backed env au p receipts (required ! i) c \<and> sg_receipt_run_id (rows ! i) = Some (cl_int c ''run_id'')" if c: "sg_status (rows ! i) = ''COMPLETE''"
  proof -
    obtain qq c where qq: "qq \<in> set ps" "pp_closure qq = Some c" and cl: "es_closure (sticky ! i) = Some c"
        and sc: "require_scope c (required ! i) (cc_policy_version p) = Inr ()" "closure_satisfies (au_registry au) p (required ! i) c"
      using sticky_complete [OF s] c f(1) q ev by auto
    have "backed env au p receipts (required ! i) c" unfolding backed_def using prepared_complete_verified [OF ps qq sc] by blast
    then show ?thesis using cl c f(1,2) by (auto simp: selected_run_id_def)
  qed
  show "sg_status (rows ! i) = ''COMPLETE''"
    if old: "map_of (inventory_rows p ds (db_segments ld)) (rs_segment_id (required ! i)) = Some old" "sg_status old = ''COMPLETE''"
      and b: "backed env au p receipts (required ! i) c"
    using backed_prepared [OF ps b] sticky_kept [OF s] old q f(1) by auto
qed

subsection \<open>A concrete ledger\<close>

definition sample_capability :: source_capability where
  "sample_capability = \<lparr>sc_dataset_id = ''fins_summary'', sc_source = ''jquants_premium_core'', sc_upstream_locator = ''/v2/fins/summary'',
     sc_official_evidence_url = ''https://jpx-jquants.com/'', sc_history_mode = ''bounded_history'', sc_earliest = isoformat (Date 2020 1 1),
     sc_historical = True, sc_tip_only = False, sc_query_parameters = [''date''],
     sc_publication_calendar = \<lparr>pc_kind = ''business_day'', pc_timezone = ''Asia/Tokyo'', pc_index_url = None\<rparr>,
     sc_entitlement = \<lparr>clamp_before_earliest = True, subscription_floor = None\<rparr>,
     sc_window = \<lparr>cw_grain = ''calendar_month'', cw_open = ''2008-05-07'', cw_close = []\<rparr>,
     sc_freshness = \<lparr>fs_expected_after = [], fs_usable_by = [], fs_timezone = [], fs_rule = ''next_business_day''\<rparr>,
     sc_event_time = \<lparr>et_policy = ''snapshot_date'', et_fields = []\<rparr>, sc_available_at = \<lparr>aa_policy = ''collected_at'', aa_field = None, aa_known_publication_lag = None\<rparr>,
     sc_revision = \<lparr>rs_policy = ''append'', rs_generation_on_revision = False\<rparr>,
     sc_research = \<lparr>rp_include_in = [], rp_exclude_from = [], rp_exclusion_reason = []\<rparr>,
     sc_domain = \<lparr>rd_basis = ''calendar_months_from_official_start'', rd_empty_success_policy = ''never_complete''\<rparr>\<rparr>"

definition sample_authority :: authority where
  "sample_authority = \<lparr>au_policies = [(''fins_summary'', sample_eval_policy)], au_registry = [(''fins_summary'', sample_capability)]\<rparr>"

lemma sample_literals: "''2024-01-01'' = isoformat (Date 2024 1 1)" "''2024-01-31'' = isoformat (Date 2024 1 31)" "''2024-01'' = month_id (Date 2024 1 1)"
  by code_simp+

lemma sample_date_facts: "valid_date (Date 2024 1 1)" "valid_date (Date 2024 1 31)" "valid_date (Date 2020 1 1)"
  "month_end (Date 2024 1 1) = Date 2024 1 31" "next_day (Date 2024 1 31) = Some (Date 2024 2 1)"
  by (simp_all add: valid_date_def days_in_month_def is_leap_def month_end_def last_of_month_def next_day_def)

lemma sample_domain: "official_domain_for (source_capability_contract_or_none (au_registry sample_authority) (cc_dataset_id sample_eval_policy))
    = Some (required_domain_subset_official sample_capability)"
  by (simp add: official_domain_for_def source_capability_contract_or_none_def sample_authority_def sample_eval_policy_def sample_policy_def)

lemma sample_tiling: "tiling_grain sample_eval_policy (Some (required_domain_subset_official sample_capability))"
  by (simp add: tiling_grain_def is_tip_snapshot_policy_def uses_official_archive_index_def sample_eval_policy_def sample_policy_def required_domain_subset_official_def
      sample_capability_def snapshot_segment_granularities_def tip_coverage_modes_def tip_snapshot_modes_def official_archive_index_datasets_def official_archive_index_modes_def)

lemma sample_start: "effective_start (au_registry sample_authority) sample_eval_policy None = Inr (Date 2024 1 1)"
  using sample_date_facts
  by (simp add: effective_start_def sample_domain raise_start_def parse_date_def required_domain_subset_official_def sample_capability_def)
    (simp add: sample_eval_policy_def sample_literals)

lemma sample_append:
  assumes "px_policy px = sample_eval_policy" "px_source px = ''jquants''" "px_granularity px = ''calendar_month''" "px_extra px = []"
    "px_expected px = None \<or> px_expected px = Some [] \<or> px_expected px = Some [(''2024-01'', 1)]"
  shows "append_segment px ''2024-01'' (Date 2024 1 1) (Date 2024 1 31) = Inr sample_segment"
proof -
  have "cc_expected_frequency sample_eval_policy = ''daily''" "cc_dataset_id sample_eval_policy = ''fins_summary''"
    "cc_coverage_mode sample_eval_policy = ''calendar''" "cc_universe_rule sample_eval_policy = ''all''"
    by (simp_all add: sample_eval_policy_def sample_policy_def)
  then show ?thesis
    using assms by (auto simp: append_segment_def Let_def sample_segment_def sample_literals(1,2))
qed

lemma sample_plan_segment:
  assumes "ex = None \<or> ex = Some [] \<or> ex = Some [(''2024-01'', 1)]"
  shows "plan_required_segments (au_registry sample_authority) sample_eval_policy ''2024-01-31'' ''jquants'' ex idx None = Inr [sample_segment]"
proof -
  let ?od = "Some (required_domain_subset_official sample_capability)"
  have tip: "\<not> is_tip_snapshot_policy sample_eval_policy ?od" "\<not> uses_official_archive_index sample_eval_policy ?od"
    using sample_tiling by (simp_all add: tiling_grain_def)
  have grain: "plan_grain sample_eval_policy ?od False = ''calendar_month''" by (simp add: plan_grain_def sample_eval_policy_def sample_policy_def)
  let ?px = "\<lparr>px_policy = sample_eval_policy, px_source = ''jquants'', px_granularity = ''calendar_month'', px_extra = [], px_expected = ex\<rparr>"
  have "month_loop ?px (Date 2024 1 1) (Date 2024 1 31) = Inr [sample_segment]"
    using sample_date_facts sample_append [of ?px] assms
    by (simp add: month_loop.simps [of _ "Date 2024 1 1"] month_loop.simps [of _ "Date 2024 2 1"] sample_literals(3) [symmetric] del: One_nat_def)
  then have "expand_grain ?px ?od False idx (Date 2024 1 1) (Date 2024 1 31) = Inr [sample_segment]" using tip by (simp add: expand_grain_def)
  moreover have "parse_date ''2024-01-31'' = Inr (Date 2024 1 31)" using sample_date_facts(2) by (simp add: parse_date_def sample_literals(2))
  ultimately show ?thesis
    using tip grain by (simp add: plan_required_segments_def sample_domain sample_start Let_def)
qed

lemma sample_expected: "expected_for sample_authority ''2024-01-31'' ''fins_summary'' = Inr [sample_segment]"
proof -
  have "cc_policy_version sample_eval_policy = Some collection_coverage_v3" "cc_segment_granularity sample_eval_policy = ''calendar_month''"
    by (simp_all add: sample_eval_policy_def sample_policy_def collection_coverage_v3_def)
  moreover have "source_capability_contract_or_none (au_registry sample_authority) ''fins_summary'' = Some sample_capability"
    by (simp add: source_capability_contract_or_none_def sample_authority_def)
  moreover have "cw_grain (sc_window sample_capability) = ''calendar_month''" "receipt_source_for_canonical_source (sc_source sample_capability) = Inr ''jquants''"
    by (simp_all add: sample_capability_def receipt_source_for_canonical_source_def receipt_source_by_canonical_def)
  moreover have "map_of (au_policies sample_authority) ''fins_summary'' = Some sample_eval_policy" by (simp add: sample_authority_def)
  ultimately show ?thesis
    using sample_plan_segment [of None] by (simp add: expected_for_def deterministic_inventory_grains_def)
qed

lemma non_finite_canon: "non_finite (canon j) \<longleftrightarrow> non_finite j"
  by (induction j) force+

lemma planned_identity:
  assumes "exact_json (JObj (rs_expected_scope s))" "coverage_policy_binding env au (rs_dataset s) = Inr b" "planned_row (pb_policy_version b) st run s = Inr row"
  shows "\<exists>i k. canonical_segment_identity env au s = Inr i \<and> persisted_segment_identity b row = Inr i \<and> identity_key i = Inr k \<and> storage_key i = row_storage_key row"
proof -
  have fin: "canonical_json (JObj (rs_expected_scope s)) = Some (json_dumps (JObj (rs_expected_scope s)))"
    using exact_finite [OF assms(1)] by (simp add: canonical_json_def del: non_finite.simps)
  have row: "row = \<lparr>sg_source = rs_source s, sg_dataset = rs_dataset s, sg_segment_id = rs_segment_id s, sg_policy_version = pb_policy_version b,
      sg_segment_start = rs_segment_start s, sg_segment_end = rs_segment_end s, sg_expected_scope = json_dumps (JObj (rs_expected_scope s)),
      sg_expected_items = rs_expected_items s, sg_status = st, sg_receipt_run_id = run\<rparr>"
    using assms(3) by (simp add: planned_row_def fin del: json_dumps.simps)
  have loads: "plain_loads (json_dumps (JObj (rs_expected_scope s))) = Inr (canon (JObj (rs_expected_scope s)))" using assms(1) by (rule plain_loads_dumps)
  have dumps: "canonical_json (canon (JObj (rs_expected_scope s))) = Some (json_dumps (JObj (rs_expected_scope s)))"
    "\<not> non_finite (canon (JObj (rs_expected_scope s)))"
    using exact_finite [OF assms(1)] by (simp_all add: canonical_json_def json_dumps_canon non_finite_canon del: non_finite.simps canon.simps json_dumps.simps)
  obtain i where i: "canonical_segment_identity env au s = Inr i" "id_scope_json i = json_dumps (JObj (rs_expected_scope s))" "persisted_segment_identity b row = Inr i"
      "storage_key i = row_storage_key row"
    using fin loads dumps(1) assms(2)
    by (simp add: canonical_segment_identity_def persisted_segment_identity_def row is_object_def storage_key_def row_storage_key_def del: json_dumps.simps)
  have "\<not> non_finite (JObj (identity_dict i (canon (JObj (rs_expected_scope s)))))"
    using dumps(2) by (simp add: identity_dict_def items_json_def split: option.splits del: canon.simps)
  then have "\<exists>k. identity_key i = Inr k" by (simp add: identity_key_def i(2) loads canonical_json_def del: json_dumps.simps canon.simps non_finite.simps)
  then show ?thesis using i by blast
qed

text \<open>A table that holds the planned row of the only expected segment is an exact inventory.\<close>

lemma single_segment_exact:
  assumes "expected_for au te ds = Inr [s]" "rs_dataset s = ds" "exact_json (JObj (rs_expected_scope s))" "coverage_policy_binding env au ds = Inr b"
    "planned_row (pb_policy_version b) st run s = Inr row"
  shows "\<exists>i iv. compare_exact_coverage_inventory env au [row] [ds] te = Inr iv \<and> exact_inventory iv \<and> iv_expected_segments iv = [s] \<and> iv_expected_identities iv = [i]
    \<and> storage_key i = row_storage_key row \<and> persisted_segment_identity b row = Inr i"
proof -
  obtain i k where i: "canonical_segment_identity env au s = Inr i" "persisted_segment_identity b row = Inr i" "identity_key i = Inr k" "storage_key i = row_storage_key row"
    using planned_identity [OF assms(3), of env au b] assms(2,4,5) by blast
  have row: "sg_dataset row = ds" "sg_policy_version row = pb_policy_version b" using assms(2,5) by (auto simp: planned_row_def split: option.splits)
  show ?thesis
    using assms(1,4) i row
    by (intro exI [of _ i])
      (simp add: compare_exact_coverage_inventory_def by_identity_key_def scan_row_def Let_def group_add_def compare_scan_def exact_inventory_def)
qed

definition sample_segment_row :: "segment_row" where
  "sample_segment_row = \<lparr>sg_source = ''jquants'', sg_dataset = ''fins_summary'', sg_segment_id = ''2024-01'', sg_policy_version = ''collection-coverage/v3'',
     sg_segment_start = ''2024-01-01'', sg_segment_end = ''2024-01-31'', sg_expected_scope = json_dumps (JObj (rs_expected_scope sample_segment)),
     sg_expected_items = Some 1, sg_status = ''COMPLETE'', sg_receipt_run_id = Some 7\<rparr>"

definition sample_receipt_row :: "receipt_row" where
  "sample_receipt_row = \<lparr>rr_source = ''jquants'', rr_dataset = ''fins_summary'', rr_segment_id = ''2024-01'', rr_segment_start = ''2024-01-01'',
     rr_segment_end = ''2024-01-31'', rr_expected_scope = json_dumps (JObj sample_scope_object), rr_expected_items = Some 1, rr_observed_items = 1,
     rr_raw_page_count = 1, rr_raw_row_count = 2, rr_structured_row_count = 2, rr_pagination_exhausted = 1,
     rr_digests_json = json_dumps (JObj (sample_envelope (b64encode sample_body) sample_signature)), rr_run_id = 7, rr_status = ''SUCCESS'',
     rr_error = None, rr_checked_at = ''2024-02-01T00:00:00Z''\<rparr>"

lemma sample_rows_canonical: "canonical_dict sample_scope_object" "canonical_dict (sample_envelope b s)" "exact_json (JObj (rs_expected_scope sample_segment))"
  by code_simp+

lemma sample_receipt_fields:
  "receipt_of_claims sample_claims dg = \<lparr>cr_source = JStr ''jquants'', cr_dataset = JStr ''fins_summary'', cr_segment_id = JStr ''2024-01'',
     cr_segment_start = JStr ''2024-01-01'', cr_segment_end = JStr ''2024-01-31'', cr_expected_scope = JObj sample_scope_object,
     cr_expected_items = JInt 1, cr_observed_items = JInt 1, cr_raw_page_count = JInt 1, cr_raw_row_count = JInt 2, cr_structured_row_count = JInt 2,
     cr_pagination_exhausted = JBool True, cr_digests = dg, cr_run_id = JInt 7, cr_status = JStr ''SUCCESS'', cr_error = JNull,
     cr_checked_at = JStr ''2024-02-01T00:00:00Z''\<rparr>"
  by code_simp

lemma plain_loads_canonical: "canonical_dict d \<Longrightarrow> plain_loads (json_dumps (JObj d)) = Inr (JObj d)"
  using plain_loads_dumps [of "JObj d"] by (simp add: canonical_dict_def del: json_dumps.simps canon.simps exact_json.simps)

lemma sample_row_receipt: "receipt_from_row sample_receipt_row = Inr sample_receipt"
  using plain_loads_canonical [OF sample_rows_canonical(1)] plain_loads_canonical [OF sample_rows_canonical(2)]
  by (simp add: receipt_from_row_def sample_receipt_row_def is_object_def items_json_def opt_json_def sample_receipt_def sample_receipt_fields del: json_dumps.simps)

lemma sample_planned_row: "planned_row ''collection-coverage/v3'' ''COMPLETE'' (Some 7) sample_segment = Inr sample_segment_row"
proof -
  have "canonical_json (JObj (rs_expected_scope sample_segment)) = Some (json_dumps (JObj (rs_expected_scope sample_segment)))"
    using exact_finite [OF sample_rows_canonical(3)] by (simp add: canonical_json_def del: non_finite.simps json_dumps.simps)
  then show ?thesis by (simp add: planned_row_def sample_segment_row_def del: json_dumps.simps) (simp add: sample_segment_def)
qed

lemma sample_binding: "\<exists>d. coverage_policy_binding env sample_authority ''fins_summary''
    = Inr \<lparr>pb_policy_id = ''fins_summary'', pb_policy_version = ''collection-coverage/v3'', pb_policy_digest = d\<rparr>"
proof -
  have p: "policy_for sample_authority ''fins_summary'' = Inr sample_eval_policy" by (simp add: policy_for_def sample_authority_def)
  have "cc_policy_version sample_eval_policy = Some ''collection-coverage/v3''" by (simp add: sample_eval_policy_def)
  then show ?thesis by (simp add: coverage_policy_binding_def coverage_policy_digest_def p del: json_dumps.simps)
qed

definition sample_db :: coverage_db where
  "sample_db = \<lparr>db_segments = [sample_segment_row], db_receipts = Some [sample_receipt_row]\<rparr>"

lemma sample_registry_satisfies: "closure_satisfies (au_registry sample_authority) sample_eval_policy sample_segment sample_closure"
proof -
  have "cl_int sample_closure ''observed_items'' = 1" by code_simp
  then show ?thesis using sample_satisfies by (simp add: closure_satisfies_def)
qed

lemma sample_policy_version: "cc_policy_version sample_eval_policy = Some ''collection-coverage/v3''"
  by (simp add: sample_eval_policy_def)

lemma sample_evaluate_selected: "evaluate_selected sample_receipt_env sample_authority sample_segment sample_receipt_row = Inr (Inr sample_closure)"
proof -
  have p: "policy_for sample_authority (rs_dataset sample_segment) = Inr sample_eval_policy" by (simp add: policy_for_def sample_authority_def sample_segment_def)
  have "evaluate_prepared_segment (au_registry sample_authority) sample_eval_policy sample_segment (Some sample_prepared)
      = Inr (''COMPLETE'', snd (evaluate_closure (au_registry sample_authority) sample_eval_policy sample_segment sample_closure), Some sample_closure)"
    unfolding evaluate_prepared_complete by (simp add: sample_prepared_def sample_registry_satisfies sample_scope_ok)
  then show ?thesis
    using sample_prepares sample_row_receipt p
    by (simp add: evaluate_selected_def evaluate_segment_with_closure_def production_receipt_environment_def)
qed

lemma sample_verification_parts:
  "\<exists>v i b. verify_exact_coverage_complete sample_receipt_env sample_authority sample_db [''fins_summary''] ''2024-01-31'' = Inr v \<and> complete_eligible v
     \<and> iv_expected_segments (cv_inventory v) = [sample_segment] \<and> iv_expected_identities (cv_inventory v) = [i] \<and> cv_closures v = [sample_closure]
     \<and> persisted_segment_identity b sample_segment_row = Inr i"
proof -
  obtain d where b: "coverage_policy_binding sample_receipt_env sample_authority ''fins_summary''
      = Inr \<lparr>pb_policy_id = ''fins_summary'', pb_policy_version = ''collection-coverage/v3'', pb_policy_digest = d\<rparr>" using sample_binding by blast
  have ds: "rs_dataset sample_segment = ''fins_summary''" by (simp add: sample_segment_def)
  have pr: "planned_row (pb_policy_version \<lparr>pb_policy_id = ''fins_summary'', pb_policy_version = ''collection-coverage/v3'', pb_policy_digest = d\<rparr>)
      ''COMPLETE'' (Some 7) sample_segment = Inr sample_segment_row" using sample_planned_row by simp
  obtain i iv where iv: "compare_exact_coverage_inventory sample_receipt_env sample_authority [sample_segment_row] [''fins_summary''] ''2024-01-31'' = Inr iv"
      "exact_inventory iv" "iv_expected_segments iv = [sample_segment]" "iv_expected_identities iv = [i]" "storage_key i = row_storage_key sample_segment_row"
      "persisted_segment_identity \<lparr>pb_policy_id = ''fins_summary'', pb_policy_version = ''collection-coverage/v3'', pb_policy_digest = d\<rparr> sample_segment_row = Inr i"
    using single_segment_exact [OF sample_expected ds sample_rows_canonical(3) b pr] by blast
  have j: "joins sample_segment_row sample_receipt_row" "sg_dataset sample_segment_row = ''fins_summary''" "sg_status sample_segment_row = ''COMPLETE''"
      "sg_receipt_run_id sample_segment_row = Some 7"
    by (simp_all add: joins_def sample_segment_row_def sample_receipt_row_def)
  have "check_selected sample_receipt_env sample_authority (by_storage_key (left_join [sample_segment_row] [sample_receipt_row])) i sample_segment = Inr (Inr sample_closure)"
    using iv(5,6) j b sample_evaluate_selected by (simp add: check_selected_def by_storage_key_def left_join_def segment_changed_def)
  then show ?thesis
    using iv j ds by (simp add: verify_exact_coverage_complete_def sample_db_def complete_eligible_def Let_def) blast
qed

lemma sample_verification:
  "\<exists>v. verify_exact_coverage_complete sample_receipt_env sample_authority sample_db [''fins_summary''] ''2024-01-31'' = Inr v \<and> complete_eligible v"
  using sample_verification_parts by blast

definition sample_aggregate :: aggregate_row where
  "sample_aggregate = \<lparr>ar_dataset = ''fins_summary'', ar_status = ''COMPLETE'', ar_policy_version = ''collection-coverage/v3'',
     ar_policy = policy_columns_of sample_eval_policy, ar_observed_start = JNull, ar_observed_end = JNull, ar_row_count = 2, ar_source_run_id = Some 7,
     ar_evaluated_at = ''2024-02-01T00:00:00+00:00'', ar_detail = []\<rparr>"

lemma finite_inventory_detail: "\<not> non_finite (JObj (inventory_detail iv))"
  by (auto simp: inventory_detail_def brief_def triple_json_def)

lemma finite_verification_detail: "\<not> non_finite (JObj (verification_detail v))"
  using finite_inventory_detail [of "cv_inventory v"] by (auto simp: verification_detail_def triple_json_def)

lemma canonical_text_finite: "\<not> non_finite (JObj d) \<Longrightarrow> canonical_text d = Inr (json_dumps (JObj d))"
  by (simp add: canonical_text_def canonical_json_def del: non_finite.simps json_dumps.simps)

lemma finite_opt_json [simp]: "\<not> non_finite (opt_json v)"
  by (simp add: opt_json_def split: option.splits)

lemma finite_gate_json: "non_finite (gate_json te out) \<longleftrightarrow> non_finite (go_inventory out)"
  by (simp add: gate_json_def)

lemma plain_loads_empty: "plain_loads ''{}'' = Inr (JObj [])"
  by code_simp

lemma write_gate_detail_fresh:
  assumes "ar_detail (go_row out) = []" "\<not> non_finite (go_inventory out)"
  shows "\<exists>t. write_gate_detail te out = Inr (out\<lparr>go_row := (go_row out)\<lparr>ar_detail := t\<rparr>\<rparr>)"
proof -
  have d: "loaded_detail [] = []" by (simp add: loaded_detail_def plain_loads_empty)
  have "\<not> non_finite (JObj [(''coverage_v2'', JObj [(''aggregate_complete_gate'', gate_json te out)])])" using assms(2) by (simp add: finite_gate_json)
  from canonical_text_finite [OF this] show ?thesis
    using d assms(1) by (simp add: write_gate_detail_def dict_arg_def dict_get_def del: json_dumps.simps) blast
qed

lemma sample_gate:
  "\<exists>out. gate_row sample_receipt_env sample_authority sample_db [(''fins_summary'', (''COMPLETE'', ''collection-coverage/v3''))] ''2024-01-31'' sample_aggregate = Inr out
     \<and> ar_status (go_row out) = ''COMPLETE''"
proof -
  obtain v where v: "verify_exact_coverage_complete sample_receipt_env sample_authority sample_db [''fins_summary''] ''2024-01-31'' = Inr v" "complete_eligible v"
    using sample_verification by blast
  then have "exact_inventory (cv_inventory v)" by (simp add: complete_eligible_def)
  then have g: "gate_verdict sample_receipt_env sample_authority sample_db ''2024-01-31'' sample_aggregate (Some ''COMPLETE'') (Some ''collection-coverage/v3'')
      = Inr (''EXACT'', ''VERIFIED'', None, JObj (verification_detail v))"
    using v by (simp add: gate_verdict_def sample_aggregate_def)
  let ?out = "\<lparr>go_row = sample_aggregate, go_computed_status = ''COMPLETE'', go_prior_status = Some ''COMPLETE'', go_prior_policy_version = Some ''collection-coverage/v3'',
     go_inventory_status = ''EXACT'', go_receipt_status = ''VERIFIED'', go_blocker = None, go_inventory = JObj (verification_detail v)\<rparr>"
  have "ar_status sample_aggregate = ''COMPLETE''" "ar_dataset sample_aggregate = ''fins_summary''" "ar_detail sample_aggregate = []" by (simp_all add: sample_aggregate_def)
  then show ?thesis
    using g write_gate_detail_fresh [of ?out "''2024-01-31''"] finite_verification_detail [of v] by (auto simp: gate_row_def simp del: non_finite.simps)
qed

definition sample_input :: refresh_input where
  "sample_input = \<lparr>ri_evaluated_at = ''2024-02-01T00:00:00+00:00'', ri_target_end = ''2024-01-31'', ri_inventory_end = ''2024-01-31'', ri_freshness_days = 7, ri_canonical_source = (\<lambda>_. ''jquants_premium_core''),
     ri_evidence = [], ri_jsda_status = (\<lambda>_. (''UNKNOWN'', 0, JNull, JNull)), ri_index_days = [], ri_latest_run_id = (\<lambda>_. Some 7), ri_py_str = (\<lambda>_. [])\<rparr>"

definition sample_ledger :: ledger where
  "sample_ledger = \<lparr>db_segments = [sample_segment_row], db_receipts = Some [sample_receipt_row], ld_coverage = [sample_aggregate]\<rparr>"

lemma sample_source: "coverage_source sample_input ds = Inr ''jquants''"
  by (simp add: coverage_source_def sample_input_def receipt_source_for_canonical_source_def receipt_source_by_canonical_def)

lemma sample_stock: "inventory_rows sample_eval_policy ''fins_summary'' (db_segments sample_ledger) = [(''2024-01'', sample_segment_row)]"
  by (simp add: inventory_rows_def sample_ledger_def sample_segment_row_def sample_policy_version del: json_dumps.simps)

lemma sample_kept: "kept_items [(''2024-01'', sample_segment_row)] sample_segment = Some (''2024-01'', 1)"
proof -
  have "canonical_json (JObj (rs_expected_scope sample_segment)) = Some (sg_expected_scope sample_segment_row)"
    using exact_finite [OF sample_rows_canonical(3)] by (simp add: canonical_json_def sample_segment_row_def del: non_finite.simps json_dumps.simps)
  moreover have "rs_segment_id sample_segment = ''2024-01''" "rs_segment_start sample_segment = sg_segment_start sample_segment_row"
      "rs_segment_end sample_segment = sg_segment_end sample_segment_row" "sg_expected_items sample_segment_row = Some 1"
    by (simp_all add: sample_segment_def sample_segment_row_def)
  ultimately show ?thesis by (simp add: kept_items_def)
qed

lemma sample_required: "refresh_required sample_input (au_registry sample_authority) sample_eval_policy ''jquants'' [(''2024-01'', sample_segment_row)] = Inr [sample_segment]"
proof -
  have "\<not> keeps_stored_inventory (au_registry sample_authority) sample_eval_policy" by (simp add: keeps_stored_inventory_def sample_eval_policy_def sample_policy_def)
  then show ?thesis
    using sample_plan_segment [of None] sample_plan_segment [of "Some [(''2024-01'', 1)]"] sample_kept
    by (simp add: refresh_required_def plan_gate_def sample_input_def List.map_filter_def)
qed

lemma sample_evaluate_one:
  "\<exists>ev. evaluate_one (au_registry sample_authority) sample_eval_policy (index_prepared_receipts [sample_prepared]) sample_segment = Inr ev
     \<and> es_status ev = ''COMPLETE'' \<and> es_required ev = sample_segment \<and> es_closure ev = Some sample_closure"
proof -
  have "best_prepared (index_prepared_receipts [sample_prepared]) sample_segment = Some sample_prepared"
    by (simp add: best_prepared_eq sample_key max_item_def)
  moreover have "evaluate_prepared_segment (au_registry sample_authority) sample_eval_policy sample_segment (Some sample_prepared)
      = Inr (''COMPLETE'', snd (evaluate_closure (au_registry sample_authority) sample_eval_policy sample_segment sample_closure), Some sample_closure)"
    unfolding evaluate_prepared_complete by (simp add: sample_prepared_def sample_registry_satisfies sample_scope_ok)
  ultimately show ?thesis by (simp add: evaluate_one_def)
qed

lemma finite_refresh_detail:
  assumes "\<forall>r \<in> set evidence \<union> set (ri_evidence ri). \<not> non_finite (JObj (ck_metrics r))"
  shows "\<not> non_finite (JObj (refresh_detail ri evidence sts rs re n))"
proof -
  have "\<not> non_finite (as_log_dict r)" if "r \<in> set evidence \<union> set (ri_evidence ri)" for r
    using assms that by (simp add: as_log_dict_def del: non_finite.simps(3)) auto
  then show ?thesis by (auto simp: refresh_detail_def global_failures_def)
qed

lemma finite_receipt_evidence: "\<forall>r \<in> set (apply_receipt_freshness_c8 pystr [] ds re ref n). \<not> non_finite (JObj (ck_metrics r))"
  by (auto simp: apply_receipt_freshness_c8_def Let_def freshness_result_def split: option.splits)

lemma sample_refresh_dataset:
  "\<exists>agg. refresh_dataset sample_receipt_env sample_authority sample_input sample_ledger [sample_receipt] ''fins_summary'' = Inr ([sample_segment_row], agg)"
proof -
  obtain ev where ev: "evaluate_one (au_registry sample_authority) sample_eval_policy (index_prepared_receipts [sample_prepared]) sample_segment = Inr ev"
      "es_status ev = ''COMPLETE''" "es_required ev = sample_segment" "es_closure ev = Some sample_closure"
    using sample_evaluate_one by blast
  have "cl_int sample_closure ''run_id'' = 7" by code_simp
  then have row: "segment_row_of sample_eval_policy ev = Inr sample_segment_row"
    using ev(2-4) sample_planned_row by (simp add: segment_row_of_def selected_run_id_def sample_policy_version)
  have sticky: "sticky_evaluation (au_registry sample_authority) sample_eval_policy (index_prepared_receipts [sample_prepared]) [(''2024-01'', sample_segment_row)] ev = Inr ev"
    using ev(2) by (simp add: sticky_evaluation_def)
  have p: "policy_for sample_authority ''fins_summary'' = Inr sample_eval_policy" by (simp add: policy_for_def sample_authority_def)
  have "canonical_text (refresh_detail sample_input (refresh_evidence sample_input ''fins_summary'' ''jquants'' re) sts rs re' n)
      = Inr (json_dumps (JObj (refresh_detail sample_input (refresh_evidence sample_input ''fins_summary'' ''jquants'' re) sts rs re' n)))" for re sts rs re' n
    by (intro canonical_text_finite finite_refresh_detail) (simp add: refresh_evidence_def sample_input_def finite_receipt_evidence del: non_finite.simps)
  then show ?thesis
    using p sample_source sample_prepares sample_stock sample_required ev(1) sticky row
    by (simp add: refresh_dataset_def Let_def case_prod_beta evaluate_prepared_segments_def production_receipt_environment_def lift_rc_def del: json_dumps.simps)
qed

subsection \<open>Properties of the ledger\<close>

text \<open>C17: Segments are complete on evidence, and stay so. A refresh writes one row per required segment, in order. A row it
  writes as \<open>COMPLETE\<close> names the run of a receipt of the dataset that verifies for that segment and satisfies the policy; and a
  segment that was \<open>COMPLETE\<close> remains so as long as any receipt does, even when a later receipt that is not ranks
  above it.\<close>

theorem refreshed_segments_backed_and_sticky:
  assumes "refresh_dataset env au ri ld receipts ds = Inr (rows, agg)" "map_of (au_policies au) ds = Some p" "coverage_source ri ds = Inr src"
    "refresh_required ri (au_registry au) p src (inventory_rows p ds (db_segments ld)) = Inr required" "i < length required"
  shows "length rows = length required \<and> sg_segment_id (rows ! i) = rs_segment_id (required ! i)
    \<and> (sg_status (rows ! i) = ''COMPLETE'' \<longrightarrow> (\<exists>c. backed env au p receipts (required ! i) c \<and> sg_receipt_run_id (rows ! i) = Some (cl_int c ''run_id'')))
    \<and> (\<forall>old c. map_of (inventory_rows p ds (db_segments ld)) (rs_segment_id (required ! i)) = Some old \<and> sg_status old = ''COMPLETE''
         \<and> backed env au p receipts (required ! i) c \<longrightarrow> sg_status (rows ! i) = ''COMPLETE'')"
  using refreshed_segment [OF assms] by blast

theorem refreshed_segments_backed_and_sticky_witness:
  "\<exists>c. backed sample_receipt_env sample_authority sample_eval_policy [sample_receipt] sample_segment c \<and> cl_int c ''run_id'' = 7"
proof -
  obtain agg where r: "refresh_dataset sample_receipt_env sample_authority sample_input sample_ledger [sample_receipt] ''fins_summary'' = Inr ([sample_segment_row], agg)"
    using sample_refresh_dataset by blast
  have p: "map_of (au_policies sample_authority) ''fins_summary'' = Some sample_eval_policy" by (simp add: sample_authority_def)
  show ?thesis
    using refreshed_segments_backed_and_sticky [OF r p sample_source, unfolded sample_stock, OF sample_required, of 0]
    by (auto simp: sample_segment_row_def)
qed

end
