(* ===== verification/CoverageSync.thy ===== *)
theory CoverageSync
  imports CoverageLedger
begin

section \<open>Re-aggregation of the coverage ledger\<close>

text \<open>
  \<open>packages/data_plane/storage/coverage_ledger.py\<close>: the surgical re-aggregation of dataset rows from the stored segments, and the reads of
  the ledger. It ends with the step relation over every operation that writes the ledger. A raised exception rolls the transaction
  back. \<open>str\<close> of a value that is not a string and \<open>int\<close> of a string or float, which only a row some other program wrote
  could need, are functions of the input.
\<close>

subsection \<open>Reads\<close>

definition coverage_rows :: "ledger \<Rightarrow> aggregate_row list" where
  "coverage_rows ld = sort_key ar_dataset (ld_coverage ld)"

record summary =
  sm_policy_version :: string
  sm_policy_digest :: string
  sm_dataset_count :: nat
  sm_status_counts :: "(string \<times> nat) list"
  sm_governed_ready :: bool

definition sorted_statuses :: "string list" where
  "sorted_statuses = [''COMPLETE'', ''FAILED'', ''PARTIAL'', ''STALE'', ''UNKNOWN'']"

definition coverage_summary :: "('a crypto_env_scheme) \<Rightarrow> authority \<Rightarrow> ledger \<Rightarrow> summary gate" where
  "coverage_summary env au ld =
     (let rows = coverage_rows ld; governed = filter (\<lambda>r. pq_governance_tier (ar_policy r) = ''governed'') rows in
      bind_res (if rows = [] then Inr (''UNKNOWN'', ''UNKNOWN'')
                else bind_res (coverage_policy_set_binding env au (map ar_dataset rows)) (\<lambda>(v, d, bs). Inr (v, d))) (\<lambda>(version, digest).
      case List.find (\<lambda>r. ar_status r \<notin> set sorted_statuses) rows of
        Some r \<Rightarrow> Inl (GateKeyError (ar_status r))
      | None \<Rightarrow>
          Inr \<lparr>sm_policy_version = version, sm_policy_digest = digest, sm_dataset_count = length rows,
               sm_status_counts = map (\<lambda>v. (v, length (filter (\<lambda>r. ar_status r = v) rows))) sorted_statuses,
               sm_governed_ready = (governed \<noteq> [] \<and> (\<forall>r \<in> set governed. ar_status r = ''COMPLETE''))\<rparr>))"

definition coverage_gaps :: "ledger \<Rightarrow> aggregate_row list" where
  "coverage_gaps ld = filter (\<lambda>r. ar_status r \<noteq> ''COMPLETE'') (coverage_rows ld)"

definition current_version :: "('a crypto_env_scheme) \<Rightarrow> authority \<Rightarrow> segment_row \<Rightarrow> bool gate" where
  "current_version env au s = bind_res (coverage_policy_binding env au (sg_dataset s)) (\<lambda>b. Inr (sg_policy_version s = pb_policy_version b))"

definition read_coverage_segments :: "('a crypto_env_scheme) \<Rightarrow> authority \<Rightarrow> ledger \<Rightarrow> string option \<Rightarrow> string option \<Rightarrow> segment_row list gate" where
  "read_coverage_segments env au ld dataset status =
     (let ordered = sort_key (\<lambda>s. (sg_dataset s, sg_segment_start s, sg_segment_id s)) (filter (\<lambda>s. case status of None \<Rightarrow> True | Some st \<Rightarrow> sg_status s = st) (db_segments ld)) in
      if (case status of None \<Rightarrow> False | Some st \<Rightarrow> st \<notin> set coverage_statuses) then Inl (GateValueError ''unknown coverage status'')
      else case dataset of
             Some ds \<Rightarrow> bind_res (coverage_policy_binding env au ds) (\<lambda>b.
               Inr (filter (\<lambda>s. sg_dataset s = ds \<and> sg_policy_version s = pb_policy_version b) ordered))
           | None \<Rightarrow> bind_res (map_res (\<lambda>s. bind_res (current_version env au s) (\<lambda>c. Inr (s, c))) ordered) (\<lambda>marked. Inr (map fst (filter snd marked))))"

subsection \<open>Re-aggregating one dataset\<close>

record sync_input =
  sy_evaluated_at :: string
  sy_inventory_end :: string
  sy_dry_run :: bool
  sy_wave :: "string option"
  sy_py_str :: "json \<Rightarrow> string"
  sy_py_int :: "json \<Rightarrow> int option"

definition effective_policy_version :: "authority \<Rightarrow> ledger \<Rightarrow> string \<Rightarrow> string option" where
  "effective_policy_version au ld ds =
     (case map_of (au_policies au) ds of
        Some p \<Rightarrow> cc_policy_version p
      | None \<Rightarrow> (case List.find (\<lambda>r. ar_dataset r = ds) (ld_coverage ld) of
                  Some r \<Rightarrow> Some (if ar_policy_version r = [] then ''authority-unavailable'' else ar_policy_version r)
                | None \<Rightarrow> Some ''authority-unavailable''))"

definition dataset_segments :: "ledger \<Rightarrow> string \<Rightarrow> string option \<Rightarrow> segment_row list" where
  "dataset_segments ld ds version = filter (\<lambda>s. sg_dataset s = ds \<and> Some (sg_policy_version s) = version) (db_segments ld)"

text \<open>\<open>SELECT status, COUNT(*) ... GROUP BY status\<close>.\<close>

definition segment_counts :: "segment_row list \<Rightarrow> (string \<times> int) list" where
  "segment_counts segs = map (\<lambda>st. (st, int (length (filter (\<lambda>s. sg_status s = st) segs)))) (remdups (map sg_status segs))"

definition count_of :: "(string \<times> int) list \<Rightarrow> string \<Rightarrow> int" where
  "count_of counts st = (case map_of counts st of None \<Rightarrow> 0 | Some n \<Rightarrow> n)"

text \<open>\<open>str.lower\<close> on the letters that matter when the result is compared with ASCII words.\<close>

definition lower :: "string \<Rightarrow> string" where
  "lower s = map (\<lambda>c. if 65 \<le> (of_char c :: nat) \<and> (of_char c :: nat) \<le> 90 then char_of (of_char c + 32 :: nat) else c) s"

definition failing_check :: "(json \<Rightarrow> string) \<Rightarrow> json \<Rightarrow> bool" where
  "failing_check pystr check =
     (case check of
        JObj c \<Rightarrow> lower (str_of pystr (case map_of c ''status'' of None \<Rightarrow> JStr [] | Some v \<Rightarrow> v)) \<in> set [''fail'', ''failed'', ''error'']
      | _ \<Rightarrow> False)"

text \<open>Iterating a string or an object gives no mapping; a number or \<open>True\<close> is not iterable.\<close>

definition failing_checks_from_detail :: "(json \<Rightarrow> string) \<Rightarrow> dict \<Rightarrow> json list gate" where
  "failing_checks_from_detail pystr detail =
     (let checks = dict_get detail ''checks'' in
      if \<not> json_truthy checks then Inr []
      else case checks of
             JArr vs \<Rightarrow> Inr (filter (failing_check pystr) vs)
           | JStr _ \<Rightarrow> Inr []
           | JObj _ \<Rightarrow> Inr []
           | _ \<Rightarrow> Inl (GateTypeError ''object is not iterable''))"

definition py_int :: "(json \<Rightarrow> int option) \<Rightarrow> json \<Rightarrow> int gate" where
  "py_int parse v =
     (case v of
        JInt n \<Rightarrow> Inr n
      | JBool b \<Rightarrow> Inr (if b then 1 else 0)
      | JStr _ \<Rightarrow> (case parse v of Some n \<Rightarrow> Inr n | None \<Rightarrow> Inl (GateValueError ''invalid literal for int()''))
      | JFloat _ \<Rightarrow> (case parse v of Some n \<Rightarrow> Inr n | None \<Rightarrow> Inl (GateValueError ''cannot convert float to integer''))
      | _ \<Rightarrow> Inl (GateTypeError ''int() argument''))"

definition stored_counts :: "(json \<Rightarrow> int option) \<Rightarrow> json \<Rightarrow> (string \<times> int) list gate" where
  "stored_counts parse v =
     bind_res (dict_arg v) (\<lambda>d. bind_res (map_res (\<lambda>(k, n). bind_res (py_int parse n) (\<lambda>i. Inr (k, i))) d) (\<lambda>counts. Inr (honest_status_counts counts)))"

definition counts_json :: "(string \<times> int) list \<Rightarrow> json" where
  "counts_json counts = JObj (map (\<lambda>(k, n). (k, JInt n)) counts)"

definition build_surgical_reagg_detail :: "dict \<Rightarrow> (string \<times> int) list \<Rightarrow> int option \<Rightarrow> dict option \<Rightarrow> dict gate" where
  "build_surgical_reagg_detail existing counts required audit =
     bind_res (dict_arg (dict_get existing ''coverage_v2'')) (\<lambda>cov.
       let prev = dict_get cov ''status_counts'';
           cov1 = AList.update ''status_counts'' (counts_json (honest_status_counts counts)) cov;
           cov2 = (case required of None \<Rightarrow> AList.delete ''required_segments'' cov1 | Some n \<Rightarrow> AList.update ''required_segments'' (JInt n) cov1);
           cov3 = (case audit of
                     None \<Rightarrow> cov2
                   | Some a \<Rightarrow> AList.update ''surgical_reagg''
                       (JObj (if prev \<noteq> JNull \<and> \<not> has_key a ''prev_status_counts'' then AList.update ''prev_status_counts'' prev a else a)) cov2)
       in Inr (AList.update ''aggregate_source'' (JStr ''surgical_reagg_from_coverage_segments'') (AList.update ''coverage_v2'' (JObj cov3) existing)))"

record sync_verdict =
  sv_inventory_status :: string
  sv_receipt_status :: string
  sv_reason :: "string option"
  sv_detail :: dict
  sv_required :: "int option"

definition verify_for_sync :: "('a receipt_env_scheme) \<Rightarrow> authority \<Rightarrow> sync_input \<Rightarrow> coverage_db \<Rightarrow> string \<Rightarrow> sync_verdict gate" where
  "verify_for_sync env au sy db ds =
     (case verify_exact_coverage_complete env au db [ds] (sy_inventory_end sy) of
        Inl (AuthorityUnavailable m) \<Rightarrow>
          Inr \<lparr>sv_inventory_status = ''PENDING'', sv_receipt_status = ''NOT_EVALUATED'', sv_reason = Some m,
               sv_detail = [(''target_end'', JStr (sy_inventory_end sy)), (''reason'', JStr m)], sv_required = None\<rparr>
      | Inl x \<Rightarrow> Inl x
      | Inr v \<Rightarrow>
          let made = (\<lambda>ist rst reason. \<lparr>sv_inventory_status = ist, sv_receipt_status = rst, sv_reason = reason, sv_detail = verification_detail v,
                                        sv_required = Some (int (length (iv_expected_identities (cv_inventory v))))\<rparr>) in
          if \<not> exact_inventory (cv_inventory v) then Inr (made ''MISMATCH'' ''NOT_EVALUATED'' (Some ''persisted segments do not equal canonical inventory''))
          else if complete_eligible v then Inr (made ''EXACT'' ''VERIFIED'' None)
          else Inr (made ''EXACT'' ''INVALID'' (Some ''selected signed receipt closure is incomplete'')))"

definition sync_blocker ::
    "sync_verdict \<Rightarrow> string \<Rightarrow> string \<Rightarrow> string option \<Rightarrow> int \<Rightarrow> string \<Rightarrow> json list \<Rightarrow> nat \<Rightarrow> string option" where
  "sync_blocker sv old_status old_version version n_total derived failing empty_complete =
     (if sv_inventory_status sv = ''PENDING'' then Some ''inventory_authority_pending''
      else if sv_inventory_status sv = ''MISMATCH'' then Some ''inventory_mismatch''
      else if sv_receipt_status sv \<noteq> ''VERIFIED'' then Some ''selected_receipt_invalid''
      else if old_status = ''COMPLETE'' \<and> Some old_version \<noteq> version then Some ''prior_aggregate_policy_mismatch''
      else if n_total \<le> 0 then Some ''empty_inventory''
      else if derived = ''COMPLETE'' \<and> failing \<noteq> [] then Some ''failing_checks''
      else if derived = ''COMPLETE'' \<and> 0 < empty_complete then Some ''empty_complete_segments''
      else if derived = ''COMPLETE'' \<and> old_status \<noteq> ''COMPLETE'' then Some ''transition_authority_required''
      else None)"

definition sync_status :: "string option \<Rightarrow> string \<Rightarrow> string" where
  "sync_status blocker derived =
     (if blocker \<noteq> None then if derived = ''FAILED'' then ''FAILED'' else ''PARTIAL''
      else if derived = ''FAILED'' then ''FAILED''
      else if derived = ''COMPLETE'' then ''COMPLETE''
      else ''PARTIAL'')"

definition sync_action :: "string option \<Rightarrow> string \<Rightarrow> string \<Rightarrow> string" where
  "sync_action blocker old_status new_status =
     (case blocker of
        Some b \<Rightarrow> if b = ''empty_inventory'' then ''empty_inventory_rejected''
                  else if b = ''failing_checks'' then ''failing_checks_rejected''
                  else if b = ''empty_complete_segments'' then ''empty_complete_segments_rejected''
                  else b
      | None \<Rightarrow> if old_status = ''COMPLETE'' \<and> new_status \<noteq> ''COMPLETE'' then ''demoted'' else ''counts_refreshed'')"

definition sync_audit :: "sync_input \<Rightarrow> sync_verdict \<Rightarrow> string \<Rightarrow> string \<Rightarrow> string \<Rightarrow> string option \<Rightarrow> json \<Rightarrow> string option \<Rightarrow> dict" where
  "sync_audit sy sv old_status new_status old_version version prev blocker =
     [(''at'', JStr (sy_evaluated_at sy)),
      (''reason'', JStr (case sv_reason sv of Some m \<Rightarrow> m
         | None \<Rightarrow> if new_status = ''COMPLETE'' then ''existing COMPLETE retained after exact signed verification''
                   else ''fail-closed re-aggregate from exact coverage inventory'')),
      (''prev_status'', JStr old_status), (''new_status'', JStr new_status), (''prev_policy_version'', JStr old_version),
      (''current_policy_version'', opt_json version), (''prev_status_counts'', prev), (''inventory_status'', JStr (sv_inventory_status sv)),
      (''selected_receipt_status'', JStr (sv_receipt_status sv)), (''inventory'', JObj (sv_detail sv)), (''blocker'', opt_json blocker),
      (''wave'', opt_json (sy_wave sy))]"

record sync_result =
  sr_dataset :: string
  sr_action :: string
  sr_from :: "string option"
  sr_to :: "string option"
  sr_blocker :: "string option"
  sr_status_counts :: "(string \<times> int) list"
  sr_derived_status :: string
  sr_total :: int
  sr_complete :: int
  sr_failing_checks :: nat
  sr_empty_complete :: nat
  sr_verdict :: "sync_verdict option"

definition sync_result_of ::
    "string \<Rightarrow> (string \<times> int) list \<Rightarrow> string \<Rightarrow> string option \<Rightarrow> string option \<Rightarrow> string option \<Rightarrow> nat \<Rightarrow> nat \<Rightarrow> sync_verdict option \<Rightarrow> sync_result" where
  "sync_result_of ds counts act from to blk failing ec sv =
     \<lparr>sr_dataset = ds, sr_action = act, sr_from = from, sr_to = to, sr_blocker = blk, sr_status_counts = counts,
      sr_derived_status = aggregate_status_from_segment_counts counts, sr_total = sum_list (map snd counts), sr_complete = count_of counts ''COMPLETE'',
      sr_failing_checks = failing, sr_empty_complete = ec, sr_verdict = sv\<rparr>"

definition sync_write :: "sync_input \<Rightarrow> string \<Rightarrow> string option \<Rightarrow> string \<Rightarrow> string \<Rightarrow> ledger \<Rightarrow> ledger gate" where
  "sync_write sy ds version new_status detail_json ld =
     (if sy_dry_run sy then Inr ld
      else if new_status = ''COMPLETE''
      then (case version of None \<Rightarrow> Inl (GateTypeError ''policy_version must be an exact built-in string'')
            | Some v \<Rightarrow> update_existing_complete_coverage_evidence ld ds v detail_json (sy_evaluated_at sy))
      else update_dataset_coverage_row ld ds new_status detail_json (sy_evaluated_at sy))"

definition empty_complete_count :: "segment_row list \<Rightarrow> nat" where
  "empty_complete_count segs = length (filter (\<lambda>s. sg_status s = ''COMPLETE'' \<and> (sg_receipt_run_id s = None \<or> sg_receipt_run_id s = Some 0)) segs)"

definition sync_existing ::
    "('a receipt_env_scheme) \<Rightarrow> authority \<Rightarrow> sync_input \<Rightarrow> string \<Rightarrow> string option \<Rightarrow> (string \<times> int) list \<Rightarrow> nat \<Rightarrow> aggregate_row \<Rightarrow> ledger \<Rightarrow> (ledger \<times> sync_result) gate" where
  "sync_existing env au sy ds version counts ec dc ld =
     (let detail = loaded_detail (ar_detail dc); old_status = ar_status dc; old_version = ar_policy_version dc; derived = aggregate_status_from_segment_counts counts in
      bind_res (dict_arg (dict_get detail ''coverage_v2'')) (\<lambda>cov.
      let prev = dict_get cov ''status_counts'' in
      bind_res (failing_checks_from_detail (sy_py_str sy) detail) (\<lambda>failing.
      bind_res (verify_for_sync env au sy (coverage_db.truncate ld) ds) (\<lambda>sv.
      let blocker = sync_blocker sv old_status old_version version (sum_list (map snd counts)) derived failing ec; new_status = sync_status blocker derived;
          result = (\<lambda>act. sync_result_of ds counts act (Some old_status) (Some new_status) blocker (length failing) ec (Some sv)) in
      bind_res (stored_counts (sy_py_int sy) prev) (\<lambda>prev_norm.
      if old_status = new_status \<and> prev_norm = counts \<and> blocker = None then Inr (ld, result ''verify_only'')
      else
        bind_res (build_surgical_reagg_detail detail counts (sv_required sv) (Some (sync_audit sy sv old_status new_status old_version version prev blocker))) (\<lambda>new_detail.
        bind_res (canonical_text new_detail) (\<lambda>detail_json.
        bind_res (sync_write sy ds version new_status detail_json ld) (\<lambda>ld'. Inr (ld', result (sync_action blocker old_status new_status))))))))))"

definition sync_dataset :: "('a receipt_env_scheme) \<Rightarrow> authority \<Rightarrow> sync_input \<Rightarrow> string \<Rightarrow> ledger \<Rightarrow> (ledger \<times> sync_result) gate" where
  "sync_dataset env au sy ds ld =
     (let version = effective_policy_version au ld ds; segs = dataset_segments ld ds version; counts = honest_status_counts (segment_counts segs) in
      case List.find (\<lambda>r. ar_dataset r = ds) (ld_coverage ld) of
        None \<Rightarrow> Inr (ld, sync_result_of ds counts ''skip_missing_dataset_coverage'' None None None 0 0 None)
      | Some dc \<Rightarrow> sync_existing env au sy ds version counts (empty_complete_count segs) dc ld)"

text \<open>\<open>datasets\<close> is \<open>None\<close> for all the datasets of the table.\<close>

definition sync_selection :: "string list option \<Rightarrow> ledger \<Rightarrow> string list" where
  "sync_selection datasets ld = (case datasets of None \<Rightarrow> sort (map ar_dataset (ld_coverage ld)) | Some ds \<Rightarrow> sort (remdups ds))"

fun sync_loop :: "('a receipt_env_scheme) \<Rightarrow> authority \<Rightarrow> sync_input \<Rightarrow> string list \<Rightarrow> ledger \<Rightarrow> (ledger \<times> sync_result list) gate" where
  "sync_loop env au sy [] ld = Inr (ld, [])"
| "sync_loop env au sy (ds # rest) ld =
     bind_res (sync_dataset env au sy ds ld) (\<lambda>(ld', r). bind_res (sync_loop env au sy rest ld') (\<lambda>(ld'', rs). Inr (ld'', r # rs)))"

definition platform_complete :: "ledger \<Rightarrow> nat" where
  "platform_complete ld = length (filter (\<lambda>s. sg_status s = ''COMPLETE'') (db_segments ld))"

definition sync_dataset_coverage_from_segments ::
    "('a receipt_env_scheme) \<Rightarrow> authority \<Rightarrow> sync_input \<Rightarrow> string list option \<Rightarrow> ledger \<Rightarrow> (ledger \<times> sync_result list \<times> nat) gate" where
  "sync_dataset_coverage_from_segments env au sy datasets ld =
     bind_res (sync_loop env au sy (sync_selection datasets ld) ld) (\<lambda>(ld', results).
       if platform_complete ld' \<noteq> platform_complete ld then Inl (GateRuntimeError ''coverage_segments mutated during surgical re-aggregate'')
       else Inr (if sy_dry_run sy then ld else ld', results, platform_complete ld'))"

subsection \<open>What a re-aggregation keeps\<close>

lemma sync_blocker_clear:
  assumes "sync_blocker sv old_status old_version version n derived failing ec = None" "derived = ''COMPLETE''"
  shows "sv_receipt_status sv = ''VERIFIED'' \<and> old_status = ''COMPLETE'' \<and> Some old_version = version \<and> failing = [] \<and> ec = 0 \<and> 0 < n"
  using assms by (auto simp: sync_blocker_def split: if_splits)

lemma sync_status_complete: "sync_status blocker derived = ''COMPLETE'' \<longleftrightarrow> blocker = None \<and> derived = ''COMPLETE''"
  by (simp add: sync_status_def)

lemma sync_status_cases: "sync_status blocker derived \<in> set coverage_statuses"
  by (simp add: sync_status_def coverage_statuses_def)

lemma verify_for_sync_verified:
  assumes "verify_for_sync env au sy db ds = Inr sv" "sv_receipt_status sv = ''VERIFIED''"
  shows "\<exists>v. verify_exact_coverage_complete env au db [ds] (sy_inventory_end sy) = Inr v \<and> complete_eligible v"
  using assms by (auto simp: verify_for_sync_def Let_def split: sum.splits gate_error.splits if_splits)

lemma sync_existing_facts:
  assumes "sync_existing env au sy ds version counts ec dc ld = Inr (ld', res)"
  obtains sv st detail where "verify_for_sync env au sy (coverage_db.truncate ld) ds = Inr sv" "st \<in> set coverage_statuses"
    "ld' = ld \<and> ar_status dc = st \<or> sync_write sy ds version st detail ld = Inr ld'"
    "st = ''COMPLETE'' \<Longrightarrow> sv_receipt_status sv = ''VERIFIED'' \<and> ar_status dc = ''COMPLETE'' \<and> Some (ar_policy_version dc) = version"
proof -
  obtain sv failing detail where sv: "verify_for_sync env au sy (coverage_db.truncate ld) ds = Inr sv"
      and fin: "let blocker = sync_blocker sv (ar_status dc) (ar_policy_version dc) version (sum_list (map snd counts)) (aggregate_status_from_segment_counts counts) failing ec;
          st = sync_status blocker (aggregate_status_from_segment_counts counts) in
        ld' = ld \<and> ar_status dc = st \<or> sync_write sy ds version st detail ld = Inr ld'"
    using assms unfolding sync_existing_def Let_def bind_res_Inr_iff by (auto split: if_splits simp: bind_res_Inr_iff)
  define blocker where "blocker = sync_blocker sv (ar_status dc) (ar_policy_version dc) version (sum_list (map snd counts)) (aggregate_status_from_segment_counts counts) failing ec"
  define st where "st = sync_status blocker (aggregate_status_from_segment_counts counts)"
  have "sv_receipt_status sv = ''VERIFIED'' \<and> ar_status dc = ''COMPLETE'' \<and> Some (ar_policy_version dc) = version" if "st = ''COMPLETE''"
    using that sync_blocker_clear [of sv "ar_status dc"] by (auto simp: st_def sync_status_complete blocker_def)
  moreover have "ld' = ld \<and> ar_status dc = st \<or> sync_write sy ds version st detail ld = Inr ld'" using fin by (simp add: st_def blocker_def Let_def)
  ultimately show ?thesis using that [OF sv, of st detail] sync_status_cases by (auto simp: st_def)
qed

text \<open>A row only moves away from \<open>COMPLETE\<close>, keeps its key and version, and changes only if its dataset is selected.\<close>

definition demoted_only :: "string set \<Rightarrow> ledger \<Rightarrow> ledger \<Rightarrow> bool" where
  "demoted_only D ld ld' \<longleftrightarrow> coverage_db.truncate ld' = coverage_db.truncate ld
     \<and> list_all2 (\<lambda>r r'. ar_dataset r' = ar_dataset r \<and> ar_policy_version r' = ar_policy_version r \<and> (ar_status r' = ''COMPLETE'' \<longrightarrow> ar_status r = ''COMPLETE'')
         \<and> (ar_dataset r \<notin> D \<longrightarrow> r' = r)) (ld_coverage ld) (ld_coverage ld')"

lemma demoted_only_refl: "demoted_only D ld ld"
  by (simp add: demoted_only_def list_all2_same)

lemma demoted_only_trans: "demoted_only D ld1 ld2 \<Longrightarrow> demoted_only E ld2 ld3 \<Longrightarrow> demoted_only (D \<union> E) ld1 ld3"
  unfolding demoted_only_def by (auto simp: list_all2_conv_all_nth)

lemma demoted_only_map:
  assumes "ld' = ld\<lparr>ld_coverage := map f (ld_coverage ld)\<rparr>"
    "\<And>r. r \<in> set (ld_coverage ld) \<Longrightarrow> ar_dataset (f r) = ar_dataset r \<and> ar_policy_version (f r) = ar_policy_version r \<and> (ar_status (f r) = ''COMPLETE'' \<longrightarrow> ar_status r = ''COMPLETE'')
      \<and> (ar_dataset r \<notin> D \<longrightarrow> f r = r)"
  shows "demoted_only D ld ld'"
  using assms by (auto simp: demoted_only_def coverage_db.truncate_def list_all2_map2 list_all2_same)

lemma demoted_only_keys: "demoted_only D ld ld' \<Longrightarrow> map ar_dataset (ld_coverage ld') = map ar_dataset (ld_coverage ld)"
  unfolding demoted_only_def by (auto simp: list_all2_conv_all_nth intro: nth_equalityI)

lemma demoted_only_row:
  assumes "demoted_only D ld ld'" "r' \<in> set (ld_coverage ld')"
  obtains r where "r \<in> set (ld_coverage ld)" "ar_dataset r = ar_dataset r'" "ar_policy_version r = ar_policy_version r'"
    "ar_status r' = ''COMPLETE'' \<longrightarrow> ar_status r = ''COMPLETE''" "ar_dataset r' \<notin> D \<longrightarrow> r' = r"
  using assms unfolding demoted_only_def by (auto simp: list_all2_conv_all_nth in_set_conv_nth) metis

lemma sync_write_demotes:
  assumes "sync_write sy ds version st detail ld = Inr ld'"
  shows "demoted_only {ds} ld ld'"
    "st \<noteq> ''COMPLETE'' \<Longrightarrow> \<not> sy_dry_run sy \<Longrightarrow> r' \<in> set (ld_coverage ld') \<Longrightarrow> ar_dataset r' = ds \<Longrightarrow> ar_status r' = st"
proof -
  consider "ld' = ld" "sy_dry_run sy"
    | v where "st = ''COMPLETE''" "ld' = ld\<lparr>ld_coverage := map (\<lambda>r. if is_current_complete ds v r then r\<lparr>ar_detail := detail, ar_evaluated_at := sy_evaluated_at sy\<rparr> else r) (ld_coverage ld)\<rparr>"
    | "st \<noteq> ''COMPLETE''" "ld' = ld\<lparr>ld_coverage := map (\<lambda>r. if ar_dataset r = ds then r\<lparr>ar_status := st, ar_detail := detail, ar_evaluated_at := sy_evaluated_at sy\<rparr> else r) (ld_coverage ld)\<rparr>"
    using assms by (auto simp: sync_write_def update_existing_complete_coverage_evidence_def update_dataset_coverage_row_def split: if_splits option.splits)
  then show "demoted_only {ds} ld ld'"
    by cases (simp add: demoted_only_refl, (rule demoted_only_map, assumption, simp add: is_current_complete_def split: if_splits)+)
  assume st: "st \<noteq> ''COMPLETE''" "\<not> sy_dry_run sy" and r': "r' \<in> set (ld_coverage ld')" "ar_dataset r' = ds"
  have "update_dataset_coverage_row ld ds st detail (sy_evaluated_at sy) = Inr ld'" using assms st by (simp add: sync_write_def)
  let ?f = "\<lambda>r. if ar_dataset r = ds then r\<lparr>ar_status := st, ar_detail := detail, ar_evaluated_at := sy_evaluated_at sy\<rparr> else r"
  have rows: "ld_coverage ld' = map ?f (ld_coverage ld)"
    using \<open>update_dataset_coverage_row ld ds st detail (sy_evaluated_at sy) = Inr ld'\<close> by (auto simp: update_dataset_coverage_row_def split: if_splits)
  have "r' \<in> ?f ` set (ld_coverage ld)" using r'(1) unfolding rows by (simp only: set_map)
  then obtain r where "r' = ?f r" by (rule imageE)
  then show "ar_status r' = st" using r'(2) by (cases "ar_dataset r = ds") simp_all
qed

definition synced :: "('a receipt_env_scheme) \<Rightarrow> authority \<Rightarrow> string \<Rightarrow> coverage_db \<Rightarrow> aggregate_row \<Rightarrow> bool" where
  "synced env au te db r \<longleftrightarrow> (\<exists>p. map_of (au_policies au) (ar_dataset r) = Some p \<and> cc_policy_version p = Some (ar_policy_version r))
     \<and> (\<exists>v. verify_exact_coverage_complete env au db [ar_dataset r] te = Inr v \<and> complete_eligible v)"

lemma verified_policy:
  assumes "verify_exact_coverage_complete env au db [ds] te = Inr v" "complete_eligible v"
  shows "\<exists>p. map_of (au_policies au) ds = Some p"
proof -
  obtain segs where "expected_for au te ds = Inr segs" using verify_complete_facts [OF assms] by blast
  from expected_for_planned [OF this] show ?thesis by blast
qed

lemma sync_dataset_facts:
  assumes "sync_dataset env au sy ds ld = Inr (ld', res)"
  shows "demoted_only {ds} ld ld'"
    "\<not> sy_dry_run sy \<Longrightarrow> distinct (map ar_dataset (ld_coverage ld)) \<Longrightarrow> r' \<in> set (ld_coverage ld') \<Longrightarrow> ar_dataset r' = ds \<Longrightarrow> ar_status r' = ''COMPLETE'' \<Longrightarrow>
       synced env au (sy_inventory_end sy) (coverage_db.truncate ld) r'"
proof -
  let ?find = "List.find (\<lambda>r. ar_dataset r = ds) (ld_coverage ld)"
  let ?version = "effective_policy_version au ld ds"
  have ex: "sync_existing env au sy ds ?version (honest_status_counts (segment_counts (dataset_segments ld ds ?version))) (empty_complete_count (dataset_segments ld ds ?version)) dc ld
      = Inr (ld', res)" if "?find = Some dc" for dc using that assms by (simp add: sync_dataset_def Let_def)
  have none: "ld' = ld" if "?find = None" using that assms by (simp add: sync_dataset_def Let_def)
  show d: "demoted_only {ds} ld ld'"
  proof (cases ?find)
    case (Some dc)
    show ?thesis using ex [OF Some] by (rule sync_existing_facts) (auto simp: demoted_only_refl dest: sync_write_demotes(1))
  qed (simp add: none demoted_only_refl)
  assume dry: "\<not> sy_dry_run sy" and dist: "distinct (map ar_dataset (ld_coverage ld))" and r': "r' \<in> set (ld_coverage ld')" "ar_dataset r' = ds" "ar_status r' = ''COMPLETE''"
  obtain r where r: "r \<in> set (ld_coverage ld)" "ar_dataset r = ds" "ar_policy_version r = ar_policy_version r'" "ar_status r = ''COMPLETE''"
    using demoted_only_row [OF d r'(1)] r'(2,3) by auto
  then have "?find \<noteq> None" by (auto simp: find_None_all)
  then obtain dc where dc: "?find = Some dc" by auto
  then have "dc \<in> set (ld_coverage ld)" "ar_dataset dc = ds" by (auto dest: find_Some_set)
  then have eq: "dc = r" using dist r(1,2) by (metis distinct_map inj_onD)
  obtain sv st detail where f: "verify_for_sync env au sy (coverage_db.truncate ld) ds = Inr sv"
      "ld' = ld \<and> ar_status dc = st \<or> sync_write sy ds ?version st detail ld = Inr ld'"
      "st = ''COMPLETE'' \<Longrightarrow> sv_receipt_status sv = ''VERIFIED'' \<and> Some (ar_policy_version dc) = ?version"
    using ex [OF dc] by (rule sync_existing_facts) auto
  have "st = ''COMPLETE''"
  proof (rule ccontr)
    assume n: "st \<noteq> ''COMPLETE''"
    then show False using f(2) r(4) eq sync_write_demotes(2) [OF _ n dry r'(1,2)] r'(3) by auto
  qed
  then have sv: "sv_receipt_status sv = ''VERIFIED''" "Some (ar_policy_version r') = ?version" using f(3) eq r(3) by auto
  obtain v where v: "verify_exact_coverage_complete env au (coverage_db.truncate ld) [ds] (sy_inventory_end sy) = Inr v" "complete_eligible v"
    using verify_for_sync_verified [OF f(1) sv(1)] by blast
  obtain p where "map_of (au_policies au) ds = Some p" using verified_policy [OF v] by blast
  then show "synced env au (sy_inventory_end sy) (coverage_db.truncate ld) r'" using v sv(2) r'(2) by (auto simp: synced_def effective_policy_version_def)
qed

lemma sync_loop_facts:
  assumes "sync_loop env au sy sel ld = Inr (ld', results)"
  shows "demoted_only (set sel) ld ld' \<and> (\<not> sy_dry_run sy \<longrightarrow> distinct (map ar_dataset (ld_coverage ld)) \<longrightarrow>
     (\<forall>r' \<in> set (ld_coverage ld'). ar_dataset r' \<in> set sel \<and> ar_status r' = ''COMPLETE'' \<longrightarrow> synced env au (sy_inventory_end sy) (coverage_db.truncate ld) r'))"
  using assms
proof (induction sel arbitrary: ld results)
  case (Cons ds sel)
  obtain ld1 res rest where s: "sync_dataset env au sy ds ld = Inr (ld1, res)" and l: "sync_loop env au sy sel ld1 = Inr (ld', rest)"
    using Cons.prems by (auto simp: bind_res_Inr_iff)
  note first = sync_dataset_facts [OF s] and rest = Cons.IH [OF l]
  have db: "coverage_db.truncate ld1 = coverage_db.truncate ld" using first(1) by (simp add: demoted_only_def)
  have "demoted_only (set (ds # sel)) ld ld'" using demoted_only_trans [OF first(1), of "set sel"] rest by simp
  moreover have "synced env au (sy_inventory_end sy) (coverage_db.truncate ld) r'"
    if "\<not> sy_dry_run sy" "distinct (map ar_dataset (ld_coverage ld))" "r' \<in> set (ld_coverage ld')" "ar_dataset r' \<in> set (ds # sel)" "ar_status r' = ''COMPLETE''" for r'
  proof (cases "ar_dataset r' \<in> set sel")
    case True
    then show ?thesis using rest that db demoted_only_keys [OF first(1)] by auto
  next
    case False
    then have "r' \<in> set (ld_coverage ld1)" using demoted_only_row [OF conjunct1 [OF rest] that(3)] by metis
    then show ?thesis using first(2) [OF that(1,2)] that(4,5) False by auto
  qed
  ultimately show ?case by blast
qed (simp add: demoted_only_refl)


subsection \<open>No generic operation mints COMPLETE\<close>

datatype ledger_op =
    RecordReceipt receipt_row
  | RecordRequired "required_segment list" "string option"
  | PersistRefreshed "delete_key list" "segment_row list" "aggregate_row list"
  | UpdateRow string string string string
  | PreserveComplete aggregate_row
  | UpdateEvidence string string string string
  | Refresh refresh_input "string list"
  | Sync sync_input "string list option"

definition ledger_call :: "('a receipt_env_scheme) \<Rightarrow> authority \<Rightarrow> ledger_op \<Rightarrow> ledger \<Rightarrow> ledger gate" where
  "ledger_call env au a ld =
     (case a of
        RecordReceipt r \<Rightarrow> record_collection_receipt ld r
      | RecordRequired segs v \<Rightarrow> record_required_segments env au ld segs v
      | PersistRefreshed keys segs rows \<Rightarrow> persist_refreshed_coverage ld keys segs rows
      | UpdateRow ds st detail now \<Rightarrow> update_dataset_coverage_row ld ds st detail now
      | PreserveComplete row \<Rightarrow> preserve_existing_complete_coverage_row ld row
      | UpdateEvidence ds v detail now \<Rightarrow> update_existing_complete_coverage_evidence ld ds v detail now
      | Refresh ri datasets \<Rightarrow> bind_res (refresh_coverage_ledger env au ri datasets ld) (\<lambda>(ld', outs). Inr ld')
      | Sync sy datasets \<Rightarrow> bind_res (sync_dataset_coverage_from_segments env au sy datasets ld) (\<lambda>(ld', results). Inr ld'))"

definition ledger_step :: "('a receipt_env_scheme) \<Rightarrow> authority \<Rightarrow> ledger_op \<Rightarrow> ledger \<Rightarrow> ledger" where
  "ledger_step env au a ld = (case ledger_call env au a ld of Inl _ \<Rightarrow> ld | Inr ld' \<Rightarrow> ld')"

definition complete_within :: "(string \<times> string) set \<Rightarrow> ledger \<Rightarrow> bool" where
  "complete_within C ld \<longleftrightarrow> (\<forall>r \<in> set (ld_coverage ld). ar_status r = ''COMPLETE'' \<longrightarrow> (ar_dataset r, ar_policy_version r) \<in> C)"

lemma persist_within:
  assumes "persist_refreshed_coverage ld keys segs rows = Inr ld'" "complete_within C ld"
  shows "complete_within C ld'"
  using assms fold_upsert_set [of ar_dataset rows "ld_coverage ld"]
  by (auto simp: persist_refreshed_coverage_def complete_within_def bind_res_Inr_iff split: if_splits)

lemma preserve_within:
  assumes "preserve_existing_complete_coverage_row ld row = Inr ld'" "complete_within C ld"
  shows "complete_within C ld'"
proof -
  have ex: "\<exists>r \<in> set (ld_coverage ld). is_current_complete (ar_dataset row) (ar_policy_version row) r"
    using assms(1) by (cases "filter (is_current_complete (ar_dataset row) (ar_policy_version row)) (ld_coverage ld)")
      (auto simp: preserve_existing_complete_coverage_row_def filter_eq_Cons_iff split: if_splits)
  then have "(ar_dataset row, ar_policy_version row) \<in> C" using assms(2) by (auto simp: complete_within_def is_current_complete_def)
  then show ?thesis
    using assms by (auto simp: preserve_existing_complete_coverage_row_def complete_within_def split: if_splits)
qed

lemma refresh_within:
  assumes "refresh_coverage_ledger env au ri datasets ld = Inr (ld', outs)" "complete_within C ld"
  shows "complete_within C ld'"
proof -
  obtain keys segs ld1 rows ld2 rows' where p: "persist_refreshed_coverage ld keys segs [] = Inr ld1" "persist_refreshed_coverage ld1 [] [] rows = Inr ld2"
      and e: "execute_many (\<lambda>r l. preserve_existing_complete_coverage_row l r) rows' ld2 = Inr ld'"
    using assms(1) by (auto simp: refresh_coverage_ledger_def bind_res_Inr_iff split: if_splits option.splits)
  have "complete_within C ld2" using persist_within [OF p(2)] persist_within [OF p(1)] assms(2) by blast
  then show ?thesis by (rule execute_many_inv [where P = "complete_within C", OF preserve_within _ e, rotated -1])
qed

lemma demoted_within: "demoted_only D ld ld' \<Longrightarrow> complete_within C ld \<Longrightarrow> complete_within C ld'"
  unfolding complete_within_def by (metis demoted_only_row)

lemma sync_within:
  assumes "sync_dataset_coverage_from_segments env au sy datasets ld = Inr (ld', results, n)" "complete_within C ld"
  shows "complete_within C ld'"
  using assms by (auto simp: sync_dataset_coverage_from_segments_def bind_res_Inr_iff split: if_splits dest: sync_loop_facts demoted_within)

lemma ledger_step_within: "complete_within C ld \<Longrightarrow> complete_within C (ledger_step env au a ld)"
proof -
  assume C: "complete_within C ld"
  have "complete_within C ld'" if "ledger_call env au a ld = Inr ld'" for ld'
  proof (cases a)
    case (PersistRefreshed keys segs rows)
    then show ?thesis using that C persist_within by (auto simp: ledger_call_def)
  next
    case (PreserveComplete row)
    then show ?thesis using that C preserve_within by (auto simp: ledger_call_def)
  next
    case (Sync sy datasets)
    then show ?thesis using that C sync_within by (auto simp: ledger_call_def bind_res_Inr_iff)
  next
    case (UpdateEvidence ds v detail now)
    then show ?thesis using that C by (auto simp: ledger_call_def complete_within_def update_existing_complete_coverage_evidence_def is_current_complete_def split: if_splits)
  next
    case (Refresh ri datasets)
    then show ?thesis using that C refresh_within by (auto simp: ledger_call_def bind_res_Inr_iff)
  qed (use that C in \<open>auto simp: ledger_call_def complete_within_def record_collection_receipt_def record_required_segments_def
      update_dataset_coverage_row_def bind_res_Inr_iff split: if_splits option.splits\<close>)
  then show ?thesis using C by (auto simp: ledger_step_def split: sum.splits)
qed

interpretation coverage_steps: op_system "ledger_step env au" "\<lambda>_. True" "complete_within C" for env :: "'a receipt_env_scheme" and au C
  by unfold_locales (rule ledger_step_within)

subsection \<open>A re-aggregation of the concrete ledger\<close>

definition sample_sync :: sync_input where
  "sample_sync = \<lparr>sy_evaluated_at = ''2024-01-31T12:00:00+00:00'', sy_inventory_end = ''2024-01-31'', sy_dry_run = False, sy_wave = None,
     sy_py_str = (\<lambda>_. []), sy_py_int = (\<lambda>_. None)\<rparr>"

lemma sample_row_fields: "sg_dataset sample_segment_row = ''fins_summary''" "sg_policy_version sample_segment_row = ''collection-coverage/v3''"
  "sg_status sample_segment_row = ''COMPLETE''" "sg_receipt_run_id sample_segment_row = Some 7"
  by (simp_all add: sample_segment_row_def)

lemma sample_effective_version: "effective_policy_version sample_authority sample_ledger ''fins_summary'' = Some ''collection-coverage/v3''"
  by (simp add: effective_policy_version_def sample_authority_def sample_policy_version)

lemma sample_dataset_segments: "dataset_segments sample_ledger ''fins_summary'' (Some ''collection-coverage/v3'') = [sample_segment_row]"
  by (simp add: dataset_segments_def sample_ledger_def sample_row_fields)

lemma sample_counts: "honest_status_counts (segment_counts [sample_segment_row]) = [(''COMPLETE'', 1)]" "empty_complete_count [sample_segment_row] = 0"
  by (simp_all add: honest_status_counts_def segment_counts_def empty_complete_count_def sample_row_fields)

lemma sample_verdict:
  "\<exists>v. verify_for_sync sample_receipt_env sample_authority sample_sync sample_db ''fins_summary''
     = Inr \<lparr>sv_inventory_status = ''EXACT'', sv_receipt_status = ''VERIFIED'', sv_reason = None, sv_detail = verification_detail v,
            sv_required = Some (int (length (iv_expected_identities (cv_inventory v))))\<rparr>"
proof -
  obtain v where v: "verify_exact_coverage_complete sample_receipt_env sample_authority sample_db [''fins_summary''] ''2024-01-31'' = Inr v" "complete_eligible v"
    using sample_verification by blast
  then have "exact_inventory (cv_inventory v)" by (simp add: complete_eligible_def)
  then show ?thesis using v by (intro exI [of _ v]) (simp add: verify_for_sync_def sample_sync_def)
qed

lemma finite_counts_json [simp]: "\<not> non_finite (counts_json cs)"
  by (auto simp: counts_json_def)

lemma finite_sync_audit: "non_finite (JObj (sync_audit sy sv os ns ov v prev blk)) \<longleftrightarrow> non_finite prev \<or> non_finite (JObj (sv_detail sv))"
  by (auto simp: sync_audit_def simp del: non_finite.simps) (auto simp: sync_audit_def)

lemma sample_sync_existing:
  "\<exists>t res. sync_existing sample_receipt_env sample_authority sample_sync ''fins_summary'' (Some ''collection-coverage/v3'') [(''COMPLETE'', 1)] 0 sample_aggregate sample_ledger
     = Inr (sample_ledger\<lparr>ld_coverage := [sample_aggregate\<lparr>ar_detail := t, ar_evaluated_at := ''2024-01-31T12:00:00+00:00''\<rparr>]\<rparr>, res)"
proof -
  obtain v where v: "verify_for_sync sample_receipt_env sample_authority sample_sync sample_db ''fins_summary''
     = Inr \<lparr>sv_inventory_status = ''EXACT'', sv_receipt_status = ''VERIFIED'', sv_reason = None, sv_detail = verification_detail v,
            sv_required = Some (int (length (iv_expected_identities (cv_inventory v))))\<rparr>" (is "_ = Inr ?sv")
    using sample_verdict by blast
  have db: "coverage_db.truncate sample_ledger = sample_db" by (simp add: sample_ledger_def sample_db_def coverage_db.truncate_def)
  have a: "ar_status sample_aggregate = ''COMPLETE''" "ar_policy_version sample_aggregate = ''collection-coverage/v3''" "ar_detail sample_aggregate = []"
      "ar_dataset sample_aggregate = ''fins_summary''" "ld_coverage sample_ledger = [sample_aggregate]"
    by (simp_all add: sample_aggregate_def sample_ledger_def)
  have d: "loaded_detail [] = []" by (simp add: loaded_detail_def plain_loads_empty)
  have agg: "aggregate_status_from_segment_counts [(''COMPLETE'', 1)] = ''COMPLETE''" by code_simp
  let ?audit = "sync_audit sample_sync ?sv ''COMPLETE'' ''COMPLETE'' ''collection-coverage/v3'' (Some ''collection-coverage/v3'') JNull None"
  obtain new where new: "build_surgical_reagg_detail [] [(''COMPLETE'', 1)] (sv_required ?sv) (Some ?audit) = Inr new" "\<not> non_finite (JObj new)"
  proof -
    have "\<not> non_finite (JObj ?audit)" unfolding finite_sync_audit using finite_verification_detail by simp
    then show ?thesis using that by (simp add: build_surgical_reagg_detail_def dict_arg_def dict_get_def Let_def)
  qed
  have stored: "stored_counts (sy_py_int sample_sync) JNull = Inr []" by (simp add: stored_counts_def dict_arg_def honest_status_counts_def)
  have blk: "sync_blocker ?sv ''COMPLETE'' ''collection-coverage/v3'' (Some ''collection-coverage/v3'') 1 ''COMPLETE'' [] 0 = None" by (simp add: sync_blocker_def)
  have w: "sync_write sample_sync ''fins_summary'' (Some ''collection-coverage/v3'') ''COMPLETE'' t sample_ledger
      = Inr (sample_ledger\<lparr>ld_coverage := [sample_aggregate\<lparr>ar_detail := t, ar_evaluated_at := ''2024-01-31T12:00:00+00:00''\<rparr>]\<rparr>)" for t
    by (simp add: sync_write_def update_existing_complete_coverage_evidence_def is_current_complete_def a) (simp add: sample_sync_def)
  show ?thesis
    using v db a d agg new stored blk w canonical_text_finite [OF new(2)]
    by (simp add: sync_existing_def Let_def dict_arg_def dict_get_def failing_checks_from_detail_def sync_status_def del: json_dumps.simps) blast
qed

lemma sample_synced:
  "\<exists>ld' results row. sync_dataset_coverage_from_segments sample_receipt_env sample_authority sample_sync (Some [''fins_summary'']) sample_ledger
     = Inr (ld', results, 1) \<and> row \<in> set (ld_coverage ld') \<and> ar_dataset row = ''fins_summary'' \<and> ar_status row = ''COMPLETE''"
proof -
  obtain t res where e: "sync_existing sample_receipt_env sample_authority sample_sync ''fins_summary'' (Some ''collection-coverage/v3'') [(''COMPLETE'', 1)] 0 sample_aggregate sample_ledger
     = Inr (sample_ledger\<lparr>ld_coverage := [sample_aggregate\<lparr>ar_detail := t, ar_evaluated_at := ''2024-01-31T12:00:00+00:00''\<rparr>]\<rparr>, res)"
    using sample_sync_existing by blast
  have find: "List.find (\<lambda>r. ar_dataset r = ''fins_summary'') (ld_coverage sample_ledger) = Some sample_aggregate" by (simp add: sample_ledger_def sample_aggregate_def)
  have "platform_complete sample_ledger = 1" by (simp add: platform_complete_def sample_ledger_def sample_row_fields)
  then show ?thesis
    using e find
    by (simp add: sync_dataset_coverage_from_segments_def sync_selection_def sync_dataset_def sample_effective_version sample_dataset_segments sample_counts platform_complete_def)
      (simp add: sample_sync_def sample_aggregate_def)
qed

subsection \<open>Properties of the ledger\<close>

text \<open>No generic operation mints an aggregate \<open>COMPLETE\<close>. Along every sequence of receipts, planned segments, persisted
  refreshes, status updates, full refreshes and re-aggregations, whatever their arguments and whether they raise or not, a dataset is
  \<open>COMPLETE\<close> under a policy version only if it was \<open>COMPLETE\<close> under that version at the start.\<close>

theorem complete_never_minted:
  assumes "r \<in> set (ld_coverage (fold (ledger_step env au) ops ld))" "ar_status r = ''COMPLETE''"
  shows "\<exists>r0 \<in> set (ld_coverage ld). ar_dataset r0 = ar_dataset r \<and> ar_policy_version r0 = ar_policy_version r \<and> ar_status r0 = ''COMPLETE''"
proof -
  let ?C = "{(ar_dataset r, ar_policy_version r) |r. r \<in> set (ld_coverage ld) \<and> ar_status r = ''COMPLETE''}"
  have "complete_within ?C (fold (ledger_step env au) ops ld)"
    by (rule coverage_steps.run_inv) (auto simp: complete_within_def)
  then have "(ar_dataset r, ar_policy_version r) \<in> ?C" using assms by (simp only: complete_within_def)
  then show ?thesis by force
qed

theorem complete_never_minted_witness:
  "\<exists>r \<in> set (ld_coverage (fold (ledger_step sample_receipt_env sample_authority) [PreserveComplete sample_aggregate, UpdateEvidence ''d'' ''v'' [] []] sample_ledger)).
     \<exists>r0 \<in> set (ld_coverage sample_ledger). ar_dataset r0 = ar_dataset r \<and> ar_status r0 = ''COMPLETE''"
proof -
  have "sample_aggregate \<in> set (ld_coverage (fold (ledger_step sample_receipt_env sample_authority) [PreserveComplete sample_aggregate, UpdateEvidence ''d'' ''v'' [] []] sample_ledger))"
    by (simp add: ledger_step_def ledger_call_def preserve_existing_complete_coverage_row_def update_existing_complete_coverage_evidence_def is_current_complete_def
        sample_ledger_def sample_aggregate_def)
  moreover have "ar_status sample_aggregate = ''COMPLETE''" by (simp add: sample_aggregate_def)
  ultimately show ?thesis using complete_never_minted by blast
qed

text \<open>C18: A re-aggregation only demotes. The segments and receipts are untouched, so the guard against a mutated table never fires; a
  dry run leaves the ledger as it is; a row of a dataset that was not selected stays as it is; and a selected row that is \<open>COMPLETE\<close>
  afterwards was \<open>COMPLETE\<close> before, under the current version of its policy, with an exact inventory all of whose
  selected receipts verify.\<close>

theorem sync_keeps_only_verified:
  assumes "sync_dataset_coverage_from_segments env au sy datasets ld = Inr (ld', results, n)" "distinct (map ar_dataset (ld_coverage ld))"
  shows "db_segments ld' = db_segments ld \<and> db_receipts ld' = db_receipts ld \<and> n = platform_complete ld \<and> (sy_dry_run sy \<longrightarrow> ld' = ld)
    \<and> (\<forall>row \<in> set (ld_coverage ld'). ar_dataset row \<notin> set (sync_selection datasets ld) \<longrightarrow> row \<in> set (ld_coverage ld))
    \<and> (\<forall>row \<in> set (ld_coverage ld'). \<not> sy_dry_run sy \<and> ar_dataset row \<in> set (sync_selection datasets ld) \<and> ar_status row = ''COMPLETE'' \<longrightarrow>
         (\<exists>old \<in> set (ld_coverage ld). ar_dataset old = ar_dataset row \<and> ar_policy_version old = ar_policy_version row \<and> ar_status old = ''COMPLETE'')
         \<and> synced env au (sy_inventory_end sy) (coverage_db.truncate ld') row)"
proof -
  obtain ld1 where l: "sync_loop env au sy (sync_selection datasets ld) ld = Inr (ld1, results)" and ld': "ld' = (if sy_dry_run sy then ld else ld1)" "n = platform_complete ld1"
    using assms(1) by (auto simp: sync_dataset_coverage_from_segments_def bind_res_Inr_iff split: if_splits)
  note f = sync_loop_facts [OF l]
  have d: "demoted_only (set (sync_selection datasets ld)) ld ld'" using f ld'(1) demoted_only_refl by auto
  have tr: "coverage_db.truncate ld' = coverage_db.truncate ld" "coverage_db.truncate ld1 = coverage_db.truncate ld" using d f by (auto simp: demoted_only_def)
  then have db: "db_segments ld' = db_segments ld" "db_receipts ld' = db_receipts ld" "n = platform_complete ld"
    using ld'(2) by (simp_all add: coverage_db.truncate_def platform_complete_def)
  have out: "row \<in> set (ld_coverage ld)" if "row \<in> set (ld_coverage ld')" "ar_dataset row \<notin> set (sync_selection datasets ld)" for row
    using demoted_only_row [OF d that(1)] that(2) by metis
  have old: "\<exists>old \<in> set (ld_coverage ld). ar_dataset old = ar_dataset row \<and> ar_policy_version old = ar_policy_version row \<and> ar_status old = ''COMPLETE''"
    if "row \<in> set (ld_coverage ld')" "ar_status row = ''COMPLETE''" for row
    using demoted_only_row [OF d that(1)] that(2) by metis
  show ?thesis using db out old f ld'(1) assms(2) tr(1) by auto
qed

theorem sync_keeps_only_verified_witness:
  "\<exists>ld' results row. sync_dataset_coverage_from_segments sample_receipt_env sample_authority sample_sync (Some [''fins_summary'']) sample_ledger = Inr (ld', results, 1)
     \<and> row \<in> set (ld_coverage ld') \<and> ar_status row = ''COMPLETE'' \<and> synced sample_receipt_env sample_authority ''2024-01-31'' (coverage_db.truncate ld') row"
proof -
  obtain ld' results row where s: "sync_dataset_coverage_from_segments sample_receipt_env sample_authority sample_sync (Some [''fins_summary'']) sample_ledger = Inr (ld', results, 1)"
      and row: "row \<in> set (ld_coverage ld')" "ar_dataset row = ''fins_summary''" "ar_status row = ''COMPLETE''"
    using sample_synced by blast
  have "distinct (map ar_dataset (ld_coverage sample_ledger))" by (simp add: sample_ledger_def)
  from sync_keeps_only_verified [OF s this] have "synced sample_receipt_env sample_authority (sy_inventory_end sample_sync) (coverage_db.truncate ld') row"
    using row by (simp add: sync_selection_def sample_sync_def)
  then show ?thesis using s row by (auto simp: sample_sync_def)
qed

end
