(* ===== verification/CoverageTransition.thy ===== *)
theory CoverageTransition
  imports CoverageSync
begin

section \<open>Signed transitions to COMPLETE\<close>

text \<open>
  \<open>packages/data_plane/storage/coverage_transition.py\<close> with \<open>ops/trust_domain.py\<close>: the one operation that makes an aggregate
  \<open>COMPLETE\<close> for the first time. It replays the inventory and the receipts, checks a document signed by the transition authority against
  them, exchanges the rows and leaves a tombstone, in one transaction. The pinned registry file, the digest of the database file,
  the identity of its path and the readings of the clock are inputs. Columns have their declared types, so the checks that
  SQLite returned such a type are left out; a publication time is read in the form \<open>isoformat\<close> prints UTC instants.
\<close>

datatype tr_error =
    TransitionError string
  | TransitionPending
  | TransitionConsumed
  | TrTypeError string
  | TrValueError string
  | TrDbError string
  | TrGateError gate_error

type_synonym 'a tr = "(tr_error, 'a) result"

definition lift_gate :: "'b gate \<Rightarrow> 'b tr" where
  "lift_gate m = (case m of Inl x \<Rightarrow> Inl (TrGateError x) | Inr y \<Rightarrow> Inr y)"

definition ensure :: "bool \<Rightarrow> string \<Rightarrow> unit tr" where
  "ensure c m = (if c then Inr () else Inl (TransitionError m))"

subsection \<open>Trust domain\<close>

definition environments :: "string list" where
  "environments = [''staging'', ''production'']"

definition d1_resource_identity :: "string \<Rightarrow> dict" where
  "d1_resource_identity environment =
     (let name = (if environment = ''staging'' then ''quant-ingest-staging'' else ''quant-ingest'');
          db = (if environment = ''staging'' then ''d448d1c6-27c8-4aeb-8702-3e7a8b6bf2bb'' else ''be6fdcf8-40be-41fc-9535-7facd1fc2ffc'') in
      [(''provider'', JStr ''cloudflare''), (''kind'', JStr ''d1''), (''name'', JStr name), (''database_id'', JStr db),
       (''authority_id'', JStr (''cloudflare-d1:'' @ db))])"

definition require_d1_resource_identity :: "json \<Rightarrow> string \<Rightarrow> bool" where
  "require_d1_resource_identity v environment \<longleftrightarrow> environment \<in> set environments \<and> is_object v \<and> py_eq v (JObj (d1_resource_identity environment))"

subsection \<open>Values\<close>

definition transition_format :: string where "transition_format = ''coverage-complete-transition/v1''"

definition transition_domain :: string where "transition_domain = ''quant-platform/coverage/complete-transition/v1''"

definition transition_issuer :: string where "transition_issuer = ''CoverageCompleteTransitionAuthority/v1''"

definition max_authorization_seconds :: nat where "max_authorization_seconds = 15 * 60"

definition pinned_transition_digest :: string where
  "pinned_transition_digest = ''sha256:9e6c239cf85ab09999ef4aa90881a55abdcc246488df2c1ded9e9d2a5947de49''"

definition signed_document_fields :: "string list" where
  "signed_document_fields = [''format'', ''authority_domain'', ''issuer'', ''issuer_key_id'', ''algorithm'', ''transition_id'', ''body'', ''signature'']"

definition body_fields :: "string list" where
  "body_fields = [''build_id'', ''environment'', ''resource_identity'', ''publication_cutoff'', ''datasets'', ''dataset_set_digest'', ''from_state'',
     ''from_state_digest'', ''target_state'', ''target_state_digest'', ''coverage_policy_set'', ''coverage_policy_set_digest'', ''inventory_set_digest'',
     ''inventory_count'', ''receipt_set_digest'', ''receipt_count'', ''issued_at'', ''expires_at'']"

definition tr_digest :: "('a crypto_env_scheme) \<Rightarrow> json \<Rightarrow> string tr" where
  "tr_digest env v = (case canonical_json v of None \<Rightarrow> Inl (TrValueError ''Out of range float values are not JSON compliant'') | Some t \<Rightarrow> Inr (body_digest env t))"

definition is_hex :: "char \<Rightarrow> bool" where
  "is_hex c \<longleftrightarrow> hex_digit c \<noteq> None"

text \<open>\<open>int(s, 16)\<close>: surrounding blanks, a sign, the prefix \<open>0x\<close> and single underscores between digits are accepted.\<close>

fun hex_body :: "bool \<Rightarrow> bool \<Rightarrow> string \<Rightarrow> bool" where
  "hex_body us fin [] = fin"
| "hex_body us fin (c # cs) = (if is_hex c then hex_body True True cs else if c = CHR ''_'' \<and> us then hex_body False False cs else False)"

definition hex_int_ok :: "string \<Rightarrow> bool" where
  "hex_int_ok s =
     (let t = strip s; u = (if t \<noteq> [] \<and> hd t \<in> set ''+-'' then tl t else t) in
      if startswith u ''0x'' \<or> startswith u ''0X'' then hex_body True False (drop 2 u) else hex_body False False u)"

definition require_digest :: "json \<Rightarrow> string \<Rightarrow> unit tr" where
  "require_digest v field =
     ensure (case v of JStr s \<Rightarrow> length s = 71 \<and> startswith s ''sha256:'' \<and> hex_int_ok (drop 7 s) | _ \<Rightarrow> False) (field @ '' must be a sha256 digest'')"

text \<open>Only built-in values without floats, and no repeated key.\<close>

fun freeze_json :: "json \<Rightarrow> string \<Rightarrow> json tr"
and freeze_members :: "dict \<Rightarrow> string list \<Rightarrow> string \<Rightarrow> dict tr"
and freeze_items :: "json list \<Rightarrow> nat \<Rightarrow> string \<Rightarrow> json list tr" where
  "freeze_json (JObj ps) field = bind_res (freeze_members ps [] field) (\<lambda>qs. Inr (JObj qs))"
| "freeze_json (JArr vs) field = bind_res (freeze_items vs 0 field) (\<lambda>ws. Inr (JArr ws))"
| "freeze_json (JFloat t) field = Inl (TrTypeError (field @ '' must contain only exact JSON built-in values''))"
| "freeze_json v field = Inr v"
| "freeze_members [] seen field = Inr []"
| "freeze_members ((k, v) # ps) seen field =
     (if k \<in> set seen then Inl (TrTypeError (field @ '' keys must be unique built-in strings''))
      else bind_res (freeze_json v (field @ ''.'' @ k)) (\<lambda>w. bind_res (freeze_members ps (k # seen) field) (\<lambda>qs. Inr ((k, w) # qs))))"
| "freeze_items [] i field = Inr []"
| "freeze_items (v # vs) i field =
     bind_res (freeze_json v (field @ ''['' @ nat_str i @ '']'')) (\<lambda>w. bind_res (freeze_items vs (Suc i) field) (\<lambda>ws. Inr (w # ws)))"

lemma freeze_exact:
  "freeze_json v f = Inr w \<longleftrightarrow> exact_json v \<and> w = v"
  "freeze_members ps seen f = Inr qs \<longleftrightarrow> distinct (map fst ps) \<and> set (map fst ps) \<inter> set seen = {} \<and> (\<forall>(k, v) \<in> set ps. exact_json v) \<and> qs = ps"
  "freeze_items vs i f = Inr ws \<longleftrightarrow> (\<forall>v \<in> set vs. exact_json v) \<and> ws = vs"
  by (induction v f and ps seen f and vs i f arbitrary: w and qs and ws rule: freeze_json_freeze_members_freeze_items.induct)
    (auto simp: bind_res_Inr_iff)

lemma freeze_ok: "exact_json v \<Longrightarrow> freeze_json v f = Inr v"
  by (simp only: freeze_exact)

definition utc_z :: "instant \<Rightarrow> string" where
  "utc_z t = isoformat (on_day t) @ ''T'' @ zpad 2 (hour t) @ '':'' @ zpad 2 (minute t) @ '':'' @ zpad 2 (second t) @ ''Z''"

definition digits2 :: "nat \<Rightarrow> string \<Rightarrow> nat option" where
  "digits2 i s = parse_digits 0 (take 2 (drop i s))"

definition scan_instant :: "string \<Rightarrow> nat \<Rightarrow> instant option" where
  "scan_instant s us =
     (case (fromisoformat (take 10 s), digits2 11 s, digits2 14 s, digits2 17 s) of
        (Some d, Some h, Some m, Some sec) \<Rightarrow> Some \<lparr>on_day = d, hour = h, minute = m, second = sec, microsecond = us\<rparr>
      | _ \<Rightarrow> None)"

text \<open>A time is accepted only if it is its own canonical print, so its form is fixed.\<close>

definition parse_utc_z :: "json \<Rightarrow> string \<Rightarrow> instant tr" where
  "parse_utc_z v field =
     (case v of
        JStr s \<Rightarrow> (case scan_instant s 0 of
                     Some t \<Rightarrow> if valid_instant t \<and> utc_z t = s then Inr t else Inl (TransitionError (field @ '' must be canonical UTC Z time''))
                   | None \<Rightarrow> Inl (TransitionError (field @ '' must be canonical UTC Z time'')))
      | _ \<Rightarrow> Inl (TransitionError (field @ '' must be canonical UTC Z time'')))"

definition normalize_datasets :: "json \<Rightarrow> string list tr" where
  "normalize_datasets v =
     (case v of
        JArr vs \<Rightarrow>
          let ds = map str_value vs in
          if vs = [] \<or> \<not> list_all nonempty_json_str vs \<or> ds \<noteq> sort ds \<or> \<not> distinct ds
          then Inl (TransitionError ''Coverage transition datasets must be sorted and duplicate-free'')
          else Inr ds
      | _ \<Rightarrow> Inl (TrTypeError ''Coverage transition datasets must be a list or tuple''))"

subsection \<open>The public-key registry\<close>

type_synonym key_registry = "(string \<times> string) list"

definition registry_key_row :: "('a crypto_env_scheme) \<Rightarrow> json \<Rightarrow> string list \<Rightarrow> (string \<times> string option) tr" where
  "registry_key_row env row seen =
     (if \<not> closed_object row [''key_id'', ''algorithm'', ''status'', ''public_key_b64''] then Inl (TransitionError ''Coverage transition registry row is invalid'')
      else let d = object_of row in
        if \<not> nonempty_json_str (dict_get d ''key_id'') \<or> str_value (dict_get d ''key_id'') \<in> set seen
        then Inl (TransitionError ''Coverage transition key ids must be unique strings'')
        else if dict_get d ''algorithm'' \<noteq> JStr ''Ed25519'' then Inl (TransitionError ''Coverage transition registry algorithm/status is invalid'')
        else bind_res (case py_in (dict_get d ''status'') [''active'', ''revoked''] of Inl _ \<Rightarrow> Inl (TrTypeError ''unhashable type'') | Inr b \<Rightarrow> Inr b) (\<lambda>known.
          if \<not> known then Inl (TransitionError ''Coverage transition registry algorithm/status is invalid'')
          else case dict_get d ''public_key_b64'' of
                 JStr b64 \<Rightarrow>
                   (case b64decode b64 of
                      None \<Rightarrow> Inl (TransitionError ''Coverage transition public key is invalid'')
                    | Some raw \<Rightarrow>
                        if ce_key_loads env raw
                        then Inr (str_value (dict_get d ''key_id''), if dict_get d ''status'' = JStr ''active'' then Some raw else None)
                        else Inl (TransitionError ''Coverage transition public key is invalid''))
               | _ \<Rightarrow> Inl (TransitionError ''Coverage transition public key encoding is invalid'')))"

fun registry_keys :: "('a crypto_env_scheme) \<Rightarrow> json list \<Rightarrow> string list \<Rightarrow> key_registry tr" where
  "registry_keys env [] seen = Inr []"
| "registry_keys env (row # rows) seen =
     bind_res (registry_key_row env row seen) (\<lambda>(k, raw).
     bind_res (registry_keys env rows (k # seen)) (\<lambda>rest. Inr (case raw of None \<Rightarrow> rest | Some key \<Rightarrow> (k, key) # rest)))"

definition registry_identity_ok :: "dict \<Rightarrow> bool" where
  "registry_identity_ok doc \<longleftrightarrow> py_eq (dict_get doc ''schema_version'') (JInt 1) \<and> dict_get doc ''purpose'' = JStr ''coverage_complete_transition_verification''
     \<and> key_rows doc \<noteq> None"

definition one_active_key :: "key_registry \<Rightarrow> key_registry tr" where
  "one_active_key active = bind_res (ensure (length active \<le> 1) ''Coverage transition registry permits one active key'') (\<lambda>_. Inr active)"

definition registry_from_document :: "('a crypto_env_scheme) \<Rightarrow> dict \<Rightarrow> key_registry tr" where
  "registry_from_document env doc =
     bind_res (freeze_json (JObj doc) ''registry'') (\<lambda>_.
     bind_res (ensure (closed_object (JObj doc) [''schema_version'', ''purpose'', ''keys'']) ''Coverage transition registry shape is invalid'') (\<lambda>_.
     bind_res (ensure (registry_identity_ok doc) ''Coverage transition registry identity is invalid'') (\<lambda>_.
     bind_res (registry_keys env (the (key_rows doc)) []) one_active_key)))"

text \<open>\<open>registry_file\<close> gives the contents of the pinned file of an environment; both files have the same pinned digest.\<close>

definition load_pinned_transition_registry :: "('a crypto_env_scheme) \<Rightarrow> (string \<Rightarrow> string option) \<Rightarrow> string \<Rightarrow> key_registry tr" where
  "load_pinned_transition_registry env registry_file environment =
     (if environment \<notin> set environments then Inl (TransitionError ''Coverage environment is invalid'')
      else case registry_file environment of
             None \<Rightarrow> Inl (TransitionError ''Coverage transition pinned registry cannot be loaded'')
           | Some raw \<Rightarrow>
               (case utf8_decode raw of
                  None \<Rightarrow> Inl (TrValueError ''invalid start byte'')
                | Some t \<Rightarrow>
                    (case plain_loads t of
                       Inl _ \<Rightarrow> Inl (TransitionError ''Coverage transition pinned registry cannot be loaded'')
                     | Inr (JObj doc) \<Rightarrow>
                         bind_res (tr_digest env (JObj doc)) (\<lambda>d.
                           if d \<noteq> pinned_transition_digest then Inl (TransitionError ''Coverage transition pinned registry digest mismatch'')
                           else registry_from_document env doc)
                     | Inr _ \<Rightarrow> Inl (TransitionError ''Coverage transition pinned registry digest mismatch''))))"

definition registry_verify :: "('a crypto_env_scheme) \<Rightarrow> key_registry \<Rightarrow> string \<Rightarrow> dict \<Rightarrow> json \<Rightarrow> bool" where
  "registry_verify env reg key_id message signature =
     (case (map_of reg key_id, signature) of
        (Some key, JStr sig) \<Rightarrow>
          (if \<not> startswith sig ''ed25519:'' then False
           else case b64decode (drop 8 sig) of None \<Rightarrow> False | Some raw \<Rightarrow> ce_ed25519_verify env key raw (json_dumps (JObj message)))
      | _ \<Rightarrow> False)"

definition coverage_transition_availability :: "('a crypto_env_scheme) \<Rightarrow> (string \<Rightarrow> string option) \<Rightarrow> string \<Rightarrow> (string \<times> string) tr" where
  "coverage_transition_availability env registry_file environment =
     bind_res (load_pinned_transition_registry env registry_file environment) (\<lambda>reg.
       Inr (if reg = [] then (''PENDING'', ''COVERAGE_TRANSITION_AUTHORITY_UNPROVISIONED'') else (''AVAILABLE'', [])))"

subsection \<open>State\<close>

record publication =
  pn_build_id :: string
  pn_state :: string
  pn_staging_path :: string
  pn_coverage_policy_version :: string
  pn_created_at :: string

record snapshot_policy =
  sp_publication_state :: string
  sp_snapshot_ready :: int
  sp_active_build_id :: "string option"

record tombstone =
  ts_transition_id :: string
  ts_format :: string
  ts_authority_domain :: string
  ts_issuer_key_id :: string
  ts_build_id :: string
  ts_publication_cutoff :: string
  ts_dataset_set_digest :: string
  ts_from_state_digest :: string
  ts_target_state_digest :: string
  ts_coverage_policy_set_digest :: string
  ts_inventory_set_digest :: string
  ts_receipt_set_digest :: string
  ts_signed_evidence_json :: string
  ts_consumed_at :: string

text \<open>A column as \<open>PRAGMA table_info\<close> shows it: name, type, not null, has a default, place in the primary key. The barriers are whether an
  update and a delete of a tombstone are refused.\<close>

record authority_schema =
  as_migration :: "(int \<times> string) list"
  as_coverage_columns :: "string list"
  as_tombstone_info :: "(string \<times> string \<times> int \<times> bool \<times> int) list"
  as_tombstone_triggers :: "string list"
  as_coverage_triggers :: "string list"
  as_update_barrier :: bool
  as_delete_barrier :: bool

record authority_db =
  ad_ledger :: ledger
  ad_publications :: "publication list option"
  ad_policies :: "snapshot_policy list"
  ad_tombstones :: "tombstone list"
  ad_schema :: authority_schema

text \<open>What a call observes of the file system and the clock: the pinned registry files, whether the database opens, the digest of its file, whether its path still
  names it at the two checks, the path of the main database, whether it is the staging file and the governed file, and
  three readings of the clock.\<close>

record transition_input =
  ti_environment :: string
  ti_registry_file :: "string \<Rightarrow> string option"
  ti_db_path :: string
  ti_open_error :: "tr_error option"
  ti_file_digest :: "string tr"
  ti_path_identity :: "nat \<Rightarrow> unit tr"
  ti_main_path :: string
  ti_is_staging :: "string \<Rightarrow> bool"
  ti_is_governed :: bool
  ti_clock :: "nat \<Rightarrow> instant"

subsection \<open>The active rows\<close>

definition dataset_coverage_columns :: "string list" where
  "dataset_coverage_columns = [''dataset'', ''status'', ''policy_version'', ''collection_scope'', ''history_target_start'', ''history_target_end_rule'',
     ''coverage_mode'', ''expected_frequency'', ''universe_rule'', ''raw_retention_required'', ''structured_reconciliation_required'', ''governance_tier'',
     ''observed_start'', ''observed_end'', ''row_count'', ''source_run_id'', ''evaluated_at'', ''detail_json'']"

definition row_dict :: "aggregate_row \<Rightarrow> dict" where
  "row_dict r =
     (let p = ar_policy r in
      [(''dataset'', JStr (ar_dataset r)), (''status'', JStr (ar_status r)), (''policy_version'', JStr (ar_policy_version r)),
       (''collection_scope'', JStr (pq_collection_scope p)), (''history_target_start'', JStr (pq_history_target_start p)),
       (''history_target_end_rule'', JStr (pq_history_target_end_rule p)), (''coverage_mode'', JStr (pq_coverage_mode p)),
       (''expected_frequency'', JStr (pq_expected_frequency p)), (''universe_rule'', JStr (pq_universe_rule p)),
       (''raw_retention_required'', JInt (pq_raw_retention_required p)),
       (''structured_reconciliation_required'', JInt (pq_structured_reconciliation_required p)), (''governance_tier'', JStr (pq_governance_tier p)),
       (''observed_start'', ar_observed_start r), (''observed_end'', ar_observed_end r), (''row_count'', JInt (ar_row_count r)),
       (''source_run_id'', items_json (ar_source_run_id r)), (''evaluated_at'', JStr (ar_evaluated_at r)), (''detail_json'', JStr (ar_detail r))])"

definition null_or_str :: "json \<Rightarrow> bool" where
  "null_or_str v \<longleftrightarrow> v = JNull \<or> is_json_str v"

definition assert_current_policy_row :: "('a crypto_env_scheme) \<Rightarrow> authority \<Rightarrow> aggregate_row \<Rightarrow> unit tr" where
  "assert_current_policy_row env au r =
     (let p = ar_policy r in
      bind_res (ensure (pq_raw_retention_required p \<in> {0, 1} \<and> pq_structured_reconciliation_required p \<in> {0, 1})
        ''active Coverage row contains a noncanonical boolean value'') (\<lambda>_.
      bind_res (ensure (0 \<le> ar_row_count r) ''active Coverage row contains an invalid row count'') (\<lambda>_.
      bind_res (ensure (case ar_source_run_id r of None \<Rightarrow> True | Some n \<Rightarrow> 0 < n) ''active Coverage row contains an invalid source run id'') (\<lambda>_.
      bind_res (ensure (null_or_str (ar_observed_start r) \<and> null_or_str (ar_observed_end r)) ''active Coverage row contains a noncanonical observed window'') (\<lambda>_.
      bind_res (lift_gate (coverage_policy_binding env au (ar_dataset r))) (\<lambda>b.
      bind_res (lift_gate (policy_for au (ar_dataset r))) (\<lambda>contract.
      bind_res (ensure (ar_policy_version r = pb_policy_version b) (''active Coverage row is not current policy: '' @ ar_dataset r)) (\<lambda>_.
      bind_res (ensure (p = policy_columns_of contract) (''active Coverage row differs from current policy: '' @ ar_dataset r)) (\<lambda>_.
      bind_res (ensure (ar_status r \<in> set coverage_statuses \<and> ar_status r \<noteq> ''COMPLETE'')
        (''first-COMPLETE transition requires non-COMPLETE active state: '' @ ar_dataset r)) (\<lambda>_.
      case plain_loads (ar_detail r) of
        Inl _ \<Rightarrow> Inl (TransitionError (''active Coverage detail is malformed: '' @ ar_dataset r))
      | Inr v \<Rightarrow> ensure (is_object v) (''active Coverage detail is not an object: '' @ ar_dataset r)))))))))))"

definition selected_rows :: "ledger \<Rightarrow> string list \<Rightarrow> aggregate_row list" where
  "selected_rows ld datasets = sort_key ar_dataset (filter (\<lambda>r. ar_dataset r \<in> set datasets) (ld_coverage ld))"

definition read_active_rows :: "('a crypto_env_scheme) \<Rightarrow> authority \<Rightarrow> ledger \<Rightarrow> string list \<Rightarrow> aggregate_row list tr" where
  "read_active_rows env au ld datasets =
     (let rows = selected_rows ld datasets in
      bind_res (ensure (map ar_dataset rows = datasets) ''Coverage transition active dataset membership is incomplete'') (\<lambda>_.
      bind_res (map_res (assert_current_policy_row env au) rows) (\<lambda>_. Inr rows)))"

definition candidate_gate_ok :: "dict \<Rightarrow> aggregate_row \<Rightarrow> string \<Rightarrow> bool" where
  "candidate_gate_ok gate r cutoff \<longleftrightarrow>
     dict_get gate ''mode'' = JStr ''generic_refresh_c10_transition_authority_unavailable'' \<and> dict_get gate ''computed_status'' = JStr ''COMPLETE''
     \<and> dict_get gate ''persisted_status'' = JStr ''PARTIAL'' \<and> dict_get gate ''blocker'' = JStr ''transition_authority_required''
     \<and> dict_get gate ''current_policy_version'' = JStr (ar_policy_version r) \<and> dict_get gate ''inventory_target_end'' = JStr cutoff"

definition exact_counts :: "dict \<Rightarrow> dict \<Rightarrow> int \<Rightarrow> bool" where
  "exact_counts detail coverage n \<longleftrightarrow>
     dict_get coverage ''required_segments'' = JInt n
     \<and> (case dict_get coverage ''status_counts'' of JObj d \<Rightarrow> set (map fst d) = {''COMPLETE''} \<and> dict_get d ''COMPLETE'' = JInt n | _ \<Rightarrow> False)
     \<and> dict_get detail ''global_failures'' = JArr []"

definition validation_passes :: "json list \<Rightarrow> bool" where
  "validation_passes checks =
     (case List.find (\<lambda>c. dict_get (object_of c) ''check_id'' = JStr ''C2'') checks of
        None \<Rightarrow> False
      | Some c \<Rightarrow>
          dict_get (object_of c) ''status'' = JStr ''pass''
          \<and> (case dict_get (object_of c) ''metrics'' of
                JObj m \<Rightarrow> dict_get m ''source'' = JStr ''ingestion_validation'' \<and> dict_get m ''validation_status'' = JStr ''pass''
              | _ \<Rightarrow> False)
          \<and> \<not> (\<exists>c' \<in> set checks. dict_get (object_of c') ''status'' = JStr ''fail''))"

definition require_computed_complete_candidate :: "aggregate_row \<Rightarrow> string \<Rightarrow> int \<Rightarrow> unit tr" where
  "require_computed_complete_candidate r cutoff n =
     (let detail = loaded_detail (ar_detail r); ds = ar_dataset r in
      case dict_get detail ''coverage_v2'' of
        JObj coverage \<Rightarrow>
          bind_res (ensure (case dict_get coverage ''aggregate_complete_gate'' of JObj gate \<Rightarrow> candidate_gate_ok gate r cutoff | _ \<Rightarrow> False)
            (''Coverage transition active state is not a computed COMPLETE candidate: '' @ ds)) (\<lambda>_.
          bind_res (ensure (ar_status r = ''PARTIAL'') (''Coverage transition candidate was not persisted PARTIAL: '' @ ds)) (\<lambda>_.
          bind_res (ensure (exact_counts detail coverage n) (''Coverage transition computed target is not exact COMPLETE: '' @ ds)) (\<lambda>_.
          if startswith ds ''jsda_'' then Inr ()
          else case dict_get detail ''checks'' of
                 JArr checks \<Rightarrow>
                   bind_res (ensure (checks \<noteq> [] \<and> list_all is_object checks) (''Coverage transition validation evidence is missing: '' @ ds)) (\<lambda>_.
                     ensure (validation_passes checks) (''Coverage transition validation is not PASS: '' @ ds))
               | _ \<Rightarrow> Inl (TransitionError (''Coverage transition validation evidence is missing: '' @ ds)))))
      | _ \<Rightarrow> Inl (TransitionError (''Coverage transition active state is not a computed COMPLETE candidate: '' @ ds)))"

subsection \<open>The publication\<close>

text \<open>\<open>datetime.fromisoformat(created_at.replace("Z", "+00:00"))\<close> for the texts \<open>isoformat\<close> prints of UTC instants.\<close>

definition replace_z :: "string \<Rightarrow> string" where
  "replace_z s = concat (map (\<lambda>c. if c = CHR ''Z'' then ''+00:00'' else [c]) s)"

definition utc_day :: "string \<Rightarrow> date option" where
  "utc_day created =
     (let s = replace_z created;
          us = (if length s = 32 then (case parse_digits 0 (take 6 (drop 20 s)) of None \<Rightarrow> 0 | Some n \<Rightarrow> n) else 0) in
      case scan_instant s us of
        Some t \<Rightarrow> if valid_instant t \<and> iso_utc t = s then Some (on_day t) else None
      | None \<Rightarrow> None)"

definition validation_coverage_cutoff_for_build :: "transition_input \<Rightarrow> authority_db \<Rightarrow> string \<Rightarrow> (string, string) result" where
  "validation_coverage_cutoff_for_build ti db build_id =
     (if build_id = [] then Inl ''Coverage refresh requires a publisher-owned build id''
      else case ad_publications db of
        None \<Rightarrow> Inl ''Coverage refresh publication lifecycle is unavailable''
      | Some pubs \<Rightarrow>
          (case (filter (\<lambda>p. pn_build_id p = build_id) pubs, ad_policies db) of
             ([pub], [pol]) \<Rightarrow>
               if pn_state pub \<noteq> ''VALIDATING'' \<or> sp_publication_state pol \<noteq> ''VALIDATING'' \<or> sp_snapshot_ready pol \<noteq> 0
                  \<or> sp_active_build_id pol \<noteq> Some build_id \<or> ti_main_path ti = [] \<or> \<not> ti_is_staging ti (pn_staging_path pub) \<or> \<not> ti_is_governed ti
               then Inl ''Coverage refresh build is not the unique active VALIDATING build''
               else (case utc_day (pn_created_at pub) of
                       None \<Rightarrow> Inl ''Coverage refresh publication timestamp is malformed''
                     | Some d \<Rightarrow> Inr (isoformat d))
           | _ \<Rightarrow> Inl ''Coverage refresh has no unique active publication lifecycle''))"

definition publication_binding :: "('a crypto_env_scheme) \<Rightarrow> transition_input \<Rightarrow> authority_db \<Rightarrow> string \<Rightarrow> string \<Rightarrow> (string \<times> dict) tr" where
  "publication_binding env ti db build_id policy_version =
     (case validation_coverage_cutoff_for_build ti db build_id of
        Inl _ \<Rightarrow> Inl (TransitionError ''Coverage transition build/cutoff authority is unavailable'')
      | Inr cutoff \<Rightarrow>
          (case filter (\<lambda>p. pn_build_id p = build_id) (case ad_publications db of None \<Rightarrow> [] | Some pubs \<Rightarrow> pubs) of
             [pub] \<Rightarrow>
               bind_res (ensure (pn_build_id pub \<noteq> [] \<and> pn_state pub \<noteq> [] \<and> pn_staging_path pub \<noteq> [] \<and> pn_coverage_policy_version pub \<noteq> [] \<and> pn_created_at pub \<noteq> [])
                 ''Coverage transition publication contains noncanonical values'') (\<lambda>_.
               bind_res (ensure (pn_coverage_policy_version pub = policy_version) ''Coverage transition build policy differs from current policy set'') (\<lambda>_.
               bind_res (tr_digest env (JObj [(''path'', JStr (ti_db_path ti))])) (\<lambda>path_digest.
                 Inr (cutoff, [(''build_id'', JStr (pn_build_id pub)), (''state'', JStr (pn_state pub)), (''staging_path_digest'', JStr path_digest),
                   (''coverage_policy_version'', JStr (pn_coverage_policy_version pub)), (''created_at'', JStr (pn_created_at pub)), (''publication_cutoff'', JStr cutoff)]))))
           | _ \<Rightarrow> Inl (TransitionError ''Coverage transition requires one active publication'')))"

subsection \<open>The transition body\<close>

definition lifetime_ok :: "instant \<Rightarrow> instant \<Rightarrow> bool" where
  "lifetime_ok issued expires \<longleftrightarrow> micros issued < micros expires \<and> micros expires - micros issued \<le> max_authorization_seconds * 1000000"

definition policy_set_json :: "string \<times> string \<times> policy_binding list \<Rightarrow> json" where
  "policy_set_json s = (case s of (version, digest, bs) \<Rightarrow>
     JObj [(''policy_version'', JStr version), (''policy_digest'', JStr digest), (''datasets'', JArr (map binding_json bs))])"

definition identity_object :: "identity \<Rightarrow> json tr" where
  "identity_object i = (case plain_loads (id_scope_json i) of Inl _ \<Rightarrow> Inl (TrValueError ''invalid JSON'') | Inr scope \<Rightarrow> Inr (JObj (identity_dict i scope)))"

text \<open>\<open>VerifiedCollectionClosure.to_proof_dict\<close>: proof name and claim name.\<close>

definition proof_fields :: "(string \<times> string) list" where
  "proof_fields = [(''environment'', ''environment''), (''authority_instance_digest'', ''authority_instance_digest''),
     (''coverage_policy_version'', ''coverage_policy_version''), (''source'', ''source''), (''contract_id'', ''contract_id''), (''dataset'', ''dataset''),
     (''segment_id'', ''segment_id''), (''segment_start'', ''segment_start''), (''segment_end'', ''segment_end''),
     (''receipt_issue_digest'', ''receipt_issue_digest''), (''artifact_key'', ''artifact_key''), (''artifact_byte_count'', ''artifact_byte_count''),
     (''manifest_key'', ''manifest_key''), (''manifest_byte_count'', ''manifest_byte_count''), (''raw_manifest_key'', ''raw_manifest_key''),
     (''raw_manifest_byte_count'', ''raw_manifest_byte_count''), (''raw_byte_count'', ''raw_byte_count''), (''natural_key_digest'', ''natural_key_digest''),
     (''expected_scope'', ''expected_scope''), (''scope_digest'', ''scope_digest''), (''expected_items'', ''expected_items''),
     (''observed_items'', ''observed_items''), (''raw_page_count'', ''raw_page_count''), (''raw_row_count'', ''raw_count''),
     (''structured_row_count'', ''structured_count''), (''pagination_exhausted'', ''pagination_exhausted''), (''discovery_exhausted'', ''discovery_exhausted''),
     (''source_request_digest'', ''source_request_digest''), (''raw_manifest_digest'', ''raw_manifest_digest''), (''raw_digest'', ''raw_digest''),
     (''structured_digest'', ''structured_digest''), (''structured_generation'', ''structured_generation''), (''observation_digest'', ''observation_digest''),
     (''run_id'', ''run_id''), (''checked_at'', ''checked_at''), (''extra_digests'', ''extra_digests'')]"

definition to_proof_dict :: "verified_closure \<Rightarrow> json" where
  "to_proof_dict c = JObj ((''receipt_digest'', JStr (vc_receipt_digest c)) # map (\<lambda>(k, n). (k, dict_get (vc_claims c) n)) proof_fields)"

definition evidence_digests :: "('a crypto_env_scheme) \<Rightarrow> complete_verification \<Rightarrow> (string \<times> int \<times> string \<times> int) tr" where
  "evidence_digests env v =
     bind_res (map_res identity_object (iv_expected_identities (cv_inventory v))) (\<lambda>ids.
     let inv_rows = sort_key json_dumps ids; receipts = sort_key json_dumps (map to_proof_dict (cv_closures v)) in
     bind_res (tr_digest env (JObj [(''inventory'', JArr inv_rows)])) (\<lambda>idg.
     bind_res (tr_digest env (JObj [(''receipts'', JArr receipts)])) (\<lambda>rdg.
       Inr (idg, int (length inv_rows), rdg, int (length receipts)))))"

definition from_entry :: "('a crypto_env_scheme) \<Rightarrow> authority \<Rightarrow> aggregate_row \<Rightarrow> json tr" where
  "from_entry env au r =
     bind_res (lift_gate (coverage_policy_binding env au (ar_dataset r))) (\<lambda>b.
     bind_res (tr_digest env (JObj (row_dict r))) (\<lambda>d.
       Inr (JObj [(''dataset'', JStr (ar_dataset r)), (''status'', JStr (ar_status r)), (''policy_version'', JStr (ar_policy_version r)),
                  (''policy_digest'', JStr (pb_policy_digest b)), (''row_digest'', JStr d)])))"

definition target_entry :: "('a crypto_env_scheme) \<Rightarrow> authority \<Rightarrow> string \<Rightarrow> string \<Rightarrow> aggregate_row \<Rightarrow> json tr" where
  "target_entry env au idg rdg r =
     bind_res (lift_gate (coverage_policy_binding env au (ar_dataset r))) (\<lambda>b.
       Inr (JObj [(''dataset'', JStr (ar_dataset r)), (''status'', JStr ''COMPLETE''), (''policy_version'', JStr (ar_policy_version r)),
                  (''policy_digest'', JStr (pb_policy_digest b)), (''inventory_set_digest'', JStr idg), (''receipt_set_digest'', JStr rdg)]))"

definition verify_transition_evidence :: "('a receipt_env_scheme) \<Rightarrow> authority \<Rightarrow> authority_db \<Rightarrow> string list \<Rightarrow> string \<Rightarrow> complete_verification tr" where
  "verify_transition_evidence env au db datasets cutoff =
     (case verify_exact_coverage_complete env au (coverage_db.truncate (ad_ledger db)) datasets cutoff of
        Inl (AuthorityUnavailable _) \<Rightarrow> Inl (TransitionError ''Coverage transition exact inventory authority is unavailable'')
      | Inl x \<Rightarrow> Inl (TrGateError x)
      | Inr v \<Rightarrow>
          bind_res (ensure (exact_inventory (cv_inventory v)) ''Coverage transition target inventory is not exact'') (\<lambda>_.
          bind_res (ensure (complete_eligible v) ''Coverage transition selected signed receipts are incomplete'') (\<lambda>_. Inr v)))"

definition publication_rows_json :: "dict \<Rightarrow> aggregate_row list \<Rightarrow> json" where
  "publication_rows_json publication rows = JObj [(''publication'', JObj publication), (''rows'', JArr (map (\<lambda>r. JObj (row_dict r)) rows))]"

definition collect_evidence ::
    "('a receipt_env_scheme) \<Rightarrow> authority \<Rightarrow> transition_input \<Rightarrow> authority_db \<Rightarrow> string \<Rightarrow> string list
       \<Rightarrow> ((string \<times> string \<times> policy_binding list) \<times> aggregate_row list \<times> string \<times> dict \<times> complete_verification) tr" where
  "collect_evidence env au ti db build datasets =
     bind_res (lift_gate (coverage_policy_set_binding env au datasets)) (\<lambda>pset.
     bind_res (read_active_rows env au (ad_ledger db) datasets) (\<lambda>rows.
     bind_res (publication_binding env ti db build (fst pset)) (\<lambda>(cutoff, pub).
     bind_res (verify_transition_evidence env au db datasets cutoff) (\<lambda>v. Inr (pset, rows, cutoff, pub, v)))))"

definition require_candidates :: "aggregate_row list \<Rightarrow> string \<Rightarrow> complete_verification \<Rightarrow> unit list tr" where
  "require_candidates rows cutoff v =
     map_res (\<lambda>r. require_computed_complete_candidate r cutoff (int (length (segments_for (cv_inventory v) (ar_dataset r))))) rows"

definition assemble_body ::
    "('a crypto_env_scheme) \<Rightarrow> authority \<Rightarrow> json \<Rightarrow> string list \<Rightarrow> json \<Rightarrow> json
       \<Rightarrow> (string \<times> string \<times> policy_binding list) \<times> aggregate_row list \<times> string \<times> dict \<times> complete_verification \<Rightarrow> dict tr" where
  "assemble_body env au build datasets issued_at expires_at ev =
     (case ev of (pset, rows, cutoff, pub, v) \<Rightarrow>
      bind_res (evidence_digests env v) (\<lambda>(idg, icount, rdg, rcount).
      bind_res (map_res (from_entry env au) rows) (\<lambda>from_state.
      bind_res (map_res (target_entry env au idg rdg) rows) (\<lambda>target_state.
      bind_res (tr_digest env (JObj [(''datasets'', JArr (map JStr datasets))])) (\<lambda>ddg.
      bind_res (tr_digest env (publication_rows_json pub rows)) (\<lambda>fdg.
      bind_res (tr_digest env (JObj [(''target'', JArr target_state)])) (\<lambda>tdg.
        Inr [(''build_id'', build), (''publication_cutoff'', JStr cutoff), (''datasets'', JArr (map JStr datasets)), (''dataset_set_digest'', JStr ddg),
             (''from_state'', JArr from_state), (''from_state_digest'', JStr fdg), (''target_state'', JArr target_state), (''target_state_digest'', JStr tdg),
             (''coverage_policy_set'', policy_set_json pset), (''coverage_policy_set_digest'', JStr (fst (snd pset))), (''inventory_set_digest'', JStr idg),
             (''inventory_count'', JInt icount), (''receipt_set_digest'', JStr rdg), (''receipt_count'', JInt rcount), (''issued_at'', issued_at),
             (''expires_at'', expires_at)])))))))"

definition derive_transition_body ::
    "('a receipt_env_scheme) \<Rightarrow> authority \<Rightarrow> transition_input \<Rightarrow> authority_db \<Rightarrow> json \<Rightarrow> string list \<Rightarrow> json \<Rightarrow> json \<Rightarrow> dict tr" where
  "derive_transition_body env au ti db build datasets issued_at expires_at =
     (if \<not> nonempty_json_str build then Inl (TrTypeError ''Coverage transition build id must be an exact string'')
      else
      bind_res (parse_utc_z issued_at ''issued_at'') (\<lambda>issued.
      bind_res (parse_utc_z expires_at ''expires_at'') (\<lambda>expires.
      bind_res (ensure (lifetime_ok issued expires) ''Coverage transition authorization lifetime is invalid'') (\<lambda>_.
      bind_res (collect_evidence env au ti db (str_value build) datasets) (\<lambda>ev.
      bind_res (require_candidates (fst (snd ev)) (fst (snd (snd ev))) (snd (snd (snd (snd ev))))) (\<lambda>_.
        assemble_body env au build datasets issued_at expires_at ev))))))"

definition unsigned_request :: "('a crypto_env_scheme) \<Rightarrow> dict \<Rightarrow> dict tr" where
  "unsigned_request env body =
     bind_res (tr_digest env (JObj [(''format'', JStr transition_format), (''authority_domain'', JStr transition_domain), (''body'', JObj body)])) (\<lambda>tid.
       Inr [(''format'', JStr transition_format), (''authority_domain'', JStr transition_domain), (''transition_id'', JStr tid), (''body'', JObj body)])"

text \<open>\<open>owned\<close> and \<open>absolute\<close>: whether the connection is in a transaction and the path is absolute.\<close>

definition build_coverage_transition_request_from_owned_connection ::
    "('a receipt_env_scheme) \<Rightarrow> authority \<Rightarrow> transition_input \<Rightarrow> authority_db \<Rightarrow> bool \<Rightarrow> bool \<Rightarrow> json \<Rightarrow> json \<Rightarrow> json \<Rightarrow> json \<Rightarrow> dict tr" where
  "build_coverage_transition_request_from_owned_connection env au ti db owned absolute build datasets issued_at expires_at =
     bind_res (ensure owned ''Coverage transition requires an owned frozen read transaction'') (\<lambda>_.
     bind_res (ensure absolute ''Coverage governed database path is not absolute'') (\<lambda>_.
     bind_res (normalize_datasets datasets) (\<lambda>selected.
     bind_res (derive_transition_body env au ti db build selected issued_at expires_at) (unsigned_request env))))"

definition build_coverage_transition_request ::
    "('a receipt_env_scheme) \<Rightarrow> authority \<Rightarrow> transition_input \<Rightarrow> authority_db \<Rightarrow> json \<Rightarrow> json \<Rightarrow> json \<Rightarrow> json \<Rightarrow> dict tr" where
  "build_coverage_transition_request env au ti db build datasets issued_at expires_at =
     bind_res (normalize_datasets datasets) (\<lambda>selected.
     bind_res (case ti_open_error ti of Some x \<Rightarrow> Inl x | None \<Rightarrow> Inr ()) (\<lambda>_.
     bind_res (build_coverage_transition_request_from_owned_connection env au ti db True True build (JArr (map JStr selected)) issued_at expires_at) (\<lambda>request.
     bind_res (ti_path_identity ti 0) (\<lambda>_. Inr request))))"

subsection \<open>The signed document\<close>

definition resource_fields :: "string list" where
  "resource_fields = [''environment'', ''source_d1'', ''source_audit_digest'', ''source_export_digest'', ''source_change_seq'', ''governed_db_content_digest'']"

definition positive_json_int :: "json \<Rightarrow> bool" where
  "positive_json_int v \<longleftrightarrow> (case v of JInt n \<Rightarrow> 0 < n | _ \<Rightarrow> False)"

definition check_resource :: "json \<Rightarrow> string \<Rightarrow> unit tr" where
  "check_resource resource environment =
     bind_res (ensure (closed_object resource resource_fields \<and> dict_get (object_of resource) ''environment'' = JStr environment)
       ''Coverage resource identity is invalid'') (\<lambda>_.
     bind_res (ensure (require_d1_resource_identity (dict_get (object_of resource) ''source_d1'') environment) ''Coverage D1 resource identity is invalid'') (\<lambda>_.
     bind_res (map_res (\<lambda>f. require_digest (dict_get (object_of resource) f) (''resource_identity.'' @ f))
       [''source_audit_digest'', ''source_export_digest'', ''governed_db_content_digest'']) (\<lambda>_.
       ensure (nonneg_json_int (dict_get (object_of resource) ''source_change_seq'')) ''Coverage source change sequence is invalid'')))"

definition document_identity_ok :: "dict \<Rightarrow> bool" where
  "document_identity_ok d \<longleftrightarrow>
     dict_get d ''format'' = JStr transition_format \<and> dict_get d ''authority_domain'' = JStr transition_domain \<and> dict_get d ''issuer'' = JStr transition_issuer
     \<and> dict_get d ''algorithm'' = JStr ''Ed25519'' \<and> nonempty_json_str (dict_get d ''issuer_key_id'') \<and> closed_object (dict_get d ''body'') body_fields"

definition check_body :: "dict \<Rightarrow> string \<Rightarrow> unit tr" where
  "check_body body environment =
     bind_res (ensure (dict_get body ''environment'' = JStr environment) ''Coverage transition environment mismatch'') (\<lambda>_.
     bind_res (check_resource (dict_get body ''resource_identity'') environment) (\<lambda>_.
     bind_res (ensure (nonempty_json_str (dict_get body ''build_id'')) ''Coverage transition build id is invalid'') (\<lambda>_.
     bind_res (normalize_datasets (dict_get body ''datasets'')) (\<lambda>_.
     bind_res (map_res (\<lambda>f. require_digest (dict_get body f) f)
       [''dataset_set_digest'', ''from_state_digest'', ''target_state_digest'', ''coverage_policy_set_digest'', ''inventory_set_digest'', ''receipt_set_digest'']) (\<lambda>_.
     bind_res (ensure (positive_json_int (dict_get body ''inventory_count'') \<and> positive_json_int (dict_get body ''receipt_count''))
       ''Coverage transition evidence counts must be positive integers'') (\<lambda>_.
     bind_res (parse_utc_z (dict_get body ''issued_at'') ''issued_at'') (\<lambda>_.
     bind_res (parse_utc_z (dict_get body ''expires_at'') ''expires_at'') (\<lambda>_. Inr ()))))))))"

text \<open>\<open>set(document)\<close> of a value that is not an object raises or is no set of field names.\<close>

definition document_shape :: "json \<Rightarrow> unit tr" where
  "document_shape doc =
     (case doc of
        JObj d \<Rightarrow> ensure (set (map fst d) = set signed_document_fields) ''Coverage transition signed document shape is invalid''
      | JStr s \<Rightarrow> Inl (TransitionError ''Coverage transition signed document shape is invalid'')
      | JArr vs \<Rightarrow>
          if \<exists>v \<in> set vs. (case v of JObj _ \<Rightarrow> True | JArr _ \<Rightarrow> True | _ \<Rightarrow> False) then Inl (TrTypeError ''unhashable type'')
          else if set vs = set (map JStr signed_document_fields) then Inl (TrTypeError ''list indices must be integers or slices, not str'')
          else Inl (TransitionError ''Coverage transition signed document shape is invalid'')
      | _ \<Rightarrow> Inl (TrTypeError ''object is not iterable''))"

definition validate_signed_document :: "('a crypto_env_scheme) \<Rightarrow> json \<Rightarrow> string \<Rightarrow> dict tr" where
  "validate_signed_document env doc environment =
     (if environment \<notin> set environments then Inl (TransitionError ''Coverage environment is invalid'')
      else bind_res (freeze_json doc ''document'') (\<lambda>_.
      bind_res (document_shape doc) (\<lambda>_.
      let d = object_of doc; body = object_of (dict_get d ''body'') in
      bind_res (ensure (document_identity_ok d) ''Coverage transition signed document identity is invalid'') (\<lambda>_.
      bind_res (require_digest (dict_get d ''transition_id'') ''transition_id'') (\<lambda>_.
      bind_res (check_body body environment) (\<lambda>_.
      bind_res (unsigned_request env body) (\<lambda>expected.
      bind_res (ensure (\<forall>(k, v) \<in> set expected. py_eq (dict_get d k) v) ''Coverage transition id does not address its exact body'') (\<lambda>_. Inr d))))))))"

definition signature_message :: "dict \<Rightarrow> dict" where
  "signature_message d = map (\<lambda>k. (k, dict_get d k)) [''format'', ''authority_domain'', ''issuer'', ''issuer_key_id'', ''algorithm'', ''transition_id'', ''body'']"

subsection \<open>Exchange of the rows\<close>

definition tombstone_columns :: "string list" where
  "tombstone_columns = [''transition_id'', ''format'', ''authority_domain'', ''issuer_key_id'', ''build_id'', ''publication_cutoff'', ''dataset_set_digest'',
     ''from_state_digest'', ''target_state_digest'', ''coverage_policy_set_digest'', ''inventory_set_digest'', ''receipt_set_digest'', ''signed_evidence_json'', ''consumed_at'']"

definition tombstone_triggers :: "string list" where
  "tombstone_triggers = [''coverage_complete_transition_tombstones_no_update'', ''coverage_complete_transition_tombstones_no_delete'']"

definition upper :: "string \<Rightarrow> string" where
  "upper s = map (\<lambda>c. if 97 \<le> (of_char c :: nat) \<and> (of_char c :: nat) \<le> 122 then char_of (of_char c - 32 :: nat) else c) s"

definition assert_authority_schema :: "authority_schema \<Rightarrow> bool \<Rightarrow> unit tr" where
  "assert_authority_schema s clean =
     bind_res (ensure (as_migration s = [(12, ''phase631_coverage_complete_transition_tombstones'')]) ''Coverage transition migration v12 identity is invalid'') (\<lambda>_.
     bind_res (ensure (as_coverage_columns s = dataset_coverage_columns) ''Coverage transition aggregate schema is not authority-owned'') (\<lambda>_.
     bind_res (ensure (let info = as_tombstone_info s in map fst info = tombstone_columns \<and> list_all (\<lambda>(n, t, _). upper t = ''TEXT'') info
         \<and> map (\<lambda>(n, t, nn, df, pk). pk) info = 1 # replicate 13 0 \<and> map (\<lambda>(n, t, nn, df, pk). nn) info = 0 # replicate 13 1
         \<and> list_all (\<lambda>(n, t, nn, df, pk). \<not> df) info) ''Coverage transition tombstone schema is not canonical'') (\<lambda>_.
     bind_res (ensure (set (as_tombstone_triggers s) = set tombstone_triggers) ''Coverage transition tombstone trigger ownership is invalid'') (\<lambda>_.
       ensure (clean \<longrightarrow> as_coverage_triggers s = []) ''Coverage transition aggregate has unowned triggers''))))"

definition expected_tombstone :: "dict \<Rightarrow> string \<Rightarrow> tombstone tr" where
  "expected_tombstone d consumed_at =
     (let body = object_of (dict_get d ''body'') in
      case canonical_json (JObj d) of
        None \<Rightarrow> Inl (TrValueError ''Out of range float values are not JSON compliant'')
      | Some evidence \<Rightarrow>
          Inr \<lparr>ts_transition_id = str_value (dict_get d ''transition_id''), ts_format = str_value (dict_get d ''format''),
               ts_authority_domain = str_value (dict_get d ''authority_domain''), ts_issuer_key_id = str_value (dict_get d ''issuer_key_id''),
               ts_build_id = str_value (dict_get body ''build_id''), ts_publication_cutoff = str_value (dict_get body ''publication_cutoff''),
               ts_dataset_set_digest = str_value (dict_get body ''dataset_set_digest''), ts_from_state_digest = str_value (dict_get body ''from_state_digest''),
               ts_target_state_digest = str_value (dict_get body ''target_state_digest''),
               ts_coverage_policy_set_digest = str_value (dict_get body ''coverage_policy_set_digest''),
               ts_inventory_set_digest = str_value (dict_get body ''inventory_set_digest''), ts_receipt_set_digest = str_value (dict_get body ''receipt_set_digest''),
               ts_signed_evidence_json = evidence, ts_consumed_at = consumed_at\<rparr>)"

definition transition_evidence :: "('a crypto_env_scheme) \<Rightarrow> dict \<Rightarrow> json \<Rightarrow> dict tr" where
  "transition_evidence env d gate =
     (let body = object_of (dict_get d ''body'') in
      bind_res (tr_digest env gate) (\<lambda>gdg.
        Inr [(''format'', JStr transition_format), (''transition_id'', dict_get d ''transition_id''), (''build_id'', dict_get body ''build_id''),
             (''publication_cutoff'', dict_get body ''publication_cutoff''), (''dataset_set_digest'', dict_get body ''dataset_set_digest''),
             (''coverage_policy_set_digest'', dict_get body ''coverage_policy_set_digest''), (''inventory_set_digest'', dict_get body ''inventory_set_digest''),
             (''receipt_set_digest'', dict_get body ''receipt_set_digest''), (''candidate_gate_digest'', JStr gdg)]))"

definition expected_target_row :: "('a crypto_env_scheme) \<Rightarrow> dict \<Rightarrow> string \<Rightarrow> aggregate_row \<Rightarrow> aggregate_row tr" where
  "expected_target_row env d consumed_at r =
     (let detail = loaded_detail (ar_detail r) in
      case dict_get detail ''coverage_v2'' of
        JObj coverage \<Rightarrow>
          (case dict_get coverage ''aggregate_complete_gate'' of
             JObj gate \<Rightarrow>
               bind_res (transition_evidence env d (JObj gate)) (\<lambda>evidence.
               let gate' = fold (\<lambda>(k, v). AList.update k v)
                     [(''mode'', JStr ''signed_coverage_transition_authority''), (''persisted_status'', JStr ''COMPLETE''), (''inventory_status'', JStr ''EXACT''),
                      (''selected_receipt_status'', JStr ''VERIFIED''), (''blocker'', JNull), (''transition_id'', dict_get d ''transition_id'')] gate;
                   coverage' = AList.update ''aggregate_complete_gate'' (JObj gate') (AList.update ''complete_transition'' (JObj evidence) coverage) in
               bind_res (lift_gate (canonical_text (AList.update ''coverage_v2'' (JObj coverage') detail))) (\<lambda>t.
                 Inr (r\<lparr>ar_status := ''COMPLETE'', ar_evaluated_at := consumed_at, ar_detail := t\<rparr>)))
           | _ \<Rightarrow> Inl (TransitionError ''Coverage transition candidate gate disappeared before CAS''))
      | _ \<Rightarrow> Inl (TransitionError ''Coverage transition candidate evidence disappeared before CAS''))"

definition insert_tombstone :: "tombstone \<Rightarrow> tombstone list \<Rightarrow> tombstone list tr" where
  "insert_tombstone t ts =
     (if \<not> is_sha256_digest (ts_transition_id t) \<or> ts_format t \<noteq> transition_format \<or> ts_authority_domain t \<noteq> transition_domain
         \<or> length (ts_publication_cutoff t) \<noteq> 10
      then Inl (TrDbError ''CHECK constraint failed: coverage_complete_transition_tombstones'')
      else if \<exists>x \<in> set ts. ts_transition_id x = ts_transition_id t \<or> ts_build_id x = ts_build_id t \<and> ts_dataset_set_digest x = ts_dataset_set_digest t
      then Inl (TrDbError ''UNIQUE constraint failed: coverage_complete_transition_tombstones'')
      else Inr (ts @ [t]))"

text \<open>The update names every column of the row it expects.\<close>

definition exchange_row :: "('a crypto_env_scheme) \<Rightarrow> dict \<Rightarrow> string \<Rightarrow> aggregate_row \<Rightarrow> aggregate_row list \<Rightarrow> (aggregate_row \<times> aggregate_row list) tr" where
  "exchange_row env d consumed_at r rows =
     bind_res (expected_target_row env d consumed_at r) (\<lambda>r'.
     bind_res (ensure (length (filter (\<lambda>x. x = r) rows) = 1) ''Coverage transition active-state CAS failed'') (\<lambda>_.
       Inr (r', map (\<lambda>x. if x = r then r' else x) rows)))"

fun exchange_rows :: "('a crypto_env_scheme) \<Rightarrow> dict \<Rightarrow> string \<Rightarrow> aggregate_row list \<Rightarrow> aggregate_row list \<Rightarrow> (aggregate_row list \<times> aggregate_row list) tr" where
  "exchange_rows env d consumed_at [] rows = Inr ([], rows)"
| "exchange_rows env d consumed_at (r # rs) rows =
     bind_res (exchange_row env d consumed_at r rows) (\<lambda>(r', rows').
     bind_res (exchange_rows env d consumed_at rs rows') (\<lambda>(rs', rows''). Inr (r' # rs', rows'')))"

definition apply_cas :: "('a crypto_env_scheme) \<Rightarrow> dict \<Rightarrow> aggregate_row list \<Rightarrow> string \<Rightarrow> authority_db \<Rightarrow> (aggregate_row list \<times> authority_db) tr" where
  "apply_cas env d active consumed_at db =
     bind_res (expected_tombstone d consumed_at) (\<lambda>t.
     bind_res (insert_tombstone t (ad_tombstones db)) (\<lambda>ts.
     bind_res (exchange_rows env d consumed_at active (ld_coverage (ad_ledger db))) (\<lambda>(expected, rows).
       Inr (expected, db\<lparr>ad_tombstones := ts, ad_ledger := (ad_ledger db)\<lparr>ld_coverage := rows\<rparr>\<rparr>))))"

definition claims_transition :: "dict \<Rightarrow> tombstone \<Rightarrow> bool" where
  "claims_transition d t \<longleftrightarrow>
     (let body = object_of (dict_get d ''body'') in
      ts_transition_id t = str_value (dict_get d ''transition_id'')
      \<or> ts_build_id t = str_value (dict_get body ''build_id'') \<and> ts_dataset_set_digest t = str_value (dict_get body ''dataset_set_digest''))"

definition reverify_evidence :: "('a receipt_env_scheme) \<Rightarrow> authority \<Rightarrow> authority_db \<Rightarrow> string list \<Rightarrow> string \<Rightarrow> complete_verification tr" where
  "reverify_evidence env au db datasets cutoff =
     (case verify_exact_coverage_complete env au (coverage_db.truncate (ad_ledger db)) datasets cutoff of
        Inl (AuthorityUnavailable _) \<Rightarrow> Inl (TransitionError ''Coverage transition exact inventory authority disappeared during CAS'')
      | Inl x \<Rightarrow> Inl (TrGateError x)
      | Inr v \<Rightarrow>
          bind_res (ensure (exact_inventory (cv_inventory v) \<and> complete_eligible v) ''Coverage transition exact evidence changed during CAS'') (\<lambda>_. Inr v))"

definition assert_post_apply_state ::
    "('a receipt_env_scheme) \<Rightarrow> authority \<Rightarrow> transition_input \<Rightarrow> dict \<Rightarrow> aggregate_row list \<Rightarrow> aggregate_row list \<Rightarrow> string \<Rightarrow> authority_db \<Rightarrow> unit tr" where
  "assert_post_apply_state env au ti d active expected consumed_at db =
     (let body = object_of (dict_get d ''body'') in
      bind_res (normalize_datasets (dict_get body ''datasets'')) (\<lambda>datasets.
      bind_res (ensure (selected_rows (ad_ledger db) datasets = expected) ''Coverage transition target rows failed post-CAS verification'') (\<lambda>_.
      bind_res (expected_tombstone d consumed_at) (\<lambda>t.
      bind_res (ensure (filter (claims_transition d) (ad_tombstones db) = [t]) ''Coverage transition tombstone failed exact post-CAS verification'') (\<lambda>_.
      bind_res (lift_gate (coverage_policy_set_binding env au datasets)) (\<lambda>pset.
      bind_res (ensure (py_eq (policy_set_json pset) (dict_get body ''coverage_policy_set'') \<and> JStr (fst (snd pset)) = dict_get body ''coverage_policy_set_digest'')
        ''Coverage transition policy changed during CAS'') (\<lambda>_.
      bind_res (publication_binding env ti db (str_value (dict_get body ''build_id'')) (fst pset)) (\<lambda>(cutoff, pub).
      bind_res (tr_digest env (publication_rows_json pub active)) (\<lambda>fdg.
      bind_res (ensure (JStr cutoff = dict_get body ''publication_cutoff'' \<and> JStr fdg = dict_get body ''from_state_digest'')
        ''Coverage transition publication binding changed during CAS'') (\<lambda>_.
      bind_res (reverify_evidence env au db datasets cutoff) (\<lambda>v.
      bind_res (evidence_digests env v) (\<lambda>(idg, icount, rdg, rcount).
      bind_res (ensure (JStr idg = dict_get body ''inventory_set_digest'' \<and> py_eq (JInt icount) (dict_get body ''inventory_count'')
          \<and> JStr rdg = dict_get body ''receipt_set_digest'' \<and> py_eq (JInt rcount) (dict_get body ''receipt_count''))
        ''Coverage transition evidence digests changed during CAS'') (\<lambda>_.
      bind_res (assert_authority_schema (ad_schema db) True) (\<lambda>_.
      bind_res (ensure (as_update_barrier (ad_schema db)) ''Coverage transition tombstone update barrier is absent'') (\<lambda>_.
        ensure (as_delete_barrier (ad_schema db)) ''Coverage transition tombstone delete barrier is absent'')))))))))))))))"

subsection \<open>Application\<close>

definition observe_authorization_time :: "transition_input \<Rightarrow> nat \<Rightarrow> instant \<Rightarrow> instant \<Rightarrow> instant option \<Rightarrow> string \<Rightarrow> string \<Rightarrow> instant tr" where
  "observe_authorization_time ti n issued expires previous stage window_error =
     (let now = ti_clock ti n in
      bind_res (ensure (case previous of None \<Rightarrow> True | Some p \<Rightarrow> micros p \<le> micros now) (''Coverage transition clock moved backwards before '' @ stage)) (\<lambda>_.
      bind_res (ensure (micros issued \<le> micros now \<and> micros now \<le> micros expires) window_error) (\<lambda>_. Inr now)))"

text \<open>The checks before the database is opened: registry, document, signature, lifetime and the first reading of the clock.\<close>

definition authorize :: "('a crypto_env_scheme) \<Rightarrow> transition_input \<Rightarrow> json \<Rightarrow> (dict \<times> instant \<times> instant \<times> instant) tr" where
  "authorize env ti doc =
     bind_res (load_pinned_transition_registry env (ti_registry_file ti) (ti_environment ti)) (\<lambda>reg.
     if reg = [] then Inl TransitionPending
     else bind_res (validate_signed_document env doc (ti_environment ti)) (\<lambda>d.
     bind_res (ensure (registry_verify env reg (str_value (dict_get d ''issuer_key_id'')) (signature_message d) (dict_get d ''signature''))
       ''Coverage transition signature is invalid'') (\<lambda>_.
     let body = object_of (dict_get d ''body'') in
     bind_res (parse_utc_z (dict_get body ''issued_at'') ''issued_at'') (\<lambda>issued.
     bind_res (parse_utc_z (dict_get body ''expires_at'') ''expires_at'') (\<lambda>expires.
     bind_res (ensure (lifetime_ok issued expires) ''Coverage transition authorization is not current'') (\<lambda>_.
     bind_res (observe_authorization_time ti 0 issued expires None ''initial verification'' ''Coverage transition authorization is not current'') (\<lambda>now.
       Inr (d, issued, expires, now))))))))"

definition check_live_state ::
    "('a receipt_env_scheme) \<Rightarrow> authority \<Rightarrow> transition_input \<Rightarrow> dict \<Rightarrow> authority_db \<Rightarrow> aggregate_row list tr" where
  "check_live_state env au ti d db =
     (let body = object_of (dict_get d ''body'') in
      bind_res (assert_authority_schema (ad_schema db) False) (\<lambda>_.
      if \<exists>t \<in> set (ad_tombstones db). claims_transition d t then Inl TransitionConsumed
      else
      bind_res (ti_file_digest ti) (\<lambda>content.
      bind_res (ensure (JStr content = dict_get (object_of (dict_get body ''resource_identity'')) ''governed_db_content_digest'')
        ''Coverage transition does not bind the governed DB resource'') (\<lambda>_.
      bind_res (normalize_datasets (dict_get body ''datasets'')) (\<lambda>datasets.
      bind_res (derive_transition_body env au ti db (dict_get body ''build_id'') datasets (dict_get body ''issued_at'') (dict_get body ''expires_at'')) (\<lambda>expected.
      bind_res (ensure (\<forall>(k, v) \<in> set expected. py_eq (dict_get body k) v) ''Coverage transition does not bind the exact live active/target state'') (\<lambda>_.
        read_active_rows env au (ad_ledger db) datasets)))))))"

record transition_result =
  tx_transition_id :: string
  tx_build_id :: string
  tx_publication_cutoff :: string
  tx_dataset_set_digest :: string

definition apply_signed_coverage_transition ::
    "('a receipt_env_scheme) \<Rightarrow> authority \<Rightarrow> transition_input \<Rightarrow> json \<Rightarrow> authority_db \<Rightarrow> (authority_db \<times> transition_result) tr" where
  "apply_signed_coverage_transition env au ti doc db =
     bind_res (authorize env ti doc) (\<lambda>(d, issued, expires, initial_now).
     bind_res (case ti_open_error ti of Some x \<Rightarrow> Inl x | None \<Rightarrow> Inr ()) (\<lambda>_.
     bind_res (check_live_state env au ti d db) (\<lambda>active.
     bind_res (observe_authorization_time ti 1 issued expires (Some initial_now) ''state verification'' ''Coverage transition authorization expired during verification'') (\<lambda>final_now.
     let consumed_at = iso_utc (final_now\<lparr>microsecond := 0\<rparr>); body = object_of (dict_get d ''body'') in
     bind_res (ti_path_identity ti 0) (\<lambda>_.
     bind_res (apply_cas env d active consumed_at db) (\<lambda>(expected, db').
     bind_res (assert_post_apply_state env au ti d active expected consumed_at db') (\<lambda>_.
     bind_res (ti_path_identity ti 1) (\<lambda>_.
     bind_res (observe_authorization_time ti 2 issued expires (Some final_now) ''commit'' ''Coverage transition authorization expired before commit'') (\<lambda>_.
       Inr (db', \<lparr>tx_transition_id = str_value (dict_get d ''transition_id''), tx_build_id = str_value (dict_get body ''build_id''),
                  tx_publication_cutoff = str_value (dict_get body ''publication_cutoff''),
                  tx_dataset_set_digest = str_value (dict_get body ''dataset_set_digest'')\<rparr>))))))))))"

subsection \<open>What an application shows\<close>

lemma ensure_Inr [simp]: "ensure c m = Inr x \<longleftrightarrow> c"
  by (simp add: ensure_def)

lemma lift_gate_Inr [simp]: "lift_gate m = Inr x \<longleftrightarrow> m = Inr x"
  by (simp add: lift_gate_def split: sum.splits)

lemma registry_single:
  assumes "load_pinned_transition_registry env files e = Inr reg"
  shows "length reg \<le> 1" "e \<in> set environments"
proof -
  obtain doc where "registry_from_document env doc = Inr reg" and e: "e \<in> set environments"
    using assms by (auto simp: load_pinned_transition_registry_def bind_res_Inr_iff split: if_splits option.splits sum.splits json.splits)
  then show "length reg \<le> 1" by (auto simp: registry_from_document_def one_active_key_def bind_res_Inr_iff)
  show "e \<in> set environments" using e .
qed

text \<open>A document is authorized when the only active key of a pinned registry signed it and it was validated for that environment.\<close>

definition authorized :: "('a crypto_env_scheme) \<Rightarrow> (string \<Rightarrow> string option) \<Rightarrow> string \<Rightarrow> json \<Rightarrow> bool" where
  "authorized env files e doc \<longleftrightarrow>
     validate_signed_document env doc e = Inr (object_of doc)
     \<and> (\<exists>key. load_pinned_transition_registry env files e = Inr [(str_value (dict_get (object_of doc) ''issuer_key_id''), key)]
        \<and> registry_verify env [(str_value (dict_get (object_of doc) ''issuer_key_id''), key)] (str_value (dict_get (object_of doc) ''issuer_key_id''))
            (signature_message (object_of doc)) (dict_get (object_of doc) ''signature''))"

lemma validate_signed_Inr:
  "validate_signed_document env doc e = Inr d \<Longrightarrow> d = object_of doc \<and> exact_json doc \<and> doc = JObj d"
  by (cases doc) (auto simp: validate_signed_document_def Let_def bind_res_Inr_iff freeze_exact document_shape_def object_of_def simp del: freeze_json.simps split: if_splits)

lemma authorize_facts:
  assumes "authorize env ti doc = Inr (d, issued, expires, now)"
  shows "d = object_of doc" "authorized env (ti_registry_file ti) (ti_environment ti) doc" "lifetime_ok issued expires"
    "parse_utc_z (dict_get (object_of (dict_get d ''body'')) ''issued_at'') ''issued_at'' = Inr issued"
    "parse_utc_z (dict_get (object_of (dict_get d ''body'')) ''expires_at'') ''expires_at'' = Inr expires"
    "now = ti_clock ti 0" "micros issued \<le> micros (ti_clock ti 0)"
proof -
  obtain reg where reg: "load_pinned_transition_registry env (ti_registry_file ti) (ti_environment ti) = Inr reg" "reg \<noteq> []"
      and v: "validate_signed_document env doc (ti_environment ti) = Inr d"
      and sig: "registry_verify env reg (str_value (dict_get d ''issuer_key_id'')) (signature_message d) (dict_get d ''signature'')"
      and t: "parse_utc_z (dict_get (object_of (dict_get d ''body'')) ''issued_at'') ''issued_at'' = Inr issued"
        "parse_utc_z (dict_get (object_of (dict_get d ''body'')) ''expires_at'') ''expires_at'' = Inr expires" "lifetime_ok issued expires"
      and o: "observe_authorization_time ti 0 issued expires None ''initial verification'' ''Coverage transition authorization is not current'' = Inr now"
    using assms by (auto simp: authorize_def Let_def bind_res_Inr_iff split: if_splits)
  show d: "d = object_of doc" using validate_signed_Inr [OF v] by blast
  obtain k key where rk: "reg = [(k, key)]" using reg(2) registry_single(1) [OF reg(1)] by (cases reg) auto
  moreover have "k = str_value (dict_get d ''issuer_key_id'')" using sig rk by (auto simp: registry_verify_def split: option.splits if_splits)
  ultimately show "authorized env (ti_registry_file ti) (ti_environment ti) doc" using reg(1) v sig d by (auto simp: authorized_def)
  show "lifetime_ok issued expires" "parse_utc_z (dict_get (object_of (dict_get d ''body'')) ''issued_at'') ''issued_at'' = Inr issued"
    "parse_utc_z (dict_get (object_of (dict_get d ''body'')) ''expires_at'') ''expires_at'' = Inr expires" using t by auto
  show "now = ti_clock ti 0" "micros issued \<le> micros (ti_clock ti 0)" using o by (auto simp: observe_authorization_time_def Let_def bind_res_Inr_iff)
qed

definition doc_body :: "json \<Rightarrow> dict" where
  "doc_body doc = object_of (dict_get (object_of doc) ''body'')"

text \<open>The evidence a call has replayed when its live-state checks pass.\<close>

definition replayed :: "('a receipt_env_scheme) \<Rightarrow> authority \<Rightarrow> ledger \<Rightarrow> dict \<Rightarrow> string list \<Rightarrow> aggregate_row list \<Rightarrow> bool" where
  "replayed env au ld body datasets active \<longleftrightarrow>
     normalize_datasets (dict_get body ''datasets'') = Inr datasets \<and> read_active_rows env au ld datasets = Inr active
     \<and> (\<exists>cutoff v. dict_get body ''publication_cutoff'' = JStr cutoff
        \<and> verify_exact_coverage_complete env au (coverage_db.truncate ld) datasets cutoff = Inr v \<and> complete_eligible v
        \<and> (\<forall>r \<in> set active. require_computed_complete_candidate r cutoff (int (length (segments_for (cv_inventory v) (ar_dataset r)))) = Inr ()))"

lemma py_eq_str_right: "py_eq v (JStr s) \<longleftrightarrow> v = JStr s"
  by (cases v) (auto simp: num_value_def)

lemma map_res_unit_all: "map_res f xs = Inr ys \<Longrightarrow> x \<in> set xs \<Longrightarrow> f x = Inr ()" for f :: "'a \<Rightarrow> ('e, unit) result"
  by (metis (full_types) in_set_conv_nth map_res_Inr_nth old.unit.exhaust)

lemma verify_transition_evidence_Inr:
  "verify_transition_evidence env au db datasets cutoff = Inr v \<longleftrightarrow>
     verify_exact_coverage_complete env au (coverage_db.truncate (ad_ledger db)) datasets cutoff = Inr v \<and> complete_eligible v"
  by (auto simp: verify_transition_evidence_def bind_res_Inr_iff complete_eligible_def split: sum.splits gate_error.splits)

lemma derive_facts:
  assumes "derive_transition_body env au ti db build datasets issued_at expires_at = Inr expected"
  obtains cutoff v active where "read_active_rows env au (ad_ledger db) datasets = Inr active"
    "verify_exact_coverage_complete env au (coverage_db.truncate (ad_ledger db)) datasets cutoff = Inr v" "complete_eligible v"
    "\<forall>r \<in> set active. require_computed_complete_candidate r cutoff (int (length (segments_for (cv_inventory v) (ar_dataset r)))) = Inr ()"
    "(''publication_cutoff'', JStr cutoff) \<in> set expected"
proof -
  obtain ev us where ev: "collect_evidence env au ti db (str_value build) datasets = Inr ev"
      and c: "require_candidates (fst (snd ev)) (fst (snd (snd ev))) (snd (snd (snd (snd ev)))) = Inr us"
      and b: "assemble_body env au build datasets issued_at expires_at ev = Inr expected"
    using assms by (auto simp: derive_transition_body_def bind_res_Inr_iff split: if_splits)
  obtain pset active cutoff pub v where e: "ev = (pset, active, cutoff, pub, v)" by (cases ev) auto
  have r: "read_active_rows env au (ad_ledger db) datasets = Inr active" and v: "verify_transition_evidence env au db datasets cutoff = Inr v"
    using ev e by (auto simp: collect_evidence_def bind_res_Inr_iff)
  have "(''publication_cutoff'', JStr cutoff) \<in> set expected"
    using b by (auto simp: assemble_body_def e bind_res_Inr_iff)
  then show ?thesis
    using that [OF r] v map_res_unit_all [OF c [unfolded e fst_conv snd_conv require_candidates_def]] by (auto simp: verify_transition_evidence_Inr)
qed

lemma check_live_facts:
  assumes "check_live_state env au ti d db = Inr active"
  obtains datasets where "replayed env au (ad_ledger db) (object_of (dict_get d ''body'')) datasets active" "\<forall>t \<in> set (ad_tombstones db). \<not> claims_transition d t"
    "\<exists>content. ti_file_digest ti = Inr content \<and> JStr content = dict_get (object_of (dict_get (object_of (dict_get d ''body'')) ''resource_identity'')) ''governed_db_content_digest''"
proof -
  let ?b = "object_of (dict_get d ''body'')"
  obtain datasets content expected where seen: "\<forall>t \<in> set (ad_tombstones db). \<not> claims_transition d t"
      and n: "normalize_datasets (dict_get ?b ''datasets'') = Inr datasets"
      and c: "ti_file_digest ti = Inr content" "JStr content = dict_get (object_of (dict_get ?b ''resource_identity'')) ''governed_db_content_digest''"
      and e: "derive_transition_body env au ti db (dict_get ?b ''build_id'') datasets (dict_get ?b ''issued_at'') (dict_get ?b ''expires_at'') = Inr expected"
      and eq: "\<forall>(k, v) \<in> set expected. py_eq (dict_get ?b k) v" and r: "read_active_rows env au (ad_ledger db) datasets = Inr active"
    using assms by (auto simp: check_live_state_def Let_def bind_res_Inr_iff split: if_splits)
  obtain cutoff v active' where f: "read_active_rows env au (ad_ledger db) datasets = Inr active'"
      "verify_exact_coverage_complete env au (coverage_db.truncate (ad_ledger db)) datasets cutoff = Inr v" "complete_eligible v"
      "\<forall>r \<in> set active'. require_computed_complete_candidate r cutoff (int (length (segments_for (cv_inventory v) (ar_dataset r)))) = Inr ()"
      "(''publication_cutoff'', JStr cutoff) \<in> set expected"
    using e by (rule derive_facts)
  have "dict_get ?b ''publication_cutoff'' = JStr cutoff" using eq f(5) py_eq_str_right by fastforce
  then have "replayed env au (ad_ledger db) ?b datasets active" using n r f by (auto simp: replayed_def)
  then show ?thesis using that seen c by blast
qed

lemma target_row_Inr:
  assumes "expected_target_row env d c r = Inr r'"
  shows "\<exists>t. r' = r\<lparr>ar_status := ''COMPLETE'', ar_evaluated_at := c, ar_detail := t\<rparr>"
  using assms by (auto simp: expected_target_row_def Let_def bind_res_Inr_iff split: json.splits)

definition promoted :: "string \<Rightarrow> aggregate_row \<Rightarrow> aggregate_row \<Rightarrow> bool" where
  "promoted c r r' \<longleftrightarrow> (\<exists>t. r' = r\<lparr>ar_status := ''COMPLETE'', ar_evaluated_at := c, ar_detail := t\<rparr>)"

lemma list_all2_in_right: "list_all2 P xs ys \<Longrightarrow> y \<in> set ys \<Longrightarrow> \<exists>x \<in> set xs. P x y"
  by (induction xs ys rule: list_all2_induct) auto

lemma promoted_fields: "promoted c r r' \<Longrightarrow> ar_dataset r' = ar_dataset r \<and> ar_policy_version r' = ar_policy_version r \<and> ar_status r' = ''COMPLETE''"
  by (auto simp: promoted_def)

lemma exchange_rows_facts:
  assumes "exchange_rows env d c rs rows = Inr (es, rows')"
  shows "list_all2 (promoted c) rs es \<and> (\<forall>x \<in> set rows'. x \<in> set rows \<or> x \<in> set es) \<and> (\<forall>x \<in> set rows. x \<notin> set rs \<longrightarrow> x \<in> set rows')"
  using assms
proof (induction rs arbitrary: rows es)
  case (Cons r rs)
  obtain r' es' where x: "expected_target_row env d c r = Inr r'" "es = r' # es'"
      "exchange_rows env d c rs (map (\<lambda>x. if x = r then r' else x) rows) = Inr (es', rows')"
    using Cons.prems by (auto simp: exchange_row_def bind_res_Inr_iff)
  have "promoted c r r'" using target_row_Inr [OF x(1)] by (simp add: promoted_def)
  then show ?case using Cons.IH [OF x(3)] x(2) by auto
qed simp

lemma apply_cas_facts:
  assumes "apply_cas env d active c db = Inr (es, db')"
  obtains t where "expected_tombstone d c = Inr t" "ad_tombstones db' = ad_tombstones db @ [t]"
    "coverage_db.truncate (ad_ledger db') = coverage_db.truncate (ad_ledger db)" "list_all2 (promoted c) active es"
    "\<forall>x \<in> set (ld_coverage (ad_ledger db')). x \<in> set (ld_coverage (ad_ledger db)) \<or> x \<in> set es"
    "\<forall>x \<in> set (ld_coverage (ad_ledger db)). x \<notin> set active \<longrightarrow> x \<in> set (ld_coverage (ad_ledger db'))"
proof -
  obtain t ts rows where t: "expected_tombstone d c = Inr t" "insert_tombstone t (ad_tombstones db) = Inr ts"
      "exchange_rows env d c active (ld_coverage (ad_ledger db)) = Inr (es, rows)" "db' = db\<lparr>ad_tombstones := ts, ad_ledger := (ad_ledger db)\<lparr>ld_coverage := rows\<rparr>\<rparr>"
    using assms by (auto simp: apply_cas_def bind_res_Inr_iff)
  have "ts = ad_tombstones db @ [t]" using t(2) by (auto simp: insert_tombstone_def split: if_splits)
  then show ?thesis using that [OF t(1)] t(4) exchange_rows_facts [OF t(3)] by (auto simp: coverage_db.truncate_def)
qed

lemma apply_facts:
  assumes "apply_signed_coverage_transition env au ti doc db = Inr (db', res)"
  obtains issued expires active es where "authorize env ti doc = Inr (object_of doc, issued, expires, ti_clock ti 0)"
    "check_live_state env au ti (object_of doc) db = Inr active"
    "apply_cas env (object_of doc) active (iso_utc ((ti_clock ti 1)\<lparr>microsecond := 0\<rparr>)) db = Inr (es, db')"
    "assert_post_apply_state env au ti (object_of doc) active es (iso_utc ((ti_clock ti 1)\<lparr>microsecond := 0\<rparr>)) db' = Inr ()"
    "micros (ti_clock ti 0) \<le> micros (ti_clock ti 1)" "micros (ti_clock ti 1) \<le> micros (ti_clock ti 2)" "micros (ti_clock ti 2) \<le> micros expires"
proof -
  obtain d issued expires n0 n1 active es where a: "authorize env ti doc = Inr (d, issued, expires, n0)"
      and l: "check_live_state env au ti d db = Inr active"
      and o1: "observe_authorization_time ti 1 issued expires (Some n0) ''state verification'' ''Coverage transition authorization expired during verification'' = Inr n1"
      and c: "apply_cas env d active (iso_utc (n1\<lparr>microsecond := 0\<rparr>)) db = Inr (es, db')"
      and p: "assert_post_apply_state env au ti d active es (iso_utc (n1\<lparr>microsecond := 0\<rparr>)) db' = Inr ()"
      and o2: "\<exists>n2. observe_authorization_time ti 2 issued expires (Some n1) ''commit'' ''Coverage transition authorization expired before commit'' = Inr n2"
    using assms by (auto simp: apply_signed_coverage_transition_def Let_def bind_res_Inr_iff)
  note f = authorize_facts [OF a]
  have "n1 = ti_clock ti 1" "micros n0 \<le> micros n1" "micros n1 \<le> micros (ti_clock ti 2)" "micros (ti_clock ti 2) \<le> micros expires"
    using o1 o2 by (auto simp: observe_authorization_time_def Let_def bind_res_Inr_iff)
  then show ?thesis using that a l c p f(1,6) by auto
qed

lemma read_active_facts:
  assumes "read_active_rows env au ld datasets = Inr active"
  shows "active = selected_rows ld datasets" "map ar_dataset active = datasets"
    "r \<in> set active \<Longrightarrow> \<exists>p. map_of (au_policies au) (ar_dataset r) = Some p \<and> cc_policy_version p = Some (ar_policy_version r)"
proof -
  have a: "active = selected_rows ld datasets \<and> map ar_dataset active = datasets" and
      c: "\<exists>us. map_res (assert_current_policy_row env au) active = Inr us"
    using assms by (auto simp: read_active_rows_def Let_def bind_res_Inr_iff)
  then obtain us where us: "map_res (assert_current_policy_row env au) active = Inr us" by blast
  show "active = selected_rows ld datasets" "map ar_dataset active = datasets" using a by blast+
  assume "r \<in> set active"
  then have "assert_current_policy_row env au r = Inr ()" by (rule map_res_unit_all [OF us])
  then show "\<exists>p. map_of (au_policies au) (ar_dataset r) = Some p \<and> cc_policy_version p = Some (ar_policy_version r)"
    by (auto simp: assert_current_policy_row_def Let_def bind_res_Inr_iff coverage_policy_binding_def policy_for_def split: option.splits if_splits)
qed

lemma expected_tombstone_evidence:
  assumes "expected_tombstone d c = Inr t"
  shows "ts_signed_evidence_json t = json_dumps (JObj d)" "claims_transition d t" "ts_transition_id t = str_value (dict_get d ''transition_id'')"
  using assms by (auto simp: expected_tombstone_def Let_def canonical_json_def claims_transition_def split: option.splits if_splits)

lemma authorized_object: "authorized env files e doc \<Longrightarrow> doc = JObj (object_of doc)"
  unfolding authorized_def using validate_signed_Inr by metis

end
