(* ===== verification/TransitionTrace.thy ===== *)
theory TransitionTrace
  imports CoverageTransition
begin

section \<open>Where every COMPLETE comes from\<close>

text \<open>
  The steps of the coverage ledger together with the signed transitions of \<open>packages/data_plane/storage/coverage_transition.py\<close>, the trace
  every aggregate \<open>COMPLETE\<close> leaves in the tombstones, and a concrete transition that is applied.
\<close>

subsection \<open>Every operation\<close>

text \<open>The publication tables and the schema belong to other parts of the program and may change between calls.\<close>

datatype authority_op =
    Generic ledger_op
  | Transition transition_input json
  | Lifecycle "publication list option" "snapshot_policy list" authority_schema

definition authority_step :: "('a receipt_env_scheme) \<Rightarrow> authority \<Rightarrow> authority_op \<Rightarrow> authority_db \<Rightarrow> authority_db" where
  "authority_step env au a db =
     (case a of
        Generic g \<Rightarrow> db\<lparr>ad_ledger := ledger_step env au g (ad_ledger db)\<rparr>
      | Transition ti doc \<Rightarrow> (case apply_signed_coverage_transition env au ti doc db of Inl _ \<Rightarrow> db | Inr (db', _) \<Rightarrow> db')
      | Lifecycle pubs pols sch \<Rightarrow> db\<lparr>ad_publications := pubs, ad_policies := pols, ad_schema := sch\<rparr>)"

text \<open>What the document behind a tombstone covers: datasets under the version of their policy.\<close>

definition covered_by :: "('a receipt_env_scheme) \<Rightarrow> authority \<Rightarrow> tombstone \<Rightarrow> string \<Rightarrow> string \<Rightarrow> bool" where
  "covered_by env au t ds version \<longleftrightarrow>
     (\<exists>doc files e datasets. ts_signed_evidence_json t = json_dumps doc \<and> authorized env files e doc
        \<and> normalize_datasets (dict_get (doc_body doc) ''datasets'') = Inr datasets \<and> ds \<in> set datasets)
     \<and> (\<exists>p. map_of (au_policies au) ds = Some p \<and> cc_policy_version p = Some version)"

definition minted :: "('a receipt_env_scheme) \<Rightarrow> authority \<Rightarrow> tombstone list \<Rightarrow> (string \<times> string) set" where
  "minted env au ts = {(ds, version). \<exists>t \<in> set ts. covered_by env au t ds version}"

definition traced :: "('a receipt_env_scheme) \<Rightarrow> authority \<Rightarrow> tombstone list \<Rightarrow> (string \<times> string) set \<Rightarrow> authority_db \<Rightarrow> bool" where
  "traced env au T C db \<longleftrightarrow> (\<exists>ts. ad_tombstones db = T @ ts \<and> complete_within (C \<union> minted env au ts) (ad_ledger db))"

lemma complete_within_mono: "complete_within C ld \<Longrightarrow> C \<subseteq> D \<Longrightarrow> complete_within D ld"
  by (auto simp: complete_within_def)

lemma minted_append: "minted env au (ts @ us) = minted env au ts \<union> minted env au us"
  by (auto simp: minted_def)

lemma transition_traced:
  assumes "apply_signed_coverage_transition env au ti doc db = Inr (db', res)" "traced env au T C db"
  shows "traced env au T C db'"
proof -
  obtain issued expires active es where a: "authorize env ti doc = Inr (object_of doc, issued, expires, ti_clock ti 0)"
      and l: "check_live_state env au ti (object_of doc) db = Inr active"
      and c: "apply_cas env (object_of doc) active (iso_utc ((ti_clock ti 1)\<lparr>microsecond := 0\<rparr>)) db = Inr (es, db')"
    using assms(1) by (rule apply_facts)
  note auth = authorize_facts(2) [OF a]
  obtain datasets where r: "replayed env au (ad_ledger db) (doc_body doc) datasets active" using l by (rule check_live_facts) (auto simp: doc_body_def)
  obtain t where t: "expected_tombstone (object_of doc) (iso_utc ((ti_clock ti 1)\<lparr>microsecond := 0\<rparr>)) = Inr t" "ad_tombstones db' = ad_tombstones db @ [t]"
      and pr: "list_all2 (promoted (iso_utc ((ti_clock ti 1)\<lparr>microsecond := 0\<rparr>))) active es"
      and rows: "\<forall>x \<in> set (ld_coverage (ad_ledger db')). x \<in> set (ld_coverage (ad_ledger db)) \<or> x \<in> set es"
    using c by (rule apply_cas_facts)
  obtain ts where ts: "ad_tombstones db = T @ ts" "complete_within (C \<union> minted env au ts) (ad_ledger db)" using assms(2) by (auto simp: traced_def)
  have ra: "read_active_rows env au (ad_ledger db) datasets = Inr active" and nd: "normalize_datasets (dict_get (doc_body doc) ''datasets'') = Inr datasets"
    using r by (auto simp: replayed_def)
  have "(ar_dataset x, ar_policy_version x) \<in> minted env au [t]" if x: "x \<in> set es" for x
  proof -
    obtain y where y: "y \<in> set active" "promoted (iso_utc ((ti_clock ti 1)\<lparr>microsecond := 0\<rparr>)) y x"
      using list_all2_in_right [OF pr x] by blast
    have "ar_dataset y \<in> set datasets" using read_active_facts(2) [OF ra] y(1) by (metis image_eqI list.set_map)
    then have "covered_by env au t (ar_dataset y) (ar_policy_version y)"
      unfolding covered_by_def using read_active_facts(3) [OF ra y(1)] expected_tombstone_evidence(1) [OF t(1)] authorized_object [OF auth] auth nd by metis
    then show ?thesis using promoted_fields [OF y(2)] by (simp add: minted_def)
  qed
  then have "complete_within (C \<union> minted env au (ts @ [t])) (ad_ledger db')"
    using ts(2) rows unfolding complete_within_def minted_append by blast
  then show ?thesis using ts(1) t(2) by (auto simp: traced_def)
qed

lemma authority_step_traced: "traced env au T C db \<Longrightarrow> traced env au T C (authority_step env au a db)"
proof (cases a)
  case (Generic g)
  then show "traced env au T C db \<Longrightarrow> ?thesis" using ledger_step_within by (fastforce simp: traced_def authority_step_def)
next
  case (Transition ti doc)
  then show "traced env au T C db \<Longrightarrow> ?thesis" using transition_traced by (auto simp: authority_step_def split: sum.splits)
qed (simp add: traced_def authority_step_def)

interpretation authority_steps: op_system "authority_step env au" "\<lambda>_. True" "traced env au T C" for env :: "'a receipt_env_scheme" and au T C
  by unfold_locales (rule authority_step_traced)

lemma authority_step_tombstones: "\<exists>ts. ad_tombstones (authority_step env au a db) = ad_tombstones db @ ts"
proof (cases a)
  case (Transition ti doc)
  have "\<exists>ts. ad_tombstones db' = ad_tombstones db @ ts" if "apply_signed_coverage_transition env au ti doc db = Inr (db', res)" for db' res
    using that by (rule apply_facts) (auto elim: apply_cas_facts)
  then show ?thesis using Transition by (auto simp: authority_step_def split: sum.splits)
qed (auto simp: authority_step_def)

interpretation tombstones_kept: op_system "authority_step env au" "\<lambda>_. True" "\<lambda>db. t \<in> set (ad_tombstones db)" for env :: "'a receipt_env_scheme" and au t
proof (unfold_locales, goal_cases)
  case (1 a db)
  obtain ts where "ad_tombstones (authority_step env au a db) = ad_tombstones db @ ts" using authority_step_tombstones by blast
  then show ?case using 1 by simp
qed

lemma consumed_refused:
  assumes "t \<in> set (ad_tombstones db)" "claims_transition (object_of doc) t"
  shows "\<not> is_ok (apply_signed_coverage_transition env au ti doc db)"
proof
  assume "is_ok (apply_signed_coverage_transition env au ti doc db)"
  then obtain db' res where "apply_signed_coverage_transition env au ti doc db = Inr (db', res)" by (auto simp: is_ok_iff)
  then obtain active where "check_live_state env au ti (object_of doc) db = Inr active" by (rule apply_facts) auto
  then show False by (rule check_live_facts) (use assms in auto)
qed

subsection \<open>A concrete transition\<close>

text \<open>Times print and parse back.\<close>

lemma scan_instant_print:
  assumes "valid_instant t" "length rest \<le> 100"
  shows "scan_instant (isoformat (on_day t) @ ''T'' @ zpad 2 (hour t) @ '':'' @ zpad 2 (minute t) @ '':'' @ zpad 2 (second t) @ rest) us = Some (t\<lparr>microsecond := us\<rparr>)"
proof -
  have v: "valid_date (on_day t)" "hour t < 10 ^ 2" "minute t < 10 ^ 2" "second t < 10 ^ 2" using assms by (auto simp: valid_instant_def)
  show ?thesis using v by (cases t) (simp add: scan_instant_def digits2_def parse_digits_zpad)
qed

lemma parse_utc_z_print:
  assumes "valid_instant t" "microsecond t = 0"
  shows "parse_utc_z (JStr (utc_z t)) f = Inr t"
  using scan_instant_print [OF assms(1), of "''Z''" 0] assms by (cases t) (simp add: parse_utc_z_def utc_z_def)

lemma digit_char_not_z: "n < 10 \<Longrightarrow> digit_char n \<noteq> CHR ''Z''"
  using of_char_digit [of n] by (auto simp del: of_char_digit)

lemma zpad_no_z: "CHR ''Z'' \<notin> set (zpad w n)"
  by (induction w arbitrary: n) (use digit_char_not_z in \<open>auto dest!: sym [of "CHR ''Z''"]\<close>)

lemma replace_z_id: "CHR ''Z'' \<notin> set s \<Longrightarrow> replace_z s = s"
  by (induction s) (auto simp: replace_z_def)

lemma utc_day_print:
  assumes "valid_instant t" "microsecond t = 0"
  shows "utc_day (iso_utc t) = Some (on_day t)"
proof -
  have "CHR ''Z'' \<notin> set (iso_utc t)" using assms(2) by (simp add: iso_utc_def isoformat_def zpad_no_z)
  then have z: "replace_z (iso_utc t) = iso_utc t" by (rule replace_z_id)
  have "scan_instant (iso_utc t) 0 = Some t" using scan_instant_print [OF assms(1), of "''+00:00''" 0] assms(2) by (cases t) (simp add: iso_utc_def)
  moreover have "length (iso_utc t) = 25" using assms(2) by (simp add: iso_utc_def)
  ultimately show ?thesis using assms(1) by (simp add: utc_day_def z)
qed

text \<open>Digests of the concrete environment.\<close>

lemma sample_zero_digest:
  assumes "exact_json (JObj d)" "set (map fst d) \<inter> set [''instances'', ''worker_name'', ''authority_status'', ''keys''] = {}"
  shows "tr_digest (sample_env m) (JObj d) = Inr zero_digest"
proof -
  have l: "json_loads (json_dumps (JObj d)) = Inr (canon (JObj d))" using assms(1) by (rule json_loads_dumps)
  have "set (map fst (object_of (canon (JObj d)))) = set (map fst d)" by (simp add: object_of_def image_image case_prod_beta)
  then have "\<not> has_key (object_of (canon (JObj d))) k" if "k \<in> set [''instances'', ''worker_name'', ''authority_status'', ''keys'']" for k
    using assms(2) that unfolding has_key_def by blast
  then have "digest_by_fields b (object_of (canon (JObj d))) = zero_digest" for b by (simp add: digest_by_fields_def)
  then have "body_digest (sample_env m) (json_dumps (JObj d)) = zero_digest"
    using l digest_fields_prefix [of _ "object_of (canon (JObj d))"] by (simp add: body_digest_def sample_env_def sample_sha_def object_of_def del: json_dumps.simps)
  then show ?thesis using exact_finite [OF assms(1)] by (simp add: tr_digest_def canonical_json_def del: json_dumps.simps non_finite.simps)
qed

lemma py_eq_refl: "exact_json v \<Longrightarrow> py_eq v v"
proof (induction v)
  case (JObj ps)
  then show ?case by (force simp: map_of_is_SomeI)
next
  case (JArr vs)
  then show ?case by (auto simp: set_zip in_set_conv_nth)
qed (simp_all add: num_value_def)

definition sample_transition_registry :: dict where
  "sample_transition_registry =
     [(''keys'', JArr [JObj [(''algorithm'', JStr ''Ed25519''), (''key_id'', JStr ''transition-1''), (''public_key_b64'', JStr (b64encode sample_key)), (''status'', JStr ''active'')]]),
      (''purpose'', JStr ''coverage_complete_transition_verification''), (''schema_version'', JInt 1)]"

definition sample_time :: "nat \<Rightarrow> instant" where
  "sample_time m = \<lparr>on_day = Date 2024 1 31, hour = 12, minute = m, second = 0, microsecond = 0\<rparr>"

definition sample_schema :: authority_schema where
  "sample_schema = \<lparr>as_migration = [(12, ''phase631_coverage_complete_transition_tombstones'')], as_coverage_columns = dataset_coverage_columns,
     as_tombstone_info = map (\<lambda>c. (c, ''TEXT'', if c = ''transition_id'' then 0 else 1, False, if c = ''transition_id'' then 1 else 0)) tombstone_columns,
     as_tombstone_triggers = tombstone_triggers, as_coverage_triggers = [], as_update_barrier = True, as_delete_barrier = True\<rparr>"

definition sample_candidate_gate :: dict where
  "sample_candidate_gate =
     [(''blocker'', JStr ''transition_authority_required''), (''computed_status'', JStr ''COMPLETE''), (''current_policy_version'', JStr ''collection-coverage/v3''),
      (''inventory_target_end'', JStr ''2024-01-31''), (''mode'', JStr ''generic_refresh_c10_transition_authority_unavailable''), (''persisted_status'', JStr ''PARTIAL'')]"

definition sample_checks :: "json list" where
  "sample_checks =
     [JObj [(''check_id'', JStr ''C2''), (''metrics'', JObj [(''source'', JStr ''ingestion_validation''), (''validation_status'', JStr ''pass'')]), (''status'', JStr ''pass'')]]"

definition sample_candidate_detail :: dict where
  "sample_candidate_detail =
     [(''checks'', JArr sample_checks),
      (''coverage_v2'', JObj [(''aggregate_complete_gate'', JObj sample_candidate_gate), (''required_segments'', JInt 1), (''status_counts'', JObj [(''COMPLETE'', JInt 1)])]),
      (''global_failures'', JArr [])]"

definition sample_candidate :: aggregate_row where
  "sample_candidate = sample_aggregate\<lparr>ar_status := ''PARTIAL'', ar_detail := json_dumps (JObj sample_candidate_detail)\<rparr>"

definition sample_authority_db :: authority_db where
  "sample_authority_db =
     \<lparr>ad_ledger = sample_ledger\<lparr>ld_coverage := [sample_candidate]\<rparr>,
      ad_publications = Some [\<lparr>pn_build_id = ''build-1'', pn_state = ''VALIDATING'', pn_staging_path = ''/db'', pn_coverage_policy_version = ''collection-coverage/v3'',
        pn_created_at = iso_utc (sample_time 0)\<rparr>],
      ad_policies = [\<lparr>sp_publication_state = ''VALIDATING'', sp_snapshot_ready = 0, sp_active_build_id = Some ''build-1''\<rparr>],
      ad_tombstones = [], ad_schema = sample_schema\<rparr>"

definition sample_transition_input :: transition_input where
  "sample_transition_input =
     \<lparr>ti_environment = ''production'', ti_registry_file = (\<lambda>_. Some (canonical_receipt_body sample_transition_registry)), ti_db_path = ''/db'', ti_open_error = None,
      ti_file_digest = Inr zero_digest, ti_path_identity = (\<lambda>_. Inr ()), ti_main_path = ''/db'', ti_is_staging = (\<lambda>_. True), ti_is_governed = True,
      ti_clock = (\<lambda>n. sample_time (5 + n))\<rparr>"

lemma sample_time_ok: "m < 60 \<Longrightarrow> valid_instant (sample_time m)" "microsecond (sample_time m) = 0" "on_day (sample_time m) = Date 2024 1 31"
  "micros (sample_time a) \<le> micros (sample_time b) \<longleftrightarrow> a \<le> b" "micros (sample_time a) < micros (sample_time b) \<longleftrightarrow> a < b"
  using sample_date_facts(2) by (auto simp: valid_instant_def sample_time_def micros_def)

lemma sample_lifetime: "lifetime_ok (sample_time 1) (sample_time 15)"
  by (simp add: lifetime_ok_def sample_time_ok max_authorization_seconds_def) (simp add: micros_def sample_time_def)

lemma sample_transition_registry_loads: "load_pinned_transition_registry (sample_env m) (\<lambda>_. Some (canonical_receipt_body sample_transition_registry)) ''production'' = Inr [(''transition-1'', sample_key)]"
proof -
  have c: "canonical_dict sample_transition_registry" by code_simp
  have a: "ascii_only (canonical_receipt_body sample_transition_registry)" unfolding canonical_receipt_body_def
    by (rule ascii_json_dumps) (use c in \<open>simp add: canonical_dict_def\<close>)
  have p: "plain_loads (canonical_receipt_body sample_transition_registry) = Inr (JObj sample_transition_registry)"
    unfolding canonical_receipt_body_def by (rule plain_loads_canonical [OF c])
  have "digest_by_fields False sample_transition_registry = pinned_transition_digest" by code_simp
  then have d: "tr_digest (sample_env m) (JObj sample_transition_registry) = Inr pinned_transition_digest"
    using sample_digests(2) [OF c, of m] exact_finite [of "JObj sample_transition_registry"] c
    by (simp add: tr_digest_def canonical_json_def canonical_receipt_body_def canonical_dict_def del: json_dumps.simps non_finite.simps)
  have key: "ce_key_loads (sample_env m) sample_key" by (simp add: sample_env_def sample_key_def)
  have "registry_keys (sample_env m) [JObj [(''algorithm'', JStr ''Ed25519''), (''key_id'', JStr ''transition-1''), (''public_key_b64'', JStr (b64encode sample_key)), (''status'', JStr ''active'')]] []
      = Inr [(''transition-1'', sample_key)]"
    using key by (simp add: registry_key_row_def closed_object_def object_of_def dict_get_def nonempty_json_str_def str_value_def py_in_def insert_commute)
  moreover have "key_rows sample_transition_registry = Some [JObj [(''algorithm'', JStr ''Ed25519''), (''key_id'', JStr ''transition-1''), (''public_key_b64'', JStr (b64encode sample_key)), (''status'', JStr ''active'')]]"
    by (simp add: key_rows_def sample_transition_registry_def dict_get_def)
  moreover have "registry_identity_ok sample_transition_registry" by code_simp
  moreover have "closed_object (JObj sample_transition_registry) [''schema_version'', ''purpose'', ''keys'']" by code_simp
  ultimately have "registry_from_document (sample_env m) sample_transition_registry = Inr [(''transition-1'', sample_key)]"
    using c freeze_ok [of "JObj sample_transition_registry"]
    by (simp add: registry_from_document_def canonical_dict_def one_active_key_def ensure_def del: registry_keys.simps freeze_json.simps exact_json.simps canon.simps)
  then show ?thesis using a p d by (simp add: load_pinned_transition_registry_def utf8_decode_ascii environments_def)
qed

lemma sample_candidate_loads: "loaded_detail (ar_detail sample_candidate) = sample_candidate_detail" "plain_loads (ar_detail sample_candidate) = Inr (JObj sample_candidate_detail)"
proof -
  have c: "canonical_dict sample_candidate_detail" by code_simp
  have d: "ar_detail sample_candidate = json_dumps (JObj sample_candidate_detail)" by (simp add: sample_candidate_def del: json_dumps.simps)
  have "json_dumps (JObj sample_candidate_detail) \<noteq> []" by simp
  then show "plain_loads (ar_detail sample_candidate) = Inr (JObj sample_candidate_detail)" "loaded_detail (ar_detail sample_candidate) = sample_candidate_detail"
    unfolding d loaded_detail_def by (simp_all add: plain_loads_canonical [OF c] del: json_dumps.simps)
qed

lemma sample_candidate_ok: "require_computed_complete_candidate sample_candidate ''2024-01-31'' 1 = Inr ()"
proof -
  have s: "ar_status sample_candidate = ''PARTIAL''" "ar_dataset sample_candidate = ''fins_summary''" "ar_policy_version sample_candidate = ''collection-coverage/v3''"
    by (simp_all add: sample_candidate_def sample_aggregate_def)
  have "dict_get sample_candidate_detail ''coverage_v2'' = JObj [(''aggregate_complete_gate'', JObj sample_candidate_gate), (''required_segments'', JInt 1), (''status_counts'', JObj [(''COMPLETE'', JInt 1)])]"
    by (simp add: sample_candidate_detail_def dict_get_def)
  moreover have "candidate_gate_ok sample_candidate_gate sample_candidate ''2024-01-31''" by (simp add: candidate_gate_ok_def sample_candidate_gate_def dict_get_def s)
  moreover have "exact_counts sample_candidate_detail [(''aggregate_complete_gate'', JObj sample_candidate_gate), (''required_segments'', JInt 1), (''status_counts'', JObj [(''COMPLETE'', JInt 1)])] 1"
    by (simp add: exact_counts_def dict_get_def sample_candidate_detail_def)
  moreover have "dict_get sample_candidate_detail ''checks'' = JArr sample_checks" by (simp add: sample_candidate_detail_def dict_get_def)
  moreover have "sample_checks \<noteq> [] \<and> list_all is_object sample_checks \<and> validation_passes sample_checks" by code_simp
  moreover have "\<not> startswith ''fins_summary'' ''jsda_''" by code_simp
  ultimately show ?thesis
    by (simp add: require_computed_complete_candidate_def sample_candidate_loads s ensure_def dict_get_def)
qed

text \<open>The body the concrete state derives, for the digest of the policy, and a document over it.\<close>

definition sample_derived :: "string \<Rightarrow> dict" where
  "sample_derived p =
     [(''build_id'', JStr ''build-1''), (''publication_cutoff'', JStr ''2024-01-31''), (''datasets'', JArr [JStr ''fins_summary'']), (''dataset_set_digest'', JStr zero_digest),
      (''from_state'', JArr [JObj [(''dataset'', JStr ''fins_summary''), (''status'', JStr ''PARTIAL''), (''policy_version'', JStr ''collection-coverage/v3''),
         (''policy_digest'', JStr p), (''row_digest'', JStr zero_digest)]]),
      (''from_state_digest'', JStr zero_digest),
      (''target_state'', JArr [JObj [(''dataset'', JStr ''fins_summary''), (''status'', JStr ''COMPLETE''), (''policy_version'', JStr ''collection-coverage/v3''),
         (''policy_digest'', JStr p), (''inventory_set_digest'', JStr zero_digest), (''receipt_set_digest'', JStr zero_digest)]]),
      (''target_state_digest'', JStr zero_digest),
      (''coverage_policy_set'', JObj [(''policy_version'', JStr ''collection-coverage/v3''), (''policy_digest'', JStr zero_digest),
         (''datasets'', JArr [JObj [(''policy_id'', JStr ''fins_summary''), (''policy_version'', JStr ''collection-coverage/v3''), (''policy_digest'', JStr p)]])]),
      (''coverage_policy_set_digest'', JStr zero_digest), (''inventory_set_digest'', JStr zero_digest), (''inventory_count'', JInt 1),
      (''receipt_set_digest'', JStr zero_digest), (''receipt_count'', JInt 1), (''issued_at'', JStr (utc_z (sample_time 1))), (''expires_at'', JStr (utc_z (sample_time 15)))]"

definition sample_resource_identity :: dict where
  "sample_resource_identity = [(''environment'', JStr ''production''), (''source_d1'', JObj (d1_resource_identity ''production'')), (''source_audit_digest'', JStr zero_digest),
     (''source_export_digest'', JStr zero_digest), (''source_change_seq'', JInt 9), (''governed_db_content_digest'', JStr zero_digest)]"

definition sample_transition_body :: "string \<Rightarrow> dict" where
  "sample_transition_body p = sample_derived p
     @ [(''environment'', JStr ''production''),
        (''resource_identity'', JObj sample_resource_identity)]"

definition sample_document :: "string \<Rightarrow> dict" where
  "sample_document p =
     [(''format'', JStr transition_format), (''authority_domain'', JStr transition_domain), (''issuer'', JStr transition_issuer), (''issuer_key_id'', JStr ''transition-1''),
      (''algorithm'', JStr ''Ed25519''), (''transition_id'', JStr zero_digest), (''body'', JObj (sample_transition_body p)), (''signature'', JStr sample_signature)]"

lemma sample_derived_keys:
  "map fst (sample_derived p) = [''build_id'', ''publication_cutoff'', ''datasets'', ''dataset_set_digest'', ''from_state'', ''from_state_digest'', ''target_state'',
     ''target_state_digest'', ''coverage_policy_set'', ''coverage_policy_set_digest'', ''inventory_set_digest'', ''inventory_count'', ''receipt_set_digest'', ''receipt_count'',
     ''issued_at'', ''expires_at'']"
  by (simp add: sample_derived_def)

lemma sample_body_facts:
  "dict_get (sample_transition_body p) ''datasets'' = JArr [JStr ''fins_summary'']" "dict_get (sample_transition_body p) ''build_id'' = JStr ''build-1''"
  "dict_get (sample_transition_body p) ''issued_at'' = JStr (utc_z (sample_time 1))" "dict_get (sample_transition_body p) ''expires_at'' = JStr (utc_z (sample_time 15))"
  "dict_get (sample_transition_body p) ''publication_cutoff'' = JStr ''2024-01-31''" "dict_get (sample_transition_body p) ''dataset_set_digest'' = JStr zero_digest"
  "dict_get (sample_transition_body p) ''from_state_digest'' = JStr zero_digest" "dict_get (sample_transition_body p) ''coverage_policy_set_digest'' = JStr zero_digest"
  "dict_get (sample_transition_body p) ''inventory_set_digest'' = JStr zero_digest" "dict_get (sample_transition_body p) ''receipt_set_digest'' = JStr zero_digest"
  "dict_get (sample_transition_body p) ''target_state_digest'' = JStr zero_digest"
  "dict_get (sample_transition_body p) ''inventory_count'' = JInt 1" "dict_get (sample_transition_body p) ''receipt_count'' = JInt 1"
  "dict_get (sample_transition_body p) ''environment'' = JStr ''production''"
  "dict_get (sample_transition_body p) ''resource_identity'' = JObj sample_resource_identity"
  by (simp_all add: sample_transition_body_def sample_derived_def dict_get_def)

lemma sample_body_exact: "exact_json (JObj (sample_transition_body p))"
  by (simp add: sample_transition_body_def sample_derived_def sample_resource_identity_def d1_resource_identity_def Let_def)

lemma sample_body_closed: "set (map fst (sample_transition_body p)) = set body_fields"
  unfolding sample_transition_body_def map_append sample_derived_keys by code_simp

lemma sample_normalized: "normalize_datasets (JArr [JStr ''fins_summary'']) = Inr [''fins_summary'']"
  by (simp add: normalize_datasets_def nonempty_json_str_def str_value_def)

lemma sample_resource_checked: "check_resource (JObj sample_resource_identity) ''production'' = Inr ()"
  by code_simp

lemma zero_digest_ok: "require_digest (JStr zero_digest) f = Inr ()"
proof -
  have "length zero_digest = 71 \<and> startswith zero_digest ''sha256:'' \<and> hex_int_ok (drop 7 zero_digest)" by code_simp
  then show ?thesis by (simp add: require_digest_def ensure_def)
qed

lemma sample_document_facts:
  "dict_get (sample_document p) ''body'' = JObj (sample_transition_body p)" "dict_get (sample_document p) ''transition_id'' = JStr zero_digest"
  "dict_get (sample_document p) ''issuer_key_id'' = JStr ''transition-1''" "dict_get (sample_document p) ''format'' = JStr transition_format"
  "dict_get (sample_document p) ''authority_domain'' = JStr transition_domain" "dict_get (sample_document p) ''signature'' = JStr sample_signature"
  "dict_get (sample_document p) ''issuer'' = JStr transition_issuer" "dict_get (sample_document p) ''algorithm'' = JStr ''Ed25519''"
  by (simp_all add: sample_document_def dict_get_def)

lemma sample_document_shape:
  "exact_json (JObj (sample_document p))" "document_shape (JObj (sample_document p)) = Inr ()" "document_identity_ok (sample_document p)"
proof -
  show "exact_json (JObj (sample_document p))" using sample_body_exact by (simp add: sample_document_def)
  show "document_shape (JObj (sample_document p)) = Inr ()" by (simp add: document_shape_def sample_document_def signed_document_fields_def ensure_def)
  show "document_identity_ok (sample_document p)"
    unfolding document_identity_ok_def sample_document_facts using sample_body_closed by (simp add: closed_object_def nonempty_json_str_def)
qed

lemma sample_times: "parse_utc_z (JStr (utc_z (sample_time 1))) f = Inr (sample_time 1)" "parse_utc_z (JStr (utc_z (sample_time 15))) f = Inr (sample_time 15)"
  by (simp_all add: parse_utc_z_print sample_time_ok)

lemma sample_body_checked: "check_body (sample_transition_body p) ''production'' = Inr ()"
  by (simp add: check_body_def sample_body_facts sample_resource_checked sample_normalized zero_digest_ok sample_times ensure_def nonempty_json_str_def positive_json_int_def
      del: One_nat_def)

lemma sample_request:
  "unsigned_request (sample_env m) (sample_transition_body p)
   = Inr [(''format'', JStr transition_format), (''authority_domain'', JStr transition_domain), (''transition_id'', JStr zero_digest), (''body'', JObj (sample_transition_body p))]"
proof -
  have "tr_digest (sample_env m) (JObj [(''format'', JStr transition_format), (''authority_domain'', JStr transition_domain), (''body'', JObj (sample_transition_body p))]) = Inr zero_digest"
    by (rule sample_zero_digest) (use sample_body_exact in simp_all)
  then show ?thesis by (simp add: unsigned_request_def)
qed

lemma sample_validates: "validate_signed_document (sample_env m) (JObj (sample_document p)) ''production'' = Inr (sample_document p)"
proof -
  have "py_eq (JObj (sample_transition_body p)) (JObj (sample_transition_body p))" by (rule py_eq_refl [OF sample_body_exact])
  then show ?thesis
    using sample_document_shape [of p] freeze_ok [OF sample_document_shape(1)] sample_request [where m = m and p = p] sample_body_checked [of p]
    by (simp add: validate_signed_document_def environments_def object_of_def ensure_def sample_document_facts zero_digest_ok py_eq_str_right
        del: py_eq.simps exact_json.simps freeze_json.simps)
qed

text \<open>What the concrete state derives.\<close>

lemma sample_policy_set:
  assumes "coverage_policy_binding (sample_env m) sample_authority ''fins_summary'' = Inr \<lparr>pb_policy_id = ''fins_summary'', pb_policy_version = ''collection-coverage/v3'', pb_policy_digest = p\<rparr>"
  shows "coverage_policy_set_binding (sample_env m) sample_authority [''fins_summary'']
    = Inr (''collection-coverage/v3'', zero_digest, [\<lparr>pb_policy_id = ''fins_summary'', pb_policy_version = ''collection-coverage/v3'', pb_policy_digest = p\<rparr>])"
proof -
  let ?b = "\<lparr>pb_policy_id = ''fins_summary'', pb_policy_version = ''collection-coverage/v3'', pb_policy_digest = p\<rparr>"
  have "exact_json (JArr [binding_json ?b])" by (simp add: binding_json_def)
  then have "json_loads (json_dumps (JArr [binding_json ?b])) = Inr (canon (JArr [binding_json ?b]))" by (rule json_loads_dumps)
  then have "sample_sha (json_dumps (JArr [binding_json ?b])) = drop 7 zero_digest" by (simp add: sample_sha_def del: json_dumps.simps)
  moreover have "''sha256:'' @ drop 7 zero_digest = zero_digest" by (simp add: zero_digest_def)
  ultimately show ?thesis using assms by (simp add: coverage_policy_set_binding_def sample_env_def Let_def del: json_dumps.simps)
qed

lemma row_dict_exact: "null_or_str (ar_observed_start r) \<Longrightarrow> null_or_str (ar_observed_end r) \<Longrightarrow> exact_json (JObj (row_dict r))"
  by (auto simp: row_dict_def Let_def null_or_str_def items_json_def is_json_str_def split: option.splits json.splits)

lemma row_dict_keys: "map fst (row_dict r) = dataset_coverage_columns"
  by (simp add: row_dict_def dataset_coverage_columns_def Let_def)

lemma sample_candidate_fields:
  "ar_dataset sample_candidate = ''fins_summary''" "ar_status sample_candidate = ''PARTIAL''" "ar_policy_version sample_candidate = ''collection-coverage/v3''"
  "ar_policy sample_candidate = policy_columns_of sample_eval_policy" "ar_row_count sample_candidate = 2" "ar_source_run_id sample_candidate = Some 7"
  "ar_observed_start sample_candidate = JNull" "ar_observed_end sample_candidate = JNull"
  by (simp_all add: sample_candidate_def sample_aggregate_def)

lemma sample_candidate_exact: "exact_json (JObj (row_dict sample_candidate))"
  by (rule row_dict_exact) (simp_all add: sample_candidate_fields null_or_str_def)

lemma sample_row_digest: "tr_digest (sample_env m) (JObj (row_dict sample_candidate)) = Inr zero_digest"
  by (rule sample_zero_digest [OF sample_candidate_exact]) (simp add: row_dict_keys dataset_coverage_columns_def)

lemma sample_active:
  assumes "coverage_policy_binding (sample_env m) sample_authority ''fins_summary'' = Inr \<lparr>pb_policy_id = ''fins_summary'', pb_policy_version = ''collection-coverage/v3'', pb_policy_digest = p\<rparr>"
  shows "read_active_rows (sample_env m) sample_authority (ad_ledger sample_authority_db) [''fins_summary''] = Inr [sample_candidate]"
proof -
  have sel: "selected_rows (ad_ledger sample_authority_db) [''fins_summary''] = [sample_candidate]"
    by (simp add: selected_rows_def sample_authority_db_def sample_candidate_fields)
  have "pq_raw_retention_required (policy_columns_of sample_eval_policy) \<in> {0, 1} \<and> pq_structured_reconciliation_required (policy_columns_of sample_eval_policy) \<in> {0, 1}"
    by (simp add: policy_columns_of_def)
  moreover have "policy_for sample_authority ''fins_summary'' = Inr sample_eval_policy" by (simp add: policy_for_def sample_authority_def)
  ultimately have "assert_current_policy_row (sample_env m) sample_authority sample_candidate = Inr ()"
    using assms by (simp add: assert_current_policy_row_def sample_candidate_fields null_or_str_def lift_gate_def coverage_statuses_def sample_candidate_loads is_object_def ensure_def)
  then show ?thesis using sel by (simp add: read_active_rows_def ensure_def sample_candidate_fields)
qed

definition sample_publication :: dict where
  "sample_publication = [(''build_id'', JStr ''build-1''), (''state'', JStr ''VALIDATING''), (''staging_path_digest'', JStr zero_digest),
     (''coverage_policy_version'', JStr ''collection-coverage/v3''), (''created_at'', JStr (iso_utc (sample_time 0))), (''publication_cutoff'', JStr ''2024-01-31'')]"

lemma sample_bound:
  assumes "ad_publications db = ad_publications sample_authority_db" "ad_policies db = ad_policies sample_authority_db"
  shows "publication_binding (sample_env m) sample_transition_input db ''build-1'' ''collection-coverage/v3'' = Inr (''2024-01-31'', sample_publication)"
proof -
  have "utc_day (iso_utc (sample_time 0)) = Some (Date 2024 1 31)" using utc_day_print [of "sample_time 0"] by (simp add: sample_time_ok)
  then have c: "validation_coverage_cutoff_for_build sample_transition_input db ''build-1'' = Inr ''2024-01-31''"
    using assms sample_literals(2) by (simp add: validation_coverage_cutoff_for_build_def sample_authority_db_def sample_transition_input_def)
  have "tr_digest (sample_env m) (JObj [(''path'', JStr ''/db'')]) = Inr zero_digest" by (rule sample_zero_digest) simp_all
  moreover have "iso_utc (sample_time 0) \<noteq> []" by (simp add: iso_utc_def)
  ultimately show ?thesis using c assms(1)
    by (simp add: publication_binding_def ensure_def sample_publication_def) (simp add: sample_authority_db_def sample_transition_input_def ensure_def)
qed

lemma sample_rows_digest: "tr_digest (sample_env m) (publication_rows_json sample_publication [sample_candidate]) = Inr zero_digest"
  unfolding publication_rows_json_def
  by (rule sample_zero_digest) (use sample_candidate_exact in \<open>simp_all add: sample_publication_def del: exact_json.simps(2)\<close>, simp)

lemma sample_identity_exact:
  assumes "persisted_segment_identity b sample_segment_row = Inr i"
  shows "\<exists>o'. identity_object i = Inr o' \<and> exact_json o'"
proof -
  let ?s = "JObj (rs_expected_scope sample_segment)"
  have scope: "sg_expected_scope sample_segment_row = json_dumps ?s" by (simp add: sample_segment_row_def del: json_dumps.simps)
  note l = plain_loads_dumps [OF sample_rows_canonical(3)]
  have c: "exact_json (canon ?s)" "json_dumps (canon ?s) = json_dumps ?s" by (code_simp, rule json_dumps_canon)
  then have "id_scope_json i = json_dumps ?s"
    using assms exact_finite [OF c(1)] by (auto simp: persisted_segment_identity_def scope l canonical_json_def simp del: canon.simps json_dumps.simps non_finite.simps split: if_splits)
  then have "identity_object i = Inr (JObj (identity_dict i (canon ?s)))" by (simp add: identity_object_def l del: canon.simps json_dumps.simps)
  moreover have "exact_json (JObj (identity_dict i (canon ?s)))" using c(1) by (simp add: identity_dict_def items_json_def split: option.splits del: canon.simps)
  ultimately show ?thesis by blast
qed

lemma sample_proof_exact: "exact_json (to_proof_dict sample_closure)"
  by code_simp

lemma sample_verified:
  "\<exists>v i b. verify_exact_coverage_complete sample_receipt_env sample_authority (coverage_db.truncate (sample_ledger\<lparr>ld_coverage := rows\<rparr>)) [''fins_summary''] ''2024-01-31'' = Inr v
     \<and> complete_eligible v \<and> iv_expected_segments (cv_inventory v) = [sample_segment] \<and> iv_expected_identities (cv_inventory v) = [i] \<and> cv_closures v = [sample_closure]
     \<and> persisted_segment_identity b sample_segment_row = Inr i"
proof -
  have "coverage_db.truncate (sample_ledger\<lparr>ld_coverage := rows\<rparr>) = sample_db" by (simp add: coverage_db.truncate_def sample_ledger_def sample_db_def)
  then show ?thesis using sample_verification_parts by simp
qed

lemma sample_digested:
  assumes "iv_expected_identities (cv_inventory v) = [i]" "cv_closures v = [sample_closure]" "persisted_segment_identity b sample_segment_row = Inr i"
  shows "evidence_digests (sample_env m) v = Inr (zero_digest, 1, zero_digest, 1)"
proof -
  obtain o' where o': "identity_object i = Inr o'" "exact_json o'" using sample_identity_exact [OF assms(3)] by blast
  have "tr_digest (sample_env m) (JObj [(''inventory'', JArr [o'])]) = Inr zero_digest" by (rule sample_zero_digest) (use o' in simp_all)
  moreover have "tr_digest (sample_env m) (JObj [(''receipts'', JArr [to_proof_dict sample_closure])]) = Inr zero_digest"
    by (rule sample_zero_digest) (use sample_proof_exact in simp_all)
  ultimately show ?thesis using assms(1,2) o' by (simp add: evidence_digests_def Let_def)
qed

lemma sample_derives:
  assumes "coverage_policy_binding sample_receipt_env sample_authority ''fins_summary'' = Inr \<lparr>pb_policy_id = ''fins_summary'', pb_policy_version = ''collection-coverage/v3'', pb_policy_digest = p\<rparr>"
  shows "derive_transition_body sample_receipt_env sample_authority sample_transition_input sample_authority_db (JStr ''build-1'') [''fins_summary'']
    (JStr (utc_z (sample_time 1))) (JStr (utc_z (sample_time 15))) = Inr (sample_derived p)"
proof -
  note env = sample_receipt_env_def
  let ?m = "\<lparr>rv_schema_ok = (\<lambda>d. has_key d ''version'')\<rparr>"
  obtain v i b where v: "verify_exact_coverage_complete sample_receipt_env sample_authority (coverage_db.truncate (ad_ledger sample_authority_db)) [''fins_summary''] ''2024-01-31'' = Inr v"
      "complete_eligible v" "iv_expected_segments (cv_inventory v) = [sample_segment]" "iv_expected_identities (cv_inventory v) = [i]" "cv_closures v = [sample_closure]"
      "persisted_segment_identity b sample_segment_row = Inr i"
    using sample_verified [of "[sample_candidate]"] by (auto simp: sample_authority_db_def)
  have e: "verify_transition_evidence sample_receipt_env sample_authority sample_authority_db [''fins_summary''] ''2024-01-31'' = Inr v"
    using v by (simp add: verify_transition_evidence_Inr)
  have c: "collect_evidence sample_receipt_env sample_authority sample_transition_input sample_authority_db ''build-1'' [''fins_summary'']
      = Inr ((''collection-coverage/v3'', zero_digest, [\<lparr>pb_policy_id = ''fins_summary'', pb_policy_version = ''collection-coverage/v3'', pb_policy_digest = p\<rparr>]),
          [sample_candidate], ''2024-01-31'', sample_publication, v)"
    using sample_policy_set [OF assms [unfolded env]] sample_active [OF assms [unfolded env]] sample_bound [where m = ?m, OF refl refl] e
    by (simp add: collect_evidence_def env lift_gate_def)
  have "rs_dataset sample_segment = ''fins_summary''" by (simp add: sample_segment_def)
  then have r: "require_candidates [sample_candidate] ''2024-01-31'' v = Inr [()]"
    using v(3) sample_candidate_ok by (simp add: require_candidates_def segments_for_def sample_candidate_fields)
  let ?t = "JObj [(''dataset'', JStr ''fins_summary''), (''status'', JStr ''COMPLETE''), (''policy_version'', JStr ''collection-coverage/v3''),
         (''policy_digest'', JStr p), (''inventory_set_digest'', JStr zero_digest), (''receipt_set_digest'', JStr zero_digest)]"
  have d: "tr_digest sample_receipt_env (JObj [(''datasets'', JArr [JStr ''fins_summary''])]) = Inr zero_digest"
      "tr_digest sample_receipt_env (JObj [(''target'', JArr [?t])]) = Inr zero_digest"
    unfolding env by (rule sample_zero_digest; simp)+
  have "assemble_body sample_receipt_env sample_authority (JStr ''build-1'') [''fins_summary''] (JStr (utc_z (sample_time 1))) (JStr (utc_z (sample_time 15)))
      ((''collection-coverage/v3'', zero_digest, [\<lparr>pb_policy_id = ''fins_summary'', pb_policy_version = ''collection-coverage/v3'', pb_policy_digest = p\<rparr>]),
          [sample_candidate], ''2024-01-31'', sample_publication, v) = Inr (sample_derived p)"
    using sample_digested [where m = ?m, OF v(4-6)] sample_rows_digest [where m = ?m] sample_row_digest [where m = ?m] d assms
    by (simp add: assemble_body_def env from_entry_def target_entry_def lift_gate_def sample_candidate_fields sample_derived_def policy_set_json_def binding_json_def)
  then show ?thesis
    using c r by (simp add: derive_transition_body_def sample_times sample_lifetime ensure_def nonempty_json_str_def str_value_def del: One_nat_def)
qed

lemma sample_authorized:
  "authorize (sample_env m) sample_transition_input (JObj (sample_document p)) = Inr (sample_document p, sample_time 1, sample_time 15, sample_time 5)"
proof -
  have i: "ti_environment sample_transition_input = ''production''" "ti_registry_file sample_transition_input = (\<lambda>_. Some (canonical_receipt_body sample_transition_registry))"
      "ti_clock sample_transition_input 0 = sample_time 5"
    by (simp_all add: sample_transition_input_def)
  have s: "registry_verify (sample_env m) [(''transition-1'', sample_key)] ''transition-1'' (signature_message (sample_document p)) (JStr sample_signature)"
    by (simp add: registry_verify_def sample_signature_def startswith_def sample_env_def sample_key_def)
  have "observe_authorization_time sample_transition_input 0 (sample_time 1) (sample_time 15) None st w = Inr (sample_time 5)" for st w
    by (simp add: observe_authorization_time_def i sample_time_ok ensure_def)
  then show ?thesis
    using sample_transition_registry_loads [where m = m] sample_validates [where m = m and p = p] s
    by (simp add: authorize_def i sample_document_facts object_of_def str_value_def sample_body_facts sample_times sample_lifetime ensure_def del: One_nat_def)
qed

lemma sample_schema_ok: "assert_authority_schema sample_schema c = Inr ()"
proof -
  have "let info = as_tombstone_info sample_schema in map fst info = tombstone_columns \<and> list_all (\<lambda>(n, t, _). upper t = ''TEXT'') info
       \<and> map (\<lambda>(n, t, nn, df, pk). pk) info = 1 # replicate 13 0 \<and> map (\<lambda>(n, t, nn, df, pk). nn) info = 0 # replicate 13 1
       \<and> list_all (\<lambda>(n, t, nn, df, pk). \<not> df) info" by code_simp
  then show ?thesis unfolding assert_authority_schema_def by (simp add: ensure_def) (simp add: sample_schema_def)
qed

lemma sample_derived_equal: "\<forall>(k, v) \<in> set (sample_derived p). py_eq (dict_get (sample_transition_body p) k) v"
proof -
  have "dict_get (sample_transition_body p) k = v \<and> exact_json v" if "(k, v) \<in> set (sample_derived p)" for k v
  proof -
    have "(k, v) \<in> set (sample_transition_body p)" using that by (simp add: sample_transition_body_def)
    then show ?thesis using sample_body_exact [of p] by (auto simp: dict_get_def)
  qed
  then show ?thesis using py_eq_refl by auto
qed

lemma sample_live:
  assumes "coverage_policy_binding sample_receipt_env sample_authority ''fins_summary'' = Inr \<lparr>pb_policy_id = ''fins_summary'', pb_policy_version = ''collection-coverage/v3'', pb_policy_digest = p\<rparr>"
  shows "check_live_state sample_receipt_env sample_authority sample_transition_input (sample_document p) sample_authority_db = Inr [sample_candidate]"
proof -
  have "ad_schema sample_authority_db = sample_schema" "ad_tombstones sample_authority_db = []" "ti_file_digest sample_transition_input = Inr zero_digest"
    by (simp_all add: sample_authority_db_def sample_transition_input_def)
  moreover have "dict_get sample_resource_identity ''governed_db_content_digest'' = JStr zero_digest" by (simp add: sample_resource_identity_def dict_get_def)
  ultimately show ?thesis
    using sample_derives [OF assms] sample_active [OF assms [unfolded sample_receipt_env_def]] sample_derived_equal [of p] sample_schema_ok
    by (simp add: check_live_state_def sample_document_facts object_of_def sample_body_facts sample_normalized ensure_def sample_receipt_env_def Let_def del: One_nat_def)
qed

lemma sample_target_row: "\<exists>r'. expected_target_row (sample_env m) (sample_document p) c sample_candidate = Inr r'"
proof -
  let ?cov = "[(''aggregate_complete_gate'', JObj sample_candidate_gate), (''required_segments'', JInt 1), (''status_counts'', JObj [(''COMPLETE'', JInt 1)])]"
  have g: "dict_get sample_candidate_detail ''coverage_v2'' = JObj ?cov" by (simp add: sample_candidate_detail_def dict_get_def)
  have "tr_digest (sample_env m) (JObj sample_candidate_gate) = Inr zero_digest" by (rule sample_zero_digest) (simp_all add: sample_candidate_gate_def)
  then have "\<exists>ev. transition_evidence (sample_env m) (sample_document p) (JObj sample_candidate_gate) = Inr ev \<and> \<not> non_finite (JObj ev)"
    by (simp add: transition_evidence_def Let_def sample_document_facts object_of_def sample_body_facts)
  then obtain ev where ev: "transition_evidence (sample_env m) (sample_document p) (JObj sample_candidate_gate) = Inr ev" "\<not> non_finite (JObj ev)" by blast
  have "\<not> non_finite (JObj (AList.update ''coverage_v2'' (JObj (AList.update ''aggregate_complete_gate'' (JObj (fold (\<lambda>(k, v). AList.update k v)
        [(''mode'', JStr ''signed_coverage_transition_authority''), (''persisted_status'', JStr ''COMPLETE''), (''inventory_status'', JStr ''EXACT''),
         (''selected_receipt_status'', JStr ''VERIFIED''), (''blocker'', JNull), (''transition_id'', JStr zero_digest)] sample_candidate_gate))
        (AList.update ''complete_transition'' (JObj ev) ?cov))) sample_candidate_detail))"
    using ev(2) by (simp add: sample_candidate_gate_def sample_candidate_detail_def sample_checks_def)
  then show ?thesis
    using ev(1) by (simp add: expected_target_row_def sample_candidate_loads g dict_get_def [of ?cov] Let_def canonical_text_finite lift_gate_def sample_document_facts
        del: non_finite.simps json_dumps.simps fold.simps)
qed

lemma sample_exchanged:
  "\<exists>t r'. apply_cas (sample_env m) (sample_document p) [sample_candidate] c sample_authority_db
       = Inr ([r'], sample_authority_db\<lparr>ad_tombstones := [t], ad_ledger := sample_ledger\<lparr>ld_coverage := [r']\<rparr>\<rparr>)
     \<and> promoted c sample_candidate r' \<and> expected_tombstone (sample_document p) c = Inr t"
proof -
  obtain r' where r': "expected_target_row (sample_env m) (sample_document p) c sample_candidate = Inr r'" using sample_target_row [where m = m and p = p and c = c] by blast
  have "\<not> non_finite (JObj (sample_document p))" using exact_finite [OF sample_document_shape(1)] .
  then obtain t where t: "expected_tombstone (sample_document p) c = Inr t" by (simp add: expected_tombstone_def canonical_json_def Let_def del: non_finite.simps json_dumps.simps)
  have f: "ts_transition_id t = zero_digest" "ts_format t = transition_format" "ts_authority_domain t = transition_domain" "ts_publication_cutoff t = ''2024-01-31''"
    using t by (auto simp: expected_tombstone_def Let_def sample_document_facts object_of_def sample_body_facts str_value_def split: option.splits)
  have "is_sha256_digest zero_digest" by code_simp
  then have "insert_tombstone t [] = Inr [t]" using f by (simp add: insert_tombstone_def)
  then have "apply_cas (sample_env m) (sample_document p) [sample_candidate] c sample_authority_db
       = Inr ([r'], sample_authority_db\<lparr>ad_tombstones := [t], ad_ledger := sample_ledger\<lparr>ld_coverage := [r']\<rparr>\<rparr>)"
    using t r' by (simp add: apply_cas_def exchange_row_def ensure_def sample_authority_db_def)
  moreover have "promoted c sample_candidate r'" using target_row_Inr [OF r'] by (simp add: promoted_def)
  ultimately show ?thesis using t by blast
qed

lemma sample_post_state:
  assumes "coverage_policy_binding sample_receipt_env sample_authority ''fins_summary'' = Inr \<lparr>pb_policy_id = ''fins_summary'', pb_policy_version = ''collection-coverage/v3'', pb_policy_digest = p\<rparr>"
    and "promoted c sample_candidate r'" and t: "expected_tombstone (sample_document p) c = Inr t"
  shows "assert_post_apply_state sample_receipt_env sample_authority sample_transition_input (sample_document p) [sample_candidate] [r'] c
    (sample_authority_db\<lparr>ad_tombstones := [t], ad_ledger := sample_ledger\<lparr>ld_coverage := [r']\<rparr>\<rparr>) = Inr ()"
proof -
  let ?m = "\<lparr>rv_schema_ok = (\<lambda>d. has_key d ''version'')\<rparr>" and ?db = "sample_authority_db\<lparr>ad_tombstones := [t], ad_ledger := sample_ledger\<lparr>ld_coverage := [r']\<rparr>\<rparr>"
  let ?set = "(''collection-coverage/v3'', zero_digest, [\<lparr>pb_policy_id = ''fins_summary'', pb_policy_version = ''collection-coverage/v3'', pb_policy_digest = p\<rparr>])"
  note env = sample_receipt_env_def
  have "ar_dataset r' = ''fins_summary''" using promoted_fields [OF assms(2)] by (simp add: sample_candidate_fields)
  then have sel: "selected_rows (ad_ledger ?db) [''fins_summary''] = [r']" by (simp add: selected_rows_def)
  obtain v i b where v: "verify_exact_coverage_complete sample_receipt_env sample_authority (coverage_db.truncate (ad_ledger ?db)) [''fins_summary''] ''2024-01-31'' = Inr v"
      "complete_eligible v" "iv_expected_identities (cv_inventory v) = [i]" "cv_closures v = [sample_closure]" "persisted_segment_identity b sample_segment_row = Inr i"
    using sample_verified [of "[r']"] by auto
  have e: "reverify_evidence sample_receipt_env sample_authority ?db [''fins_summary''] ''2024-01-31'' = Inr v"
    using v(1,2) by (simp add: reverify_evidence_def complete_eligible_def ensure_def)
  have ps: "coverage_policy_set_binding sample_receipt_env sample_authority [''fins_summary''] = Inr ?set" unfolding env by (rule sample_policy_set) (use assms(1) in \<open>simp add: env\<close>)
  have "policy_set_json ?set = dict_get (sample_transition_body p) ''coverage_policy_set''"
    by (simp add: policy_set_json_def binding_json_def sample_transition_body_def sample_derived_def dict_get_def)
  moreover have "exact_json (policy_set_json ?set)" by (simp add: policy_set_json_def binding_json_def)
  ultimately have pe: "py_eq (policy_set_json ?set) (dict_get (sample_transition_body p) ''coverage_policy_set'')" using py_eq_refl by metis
  have pb: "publication_binding sample_receipt_env sample_transition_input ?db ''build-1'' ''collection-coverage/v3'' = Inr (''2024-01-31'', sample_publication)"
    unfolding env by (rule sample_bound) simp_all
  have sch: "ad_schema ?db = sample_schema" "as_update_barrier sample_schema" "as_delete_barrier sample_schema" by (simp_all add: sample_authority_db_def sample_schema_def)
  have "filter (claims_transition (sample_document p)) (ad_tombstones ?db) = [t]" using expected_tombstone_evidence(2) [OF t] by simp
  then show ?thesis
    using sel e ps pe pb sch t sample_rows_digest [where m = ?m] sample_digested [where m = ?m, OF v(3-5)] sample_schema_ok
    by (simp add: assert_post_apply_state_def sample_document_facts object_of_def sample_body_facts sample_normalized ensure_def lift_gate_def str_value_def env Let_def num_value_def)
qed

lemma sample_applied_parts:
  "\<exists>p db' res r'. apply_signed_coverage_transition sample_receipt_env sample_authority sample_transition_input (JObj (sample_document p)) sample_authority_db = Inr (db', res)
    \<and> r' \<in> set (ld_coverage (ad_ledger db')) \<and> promoted (iso_utc (sample_time 6)) sample_candidate r'"
proof -
  obtain p where p: "coverage_policy_binding sample_receipt_env sample_authority ''fins_summary''
      = Inr \<lparr>pb_policy_id = ''fins_summary'', pb_policy_version = ''collection-coverage/v3'', pb_policy_digest = p\<rparr>" using sample_binding by blast
  let ?c = "iso_utc (sample_time 6)"
  obtain t r' where c: "apply_cas sample_receipt_env (sample_document p) [sample_candidate] ?c sample_authority_db
       = Inr ([r'], sample_authority_db\<lparr>ad_tombstones := [t], ad_ledger := sample_ledger\<lparr>ld_coverage := [r']\<rparr>\<rparr>)"
      "promoted ?c sample_candidate r'" "expected_tombstone (sample_document p) ?c = Inr t"
    using sample_exchanged [where m = "\<lparr>rv_schema_ok = (\<lambda>d. has_key d ''version'')\<rparr>" and p = p and c = ?c] unfolding sample_receipt_env_def by blast
  have o: "observe_authorization_time sample_transition_input 1 (sample_time 1) (sample_time 15) (Some (sample_time 5)) st w = Inr (sample_time 6)"
      "observe_authorization_time sample_transition_input 2 (sample_time 1) (sample_time 15) (Some (sample_time 6)) st w = Inr (sample_time 7)" for st w
    by (simp_all add: observe_authorization_time_def sample_transition_input_def sample_time_ok ensure_def)
  have m: "(sample_time 6)\<lparr>microsecond := 0\<rparr> = sample_time 6" by (simp add: sample_time_def)
  have a: "authorize sample_receipt_env sample_transition_input (JObj (sample_document p)) = Inr (sample_document p, sample_time 1, sample_time 15, sample_time 5)"
    unfolding sample_receipt_env_def by (rule sample_authorized)
  have i: "ti_open_error sample_transition_input = None" "ti_path_identity sample_transition_input n = Inr ()" for n by (simp_all add: sample_transition_input_def)
  show ?thesis
    using a i sample_live [OF p] o m c(1) sample_post_state [OF p c(2,3)]
    by (intro exI [of _ p]) (use c(2) in \<open>simp add: apply_signed_coverage_transition_def ensure_def Let_def del: One_nat_def\<close>)
qed

lemma sample_applied:
  "\<exists>p db' res. apply_signed_coverage_transition sample_receipt_env sample_authority sample_transition_input (JObj (sample_document p)) sample_authority_db = Inr (db', res)"
  using sample_applied_parts by blast

lemma sample_promoted:
  "\<exists>p db' r'. fold (authority_step sample_receipt_env sample_authority) [Transition sample_transition_input (JObj (sample_document p))] sample_authority_db = db'
    \<and> r' \<in> set (ld_coverage (ad_ledger db')) \<and> promoted (iso_utc (sample_time 6)) sample_candidate r'"
proof -
  obtain p db' res r' where "apply_signed_coverage_transition sample_receipt_env sample_authority sample_transition_input (JObj (sample_document p)) sample_authority_db = Inr (db', res)"
      "r' \<in> set (ld_coverage (ad_ledger db'))" "promoted (iso_utc (sample_time 6)) sample_candidate r'" using sample_applied_parts by blast
  moreover from this(1) have "fold (authority_step sample_receipt_env sample_authority) [Transition sample_transition_input (JObj (sample_document p))] sample_authority_db = db'"
    by (simp add: authority_step_def)
  ultimately show ?thesis by blast
qed

subsection \<open>Properties of transitions\<close>

text \<open>C14: Only the authority promotes. A transition that is applied was signed, over its exact body, by the only active key of the pinned
  registry of the environment it names; it lives at most fifteen minutes, and the three readings of the clock, at verification, at
  the exchange and before the commit, do not go back and lie within its life; and it names the digest of the database file.\<close>

theorem transition_needs_authority:
  assumes "apply_signed_coverage_transition env au ti doc db = Inr (db', res)"
  shows "authorized env (ti_registry_file ti) (ti_environment ti) doc
    \<and> (\<exists>issued expires. parse_utc_z (dict_get (doc_body doc) ''issued_at'') ''issued_at'' = Inr issued
        \<and> parse_utc_z (dict_get (doc_body doc) ''expires_at'') ''expires_at'' = Inr expires
        \<and> micros issued \<le> micros (ti_clock ti 0) \<and> micros (ti_clock ti 0) \<le> micros (ti_clock ti 1) \<and> micros (ti_clock ti 1) \<le> micros (ti_clock ti 2)
        \<and> micros (ti_clock ti 2) \<le> micros expires \<and> micros expires \<le> micros issued + 15 * 60 * 1000000)
    \<and> (\<exists>content. ti_file_digest ti = Inr content \<and> dict_get (object_of (dict_get (doc_body doc) ''resource_identity'')) ''governed_db_content_digest'' = JStr content)"
proof -
  obtain issued expires active where a: "authorize env ti doc = Inr (object_of doc, issued, expires, ti_clock ti 0)"
      and l: "check_live_state env au ti (object_of doc) db = Inr active"
      and t: "micros (ti_clock ti 0) \<le> micros (ti_clock ti 1)" "micros (ti_clock ti 1) \<le> micros (ti_clock ti 2)" "micros (ti_clock ti 2) \<le> micros expires"
    using assms by (rule apply_facts)
  note f = authorize_facts [OF a, folded doc_body_def]
  have "\<exists>content. ti_file_digest ti = Inr content \<and> JStr content = dict_get (object_of (dict_get (doc_body doc) ''resource_identity'')) ''governed_db_content_digest''"
    using l unfolding doc_body_def by (rule check_live_facts) auto
  moreover have "micros expires \<le> micros issued + 15 * 60 * 1000000" using f(3) by (auto simp: lifetime_ok_def max_authorization_seconds_def)
  ultimately show ?thesis using f t by metis
qed

theorem transition_needs_authority_witness:
  "\<exists>p. is_ok (apply_signed_coverage_transition sample_receipt_env sample_authority sample_transition_input (JObj (sample_document p)) sample_authority_db)
    \<and> authorized sample_receipt_env (ti_registry_file sample_transition_input) ''production'' (JObj (sample_document p))"
proof -
  obtain p db' res where a: "apply_signed_coverage_transition sample_receipt_env sample_authority sample_transition_input (JObj (sample_document p)) sample_authority_db = Inr (db', res)"
    using sample_applied by blast
  moreover have "ti_environment sample_transition_input = ''production''" by (simp add: sample_transition_input_def)
  ultimately show ?thesis using transition_needs_authority [OF a] by (auto simp only: is_ok_iff)
qed

text \<open>C15: The exchange is exact. An applied transition replays the inventory and the receipts of all its datasets, which are exact and verify;
  every row it replaces was the computed candidate that a refresh left \<open>PARTIAL\<close>, and becomes \<open>COMPLETE\<close> with only its
  evidence columns changed; rows of other datasets, segments and receipts stay as they are; and one tombstone with the whole signed
  document is added.\<close>

theorem transition_exact_exchange:
  assumes "apply_signed_coverage_transition env au ti doc db = Inr (db', res)"
  shows "\<exists>datasets active t. replayed env au (ad_ledger db) (doc_body doc) datasets active \<and> map ar_dataset active = datasets
    \<and> list_all2 (promoted (iso_utc ((ti_clock ti 1)\<lparr>microsecond := 0\<rparr>))) active (selected_rows (ad_ledger db') datasets)
    \<and> (\<forall>r. ar_dataset r \<notin> set datasets \<longrightarrow> (r \<in> set (ld_coverage (ad_ledger db')) \<longleftrightarrow> r \<in> set (ld_coverage (ad_ledger db))))
    \<and> db_segments (ad_ledger db') = db_segments (ad_ledger db) \<and> db_receipts (ad_ledger db') = db_receipts (ad_ledger db)
    \<and> ad_tombstones db' = ad_tombstones db @ [t] \<and> ts_signed_evidence_json t = json_dumps doc"
proof -
  let ?c = "iso_utc ((ti_clock ti 1)\<lparr>microsecond := 0\<rparr>)"
  obtain issued expires active es where a: "authorize env ti doc = Inr (object_of doc, issued, expires, ti_clock ti 0)"
      and l: "check_live_state env au ti (object_of doc) db = Inr active" and c: "apply_cas env (object_of doc) active ?c db = Inr (es, db')"
      and p: "assert_post_apply_state env au ti (object_of doc) active es ?c db' = Inr ()"
    using assms by (rule apply_facts)
  obtain datasets where r: "replayed env au (ad_ledger db) (doc_body doc) datasets active" using l unfolding doc_body_def by (rule check_live_facts)
  have nd: "normalize_datasets (dict_get (doc_body doc) ''datasets'') = Inr datasets" and ra: "read_active_rows env au (ad_ledger db) datasets = Inr active"
    using r by (simp_all add: replayed_def)
  have sel: "selected_rows (ad_ledger db') datasets = es"
    using p nd by (auto simp: assert_post_apply_state_def Let_def bind_res_Inr_iff doc_body_def)
  obtain t where t: "expected_tombstone (object_of doc) ?c = Inr t" "ad_tombstones db' = ad_tombstones db @ [t]"
      and tr: "coverage_db.truncate (ad_ledger db') = coverage_db.truncate (ad_ledger db)" and pr: "list_all2 (promoted ?c) active es"
      and rows: "\<forall>x \<in> set (ld_coverage (ad_ledger db')). x \<in> set (ld_coverage (ad_ledger db)) \<or> x \<in> set es"
        "\<forall>x \<in> set (ld_coverage (ad_ledger db)). x \<notin> set active \<longrightarrow> x \<in> set (ld_coverage (ad_ledger db'))"
    using c by (rule apply_cas_facts)
  have ds: "map ar_dataset active = datasets" using read_active_facts(2) [OF ra] .
  have in_ds: "ar_dataset x \<in> set datasets" if "x \<in> set es \<or> x \<in> set active" for x
    using that list_all2_in_right [OF pr] promoted_fields unfolding ds [symmetric] set_map by (metis image_eqI)
  have ev: "ts_signed_evidence_json t = json_dumps doc"
    using expected_tombstone_evidence(1) [OF t(1)] authorized_object [OF authorize_facts(2) [OF a]] by metis
  have "r \<in> set (ld_coverage (ad_ledger db')) \<longleftrightarrow> r \<in> set (ld_coverage (ad_ledger db))" if "ar_dataset r \<notin> set datasets" for r
    using rows in_ds that by blast
  then show ?thesis using r ds pr sel tr t(2) ev by (auto simp: coverage_db.truncate_def)
qed

theorem transition_exact_exchange_witness:
  "\<exists>p db' res. apply_signed_coverage_transition sample_receipt_env sample_authority sample_transition_input (JObj (sample_document p)) sample_authority_db = Inr (db', res)
    \<and> length (ad_tombstones db') = 1 \<and> db_segments (ad_ledger db') = [sample_segment_row]"
proof -
  obtain p db' res where a: "apply_signed_coverage_transition sample_receipt_env sample_authority sample_transition_input (JObj (sample_document p)) sample_authority_db = Inr (db', res)"
    using sample_applied by blast
  obtain t where "ad_tombstones db' = ad_tombstones sample_authority_db @ [t]" "db_segments (ad_ledger db') = db_segments (ad_ledger sample_authority_db)"
    using transition_exact_exchange [OF a] by blast
  then have "length (ad_tombstones db') = 1 \<and> db_segments (ad_ledger db') = [sample_segment_row]" by (simp add: sample_authority_db_def sample_ledger_def)
  then show ?thesis using a by blast
qed

text \<open>C13: Every \<open>COMPLETE\<close> is traced. Along every sequence of receipts, plans, persisted refreshes, updates, refreshes,
  re-aggregations and signed transitions, with whatever arguments and publication states and whether they raise or not, an aggregate that is
  \<open>COMPLETE\<close> at the end was \<open>COMPLETE\<close> under the same policy version at the start, or a tombstone added on the way holds an
  authorized document that names its dataset, under the current version of its policy. No other operation mints it.\<close>

theorem complete_traced_to_transition:
  assumes "r \<in> set (ld_coverage (ad_ledger (fold (authority_step env au) ops db)))" "ar_status r = ''COMPLETE''"
  shows "(\<exists>r0 \<in> set (ld_coverage (ad_ledger db)). ar_dataset r0 = ar_dataset r \<and> ar_policy_version r0 = ar_policy_version r \<and> ar_status r0 = ''COMPLETE'')
    \<or> (\<exists>ts. ad_tombstones (fold (authority_step env au) ops db) = ad_tombstones db @ ts \<and> (\<exists>t \<in> set ts. covered_by env au t (ar_dataset r) (ar_policy_version r)))"
proof -
  let ?C = "{(ar_dataset r, ar_policy_version r) |r. r \<in> set (ld_coverage (ad_ledger db)) \<and> ar_status r = ''COMPLETE''}"
  have start: "traced env au (ad_tombstones db) ?C db" by (auto simp: traced_def complete_within_def)
  have "traced env au (ad_tombstones db) ?C (fold (authority_step env au) ops db)"
    by (rule authority_steps.run_inv) (simp_all add: start)
  then obtain ts where ts: "ad_tombstones (fold (authority_step env au) ops db) = ad_tombstones db @ ts"
      "complete_within (?C \<union> minted env au ts) (ad_ledger (fold (authority_step env au) ops db))"
    unfolding traced_def by blast
  have "(ar_dataset r, ar_policy_version r) \<in> ?C \<union> minted env au ts" using ts(2) assms by (simp only: complete_within_def)
  then show ?thesis
  proof
    assume "(ar_dataset r, ar_policy_version r) \<in> ?C"
    then show ?thesis by force
  next
    assume "(ar_dataset r, ar_policy_version r) \<in> minted env au ts"
    then show ?thesis using ts(1) by (auto simp: minted_def)
  qed
qed

theorem complete_traced_to_transition_witness:
  "\<exists>p db' t. fold (authority_step sample_receipt_env sample_authority) [Transition sample_transition_input (JObj (sample_document p))] sample_authority_db = db'
    \<and> t \<in> set (ad_tombstones db') \<and> covered_by sample_receipt_env sample_authority t ''fins_summary'' ''collection-coverage/v3''"
proof -
  obtain p db' r' where a: "fold (authority_step sample_receipt_env sample_authority) [Transition sample_transition_input (JObj (sample_document p))] sample_authority_db = db'"
      and r: "r' \<in> set (ld_coverage (ad_ledger db'))" "promoted (iso_utc (sample_time 6)) sample_candidate r'"
    using sample_promoted by blast
  note f = promoted_fields [OF r(2)]
  have none: "\<not> (\<exists>r0 \<in> set (ld_coverage (ad_ledger sample_authority_db)). ar_dataset r0 = ar_dataset r' \<and> ar_policy_version r0 = ar_policy_version r' \<and> ar_status r0 = ''COMPLETE'')"
    by (simp add: sample_authority_db_def sample_candidate_fields)
  have "r' \<in> set (ld_coverage (ad_ledger (fold (authority_step sample_receipt_env sample_authority) [Transition sample_transition_input (JObj (sample_document p))] sample_authority_db)))"
    using a r(1) by simp
  from complete_traced_to_transition [OF this] f none obtain ts t where "ad_tombstones db' = ad_tombstones sample_authority_db @ ts" "t \<in> set ts"
      "covered_by sample_receipt_env sample_authority t (ar_dataset r') (ar_policy_version r')" unfolding a by blast
  then show ?thesis using a f by (intro exI [of _ p] exI [of _ db'] exI [of _ t]) (simp add: sample_candidate_fields)
qed

text \<open>C16: A transition is consumed once. After it was applied, no later call, along every further sequence of operations and
  whatever the registry, the clock and the files are then, applies a document with its identifier, or one for the same build and set of datasets.\<close>

theorem transition_one_shot:
  assumes "apply_signed_coverage_transition env au ti doc db = Inr (db', res)"
    "dict_get (object_of doc') ''transition_id'' = dict_get (object_of doc) ''transition_id''
     \<or> dict_get (doc_body doc') ''build_id'' = dict_get (doc_body doc) ''build_id'' \<and> dict_get (doc_body doc') ''dataset_set_digest'' = dict_get (doc_body doc) ''dataset_set_digest''"
  shows "\<not> is_ok (apply_signed_coverage_transition env au ti' doc' (fold (authority_step env au) ops db'))"
proof -
  obtain active es where c: "apply_cas env (object_of doc) active (iso_utc ((ti_clock ti 1)\<lparr>microsecond := 0\<rparr>)) db = Inr (es, db')"
    using assms(1) by (rule apply_facts)
  obtain t where t: "expected_tombstone (object_of doc) (iso_utc ((ti_clock ti 1)\<lparr>microsecond := 0\<rparr>)) = Inr t" "ad_tombstones db' = ad_tombstones db @ [t]"
    using c by (rule apply_cas_facts)
  have kept: "t \<in> set (ad_tombstones (fold (authority_step env au) ops db'))" by (rule tombstones_kept.run_inv) (simp_all add: t(2))
  have "ts_build_id t = str_value (dict_get (doc_body doc) ''build_id'')" "ts_dataset_set_digest t = str_value (dict_get (doc_body doc) ''dataset_set_digest'')"
    using t(1) by (auto simp: expected_tombstone_def Let_def doc_body_def split: option.splits)
  then have "claims_transition (object_of doc') t"
    using assms(2) expected_tombstone_evidence(3) [OF t(1)] by (auto simp: claims_transition_def Let_def doc_body_def)
  then show ?thesis by (rule consumed_refused [OF kept])
qed

theorem transition_one_shot_witness:
  "\<exists>p db' res. apply_signed_coverage_transition sample_receipt_env sample_authority sample_transition_input (JObj (sample_document p)) sample_authority_db = Inr (db', res)
    \<and> \<not> is_ok (apply_signed_coverage_transition sample_receipt_env sample_authority sample_transition_input (JObj (sample_document p)) db')"
proof -
  obtain p db' res where a: "apply_signed_coverage_transition sample_receipt_env sample_authority sample_transition_input (JObj (sample_document p)) sample_authority_db = Inr (db', res)"
    using sample_applied by blast
  then show ?thesis using transition_one_shot [OF a, of "JObj (sample_document p)" sample_transition_input "[]"] by auto
qed

end
