(* ===== verification/Backfill.thy ===== *)
theory Backfill
  imports CoverageGate
begin

section \<open>Backfill planning\<close>

text \<open>
  \<open>packages/data_plane/ops/backfill_planner.py\<close>: jobs for the required segments that are not \<open>COMPLETE\<close> yet, clipped to the
  requested range and the subscription floor and cut into chunks, and the mapping of a worker's answer to the state of its job.
  The coverage contracts, the capability registry, the document of the endpoint file, the rows of \<open>coverage_segments\<close> and the
  two readings of the clock are arguments. \<open>py_str\<close> is \<open>str\<close> of a value that is not a string.
\<close>

datatype bf_error =
    BfValueError string
  | BfKeyError string
  | BfTypeError string
  | BfAttributeError string
  | BfOverflowError
  | BfOSError

type_synonym 'a bf = "(bf_error, 'a) result"

subsection \<open>Constants\<close>

definition plan_version :: string where "plan_version = ''backfill-plan/v1''"

definition subscription_floor :: date where "subscription_floor = Date 2006 8 19"

definition job_priority :: "(string \<times> int) list" where
  "job_priority =
     [(''markets_calendar'', 10), (''indices_bars_daily_topix'', 20), (''equities_bars_daily'', 30), (''equities_master'', 40), (''indices_bars_daily'', 50),
      (''equities_investor_types'', 60), (''equities_earnings_calendar'', 61), (''fins_summary'', 70), (''fins_details'', 71), (''fins_dividend'', 72),
      (''fins_earnings_date'', 73), (''markets_margin_interest'', 80), (''markets_margin_alert'', 81), (''markets_short_ratio'', 82),
      (''markets_short_sale_report'', 83), (''markets_breakdown'', 84), (''edinet_major_shareholders'', 90), (''edinet_cross_shareholdings'', 91),
      (''edinet_large_volume_shareholders'', 92), (''derivatives_bars_daily_futures'', 100), (''derivatives_bars_daily_options_225'', 101),
      (''derivatives_bars_daily_options'', 102), (''equities_bars_daily_am'', 110)]"

definition priority_of :: "string \<Rightarrow> int \<Rightarrow> int" where
  "priority_of ds fallback = (case map_of job_priority ds of None \<Rightarrow> fallback | Some n \<Rightarrow> n)"

definition official_domain_scope_keys :: "string list" where
  "official_domain_scope_keys = [''earliest_official_availability'', ''official_domain'', ''admit_historical_required_segments'']"

subsection \<open>Dates\<close>

definition bf_parse_date :: "string \<Rightarrow> date bf" where
  "bf_parse_date s = (case fromisoformat (take 10 s) of None \<Rightarrow> Inl (BfValueError ''Invalid isoformat string'') | Some d \<Rightarrow> Inr d)"

text \<open>A measure that every next day lowers.\<close>

definition days_left :: "date \<Rightarrow> nat" where
  "days_left d = (9999 - year_of d) * 372 + (12 - month_of d) * 31 + (31 - day_of d)"

lemma days_left_next: "next_day d = Some e \<Longrightarrow> days_left e < days_left d"
proof (cases d)
  case (Date y m k)
  assume n: "next_day d = Some e"
  have "k < days_in_month y m \<Longrightarrow> k < 31" using days_in_month_bounds(3) [of y m] by linarith
  then show ?thesis using n Date by (auto simp: next_day_def days_left_def split: if_splits)
qed

lemma days_left_add: "add_days d n = Some e \<Longrightarrow> days_left e \<le> days_left d"
proof (induction n arbitrary: d)
  case (Suc n)
  then obtain c where "next_day d = Some c" "add_days c n = Some e" by (auto split: option.splits)
  then show ?case using Suc.IH days_left_next by fastforce
qed simp

text \<open>The loop of \<open>_week_chunks\<close>; adding days past the last date raises.\<close>

function chunk_loop :: "nat \<Rightarrow> date \<Rightarrow> date \<Rightarrow> (date \<times> date) list bf" where
  "chunk_loop step cur end' =
     (if cur \<le> end' then
        (case add_days cur (step - 1) of
           None \<Rightarrow> Inl BfOverflowError
         | Some e \<Rightarrow>
             (case next_day (min e end') of
                None \<Rightarrow> Inl BfOverflowError
              | Some c \<Rightarrow> bind_res (chunk_loop step c end') (\<lambda>rest. Inr ((cur, min e end') # rest))))
      else Inr [])"
  by pat_completeness auto

termination
proof (relation "measures [\<lambda>(n, c, e). if e < c then 0 else 1, \<lambda>(n, c, e). days_left c]", goal_cases)
  case (2 step cur end' e c)
  show ?case
  proof (cases "end' \<le> e")
    case True
    then have "end' < c" using 2 next_day_greater [of end' c] by (simp add: min_absorb2)
    then show ?thesis using 2(1) by (simp add: leD)
  next
    case False
    then have "next_day e = Some c" using 2(3) by (simp add: min_absorb1)
    then have "days_left c < days_left cur" using days_left_next days_left_add [OF 2(2)] by fastforce
    then show ?thesis using 2(1) by (simp add: leD)
  qed
qed simp

declare chunk_loop.simps [simp del]

definition week_chunks :: "date \<Rightarrow> date \<Rightarrow> int \<Rightarrow> (date \<times> date) list bf" where
  "week_chunks start end' days = (if end' < start then Inr [] else chunk_loop (nat (max 1 days)) start end')"

subsection \<open>Printing\<close>

text \<open>\<open>json.dumps\<close> with its default separators, with and without sorted keys.\<close>

fun json_text :: "bool \<Rightarrow> json \<Rightarrow> string" where
  "json_text s (JArr vs) = CHR ''['' # intercalate '', '' (map (json_text s) vs) @ '']''"
| "json_text s (JObj ps) =
     (let qs = map (\<lambda>(k, v). (k, json_text s v)) ps in
      CHR ''{'' # intercalate '', '' (map (\<lambda>(k, t). dump_string k @ '': '' @ t) (if s then sort_key fst qs else qs)) @ ''}'')"
| "json_text s v = json_dumps v"

definition py_lower :: "string \<Rightarrow> string" where
  "py_lower s = map (\<lambda>c. let n = (of_char c :: nat) in if 65 \<le> n \<and> n \<le> 90 \<or> 192 \<le> n \<and> n \<le> 222 \<and> n \<noteq> 215 then char_of (n + 32) else c) s"

definition repr_char :: "char \<Rightarrow> char \<Rightarrow> string" where
  "repr_char q c =
     (let n = (of_char c :: nat) in
      if c = q \<or> n = 92 then [char_of (92 :: nat), c]
      else if n = 10 then char_of (92 :: nat) # ''n'' else if n = 13 then char_of (92 :: nat) # ''r'' else if n = 9 then char_of (92 :: nat) # ''t''
      else if n < 32 \<or> 127 \<le> n \<and> n \<le> 160 \<or> n = 173 then char_of (92 :: nat) # ''x'' @ [hex_char (n div 16), hex_char (n mod 16)]
      else [c])"

definition repr_str :: "string \<Rightarrow> string" where
  "repr_str s = (let q = (if char_of (39 :: nat) \<in> set s \<and> char_of (34 :: nat) \<notin> set s then char_of (34 :: nat) else char_of (39 :: nat)) in q # concat (map (repr_char q) s) @ [q])"

subsection \<open>Endpoints\<close>

record endpoint_capability =
  ep_dataset_id :: string
  ep_path :: string
  ep_date_mode :: string
  ep_params :: "string list"
  ep_source :: string

text \<open>Iterating a JSON value: an array its items, an object its keys, a string its characters.\<close>

definition json_iter :: "json \<Rightarrow> json list bf" where
  "json_iter v =
     (case v of
        JArr vs \<Rightarrow> Inr vs
      | JObj ps \<Rightarrow> Inr (map (JStr \<circ> fst) ps)
      | JStr s \<Rightarrow> Inr (map (\<lambda>c. JStr [c]) s)
      | _ \<Rightarrow> Inl (BfTypeError ''object is not iterable''))"

definition endpoint_row :: "(json \<Rightarrow> string) \<Rightarrow> json \<Rightarrow> endpoint_capability bf" where
  "endpoint_row py_str row =
     (case row of
        JObj d \<Rightarrow>
          (case map_of d ''dataset_id'' of
             None \<Rightarrow> Inl (BfKeyError ''dataset_id'')
           | Some ds \<Rightarrow>
               (case map_of d ''path'' of
                  None \<Rightarrow> Inl (BfKeyError ''path'')
                | Some path \<Rightarrow>
                    let mode = dict_get d ''date_mode''; params = dict_get d ''params'' in
                    bind_res (if json_truthy params then json_iter params else Inr []) (\<lambda>ps.
                      Inr \<lparr>ep_dataset_id = str_of py_str ds, ep_path = str_of py_str path,
                           ep_date_mode = (if json_truthy mode then str_of py_str mode else ''today''), ep_params = map (str_of py_str) ps, ep_source = ''jquants''\<rparr>)))
      | _ \<Rightarrow> Inl (BfTypeError ''indices must be integers''))"

definition load_premium_endpoint_capabilities :: "(json \<Rightarrow> string) \<Rightarrow> json \<Rightarrow> (string \<times> endpoint_capability) list bf" where
  "load_premium_endpoint_capabilities py_str doc =
     (case doc of
        JObj d \<Rightarrow>
          bind_res (if json_truthy (dict_get d ''datasets'') then json_iter (dict_get d ''datasets'') else Inr []) (\<lambda>rows.
          bind_res (map_res (endpoint_row py_str) rows) (\<lambda>eps. Inr (fold (\<lambda>e. AList.update (ep_dataset_id e) e) eps [])))
      | _ \<Rightarrow> Inl (BfAttributeError ''get''))"

subsection \<open>Jobs\<close>

record backfill_job =
  bj_dataset :: string
  bj_source :: string
  bj_segment_id :: string
  bj_from :: string
  bj_to :: string
  bj_query_mode :: string
  bj_priority :: int
  bj_attempt :: int
  bj_state :: string
  bj_expected_evidence :: string
  bj_contract_digest :: string
  bj_reason_code :: string
  bj_detail :: string

definition job_dict :: "backfill_job \<Rightarrow> dict" where
  "job_dict j =
     [(''dataset'', JStr (bj_dataset j)), (''source'', JStr (bj_source j)), (''segment_id'', JStr (bj_segment_id j)), (''requested_from'', JStr (bj_from j)),
      (''requested_to'', JStr (bj_to j)), (''endpoint_query_mode'', JStr (bj_query_mode j)), (''priority'', JInt (bj_priority j)), (''attempt'', JInt (bj_attempt j)),
      (''state'', JStr (bj_state j)), (''expected_evidence'', JStr (bj_expected_evidence j)), (''contract_digest'', JStr (bj_contract_digest j)),
      (''reason_code'', JStr (bj_reason_code j)), (''detail'', JStr (bj_detail j))]"

definition set_state :: "string \<Rightarrow> string \<Rightarrow> string \<Rightarrow> backfill_job \<Rightarrow> backfill_job" where
  "set_state state reason detail j = j\<lparr>bj_state := state, bj_reason_code := reason, bj_detail := detail\<rparr>"

text \<open>\<open>failures[:3]\<close> printed with \<open>default=str\<close>, which JSON values never need.\<close>

definition failures_text :: "json \<Rightarrow> string bf" where
  "failures_text v =
     (case (if json_truthy v then v else JArr []) of
        JArr vs \<Rightarrow> Inr (take 500 (json_text False (JArr (take 3 vs))))
      | JStr s \<Rightarrow> Inr (take 500 (json_text False (JStr (take 3 s))))
      | _ \<Rightarrow> Inl (BfTypeError ''object is not subscriptable''))"

definition apply_worker_summary :: "(json \<Rightarrow> string) \<Rightarrow> dict \<Rightarrow> int \<Rightarrow> backfill_job \<Rightarrow> backfill_job bf" where
  "apply_worker_summary py_str summary http j =
     (if http = 429 then Inr (set_state ''retry'' ''http_429'' ''rate limited'' j)
      else if http = 401 then Inr (set_state ''fail'' ''auth'' (''HTTP '' @ int_str http) j)
      else if http = 403 then
        (let v = (if json_truthy (dict_get summary ''error'') then dict_get summary ''error''
                  else if json_truthy (dict_get summary ''detail'') then dict_get summary ''detail'' else JStr []);
             detail = str_of py_str v in
         if contains_sub detail ''edge_forbidden'' \<or> contains_sub (py_lower detail) ''html''
         then Inr (set_state ''retry'' ''http_429'' (take 300 detail) j)
         else Inr (set_state ''fail'' ''entitlement'' (''HTTP 403 '' @ take 200 detail) j))
      else if http \<noteq> 200 then Inr (set_state ''fail'' ''worker_error'' (''HTTP '' @ int_str http) j)
      else
        let st = dict_get summary ''status''; status = py_lower (if json_truthy st then str_of py_str st else []) in
        if status = ''pass'' then
          Inr (set_state ''pass'' ''ok'' (json_text True (JObj (map (\<lambda>k. (k, dict_get summary k)) [''passed'', ''failed'', ''rowsInserted'']))) j)
        else if status = ''partial'' then Inr (set_state ''partial'' ''source_empty'' ''worker reported partial'' j)
        else if status = ''fail'' then bind_res (failures_text (dict_get summary ''failures'')) (\<lambda>t. Inr (set_state ''fail'' ''worker_error'' t j))
        else Inr (set_state ''fail'' ''unknown'' (''unrecognized status '' @ repr_str status) j))"

record backfill_plan =
  bp_plan_version :: string
  bp_policy_version :: string
  bp_contract_digest :: string
  bp_cutoff :: string
  bp_created_at :: string
  bp_jobs :: "backfill_job list"

definition plan_dict :: "backfill_plan \<Rightarrow> dict" where
  "plan_dict p =
     [(''plan_version'', JStr (bp_plan_version p)), (''coverage_policy_version'', JStr (bp_policy_version p)), (''contract_digest'', JStr (bp_contract_digest p)),
      (''cutoff'', JStr (bp_cutoff p)), (''created_at'', JStr (bp_created_at p)), (''job_count'', JInt (int (length (bp_jobs p)))),
      (''jobs'', JArr (map (JObj \<circ> job_dict) (bp_jobs p)))]"

definition pending_jobs :: "backfill_plan \<Rightarrow> backfill_job list" where
  "pending_jobs p = filter (\<lambda>j. bj_state j \<in> set [''pending'', ''retry'']) (bp_jobs p)"

subsection \<open>The planner\<close>

text \<open>The arguments of \<open>BackfillPlanner\<close> and what it loads.\<close>

datatype coverage_table = NoDatabase | TableError | TableRows "segment_row list"

record planner =
  pl_cutoff :: date
  pl_sources :: "string list"
  pl_chunk_days :: int
  pl_prefer_month_chunks :: bool
  pl_endpoints :: "(string \<times> endpoint_capability) list"
  pl_contracts :: "coverage_contract list"
  pl_registry :: registry
  pl_policy_version :: string
  pl_segments :: coverage_table

definition is_governed_contract :: "coverage_contract \<Rightarrow> bool" where
  "is_governed_contract c \<longleftrightarrow> cc_governance_tier c = ''governed''"

definition bundle_row :: "coverage_contract \<Rightarrow> json" where
  "bundle_row c = JObj [(''dataset_id'', JStr (cc_dataset_id c)), (''history_target_start'', JStr (cc_history_target_start c)),
     (''segment_granularity'', JStr (cc_segment_granularity c)), (''coverage_mode'', JStr (cc_coverage_mode c))]"

definition contract_bundle_digest :: "('a crypto_env_scheme) \<Rightarrow> planner \<Rightarrow> string" where
  "contract_bundle_digest env pl =
     body_digest env (json_dumps (JObj [(''policy'', JStr (pl_policy_version pl)),
       (''datasets'', JArr (map bundle_row (filter is_governed_contract (pl_contracts pl))))]))"

definition read_complete_segments :: "coverage_table \<Rightarrow> string \<Rightarrow> string list" where
  "read_complete_segments segs ds =
     (case segs of NoDatabase \<Rightarrow> [] | TableError \<Rightarrow> [] | TableRows rows \<Rightarrow> map sg_segment_id (filter (\<lambda>r. sg_dataset r = ds \<and> sg_status r = ''COMPLETE'') rows))"

definition invented_official_domain_without_v3 :: "registry \<Rightarrow> string \<Rightarrow> dict \<Rightarrow> bool" where
  "invented_official_domain_without_v3 reg ds scope \<longleftrightarrow>
     source_capability_contract_or_none reg ds = None \<and> (\<exists>k \<in> set official_domain_scope_keys. has_key scope k)"

definition unplannable_job :: "planner \<Rightarrow> coverage_contract \<Rightarrow> string \<Rightarrow> string \<Rightarrow> string \<Rightarrow> string \<Rightarrow> string \<Rightarrow> backfill_job" where
  "unplannable_job pl cov digest mode reason detail evidence =
     \<lparr>bj_dataset = cc_dataset_id cov, bj_source = ''jquants'', bj_segment_id = ''UNPLANNABLE'', bj_from = cc_history_target_start cov,
      bj_to = isoformat (pl_cutoff pl), bj_query_mode = mode, bj_priority = priority_of (cc_dataset_id cov) 500, bj_attempt = 0, bj_state = ''fail'',
      bj_expected_evidence = evidence, bj_contract_digest = digest, bj_reason_code = reason, bj_detail = detail\<rparr>"

definition pending_job :: "coverage_contract \<Rightarrow> endpoint_capability \<Rightarrow> string \<Rightarrow> string \<Rightarrow> date \<times> date \<Rightarrow> backfill_job" where
  "pending_job cov ep digest sid ab =
     \<lparr>bj_dataset = cc_dataset_id cov, bj_source = ''jquants'', bj_segment_id = sid, bj_from = isoformat (fst ab), bj_to = isoformat (snd ab),
      bj_query_mode = ep_date_mode ep, bj_priority = priority_of (cc_dataset_id cov) 200, bj_attempt = 0, bj_state = ''pending'',
      bj_expected_evidence = ''raw_plus_structured_then_receipt'', bj_contract_digest = digest, bj_reason_code = ''ok'', bj_detail = []\<rparr>"

text \<open>The window of a segment within the filter and the subscription; nothing when it is empty.\<close>

definition clip_window :: "date option \<Rightarrow> date option \<Rightarrow> date \<Rightarrow> date \<Rightarrow> (date \<times> date) option" where
  "clip_window ff ft a0 b0 =
     (let a = (case ff of None \<Rightarrow> a0 | Some f \<Rightarrow> if f > a0 then f else a0);
          b = (case ft of None \<Rightarrow> b0 | Some t \<Rightarrow> if t < b0 then t else b0) in
      if a > b then None
      else if b < subscription_floor then None
      else let a' = (if a < subscription_floor then subscription_floor else a) in if a' > b then None else Some (a', b))"

definition segment_grain :: "coverage_contract \<Rightarrow> required_segment \<Rightarrow> json" where
  "segment_grain cov seg =
     (let g = dict_get (rs_expected_scope seg) ''segment_granularity'' in if json_truthy g then g else JStr (cc_segment_granularity cov))"

definition clip_chunk :: "date \<times> date \<Rightarrow> (date \<times> date) option" where
  "clip_chunk ab =
     (case ab of (ca, cb) \<Rightarrow>
        if cb < subscription_floor then None
        else let ca' = (if ca < subscription_floor then subscription_floor else ca) in if ca' > cb then None else Some (ca', cb))"

definition job_chunks :: "planner \<Rightarrow> coverage_contract \<Rightarrow> endpoint_capability \<Rightarrow> required_segment \<Rightarrow> date \<Rightarrow> date \<Rightarrow> (date \<times> date) list bf" where
  "job_chunks pl cov ep seg a b =
     (if \<not> pl_prefer_month_chunks pl \<and> ep_date_mode ep \<notin> set [''range'', ''none''] \<and> segment_grain cov seg = JStr ''calendar_month''
      then week_chunks a b (pl_chunk_days pl) else Inr [(a, b)])"

definition segment_jobs ::
    "planner \<Rightarrow> coverage_contract \<Rightarrow> endpoint_capability \<Rightarrow> string \<Rightarrow> string list \<Rightarrow> date option \<Rightarrow> date option \<Rightarrow> required_segment \<Rightarrow> backfill_job list bf" where
  "segment_jobs pl cov ep digest completed ff ft seg =
     (if rs_segment_id seg \<in> set completed then Inr []
      else bind_res (bf_parse_date (rs_segment_start seg)) (\<lambda>a0. bind_res (bf_parse_date (rs_segment_end seg)) (\<lambda>b0.
        case clip_window ff ft a0 b0 of
          None \<Rightarrow> Inr []
        | Some (a, b) \<Rightarrow>
            bind_res (job_chunks pl cov ep seg a b) (\<lambda>chunks.
              Inr (map (pending_job cov ep digest (rs_segment_id seg)) (List.map_filter clip_chunk chunks))))))"

definition jobs_from_required_segments ::
    "planner \<Rightarrow> coverage_contract \<Rightarrow> endpoint_capability \<Rightarrow> string \<Rightarrow> string list \<Rightarrow> date option \<Rightarrow> date option \<Rightarrow> string list \<Rightarrow> backfill_job list bf" where
  "jobs_from_required_segments pl cov ep digest completed ff ft index_days =
     (case plan_required_segments (pl_registry pl) cov (isoformat (pl_cutoff pl)) ''jquants'' None index_days None of
        Inl (PValueError _) \<Rightarrow> Inr []
      | Inl (PKeyError m) \<Rightarrow> Inl (BfKeyError m)
      | Inr required \<Rightarrow>
          if \<exists>seg \<in> set required. invented_official_domain_without_v3 (pl_registry pl) (cc_dataset_id cov) (rs_expected_scope seg)
          then Inr [unplannable_job pl cov digest (ep_date_mode ep) ''entitlement'' ''missing SourceCapability V3; refusing invented official domain'' ''source_capability_v3'']
          else bind_res (map_res (segment_jobs pl cov ep digest completed ff ft) required) (\<lambda>js. Inr (concat js)))"

definition allowed_datasets :: "string list \<Rightarrow> string list option" where
  "allowed_datasets ds =
     (let names = map strip (filter (\<lambda>d. d \<noteq> [] \<and> strip d \<noteq> []) ds) in if names = [] then None else Some names)"

definition planned_contract :: "planner \<Rightarrow> string list option \<Rightarrow> coverage_contract \<Rightarrow> bool" where
  "planned_contract pl allow cov \<longleftrightarrow>
     is_governed_contract cov \<and> \<not> startswith (cc_dataset_id cov) ''jsda_'' \<and> ''jquants'' \<in> set (pl_sources pl)
     \<and> (case allow of None \<Rightarrow> True | Some names \<Rightarrow> cc_dataset_id cov \<in> set names)"

definition contract_jobs :: "planner \<Rightarrow> string \<Rightarrow> date option \<Rightarrow> date option \<Rightarrow> string list \<Rightarrow> coverage_contract \<Rightarrow> backfill_job list bf" where
  "contract_jobs pl digest ff ft index_days cov =
     (case map_of (pl_endpoints pl) (cc_dataset_id cov) of
        None \<Rightarrow> Inr [unplannable_job pl cov digest ''missing'' ''entitlement'' ''missing premium endpoint capability'' ''endpoint_capability'']
      | Some ep \<Rightarrow> jobs_from_required_segments pl cov ep digest (read_complete_segments (pl_segments pl) (cc_dataset_id cov)) ff ft index_days)"

definition optional_date :: "string option \<Rightarrow> date option bf" where
  "optional_date s = (case s of None \<Rightarrow> Inr None | Some t \<Rightarrow> if t = [] then Inr None else bind_res (bf_parse_date t) (\<lambda>d. Inr (Some d)))"

definition job_key :: "backfill_job \<Rightarrow> int \<times> string \<times> string" where
  "job_key j = (bj_priority j, bj_dataset j, bj_from j)"

definition plan :: "('a crypto_env_scheme) \<Rightarrow> planner \<Rightarrow> string list \<Rightarrow> string option \<Rightarrow> string option \<Rightarrow> string list \<Rightarrow> string \<Rightarrow> backfill_plan bf" where
  "plan env pl datasets from_date to_date index_days now =
     (let digest = contract_bundle_digest env pl; allow = allowed_datasets datasets in
      bind_res (optional_date from_date) (\<lambda>ff.
      bind_res (optional_date to_date) (\<lambda>ft.
      bind_res (map_res (contract_jobs pl digest ff ft index_days) (filter (planned_contract pl allow) (pl_contracts pl))) (\<lambda>js.
        Inr \<lparr>bp_plan_version = plan_version, bp_policy_version = pl_policy_version pl, bp_contract_digest = digest, bp_cutoff = isoformat (pl_cutoff pl),
             bp_created_at = now, bp_jobs = sort_key job_key (concat js)\<rparr>))))"

text \<open>The default cutoff is the day before the first reading of the clock.\<close>

definition prev_day :: "date \<Rightarrow> date option" where
  "prev_day d =
     (if 1 < day_of d then Some (Date (year_of d) (month_of d) (day_of d - 1))
      else if 1 < month_of d then Some (last_of_month (Date (year_of d) (month_of d - 1) 1))
      else if 1 < year_of d then Some (Date (year_of d - 1) 12 31) else None)"

definition planner_cutoff :: "date option \<Rightarrow> date \<Rightarrow> date bf" where
  "planner_cutoff cutoff today =
     (case cutoff of Some d \<Rightarrow> Inr d
      | None \<Rightarrow> (case prev_day today of None \<Rightarrow> Inl BfOverflowError | Some d \<Rightarrow> Inr d))"

subsection \<open>Inventory\<close>

definition inventory_governed_jq_datasets :: "planner \<Rightarrow> string list" where
  "inventory_governed_jq_datasets pl = sort (map cc_dataset_id (filter (\<lambda>c. is_governed_contract c \<and> \<not> startswith (cc_dataset_id c) ''jsda_'') (pl_contracts pl)))"

definition inventory_all_governed_datasets :: "planner \<Rightarrow> string list" where
  "inventory_all_governed_datasets pl = sort (map cc_dataset_id (filter is_governed_contract (pl_contracts pl)))"

record status_row =
  bs_dataset :: string
  bs_source :: string
  bs_history_target_start :: string
  bs_required :: int
  bs_complete :: int
  bs_state :: string

definition status_of_counts :: "bool \<Rightarrow> int \<Rightarrow> int \<Rightarrow> string" where
  "status_of_counts jsda n c =
     (if n = 0 then (if jsda then ''CONTRACT_ADAPTER_OR_DISCOVERY_PENDING'' else ''PLANNING_MISSING'')
      else if c = n then ''COVERAGE_COMPLETE'' else if c > 0 then ''PARTIAL'' else ''DISCOVERY_INCOMPLETE'')"

definition status_row_of :: "coverage_table \<Rightarrow> coverage_contract \<Rightarrow> status_row" where
  "status_row_of segs cov =
     (let ds = cc_dataset_id cov; jsda = startswith ds ''jsda_'';
          row = (\<lambda>n c st. \<lparr>bs_dataset = ds, bs_source = (if jsda then ''jsda'' else ''jquants''), bs_history_target_start = cc_history_target_start cov,
            bs_required = n, bs_complete = c, bs_state = st\<rparr>) in
      case segs of
        NoDatabase \<Rightarrow> row 0 0 (status_of_counts jsda 0 0)
      | TableError \<Rightarrow> row 0 0 ''PLANNING_MISSING''
      | TableRows rs \<Rightarrow>
          let rows = filter (\<lambda>r. sg_dataset r = ds) rs; n = int (length rows); c = int (length (filter (\<lambda>r. sg_status r = ''COMPLETE'') rows)) in
          row n c (status_of_counts jsda n c))"

definition backfill_status_rows :: "planner \<Rightarrow> status_row list" where
  "backfill_status_rows pl = map (status_row_of (pl_segments pl)) (filter is_governed_contract (pl_contracts pl))"

subsection \<open>What a plan covers\<close>

lemma chunk_loop_tiles:
  assumes "chunk_loop step cur e = Inr sp" "valid_date cur" "valid_date e"
  shows "tiles cur e sp"
  using assms
proof (induction step cur e arbitrary: sp rule: chunk_loop.induct)
  case (1 step cur e)
  show ?case
  proof (cases "cur \<le> e")
    case True
    obtain x c rest where x: "add_days cur (step - 1) = Some x" "next_day (min x e) = Some c" "chunk_loop step c e = Inr rest" "sp = (cur, min x e) # rest"
      using "1.prems"(1) True by (auto simp: chunk_loop.simps [of step cur] bind_res_Inr_iff split: option.splits)
    have v: "valid_date (min x e)" using add_days_valid [OF "1.prems"(2) x(1)] "1.prems"(3) by (simp add: min_def)
    have "tiles c e rest" using "1.IH" [OF True x(1,2,3) valid_next_day [OF v x(2)] "1.prems"(3)] .
    then show ?thesis using x v True add_days_ge [OF x(1)] by simp
  next
    case False
    then show ?thesis using "1.prems"(1) by (auto simp: chunk_loop.simps [of step cur])
  qed
qed

lemma week_chunks_tiles: "week_chunks a b n = Inr sp \<Longrightarrow> valid_date a \<Longrightarrow> valid_date b \<Longrightarrow> tiles a b sp"
  by (auto simp: week_chunks_def chunk_loop_tiles split: if_splits)

lemma job_chunks_tiles:
  assumes "job_chunks pl cov ep seg a b = Inr sp" "valid_date a" "valid_date b" "a \<le> b"
  shows "tiles a b sp"
proof -
  have single: "tiles a b [(a, b)]" using assms(3,4) next_day_greater [of b] by (auto split: option.splits)
  have "sp = [(a, b)] \<or> week_chunks a b (pl_chunk_days pl) = Inr sp" using assms(1) by (auto simp: job_chunks_def simp del: list.set split: if_splits)
  then show ?thesis using single week_chunks_tiles [OF _ assms(2,3)] by metis
qed

definition in_range :: "date option \<Rightarrow> date option \<Rightarrow> date \<Rightarrow> bool" where
  "in_range ff ft d \<longleftrightarrow> subscription_floor \<le> d \<and> (case ff of None \<Rightarrow> True | Some f \<Rightarrow> f \<le> d) \<and> (case ft of None \<Rightarrow> True | Some t \<Rightarrow> d \<le> t)"

lemma floor_valid: "valid_date subscription_floor"
  by (simp add: subscription_floor_def valid_date_def days_in_month_def)

lemma clip_window_Some:
  assumes "clip_window ff ft a0 b0 = Some (a, b)"
  shows "subscription_floor \<le> a" "a \<le> b" "a0 \<le> d \<and> d \<le> b0 \<and> in_range ff ft d \<longleftrightarrow> a \<le> d \<and> d \<le> b"
    "a \<in> {a0, subscription_floor} \<union> set_option ff" "b \<in> {b0} \<union> set_option ft"
  using assms by (auto simp: clip_window_def Let_def in_range_def not_less split: if_splits option.splits)

lemma clip_window_None: "clip_window ff ft a0 b0 = None \<Longrightarrow> \<not> (a0 \<le> d \<and> d \<le> b0 \<and> in_range ff ft d)"
  by (auto simp: clip_window_def Let_def in_range_def split: if_splits option.splits)

definition job_covers :: "date \<Rightarrow> backfill_job \<Rightarrow> bool" where
  "job_covers d j \<longleftrightarrow> bj_from j \<le> isoformat d \<and> isoformat d \<le> bj_to j"

lemma clip_chunks_id:
  assumes "tiles a b sp" "subscription_floor \<le> a"
  shows "List.map_filter clip_chunk sp = sp"
proof -
  have "clip_chunk x = Some x" if "x \<in> set sp" for x
  proof (cases x)
    case (Pair c e)
    then have "a \<le> c \<and> c \<le> e" using tiles_bounds [OF assms(1)] that by blast
    then show ?thesis using Pair assms(2) by (auto simp: clip_chunk_def)
  qed
  then show ?thesis by (simp add: List.map_filter_def filter_id_conv cong: map_cong)
qed

lemma chunk_tiles_valid: "tiles s e sp \<Longrightarrow> valid_date s \<Longrightarrow> (a, b) \<in> set sp \<Longrightarrow> valid_date a \<and> valid_date b"
proof (induction s e sp rule: tiles.induct)
  case (2 s e a' b' r)
  then show ?case by (auto split: option.splits dest: valid_next_day)
qed simp

lemma pending_jobs_count:
  assumes "tiles a b sp" "valid_date a" "valid_date b" "valid_date d"
  shows "length (filter (job_covers d) (map (pending_job cov ep g sid) sp)) = (if a \<le> d \<and> d \<le> b then 1 else 0)"
proof -
  have "job_covers d (pending_job cov ep g sid x) \<longleftrightarrow> covers d x" if "x \<in> set sp" for x
    using chunk_tiles_valid [OF assms(1,2), of "fst x" "snd x"] that assms(4) by (simp add: job_covers_def pending_job_def covers_def isoformat_le_iff)
  then have "filter (job_covers d \<circ> pending_job cov ep g sid) sp = filter (covers d) sp" by (auto intro: filter_cong)
  then show ?thesis using tiles_cover_once [OF assms] by (simp add: filter_map)
qed

lemma segment_jobs_count:
  assumes "segment_jobs pl cov ep g completed ff ft seg = Inr js" "span_of seg (a0, b0)" "valid_date a0" "valid_date b0" "valid_date d"
    "\<forall>f \<in> set_option ff. valid_date f" "\<forall>t \<in> set_option ft. valid_date t"
  shows "length (filter (job_covers d) js) = (if rs_segment_id seg \<notin> set completed \<and> a0 \<le> d \<and> d \<le> b0 \<and> in_range ff ft d then 1 else 0)"
proof (cases "rs_segment_id seg \<in> set completed \<or> clip_window ff ft a0 b0 = None")
  case True
  have "bf_parse_date (rs_segment_start seg) = Inr a0" "bf_parse_date (rs_segment_end seg) = Inr b0"
    using assms(2-4) by (simp_all add: span_of_def bf_parse_date_def)
  then have "js = []" using True assms(1) by (auto simp: segment_jobs_def split: if_splits)
  then show ?thesis using True clip_window_None by auto
next
  case False
  then obtain a b where w: "clip_window ff ft a0 b0 = Some (a, b)" and n: "rs_segment_id seg \<notin> set completed" by auto
  note f = clip_window_Some [OF w]
  have v: "valid_date a" "valid_date b" using f(4,5) assms(3,4,6,7) floor_valid by auto
  have p: "bf_parse_date (rs_segment_start seg) = Inr a0" "bf_parse_date (rs_segment_end seg) = Inr b0"
    using assms(2-4) by (simp_all add: span_of_def bf_parse_date_def)
  obtain sp where sp: "job_chunks pl cov ep seg a b = Inr sp" "js = map (pending_job cov ep g (rs_segment_id seg)) (List.map_filter clip_chunk sp)"
    using assms(1) n p w by (auto simp: segment_jobs_def bind_res_Inr_iff)
  have tl: "tiles a b sp" using job_chunks_tiles [OF sp(1) v f(2)] .
  then show ?thesis using pending_jobs_count [OF tl v assms(5)] clip_chunks_id [OF tl f(1)] f(3) n sp(2) by simp
qed

lemma map_res_concat_count:
  assumes "map_res f xs = Inr ys" "\<And>x y. x \<in> set xs \<Longrightarrow> f x = Inr y \<Longrightarrow> length (filter P y) = (if Q x then 1 else 0)"
  shows "length (filter P (concat ys)) = length (filter Q xs)"
  using assms
proof (induction xs arbitrary: ys)
  case (Cons x xs)
  then show ?case by (fastforce simp: bind_res_Inr_iff split: sum.splits)
qed simp

text \<open>The planner's guard against an invented domain never fires: no scope of a planned segment has such a key.\<close>

definition appended :: "plan_context \<Rightarrow> required_segment \<Rightarrow> bool" where
  "appended px s \<longleftrightarrow> (\<exists>sid a b. append_segment px sid a b = Inr s)"

lemma appendedI [intro]: "append_segment px sid a b = Inr s \<Longrightarrow> appended px s"
  by (auto simp: appended_def)

lemma month_loop_appends: "month_loop px c e = Inr ss \<Longrightarrow> s \<in> set ss \<Longrightarrow> appended px s"
proof (induction px c e arbitrary: ss rule: month_loop.induct)
  case (1 px c e)
  show ?case
  proof (cases "c \<le> e")
    case True
    obtain x n rest where x: "append_segment px (month_id c) c (min (month_end c) e) = Inr x" "next_day (min (month_end c) e) = Some n"
        "month_loop px n e = Inr rest" "ss = x # rest"
      using "1.prems"(1) True by (auto simp: month_loop.simps [of px c] Let_def bind_res_Inr_iff split: option.splits)
    then show ?thesis using appendedI [OF x(1)] "1.IH" [OF True refl x(2,3)] "1.prems"(2) by auto
  next
    case False
    then show ?thesis using "1.prems" by (simp add: month_loop.simps [of px c])
  qed
qed

lemma day_loop_appends: "day_loop px c e = Inr ss \<Longrightarrow> s \<in> set ss \<Longrightarrow> appended px s"
proof (induction px c e arbitrary: ss rule: day_loop.induct)
  case (1 px c e)
  show ?case
  proof (cases "c \<le> e")
    case True
    obtain x n rest where x: "append_segment px (isoformat c) c c = Inr x" "next_day c = Some n" "day_loop px n e = Inr rest" "ss = x # rest"
      using "1.prems"(1) True by (auto simp: day_loop.simps [of px c] bind_res_Inr_iff split: option.splits)
    then show ?thesis using appendedI [OF x(1)] "1.IH" [OF True x(2,3)] "1.prems"(2) by auto
  next
    case False
    then show ?thesis using "1.prems" by (simp add: day_loop.simps [of px c])
  qed
qed

lemma year_loop_appends: "year_loop px a b ys = Inr ss \<Longrightarrow> s \<in> set ss \<Longrightarrow> appended px s"
  by (induction ys arbitrary: ss) (auto simp: bind_res_Inr_iff)

lemma index_loop_appends: "index_loop px a b ys = Inr ss \<Longrightarrow> s \<in> set ss \<Longrightarrow> appended px s"
  by (induction ys arbitrary: ss) (auto simp: bind_res_Inr_iff split: if_splits)

lemma expand_grain_appends:
  "expand_grain px od tip idx st en = Inr ss \<Longrightarrow> s \<in> set ss \<Longrightarrow> appended px s"
  by (auto simp: expand_grain_def Let_def bind_res_Inr_iff intro: month_loop_appends day_loop_appends year_loop_appends index_loop_appends split: if_splits)

lemma fold_update_keys: "fst ` set (fold (\<lambda>(k, v). AList.update k v) xs al) = fst ` set al \<union> fst ` set xs"
proof (induction xs arbitrary: al)
  case (Cons x xs)
  then show ?case by (cases x) (simp add: dom_update)
qed simp

lemma append_scope_keys:
  assumes "append_segment px sid a b = Inr s" "k \<in> set official_domain_scope_keys" "\<not> has_key (px_extra px) k"
  shows "\<not> has_key (rs_expected_scope s) k"
proof -
  let ?names = "[''coverage_mode'', ''expected_frequency'', ''expected_item_unit'', ''segment_end'', ''segment_start'', ''universe_rule'', ''segment_granularity'']"
  obtain base where base: "rs_expected_scope s = fold (\<lambda>(k, v). AList.update k v) (px_extra px) base" "map fst base = ?names"
    using assms(1) by (auto simp: append_segment_def Let_def split: if_splits)
  have "fst ` set (rs_expected_scope s) = set ?names \<union> fst ` set (px_extra px)" 
    using fold_update_keys [of "px_extra px" base] set_map [of fst base] unfolding base by argo
  moreover have "k \<notin> set ?names" using assms(2) by (auto simp: official_domain_scope_keys_def)
  ultimately show ?thesis using assms(3) unfolding has_key_def set_map by blast
qed

lemma plan_invents_nothing:
  assumes "plan_required_segments reg p te src ex idx rs = Inr segs" "s \<in> set segs"
  shows "\<not> invented_official_domain_without_v3 reg (cc_dataset_id p) (rs_expected_scope s)"
proof (cases "source_capability_contract_or_none reg (cc_dataset_id p)")
  case None
  let ?od = "official_domain_for None" let ?tip = "is_tip_snapshot_policy p ?od"
  let ?px = "\<lparr>px_policy = p, px_source = src, px_granularity = plan_grain p ?od ?tip,
      px_extra = (if ?tip then snapshot_extra_scope p None ?od (plan_grain p ?od ?tip) else []), px_expected = ex\<rparr>"
  obtain st en where x: "expand_grain ?px ?od ?tip idx st en = Inr segs"
    using assms(1) unfolding plan_required_segments_def Let_def bind_res_Inr_iff None if_error_Inr by blast
  then have "\<exists>px. expand_grain px ?od ?tip idx st en = Inr segs \<and> (px_extra px = [] \<or> (\<exists>g. px_extra px = snapshot_extra_scope p None ?od g))"
    by (intro exI [of _ ?px]) auto
  then obtain px where e: "expand_grain px ?od ?tip idx st en = Inr segs" "px_extra px = [] \<or> (\<exists>g. px_extra px = snapshot_extra_scope p None ?od g)" by blast
  have "\<not> has_key (px_extra px) k" if "k \<in> set official_domain_scope_keys" for k
    using e(2) that by (auto simp: snapshot_extra_scope_def Let_def has_key_def official_domain_scope_keys_def)
  then show ?thesis using expand_grain_appends [OF e(1) assms(2)] append_scope_keys by (auto simp: invented_official_domain_without_v3_def appended_def)
qed (simp add: invented_official_domain_without_v3_def)

lemma plan_spans:
  assumes "plan_required_segments reg p te src ex idx rs = Inr segs" "x \<in> set segs"
  shows "\<exists>a b. valid_date a \<and> valid_date b \<and> span_of x (a, b)"
proof -
  obtain st en px where pl: "effective_start reg p rs = Inr st" "fromisoformat te = Some en" "st \<le> en"
      "expand_grain px (official_domain_for (source_capability_contract_or_none reg (cc_dataset_id p)))
         (is_tip_snapshot_policy p (official_domain_for (source_capability_contract_or_none reg (cc_dataset_id p)))) idx st en = Inr segs"
    using plan_Inr [OF assms(1)] by metis
  then show ?thesis using expand_grain_within [OF pl(4) effective_start_ok(1) [OF pl(1)] fromisoformat_valid [OF pl(2)] pl(3) assms(2)] by blast
qed

definition segment_covers :: "date \<Rightarrow> required_segment \<Rightarrow> bool" where
  "segment_covers d s \<longleftrightarrow> rs_segment_start s \<le> isoformat d \<and> isoformat d \<le> rs_segment_end s"

lemma required_jobs_count:
  assumes "jobs_from_required_segments pl cov ep g completed ff ft idx = Inr js"
    "plan_required_segments (pl_registry pl) cov (isoformat (pl_cutoff pl)) ''jquants'' None idx None = Inr segs"
    "valid_date d" "\<forall>f \<in> set_option ff. valid_date f" "\<forall>t \<in> set_option ft. valid_date t"
  shows "length (filter (job_covers d) js) = (if in_range ff ft d then length (filter (\<lambda>s. segment_covers d s \<and> rs_segment_id s \<notin> set completed) segs) else 0)"
proof -
  obtain ys where ys: "map_res (segment_jobs pl cov ep g completed ff ft) segs = Inr ys" "js = concat ys"
    using assms(1,2) plan_invents_nothing [OF assms(2)] by (auto simp: jobs_from_required_segments_def bind_res_Inr_iff split: if_splits)
  have "length (filter (job_covers d) y) = (if segment_covers d s \<and> rs_segment_id s \<notin> set completed \<and> in_range ff ft d then 1 else 0)"
    if s: "s \<in> set segs" and y: "segment_jobs pl cov ep g completed ff ft s = Inr y" for s y
  proof -
    obtain a b where ab: "valid_date a" "valid_date b" "span_of s (a, b)" using plan_spans [OF assms(2) s] by blast
    have "segment_covers d s \<longleftrightarrow> a \<le> d \<and> d \<le> b" using ab assms(3) by (simp add: segment_covers_def span_of_def isoformat_le_iff)
    then show ?thesis using segment_jobs_count [OF y ab(3,1,2) assms(3-5)] by auto
  qed
  then show ?thesis using map_res_concat_count [OF ys(1)] ys(2) by (auto simp: filter_False)
qed
lemma optional_date_valid: "optional_date s = Inr m \<Longrightarrow> \<forall>d \<in> set_option m. valid_date d"
  by (auto simp: optional_date_def bf_parse_date_def dest: fromisoformat_valid split: option.splits if_splits)

lemma contract_jobs_dataset:
  assumes "contract_jobs pl g ff ft idx cov = Inr js" "j \<in> set js"
  shows "bj_dataset j = cc_dataset_id cov"
proof -
  have seg: "bj_dataset j = cc_dataset_id cov" if "segment_jobs pl cov ep g completed ff ft s = Inr y" "j \<in> set y" for ep completed s y j
    using that by (auto simp: segment_jobs_def pending_job_def bind_res_Inr_iff split: if_splits option.splits)
  have req: "bj_dataset j = cc_dataset_id cov" if "jobs_from_required_segments pl cov ep g completed ff ft idx = Inr js" for ep completed
    using that assms(2) seg map_res_Inr_set
    by (fastforce simp: jobs_from_required_segments_def unplannable_job_def bind_res_Inr_iff split: sum.splits plan_error.splits if_splits)
  show ?thesis using assms req by (auto simp: contract_jobs_def unplannable_job_def split: option.splits)
qed

text \<open>Among lists that carry their own dataset, only one list has the jobs of a dataset.\<close>

lemma count_own_jobs:
  assumes "map_res f covs = Inr js" "distinct (map cc_dataset_id covs)" "cov \<in> set covs" "f cov = Inr own"
    "\<And>c y j. c \<in> set covs \<Longrightarrow> f c = Inr y \<Longrightarrow> j \<in> set y \<Longrightarrow> bj_dataset j = cc_dataset_id c"
  shows "filter (\<lambda>j. bj_dataset j = cc_dataset_id cov) (concat js) = own"
  using assms
proof (induction covs arbitrary: js)
  case (Cons c covs)
  obtain y ys where y: "f c = Inr y" "map_res f covs = Inr ys" "js = y # ys" using Cons.prems(1) by (auto split: sum.splits)
  have own: "\<forall>j \<in> set y. bj_dataset j = cc_dataset_id c" using Cons.prems(5) y(1) by auto
  show ?case
  proof (cases "c = cov")
    case True
    have "\<forall>j \<in> set (concat ys). bj_dataset j \<noteq> cc_dataset_id cov"
    proof
      fix j assume "j \<in> set (concat ys)"
      then obtain z c' where "j \<in> set z" "c' \<in> set covs" "f c' = Inr z" by (auto dest: map_res_Inr_set [OF y(2)])
      then have "bj_dataset j = cc_dataset_id c'" "cc_dataset_id c' \<in> set (map cc_dataset_id covs)" using Cons.prems(5) by auto
      then show "bj_dataset j \<noteq> cc_dataset_id cov" using Cons.prems(2) True by auto
    qed
    then show ?thesis using own y(1,3) True Cons.prems(4) by (simp add: filter_id_conv filter_empty_conv)
  next
    case False
    then have "cov \<in> set covs" using Cons.prems(3) by simp
    moreover from this have "cc_dataset_id c \<noteq> cc_dataset_id cov" using Cons.prems(2) by auto
    ultimately show ?thesis
      using Cons.IH [OF y(2) _ _ Cons.prems(4)] Cons.prems(2,5) own y(3) by (auto simp: filter_empty_conv)
  qed
qed simp

lemma count_sorted: "length (filter P (sort_key f xs)) = length (filter P xs)"
  by (simp add: filter_sort)

lemma plan_own_jobs:
  assumes "plan env pl datasets fd td idx now = Inr bp" "optional_date fd = Inr ff" "optional_date td = Inr ft"
    "cov \<in> set (pl_contracts pl)" "distinct (map cc_dataset_id (pl_contracts pl))" "planned_contract pl (allowed_datasets datasets) cov"
    "map_of (pl_endpoints pl) (cc_dataset_id cov) = Some ep"
  obtains own where
    "jobs_from_required_segments pl cov ep (contract_bundle_digest env pl) (read_complete_segments (pl_segments pl) (cc_dataset_id cov)) ff ft idx = Inr own"
    "filter (\<lambda>j. bj_dataset j = cc_dataset_id cov) (bp_jobs bp) = sort_key job_key own"
proof -
  let ?covs = "filter (planned_contract pl (allowed_datasets datasets)) (pl_contracts pl)" and ?f = "contract_jobs pl (contract_bundle_digest env pl) ff ft idx"
  obtain js where js: "map_res ?f ?covs = Inr js" "bp_jobs bp = sort_key job_key (concat js)"
    using assms(1-3) by (auto simp: plan_def Let_def bind_res_Inr_iff)
  have c: "cov \<in> set ?covs" "distinct (map cc_dataset_id ?covs)" using assms(4-6) by (simp_all add: distinct_map_filter)
  obtain own where own: "?f cov = Inr own" using js(1) c(1) map_res_Inr_nth [OF js(1)] by (metis in_set_conv_nth)
  have "filter (\<lambda>j. bj_dataset j = cc_dataset_id cov) (concat js) = own"
    by (rule count_own_jobs [OF js(1) c(2,1) own]) (rule contract_jobs_dataset)
  then have "filter (\<lambda>j. bj_dataset j = cc_dataset_id cov) (bp_jobs bp) = sort_key job_key own" by (simp add: js(2) filter_sort)
  moreover have "jobs_from_required_segments pl cov ep (contract_bundle_digest env pl) (read_complete_segments (pl_segments pl) (cc_dataset_id cov)) ff ft idx = Inr own"
    using own assms(7) by (simp add: contract_jobs_def)
  ultimately show ?thesis using that by blast
qed

lemma plan_jobs_count:
  assumes "plan env pl datasets fd td idx now = Inr bp" "optional_date fd = Inr ff" "optional_date td = Inr ft"
    "cov \<in> set (pl_contracts pl)" "distinct (map cc_dataset_id (pl_contracts pl))" "planned_contract pl (allowed_datasets datasets) cov"
    "map_of (pl_endpoints pl) (cc_dataset_id cov) = Some ep"
    "plan_required_segments (pl_registry pl) cov (isoformat (pl_cutoff pl)) ''jquants'' None idx None = Inr segs" "valid_date d"
  shows "length (filter (\<lambda>j. bj_dataset j = cc_dataset_id cov \<and> job_covers d j) (bp_jobs bp))
    = (if in_range ff ft d then length (filter (\<lambda>s. segment_covers d s \<and> rs_segment_id s \<notin> set (read_complete_segments (pl_segments pl) (cc_dataset_id cov))) segs) else 0)"
proof -
  obtain own where own:
      "jobs_from_required_segments pl cov ep (contract_bundle_digest env pl) (read_complete_segments (pl_segments pl) (cc_dataset_id cov)) ff ft idx = Inr own"
      "filter (\<lambda>j. bj_dataset j = cc_dataset_id cov) (bp_jobs bp) = sort_key job_key own"
    by (rule plan_own_jobs [OF assms(1-7)])
  have "length (filter (\<lambda>j. bj_dataset j = cc_dataset_id cov \<and> job_covers d j) (bp_jobs bp)) = length (filter (job_covers d) own)"
    using own(2) by (metis count_sorted filter_filter)
  then show ?thesis using required_jobs_count [OF own(1) assms(8,9) optional_date_valid [OF assms(2)] optional_date_valid [OF assms(3)]] by simp
qed

text \<open>Every job of such a dataset is a fresh pending job for one of its missing segments.\<close>

lemma required_jobs_pending:
  assumes "jobs_from_required_segments pl cov ep g completed ff ft idx = Inr js"
    "plan_required_segments (pl_registry pl) cov (isoformat (pl_cutoff pl)) ''jquants'' None idx None = Inr segs" "j \<in> set js"
  shows "\<exists>s \<in> set segs. rs_segment_id s \<notin> set completed \<and> (\<exists>ab. j = pending_job cov ep g (rs_segment_id s) ab)"
proof -
  obtain ys where ys: "map_res (segment_jobs pl cov ep g completed ff ft) segs = Inr ys" "js = concat ys"
    using assms(1,2) plan_invents_nothing [OF assms(2)] by (auto simp: jobs_from_required_segments_def bind_res_Inr_iff split: if_splits)
  then obtain y where y: "y \<in> set ys" "j \<in> set y" using assms(3) by auto
  then obtain s where "s \<in> set segs" "segment_jobs pl cov ep g completed ff ft s = Inr y" using map_res_Inr_set [OF ys(1)] by blast
  moreover from this(2) have "rs_segment_id s \<notin> set completed \<and> (\<exists>ab. j = pending_job cov ep g (rs_segment_id s) ab)"
    using y(2) by (auto simp: segment_jobs_def bind_res_Inr_iff split: if_splits option.splits) blast+
  ultimately show ?thesis by blast
qed

lemma plan_jobs_pending:
  assumes "plan env pl datasets fd td idx now = Inr bp" "optional_date fd = Inr ff" "optional_date td = Inr ft"
    "cov \<in> set (pl_contracts pl)" "distinct (map cc_dataset_id (pl_contracts pl))" "planned_contract pl (allowed_datasets datasets) cov"
    "map_of (pl_endpoints pl) (cc_dataset_id cov) = Some ep"
    "plan_required_segments (pl_registry pl) cov (isoformat (pl_cutoff pl)) ''jquants'' None idx None = Inr segs"
    "j \<in> set (bp_jobs bp)" "bj_dataset j = cc_dataset_id cov"
  shows "bj_state j = ''pending'' \<and> bj_attempt j = 0 \<and> bj_source j = ''jquants'' \<and> bj_query_mode j = ep_date_mode ep
    \<and> bj_contract_digest j = contract_bundle_digest env pl
    \<and> bj_segment_id j \<in> rs_segment_id ` set segs - set (read_complete_segments (pl_segments pl) (cc_dataset_id cov))"
proof -
  obtain own where own:
      "jobs_from_required_segments pl cov ep (contract_bundle_digest env pl) (read_complete_segments (pl_segments pl) (cc_dataset_id cov)) ff ft idx = Inr own"
      "filter (\<lambda>j. bj_dataset j = cc_dataset_id cov) (bp_jobs bp) = sort_key job_key own"
    by (rule plan_own_jobs [OF assms(1-7)])
  have "j \<in> set (filter (\<lambda>j. bj_dataset j = cc_dataset_id cov) (bp_jobs bp))" using assms(9,10) by simp
  then have "j \<in> set own" unfolding own(2) by simp
  then obtain s ab where "s \<in> set segs" "rs_segment_id s \<notin> set (read_complete_segments (pl_segments pl) (cc_dataset_id cov))"
      "j = pending_job cov ep (contract_bundle_digest env pl) (rs_segment_id s) ab"
    using required_jobs_pending [OF own(1) assms(8)] by blast
  then show ?thesis by (simp add: pending_job_def)
qed

lemma unique_filter_count:
  assumes "length (filter P xs) = (if b then 1 else 0)"
  shows "length (filter (\<lambda>x. P x \<and> Q x) xs) = (if b \<and> (\<exists>x \<in> set xs. P x \<and> Q x) then 1 else (0 :: nat))"
proof -
  have "filter (\<lambda>x. P x \<and> Q x) xs = filter Q (filter P xs)" by (simp add: conj_commute)
  moreover have "(\<exists>x \<in> set xs. P x \<and> Q x) \<longleftrightarrow> (\<exists>x \<in> set (filter P xs). Q x)" by auto
  ultimately show ?thesis using assms by (cases "filter P xs") (auto split: if_splits)
qed

text \<open>A segment \<open>COMPLETE\<close> under any policy version hides the jobs of the current one.\<close>

lemma complete_segments_any_policy:
  "read_complete_segments (TableRows (map (sg_policy_version_update (\<lambda>_. v)) rows)) ds = read_complete_segments (TableRows rows) ds"
  by (simp add: read_complete_segments_def filter_map comp_def)

text \<open>With month chunks, the default, a plan is made whenever the filter dates are read.\<close>

lemma required_jobs_total:
  assumes "plan_required_segments (pl_registry pl) cov (isoformat (pl_cutoff pl)) ''jquants'' None idx None = Inr segs" "pl_prefer_month_chunks pl"
  shows "\<exists>js. jobs_from_required_segments pl cov ep g completed ff ft idx = Inr js"
proof -
  have "\<exists>y. segment_jobs pl cov ep g completed ff ft s = Inr y" if s: "s \<in> set segs" for s
  proof -
    obtain a b where "valid_date a" "valid_date b" "span_of s (a, b)" using plan_spans [OF assms(1) s] by blast
    then have "bf_parse_date (rs_segment_start s) = Inr a" "bf_parse_date (rs_segment_end s) = Inr b" by (simp_all add: span_of_def bf_parse_date_def)
    then show ?thesis using assms(2) by (auto simp: segment_jobs_def job_chunks_def split: option.splits)
  qed
  then have "\<exists>ys. map_res (segment_jobs pl cov ep g completed ff ft) segs = Inr ys" unfolding map_res_unit_iff by blast
  then show ?thesis using assms(1) by (auto simp: jobs_from_required_segments_def)
qed

definition sample_endpoint :: endpoint_capability where
  "sample_endpoint = \<lparr>ep_dataset_id = ''equities_bars_daily'', ep_path = ''/equities/bars/daily'', ep_date_mode = ''range'', ep_params = [''from'', ''to''], ep_source = ''jquants''\<rparr>"

definition sample_planner :: planner where
  "sample_planner = \<lparr>pl_cutoff = Date 2024 3 10, pl_sources = [''jquants''], pl_chunk_days = 7, pl_prefer_month_chunks = True,
     pl_endpoints = [(''equities_bars_daily'', sample_endpoint)], pl_contracts = [sample_policy ''equities_bars_daily'' ''calendar_month''], pl_registry = [],
     pl_policy_version = ''collection-coverage/v3'', pl_segments = NoDatabase\<rparr>"

definition sample_job :: backfill_job where
  "sample_job = pending_job (sample_policy ''equities_bars_daily'' ''calendar_month'') sample_endpoint [] ''2024-02'' (Date 2024 2 1, Date 2024 2 29)"

lemma sample_planned:
  "planned_contract sample_planner (allowed_datasets []) (sample_policy ''equities_bars_daily'' ''calendar_month'')"
  by (simp add: planned_contract_def sample_planner_def allowed_datasets_def is_governed_contract_def sample_policy_def startswith_def)

lemma sample_tiling_grain: "tiling_grain (sample_policy ''equities_bars_daily'' ''calendar_month'') None"
  by (simp add: tiling_grain_def sample_policy_def is_tip_snapshot_policy_def uses_official_archive_index_def
      snapshot_segment_granularities_def tip_coverage_modes_def official_archive_index_datasets_def official_archive_index_modes_def)

subsection \<open>Properties of the planner\<close>

text \<open>C32: The plan asks for every missing day once. Take a dataset that the planner plans: governed, among the datasets asked for, served by
  J-Quants (no \<open>jsda_\<close> dataset is ever planned) through an endpoint of the catalog, and on a grain that tiles its window (neither a tip snapshot nor an
  archive index). A date lies in exactly one job of the dataset
  when it is inside the history of the dataset, not after the cutoff, not before the subscription floor, inside the
  requested range and in a required segment that the ledger does not show \<open>COMPLETE\<close>; every other date lies in no job of it,
  whatever the chunking. Every job of the dataset is pending and unattempted, asks J-Quants in the mode of the endpoint, carries the
  digest of the contracts and names a required segment that is not \<open>COMPLETE\<close>.\<close>

theorem missing_days_requested_once:
  assumes "plan env pl datasets fd td idx now = Inr bp" "optional_date fd = Inr ff" "optional_date td = Inr ft"
    "cov \<in> set (pl_contracts pl)" "distinct (map cc_dataset_id (pl_contracts pl))" "planned_contract pl (allowed_datasets datasets) cov"
    "map_of (pl_endpoints pl) (cc_dataset_id cov) = Some ep"
    "plan_required_segments (pl_registry pl) cov (isoformat (pl_cutoff pl)) ''jquants'' None idx None = Inr segs"
    "tiling_grain cov (official_domain_for (source_capability_contract_or_none (pl_registry pl) (cc_dataset_id cov)))"
    "effective_start (pl_registry pl) cov None = Inr st" "valid_date (pl_cutoff pl)" "valid_date d"
  shows "length (filter (\<lambda>j. bj_dataset j = cc_dataset_id cov \<and> bj_from j \<le> isoformat d \<and> isoformat d \<le> bj_to j) (bp_jobs bp))
    = (if st \<le> d \<and> d \<le> pl_cutoff pl \<and> in_range ff ft d
          \<and> (\<exists>s \<in> set segs. rs_segment_start s \<le> isoformat d \<and> isoformat d \<le> rs_segment_end s
               \<and> rs_segment_id s \<notin> set (read_complete_segments (pl_segments pl) (cc_dataset_id cov)))
       then 1 else 0)
    \<and> (\<forall>j \<in> set (bp_jobs bp). bj_dataset j = cc_dataset_id cov \<longrightarrow>
          bj_state j = ''pending'' \<and> bj_attempt j = 0 \<and> bj_source j = ''jquants'' \<and> bj_query_mode j = ep_date_mode ep
          \<and> bj_contract_digest j = contract_bundle_digest env pl
          \<and> bj_segment_id j \<in> rs_segment_id ` set segs - set (read_complete_segments (pl_segments pl) (cc_dataset_id cov)))"
proof -
  have "length (filter (segment_covers d) segs) = (if st \<le> d \<and> d \<le> pl_cutoff pl then 1 else 0)"
    unfolding segment_covers_def by (rule plan_counts [OF assms(8,9,10)]) (use assms(11,12) in simp_all)
  from unique_filter_count [OF this] show ?thesis
    using plan_jobs_count [OF assms(1-8,12)] plan_jobs_pending [OF assms(1-8)] by (auto simp: job_covers_def segment_covers_def)
qed

theorem missing_days_requested_once_witness:
  "\<exists>bp. plan (sample_env ()) sample_planner [] None None [isoformat (Date 2024 2 1)] [] = Inr bp
     \<and> length (filter (\<lambda>j. bj_dataset j = ''equities_bars_daily'' \<and> bj_from j \<le> isoformat (Date 2024 2 1) \<and> isoformat (Date 2024 2 1) \<le> bj_to j) (bp_jobs bp)) = 1
     \<and> (\<forall>j \<in> set (bp_jobs bp). bj_dataset j = ''equities_bars_daily'' \<longrightarrow> bj_state j = ''pending'')"
proof -
  let ?cov = "sample_policy ''equities_bars_daily'' ''calendar_month''" and ?idx = "[isoformat (Date 2024 2 1)]"
  have f: "pl_registry sample_planner = []" "pl_cutoff sample_planner = Date 2024 3 10" "pl_contracts sample_planner = [?cov]" "pl_prefer_month_chunks sample_planner"
      "map_of (pl_endpoints sample_planner) (cc_dataset_id ?cov) = Some sample_endpoint" "read_complete_segments (pl_segments sample_planner) ds = []"
      "cc_dataset_id ?cov = ''equities_bars_daily''" for ds
    by (simp_all add: sample_planner_def sample_policy_def read_complete_segments_def)
  obtain segs where segs: "plan_required_segments (pl_registry sample_planner) ?cov (isoformat (pl_cutoff sample_planner)) ''jquants'' None ?idx None = Inr segs"
    using sample_plan [of "''calendar_month''"] f by (auto simp: segment_granularities_def)
  obtain bp where bp: "plan (sample_env ()) sample_planner [] None None ?idx [] = Inr bp"
  proof -
    let ?g = "contract_bundle_digest (sample_env ()) sample_planner"
    obtain js where "jobs_from_required_segments sample_planner ?cov sample_endpoint ?g [] None None ?idx = Inr js"
      using required_jobs_total [OF segs f(4)] by blast
    then have "contract_jobs sample_planner ?g None None ?idx ?cov = Inr js" using f by (simp add: contract_jobs_def)
    then show ?thesis using that f(3) sample_planned by (simp add: plan_def Let_def optional_date_def)
  qed
  have od: "official_domain_for (source_capability_contract_or_none (pl_registry sample_planner) (cc_dataset_id ?cov)) = None"
    by (simp add: f official_domain_for_def source_capability_contract_or_none_def)
  have start: "effective_start (pl_registry sample_planner) ?cov None = Inr (Date 2024 1 15)" using sample_effective_start f(1) by simp
  have "length (filter (segment_covers (Date 2024 2 1)) segs) = 1"
    unfolding segment_covers_def using plan_counts [OF segs _ start, of "Date 2024 3 10" "Date 2024 2 1"] sample_dates sample_tiling_grain od f by simp
  then have "\<exists>s \<in> set segs. segment_covers (Date 2024 2 1) s" by (metis filter_False length_0_conv zero_neq_one)
  then show ?thesis
    using missing_days_requested_once [OF bp _ _ _ _ sample_planned f(5) segs _ start, of None None "Date 2024 2 1"] bp f sample_dates od sample_tiling_grain
    by (auto simp: optional_date_def in_range_def subscription_floor_def segment_covers_def)
qed

text \<open>A worker's answer never counts for more than it says. The job ends \<open>pass\<close> exactly on HTTP 200 with status pass, \<open>retry\<close> only when it
  was rate limited or forbidden at the edge, and otherwise \<open>partial\<close> or \<open>fail\<close>; what the job asks for is kept.\<close>

theorem worker_answer_not_inflated:
  assumes "apply_worker_summary py_str summary http j = Inr j'"
  shows "(bj_state j' = ''pass'' \<longleftrightarrow> http = 200 \<and> py_lower (str_of py_str (dict_get summary ''status'')) = ''pass'' \<and> json_truthy (dict_get summary ''status''))
    \<and> (bj_state j' = ''retry'' \<longrightarrow> http = 429 \<or> http = 403) \<and> bj_state j' \<in> {''pass'', ''partial'', ''fail'', ''retry''}
    \<and> (bj_state j' = ''partial'' \<longrightarrow> http = 200 \<and> bj_reason_code j' = ''source_empty'')
    \<and> (bj_reason_code j' = ''ok'' \<longrightarrow> bj_state j' = ''pass'') \<and> j' = j\<lparr>bj_state := bj_state j', bj_reason_code := bj_reason_code j', bj_detail := bj_detail j'\<rparr>"
  using assms by (auto simp: apply_worker_summary_def set_state_def Let_def bind_res_Inr_iff py_lower_def split: if_splits)

theorem worker_answer_not_inflated_witness:
  "\<exists>j'. apply_worker_summary (\<lambda>_. []) [(''status'', JStr ''PARTIAL'')] 200 sample_job = Inr j' \<and> bj_state j' \<noteq> ''pass''"
proof -
  have l: "py_lower ''PARTIAL'' = ''partial''" by code_simp
  then obtain j' where j': "apply_worker_summary (\<lambda>_. []) [(''status'', JStr ''PARTIAL'')] 200 sample_job = Inr j'"
    by (auto simp: apply_worker_summary_def Let_def dict_get_def str_of_def)
  have "bj_state j' = ''pass'' \<longleftrightarrow> False" using worker_answer_not_inflated [OF j'] l by (simp add: dict_get_def str_of_def)
  then show ?thesis using j' by blast
qed

end
