(* ===== verification/RangeBatch.thy ===== *)
theory RangeBatch
  imports Backfill "HOL-Library.Multiset"
begin

section \<open>The range-batch scheduler\<close>

text \<open>
  \<open>packages/data_plane/ops/range_batch_scheduler.py\<close>: selection of pending jobs, the queue, and the dispatch of the queue by a
  thread pool with one semaphore per rate pool. The threads are a step relation: an executor takes submitted jobs in order, a
  thread waits for the semaphore of its pool, and the answer of a job, a value or an exception, arrives at any time. The rate limiters only delay a
  step and are not modelled; requests per minute and seconds are floats and keep their text.
\<close>

datatype sched_error =
    SchedRuntimeError string
  | SchedRaised bf_error

type_synonym 'a sched = "(sched_error, 'a) result"

definition lift_bf :: "'a bf \<Rightarrow> 'a sched" where
  "lift_bf m = (case m of Inl x \<Rightarrow> Inl (SchedRaised x) | Inr y \<Rightarrow> Inr y)"

subsection \<open>Configuration\<close>

definition rate_pool_general :: string where "rate_pool_general = ''general''"

definition rate_pool_fins :: string where "rate_pool_fins = ''fins''"

definition track_a_datasets :: "string list" where
  "track_a_datasets = [''equities_bars_daily'', ''indices_bars_daily_topix'', ''markets_breakdown'', ''fins_summary'', ''equities_master'', ''markets_margin_interest'']"

text \<open>The start of a focus range is the history start of the dataset's contract, here the argument \<open>start\<close>.\<close>

definition track_a_focus_range :: "(string \<Rightarrow> string) \<Rightarrow> string \<Rightarrow> (string \<times> string) option" where
  "track_a_focus_range start ds =
     (if ds \<notin> set track_a_datasets then None
      else Some (start ds, if ds = ''equities_bars_daily'' then ''2023-12-31'' else ''2099-12-31''))"

definition rate_pool_for_dataset :: "string \<Rightarrow> string" where
  "rate_pool_for_dataset ds = (if startswith ds ''fins_'' then rate_pool_fins else rate_pool_general)"

record scheduler_config =
  sc_general_rpm :: string
  sc_fins_rpm :: string
  sc_general_workers :: int
  sc_fins_workers :: int
  sc_max_jobs :: int
  sc_execute :: bool
  sc_sleep_on_retry :: string
  sc_request_timeout :: int

definition config_dict :: "scheduler_config \<Rightarrow> dict" where
  "config_dict c =
     [(''general_rpm'', JFloat (sc_general_rpm c)), (''fins_rpm'', JFloat (sc_fins_rpm c)), (''general_workers'', JInt (sc_general_workers c)),
      (''fins_workers'', JInt (sc_fins_workers c)), (''max_jobs'', JInt (sc_max_jobs c)), (''execute'', JBool (sc_execute c)),
      (''sleep_on_retry_s'', JFloat (sc_sleep_on_retry c)), (''request_timeout_s'', JInt (sc_request_timeout c)),
      (''mode'', JStr (if sc_execute c then ''execute'' else ''dry-run''))]"

subsection \<open>Selection\<close>

definition allowed_jobs :: "bool \<Rightarrow> string list \<Rightarrow> string list option" where
  "allowed_jobs track_a datasets =
     (let allow = (if track_a then Some track_a_datasets else None) in
      if datasets = [] then allow
      else let extra = map strip (filter (\<lambda>d. d \<noteq> [] \<and> strip d \<noteq> []) datasets) in
        Some (case allow of None \<Rightarrow> extra | Some names \<Rightarrow> filter (\<lambda>d. d \<in> set extra) names))"

definition in_focus :: "(string \<Rightarrow> string) \<Rightarrow> bool \<Rightarrow> backfill_job \<Rightarrow> date \<Rightarrow> date \<Rightarrow> bool bf" where
  "in_focus start focus j jf jt =
     (case (if focus then track_a_focus_range start (bj_dataset j) else None) of
        None \<Rightarrow> Inr True
      | Some (fa, ta) \<Rightarrow>
          bind_res (case fromisoformat fa of None \<Rightarrow> Inl (BfValueError ''Invalid isoformat string'') | Some d \<Rightarrow> Inr d) (\<lambda>fd.
          bind_res (case fromisoformat ta of None \<Rightarrow> Inl (BfValueError ''Invalid isoformat string'') | Some d \<Rightarrow> Inr d) (\<lambda>td.
            Inr (\<not> (jt < fd \<or> jf > td)))))"

definition keeps_job ::
    "(string \<Rightarrow> string) \<Rightarrow> string list option \<Rightarrow> date option \<Rightarrow> date option \<Rightarrow> bool \<Rightarrow> backfill_job \<Rightarrow> bool bf" where
  "keeps_job start allow from_d to_d focus j =
     (if (case allow of None \<Rightarrow> False | Some names \<Rightarrow> bj_dataset j \<notin> set names) then Inr False
      else bind_res (bf_parse_date (bj_from j)) (\<lambda>jf.
      bind_res (bf_parse_date (bj_to j)) (\<lambda>jt.
        if (case from_d of None \<Rightarrow> False | Some f \<Rightarrow> jt < f) then Inr False
        else if (case to_d of None \<Rightarrow> False | Some t \<Rightarrow> jf > t) then Inr False
        else in_focus start focus j jf jt)))"

fun select_jobs :: "(backfill_job \<Rightarrow> bool bf) \<Rightarrow> backfill_job list \<Rightarrow> backfill_job list bf" where
  "select_jobs keep [] = Inr []"
| "select_jobs keep (j # js) = bind_res (keep j) (\<lambda>b. bind_res (select_jobs keep js) (\<lambda>rest. Inr (if b then j # rest else rest)))"

definition newer :: "backfill_job \<Rightarrow> (string \<times> backfill_job) list \<Rightarrow> (string \<times> backfill_job) list" where
  "newer j by_ds =
     (case map_of by_ds (bj_dataset j) of
        None \<Rightarrow> AList.update (bj_dataset j) j by_ds
      | Some prev \<Rightarrow> if bj_from j > bj_from prev then AList.update (bj_dataset j) j by_ds else by_ds)"

definition latest_jobs :: "backfill_job list \<Rightarrow> backfill_job list" where
  "latest_jobs js = sort_key job_key (map snd (fold newer js []))"

definition filter_plan_jobs ::
    "(string \<Rightarrow> string) \<Rightarrow> backfill_plan \<Rightarrow> string list \<Rightarrow> string option \<Rightarrow> string option \<Rightarrow> bool \<Rightarrow> bool \<Rightarrow> bool \<Rightarrow> backfill_job list bf" where
  "filter_plan_jobs start bp datasets from_date to_date track_a latest_only focus_ranges =
     bind_res (optional_date from_date) (\<lambda>from_d.
     bind_res (optional_date to_date) (\<lambda>to_d.
     bind_res (select_jobs (keeps_job start (allowed_jobs track_a datasets) from_d to_d (track_a \<and> focus_ranges)) (pending_jobs bp)) (\<lambda>selected.
       Inr (if latest_only \<and> selected \<noteq> [] then latest_jobs selected else selected))))"

record scheduled_job =
  sj_job :: backfill_job
  sj_pool :: string
  sj_index :: nat

definition scheduled_dict :: "scheduled_job \<Rightarrow> dict" where
  "scheduled_dict s = job_dict (sj_job s) @ [(''rate_pool'', JStr (sj_pool s)), (''queue_index'', JInt (int (sj_index s)))]"

fun queue_loop :: "int \<Rightarrow> nat \<Rightarrow> backfill_job list \<Rightarrow> scheduled_job list" where
  "queue_loop max_jobs i [] = []"
| "queue_loop max_jobs i (j # js) =
     (if max_jobs \<noteq> 0 \<and> int i \<ge> max_jobs then []
      else \<lparr>sj_job = j, sj_pool = rate_pool_for_dataset (bj_dataset j), sj_index = i\<rparr> # queue_loop max_jobs (Suc i) js)"

definition build_queue :: "backfill_job list \<Rightarrow> int \<Rightarrow> scheduled_job list" where
  "build_queue js max_jobs = queue_loop max_jobs 0 js"

definition plan_and_queue ::
    "('a crypto_env_scheme) \<Rightarrow> (string \<Rightarrow> string) \<Rightarrow> planner \<Rightarrow> string list \<Rightarrow> string option \<Rightarrow> string option \<Rightarrow> bool \<Rightarrow> bool \<Rightarrow> int \<Rightarrow> string
       \<Rightarrow> (backfill_plan \<times> scheduled_job list) bf" where
  "plan_and_queue env start pl datasets from_date to_date track_a latest_only max_jobs now =
     bind_res (plan env pl [] None None [] now) (\<lambda>bp.
     bind_res (filter_plan_jobs start bp datasets from_date to_date track_a latest_only True) (\<lambda>js. Inr (bp, build_queue js max_jobs)))"

subsection \<open>A run\<close>

record scheduler_result =
  sr_mode :: string
  sr_config :: dict
  sr_contract_digest :: string
  sr_cutoff :: string
  sr_queued :: "dict list"
  sr_executed :: "dict list"
  sr_skipped :: int
  sr_by_pool :: "(string \<times> int) list"
  sr_by_dataset :: "(string \<times> int) list"
  sr_by_state :: "(string \<times> int) list"
  sr_notes :: "string list"

definition counts_object :: "(string \<times> int) list \<Rightarrow> json" where
  "counts_object counts = JObj (map (\<lambda>(k, n). (k, JInt n)) counts)"

definition result_dict :: "scheduler_result \<Rightarrow> dict" where
  "result_dict r =
     [(''mode'', JStr (sr_mode r)), (''config'', JObj (sr_config r)), (''plan_contract_digest'', JStr (sr_contract_digest r)), (''plan_cutoff'', JStr (sr_cutoff r)),
      (''queued_count'', JInt (int (length (sr_queued r)))), (''executed_count'', JInt (int (length (sr_executed r)))), (''skipped'', JInt (sr_skipped r)),
      (''counts_by_pool'', counts_object (sr_by_pool r)), (''counts_by_dataset'', counts_object (sr_by_dataset r)), (''counts_by_state'', counts_object (sr_by_state r)),
      (''notes'', JArr (map JStr (sr_notes r))), (''queued'', JArr (map JObj (sr_queued r))), (''executed'', JArr (map JObj (sr_executed r)))]"

definition tally :: "string \<Rightarrow> (string \<times> int) list \<Rightarrow> (string \<times> int) list" where
  "tally k counts = AList.update k ((case map_of counts k of None \<Rightarrow> 0 | Some n \<Rightarrow> n) + 1) counts"

definition dataset_list_text :: "string list \<Rightarrow> string" where
  "dataset_list_text ds = CHR ''['' # intercalate '', '' (map repr_str ds) @ '']''"

definition queued_result :: "scheduler_config \<Rightarrow> backfill_plan \<Rightarrow> bool \<Rightarrow> bool \<Rightarrow> scheduled_job list \<Rightarrow> scheduler_result" where
  "queued_result cfg bp track_a latest_only queued =
     \<lparr>sr_mode = (if sc_execute cfg then ''execute'' else ''dry-run''), sr_config = config_dict cfg, sr_contract_digest = bp_contract_digest bp, sr_cutoff = bp_cutoff bp,
      sr_queued = map scheduled_dict queued, sr_executed = [], sr_skipped = 0,
      sr_by_pool = fold (tally \<circ> sj_pool) queued [(rate_pool_general, 0), (rate_pool_fins, 0)],
      sr_by_dataset = fold (tally \<circ> bj_dataset \<circ> sj_job) queued [], sr_by_state = [],
      sr_notes = [''Worker pass != Coverage COMPLETE; seal only with raw+structured.'', ''Token is never written into this result.'',
          ''scheduler_config=range-batch-scheduler/v1'']
        @ (if track_a then [''track_a_datasets='' @ dataset_list_text track_a_datasets] else [])
        @ (if latest_only then [''latest_only=1 job per dataset (e.g. margin refresh)''] else [])\<rparr>"

text \<open>Before the thread pool: the queue, the result of a dry run, or the checks of an execution.\<close>

datatype run_start = DryRun scheduler_result | Dispatch scheduler_result "scheduled_job list"

definition start_run ::
    "(string \<Rightarrow> string) \<Rightarrow> scheduler_config \<Rightarrow> bool \<Rightarrow> string \<Rightarrow> backfill_plan \<Rightarrow> string list \<Rightarrow> string option \<Rightarrow> string option \<Rightarrow> bool \<Rightarrow> bool \<Rightarrow> run_start sched" where
  "start_run start cfg has_run_job token bp datasets from_date to_date track_a latest_only =
     bind_res (lift_bf (filter_plan_jobs start bp datasets from_date to_date track_a latest_only True)) (\<lambda>js.
     let queued = build_queue js (sc_max_jobs cfg); res = queued_result cfg bp track_a latest_only queued in
     if \<not> sc_execute cfg then
       Inr (DryRun (res\<lparr>sr_by_state := [(''dry_run_pending'', int (length queued))], sr_notes := sr_notes res @ [''dry-run: no HTTP calls issued'']\<rparr>))
     else if \<not> has_run_job then Inl (SchedRuntimeError ''execute=True requires run_job callback'')
     else if token = [] then Inl (SchedRuntimeError ''execute=True requires non-empty token (not logged)'')
     else Inr (Dispatch res (filter (\<lambda>s. sj_pool s = rate_pool_general) queued @ filter (\<lambda>s. sj_pool s = rate_pool_fins) queued)))"

definition has_secret_name :: "string \<Rightarrow> bool" where
  "has_secret_name k \<longleftrightarrow> contains_sub (py_lower k) ''token'' \<or> contains_sub (py_lower k) ''secret'' \<or> contains_sub (py_lower k) ''authorization''"

text \<open>One job: its answer is an exception of the callback, or the HTTP status and the summary. \<open>wrote\<close> says that the row went into the state file,
  or that there is none; the lines of the file are output, but a failure to write them ends the job with \<open>OSError\<close>.\<close>

type_synonym dispatch_outcome = "(bf_error, backfill_job \<times> dict) result"

definition dispatch :: "(json \<Rightarrow> string) \<Rightarrow> scheduled_job \<Rightarrow> string \<Rightarrow> string \<Rightarrow> (int \<times> dict) bf \<Rightarrow> bool \<Rightarrow> dispatch_outcome" where
  "dispatch py_str sq started finished answer wrote =
     bind_res answer (\<lambda>(code, summary).
     bind_res (apply_worker_summary py_str summary code ((sj_job sq)\<lparr>bj_attempt := bj_attempt (sj_job sq) + 1, bj_state := ''running''\<rparr>)) (\<lambda>j.
       if \<not> wrote then Inl BfOSError
       else Inr (j, filter (\<lambda>(k, v). \<not> has_secret_name k)
         (scheduled_dict (sq\<lparr>sj_job := j\<rparr>) @ [(''started_at'', JStr started), (''finished_at'', JStr finished), (''http_status'', JInt code)]))))"

subsection \<open>The thread pool\<close>

text \<open>Jobs are named by their place in the order of submission. A semaphore is its counter; \<open>with sem\<close> gives the permit back however the job ends.\<close>

record pool_state =
  ps_waiting :: "nat list"
  ps_blocked :: "nat list"
  ps_running :: "nat list"
  ps_log :: "(nat \<times> dispatch_outcome) list"
  ps_gen_sem :: nat
  ps_fins_sem :: nat

definition pool_cap :: "scheduler_config \<Rightarrow> string \<Rightarrow> nat" where
  "pool_cap cfg pool = nat (max 1 (if pool = rate_pool_general then sc_general_workers cfg else sc_fins_workers cfg))"

definition pool_threads :: "scheduler_config \<Rightarrow> nat" where
  "pool_threads cfg = pool_cap cfg rate_pool_general + pool_cap cfg rate_pool_fins"

definition submitted :: "scheduler_config \<Rightarrow> scheduled_job list \<Rightarrow> pool_state" where
  "submitted cfg jobs =
     \<lparr>ps_waiting = [0..<length jobs], ps_blocked = [], ps_running = [], ps_log = [],
      ps_gen_sem = pool_cap cfg rate_pool_general, ps_fins_sem = pool_cap cfg rate_pool_fins\<rparr>"

text \<open>A job that is not of the general pool takes the semaphore of the fins pool.\<close>

definition sem_value :: "string \<Rightarrow> pool_state \<Rightarrow> nat" where
  "sem_value pool s = (if pool = rate_pool_general then ps_gen_sem s else ps_fins_sem s)"

definition sem_update :: "(nat \<Rightarrow> nat) \<Rightarrow> string \<Rightarrow> pool_state \<Rightarrow> pool_state" where
  "sem_update f pool s = (if pool = rate_pool_general then s\<lparr>ps_gen_sem := f (ps_gen_sem s)\<rparr> else s\<lparr>ps_fins_sem := f (ps_fins_sem s)\<rparr>)"

definition running_in :: "scheduled_job list \<Rightarrow> string \<Rightarrow> pool_state \<Rightarrow> nat list" where
  "running_in jobs pool s = filter (\<lambda>i. sj_pool (jobs ! i) = rate_pool_general \<longleftrightarrow> pool = rate_pool_general) (ps_running s)"

inductive pool_step :: "scheduler_config \<Rightarrow> bool \<Rightarrow> (json \<Rightarrow> string) \<Rightarrow> scheduled_job list \<Rightarrow> pool_state \<Rightarrow> pool_state \<Rightarrow> bool"
  for cfg state_file py_str jobs where
  take_job: "ps_waiting s = i # w \<Longrightarrow> length (ps_blocked s) + length (ps_running s) < pool_threads cfg
    \<Longrightarrow> pool_step cfg state_file py_str jobs s (s\<lparr>ps_waiting := w, ps_blocked := ps_blocked s @ [i]\<rparr>)"
| enter_semaphore: "i \<in> set (ps_blocked s) \<Longrightarrow> 0 < sem_value (sj_pool (jobs ! i)) s
    \<Longrightarrow> pool_step cfg state_file py_str jobs s
          (sem_update (\<lambda>n. n - 1) (sj_pool (jobs ! i)) (s\<lparr>ps_blocked := remove1 i (ps_blocked s), ps_running := ps_running s @ [i]\<rparr>))"
| finish_job: "i \<in> set (ps_running s) \<Longrightarrow> wrote \<or> state_file
    \<Longrightarrow> pool_step cfg state_file py_str jobs s
          (sem_update Suc (sj_pool (jobs ! i))
             (s\<lparr>ps_running := remove1 i (ps_running s), ps_log := ps_log s @ [(i, dispatch py_str (jobs ! i) t0 t1 answer wrote)]\<rparr>))"

inductive_cases pool_stepE: "pool_step cfg state_file py_str jobs s t"

lemma sem_update_frame [simp]:
  "ps_waiting (sem_update f pool s) = ps_waiting s" "ps_blocked (sem_update f pool s) = ps_blocked s"
  "ps_running (sem_update f pool s) = ps_running s" "ps_log (sem_update f pool s) = ps_log s"
  by (simp_all add: sem_update_def)

definition pool_done :: "pool_state \<Rightarrow> bool" where
  "pool_done s \<longleftrightarrow> ps_waiting s = [] \<and> ps_blocked s = [] \<and> ps_running s = []"

definition executed_rows :: "pool_state \<Rightarrow> dict list" where
  "executed_rows s = List.map_filter (\<lambda>(i, r). case r of Inl _ \<Rightarrow> None | Inr (j, row) \<Rightarrow> Some row) (ps_log s)"

definition raised_errors :: "pool_state \<Rightarrow> bf_error list" where
  "raised_errors s = List.map_filter (\<lambda>(i, r). case r of Inl x \<Rightarrow> Some x | Inr _ \<Rightarrow> None) (ps_log s)"

definition row_state :: "dict \<Rightarrow> string" where
  "row_state row = (case dict_get row ''state'' of JStr st \<Rightarrow> if st = [] then ''unknown'' else st | _ \<Rightarrow> ''unknown'')"

text \<open>After the pool is done: one of the raised exceptions propagates, or the rows in the order they were finished.\<close>

definition finish_run :: "scheduler_result \<Rightarrow> pool_state \<Rightarrow> (bf_error list, scheduler_result) result" where
  "finish_run res s =
     (if raised_errors s \<noteq> [] then Inl (raised_errors s)
      else Inr (res\<lparr>sr_executed := executed_rows s, sr_by_state := fold (tally \<circ> row_state) (executed_rows s) []\<rparr>))"

subsection \<open>Invariant of the pool\<close>

definition taken :: "pool_state \<Rightarrow> nat list" where
  "taken s = ps_blocked s @ ps_running s @ map fst (ps_log s)"

definition pool_inv :: "scheduler_config \<Rightarrow> bool \<Rightarrow> (json \<Rightarrow> string) \<Rightarrow> scheduled_job list \<Rightarrow> pool_state \<Rightarrow> bool" where
  "pool_inv cfg sf py_str jobs s \<longleftrightarrow>
     (\<exists>k \<le> length jobs. ps_waiting s = [k..<length jobs] \<and> set (taken s) = {..<k}) \<and> distinct (taken s)
     \<and> length (ps_blocked s) + length (ps_running s) \<le> pool_threads cfg
     \<and> (\<forall>pool. sem_value pool s + length (running_in jobs pool s) = pool_cap cfg pool)
     \<and> (\<forall>(i, r) \<in> set (ps_log s). \<exists>t0 t1 answer wrote. (wrote \<or> sf) \<and> r = dispatch py_str (jobs ! i) t0 t1 answer wrote)"

lemma pool_inv_submitted: "pool_inv cfg sf py_str jobs (submitted cfg jobs)"
  by (auto simp: pool_inv_def submitted_def taken_def running_in_def sem_value_def pool_cap_def rate_pool_general_def rate_pool_fins_def)

lemma pool_inv_permits: "pool_inv cfg sf py_str jobs s \<Longrightarrow> sem_value pool s + length (running_in jobs pool s) = pool_cap cfg pool"
  by (simp add: pool_inv_def)

lemma length_filter_remove1: "x \<in> set xs \<Longrightarrow> length (filter P xs) = length (filter P (remove1 x xs)) + (if P x then 1 else 0)"
  by (induction xs) auto

lemma length_remove1_in: "x \<in> set xs \<Longrightarrow> Suc (length (remove1 x xs)) = length xs"
  by (simp add: length_remove1) (metis Suc_pred length_pos_if_in_set)

lemma pool_inv_take:
  assumes "pool_inv cfg sf py_str jobs s" "ps_waiting s = i # w" "length (ps_blocked s) + length (ps_running s) < pool_threads cfg"
  shows "pool_inv cfg sf py_str jobs (s\<lparr>ps_waiting := w, ps_blocked := ps_blocked s @ [i]\<rparr>)"
proof -
  obtain k where k: "k \<le> length jobs" "ps_waiting s = [k..<length jobs]" "set (taken s) = {..<k}" using assms(1) by (auto simp: pool_inv_def)
  have "[k..<length jobs] = i # w" using k(2) assms(2) by (simp only:)
  then have i: "i = k" "w = [Suc k..<length jobs]" "Suc k \<le> length jobs" unfolding upt_eq_Cons_conv by auto
  have "set (taken (s\<lparr>ps_waiting := w, ps_blocked := ps_blocked s @ [i]\<rparr>)) = insert k (set (taken s))" using i(1) by (auto simp: taken_def)
  then have s: "set (taken (s\<lparr>ps_waiting := w, ps_blocked := ps_blocked s @ [i]\<rparr>)) = {..<Suc k}" using k(3) by auto
  have "distinct (taken s)" "i \<notin> set (taken s)" using assms(1) k(3) i(1) by (auto simp: pool_inv_def)
  then have "distinct (taken (s\<lparr>ps_waiting := w, ps_blocked := ps_blocked s @ [i]\<rparr>))" by (auto simp: taken_def)
  moreover have "\<exists>m \<le> length jobs. ps_waiting (s\<lparr>ps_waiting := w, ps_blocked := ps_blocked s @ [i]\<rparr>) = [m..<length jobs]
      \<and> set (taken (s\<lparr>ps_waiting := w, ps_blocked := ps_blocked s @ [i]\<rparr>)) = {..<m}"
    using s i by (intro exI [of _ "Suc k"]) simp
  moreover have "sem_value pool (s\<lparr>ps_waiting := w, ps_blocked := ps_blocked s @ [i]\<rparr>) = sem_value pool s"
      "running_in jobs pool (s\<lparr>ps_waiting := w, ps_blocked := ps_blocked s @ [i]\<rparr>) = running_in jobs pool s" for pool
    by (simp_all add: sem_value_def running_in_def)
  ultimately show ?thesis using assms(1,3) unfolding pool_inv_def by simp
qed

lemma pool_inv_move:
  assumes "pool_inv cfg sf py_str jobs s" "ps_waiting t = ps_waiting s" "mset (taken t) = mset (taken s)"
    "length (ps_blocked t) + length (ps_running t) \<le> length (ps_blocked s) + length (ps_running s)"
    "\<And>pool. sem_value pool t + length (running_in jobs pool t) = pool_cap cfg pool"
    "\<And>i r. (i, r) \<in> set (ps_log t) \<Longrightarrow> (i, r) \<in> set (ps_log s) \<or> (\<exists>t0 t1 answer wrote. (wrote \<or> sf) \<and> r = dispatch py_str (jobs ! i) t0 t1 answer wrote)"
  shows "pool_inv cfg sf py_str jobs t"
proof -
  have "set (taken t) = set (taken s)" "distinct (taken t) \<longleftrightarrow> distinct (taken s)"
    using assms(3) mset_eq_setD mset_eq_imp_distinct_iff by blast+
  moreover have "length (ps_blocked t) + length (ps_running t) \<le> pool_threads cfg" using assms(1,4) by (auto simp: pool_inv_def)
  ultimately show ?thesis using assms(1,2,5,6) unfolding pool_inv_def by fastforce
qed

lemma mset_remove1_append: "i \<in> set xs \<Longrightarrow> add_mset i (mset (remove1 i xs)) = mset xs"
  by simp

lemma pool_step_inv:
  assumes "pool_step cfg sf py_str jobs s t" "pool_inv cfg sf py_str jobs s"
  shows "pool_inv cfg sf py_str jobs t"
  using assms(1)
proof cases
  case (take_job i w)
  then show ?thesis using pool_inv_take [OF assms(2)] by simp
next
  case (enter_semaphore i)
  show ?thesis
  proof (rule pool_inv_move [OF assms(2)])
    show "mset (taken t) = mset (taken s)" using enter_semaphore by (simp add: taken_def)
    show "length (ps_blocked t) + length (ps_running t) \<le> length (ps_blocked s) + length (ps_running s)"
      using enter_semaphore length_remove1_in [of i "ps_blocked s"] by simp
    show "sem_value pool t + length (running_in jobs pool t) = pool_cap cfg pool" for pool
      using pool_inv_permits [OF assms(2), of pool] enter_semaphore(3) unfolding enter_semaphore(1)
      by (auto simp: sem_update_def running_in_def sem_value_def)
  qed (use enter_semaphore in simp_all)
next
  case (finish_job i wrote t0 t1 answer)
  show ?thesis
  proof (rule pool_inv_move [OF assms(2)])
    show "mset (taken t) = mset (taken s)" using finish_job by (simp add: taken_def)
    show "length (ps_blocked t) + length (ps_running t) \<le> length (ps_blocked s) + length (ps_running s)"
      using finish_job by (simp add: length_remove1)
    show "sem_value pool t + length (running_in jobs pool t) = pool_cap cfg pool" for pool
      using pool_inv_permits [OF assms(2), of pool] length_filter_remove1 [OF finish_job(2), of "\<lambda>j. sj_pool (jobs ! j) = rate_pool_general \<longleftrightarrow> pool = rate_pool_general"]
      unfolding finish_job(1) by (auto simp: sem_update_def running_in_def sem_value_def)
    show "(j, r) \<in> set (ps_log s) \<or> (\<exists>t0 t1 answer wrote. (wrote \<or> sf) \<and> r = dispatch py_str (jobs ! j) t0 t1 answer wrote)" if "(j, r) \<in> set (ps_log t)" for j r
      using that finish_job by auto
  qed (use finish_job in simp_all)
qed

lemma reachable_inv: "(pool_step cfg sf py_str jobs)\<^sup>*\<^sup>* (submitted cfg jobs) s \<Longrightarrow> pool_inv cfg sf py_str jobs s"
  by (induction rule: rtranclp_induct) (auto intro: pool_inv_submitted pool_step_inv)

subsection \<open>Progress\<close>

definition work_left :: "pool_state \<Rightarrow> nat" where
  "work_left s = 3 * length (ps_waiting s) + 2 * length (ps_blocked s) + length (ps_running s)"

lemma pool_step_work: "pool_step cfg sf py_str jobs s t \<Longrightarrow> work_left s = Suc (work_left t)"
  by (erule pool_stepE) (auto simp: work_left_def dest!: length_remove1_in)

lemma steps_work: "(pool_step cfg sf py_str jobs ^^ n) s t \<Longrightarrow> work_left s = n + work_left t"
  by (induction n arbitrary: t) (auto dest!: pool_step_work)

lemma pool_cap_pos: "0 < pool_cap cfg pool"
  by (simp add: pool_cap_def max_def)

lemma pool_progress:
  assumes "pool_inv cfg sf py_str jobs s" "\<not> pool_done s"
  shows "\<exists>t. pool_step cfg sf py_str jobs s t"
proof (cases "ps_running s")
  case (Cons i r)
  then show ?thesis using finish_job [of i s True sf cfg py_str jobs] by auto
next
  case Nil
  show ?thesis
  proof (cases "ps_blocked s")
    case (Cons i r)
    have "sem_value (sj_pool (jobs ! i)) s = pool_cap cfg (sj_pool (jobs ! i))" using assms(1) Nil by (simp add: pool_inv_def running_in_def)
    then show ?thesis using enter_semaphore [of i s jobs cfg] pool_cap_pos Cons by auto
  next
    case b: Nil
    then obtain i w where "ps_waiting s = i # w" using assms(2) Nil by (cases "ps_waiting s") (auto simp: pool_done_def)
    moreover have "0 < pool_threads cfg" by (simp add: pool_threads_def pool_cap_pos)
    ultimately show ?thesis using take_job [of s i w cfg] b Nil by auto
  qed
qed

subsection \<open>Selection\<close>

definition latest_inv :: "backfill_job list \<Rightarrow> (string \<times> backfill_job) list \<Rightarrow> bool" where
  "latest_inv seen by_ds \<longleftrightarrow>
     distinct (map fst by_ds)
     \<and> (\<forall>ds. case map_of by_ds ds of
          None \<Rightarrow> \<forall>j \<in> set seen. bj_dataset j \<noteq> ds
        | Some j \<Rightarrow> j \<in> set seen \<and> bj_dataset j = ds \<and> (\<forall>j' \<in> set seen. bj_dataset j' = ds \<longrightarrow> bj_from j' \<le> bj_from j))"

lemma latest_inv_at:
  "latest_inv seen by_ds \<Longrightarrow> case map_of by_ds ds of
          None \<Rightarrow> \<forall>j \<in> set seen. bj_dataset j \<noteq> ds
        | Some j \<Rightarrow> j \<in> set seen \<and> bj_dataset j = ds \<and> (\<forall>j' \<in> set seen. bj_dataset j' = ds \<longrightarrow> bj_from j' \<le> bj_from j)"
  unfolding latest_inv_def by blast

lemma latest_inv_replace:
  assumes "latest_inv seen by_ds" "\<forall>j' \<in> set seen. bj_dataset j' = bj_dataset j \<longrightarrow> bj_from j' \<le> bj_from j"
  shows "latest_inv (seen @ [j]) (AList.update (bj_dataset j) j by_ds)"
  unfolding latest_inv_def
proof (intro conjI allI)
  show "distinct (map fst (AList.update (bj_dataset j) j by_ds))" using assms(1) by (simp add: latest_inv_def distinct_update)
  show "case map_of (AList.update (bj_dataset j) j by_ds) ds of
          None \<Rightarrow> \<forall>j' \<in> set (seen @ [j]). bj_dataset j' \<noteq> ds
        | Some j' \<Rightarrow> j' \<in> set (seen @ [j]) \<and> bj_dataset j' = ds \<and> (\<forall>j'' \<in> set (seen @ [j]). bj_dataset j'' = ds \<longrightarrow> bj_from j'' \<le> bj_from j')" for ds
  proof (cases "ds = bj_dataset j")
    case True
    then show ?thesis using assms(2) by (auto simp: update_conv')
  next
    case False
    then show ?thesis using latest_inv_at [OF assms(1), of ds] by (cases "map_of by_ds ds") (auto simp: update_conv')
  qed
qed

lemma latest_inv_keep:
  assumes "latest_inv seen by_ds" "map_of by_ds (bj_dataset j) = Some prev" "bj_from j \<le> bj_from prev"
  shows "latest_inv (seen @ [j]) by_ds"
  unfolding latest_inv_def
proof (intro conjI allI)
  show "distinct (map fst by_ds)" using assms(1) by (simp add: latest_inv_def)
  fix ds
  show "case map_of by_ds ds of
          None \<Rightarrow> \<forall>j' \<in> set (seen @ [j]). bj_dataset j' \<noteq> ds
        | Some j' \<Rightarrow> j' \<in> set (seen @ [j]) \<and> bj_dataset j' = ds \<and> (\<forall>j'' \<in> set (seen @ [j]). bj_dataset j'' = ds \<longrightarrow> bj_from j'' \<le> bj_from j')"
    using latest_inv_at [OF assms(1), of ds] assms(2,3) by (cases "map_of by_ds ds"; cases "ds = bj_dataset j") auto
qed

lemma latest_inv_step:
  assumes "latest_inv seen by_ds"
  shows "latest_inv (seen @ [j]) (newer j by_ds)"
proof (cases "map_of by_ds (bj_dataset j)")
  case None
  then have "\<forall>j' \<in> set seen. bj_dataset j' \<noteq> bj_dataset j" using latest_inv_at [OF assms, of "bj_dataset j"] by simp
  then show ?thesis using latest_inv_replace [OF assms] None by (simp add: newer_def)
next
  case (Some prev)
  show ?thesis
  proof (cases "bj_from j > bj_from prev")
    case True
    have "\<forall>j' \<in> set seen. bj_dataset j' = bj_dataset j \<longrightarrow> bj_from j' \<le> bj_from prev" using latest_inv_at [OF assms, of "bj_dataset j"] Some by simp
    then show ?thesis using latest_inv_replace [OF assms, of j] True Some by (auto simp: newer_def dest: order_trans less_imp_le)
  next
    case False
    then have "newer j by_ds = by_ds" "bj_from j \<le> bj_from prev" using Some by (simp_all add: newer_def)
    then show ?thesis using latest_inv_keep [OF assms Some] by simp
  qed
qed

lemma latest_inv_fold: "latest_inv seen by_ds \<Longrightarrow> latest_inv (seen @ js) (fold newer js by_ds)"
proof (induction js arbitrary: seen by_ds)
  case (Cons j js)
  then show ?case using Cons.IH [OF latest_inv_step [OF Cons.prems, of j]] by simp
qed simp

lemma latest_jobs_latest:
  shows "distinct (map bj_dataset (latest_jobs js))" "bj_dataset ` set (latest_jobs js) = bj_dataset ` set js"
    "j \<in> set (latest_jobs js) \<Longrightarrow> j \<in> set js \<and> (\<forall>j' \<in> set js. bj_dataset j' = bj_dataset j \<longrightarrow> bj_from j' \<le> bj_from j)"
proof -
  let ?m = "fold newer js []"
  have inv: "latest_inv js ?m" using latest_inv_fold [of "[]" "[]" js] by (simp add: latest_inv_def)
  then have d: "distinct (map fst ?m)" by (simp add: latest_inv_def)
  note at = latest_inv_at [OF inv]
  have entry: "bj_dataset v = k \<and> v \<in> set js \<and> (\<forall>j' \<in> set js. bj_dataset j' = k \<longrightarrow> bj_from j' \<le> bj_from v)" if "(k, v) \<in> set ?m" for k v
    using at [of k] map_of_is_SomeI [OF d that] by simp
  have "map (bj_dataset \<circ> snd) ?m = map fst ?m" using entry by (intro map_cong) auto
  then have "distinct (map bj_dataset (map snd ?m))" using d unfolding map_map by metis
  moreover have "mset (map bj_dataset (latest_jobs js)) = mset (map bj_dataset (map snd ?m))" by (simp add: latest_jobs_def multiset.map_comp)
  ultimately show "distinct (map bj_dataset (latest_jobs js))" using mset_eq_imp_distinct_iff by blast
  show "j \<in> set (latest_jobs js) \<Longrightarrow> j \<in> set js \<and> (\<forall>j' \<in> set js. bj_dataset j' = bj_dataset j \<longrightarrow> bj_from j' \<le> bj_from j)"
    using entry by (auto simp: latest_jobs_def)
  have "bj_dataset x \<in> fst ` set ?m" if "x \<in> set js" for x
    using at [of "bj_dataset x"] that by (cases "map_of ?m (bj_dataset x)") (auto dest!: map_of_SomeD intro: rev_image_eqI)
  then show "bj_dataset ` set (latest_jobs js) = bj_dataset ` set js" using entry by (force simp: latest_jobs_def)
qed

lemma select_jobs_subset: "select_jobs keep js = Inr out \<Longrightarrow> set out = {j \<in> set js. keep j = Inr True}"
  by (induction js arbitrary: out) (auto simp: bind_res_Inr_iff split: if_splits)

subsection \<open>A sample run\<close>

text \<open>Two general jobs and a fins job with one worker for each pool.\<close>

definition sample_config :: scheduler_config where
  "sample_config = \<lparr>sc_general_rpm = ''60.0'', sc_fins_rpm = ''30.0'', sc_general_workers = 1, sc_fins_workers = 1, sc_max_jobs = 0, sc_execute = True,
     sc_sleep_on_retry = ''1.0'', sc_request_timeout = 60\<rparr>"

definition sample_general :: "scheduled_job list" where
  "sample_general = [\<lparr>sj_job = sample_job, sj_pool = rate_pool_general, sj_index = 0\<rparr>, \<lparr>sj_job = sample_job, sj_pool = rate_pool_general, sj_index = 2\<rparr>]"

definition sample_fins :: "scheduled_job list" where
  "sample_fins = [\<lparr>sj_job = sample_job\<lparr>bj_dataset := ''fins_summary''\<rparr>, sj_pool = rate_pool_fins, sj_index = 1\<rparr>]"

definition sample_jobs :: "scheduled_job list" where
  "sample_jobs = sample_general @ sample_fins"

definition sample_outcome :: "nat \<Rightarrow> nat \<times> dispatch_outcome" where
  "sample_outcome i = (i, dispatch (\<lambda>_. []) (sample_jobs ! i) [] [] (Inr (200, [(''status'', JStr ''PARTIAL'')])) True)"

definition pool_at :: "nat list \<Rightarrow> nat list \<Rightarrow> nat list \<Rightarrow> nat list \<Rightarrow> pool_state" where
  "pool_at w b r l = \<lparr>ps_waiting = w, ps_blocked = b, ps_running = r, ps_log = map sample_outcome l,
     ps_gen_sem = (if 0 \<in> set r \<or> 1 \<in> set r then 0 else 1), ps_fins_sem = (if 2 \<in> set r then 0 else 1)\<rparr>"

definition sample_plan_jobs :: backfill_plan where
  "sample_plan_jobs = \<lparr>bp_plan_version = plan_version, bp_policy_version = [], bp_contract_digest = [], bp_cutoff = [], bp_created_at = [],
     bp_jobs = [sample_job, sample_job\<lparr>bj_dataset := ''fins_summary''\<rparr>, sample_job]\<rparr>"

abbreviation sample_step :: "pool_state \<Rightarrow> pool_state \<Rightarrow> bool" where
  "sample_step \<equiv> pool_step sample_config False (\<lambda>_. []) sample_jobs"

lemma sample_run_starts:
  "\<exists>res. start_run (\<lambda>_. []) sample_config True ''t'' sample_plan_jobs [] None None False False = Inr (Dispatch res sample_jobs)"
proof -
  have d: "valid_date (Date 2024 2 1)" "valid_date (Date 2024 2 29)" by code_simp+
  let ?jobs = "[sample_job, sample_job\<lparr>bj_dataset := ''fins_summary''\<rparr>, sample_job]"
  have "pending_jobs sample_plan_jobs = ?jobs" by (simp add: pending_jobs_def sample_plan_jobs_def sample_job_def pending_job_def)
  moreover have "keeps_job (\<lambda>_. []) (allowed_jobs False []) None None False j = Inr True" if "j \<in> set ?jobs" for j
    using that d by (auto simp: keeps_job_def allowed_jobs_def in_focus_def sample_job_def pending_job_def bf_parse_date_def)
  ultimately have "filter_plan_jobs (\<lambda>_. []) sample_plan_jobs [] None None False False True = Inr ?jobs"
    by (simp add: filter_plan_jobs_def optional_date_def)
  moreover have "rate_pool_for_dataset (bj_dataset sample_job) = rate_pool_general" "rate_pool_for_dataset ''fins_summary'' = rate_pool_fins"
    by (simp_all add: rate_pool_for_dataset_def startswith_def sample_job_def pending_job_def sample_policy_def)
  ultimately show ?thesis
    by (simp add: start_run_def lift_bf_def sample_config_def build_queue_def sample_jobs_def sample_general_def sample_fins_def
        rate_pool_general_def rate_pool_fins_def Let_def)
qed

lemma sample_caps [simp]: "pool_cap sample_config pool = 1" "pool_threads sample_config = 2"
  by (simp_all add: pool_cap_def pool_threads_def sample_config_def)

lemma sample_pools [simp]: "sj_pool (sample_jobs ! 0) = rate_pool_general" "sj_pool (sample_jobs ! Suc 0) = rate_pool_general" "sj_pool (sample_jobs ! 2) = rate_pool_fins"
  by (simp_all add: sample_jobs_def sample_general_def sample_fins_def)

lemma sample_take: "length b + length r < 2 \<Longrightarrow> sample_step (pool_at (i # w) b r l) (pool_at w (b @ [i]) r l)"
  using take_job [of "pool_at (i # w) b r l" i w sample_config] by (simp add: pool_at_def)

lemma sample_enter:
  assumes "i \<in> set b" "i = 0 \<or> i = 1 \<or> i = 2"
  shows "sample_step (pool_at w b [] l) (pool_at w (remove1 i b) [i] l)"
  using enter_semaphore [of i "pool_at w b [] l" sample_jobs sample_config] assms
  by (auto simp: pool_at_def sem_value_def sem_update_def rate_pool_general_def rate_pool_fins_def)

lemma sample_finish:
  assumes "i = 0 \<or> i = 1 \<or> i = 2"
  shows "sample_step (pool_at w b [i] l) (pool_at w b [] (l @ [i]))"
  using finish_job [of i "pool_at w b [i] l" True False sample_config "\<lambda>_. []" sample_jobs "[]" "[]" "Inr (200, [(''status'', JStr ''PARTIAL'')])"] assms
  by (auto simp: pool_at_def sem_update_def sample_outcome_def rate_pool_general_def rate_pool_fins_def)

lemma sample_submitted: "submitted sample_config sample_jobs = pool_at [0, 1, 2] [] [] []"
  by (simp add: submitted_def pool_at_def sample_jobs_def sample_general_def sample_fins_def upt_rec)

lemma sample_run_blocked: "sample_step\<^sup>*\<^sup>* (submitted sample_config sample_jobs) (pool_at [2] [1] [0] [])"
proof -
  have "sample_step (pool_at [0, 1, 2] [] [] []) (pool_at [1, 2] [0] [] [])" using sample_take [of "[]" "[]"] by simp
  moreover have "sample_step (pool_at [1, 2] [0] [] []) (pool_at [2] [0, 1] [] [])" using sample_take [of "[0]" "[]"] by simp
  moreover have "sample_step (pool_at [2] [0, 1] [] []) (pool_at [2] [1] [0] [])" using sample_enter [of 0 "[0, 1]"] by simp
  ultimately show ?thesis unfolding sample_submitted by (meson converse_rtranclp_into_rtranclp rtranclp.rtrancl_refl)
qed

lemma sample_run_fins: "sample_step\<^sup>*\<^sup>* (submitted sample_config sample_jobs) (pool_at [] [1, 2] [] [0])"
proof -
  have "sample_step (pool_at [2] [1] [0] []) (pool_at [2] [1] [] [0])" using sample_finish [of 0 "[2]" "[1]" "[]"] by simp
  moreover have "sample_step (pool_at [2] [1] [] [0]) (pool_at [] [1, 2] [] [0])" using sample_take [of "[1]" "[]" 2] by simp
  ultimately show ?thesis using sample_run_blocked by (meson rtranclp.rtrancl_into_rtrancl)
qed

lemma sample_run_done: "sample_step\<^sup>*\<^sup>* (submitted sample_config sample_jobs) (pool_at [] [] [] [0, 2, 1])"
proof -
  have "sample_step (pool_at [] [1, 2] [] [0]) (pool_at [] [1] [2] [0])" using sample_enter [of 2 "[1, 2]"] by simp
  moreover have "sample_step (pool_at [] [1] [2] [0]) (pool_at [] [1] [] [0, 2])" using sample_finish [of 2 "[]" "[1]" "[0]"] by simp
  moreover have "sample_step (pool_at [] [1] [] [0, 2]) (pool_at [] [] [1] [0, 2])" using sample_enter [of 1 "[1]"] by simp
  moreover have "sample_step (pool_at [] [] [1] [0, 2]) (pool_at [] [] [] [0, 2, 1])" using sample_finish [of 1 "[]" "[]" "[0, 2]"] by simp
  ultimately show ?thesis using sample_run_fins by (meson rtranclp.rtrancl_into_rtrancl)
qed

subsection \<open>What the pool is given\<close>

lemma start_run_pools:
  assumes "start_run start cfg has_run_job token bp datasets from_date to_date track_a latest_only = Inr (Dispatch res jobs)"
  obtains general fins where "jobs = general @ fins" "\<forall>s \<in> set general. sj_pool s = rate_pool_general" "\<forall>s \<in> set fins. sj_pool s = rate_pool_fins"
proof -
  obtain queued where "jobs = filter (\<lambda>s. sj_pool s = rate_pool_general) queued @ filter (\<lambda>s. sj_pool s = rate_pool_fins) queued"
    using assms by (auto simp: start_run_def bind_res_Inr_iff Let_def split: if_splits)
  then show ?thesis by (rule that) auto
qed

lemma executed_all: "raised_errors s = [] \<Longrightarrow> length (executed_rows s) = length (ps_log s)"
proof -
  have "length (List.map_filter (\<lambda>(i, r). case r of Inl _ \<Rightarrow> None | Inr (j, row) \<Rightarrow> Some row) l) = length l"
    if "List.map_filter (\<lambda>(i, r). case r of Inl x \<Rightarrow> Some x | Inr _ \<Rightarrow> None) l = []" for l :: "(nat \<times> dispatch_outcome) list"
    using that by (induction l) (auto simp: map_filter_simps split: sum.splits)
  then show "raised_errors s = [] \<Longrightarrow> length (executed_rows s) = length (ps_log s)" by (simp add: raised_errors_def executed_rows_def)
qed

lemma pool_threads_int: "int (pool_threads cfg) = max 1 (sc_general_workers cfg) + max 1 (sc_fins_workers cfg)"
  by (simp add: pool_threads_def pool_cap_def rate_pool_general_def rate_pool_fins_def max_def)

subsection \<open>Properties of the scheduler\<close>

text \<open>C33: Every queued job is dispatched once. Whatever the threads do and whatever the jobs answer, the pool is never stuck before it is done, a
  run of the pool has at most three steps for each job, and when it is done the log holds each submitted job exactly once, with the
  outcome of its own dispatch; a run that returns has a row for every job.\<close>

theorem pool_dispatches_each_job_once:
  assumes "(pool_step cfg sf py_str jobs)\<^sup>*\<^sup>* (submitted cfg jobs) s"
  shows "(pool_done s \<or> (\<exists>t. pool_step cfg sf py_str jobs s t))
    \<and> (\<forall>n t. (pool_step cfg sf py_str jobs ^^ n) s t \<longrightarrow> n \<le> 3 * length jobs)
    \<and> (pool_done s \<longrightarrow> distinct (map fst (ps_log s)) \<and> set (map fst (ps_log s)) = {..<length jobs})
    \<and> (\<forall>(i, r) \<in> set (ps_log s). \<exists>t0 t1 answer wrote. (wrote \<or> sf) \<and> r = dispatch py_str (jobs ! i) t0 t1 answer wrote)
    \<and> (\<forall>res out. pool_done s \<and> finish_run res s = Inr out \<longrightarrow> length (sr_executed out) = length jobs)"
proof -
  have inv: "pool_inv cfg sf py_str jobs s" by (rule reachable_inv [OF assms])
  obtain m where "(pool_step cfg sf py_str jobs ^^ m) (submitted cfg jobs) s" using assms by (auto simp: rtranclp_power)
  then have "work_left s \<le> 3 * length jobs" using steps_work [of m] by (force simp: work_left_def submitted_def)
  then have "\<forall>n t. (pool_step cfg sf py_str jobs ^^ n) s t \<longrightarrow> n \<le> 3 * length jobs" using steps_work by fastforce
  moreover have once: "distinct (map fst (ps_log s)) \<and> set (map fst (ps_log s)) = {..<length jobs}" if "pool_done s"
  proof -
    obtain k where "k \<le> length jobs" "ps_waiting s = [k..<length jobs]" "set (taken s) = {..<k}" using inv unfolding pool_inv_def by blast
    then have "set (taken s) = {..<length jobs}" "distinct (taken s)" using inv that by (auto simp: pool_done_def pool_inv_def)
    then show ?thesis using that by (simp add: taken_def pool_done_def)
  qed
  moreover have "length (sr_executed out) = length jobs" if "pool_done s" "finish_run res s = Inr out" for res out
  proof -
    have "length (ps_log s) = length jobs" using once [OF that(1)] distinct_card [of "map fst (ps_log s)"] by simp
    then show ?thesis using that(2) executed_all [of s] by (auto simp: finish_run_def split: if_splits)
  qed
  ultimately show ?thesis using pool_progress [OF inv] inv by (auto simp: pool_inv_def)
qed

theorem pool_dispatches_each_job_once_witness:
  "pool_done (pool_at [] [] [] [0, 2, 1]) \<and> set (map fst (ps_log (pool_at [] [] [] [0, 2, 1]))) = {..<length sample_jobs}"
proof -
  have "pool_done (pool_at [] [] [] [0, 2, 1])" by (simp add: pool_done_def pool_at_def)
  then show ?thesis using pool_dispatches_each_job_once [OF sample_run_done] by blast
qed

text \<open>C34: The semaphores keep the caps of the rate pools. In every reachable state, also after jobs that raised, the free permits of a semaphore and
  the running jobs of its pool add up to the configured number of workers, one at least: no permit is lost or gained, so a pool never runs more
  jobs than its cap. The jobs that hold a thread are at most the sum of both numbers, and no job is in two places.\<close>

theorem pool_caps_hold:
  assumes "(pool_step cfg sf py_str jobs)\<^sup>*\<^sup>* (submitted cfg jobs) s"
  shows "int (ps_gen_sem s) + int (length (filter (\<lambda>i. sj_pool (jobs ! i) = rate_pool_general) (ps_running s))) = max 1 (sc_general_workers cfg)
    \<and> int (ps_fins_sem s) + int (length (filter (\<lambda>i. sj_pool (jobs ! i) \<noteq> rate_pool_general) (ps_running s))) = max 1 (sc_fins_workers cfg)
    \<and> int (length (ps_blocked s) + length (ps_running s)) \<le> max 1 (sc_general_workers cfg) + max 1 (sc_fins_workers cfg)
    \<and> distinct (ps_waiting s @ ps_blocked s @ ps_running s @ map fst (ps_log s))"
proof -
  have inv: "pool_inv cfg sf py_str jobs s" by (rule reachable_inv [OF assms])
  then obtain k where "ps_waiting s = [k..<length jobs]" "set (taken s) = {..<k}" "distinct (taken s)" unfolding pool_inv_def by blast
  then have "distinct (ps_waiting s @ taken s)" unfolding distinct_append by (metis atLeastLessThan_iff disjoint_iff distinct_upt lessThan_iff not_less set_upt)
  moreover have "sem_value pool s + length (running_in jobs pool s) = pool_cap cfg pool" for pool by (rule pool_inv_permits [OF inv])
  from this [of rate_pool_general] this [of rate_pool_fins]
  have "int (ps_gen_sem s) + int (length (filter (\<lambda>i. sj_pool (jobs ! i) = rate_pool_general) (ps_running s))) = max 1 (sc_general_workers cfg)"
    "int (ps_fins_sem s) + int (length (filter (\<lambda>i. sj_pool (jobs ! i) \<noteq> rate_pool_general) (ps_running s))) = max 1 (sc_fins_workers cfg)"
    by (auto simp: sem_value_def running_in_def pool_cap_def rate_pool_fins_def rate_pool_general_def)
  moreover have "length (ps_blocked s) + length (ps_running s) \<le> pool_threads cfg" using inv by (simp add: pool_inv_def)
  then have "int (length (ps_blocked s) + length (ps_running s)) \<le> max 1 (sc_general_workers cfg) + max 1 (sc_fins_workers cfg)"
    using pool_threads_int [of cfg] by linarith
  ultimately show ?thesis by (simp add: taken_def)
qed

theorem pool_caps_hold_witness:
  "sample_step\<^sup>*\<^sup>* (submitted sample_config sample_jobs) (pool_at [2] [1] [0] [])
    \<and> int (ps_gen_sem (pool_at [2] [1] [0] []))
        + int (length (filter (\<lambda>i. sj_pool (sample_jobs ! i) = rate_pool_general) (ps_running (pool_at [2] [1] [0] [])))) = max 1 (sc_general_workers sample_config)"
  using pool_caps_hold [OF sample_run_blocked] sample_run_blocked by blast

text \<open>C35: The pools do not run side by side. The jobs a run hands to the executor have the general ones first, and the executor takes them in
  order, so when a job of the fins pool has a thread or is finished, every general job was taken; and while it has a thread, fewer general jobs than the
  sum of both worker numbers are unfinished, since general jobs that wait for their semaphore hold threads.\<close>

theorem fins_waits_for_general:
  assumes "start_run start cfg has_run_job token bp datasets from_date to_date track_a latest_only = Inr (Dispatch res jobs)"
    "(pool_step cfg sf py_str jobs)\<^sup>*\<^sup>* (submitted cfg jobs) s"
    "i \<in> set (ps_blocked s @ ps_running s @ map fst (ps_log s))" "sj_pool (jobs ! i) = rate_pool_fins"
  shows "{j. j < length jobs \<and> sj_pool (jobs ! j) = rate_pool_general} \<subseteq> set (ps_blocked s @ ps_running s @ map fst (ps_log s))
    \<and> (i \<in> set (ps_blocked s @ ps_running s) \<longrightarrow>
        int (card {j. j < length jobs \<and> sj_pool (jobs ! j) = rate_pool_general \<and> j \<notin> set (map fst (ps_log s))})
          < max 1 (sc_general_workers cfg) + max 1 (sc_fins_workers cfg))"
proof -
  let ?act = "set (ps_blocked s @ ps_running s)" and ?left = "{j. j < length jobs \<and> sj_pool (jobs ! j) = rate_pool_general \<and> j \<notin> set (map fst (ps_log s))}"
  have inv: "pool_inv cfg sf py_str jobs s" by (rule reachable_inv [OF assms(2)])
  then obtain k where k: "set (taken s) = {..<k}" "k \<le> length jobs" unfolding pool_inv_def by blast
  obtain general fins where jobs: "jobs = general @ fins" "\<forall>s \<in> set general. sj_pool s = rate_pool_general" "\<forall>s \<in> set fins. sj_pool s = rate_pool_fins"
    by (rule start_run_pools [OF assms(1)])
  have ne: "rate_pool_general \<noteq> rate_pool_fins" by (simp add: rate_pool_general_def rate_pool_fins_def)
  have "i < k" using k(1) assms(3) by (auto simp: taken_def)
  moreover have "length general \<le> i" using jobs assms(4) ne by (metis leI nth_append nth_mem)
  moreover have "j < length general" if "j < length jobs" "sj_pool (jobs ! j) = rate_pool_general" for j
    using that jobs ne by (metis add_diff_inverse_nat length_append nat_add_left_cancel_less nth_append nth_mem)
  ultimately have sub: "{j. j < length jobs \<and> sj_pool (jobs ! j) = rate_pool_general} \<subseteq> set (taken s)" unfolding k(1) by force
  have "int (card ?left) < max 1 (sc_general_workers cfg) + max 1 (sc_fins_workers cfg)" if i: "i \<in> ?act"
  proof -
    have "?left \<subseteq> ?act - {i}" using sub assms(4) ne by (auto simp: taken_def)
    then have "card ?left < card ?act" using i by (intro psubset_card_mono) auto
    also have "card ?act \<le> length (ps_blocked s @ ps_running s)" by (rule card_length)
    also have "length (ps_blocked s @ ps_running s) \<le> pool_threads cfg" using inv by (simp add: pool_inv_def)
    finally show ?thesis using pool_threads_int [of cfg] by linarith
  qed
  then show ?thesis using sub by (simp add: taken_def)
qed

theorem fins_waits_for_general_witness:
  "\<exists>res. start_run (\<lambda>_. []) sample_config True ''t'' sample_plan_jobs [] None None False False = Inr (Dispatch res sample_jobs)
    \<and> sj_pool (sample_jobs ! 2) = rate_pool_fins \<and> 2 \<in> set (ps_blocked (pool_at [] [1, 2] [] [0]))
    \<and> {j. j < length sample_jobs \<and> sj_pool (sample_jobs ! j) = rate_pool_general}
        \<subseteq> set (ps_blocked (pool_at [] [1, 2] [] [0]) @ ps_running (pool_at [] [1, 2] [] [0]) @ map fst (ps_log (pool_at [] [1, 2] [] [0])))"
proof -
  let ?s = "pool_at [] [1, 2] [] [0]"
  obtain res where res: "start_run (\<lambda>_. []) sample_config True ''t'' sample_plan_jobs [] None None False False = Inr (Dispatch res sample_jobs)"
    using sample_run_starts by blast
  have "2 \<in> set (ps_blocked ?s)" by (simp add: pool_at_def)
  then show ?thesis using fins_waits_for_general [OF res sample_run_fins, of 2] res by auto
qed

end
