(* ===== verification/PyDatetime.thy ===== *)
theory PyDatetime
  imports PyDate PyBytes
begin

section \<open>Python instants with an offset\<close>

text \<open>
  \<open>datetime.fromisoformat\<close> of Python 3.11 and 3.12 on arbitrary text: where the date ends, the time with or without
  separators, fractions cut after six digits, and an offset of any precision below a day. A whole-second offset of zero is UTC. Beside it the
  encodings the strict readers of signed documents use: \<open>json.dumps(..., ensure_ascii=False)\<close> as UTF-8 and the detection of the encoding of
  JSON bytes. Code points above 255 are outside the model and are refused.
\<close>

record py_datetime =
  dt_at :: instant
  dt_offset :: "int option"

text \<open>The position of the separator between date and time.\<close>

definition digit_run :: "string \<Rightarrow> nat" where
  "digit_run s = length (takeWhile (\<lambda>c. char_digit c \<noteq> None) s)"

definition date_end :: "string \<Rightarrow> nat option" where
  "date_end s =
     (if length s < 7 then None
      else if length s = 7 then Some 7
      else if s ! 4 = CHR ''-'' then
        (if s ! 5 = CHR ''W'' then
           (if 8 < length s \<and> s ! 8 = CHR ''-'' then
              (if length s = 9 then None else if 10 < length s \<and> char_digit (s ! 10) \<noteq> None then Some 8 else Some 10)
            else Some 8)
         else Some 10)
      else if s ! 4 = CHR ''W'' then
        (let pos = 7 + digit_run (drop 7 s) in if pos < 9 then Some pos else if pos mod 2 = 0 then Some 7 else Some 8)
      else Some 8)"

text \<open>Two-digit groups up to the end \<open>e\<close> of the part: either the part is finished, and whether a character stands after the last group, or the
  fraction starts at a position. The digits after the end belong to the next part.\<close>

fun clock_groups :: "nat \<Rightarrow> string \<Rightarrow> nat \<Rightarrow> bool \<Rightarrow> bool \<Rightarrow> nat \<Rightarrow> nat list \<Rightarrow> (nat list \<times> (bool + nat)) option" where
  "clock_groups 0 s e first sep p vs = Some (vs, Inr p)"
| "clock_groups (Suc k) s e first sep p vs =
     (case digits_at s p 2 of
        None \<Rightarrow> None
      | Some d \<Rightarrow>
          let c = char_at s (p + 2); colon = (if first then c = Some CHR '':'' else sep); ws = vs @ [d] in
          if e \<le> p + 3 then Some (ws, Inl (c \<noteq> None))
          else if colon \<and> c = Some CHR '':'' then clock_groups k s e False colon (p + 3) ws
          else if c = Some CHR ''.'' \<or> c = Some CHR '','' then Some (ws, Inr (p + 3))
          else if \<not> colon then clock_groups k s e False colon (p + 2) ws
          else None)"

definition field_at :: "nat list \<Rightarrow> nat \<Rightarrow> nat" where
  "field_at vs i = (if i < length vs then vs ! i else 0)"

text \<open>Hour, minute, second and microsecond of a part, and whether text is left after it.\<close>

definition clock_part :: "string \<Rightarrow> nat \<Rightarrow> nat \<Rightarrow> (nat \<times> nat \<times> nat \<times> nat \<times> bool) option" where
  "clock_part s p e =
     (case clock_groups 3 s e True True p [] of
        None \<Rightarrow> None
      | Some (vs, Inl lft) \<Rightarrow> Some (field_at vs 0, field_at vs 1, field_at vs 2, 0, lft)
      | Some (vs, Inr q) \<Rightarrow>
          let n = min (e - q) 6 in
          (case digits_at s q n of
             None \<Rightarrow> None
           | Some f \<Rightarrow> Some (field_at vs 0, field_at vs 1, field_at vs 2, f * 10 ^ (6 - n), q + n + digit_run (drop (q + n) s) < length s)))"

definition offset_of :: "bool \<Rightarrow> nat \<Rightarrow> nat \<Rightarrow> nat \<Rightarrow> nat \<Rightarrow> int option" where
  "offset_of negative h m sec us =
     (let whole = (h * 60 + m) * 60 + sec; t = (if whole = 0 then 0 else whole * 1000000 + us) in
      if t < 86400 * 1000000 then Some (if negative then - int t else int t) else None)"

definition mk_datetime :: "date \<Rightarrow> nat \<times> nat \<times> nat \<times> nat \<Rightarrow> int option \<Rightarrow> py_datetime option" where
  "mk_datetime d f off =
     (case f of (h, m, sec, us) \<Rightarrow>
        let t = \<lparr>on_day = d, hour = h, minute = m, second = sec, microsecond = us\<rparr> in
        if valid_instant t then Some \<lparr>dt_at = t, dt_offset = off\<rparr> else None)"

definition datetime_fromisoformat :: "string \<Rightarrow> py_datetime option" where
  "datetime_fromisoformat s =
     (case date_end s of
        None \<Rightarrow> None
      | Some k \<Rightarrow>
          (case fromisoformat (take k s) of
             None \<Rightarrow> None
           | Some d \<Rightarrow>
               if length s \<le> k then mk_datetime d (0, 0, 0, 0) None
               else let t = drop (Suc k) s; z = length (takeWhile (\<lambda>c. c \<notin> set ''+-Z'') t) in
                 (case clock_part t 0 z of
                    None \<Rightarrow> None
                  | Some (h, m, sec, us, lft) \<Rightarrow>
                      if z = length t then (if lft then None else mk_datetime d (h, m, sec, us) None)
                      else if t ! z = CHR ''Z'' then (if Suc z = length t then mk_datetime d (h, m, sec, us) (Some 0) else None)
                      else (case clock_part t (Suc z) (length t) of
                              None \<Rightarrow> None
                            | Some (oh, om, osec, ous, olft) \<Rightarrow>
                                if olft then None
                                else (case offset_of (t ! z = CHR ''-'') oh om osec ous of
                                        None \<Rightarrow> None
                                      | Some off \<Rightarrow> mk_datetime d (h, m, sec, us) (Some off))))))"

text \<open>The instant an aware value stands for, in microseconds; a value without an offset has none.\<close>

definition stamp :: "py_datetime \<Rightarrow> int option" where
  "stamp x = map_option (\<lambda>off. int (micros (dt_at x)) - off) (dt_offset x)"

text \<open>\<open>s.replace("Z", "+00:00")\<close>.\<close>

definition zulu_offset :: "string \<Rightarrow> string" where
  "zulu_offset s = concat (map (\<lambda>c. if c = CHR ''Z'' then ''+00:00'' else [c]) s)"

subsection \<open>Text and bytes\<close>

definition utf8_encode :: "string \<Rightarrow> string" where
  "utf8_encode s = concat (map (\<lambda>c. let n = (of_char c :: nat) in if n < 128 then [c] else [char_of (192 + n div 64), char_of (128 + n mod 64)]) s)"

definition raw_escape :: "char \<Rightarrow> string" where
  "raw_escape c = (if 126 < (of_char c :: nat) then [c] else escape_char c)"

definition raw_string :: "string \<Rightarrow> string" where
  "raw_string s = quote # concat (map raw_escape s) @ [quote]"

fun raw_dumps :: "json \<Rightarrow> string" where
  "raw_dumps (JStr s) = raw_string s"
| "raw_dumps (JArr vs) = CHR ''['' # intercalate '','' (map raw_dumps vs) @ '']''"
| "raw_dumps (JObj ps) =
     CHR ''{'' # intercalate '','' (map (\<lambda>(k, t). raw_string k @ '':'' @ t) (sort_key fst (map (\<lambda>(k, v). (k, raw_dumps v)) ps))) @ ''}''"
| "raw_dumps v = json_dumps v"

text \<open>\<open>json.detect_encoding\<close> and the decoding of the bytes. An encoding is the width of a unit and whether the low byte comes first.\<close>

fun units :: "nat \<Rightarrow> bool \<Rightarrow> string \<Rightarrow> string option" where
  "units w little s =
     (if s = [] \<or> w = 0 then Some []
      else let u = take w s; low = (if little then hd u else last u); high = (if little then tl u else butlast u) in
        if length u = w \<and> (\<forall>c \<in> set high. c = char_of (0 :: nat)) then map_option (Cons low) (units w little (drop w s)) else None)"

declare units.simps [simp del]

definition zero_byte :: char where "zero_byte = char_of (0 :: nat)"

definition bytes_of :: "nat list \<Rightarrow> string" where "bytes_of ns = map char_of ns"

definition json_bytes_text :: "string \<Rightarrow> string option" where
  "json_bytes_text b =
     (if startswith b (bytes_of [0, 0, 254, 255]) then units 4 False (drop 4 b)
      else if startswith b (bytes_of [255, 254, 0, 0]) then units 4 True (drop 4 b)
      else if startswith b (bytes_of [254, 255]) then units 2 False (drop 2 b)
      else if startswith b (bytes_of [255, 254]) then units 2 True (drop 2 b)
      else if startswith b (bytes_of [239, 187, 191]) then utf8_decode (drop 3 b)
      else if 4 \<le> length b \<and> b ! 0 = zero_byte then (if b ! 1 \<noteq> zero_byte then units 2 False b else units 4 False b)
      else if 4 \<le> length b \<and> b ! 1 = zero_byte then (if b ! 2 \<noteq> zero_byte \<or> b ! 3 \<noteq> zero_byte then units 2 True b else units 4 True b)
      else if length b = 2 \<and> b ! 0 = zero_byte then units 2 False b
      else if length b = 2 \<and> b ! 1 = zero_byte then units 2 True b
      else utf8_decode b)"

subsection \<open>Printed instants read back\<close>

lemma zpad_digits: "c \<in> set (zpad w n) \<Longrightarrow> char_digit c \<noteq> None"
  by (induction w arbitrary: n) auto

definition fraction_text :: "nat \<Rightarrow> string" where
  "fraction_text us = (if us = 0 then [] else ''.'' @ zpad 6 us)"

definition clock_text :: "instant \<Rightarrow> string" where
  "clock_text t = zpad 2 (hour t) @ '':'' @ zpad 2 (minute t) @ '':'' @ zpad 2 (second t) @ fraction_text (microsecond t)"

lemma iso_utc_clock: "iso_utc t = isoformat (on_day t) @ CHR ''T'' # clock_text t @ ''+00:00''"
  by (simp add: iso_utc_def clock_text_def fraction_text_def)

lemma clock_chars:
  assumes "c \<in> set (clock_text t)"
  shows "c \<notin> set ''+-Z''"
proof -
  have "char_digit (CHR ''+'') = None" "char_digit (CHR ''-'') = None" "char_digit (CHR ''Z'') = None" by code_simp+
  then show ?thesis using assms by (auto simp: clock_text_def fraction_text_def dest!: zpad_digits split: if_splits)
qed

lemma clock_digits:
  assumes "valid_instant t"
  shows "digits_at (clock_text t @ r) 0 2 = Some (hour t)" "char_at (clock_text t @ r) 2 = Some CHR '':''"
    "digits_at (clock_text t @ r) 3 2 = Some (minute t)" "char_at (clock_text t @ r) 5 = Some CHR '':''"
    "digits_at (clock_text t @ r) 6 2 = Some (second t)" "microsecond t \<noteq> 0 \<Longrightarrow> char_at (clock_text t @ r) 8 = Some CHR ''.''"
    "microsecond t \<noteq> 0 \<Longrightarrow> digits_at (clock_text t @ r) 9 6 = Some (microsecond t)"
    "microsecond t = 0 \<Longrightarrow> char_at (clock_text t @ CHR ''+'' # r) 8 = Some CHR ''+''"
proof -
  let ?h = "zpad 2 (hour t)" and ?m = "zpad 2 (minute t)" and ?s = "zpad 2 (second t)" and ?f = "fraction_text (microsecond t)"
  have v: "hour t < 10 ^ 2" "minute t < 10 ^ 2" "second t < 10 ^ 2" "microsecond t < 10 ^ 6" using assms by (auto simp: valid_instant_def)
  show "digits_at (clock_text t @ r) 0 2 = Some (hour t)" using digits_at_zpad [OF v(1)] by (simp add: clock_text_def)
  show "char_at (clock_text t @ r) 2 = Some CHR '':''" using char_at_append [of ?h 2] by (simp add: clock_text_def)
  show "digits_at (clock_text t @ r) 3 2 = Some (minute t)"
    using digits_at_append [of "?h @ '':''" 3] digits_at_zpad [OF v(2)] by (simp add: clock_text_def)
  show "char_at (clock_text t @ r) 5 = Some CHR '':''" using char_at_append [of "?h @ '':'' @ ?m" 5] by (simp add: clock_text_def)
  show "digits_at (clock_text t @ r) 6 2 = Some (second t)"
    using digits_at_append [of "?h @ '':'' @ ?m @ '':''" 6] digits_at_zpad [OF v(3)] by (simp add: clock_text_def)
  show "char_at (clock_text t @ r) 8 = Some CHR ''.''" if "microsecond t \<noteq> 0"
    using char_at_append [of "?h @ '':'' @ ?m @ '':'' @ ?s" 8] that by (simp add: clock_text_def fraction_text_def)
  show "digits_at (clock_text t @ r) 9 6 = Some (microsecond t)" if "microsecond t \<noteq> 0"
    using digits_at_append [of "?h @ '':'' @ ?m @ '':'' @ ?s @ ''.''" 9] digits_at_zpad [OF v(4)] that by (simp add: clock_text_def fraction_text_def)
  show "char_at (clock_text t @ CHR ''+'' # r) 8 = Some CHR ''+''" if "microsecond t = 0"
    using char_at_append [of "?h @ '':'' @ ?m @ '':'' @ ?s" 8] that by (simp add: clock_text_def fraction_text_def)
qed

lemma clock_groups_3: "clock_groups 3 s e first sep p vs = clock_groups (Suc (Suc (Suc 0))) s e first sep p vs"
  by (simp only: numeral_3_eq_3)

lemma length_clock: "length (clock_text t) = (if microsecond t = 0 then 8 else 15)"
  by (simp add: clock_text_def fraction_text_def)

lemma clock_part_clock:
  assumes "valid_instant t"
  shows "clock_part (clock_text t @ CHR ''+'' # r) 0 (length (clock_text t)) = Some (hour t, minute t, second t, microsecond t, True)"
proof (cases "microsecond t = 0")
  case True
  have "clock_groups 3 (clock_text t @ CHR ''+'' # r) 8 True True 0 [] = Some ([hour t, minute t, second t], Inl True)"
    using clock_digits [OF assms, of "CHR ''+'' # r"] clock_digits(8) [OF assms True, of r] unfolding clock_groups_3 by (simp add: Let_def del: add_2_eq_Suc add_2_eq_Suc')
  then show ?thesis using True by (simp add: clock_part_def length_clock field_at_def)
next
  case False
  have d: "char_digit (CHR ''+'') = None" by code_simp
  have "clock_groups 3 (clock_text t @ CHR ''+'' # r) 15 True True 0 [] = Some ([hour t, minute t, second t], Inr 9)"
    using clock_digits [OF assms, of "CHR ''+'' # r"] clock_digits(6) [OF assms False, of "CHR ''+'' # r"] unfolding clock_groups_3 by (simp add: Let_def del: add_2_eq_Suc add_2_eq_Suc')
  moreover have "digits_at (clock_text t @ CHR ''+'' # r) 9 6 = Some (microsecond t)" using clock_digits(7) [OF assms False] .
  moreover have "drop 15 (clock_text t @ CHR ''+'' # r) = CHR ''+'' # r" using length_clock [of t] False by simp
  ultimately show ?thesis using False d by (simp add: clock_part_def length_clock field_at_def digit_run_def)
qed

lemma clock_groups_colon:
  "digits_at s p 2 = Some d \<Longrightarrow> char_at s (p + 2) = Some CHR '':'' \<Longrightarrow> p + 3 < e \<Longrightarrow> clock_groups (Suc k) s e True sep p vs = clock_groups k s e False True (p + 3) (vs @ [d])"
  by (simp add: Let_def)

lemma clock_groups_last:
  "digits_at s p 2 = Some d \<Longrightarrow> e \<le> p + 3 \<Longrightarrow> clock_groups (Suc k) s e first sep p vs = Some (vs @ [d], Inl (char_at s (p + 2) \<noteq> None))"
  by (simp add: Let_def)

lemma clock_part_zero: "clock_part (v @ ''+00:00'') (Suc (length v)) (length v + 6) = Some (0, 0, 0, 0, False)"
proof -
  have d: "digits_at ''00:00'' 0 2 = Some 0" "digits_at ''00'' 0 2 = Some 0" by code_simp+
  have a: "digits_at (v @ ''+00:00'') (Suc (length v)) 2 = Some 0" using digits_at_append [of "v @ ''+''" "Suc (length v)" "''00:00''" 2] d by simp
  have b: "digits_at (v @ ''+00:00'') (Suc (length v) + 3) 2 = Some 0" using digits_at_append [of "v @ ''+00:''" "length v + 4" "''00''" 2] d by (simp add: add.commute)
  have c: "char_at (v @ ''+00:00'') (Suc (length v) + 2) = Some CHR '':''" using char_at_append [of "v @ ''+00''" "Suc (length v) + 2" "CHR '':''" "''00''"] by simp
  have n: "char_at (v @ ''+00:00'') (Suc (length v) + 3 + 2) = None" by (simp add: char_at_def)
  have "clock_groups 3 (v @ ''+00:00'') (length v + 6) True True (Suc (length v)) []
      = clock_groups (Suc (Suc 0)) (v @ ''+00:00'') (length v + 6) False True (Suc (length v) + 3) ([] @ [0])"
    unfolding clock_groups_3 by (rule clock_groups_colon [OF a c]) simp
  also have "\<dots> = Some (([] @ [0]) @ [0], Inl (char_at (v @ ''+00:00'') (Suc (length v) + 3 + 2) \<noteq> None))"
    by (rule clock_groups_last [OF b]) simp
  finally have "clock_groups 3 (v @ ''+00:00'') (length v + 6) True True (Suc (length v)) [] = Some ([0, 0], Inl False)" using n by simp
  then show ?thesis by (simp add: clock_part_def field_at_def)
qed

lemma datetime_iso_utc:
  assumes "valid_instant t"
  shows "datetime_fromisoformat (iso_utc t) = Some \<lparr>dt_at = t, dt_offset = Some 0\<rparr>"
proof -
  let ?u = "clock_text t @ ''+00:00''" and ?z = "length (clock_text t)"
  have day: "valid_date (on_day t)" using assms by (simp add: valid_instant_def)
  have d: "take 10 (iso_utc t) = isoformat (on_day t)" "drop 11 (iso_utc t) = ?u" "10 < length (iso_utc t)" by (simp_all add: iso_utc_clock)
  have "char_at (isoformat (on_day t)) 4 = Some CHR ''-''" unfolding isoformat_def by (simp add: char_at_append)
  then have c4: "iso_utc t ! 4 = CHR ''-''" using d by (simp add: iso_utc_clock nth_append char_at_def)
  have "digits_at (isoformat (on_day t)) 5 2 = Some (month_of (on_day t))"
    using digits_at_append [of "zpad 4 (year_of (on_day t)) @ ''-''" 5] digits_at_zpad [OF valid_date_widths(2) [OF day]] by (simp add: isoformat_def)
  then have "char_at (isoformat (on_day t)) 5 \<noteq> Some CHR ''W''" by (rule digits_at_no_W) simp
  then have c5: "iso_utc t ! 5 \<noteq> CHR ''W''" using d by (simp add: iso_utc_clock nth_append char_at_def)
  have "date_end (iso_utc t) = Some 10" using c4 c5 d(3) by (simp add: date_end_def)
  moreover have "takeWhile (\<lambda>c. c \<notin> set ''+-Z'') ?u = clock_text t" using clock_chars by (subst takeWhile_append2) auto
  moreover have "clock_part ?u 0 ?z = Some (hour t, minute t, second t, microsecond t, True)" using clock_part_clock [OF assms] by simp
  moreover have "length ?u = ?z + 6" by simp
  then have "clock_part ?u (Suc ?z) (length ?u) = Some (0, 0, 0, 0, False)" using clock_part_zero [of "clock_text t"] by (simp only:)
  moreover have "?u ! ?z = CHR ''+''" by simp
  moreover have "valid_instant \<lparr>on_day = on_day t, hour = hour t, minute = minute t, second = second t, microsecond = microsecond t\<rparr>"
    using assms by (simp add: valid_instant_def)
  ultimately show ?thesis using d day
    by (simp add: datetime_fromisoformat_def Let_def offset_of_def mk_datetime_def)
qed

lemma zulu_iso_utc: "zulu_offset (iso_utc t) = iso_utc t"
proof -
  have z: "char_digit (CHR ''Z'') = None" by code_simp
  have "CHR ''Z'' \<notin> set (isoformat d)" for d using z by (auto simp: isoformat_def dest: zpad_digits)
  then have n: "CHR ''Z'' \<notin> set (iso_utc t)" using clock_chars [of "CHR ''Z''" t] by (auto simp: iso_utc_clock)
  have "concat (map (\<lambda>c. if c = CHR ''Z'' then ''+00:00'' else [c]) s) = s" if "CHR ''Z'' \<notin> set s" for s using that by (induction s) auto
  then show ?thesis using n by (simp add: zulu_offset_def)
qed

lemma datetime_valid: "datetime_fromisoformat s = Some x \<Longrightarrow> valid_instant (dt_at x)"
  by (auto simp: datetime_fromisoformat_def mk_datetime_def Let_def split: option.splits if_splits prod.splits)

end
