(* ===== verification/PilotContracts.thy ===== *)
theory PilotContracts
  imports PyDatetime ReceiptCrypto LedgerJson
begin

section \<open>Contracts of the controlled pilot\<close>

text \<open>
  \<open>research_runtime/paper_runtime/canonical_utc.py\<close>, \<open>product/selection/controlled_pilot_policy.py\<close> and
  \<open>product/execution/controlled_fill_contract.py\<close>: canonical UTC times and the validity window of a key, the policy pinned by its raw and its
  canonical digest, and the closed fill contract. The contents of the policy file is an argument (\<open>None\<close> when it cannot be read).
\<close>

datatype pilot_error =
    PolicyError string
  | FillError string
  | UtcError string
  | MassDisabled string
  | BatchError string
  | PlTypeError string
  | PlValueError string
  | PlNameError string
  | PlIndexError
  | PlOverflowError

type_synonym 'a pilot = "(pilot_error, 'a) result"

text \<open>\<open>str\<close> of the exception.\<close>

fun error_text :: "pilot_error \<Rightarrow> string" where
  "error_text (PolicyError m) = m"
| "error_text (FillError m) = m"
| "error_text (UtcError m) = m"
| "error_text (MassDisabled m) = m"
| "error_text (BatchError m) = m"
| "error_text (PlTypeError m) = m"
| "error_text (PlValueError m) = m"
| "error_text (PlNameError m) = m"
| "error_text PlIndexError = ''list index out of range''"
| "error_text PlOverflowError = ''date value out of range''"

subsection \<open>Canonical UTC times\<close>

definition utc_tail :: "string \<Rightarrow> bool" where
  "utc_tail r \<longleftrightarrow> r = ''Z'' \<or> r = ''+00:00''"

definition fits_pattern :: "char \<Rightarrow> char \<Rightarrow> bool" where
  "fits_pattern p c \<longleftrightarrow> (if p = CHR ''d'' then char_digit c \<noteq> None else c = p)"

definition canonical_utc_form :: "string \<Rightarrow> bool" where
  "canonical_utc_form s \<longleftrightarrow>
     list_all2 fits_pattern ''dddd-dd-ddTdd:dd:dd'' (take 19 s)
     \<and> (let r = drop 19 s in
        utc_tail r \<or> r \<noteq> [] \<and> hd r = CHR ''.'' \<and> (let n = digit_run (tl r) in 1 \<le> n \<and> n \<le> 9 \<and> utc_tail (drop n (tl r))))"

text \<open>A value of offset zero equals the calendar value rebuilt from its fields, so that comparison never fails.\<close>

definition parse_canonical_utc :: "json \<Rightarrow> string \<Rightarrow> instant pilot" where
  "parse_canonical_utc v label =
     (case v of
        JStr s \<Rightarrow>
          if \<not> canonical_utc_form s then Inl (UtcError (label @ '' is not a canonical UTC timestamp''))
          else (case datetime_fromisoformat (if last s = CHR ''Z'' then butlast s @ ''+00:00'' else s) of
                  None \<Rightarrow> Inl (UtcError (label @ '' is not a canonical UTC timestamp''))
                | Some x \<Rightarrow> if dt_offset x \<noteq> Some 0 then Inl (UtcError (label @ '' must be UTC'')) else Inr (dt_at x))
      | _ \<Rightarrow> Inl (UtcError (label @ '' is not a canonical UTC timestamp'')))"

definition require_key_validity_window :: "instant \<Rightarrow> json \<Rightarrow> json \<Rightarrow> json \<Rightarrow> json \<Rightarrow> string \<Rightarrow> unit pilot" where
  "require_key_validity_window signed_at not_before not_after revoked_at status label =
     bind_res (parse_canonical_utc not_before (label @ ''.not_before'')) (\<lambda>start.
     bind_res (parse_canonical_utc not_after (label @ ''.not_after'')) (\<lambda>end'.
       if micros start > micros signed_at \<or> micros signed_at > micros end' then Inl (UtcError (label @ '' is outside its not_before/not_after window''))
       else if status = JStr ''revoked'' then
         (if revoked_at = JNull then Inl (UtcError (label @ '' revoked key is missing revoked_at''))
          else bind_res (parse_canonical_utc revoked_at (label @ ''.revoked_at'')) (\<lambda>revoked.
            if micros signed_at \<ge> micros revoked then Inl (UtcError (label @ '' was revoked at the signed instant''))
            else Inl (UtcError (label @ '' status is not active''))))
       else if status \<noteq> JStr ''active'' then Inl (UtcError (label @ '' status is not active''))
       else if revoked_at \<noteq> JNull then Inl (UtcError (label @ '' active key must not set revoked_at''))
       else Inr ()))"

subsection \<open>The controlled-pilot policy\<close>

definition controlled_pilot_identity :: string where "controlled_pilot_identity = ''controlled_pilot_v1''"

definition controlled_pilot_policy_id :: string where "controlled_pilot_policy_id = ''controlled-pilot-policy/v1''"

definition policy_schema_uri :: string where "policy_schema_uri = ''https://json-schema.org/draft/2020-12/schema''"

definition controlled_pilot_policy_digest :: string where
  "controlled_pilot_policy_digest = ''sha256:60fc8438f7dd4914c9fec99ae53476b9a514a80d0411b7ab07dc7e9963d5f319''"

definition controlled_pilot_policy_raw_digest :: string where
  "controlled_pilot_policy_raw_digest = ''sha256:4bf8d3a54e33776445918775b9ea1a33270098c72226f0af9fb695412ef801fc''"

definition policy_limits :: "string list" where
  "policy_limits = [''max_parallel_experiments'', ''max_generations'', ''max_model_calls'', ''max_input_tokens'', ''max_output_tokens'',
     ''max_cached_tokens'', ''max_paper_runs'', ''max_cost_usd'', ''lease_ttl_seconds'']"

definition policy_fields :: "string list" where
  "policy_fields = [''$schema'', ''policy_id'', ''policy_digest'', ''plans_exactly''] @ policy_limits @ [''automatic_promotion'']"

definition require_controlled_pilot_identity :: "json \<Rightarrow> string pilot" where
  "require_controlled_pilot_identity v =
     (if v = JStr controlled_pilot_identity then Inr controlled_pilot_identity
      else Inl (PolicyError (''controlled pilot identity must be exactly '' @ [CHR 0x27] @ controlled_pilot_identity @ [CHR 0x27])))"

definition canonical_policy_digest :: "('a crypto_env_scheme) \<Rightarrow> json \<Rightarrow> string pilot" where
  "canonical_policy_digest env v =
     (case canonical_json v of None \<Rightarrow> Inl (PolicyError ''controlled pilot policy is not canonical JSON'') | Some t \<Rightarrow> Inr (body_digest env t))"

definition positive_int :: "json \<Rightarrow> string \<Rightarrow> int pilot" where
  "positive_int v label =
     (case v of JInt n \<Rightarrow> if n < 1 then Inl (PolicyError (label @ '' must be a positive integer'')) else Inr n
      | _ \<Rightarrow> Inl (PolicyError (label @ '' must be a positive integer'')))"

record policy_pin =
  pp_schema_uri :: string
  pp_policy_id :: string
  pp_policy_digest :: string
  pp_plans_exactly :: int
  pp_limits :: "(string \<times> int) list"
  pp_automatic_promotion :: bool

definition limit_members :: "policy_pin \<Rightarrow> dict" where
  "limit_members p = map (\<lambda>(k, n). (k, JInt n)) (pp_limits p)"

definition to_digest_body :: "policy_pin \<Rightarrow> dict" where
  "to_digest_body p =
     [(''$schema'', JStr (pp_schema_uri p)), (''policy_id'', JStr (pp_policy_id p)), (''plans_exactly'', JInt (pp_plans_exactly p))]
     @ limit_members p @ [(''automatic_promotion'', JBool (pp_automatic_promotion p))]"

definition budget_scope_digest :: "('a crypto_env_scheme) \<Rightarrow> policy_pin \<Rightarrow> string pilot" where
  "budget_scope_digest env p =
     canonical_policy_digest env (JObj ([(''policy_id'', JStr (pp_policy_id p)), (''policy_digest'', JStr (pp_policy_digest p)),
       (''plans_exactly'', JInt (pp_plans_exactly p))] @ limit_members p))"

definition policy_dict :: "policy_pin \<Rightarrow> dict" where
  "policy_dict p =
     [(''policy_id'', JStr (pp_policy_id p)), (''policy_digest'', JStr (pp_policy_digest p)), (''plans_exactly'', JInt (pp_plans_exactly p))]
     @ limit_members p @ [(''automatic_promotion'', JBool (pp_automatic_promotion p))]"

text \<open>The constructor with its checks, on the values of the document.\<close>

definition mk_policy_pin :: "('a crypto_env_scheme) \<Rightarrow> dict \<Rightarrow> policy_pin pilot" where
  "mk_policy_pin env d =
     (if dict_get d ''$schema'' \<noteq> JStr policy_schema_uri then Inl (PolicyError ''controlled pilot policy schema uri is not canonical'')
      else if dict_get d ''policy_id'' \<noteq> JStr controlled_pilot_policy_id then Inl (PolicyError ''controlled pilot policy id is not canonical'')
      else if dict_get d ''policy_digest'' \<noteq> JStr controlled_pilot_policy_digest then Inl (PolicyError ''controlled pilot policy digest is not pinned'')
      else if dict_get d ''plans_exactly'' \<noteq> JInt 4 then Inl (PolicyError ''controlled pilot policy requires exactly four plans'')
      else bind_res (map_res (\<lambda>k. bind_res (positive_int (dict_get d k) k) (\<lambda>n. Inr (k, n))) policy_limits) (\<lambda>limits.
        if map_of limits ''max_generations'' \<noteq> Some 1 then Inl (PolicyError ''generation two is disabled'')
        else if dict_get d ''automatic_promotion'' \<noteq> JBool False then Inl (PolicyError ''automatic promotion is disabled'')
        else let p = \<lparr>pp_schema_uri = policy_schema_uri, pp_policy_id = controlled_pilot_policy_id, pp_policy_digest = controlled_pilot_policy_digest,
               pp_plans_exactly = 4, pp_limits = limits, pp_automatic_promotion = False\<rparr> in
          bind_res (canonical_policy_digest env (JObj (to_digest_body p))) (\<lambda>h.
            if h \<noteq> controlled_pilot_policy_digest then Inl (PolicyError ''controlled pilot policy values do not match its declared digest'')
            else Inr p)))"

definition load_controlled_pilot_policy :: "('a crypto_env_scheme) \<Rightarrow> string option \<Rightarrow> policy_pin pilot" where
  "load_controlled_pilot_policy env file =
     (case file of
        None \<Rightarrow> Inl (PolicyError ''cannot load controlled pilot policy'')
      | Some raw \<Rightarrow>
          (case utf8_decode raw of
             None \<Rightarrow> Inl (PolicyError ''cannot load controlled pilot policy'')
           | Some t \<Rightarrow>
               (case json_loads t of
                  Inl (DuplicateKey k) \<Rightarrow> Inl (PolicyError (''controlled pilot policy contains duplicate key: '' @ k))
                | Inl (NonFinite n) \<Rightarrow> Inl (PolicyError (''controlled pilot policy contains non-finite number: '' @ n))
                | Inl _ \<Rightarrow> Inl (PolicyError ''cannot load controlled pilot policy'')
                | Inr v \<Rightarrow>
                    if body_digest env raw \<noteq> controlled_pilot_policy_raw_digest then Inl (PolicyError ''controlled pilot policy raw digest is not code-pinned'')
                    else if \<not> closed_object v policy_fields then Inl (PolicyError ''controlled pilot policy fields are not closed'')
                    else (case dict_get (object_of v) ''policy_digest'' of
                            JStr declared \<Rightarrow>
                              bind_res (canonical_policy_digest env (JObj (filter (\<lambda>(k, x). k \<noteq> ''policy_digest'') (object_of v)))) (\<lambda>h.
                                if h \<noteq> declared then Inl (PolicyError ''controlled pilot policy digest mismatch'') else mk_policy_pin env (object_of v))
                          | _ \<Rightarrow> Inl (PolicyError ''policy_digest must be a string'')))))"

subsection \<open>The fill contract\<close>

definition controlled_fill_contract_body :: dict where
  "controlled_fill_contract_body =
     [(''format'', JStr ''controlled-pilot-fill-contract/v1''), (''id'', JStr ''controlled-pilot-am-signal-pm-close''), (''version'', JStr ''1.1.0''),
      (''identity'', JStr controlled_pilot_identity), (''execution_mode'', JStr ''am_signal_pm_close''), (''signal_session'', JStr ''morning_close''),
      (''signal_price_field'', JStr ''MAdjC''), (''signal_price_dataset'', JStr ''equities_bars_daily''), (''fill_session'', JStr ''afternoon_close''),
      (''fill_valuation_field'', JStr ''AAdjC''), (''fill_valuation_session'', JStr ''same_trading_date''), (''information_cutoff'', JStr ''11:30:00+09:00''),
      (''lifecycle'', JStr ''Paper''), (''price_evidence_mode'', JStr ''historical_daily_reconstruction''), (''retrospective_only'', JBool True),
      (''draft'', JBool False), (''live_trading_evidence'', JBool False), (''ready_snapshot_declared'', JBool True), (''go'', JBool False),
      (''automatic_promotion'', JBool False), (''fallback'', JBool False), (''forward_fill'', JBool False)]"

definition contract_body_fields :: "string list" where
  "contract_body_fields = map fst controlled_fill_contract_body"

definition fill_digest :: "('a crypto_env_scheme) \<Rightarrow> dict \<Rightarrow> string pilot" where
  "fill_digest env body =
     (case canonical_json (JObj body) of None \<Rightarrow> Inl (PlValueError ''Out of range float values are not JSON compliant'') | Some t \<Rightarrow> Inr (body_digest env t))"

definition controlled_fill_contract_digest :: "('a crypto_env_scheme) \<Rightarrow> string" where
  "controlled_fill_contract_digest env = body_digest env (json_dumps (JObj controlled_fill_contract_body))"

definition controlled_fill_contract :: "('a crypto_env_scheme) \<Rightarrow> dict" where
  "controlled_fill_contract env = controlled_fill_contract_body @ [(''contract_digest'', JStr (controlled_fill_contract_digest env))]"

text \<open>Fields compared by value before the body as a whole; flags are compared by identity.\<close>

definition fill_identity_fields :: "string list" where
  "fill_identity_fields = [''format'', ''id'', ''version'', ''execution_mode'', ''signal_session'', ''fill_session'', ''fill_valuation_session'', ''lifecycle'',
     ''price_evidence_mode'', ''retrospective_only'', ''draft'', ''live_trading_evidence'', ''go'', ''automatic_promotion'']"

definition require_controlled_fill_contract :: "('a crypto_env_scheme) \<Rightarrow> json \<Rightarrow> dict pilot" where
  "require_controlled_fill_contract env v =
     (case v of
        JObj d \<Rightarrow>
          if \<exists>k \<in> set (map fst d). k \<notin> set contract_body_fields \<and> k \<noteq> ''contract_digest'' then Inl (FillError ''controlled fill contract has unknown field(s)'')
          else if \<exists>k \<in> set (contract_body_fields @ [''contract_digest'']). \<not> has_key d k then Inl (FillError ''controlled fill contract missing'')
          else if dict_get d ''identity'' \<noteq> JStr controlled_pilot_identity
          then Inl (FillError (''controlled pilot identity must be exactly '' @ controlled_pilot_identity))
          else if \<exists>k \<in> set fill_identity_fields. dict_get d k \<noteq> dict_get controlled_fill_contract_body k
          then Inl (FillError ''DRAFT, next_close, or noncanonical evidence mode cannot authorize Controlled execution'')
          else let body = map (\<lambda>k. (k, dict_get d k)) contract_body_fields in
            if \<not> py_eq (JObj body) (JObj controlled_fill_contract_body) then Inl (FillError ''controlled fill contract body is not canonical'')
            else if dict_get d ''contract_digest'' \<noteq> JStr (controlled_fill_contract_digest env) then Inl (FillError ''controlled fill contract digest mismatch'')
            else bind_res (fill_digest env body) (\<lambda>h.
              if JStr h \<noteq> dict_get d ''contract_digest'' then Inl (FillError ''controlled fill contract digest mismatch'')
              else Inr (body @ [(''contract_digest'', JStr (controlled_fill_contract_digest env))]))
      | _ \<Rightarrow> Inl (FillError ''controlled fill contract must be an exact object''))"

definition require_controlled_fill_contract_digest :: "('a crypto_env_scheme) \<Rightarrow> json \<Rightarrow> string pilot" where
  "require_controlled_fill_contract_digest env v =
     (if v = JStr (controlled_fill_contract_digest env) then Inr (controlled_fill_contract_digest env)
      else Inl (FillError ''controlled fill contract digest is not canonical''))"

subsection \<open>Facts\<close>

lemma pattern_zpad: "list_all2 fits_pattern (replicate n (CHR ''d'')) (zpad n k)"
proof -
  have "fits_pattern (CHR ''d'') (zpad n k ! i)" if "i < n" for i using that zpad_digits [of "zpad n k ! i" n k] by (simp add: fits_pattern_def)
  then show ?thesis by (simp add: list_all2_conv_all_nth)
qed

lemma pattern_punct: "list_all2 fits_pattern ''-'' ''-''" "list_all2 fits_pattern ''T'' ''T''" "list_all2 fits_pattern '':'' '':''"
  by (simp_all add: fits_pattern_def)

lemma clock_seconds: "take 8 (clock_text t @ r) = zpad 2 (hour t) @ '':'' @ zpad 2 (minute t) @ '':'' @ zpad 2 (second t)"
    "drop 8 (clock_text t @ r) = fraction_text (microsecond t) @ r"
  by (simp_all add: clock_text_def)

lemma canonical_form_clock:
  assumes "utc_tail r"
  shows "canonical_utc_form (isoformat d @ CHR ''T'' # clock_text t @ r)"
proof -
  let ?s = "isoformat d @ CHR ''T'' # clock_text t @ r"
  have p: "''dddd-dd-ddTdd:dd:dd'' = replicate 4 (CHR ''d'') @ ''-'' @ replicate 2 (CHR ''d'') @ ''-'' @ replicate 2 (CHR ''d'') @ ''T'' @
      replicate 2 (CHR ''d'') @ '':'' @ replicate 2 (CHR ''d'') @ '':'' @ replicate 2 (CHR ''d'')" by (simp add: numeral_eq_Suc)
  have "take 19 ?s = isoformat d @ ''T'' @ take 8 (clock_text t @ r)" by simp
  then have t: "take 19 ?s = zpad 4 (year_of d) @ ''-'' @ zpad 2 (month_of d) @ ''-'' @ zpad 2 (day_of d) @ ''T'' @
      zpad 2 (hour t) @ '':'' @ zpad 2 (minute t) @ '':'' @ zpad 2 (second t)" by (simp only: clock_seconds isoformat_def append_assoc)
  have "list_all2 fits_pattern ''dddd-dd-ddTdd:dd:dd'' (take 19 ?s)" unfolding p t by (intro list_all2_appendI pattern_zpad pattern_punct)
  moreover have dr: "drop 19 ?s = fraction_text (microsecond t) @ r" using clock_seconds(2) [of t r] by simp
  moreover have "digit_run (zpad 6 (microsecond t) @ r) = 6"
  proof -
    have "char_digit (hd r) = None" using assms by (auto simp: utc_tail_def char_digit_def)
    then have "takeWhile (\<lambda>c. char_digit c \<noteq> None) (zpad 6 (microsecond t) @ r) = zpad 6 (microsecond t)"
      using zpad_digits assms by (subst takeWhile_append2) (auto simp: utc_tail_def)
    then show ?thesis by (simp add: digit_run_def)
  qed
  ultimately show ?thesis using assms by (simp add: canonical_utc_form_def fraction_text_def Let_def)
qed

lemma loaded_policy_facts:
  assumes "load_controlled_pilot_policy env file = Inr p"
  shows "\<exists>raw. file = Some raw \<and> body_digest env raw = controlled_pilot_policy_raw_digest"
    "body_digest env (json_dumps (JObj (to_digest_body p))) = controlled_pilot_policy_digest"
    "pp_plans_exactly p = 4" "map_of (pp_limits p) ''max_generations'' = Some 1" "\<not> pp_automatic_promotion p" "map fst (pp_limits p) = policy_limits"
    "\<forall>(k, n) \<in> set (pp_limits p). 1 \<le> n"
proof -
  obtain raw v where raw: "file = Some raw" "body_digest env raw = controlled_pilot_policy_raw_digest" and mk: "mk_policy_pin env (object_of v) = Inr p"
    using assms by (auto simp: load_controlled_pilot_policy_def bind_res_Inr_iff split: option.splits sum.splits json_error.splits json.splits if_splits)
  show "\<exists>raw. file = Some raw \<and> body_digest env raw = controlled_pilot_policy_raw_digest" using raw by simp
  let ?lim = "\<lambda>k. bind_res (positive_int (dict_get (object_of v) k) k) (\<lambda>n. Inr (k, n))"
  obtain limits where l: "map_res ?lim policy_limits = Inr limits" and g: "map_of limits ''max_generations'' = Some 1"
      and p: "p = \<lparr>pp_schema_uri = policy_schema_uri, pp_policy_id = controlled_pilot_policy_id, pp_policy_digest = controlled_pilot_policy_digest,
               pp_plans_exactly = 4, pp_limits = limits, pp_automatic_promotion = False\<rparr>"
      and h: "canonical_policy_digest env (JObj (to_digest_body p)) = Inr controlled_pilot_policy_digest"
    using mk by (auto simp: mk_policy_pin_def bind_res_Inr_iff Let_def split: if_splits)
  show "pp_plans_exactly p = 4" "map_of (pp_limits p) ''max_generations'' = Some 1" "\<not> pp_automatic_promotion p" using g by (simp_all add: p)
  show "body_digest env (json_dumps (JObj (to_digest_body p))) = controlled_pilot_policy_digest"
    using h by (auto simp: canonical_policy_digest_def canonical_json_def split: if_splits option.splits)
  have r: "length limits = length policy_limits" "\<forall>i < length limits. ?lim (policy_limits ! i) = Inr (limits ! i)"
    using map_res_Inr_length [OF l] map_res_Inr_nth [OF l] by auto
  have "fst (limits ! i) = policy_limits ! i" if "i < length policy_limits" for i using r that by (simp add: bind_res_Inr_iff) (metis fst_conv)
  then show "map fst (pp_limits p) = policy_limits" using r(1) by (intro nth_equalityI) (simp_all add: p)
  show "\<forall>(k, n) \<in> set (pp_limits p). 1 \<le> n"
  proof clarify
    fix k n assume "(k, n) \<in> set (pp_limits p)"
    then obtain q where "?lim q = Inr (k, n)" using map_res_Inr_set [OF l] by (auto simp: p)
    then show "1 \<le> n" by (auto simp: bind_res_Inr_iff positive_int_def split: json.splits if_splits)
  qed
qed

lemma canonical_utc_iso:
  assumes "valid_instant t"
  shows "parse_canonical_utc (JStr (iso_utc t)) label = Inr t"
proof -
  have "canonical_utc_form (iso_utc t)" unfolding iso_utc_clock by (rule canonical_form_clock) (simp add: utc_tail_def)
  then show ?thesis using datetime_iso_utc [OF assms] by (simp add: parse_canonical_utc_def iso_utc_clock)
qed

text \<open>C22: Canonical times read back. Every valid instant that \<open>isoformat\<close> prints, with or without a fraction, and the same text with a final \<open>Z\<close>, is accepted and
  gives that instant.\<close>

theorem canonical_utc_roundtrip:
  assumes "valid_instant t"
  shows "parse_canonical_utc (JStr (iso_utc t)) label = Inr t
    \<and> parse_canonical_utc (JStr (isoformat (on_day t) @ ''T'' @ clock_text t @ ''Z'')) label = Inr t"
proof (rule conjI)
  show "parse_canonical_utc (JStr (iso_utc t)) label = Inr t" by (rule canonical_utc_iso [OF assms])
  have f: "canonical_utc_form (isoformat (on_day t) @ CHR ''T'' # clock_text t @ ''Z'')" by (rule canonical_form_clock) (simp add: utc_tail_def)
  have "butlast (isoformat (on_day t) @ CHR ''T'' # clock_text t @ ''Z'') @ ''+00:00'' = iso_utc t" by (simp add: iso_utc_clock butlast_append)
  then show "parse_canonical_utc (JStr (isoformat (on_day t) @ ''T'' @ clock_text t @ ''Z'')) label = Inr t"
    using f datetime_iso_utc [OF assms] by (simp add: parse_canonical_utc_def)
qed

theorem canonical_utc_roundtrip_witness:
  "parse_canonical_utc (JStr (iso_utc \<lparr>on_day = Date 2024 2 29, hour = 23, minute = 5, second = 59, microsecond = 120\<rparr>)) ''t''
     = Inr \<lparr>on_day = Date 2024 2 29, hour = 23, minute = 5, second = 59, microsecond = 120\<rparr>"
  using canonical_utc_roundtrip [of "\<lparr>on_day = Date 2024 2 29, hour = 23, minute = 5, second = 59, microsecond = 120\<rparr>" "''t''"] by (simp add: valid_instant_def valid_date_def days_in_month_def is_leap_def)

end
