(* ===== verification/TraderAuthority.thy ===== *)
theory TraderAuthority
  imports PilotContracts
begin

section \<open>Trader authorizations\<close>

text \<open>
  \<open>product/execution/trader_authority.py\<close> and \<open>product/execution/trader_authorization_batch.py\<close>: verification of a signed authorization against
  the pinned public key and against the values a consumer rebuilt, and of the signed batch of four. The objects of the first module are their
  attribute values by name; a float is in the form \<open>repr\<close> prints it. The registry files, the clock and the execution binding are inputs,
  \<open>py_str\<close> is \<open>str\<close> on a value that is not a string. Messages leave out quoted values.
\<close>

subsection \<open>Signed authorizations\<close>

definition trader_format :: string where "trader_format = ''verified-trader-authorization/v1''"

definition trader_issuer :: string where "trader_issuer = ''ControlledTraderAuthorizationService/v1''"

definition pinned_trader_registry_digest :: string where
  "pinned_trader_registry_digest = ''sha256:ca52153e148fc0603a6073cd2eecb7eeaa058345eefc4dbfa882664fc1640e49''"

definition trader_bytes :: "json \<Rightarrow> string pilot" where
  "trader_bytes v = (if non_finite v then Inl (PlValueError ''Out of range float values are not JSON compliant'') else Inr (utf8_encode (raw_dumps v)))"

definition trader_digest :: "('a crypto_env_scheme) \<Rightarrow> json \<Rightarrow> string pilot" where
  "trader_digest env v = bind_res (trader_bytes v) (\<lambda>b. Inr (body_digest env b))"

text \<open>\<open>v == n\<close> for an integer \<open>n\<close>, where \<open>True == 1\<close> and \<open>1.0 == 1\<close>.\<close>

definition eq_int :: "json \<Rightarrow> int \<Rightarrow> bool" where
  "eq_int v n \<longleftrightarrow> number_is v n \<or> (case v of JBool b \<Rightarrow> (if b then 1 else 0) = n | _ \<Rightarrow> False)"

definition str_or_empty :: "(json \<Rightarrow> string) \<Rightarrow> json \<Rightarrow> string" where
  "str_or_empty py_str v = (if json_truthy v then str_of py_str v else [])"

definition in_strings :: "json \<Rightarrow> string list \<Rightarrow> bool pilot" where
  "in_strings v xs = (case py_in v xs of Inl _ \<Rightarrow> Inl (PlTypeError ''unhashable type'') | Inr b \<Rightarrow> Inr b)"

type_synonym trader_registry = "(string \<times> string) list"

definition registry_init :: "trader_registry \<Rightarrow> trader_registry pilot" where
  "registry_init active = (if 1 < length active then Inl (MassDisabled ''trader authorization registry permits at most one active key'') else Inr active)"

definition load_public_key :: "('a crypto_env_scheme) \<Rightarrow> (json \<Rightarrow> string) \<Rightarrow> json \<Rightarrow> string option" where
  "load_public_key env py_str v = (case b64decode (str_or_empty py_str v) of None \<Rightarrow> None | Some raw \<Rightarrow> if ce_key_loads env raw then Some raw else None)"

definition trader_key_row :: "('a crypto_env_scheme) \<Rightarrow> (json \<Rightarrow> string) \<Rightarrow> json \<Rightarrow> string list \<Rightarrow> (string \<times> string option) pilot" where
  "trader_key_row env py_str row seen =
     (case row of
        JObj d \<Rightarrow>
          if dict_get d ''algorithm'' \<noteq> JStr ''Ed25519'' then Inl (MassDisabled ''trader authorization registry requires Ed25519'')
          else bind_res (in_strings (dict_get d ''status'') [''active'', ''revoked'']) (\<lambda>known.
            if \<not> known then Inl (MassDisabled ''trader authorization key status must be explicit active/revoked'')
            else let key_id = strip (str_or_empty py_str (dict_get d ''key_id'')) in
              if key_id = [] \<or> key_id \<in> set seen then Inl (MassDisabled ''trader authorization key ids must be unique'')
              else (case load_public_key env py_str (dict_get d ''public_key_b64'') of
                      None \<Rightarrow> Inl (MassDisabled (''trader authorization public key is invalid: '' @ key_id))
                    | Some raw \<Rightarrow> Inr (key_id, if dict_get d ''status'' = JStr ''active'' then Some raw else None)))
      | _ \<Rightarrow> Inl (MassDisabled ''trader authorization registry row is invalid''))"

fun trader_key_rows :: "('a crypto_env_scheme) \<Rightarrow> (json \<Rightarrow> string) \<Rightarrow> json list \<Rightarrow> string list \<Rightarrow> trader_registry pilot" where
  "trader_key_rows env py_str [] seen = Inr []"
| "trader_key_rows env py_str (row # rows) seen =
     bind_res (trader_key_row env py_str row seen) (\<lambda>(k, key).
     bind_res (trader_key_rows env py_str rows (k # seen)) (\<lambda>rest. Inr (case key of None \<Rightarrow> rest | Some raw \<Rightarrow> (k, raw) # rest)))"

definition trader_registry_from_document :: "('a crypto_env_scheme) \<Rightarrow> (json \<Rightarrow> string) \<Rightarrow> dict \<Rightarrow> trader_registry pilot" where
  "trader_registry_from_document env py_str doc =
     (if \<not> eq_int (dict_get doc ''schema_version'') 2 \<or> dict_get doc ''purpose'' \<noteq> JStr ''controlled_trader_authorization_verification''
      then Inl (MassDisabled ''trader authorization registry identity is invalid'')
      else (case dict_get doc ''keys'' of
              JArr rows \<Rightarrow>
                if rows = [] then Inl (MassDisabled ''trader authorization registry keys are missing'')
                else bind_res (trader_key_rows env py_str rows []) registry_init
            | _ \<Rightarrow> Inl (MassDisabled ''trader authorization registry keys are missing'')))"

definition load_pinned_trader_registry :: "('a crypto_env_scheme) \<Rightarrow> (json \<Rightarrow> string) \<Rightarrow> string option \<Rightarrow> trader_registry pilot" where
  "load_pinned_trader_registry env py_str file =
     (case file of
        None \<Rightarrow> Inl (MassDisabled ''cannot load pinned trader authorization registry'')
      | Some raw \<Rightarrow>
          (case utf8_decode raw of
             None \<Rightarrow> Inl (PlValueError ''invalid start byte'')
           | Some t \<Rightarrow>
               (case plain_loads t of
                  Inl _ \<Rightarrow> Inl (MassDisabled ''cannot load pinned trader authorization registry'')
                | Inr (JObj doc) \<Rightarrow>
                    bind_res (trader_digest env (JObj doc)) (\<lambda>h.
                      if h \<noteq> pinned_trader_registry_digest then Inl (MassDisabled ''pinned trader authorization registry digest mismatch'')
                      else trader_registry_from_document env py_str doc)
                | Inr _ \<Rightarrow> Inl (MassDisabled ''trader authorization registry must be an object''))))"

definition trader_registry_verify :: "('a crypto_env_scheme) \<Rightarrow> trader_registry \<Rightarrow> string \<Rightarrow> dict \<Rightarrow> string \<Rightarrow> bool" where
  "trader_registry_verify env reg key_id body signature =
     (case map_of reg key_id of
        None \<Rightarrow> False
      | Some key \<Rightarrow>
          if \<not> startswith signature ''ed25519:'' then False
          else (case (b64decode (drop 8 signature), trader_bytes (JObj body)) of
                  (Some raw, Inr b) \<Rightarrow> ce_ed25519_verify env key raw b
                | _ \<Rightarrow> False))"

subsection \<open>Materialized values\<close>

definition digest_fields :: "string list" where
  "digest_fields = [''authorization_id'', ''strategy_spec_hash'', ''ready_snapshot_id'', ''ready_manifest_digest'', ''profile_digest'', ''plan_set_digest'',
     ''dependency_closure_digest'', ''universe_rule_digest'', ''resolved_universe_digest'']"

definition authorization_string_fields :: "string list" where
  "authorization_string_fields = [''authorization_id'', ''mode'', ''strategy_id'', ''strategy_spec_hash'', ''ready_snapshot_id'', ''ready_manifest_digest'',
     ''readiness_attestation_id'', ''profile_digest'', ''plan_set_digest'', ''dependency_closure_digest'', ''universe_contract_id'', ''universe_rule_digest'',
     ''resolved_universe_digest'', ''period_start'', ''period_end'', ''cost_scenario'', ''issued_at'', ''expires_at'', ''key_id'', ''signature'', ''issuer'', ''identity'']"

definition binding_string_fields :: "string list" where
  "binding_string_fields = [''authorization_id'', ''strategy_id'', ''strategy_spec_hash'', ''ready_snapshot_id'', ''ready_manifest_digest'',
     ''readiness_attestation_id'', ''profile_digest'', ''plan_set_digest'', ''dependency_closure_digest'', ''universe_contract_id'', ''universe_rule_digest'',
     ''resolved_universe_digest'', ''period_start'', ''period_end'', ''cost_scenario'', ''issued_at'', ''expires_at'', ''identity'']"

definition finite_float :: "json \<Rightarrow> bool" where
  "finite_float v \<longleftrightarrow> (case v of JFloat t \<Rightarrow> t \<notin> set [''nan'', ''inf'', ''-inf''] \<and> \<not> non_finite v | _ \<Rightarrow> False)"

text \<open>\<open>0.0 < x <= 1.0\<close> on the printed form: a positive number is at most one exactly when it is printed as \<open>1.0\<close>, with the integer part zero or
  with a negative exponent.\<close>

definition in_unit_interval :: "json \<Rightarrow> bool" where
  "in_unit_interval v \<longleftrightarrow>
     (case v of JFloat t \<Rightarrow> json_truthy v \<and> \<not> startswith t ''-'' \<and> (t = ''1.0'' \<or> startswith t ''0.'' \<or> contains_sub t ''e-'') | _ \<Rightarrow> False)"

definition body_string_fields :: "string list" where
  "body_string_fields = filter (\<lambda>k. k \<noteq> ''signature'') authorization_string_fields"

text \<open>The body lists the fields in the order of the dataclass; the gross weight stands behind the strategy hash.\<close>

definition authorization_body :: "dict \<Rightarrow> dict" where
  "authorization_body a =
     (''format'', JStr trader_format) # map (\<lambda>k. (k, dict_get a k)) (take 4 body_string_fields)
     @ (''max_gross_weight'', dict_get a ''max_gross_weight'') # map (\<lambda>k. (k, dict_get a k)) (drop 4 body_string_fields)"

definition materialize_authorization :: "dict \<Rightarrow> (dict \<times> string) pilot" where
  "materialize_authorization a =
     (if \<exists>k \<in> set authorization_string_fields. \<not> is_json_str (dict_get a k)
      then Inl (PlTypeError ''VerifiedTraderAuthorization fields must be exact built-in strings'')
      else if \<not> finite_float (dict_get a ''max_gross_weight'')
      then Inl (PlTypeError ''VerifiedTraderAuthorization max_gross_weight must be an exact finite float'')
      else (case require_controlled_pilot_identity (dict_get a ''identity'') of
              Inl _ \<Rightarrow> Inl (MassDisabled ''VerifiedTraderAuthorization identity must be exactly controlled_pilot_v1'')
            | Inr _ \<Rightarrow> Inr (authorization_body a, str_value (dict_get a ''signature''))))"

definition materialize_binding :: "dict \<Rightarrow> dict pilot" where
  "materialize_binding b =
     (if \<exists>k \<in> set binding_string_fields. \<not> nonempty_json_str (dict_get b k)
      then Inl (PlTypeError ''TraderAuthorizationBinding requires exact non-empty strings'')
      else if \<not> finite_float (dict_get b ''max_gross_weight'')
      then Inl (PlTypeError ''TraderAuthorizationBinding max_gross_weight must be an exact finite float'')
      else if \<not> in_unit_interval (dict_get b ''max_gross_weight'')
      then Inl (PlValueError ''TraderAuthorizationBinding max_gross_weight must be in (0, 1]'')
      else if \<exists>k \<in> set digest_fields. \<not> is_json_sha256 (dict_get b k) then Inl (PlValueError ''TraderAuthorizationBinding field is not sha256'')
      else (case require_controlled_pilot_identity (dict_get b ''identity'') of
              Inl _ \<Rightarrow> Inl (PlValueError ''TraderAuthorizationBinding identity must be exactly controlled_pilot_v1'')
            | Inr _ \<Rightarrow> Inr (map (\<lambda>k. (k, dict_get b k)) binding_string_fields @ [(''max_gross_weight'', dict_get b ''max_gross_weight'')])))"

definition authorization_dict :: "dict \<Rightarrow> dict pilot" where
  "authorization_dict a = bind_res (materialize_authorization a) (\<lambda>(body, signature). Inr (body @ [(''signature'', JStr signature)]))"

subsection \<open>Verification of one authorization\<close>

definition body_text :: "dict \<Rightarrow> string \<Rightarrow> string" where
  "body_text body k = str_value (dict_get body k)"

definition authorization_shape_ok :: "dict \<Rightarrow> bool" where
  "authorization_shape_ok body \<longleftrightarrow>
     dict_get body ''format'' = JStr trader_format \<and> dict_get body ''mode'' = JStr ''paper'' \<and> dict_get body ''issuer'' = JStr trader_issuer
     \<and> (\<forall>k \<in> set digest_fields. is_json_sha256 (dict_get body k))
     \<and> nonempty_json_str (dict_get body ''strategy_id'') \<and> nonempty_json_str (dict_get body ''readiness_attestation_id'')
     \<and> nonempty_json_str (dict_get body ''universe_contract_id'') \<and> nonempty_json_str (dict_get body ''period_start'') \<and> is_json_str (dict_get body ''period_end'')
     \<and> body_text body ''period_start'' \<le> body_text body ''period_end'' \<and> in_unit_interval (dict_get body ''max_gross_weight'')"

text \<open>Microseconds: five minutes of clock skew, half an hour of lifetime; moving an instant before the first representable one raises.\<close>

definition skew_micros :: int where "skew_micros = 5 * 60 * 1000000"

definition lifetime_micros :: int where "lifetime_micros = 1800 * 1000000"

definition first_micros :: int where "first_micros = 24 * 3600 * 1000000"

definition window_ok :: "int \<Rightarrow> int \<Rightarrow> int \<Rightarrow> bool" where
  "window_ok now issued expires \<longleftrightarrow> issued - skew_micros \<le> now \<and> now \<le> expires \<and> issued < expires \<and> expires - issued \<le> lifetime_micros"

definition verify_materialized_authorization :: "('a crypto_env_scheme) \<Rightarrow> dict \<Rightarrow> string \<Rightarrow> trader_registry \<Rightarrow> int \<Rightarrow> bool pilot" where
  "verify_materialized_authorization env body signature reg now =
     (if \<not> authorization_shape_ok body then Inr False
      else (case (datetime_fromisoformat (zulu_offset (body_text body ''issued_at'')), datetime_fromisoformat (zulu_offset (body_text body ''expires_at''))) of
              (Some issued, Some expires) \<Rightarrow>
                (case (stamp issued, stamp expires) of
                   (Some i, Some e) \<Rightarrow>
                     if int (micros (dt_at issued)) - skew_micros < first_micros then Inl PlOverflowError
                     else if \<not> window_ok now i e then Inr False
                     else bind_res (trader_digest env (JObj (filter (\<lambda>(k, v). k \<noteq> ''authorization_id'') body))) (\<lambda>h.
                       Inr (dict_get body ''authorization_id'' = JStr h \<and> trader_registry_verify env reg (body_text body ''key_id'') body signature))
                 | _ \<Rightarrow> Inr False)
            | _ \<Rightarrow> Inr False))"

text \<open>\<open>except (MassResearchDisabledError, TypeError, ValueError): return False\<close>; the policy, fill and time errors are value errors.\<close>

definition refused :: "pilot_error \<Rightarrow> bool" where
  "refused x \<longleftrightarrow> (case x of PlNameError _ \<Rightarrow> False | PlIndexError \<Rightarrow> False | PlOverflowError \<Rightarrow> False | _ \<Rightarrow> True)"

definition or_false :: "'b pilot \<Rightarrow> ('b \<Rightarrow> bool pilot) \<Rightarrow> bool pilot" where
  "or_false m f = (case m of Inl x \<Rightarrow> if refused x then Inr False else Inl x | Inr y \<Rightarrow> f y)"

definition is_valid_authorization :: "('a crypto_env_scheme) \<Rightarrow> (json \<Rightarrow> string) \<Rightarrow> string option \<Rightarrow> int \<Rightarrow> dict \<Rightarrow> bool pilot" where
  "is_valid_authorization env py_str file now a =
     or_false (materialize_authorization a) (\<lambda>(body, signature).
     or_false (load_pinned_trader_registry env py_str file) (\<lambda>reg. verify_materialized_authorization env body signature reg now))"

definition require_valid_authorization :: "('a crypto_env_scheme) \<Rightarrow> (json \<Rightarrow> string) \<Rightarrow> string option \<Rightarrow> int \<Rightarrow> dict \<Rightarrow> dict pilot" where
  "require_valid_authorization env py_str file now a =
     bind_res (is_valid_authorization env py_str file now a) (\<lambda>ok.
       if ok then Inr a else Inl (MassDisabled ''VerifiedTraderAuthorization is expired, forged, or malformed''))"

definition verify_exact_trader_authorization :: "('a crypto_env_scheme) \<Rightarrow> (json \<Rightarrow> string) \<Rightarrow> string option \<Rightarrow> int \<Rightarrow> dict \<Rightarrow> dict \<Rightarrow> bool pilot" where
  "verify_exact_trader_authorization env py_str file now a binding =
     or_false (materialize_authorization a) (\<lambda>(body, signature).
     or_false (materialize_binding binding) (\<lambda>expected.
     or_false (load_pinned_trader_registry env py_str file) (\<lambda>reg.
     bind_res (verify_materialized_authorization env body signature reg now) (\<lambda>ok.
       Inr (ok \<and> (\<forall>(k, v) \<in> set expected. dict_get body k = v))))))"

subsection \<open>The signed batch\<close>

definition batch_format :: string where "batch_format = ''controlled-pilot-trader-authorization-batch/v2''"

definition batch_purpose :: string where "batch_purpose = ''controlled_trader_authorization_verification''"

definition batch_environments :: "string list" where "batch_environments = [''staging'', ''production'']"

definition min_ttl_micros :: int where "min_ttl_micros = 60 * 1000000"

definition max_ttl_micros :: int where "max_ttl_micros = 86400 * 1000000"

definition batch_body_fields :: "string list" where
  "batch_body_fields = [''format'', ''schema_version'', ''purpose'', ''algorithm'', ''identity'', ''environment'', ''authority_instance_id'', ''request_digest'',
     ''idempotency_key'', ''ready_attestation_id'', ''ready_manifest_digest'', ''snapshot_id'', ''immutable_db_digest'', ''snapshot_key'', ''snapshot_size'',
     ''profile_digest'', ''dependency_closure_digest'', ''exact_four_binding_digest'', ''policy_digest'', ''budget_scope_digest'', ''execution_limit_set_digest'',
     ''resolved_universe_digest'', ''fill_contract_digest'', ''rows'', ''issued_at'', ''expires_at'', ''key_id'', ''issuer'']"

definition batch_registry_fields :: "string list" where
  "batch_registry_fields = [''schema_version'', ''purpose'', ''environment'', ''authority_instance_id'', ''keys'']"

definition batch_key_row_fields :: "string list" where
  "batch_key_row_fields = [''key_id'', ''algorithm'', ''public_key_b64'', ''status'', ''not_before'', ''not_after'', ''revoked_at'']"

definition batch_row_fields :: "string list" where
  "batch_row_fields = [''ordinal'', ''plan_id'', ''plan_binding_digest'', ''strategy_spec_id'', ''strategy_spec_version'', ''strategy_spec_hash'']"

text \<open>Raw digest, size and canonical digest of a pinned registry.\<close>

definition pinned_batch_registry :: "string \<Rightarrow> string \<times> nat \<times> string" where
  "pinned_batch_registry environment =
     (if environment = ''production''
      then (''sha256:68aef4c6bc2571b368718546da362156e76b7c452676b9db26d87c6eb44ceded'', 519, ''sha256:ca52153e148fc0603a6073cd2eecb7eeaa058345eefc4dbfa882664fc1640e49'')
      else (''sha256:67e9fb50c033634cc74f005edfaa51e5d99d3cece4ca7d83a245a7ccc113c0d2'', 488, ''sha256:916c1277fd34a47752f4eb7bc5a76fdd9f02e3a3afcd0fe75d5d22d3c427f599''))"

definition trader_authority_instance_id :: "string \<Rightarrow> string pilot" where
  "trader_authority_instance_id environment =
     (if environment \<notin> set batch_environments then Inl (BatchError ''trader environment is invalid'') else Inr (''trader-authority/'' @ environment @ ''/v1''))"

definition batch_digest :: "('a crypto_env_scheme) \<Rightarrow> json \<Rightarrow> string pilot" where
  "batch_digest env v =
     (case v of
        JObj _ \<Rightarrow> trader_digest env v
      | JArr _ \<Rightarrow> trader_digest env v
      | JStr s \<Rightarrow> trader_digest env (JArr (map (\<lambda>c. JStr [c]) s))
      | _ \<Rightarrow> Inl (PlTypeError ''object is not iterable''))"

definition decode_strict_trader_json :: "string \<Rightarrow> json pilot" where
  "decode_strict_trader_json payload =
     (case json_bytes_text payload of
        None \<Rightarrow> Inl (BatchError ''trader JSON is invalid'')
      | Some t \<Rightarrow>
          (case json_loads t of
             Inl (DuplicateKey k) \<Rightarrow> Inl (BatchError (''trader JSON contains duplicate key '' @ k))
           | Inl (NonFinite n) \<Rightarrow> Inl (BatchError (''trader JSON contains non-finite constant '' @ n))
           | Inl _ \<Rightarrow> Inl (BatchError ''trader JSON is invalid'')
           | Inr v \<Rightarrow> Inr v))"

definition batch_key_row :: "('a crypto_env_scheme) \<Rightarrow> (json \<Rightarrow> string) \<Rightarrow> json \<Rightarrow> string list \<Rightarrow> (string \<times> string option) pilot" where
  "batch_key_row env py_str row seen =
     (if \<not> closed_object row batch_key_row_fields then Inl (BatchError ''trader registry key row is invalid'')
      else let d = object_of row in
        if dict_get d ''algorithm'' \<noteq> JStr ''Ed25519'' then Inl (BatchError ''trader registry algorithm is invalid'')
        else bind_res (in_strings (dict_get d ''status'') [''active'', ''revoked'', ''pending'']) (\<lambda>known.
          if \<not> known then Inl (BatchError ''trader registry status is invalid'')
          else let key_id = strip (str_or_empty py_str (dict_get d ''key_id'')); revoked_at = dict_get d ''revoked_at'' in
            if key_id = [] \<or> key_id \<in> set seen then Inl (BatchError ''trader public-key ids must be unique'')
            else bind_res (if dict_get d ''status'' = JStr ''revoked'' then in_strings revoked_at [[]] else Inr False) (\<lambda>blank.
              if dict_get d ''status'' = JStr ''revoked'' \<and> (blank \<or> revoked_at = JNull) then Inl (BatchError ''trader revoked key missing revoked_at'')
              else if dict_get d ''status'' \<noteq> JStr ''active'' then Inr (key_id, None)
              else if revoked_at \<noteq> JNull then Inl (BatchError ''active trader key must not set revoked_at'')
              else (case load_public_key env py_str (dict_get d ''public_key_b64'') of
                      None \<Rightarrow> Inl (BatchError (''trader public key is invalid: '' @ key_id))
                    | Some raw \<Rightarrow> Inr (key_id, Some raw)))))"

fun batch_key_rows :: "('a crypto_env_scheme) \<Rightarrow> (json \<Rightarrow> string) \<Rightarrow> json list \<Rightarrow> string list \<Rightarrow> trader_registry pilot" where
  "batch_key_rows env py_str [] seen = Inr []"
| "batch_key_rows env py_str (row # rows) seen =
     bind_res (batch_key_row env py_str row seen) (\<lambda>(k, key).
     bind_res (batch_key_rows env py_str rows (k # seen)) (\<lambda>rest. Inr (case key of None \<Rightarrow> rest | Some raw \<Rightarrow> (k, raw) # rest)))"

text \<open>Reading a registry: a failed check of its digests is reported as a registry that cannot be loaded.\<close>

definition read_batch_registry :: "('a crypto_env_scheme) \<Rightarrow> string \<Rightarrow> string option \<Rightarrow> json pilot" where
  "read_batch_registry env environment file =
     (case file of
        None \<Rightarrow> Inl (BatchError ''cannot load pinned trader authorization registry'')
      | Some raw \<Rightarrow>
          (case pinned_batch_registry environment of (raw_digest, raw_size, canonical) \<Rightarrow>
             if length raw \<noteq> raw_size \<or> body_digest env raw \<noteq> raw_digest \<or> raw_digest = canonical
             then Inl (BatchError ''cannot load pinned trader authorization registry'')
             else (case decode_strict_trader_json raw of
                     Inl _ \<Rightarrow> Inl (BatchError ''cannot load pinned trader authorization registry'')
                   | Inr v \<Rightarrow>
                       bind_res (batch_digest env v) (\<lambda>h.
                         if h \<noteq> canonical then Inl (BatchError ''cannot load pinned trader authorization registry'') else Inr v))))"

definition load_active_key :: "('a crypto_env_scheme) \<Rightarrow> (json \<Rightarrow> string) \<Rightarrow> (string \<Rightarrow> string option) \<Rightarrow> string \<Rightarrow> string \<Rightarrow> string pilot" where
  "load_active_key env py_str files environment key_id =
     bind_res (read_batch_registry env environment (files environment)) (\<lambda>v.
       if \<not> closed_object v batch_registry_fields then Inl (BatchError ''trader registry shape is invalid'')
       else let doc = object_of v in
         if \<not> eq_int (dict_get doc ''schema_version'') 2 \<or> dict_get doc ''purpose'' \<noteq> JStr batch_purpose \<or> dict_get doc ''environment'' \<noteq> JStr environment
           \<or> Inr (str_value (dict_get doc ''authority_instance_id'')) \<noteq> trader_authority_instance_id environment \<or> key_rows doc = None
         then Inl (BatchError ''trader registry contract is invalid'')
         else bind_res (batch_key_rows env py_str (the (key_rows doc)) []) (\<lambda>active.
           if 1 < length active then Inl (BatchError ''pinned trader registry has multiple active keys'')
           else (case map_of active key_id of None \<Rightarrow> Inl (BatchError ''trader authorization issuer is untrusted'') | Some key \<Rightarrow> Inr key)))"

text \<open>What the verifier reads of the execution binding, and its keyword arguments.\<close>

record plan_binding =
  pb_plan_id :: string
  pb_binding_digest :: string
  pb_strategy_spec_id :: string
  pb_strategy_spec_version :: string
  pb_strategy_spec_hash :: string

record exact_four_binding =
  ef_profile_set_digest :: string
  ef_dependency_closure_set_digest :: string
  ef_binding_digest :: string
  ef_budget_scope_digest :: string
  ef_execution_limit_set_digest :: string
  ef_plan_bindings :: "plan_binding list"

record batch_request =
  br_environment :: string
  br_request_digest :: string
  br_idempotency_key :: string
  br_ready_attestation_id :: string
  br_ready_manifest_digest :: string
  br_snapshot_id :: string
  br_immutable_db_digest :: string
  br_snapshot_key :: string
  br_snapshot_size :: int
  br_resolved_universe_digest :: string
  br_keys :: "trader_registry option"
  br_now :: int

definition pilot_plan_ids :: "string list" where
  "pilot_plan_ids = [''exp-mdh-hold10-momentum'', ''exp-xs-hold10-mom5'', ''exp-event-post-hold5'', ''exp-fund-hold10-value-mom'']"

text \<open>The string fields with the value each has to have.\<close>

definition expected_fields :: "('a crypto_env_scheme) \<Rightarrow> batch_request \<Rightarrow> exact_four_binding \<Rightarrow> (string \<times> string) list" where
  "expected_fields env rq ef =
     [(''format'', batch_format), (''environment'', br_environment rq), (''authority_instance_id'', ''trader-authority/'' @ br_environment rq @ ''/v1''),
      (''request_digest'', br_request_digest rq), (''idempotency_key'', br_idempotency_key rq), (''ready_attestation_id'', br_ready_attestation_id rq),
      (''ready_manifest_digest'', br_ready_manifest_digest rq), (''snapshot_id'', br_snapshot_id rq), (''immutable_db_digest'', br_immutable_db_digest rq),
      (''snapshot_key'', br_snapshot_key rq), (''profile_digest'', ef_profile_set_digest ef),
      (''dependency_closure_digest'', ef_dependency_closure_set_digest ef), (''exact_four_binding_digest'', ef_binding_digest ef),
      (''policy_digest'', controlled_pilot_policy_digest), (''budget_scope_digest'', ef_budget_scope_digest ef),
      (''execution_limit_set_digest'', ef_execution_limit_set_digest ef), (''resolved_universe_digest'', br_resolved_universe_digest rq),
      (''fill_contract_digest'', controlled_fill_contract_digest env), (''issuer'', trader_issuer), (''purpose'', batch_purpose), (''algorithm'', ''Ed25519'')]"

definition binds_request :: "('a crypto_env_scheme) \<Rightarrow> batch_request \<Rightarrow> exact_four_binding \<Rightarrow> dict \<Rightarrow> bool" where
  "binds_request env rq ef d \<longleftrightarrow>
     (\<forall>(k, v) \<in> set (expected_fields env rq ef). dict_get d k = JStr v) \<and> eq_int (dict_get d ''snapshot_size'') (br_snapshot_size rq)
     \<and> is_json_sha256 (dict_get d ''resolved_universe_digest'') \<and> eq_int (dict_get d ''schema_version'') 2 \<and> br_snapshot_id rq \<noteq> br_immutable_db_digest rq"

definition row_binds :: "nat \<Rightarrow> plan_binding \<Rightarrow> dict \<Rightarrow> bool" where
  "row_binds i p r \<longleftrightarrow>
     eq_int (dict_get r ''ordinal'') (int i + 1) \<and> dict_get r ''plan_id'' = JStr (pilot_plan_ids ! i) \<and> dict_get r ''plan_id'' = JStr (pb_plan_id p)
     \<and> dict_get r ''plan_binding_digest'' = JStr (pb_binding_digest p) \<and> dict_get r ''strategy_spec_id'' = JStr (pb_strategy_spec_id p)
     \<and> dict_get r ''strategy_spec_version'' = JStr (pb_strategy_spec_version p) \<and> dict_get r ''strategy_spec_hash'' = JStr (pb_strategy_spec_hash p)"

fun check_rows :: "plan_binding list \<Rightarrow> nat \<Rightarrow> json list \<Rightarrow> unit pilot" where
  "check_rows plans i [] = Inr ()"
| "check_rows plans i (raw # rows) =
     (if \<not> closed_object raw batch_row_fields then Inl (BatchError ''trader authorization row is invalid'')
      else if length plans \<le> i then Inl PlIndexError
      else if \<not> row_binds i (plans ! i) (object_of raw) then Inl (BatchError ''trader authorization plan sequence is not the canonical ordered four'')
      else check_rows plans (Suc i) rows)"

definition batch_window_ok :: "int \<Rightarrow> int \<Rightarrow> int \<Rightarrow> bool" where
  "batch_window_ok now issued expires \<longleftrightarrow>
     issued \<le> expires \<and> min_ttl_micros \<le> expires - issued \<and> expires - issued \<le> max_ttl_micros \<and> now \<le> expires"

text \<open>The key: without \<open>keys\<close> the pinned registry is read, and then the call of \<open>_load_trader_key_meta\<close>, which the module does not define, raises.\<close>

definition batch_key :: "('a crypto_env_scheme) \<Rightarrow> (json \<Rightarrow> string) \<Rightarrow> (string \<Rightarrow> string option) \<Rightarrow> batch_request \<Rightarrow> string \<Rightarrow> string pilot" where
  "batch_key env py_str files rq key_id =
     (case br_keys rq of
        None \<Rightarrow> bind_res (load_active_key env py_str files (br_environment rq) key_id) (\<lambda>key. Inl (PlNameError ''_load_trader_key_meta''))
      | Some keys \<Rightarrow>
          if 1 < length keys then Inl (BatchError ''trader authorization permits exactly one active key'')
          else (case map_of keys key_id of None \<Rightarrow> Inl (BatchError ''trader authorization issuer is untrusted'') | Some key \<Rightarrow> Inr key))"

definition batch_times :: "dict \<Rightarrow> (instant \<times> instant) pilot" where
  "batch_times d =
     (case (parse_canonical_utc (dict_get d ''issued_at'') ''issued_at'', parse_canonical_utc (dict_get d ''expires_at'') ''expires_at'') of
        (Inr i, Inr e) \<Rightarrow> Inr (i, e)
      | _ \<Rightarrow> Inl (BatchError ''trader authorization timestamps are invalid''))"

definition batch_body :: "dict \<Rightarrow> dict" where
  "batch_body d = map (\<lambda>k. (k, dict_get d k)) batch_body_fields"

definition verify_batch_signature ::
    "('a crypto_env_scheme) \<Rightarrow> (json \<Rightarrow> string) \<Rightarrow> (string \<Rightarrow> string option) \<Rightarrow> batch_request \<Rightarrow> dict \<Rightarrow> string pilot" where
  "verify_batch_signature env py_str files rq d =
     (case dict_get d ''signature'' of
        JStr sig \<Rightarrow>
          if \<not> startswith sig ''ed25519:'' then Inl (BatchError ''trader authorization signature is invalid'')
          else bind_res (batch_key env py_str files rq (str_or_empty py_str (dict_get d ''key_id''))) (\<lambda>key.
            case (b64decode (drop 8 sig), trader_bytes (JObj (batch_body d))) of
              (Some raw, Inr b) \<Rightarrow>
                if ce_ed25519_verify env key raw b then batch_digest env (JObj (batch_body d @ [(''signature'', JStr sig)]))
                else Inl (BatchError ''trader authorization signature is invalid'')
            | _ \<Rightarrow> Inl (BatchError ''trader authorization signature is invalid''))
      | _ \<Rightarrow> Inl (BatchError ''trader authorization signature is invalid''))"

definition closed_document :: "dict \<Rightarrow> unit pilot" where
  "closed_document d =
     (if \<exists>k \<in> set (map fst d). k \<notin> set batch_body_fields \<and> k \<noteq> ''signature'' then Inl (BatchError ''trader authorization has unknown field(s)'')
      else if \<exists>k \<in> set (batch_body_fields @ [''signature'']). \<not> has_key d k then Inl (BatchError ''trader authorization missing'')
      else Inr ())"

definition as_batch_error :: "'b pilot \<Rightarrow> 'b pilot" where
  "as_batch_error m = (case m of Inl x \<Rightarrow> Inl (BatchError (error_text x)) | Inr y \<Rightarrow> Inr y)"

definition batch_rows :: "exact_four_binding \<Rightarrow> dict \<Rightarrow> unit pilot" where
  "batch_rows ef d =
     (case dict_get d ''rows'' of
        JArr rows \<Rightarrow> if length rows \<noteq> 4 then Inl (BatchError ''trader authorization rows must be exact four'') else check_rows (ef_plan_bindings ef) 0 rows
      | _ \<Rightarrow> Inl (BatchError ''trader authorization rows must be exact four''))"

definition verify_trader_authorization_batch ::
    "('a crypto_env_scheme) \<Rightarrow> (json \<Rightarrow> string) \<Rightarrow> (string \<Rightarrow> string option) \<Rightarrow> exact_four_binding pilot \<Rightarrow> batch_request \<Rightarrow> json \<Rightarrow> string pilot" where
  "verify_trader_authorization_batch env py_str files binding rq document =
     (if br_environment rq \<notin> set batch_environments then Inl (BatchError ''trader environment is invalid'')
      else (case document of
              JObj d \<Rightarrow>
                bind_res (closed_document d) (\<lambda>_.
                bind_res (as_batch_error (require_controlled_pilot_identity (dict_get d ''identity''))) (\<lambda>_.
                bind_res (as_batch_error (require_controlled_fill_contract_digest env (dict_get d ''fill_contract_digest''))) (\<lambda>_.
                bind_res binding (\<lambda>ef.
                if \<not> binds_request env rq ef d then Inl (BatchError ''trader authorization does not bind the closed exact-four batch'')
                else bind_res (batch_rows ef d) (\<lambda>_.
                bind_res (batch_times d) (\<lambda>(issued, expires).
                if \<not> batch_window_ok (br_now rq) (int (micros issued)) (int (micros expires)) then Inl (BatchError ''trader authorization is expired'')
                else verify_batch_signature env py_str files rq d))))))
            | _ \<Rightarrow> Inl (BatchError ''trader authorization must be an object'')))"

definition verify_trader_authorization_batch_bytes ::
    "('a crypto_env_scheme) \<Rightarrow> (json \<Rightarrow> string) \<Rightarrow> (string \<Rightarrow> string option) \<Rightarrow> exact_four_binding pilot \<Rightarrow> batch_request \<Rightarrow> string \<Rightarrow> string pilot" where
  "verify_trader_authorization_batch_bytes env py_str files binding rq payload =
     bind_res (decode_strict_trader_json payload) (\<lambda>v. verify_trader_authorization_batch env py_str files binding rq v)"

subsection \<open>Facts\<close>

lemma or_false_True: "or_false m f = Inr True \<longleftrightarrow> (\<exists>y. m = Inr y \<and> f y = Inr True)"
  by (auto simp: or_false_def split: sum.splits if_splits)

lemma map_of_fields: "map_of (map (\<lambda>k. (k, f k)) ks) k = (if k \<in> set ks then Some (f k) else None)"
  by (induction ks) auto

lemma body_values:
  "k \<in> set body_string_fields \<Longrightarrow> dict_get (authorization_body a) k = dict_get a k"
  "dict_get (authorization_body a) ''max_gross_weight'' = dict_get a ''max_gross_weight''"
  "dict_get (authorization_body a) ''format'' = JStr trader_format"
proof -
  have n: "''format'' \<notin> set body_string_fields" "''max_gross_weight'' \<notin> set body_string_fields" by code_simp+
  have "set (take 4 body_string_fields) \<union> set (drop 4 body_string_fields) = set body_string_fields" by (metis append_take_drop_id set_append)
  then have m: "k \<in> set body_string_fields \<longleftrightarrow> k \<in> set (take 4 body_string_fields) \<or> k \<in> set (drop 4 body_string_fields)" for k by blast
  show "dict_get (authorization_body a) k = dict_get a k" if "k \<in> set body_string_fields"
    using that n m [of k] by (auto simp: dict_get_def authorization_body_def map_of_fields map_add_def split: if_splits)
  show "dict_get (authorization_body a) ''max_gross_weight'' = dict_get a ''max_gross_weight''"
    using n m [of "''max_gross_weight''"] by (auto simp: dict_get_def authorization_body_def map_of_fields map_add_def)
  show "dict_get (authorization_body a) ''format'' = JStr trader_format" by (simp add: dict_get_def authorization_body_def)
qed

lemma binding_in_body: "k \<in> set binding_string_fields \<Longrightarrow> k \<in> set body_string_fields"
proof -
  have "\<forall>k \<in> set binding_string_fields. k \<in> set body_string_fields" by code_simp
  then show "k \<in> set binding_string_fields \<Longrightarrow> k \<in> set body_string_fields" by blast
qed

lemma trader_registry_single:
  assumes "load_pinned_trader_registry env py_str file = Inr reg" "map_of reg k = Some key"
  shows "reg = [(k, key)]"
proof -
  have "length reg \<le> 1"
    using assms(1) by (auto simp: load_pinned_trader_registry_def trader_registry_from_document_def registry_init_def bind_res_Inr_iff
        split: option.splits sum.splits json.splits if_splits)
  then show ?thesis using assms(2) by (cases reg) (auto split: if_splits)
qed

lemma registry_verify_facts:
  assumes "trader_registry_verify env reg k body signature"
  obtains key raw where "map_of reg k = Some key" "startswith signature ''ed25519:''" "b64decode (drop 8 signature) = Some raw"
    "ce_ed25519_verify env key raw (utf8_encode (raw_dumps (JObj body)))"
  using assms by (auto simp: trader_registry_verify_def trader_bytes_def split: option.splits if_splits sum.splits)

text \<open>What an accepted body is.\<close>

lemma verified_body:
  assumes "verify_materialized_authorization env body signature reg now = Inr True"
  obtains issued expires i e where "authorization_shape_ok body"
    "datetime_fromisoformat (zulu_offset (body_text body ''issued_at'')) = Some issued" "stamp issued = Some i"
    "datetime_fromisoformat (zulu_offset (body_text body ''expires_at'')) = Some expires" "stamp expires = Some e" "window_ok now i e"
    "dict_get body ''authorization_id'' = JStr (body_digest env (utf8_encode (raw_dumps (JObj (filter (\<lambda>(k, v). k \<noteq> ''authorization_id'') body)))))"
    "trader_registry_verify env reg (body_text body ''key_id'') body signature"
  using assms by (auto simp: verify_materialized_authorization_def trader_digest_def trader_bytes_def bind_res_Inr_iff split: if_splits option.splits)

lemma materialized:
  "materialize_authorization a = Inr (body, signature) \<Longrightarrow> body = authorization_body a \<and> signature = str_value (dict_get a ''signature'')"
  by (auto simp: materialize_authorization_def split: if_splits sum.splits)

lemma materialized_binding:
  "materialize_binding b = Inr expected \<Longrightarrow> expected = map (\<lambda>k. (k, dict_get b k)) binding_string_fields @ [(''max_gross_weight'', dict_get b ''max_gross_weight'')]"
  by (auto simp: materialize_binding_def split: if_splits sum.splits)

lemma exact_parts:
  assumes "verify_exact_trader_authorization env py_str file now a binding = Inr True"
  obtains sig expected reg where "materialize_authorization a = Inr (authorization_body a, sig)" "materialize_binding binding = Inr expected"
    "load_pinned_trader_registry env py_str file = Inr reg" "verify_materialized_authorization env (authorization_body a) sig reg now = Inr True"
    "\<forall>(k, v) \<in> set expected. dict_get (authorization_body a) k = v"
proof -
  obtain p where p: "materialize_authorization a = Inr p"
      and r: "(case p of (body, signature) \<Rightarrow> or_false (materialize_binding binding) (\<lambda>expected. or_false (load_pinned_trader_registry env py_str file) (\<lambda>reg.
        bind_res (verify_materialized_authorization env body signature reg now) (\<lambda>ok. Inr (ok \<and> (\<forall>(k, v) \<in> set expected. dict_get body k = v)))))) = Inr True"
    using assms unfolding verify_exact_trader_authorization_def or_false_True by blast
  obtain sig where sig: "p = (authorization_body a, sig)" using materialized p by (cases p) blast
  show ?thesis using that [OF p [unfolded sig]] r unfolding sig prod.case or_false_True bind_res_Inr_iff by auto
qed

lemma valid_parts:
  assumes "is_valid_authorization env py_str file now a = Inr True"
  obtains sig reg where "verify_materialized_authorization env (authorization_body a) sig reg now = Inr True"
proof -
  obtain p where p: "materialize_authorization a = Inr p"
      and r: "(case p of (body, signature) \<Rightarrow> or_false (load_pinned_trader_registry env py_str file) (\<lambda>reg. verify_materialized_authorization env body signature reg now)) = Inr True"
    using assms unfolding is_valid_authorization_def or_false_True by blast
  obtain sig where sig: "p = (authorization_body a, sig)" using materialized p by (cases p) blast
  show ?thesis using that r unfolding sig prod.case or_false_True by blast
qed

lemma binds_request_keys: "binds_request env (rq\<lparr>br_keys := k\<rparr>) ef d = binds_request env rq ef d"
proof -
  have "expected_fields env (rq\<lparr>br_keys := k\<rparr>) ef = expected_fields env rq ef" by (simp add: expected_fields_def)
  then show ?thesis unfolding binds_request_def by simp
qed

lemma batch_accepted:
  assumes "verify_trader_authorization_batch env py_str files binding rq document = Inr digest"
  obtains d ef issued expires where "document = JObj d" "binding = Inr ef" "closed_document d = Inr ()" "binds_request env rq ef d" "batch_rows ef d = Inr ()"
    "batch_times d = Inr (issued, expires)" "batch_window_ok (br_now rq) (int (micros issued)) (int (micros expires))"
    "verify_batch_signature env py_str files rq d = Inr digest" "dict_get d ''identity'' = JStr controlled_pilot_identity"
  using assms by (auto simp: verify_trader_authorization_batch_def bind_res_Inr_iff as_batch_error_def require_controlled_pilot_identity_def
      split: if_splits json.splits sum.splits)

lemma check_rows_all:
  "check_rows plans i rows = Inr () \<Longrightarrow> j < length rows \<Longrightarrow> closed_object (rows ! j) batch_row_fields \<and> i + j < length plans \<and> row_binds (i + j) (plans ! (i + j)) (object_of (rows ! j))"
proof (induction rows arbitrary: i j)
  case (Cons r rows)
  then show ?case by (cases j) (fastforce split: if_splits)+
qed simp

subsection \<open>A sample\<close>

text \<open>A stand-in digest that tells only the raw registry file, which starts with a blank, from everything else.\<close>

definition trader_env :: crypto_env where
  "trader_env = (sample_env ())\<lparr>ce_sha256_hex := (\<lambda>s. drop 7 (if hd s = CHR '' '' then fst (pinned_batch_registry ''production'') else pinned_trader_registry_digest))\<rparr>"

definition trader_key_row_of :: "dict \<Rightarrow> json" where
  "trader_key_row_of extra = JObj (sort_key fst ([(''algorithm'', JStr ''Ed25519''), (''key_id'', JStr ''trader-1''), (''public_key_b64'', JStr (b64encode sample_key)), (''status'', JStr ''active'')] @ extra))"

definition sample_trader_registry :: dict where
  "sample_trader_registry = [(''keys'', JArr [trader_key_row_of []]), (''purpose'', JStr batch_purpose), (''schema_version'', JInt 2)]"

definition sample_batch_registry :: dict where
  "sample_batch_registry =
     [(''authority_instance_id'', JStr ''trader-authority/production/v1''), (''environment'', JStr ''production''),
      (''keys'', JArr [trader_key_row_of [(''not_before'', JNull), (''not_after'', JNull), (''revoked_at'', JNull)]]), (''purpose'', JStr batch_purpose), (''schema_version'', JInt 2)]"

definition sample_issued :: instant where
  "sample_issued = \<lparr>on_day = Date 2024 1 15, hour = 10, minute = 0, second = 0, microsecond = 0\<rparr>"

definition sample_expires :: instant where
  "sample_expires = \<lparr>on_day = Date 2024 1 15, hour = 10, minute = 20, second = 0, microsecond = 0\<rparr>"

definition authorization_at :: "string \<Rightarrow> string \<Rightarrow> dict" where
  "authorization_at issued expires =
     map (\<lambda>k. (k, JStr pinned_trader_registry_digest)) digest_fields
     @ [(''mode'', JStr ''paper''), (''strategy_id'', JStr ''s1''), (''readiness_attestation_id'', JStr ''r1''), (''universe_contract_id'', JStr ''u1''),
        (''period_start'', JStr ''2023-01-01''), (''period_end'', JStr ''2023-12-31''), (''cost_scenario'', JStr ''c1''), (''issued_at'', JStr issued),
        (''expires_at'', JStr expires), (''key_id'', JStr ''trader-1''), (''signature'', JStr sample_signature),
        (''issuer'', JStr trader_issuer), (''identity'', JStr controlled_pilot_identity), (''max_gross_weight'', JFloat ''0.5'')]"

definition sample_authorization :: dict where
  "sample_authorization = authorization_at (iso_utc sample_issued) (iso_utc sample_expires)"

definition sample_clock :: int where
  "sample_clock = int (micros \<lparr>on_day = Date 2024 1 15, hour = 10, minute = 5, second = 0, microsecond = 0\<rparr>)"

lemma trader_env_keys: "ce_key_loads trader_env k \<longleftrightarrow> length k = 32" "length sample_key = 32"
  by (simp_all add: trader_env_def sample_env_def sample_key_def)

lemma trader_env_digest: "hd s \<noteq> CHR '' '' \<Longrightarrow> body_digest trader_env s = pinned_trader_registry_digest"
  by (simp add: body_digest_def trader_env_def pinned_trader_registry_digest_def)

lemma hd_object_bytes: "hd (utf8_encode (raw_dumps (JObj d))) = CHR ''{''"
proof -
  have "(of_char (CHR ''{'') :: nat) = 123" by code_simp
  then show ?thesis by (simp add: utf8_encode_def)
qed

lemma trader_digest_object: "\<not> non_finite (JObj d) \<Longrightarrow> trader_digest trader_env (JObj d) = Inr pinned_trader_registry_digest"
  using trader_env_digest [of "utf8_encode (raw_dumps (JObj d))"] hd_object_bytes [of d] by (simp add: trader_digest_def trader_bytes_def del: raw_dumps.simps)

lemma sample_trader_canonical: "canonical_dict sample_trader_registry" "canonical_dict sample_batch_registry"
  by code_simp+

lemma sample_trader_finite: "\<not> non_finite (JObj sample_trader_registry)" "\<not> non_finite (JObj sample_batch_registry)"
  by code_simp+

lemma sample_trader_keys: "trader_registry_from_document trader_env py_str sample_trader_registry = Inr [(''trader-1'', sample_key)]"
proof -
  have "dict_get sample_trader_registry ''schema_version'' = JInt 2" "dict_get sample_trader_registry ''purpose'' = JStr ''controlled_trader_authorization_verification''"
    "dict_get sample_trader_registry ''keys'' = JArr [trader_key_row_of []]" by code_simp+
  note reg = this
  have "strip ''trader-1'' = ''trader-1''" by code_simp
  moreover have "b64encode sample_key \<noteq> []" by code_simp
  ultimately have "trader_key_row trader_env py_str (trader_key_row_of []) [] = Inr (''trader-1'', Some sample_key)"
    by (simp add: trader_key_row_def trader_key_row_of_def dict_get_def in_strings_def py_in_def str_or_empty_def str_of_def load_public_key_def trader_env_keys Let_def)
  then show ?thesis using reg by (simp add: trader_registry_from_document_def eq_int_def number_is_def registry_init_def)
qed

lemma sample_trader_loads: "load_pinned_trader_registry trader_env py_str (Some (canonical_receipt_body sample_trader_registry)) = Inr [(''trader-1'', sample_key)]"
proof -
  have "ascii_only (canonical_receipt_body sample_trader_registry)"
    unfolding canonical_receipt_body_def by (rule ascii_json_dumps) (use sample_trader_canonical(1) in \<open>simp add: canonical_dict_def\<close>)
  then have "utf8_decode (canonical_receipt_body sample_trader_registry) = Some (canonical_receipt_body sample_trader_registry)" by (rule utf8_decode_ascii)
  moreover have "plain_loads (canonical_receipt_body sample_trader_registry) = Inr (JObj sample_trader_registry)"
    by (rule plain_loads_strict) (rule canonical_dict_reads(3) [OF sample_trader_canonical(1)])
  ultimately show ?thesis
    using trader_digest_object [OF sample_trader_finite(1)] sample_trader_keys by (simp add: load_pinned_trader_registry_def)
qed

lemma authorization_at_facts:
  "authorization_shape_ok (authorization_body (authorization_at i e))" "\<not> non_finite (JObj (authorization_body (authorization_at i e)))"
  "\<not> non_finite (JObj (filter (\<lambda>(k, v). k \<noteq> ''authorization_id'') (authorization_body (authorization_at i e))))"
  "materialize_authorization (authorization_at i e) = Inr (authorization_body (authorization_at i e), sample_signature)"
  "dict_get (authorization_body (authorization_at i e)) ''authorization_id'' = JStr pinned_trader_registry_digest"
  "body_text (authorization_body (authorization_at i e)) ''key_id'' = ''trader-1''"
  "materialize_binding (authorization_at (x # i) (y # e)) = Inr (map (\<lambda>k. (k, dict_get (authorization_at (x # i) (y # e)) k)) binding_string_fields @ [(''max_gross_weight'', JFloat ''0.5'')])"
  "body_text (authorization_body (authorization_at i e)) ''issued_at'' = i" "body_text (authorization_body (authorization_at i e)) ''expires_at'' = e"
  by code_simp+

lemma iso_utc_Cons: "\<exists>c r. iso_utc t = c # r"
  using length_isoformat [of "on_day t"] by (cases "iso_utc t") (auto simp: iso_utc_clock)

lemmas trader_body_facts = authorization_at_facts(1-6,8,9) [where i = "iso_utc sample_issued" and e = "iso_utc sample_expires", folded sample_authorization_def]

lemma trader_binding: "materialize_binding sample_authorization = Inr (map (\<lambda>k. (k, dict_get sample_authorization k)) binding_string_fields @ [(''max_gross_weight'', JFloat ''0.5'')])"
proof -
  obtain c r c' r' where "iso_utc sample_issued = c # r" "iso_utc sample_expires = c' # r'" using iso_utc_Cons by metis
  then show ?thesis unfolding sample_authorization_def using authorization_at_facts(7) [of c r c' r'] by (simp only:)
qed

lemma sample_instants: "valid_instant sample_issued" "valid_instant sample_expires"
  by (simp_all add: sample_issued_def sample_expires_def valid_instant_def valid_date_def days_in_month_def)

lemma trader_times:
  "datetime_fromisoformat (zulu_offset (body_text (authorization_body sample_authorization) ''issued_at'')) = Some \<lparr>dt_at = sample_issued, dt_offset = Some 0\<rparr>"
  "datetime_fromisoformat (zulu_offset (body_text (authorization_body sample_authorization) ''expires_at'')) = Some \<lparr>dt_at = sample_expires, dt_offset = Some 0\<rparr>"
proof -
  show "datetime_fromisoformat (zulu_offset (body_text (authorization_body sample_authorization) ''issued_at'')) = Some \<lparr>dt_at = sample_issued, dt_offset = Some 0\<rparr>"
    "datetime_fromisoformat (zulu_offset (body_text (authorization_body sample_authorization) ''expires_at'')) = Some \<lparr>dt_at = sample_expires, dt_offset = Some 0\<rparr>"
    using datetime_iso_utc [OF sample_instants(1)] datetime_iso_utc [OF sample_instants(2)] by (simp_all add: zulu_iso_utc trader_body_facts)
qed

lemma sample_signature_ok: "ce_ed25519_verify trader_env sample_key (replicate 64 (CHR ''k'')) body" "startswith sample_signature ''ed25519:''"
  "b64decode (drop 8 sample_signature) = Some (replicate 64 (CHR ''k''))"
  unfolding sample_signature_def by (simp add: trader_env_def sample_env_def sample_key_def) (rule startswith_append, simp)

lemma trader_verified: "verify_materialized_authorization trader_env (authorization_body sample_authorization) sample_signature [(''trader-1'', sample_key)] sample_clock = Inr True"
proof -
  have "trader_registry_verify trader_env [(''trader-1'', sample_key)] ''trader-1'' (authorization_body sample_authorization) sample_signature"
    using sample_signature_ok trader_body_facts(2) by (simp add: trader_registry_verify_def trader_bytes_def del: raw_dumps.simps)
  moreover have "window_ok sample_clock (int (micros sample_issued)) (int (micros sample_expires))"
    by (simp add: window_ok_def sample_clock_def micros_def skew_micros_def lifetime_micros_def sample_issued_def sample_expires_def)
  moreover have "\<not> int (micros sample_issued) - skew_micros < first_micros"
    by (simp add: sample_issued_def micros_def toordinal_def days_before_year_def skew_micros_def first_micros_def)
  ultimately show ?thesis
    using trader_body_facts trader_times trader_digest_object [OF trader_body_facts(3)]
    by (simp add: verify_materialized_authorization_def stamp_def)
qed

text \<open>A batch of four rows, its fill digest and its times as arguments.\<close>

definition sample_plan_binding :: "string \<Rightarrow> plan_binding" where
  "sample_plan_binding p = \<lparr>pb_plan_id = p, pb_binding_digest = ''b'', pb_strategy_spec_id = ''s'', pb_strategy_spec_version = ''v'', pb_strategy_spec_hash = ''h''\<rparr>"

definition sample_exact_four :: exact_four_binding where
  "sample_exact_four = \<lparr>ef_profile_set_digest = ''p'', ef_dependency_closure_set_digest = ''c'', ef_binding_digest = ''b'', ef_budget_scope_digest = ''s'',
     ef_execution_limit_set_digest = ''l'', ef_plan_bindings = map sample_plan_binding pilot_plan_ids\<rparr>"

definition trader_request :: "trader_registry option \<Rightarrow> batch_request" where
  "trader_request keys = \<lparr>br_environment = ''production'', br_request_digest = ''q'', br_idempotency_key = ''i'', br_ready_attestation_id = ''a'', br_ready_manifest_digest = ''m'',
     br_snapshot_id = ''s'', br_immutable_db_digest = ''d'', br_snapshot_key = ''k'', br_snapshot_size = 5, br_resolved_universe_digest = pinned_trader_registry_digest,
     br_keys = keys, br_now = sample_clock\<rparr>"

definition sample_fields :: "string \<Rightarrow> (string \<times> string) list" where
  "sample_fields fill =
     [(''format'', batch_format), (''environment'', ''production''), (''authority_instance_id'', ''trader-authority/production/v1''), (''request_digest'', ''q''),
      (''idempotency_key'', ''i''), (''ready_attestation_id'', ''a''), (''ready_manifest_digest'', ''m''), (''snapshot_id'', ''s''), (''immutable_db_digest'', ''d''),
      (''snapshot_key'', ''k''), (''profile_digest'', ''p''), (''dependency_closure_digest'', ''c''), (''exact_four_binding_digest'', ''b''),
      (''policy_digest'', controlled_pilot_policy_digest), (''budget_scope_digest'', ''s''), (''execution_limit_set_digest'', ''l''),
      (''resolved_universe_digest'', pinned_trader_registry_digest), (''fill_contract_digest'', fill), (''issuer'', trader_issuer), (''purpose'', batch_purpose),
      (''algorithm'', ''Ed25519'')]"

definition sample_row :: "nat \<Rightarrow> json" where
  "sample_row i = JObj [(''ordinal'', JInt (int i + 1)), (''plan_id'', JStr (pilot_plan_ids ! i)), (''plan_binding_digest'', JStr ''b''), (''strategy_spec_id'', JStr ''s''),
     (''strategy_spec_version'', JStr ''v''), (''strategy_spec_hash'', JStr ''h'')]"

definition batch_at :: "string \<Rightarrow> string \<Rightarrow> string \<Rightarrow> dict" where
  "batch_at fill issued expires =
     map (\<lambda>(k, v). (k, JStr v)) (sample_fields fill)
     @ [(''schema_version'', JInt 2), (''identity'', JStr controlled_pilot_identity), (''snapshot_size'', JInt 5), (''rows'', JArr (map sample_row [0..<4])),
        (''issued_at'', JStr issued), (''expires_at'', JStr expires), (''key_id'', JStr ''trader-1''), (''signature'', JStr sample_signature)]"

definition sample_batch :: dict where
  "sample_batch = batch_at (controlled_fill_contract_digest trader_env) (iso_utc sample_issued) (iso_utc sample_expires)"

lemma batch_at_facts:
  "closed_document (batch_at f i e) = Inr ()" "list_all (\<lambda>(k, v). dict_get (batch_at f i e) k = JStr v) (sample_fields f)"
  "dict_get (batch_at f i e) ''snapshot_size'' = JInt 5" "is_json_sha256 (dict_get (batch_at f i e) ''resolved_universe_digest'')"
  "dict_get (batch_at f i e) ''schema_version'' = JInt 2" "batch_rows sample_exact_four (batch_at f i e) = Inr ()"
  "dict_get (batch_at f i e) ''identity'' = JStr controlled_pilot_identity" "dict_get (batch_at f i e) ''fill_contract_digest'' = JStr f"
  "dict_get (batch_at f i e) ''issued_at'' = JStr i" "dict_get (batch_at f i e) ''expires_at'' = JStr e" "dict_get (batch_at f i e) ''signature'' = JStr sample_signature"
  "dict_get (batch_at f i e) ''key_id'' = JStr ''trader-1''" "\<not> non_finite (JObj (batch_body (batch_at f i e)))"
  "\<not> non_finite (JObj (batch_body (batch_at f i e) @ [(''signature'', JStr sample_signature)]))"
  by code_simp+

lemma trader_expected: "expected_fields trader_env (trader_request keys) sample_exact_four = sample_fields (controlled_fill_contract_digest trader_env)"
  by (simp add: expected_fields_def trader_request_def sample_exact_four_def sample_fields_def)

lemmas sample_batch_facts = batch_at_facts [where f = "controlled_fill_contract_digest trader_env" and i = "iso_utc sample_issued" and e = "iso_utc sample_expires",
    folded sample_batch_def]

lemma trader_binds: "binds_request trader_env (trader_request keys) sample_exact_four sample_batch"
  unfolding binds_request_def trader_expected using sample_batch_facts(2-5) by (simp add: list_all_iff eq_int_def number_is_def trader_request_def)

lemma sample_batch_times: "batch_times sample_batch = Inr (sample_issued, sample_expires)"
  using sample_batch_facts(9,10) canonical_utc_iso [OF sample_instants(1)] canonical_utc_iso [OF sample_instants(2)] by (simp add: batch_times_def)

lemma sample_batch_window: "batch_window_ok sample_clock (int (micros sample_issued)) (int (micros sample_expires))"
  by (simp add: batch_window_ok_def sample_clock_def micros_def min_ttl_micros_def max_ttl_micros_def sample_issued_def sample_expires_def)

lemma sample_batch_accepted:
  "verify_trader_authorization_batch trader_env (\<lambda>_. []) files (Inr sample_exact_four) (trader_request (Some [(''trader-1'', sample_key)])) (JObj sample_batch)
     = Inr pinned_trader_registry_digest"
proof -
  let ?rq = "trader_request (Some [(''trader-1'', sample_key)])"
  have r: "br_environment ?rq \<in> set batch_environments" "br_now ?rq = sample_clock" by (simp_all add: trader_request_def batch_environments_def)
  have "batch_key trader_env (\<lambda>_. []) files ?rq (str_or_empty (\<lambda>_. []) (JStr ''trader-1'')) = Inr sample_key"
    by (simp add: batch_key_def trader_request_def str_or_empty_def str_of_def)
  then have "verify_batch_signature trader_env (\<lambda>_. []) files ?rq sample_batch = Inr pinned_trader_registry_digest"
    using sample_batch_facts(11-14) sample_signature_ok trader_digest_object [OF sample_batch_facts(14)]
    by (simp add: verify_batch_signature_def trader_bytes_def batch_digest_def del: raw_dumps.simps)
  then show ?thesis
    using r sample_batch_facts trader_binds sample_batch_times sample_batch_window
    by (simp add: verify_trader_authorization_batch_def as_batch_error_def require_controlled_pilot_identity_def require_controlled_fill_contract_digest_def)
qed

definition sample_registry_file :: string where
  "sample_registry_file = replicate (519 - length (canonical_receipt_body sample_batch_registry)) (CHR '' '') @ canonical_receipt_body sample_batch_registry"

lemma sample_registry_short: "length (canonical_receipt_body sample_batch_registry) \<le> 515"
  by code_simp

lemma sample_registry_text:
  "length sample_registry_file = 519" "hd sample_registry_file = CHR '' ''" "decode_strict_trader_json sample_registry_file = Inr (JObj sample_batch_registry)"
proof -
  let ?c = "canonical_receipt_body sample_batch_registry"
  define n where "n = 517 - length ?c"
  have n: "519 - length ?c = Suc (Suc n)" using sample_registry_short unfolding n_def by linarith
  show l: "length sample_registry_file = 519" using sample_registry_short by (simp add: sample_registry_file_def)
  have s: "sample_registry_file = CHR '' '' # CHR '' '' # replicate n (CHR '' '') @ ?c" using n by (simp add: sample_registry_file_def)
  show "hd sample_registry_file = CHR '' ''" unfolding s by (rule list.sel(1))
  have e: "exact_json (JObj sample_batch_registry)" "canon (JObj sample_batch_registry) = JObj sample_batch_registry"
    using sample_trader_canonical(2) by (simp_all add: canonical_dict_def)
  have ws: "json_ws (CHR '' '')" by code_simp
  have j: "json_loads sample_registry_file = Inr (JObj sample_batch_registry)"
    using json_loads_ws_dumps [OF e(1), of "replicate (519 - length ?c) (CHR '' '')"] e(2) ws by (simp add: sample_registry_file_def canonical_receipt_body_def)
  have "ascii_only sample_registry_file"
    using ascii_json_dumps [OF e(1)] by (auto simp: sample_registry_file_def canonical_receipt_body_def ascii_only_def)
  then have u: "utf8_decode sample_registry_file = Some sample_registry_file" by (rule utf8_decode_ascii)
  have chars: "CHR '' '' \<noteq> char_of (0 :: nat)" "CHR '' '' \<noteq> char_of (255 :: nat)" "CHR '' '' \<noteq> char_of (254 :: nat)" "CHR '' '' \<noteq> char_of (239 :: nat)" by code_simp+
  have b: "CHR '' '' \<noteq> zero_byte" "\<not> startswith (CHR '' '' # r) (bytes_of [0, 0, 254, 255])" "\<not> startswith (CHR '' '' # r) (bytes_of [255, 254, 0, 0])"
    "\<not> startswith (CHR '' '' # r) (bytes_of [254, 255])" "\<not> startswith (CHR '' '' # r) (bytes_of [255, 254])" "\<not> startswith (CHR '' '' # r) (bytes_of [239, 187, 191])" for r
    using chars by (simp_all add: zero_byte_def startswith_def bytes_of_def)
  have "json_bytes_text sample_registry_file = utf8_decode sample_registry_file" using b l unfolding json_bytes_text_def s by simp
  then show "decode_strict_trader_json sample_registry_file = Inr (JObj sample_batch_registry)" using u j by (simp add: decode_strict_trader_json_def)
qed

lemma sample_active_key: "load_active_key trader_env py_str (\<lambda>_. Some sample_registry_file) ''production'' ''trader-1'' = Inr sample_key"
proof -
  have d: "body_digest trader_env sample_registry_file = fst (pinned_batch_registry ''production'')"
    using sample_registry_text(2) by (simp add: body_digest_def trader_env_def pinned_batch_registry_def)
  have "read_batch_registry trader_env ''production'' (Some sample_registry_file) = Inr (JObj sample_batch_registry)"
    using d sample_registry_text trader_digest_object [OF sample_trader_finite(2)]
    by (simp add: read_batch_registry_def pinned_batch_registry_def batch_digest_def pinned_trader_registry_digest_def)
  moreover have "closed_object (JObj sample_batch_registry) batch_registry_fields" "dict_get sample_batch_registry ''schema_version'' = JInt 2"
    "dict_get sample_batch_registry ''purpose'' = JStr batch_purpose" "dict_get sample_batch_registry ''environment'' = JStr ''production''"
    "dict_get sample_batch_registry ''authority_instance_id'' = JStr ''trader-authority/production/v1''"
    "key_rows sample_batch_registry = Some [trader_key_row_of [(''not_before'', JNull), (''not_after'', JNull), (''revoked_at'', JNull)]]" by code_simp+
  moreover have "batch_key_row trader_env py_str (trader_key_row_of [(''not_before'', JNull), (''not_after'', JNull), (''revoked_at'', JNull)]) [] = Inr (''trader-1'', Some sample_key)"
  proof -
    let ?row = "trader_key_row_of [(''not_before'', JNull), (''not_after'', JNull), (''revoked_at'', JNull)]"
    have "closed_object ?row batch_key_row_fields" "dict_get (object_of ?row) ''algorithm'' = JStr ''Ed25519''" "dict_get (object_of ?row) ''status'' = JStr ''active''"
      "dict_get (object_of ?row) ''key_id'' = JStr ''trader-1''" "dict_get (object_of ?row) ''revoked_at'' = JNull"
      "dict_get (object_of ?row) ''public_key_b64'' = JStr (b64encode sample_key)" "strip ''trader-1'' = ''trader-1''" "b64encode sample_key \<noteq> []"
      by code_simp+
    then show ?thesis by (simp add: batch_key_row_def Let_def in_strings_def py_in_def str_or_empty_def str_of_def load_public_key_def trader_env_keys)
  qed
  ultimately show ?thesis
    by (simp add: load_active_key_def eq_int_def number_is_def object_of_def trader_authority_instance_id_def batch_environments_def str_value_def)
qed

subsection \<open>Properties\<close>

text \<open>C19: An exact authorization is signed and bound. When verification against a binding succeeds, the pinned registry has one active key and it is the one the
  authorization names; it verifies the signature over the canonical bytes of the body; the authorization id is the digest of the rest of the body; every field of the
  binding, the gross weight included, equals that of the authorization; the mode is paper and the clock is in a lifetime of at most half an hour.\<close>

theorem exact_authorization_signed_and_bound:
  assumes "verify_exact_trader_authorization env py_str file now a binding = Inr True"
  shows "\<exists>key raw issued expires i e.
      load_pinned_trader_registry env py_str file = Inr [(body_text a ''key_id'', key)]
      \<and> b64decode (drop 8 (body_text a ''signature'')) = Some raw \<and> ce_ed25519_verify env key raw (utf8_encode (raw_dumps (JObj (authorization_body a))))
      \<and> dict_get a ''authorization_id'' = JStr (body_digest env (utf8_encode (raw_dumps (JObj (filter (\<lambda>(k, v). k \<noteq> ''authorization_id'') (authorization_body a))))))
      \<and> (\<forall>k \<in> set (''max_gross_weight'' # binding_string_fields). dict_get a k = dict_get binding k)
      \<and> dict_get a ''mode'' = JStr ''paper'' \<and> in_unit_interval (dict_get a ''max_gross_weight'')
      \<and> datetime_fromisoformat (zulu_offset (body_text a ''issued_at'')) = Some issued \<and> stamp issued = Some i
      \<and> datetime_fromisoformat (zulu_offset (body_text a ''expires_at'')) = Some expires \<and> stamp expires = Some e
      \<and> i - 5 * 60 * 1000000 \<le> now \<and> now \<le> e \<and> i < e \<and> e - i \<le> 1800 * 1000000"
proof -
  let ?b = "authorization_body a"
  obtain sig expected reg where m: "materialize_authorization a = Inr (?b, sig)" "materialize_binding binding = Inr expected" "load_pinned_trader_registry env py_str file = Inr reg"
      and ok: "verify_materialized_authorization env ?b sig reg now = Inr True" and eq: "\<forall>(k, v) \<in> set expected. dict_get ?b k = v"
    by (rule exact_parts [OF assms])
  have f: "{''key_id'', ''authorization_id'', ''mode'', ''issued_at'', ''expires_at''} \<subseteq> set body_string_fields" by code_simp
  have t: "body_text ?b ''key_id'' = body_text a ''key_id''" "dict_get ?b ''authorization_id'' = dict_get a ''authorization_id''" "dict_get ?b ''mode'' = dict_get a ''mode''"
      "body_text ?b ''issued_at'' = body_text a ''issued_at''" "body_text ?b ''expires_at'' = body_text a ''expires_at''"
    using f by (simp_all add: body_text_def body_values)
  have s: "sig = body_text a ''signature''" using materialized [OF m(1)] by (simp add: body_text_def)
  have bound: "dict_get a k = dict_get binding k" if "k \<in> set (''max_gross_weight'' # binding_string_fields)" for k
    using that eq materialized_binding [OF m(2)] body_values binding_in_body by (auto simp: body_values(2))
  obtain issued expires i e where v: "authorization_shape_ok ?b" "datetime_fromisoformat (zulu_offset (body_text ?b ''issued_at'')) = Some issued" "stamp issued = Some i"
      "datetime_fromisoformat (zulu_offset (body_text ?b ''expires_at'')) = Some expires" "stamp expires = Some e" "window_ok now i e"
      "dict_get ?b ''authorization_id'' = JStr (body_digest env (utf8_encode (raw_dumps (JObj (filter (\<lambda>(k, v). k \<noteq> ''authorization_id'') ?b)))))"
      "trader_registry_verify env reg (body_text ?b ''key_id'') ?b sig"
    by (rule verified_body [OF ok])
  obtain key raw where r: "map_of reg (body_text ?b ''key_id'') = Some key" "b64decode (drop 8 sig) = Some raw"
      "ce_ed25519_verify env key raw (utf8_encode (raw_dumps (JObj ?b)))"
    using registry_verify_facts [OF v(8)] by blast
  have "reg = [(body_text a ''key_id'', key)]" using trader_registry_single [OF m(3) r(1)] t by simp
  then have "load_pinned_trader_registry env py_str file = Inr [(body_text a ''key_id'', key)]" using m(3) by simp
  moreover have "dict_get a ''mode'' = JStr ''paper''" "in_unit_interval (dict_get a ''max_gross_weight'')"
    using v(1) t by (simp_all add: authorization_shape_ok_def body_values)
  ultimately show ?thesis using r v t s bound
    by (intro exI [of _ key] exI [of _ raw] exI [of _ issued] exI [of _ expires] exI [of _ i] exI [of _ e])
      (simp add: window_ok_def skew_micros_def lifetime_micros_def del: raw_dumps.simps)
qed

theorem exact_authorization_signed_and_bound_witness:
  "verify_exact_trader_authorization trader_env (\<lambda>_. []) (Some (canonical_receipt_body sample_trader_registry)) sample_clock sample_authorization sample_authorization = Inr True
     \<and> dict_get sample_authorization ''mode'' = JStr ''paper''"
proof -
  have eq: "\<forall>k \<in> set binding_string_fields. dict_get (authorization_body sample_authorization) k = dict_get sample_authorization k" using body_values(1) binding_in_body by blast
  have g: "dict_get sample_authorization ''max_gross_weight'' = JFloat ''0.5''" using materialized_binding [OF trader_binding] by simp
  have v: "verify_exact_trader_authorization trader_env (\<lambda>_. []) (Some (canonical_receipt_body sample_trader_registry)) sample_clock sample_authorization sample_authorization = Inr True"
    using trader_body_facts(4) trader_binding sample_trader_loads trader_verified eq g by (simp add: verify_exact_trader_authorization_def or_false_def body_values(2))
  show ?thesis using exact_authorization_signed_and_bound [OF v] v by blast
qed

text \<open>The exact four as the batch has to state them, field by field: the constants of the format, the values of the request, the digests of the
  execution binding, and a row for each pilot plan. Numbers are compared as Python compares them.\<close>

definition exact_batch :: "('a crypto_env_scheme) \<Rightarrow> batch_request \<Rightarrow> exact_four_binding \<Rightarrow> dict \<Rightarrow> bool" where
  "exact_batch env rq ef d \<longleftrightarrow>
     dict_get d ''format'' = JStr ''controlled-pilot-trader-authorization-batch/v2'' \<and> eq_int (dict_get d ''schema_version'') 2
     \<and> dict_get d ''purpose'' = JStr ''controlled_trader_authorization_verification'' \<and> dict_get d ''algorithm'' = JStr ''Ed25519''
     \<and> dict_get d ''identity'' = JStr ''controlled_pilot_v1'' \<and> dict_get d ''issuer'' = JStr ''ControlledTraderAuthorizationService/v1''
     \<and> br_environment rq \<in> {''staging'', ''production''} \<and> dict_get d ''environment'' = JStr (br_environment rq)
     \<and> dict_get d ''authority_instance_id'' = JStr (''trader-authority/'' @ br_environment rq @ ''/v1'')
     \<and> dict_get d ''request_digest'' = JStr (br_request_digest rq) \<and> dict_get d ''idempotency_key'' = JStr (br_idempotency_key rq)
     \<and> dict_get d ''ready_attestation_id'' = JStr (br_ready_attestation_id rq) \<and> dict_get d ''ready_manifest_digest'' = JStr (br_ready_manifest_digest rq)
     \<and> dict_get d ''snapshot_id'' = JStr (br_snapshot_id rq) \<and> dict_get d ''immutable_db_digest'' = JStr (br_immutable_db_digest rq)
     \<and> br_snapshot_id rq \<noteq> br_immutable_db_digest rq \<and> dict_get d ''snapshot_key'' = JStr (br_snapshot_key rq)
     \<and> eq_int (dict_get d ''snapshot_size'') (br_snapshot_size rq)
     \<and> dict_get d ''profile_digest'' = JStr (ef_profile_set_digest ef) \<and> dict_get d ''dependency_closure_digest'' = JStr (ef_dependency_closure_set_digest ef)
     \<and> dict_get d ''exact_four_binding_digest'' = JStr (ef_binding_digest ef) \<and> dict_get d ''budget_scope_digest'' = JStr (ef_budget_scope_digest ef)
     \<and> dict_get d ''execution_limit_set_digest'' = JStr (ef_execution_limit_set_digest ef)
     \<and> dict_get d ''policy_digest'' = JStr ''sha256:60fc8438f7dd4914c9fec99ae53476b9a514a80d0411b7ab07dc7e9963d5f319''
     \<and> dict_get d ''resolved_universe_digest'' = JStr (br_resolved_universe_digest rq) \<and> is_json_sha256 (dict_get d ''resolved_universe_digest'')
     \<and> dict_get d ''fill_contract_digest'' = JStr (controlled_fill_contract_digest env)"

definition exact_row :: "nat \<Rightarrow> plan_binding \<Rightarrow> json \<Rightarrow> bool" where
  "exact_row i p v \<longleftrightarrow>
     (\<exists>r. v = JObj r \<and> set (map fst r) = {''ordinal'', ''plan_id'', ''plan_binding_digest'', ''strategy_spec_id'', ''strategy_spec_version'', ''strategy_spec_hash''}
       \<and> eq_int (dict_get r ''ordinal'') (int i + 1) \<and> dict_get r ''plan_id'' = JStr (pb_plan_id p) \<and> pb_plan_id p = pilot_plan_ids ! i
       \<and> dict_get r ''plan_binding_digest'' = JStr (pb_binding_digest p) \<and> dict_get r ''strategy_spec_id'' = JStr (pb_strategy_spec_id p)
       \<and> dict_get r ''strategy_spec_version'' = JStr (pb_strategy_spec_version p) \<and> dict_get r ''strategy_spec_hash'' = JStr (pb_strategy_spec_hash p))"

lemma binds_exact_batch:
  assumes "binds_request env rq ef d" "dict_get d ''identity'' = JStr controlled_pilot_identity" "br_environment rq \<in> set batch_environments"
  shows "exact_batch env rq ef d"
  using assms
  by (auto simp: binds_request_def expected_fields_def exact_batch_def batch_format_def batch_purpose_def trader_issuer_def controlled_pilot_identity_def
      controlled_pilot_policy_digest_def batch_environments_def)

lemma binds_exact_row: "closed_object v batch_row_fields \<Longrightarrow> row_binds i p (object_of v) \<Longrightarrow> exact_row i p v"
  by (auto simp: closed_object_def row_binds_def exact_row_def object_of_def batch_row_fields_def split: json.splits)

text \<open>C21: An accepted batch binds the exact four. With a key given by the caller, a batch is accepted only if that one key verifies its signature over the canonical bytes of the
  closed body, every field of the body except the times and the key identifier has the value of the format, of the request (the size of the snapshot included) or of the execution
  binding, its four rows are the four pilot plans in order with their bindings, and the clock has not passed an expiry at least a minute and at most a day after the issue; the
  answer is the digest of the signed document.\<close>

theorem accepted_batch_binds:
  assumes "verify_trader_authorization_batch env py_str files binding rq document = Inr digest" "br_keys rq = Some keys"
  shows "\<exists>d ef key raw rows issued expires. document = JObj d \<and> binding = Inr ef \<and> keys = [(str_or_empty py_str (dict_get d ''key_id''), key)]
      \<and> b64decode (drop 8 (str_value (dict_get d ''signature''))) = Some raw \<and> ce_ed25519_verify env key raw (utf8_encode (raw_dumps (JObj (batch_body d))))
      \<and> set (map fst d) = set (batch_body_fields @ [''signature''])
      \<and> exact_batch env rq ef d
      \<and> dict_get d ''rows'' = JArr rows \<and> length rows = 4
      \<and> (\<forall>i < 4. i < length (ef_plan_bindings ef) \<and> exact_row i (ef_plan_bindings ef ! i) (rows ! i))
      \<and> parse_canonical_utc (dict_get d ''issued_at'') ''issued_at'' = Inr issued \<and> parse_canonical_utc (dict_get d ''expires_at'') ''expires_at'' = Inr expires
      \<and> br_now rq \<le> int (micros expires)
      \<and> int (micros issued) + 60 * 1000000 \<le> int (micros expires) \<and> int (micros expires) \<le> int (micros issued) + 86400 * 1000000
      \<and> batch_digest env (JObj (batch_body d @ [(''signature'', dict_get d ''signature'')])) = Inr digest"
proof -
  obtain d ef issued expires where b: "document = JObj d" "binding = Inr ef" "closed_document d = Inr ()" "binds_request env rq ef d" "batch_rows ef d = Inr ()"
      "batch_times d = Inr (issued, expires)" "batch_window_ok (br_now rq) (int (micros issued)) (int (micros expires))"
      "verify_batch_signature env py_str files rq d = Inr digest" "dict_get d ''identity'' = JStr controlled_pilot_identity"
    by (rule batch_accepted [OF assms(1)])
  obtain sig key raw where s: "dict_get d ''signature'' = JStr sig" "batch_key env py_str files rq (str_or_empty py_str (dict_get d ''key_id'')) = Inr key"
      "b64decode (drop 8 sig) = Some raw" "ce_ed25519_verify env key raw (utf8_encode (raw_dumps (JObj (batch_body d))))"
      "batch_digest env (JObj (batch_body d @ [(''signature'', JStr sig)])) = Inr digest"
    using b(8) by (auto simp: verify_batch_signature_def bind_res_Inr_iff trader_bytes_def split: json.splits if_splits option.splits sum.splits)
  have env: "br_environment rq \<in> set batch_environments" using assms(1) by (auto simp: verify_trader_authorization_batch_def split: if_splits)
  have "keys = [(str_or_empty py_str (dict_get d ''key_id''), key)]"
    using s(2) assms(2) by (cases keys) (auto simp: batch_key_def split: if_splits option.splits)
  moreover have "set (map fst d) = set (batch_body_fields @ [''signature''])" using b(3) by (force simp: closed_document_def has_key_def split: if_splits)
  moreover obtain rows where rows: "dict_get d ''rows'' = JArr rows" "length rows = 4" "check_rows (ef_plan_bindings ef) 0 rows = Inr ()"
    using b(5) by (auto simp: batch_rows_def split: json.splits if_splits)
  moreover have "i < length (ef_plan_bindings ef) \<and> exact_row i (ef_plan_bindings ef ! i) (rows ! i)" if "i < 4" for i
    using check_rows_all [OF rows(3), of i] that rows(2) binds_exact_row by auto
  moreover have "parse_canonical_utc (dict_get d ''issued_at'') ''issued_at'' = Inr issued" "parse_canonical_utc (dict_get d ''expires_at'') ''expires_at'' = Inr expires"
    using b(6) by (auto simp: batch_times_def split: sum.splits)
  ultimately show ?thesis using b(1,2,7) s binds_exact_batch [OF b(4,9) env]
    by (intro exI [of _ d] exI [of _ ef] exI [of _ key] exI [of _ raw] exI [of _ rows] exI [of _ issued] exI [of _ expires])
      (simp add: batch_window_ok_def min_ttl_micros_def max_ttl_micros_def str_value_def del: raw_dumps.simps)
qed

theorem accepted_batch_binds_witness:
  "let rq = trader_request (Some [(''trader-1'', sample_key)]) in
    verify_trader_authorization_batch trader_env (\<lambda>_. []) (\<lambda>_. None) (Inr sample_exact_four) rq (JObj sample_batch) = Inr pinned_trader_registry_digest
    \<and> exact_batch trader_env rq sample_exact_four sample_batch
    \<and> (\<exists>key raw. [(''trader-1'', sample_key)] = [(str_or_empty (\<lambda>_. []) (dict_get sample_batch ''key_id''), key)]
          \<and> ce_ed25519_verify trader_env key raw (utf8_encode (raw_dumps (JObj (batch_body sample_batch)))))"
proof -
  have k: "br_keys (trader_request (Some [(''trader-1'', sample_key)])) = Some [(''trader-1'', sample_key)]" by (simp add: trader_request_def)
  show ?thesis using accepted_batch_binds [OF sample_batch_accepted [where files = "\<lambda>_. None"] k] sample_batch_accepted [where files = "\<lambda>_. None"]
    by (auto simp: Let_def simp del: raw_dumps.simps)
qed

text \<open>C20: The pinned path of the batch never accepts. Without keys from the caller no batch is accepted, whatever the pinned registry holds: a document that would be accepted under
  the very key the pinned registry has active raises \<open>NameError\<close>.\<close>

theorem pinned_batch_never_accepted:
  assumes "br_keys rq = None"
  shows "(\<exists>x. verify_trader_authorization_batch env py_str files binding rq document = Inl x)
    \<and> (\<forall>d key keys digest. document = JObj d \<longrightarrow> load_active_key env py_str files (br_environment rq) (str_or_empty py_str (dict_get d ''key_id'')) = Inr key
        \<longrightarrow> verify_trader_authorization_batch env py_str files binding (rq\<lparr>br_keys := Some keys\<rparr>) document = Inr digest
        \<longrightarrow> verify_trader_authorization_batch env py_str files binding rq document = Inl (PlNameError ''_load_trader_key_meta''))"
proof (intro conjI allI impI)
  have "verify_trader_authorization_batch env py_str files binding rq document \<noteq> Inr digest" for digest
  proof
    assume "verify_trader_authorization_batch env py_str files binding rq document = Inr digest"
    then obtain d where "verify_batch_signature env py_str files rq d = Inr digest" by (rule batch_accepted)
    then show False using assms by (auto simp: verify_batch_signature_def batch_key_def bind_res_Inr_iff split: json.splits if_splits)
  qed
  then show "\<exists>x. verify_trader_authorization_batch env py_str files binding rq document = Inl x"
    by (cases "verify_trader_authorization_batch env py_str files binding rq document") auto
  fix d key keys digest
  assume doc: "document = JObj d" and key: "load_active_key env py_str files (br_environment rq) (str_or_empty py_str (dict_get d ''key_id'')) = Inr key"
    and acc: "verify_trader_authorization_batch env py_str files binding (rq\<lparr>br_keys := Some keys\<rparr>) document = Inr digest"
  obtain ef issued expires where b: "binding = Inr ef" "closed_document d = Inr ()" "binds_request env (rq\<lparr>br_keys := Some keys\<rparr>) ef d" "batch_rows ef d = Inr ()"
      "batch_times d = Inr (issued, expires)" "batch_window_ok (br_now rq) (int (micros issued)) (int (micros expires))"
      "verify_batch_signature env py_str files (rq\<lparr>br_keys := Some keys\<rparr>) d = Inr digest" "dict_get d ''identity'' = JStr controlled_pilot_identity"
    using batch_accepted [OF acc] doc by (metis (no_types, lifting) batch_request.select_convs(12) batch_request.update_convs(11) batch_request.surjective json.inject(6))
  obtain sig where s: "dict_get d ''signature'' = JStr sig" "startswith sig ''ed25519:''" using b(7) by (auto simp: verify_batch_signature_def split: json.splits if_splits)
  have "verify_batch_signature env py_str files rq d = Inl (PlNameError ''_load_trader_key_meta'')" using s key assms by (simp add: verify_batch_signature_def batch_key_def)
  moreover have q: "binds_request env rq ef d" using b(3) by (simp only: binds_request_keys)
  moreover have "br_environment rq \<in> set batch_environments" using acc by (auto simp: verify_trader_authorization_batch_def split: if_splits)
  moreover have "dict_get d ''fill_contract_digest'' = JStr (controlled_fill_contract_digest env)" using q by (simp add: binds_request_def expected_fields_def)
  ultimately show "verify_trader_authorization_batch env py_str files binding rq document = Inl (PlNameError ''_load_trader_key_meta'')"
    using b doc by (simp add: verify_trader_authorization_batch_def as_batch_error_def require_controlled_pilot_identity_def require_controlled_fill_contract_digest_def)
qed

theorem pinned_batch_never_accepted_witness:
  "verify_trader_authorization_batch trader_env (\<lambda>_. []) (\<lambda>_. Some sample_registry_file) (Inr sample_exact_four) (trader_request None) (JObj sample_batch)
     = Inl (PlNameError ''_load_trader_key_meta'')"
proof -
  have n: "br_keys (trader_request None) = None" "br_environment (trader_request None) = ''production''"
    "(trader_request None)\<lparr>br_keys := Some ks\<rparr> = trader_request (Some ks)" for ks by (simp_all add: trader_request_def)
  have "load_active_key trader_env (\<lambda>_. []) (\<lambda>_. Some sample_registry_file) (br_environment (trader_request None)) (str_or_empty (\<lambda>_. []) (dict_get sample_batch ''key_id'')) = Inr sample_key"
    using sample_active_key sample_batch_facts(12) n(2) by (simp add: str_or_empty_def str_of_def)
  then show ?thesis using pinned_batch_never_accepted [OF n(1)] sample_batch_accepted n(3) by metis
qed

end
