(* ===== verification/Spec2Isabelle.thy ===== *)
theory Spec2Isabelle
  imports AIGateway MembershipRuns TransitionTrace RangeBatch TraderAuthority
begin

text \<open>
  A verification library for the parts of the quant-platform repository that decide what may be spent and what may be
  called complete: the research budget ledger and the gateway that charges it, the authorizations of the pilot's trader, and the coverage system, from the source contracts
  and the collection planner through signed receipts to the ledger of complete data.

  \<^bold>\<open>The program.\<close> Collectors fetch market data in \<^emph>\<open>segments\<close>. For every dataset a source capability contract states what the
  vendor offers, and a collection policy derived from it states what has to be collected; the planner expands the policy into
  required segments. A collector that fetched a segment leaves a \<^emph>\<open>receipt\<close>, whose signed claims an authority key covers. The
  coverage ledger stores segments, receipts and one aggregate row per dataset; a refresh evaluates the segments against the
  verified receipts, and a gate decides whether an aggregate may stay \<open>COMPLETE\<close>; to become \<open>COMPLETE\<close> it needs a signed
  \<^emph>\<open>transition\<close>, which is consumed once and leaves a tombstone. On the research side an experiment runs
  under a budget capability; the ledger consumes counters, leases slots and settles provider usage exactly once, and the
  offline gateway reserves, calls, charges and settles around one model call. Universe membership over time is stored as runs of equal days.

  \<^bold>\<open>Theories and sources\<close> (paths under \<open>src/packages\<close>).
  \<^item> \<open>Prelude\<close>: results with errors as values, the state-and-exception shape of code that mutates and raises, Python string
    helpers, and the locale \<open>op_system\<close>, an executor whose enabled operations keep an invariant, with its induction over runs.
  \<^item> \<open>PyDate\<close>, \<open>PyJson\<close>, \<open>JsonText\<close>, \<open>PyBytes\<close>, \<open>LedgerJson\<close>: the parts of the Python library the sources use. Calendar dates and
    ISO text; \<open>json.loads\<close> with and without the hooks of the program, \<open>json.dumps\<close> with sorted keys; base64 and UTF-8. The JSON
    reader takes fuel \<open>2 * length + 2\<close>, and the round-trip lemmas show that this is enough for every printed document.
  \<^item> \<open>BudgetLedger\<close>: \<open>product/selection/budget_ledger.py\<close>, limits of \<open>screen.py\<close>. The SQLite tables are fields of \<open>ledger_db\<close>, each method a
    transaction on it; \<open>ledger_exec\<close> is the step of a call, whatever it returns.
  \<^item> \<open>AIGateway\<close>: \<open>product/gateway/ai.py\<close>. The in-process budget with its reservations (\<open>gb_step\<close> is every interleaving), strict
    decoding, fixtures, \<open>run\<close> and its settlement on the ledger; the locale \<open>retried_call\<close> is a ledger call repeated after a lost answer.
  \<^item> \<open>MembershipRuns\<close>: \<open>data_plane/data_contracts/membership_runs.py\<close>.
  \<^item> \<open>SourceCapability\<close>: \<open>data_plane/data_contracts/source_capability.py\<close>, the contract documents and the registry loaded from them.
  \<^item> \<open>CoveragePlan\<close>: \<open>data_plane/data_contracts/coverage.py\<close> and the planning half of \<open>storage/coverage_ledger.py\<close>.
  \<^item> \<open>ReceiptCrypto\<close>: \<open>data_plane/storage/receipt_crypto.py\<close>, pinned key registries, their generation chain and signature verification.
  \<^item> \<open>VerifiedReceipt\<close>: \<open>data_plane/storage/verified_receipt.py\<close>, the closure of a receipt whose signature, digests and claims bind it.
  \<^item> \<open>CoverageEval\<close>: evaluation of required segments against verified receipts (\<open>storage/coverage_ledger.py\<close>, \<open>receipt_policy.py\<close>).
  \<^item> \<open>CoverageGate\<close>: policy bindings, exact inventory, selected receipts and the gate for \<open>COMPLETE\<close>.
  \<^item> \<open>CoverageLedger\<close>: the writers of \<open>storage/coverage_ledger_io.py\<close> and the refresh.
  \<^item> \<open>CoverageSync\<close>: the reads, the re-aggregation from stored segments, and \<open>ledger_step\<close> over every operation of the ledger.
  \<^item> \<open>CoverageTransition\<close>: \<open>storage/coverage_transition.py\<close> with \<open>ops/trust_domain.py\<close>, the request, the signed document, the replay of the
    live state, the exchange of rows and the tombstone; \<open>authority_db\<close> extends the ledger by publications, tombstones and schema.
  \<^item> \<open>TransitionTrace\<close>: \<open>authority_step\<close>, the ledger operations and transitions together, and a concrete transition.
  \<^item> \<open>Backfill\<close>: \<open>ops/backfill_planner.py\<close>, the jobs a plan asks workers for, the answers of workers and the status rows.
  \<^item> \<open>RangeBatch\<close>: \<open>ops/range_batch_scheduler.py\<close>, selection and queue of jobs and the thread pool: \<open>pool_step\<close> takes a submitted job, enters
    the semaphore of its rate pool or finishes with any answer.
  \<^item> \<open>PyDatetime\<close>: \<open>datetime.fromisoformat\<close> on any text, instants with an offset, JSON bytes and their encodings.
  \<^item> \<open>PilotContracts\<close>: \<open>research_runtime/paper_runtime/canonical_utc.py\<close>, \<open>product/selection/controlled_pilot_policy.py\<close>,
    \<open>product/execution/controlled_fill_contract.py\<close>.
  \<^item> \<open>TraderAuthority\<close>: \<open>product/execution/trader_authority.py\<close> and \<open>trader_authorization_batch.py\<close>, one signed authorization against the values its
    consumer rebuilt, and the signed batch of the four pilot plans.
  \<^item> this theory: what follows from several components together.

  \<^bold>\<open>What the lemmas show.\<close> Budget: counters equal what the audit rows add up to and never pass their limit, leases never pass the
  slot limit, a settlement happens once and the first terminal outcome wins, on every sequence of calls; a gateway run settles
  exactly once, and a refused run changes nothing. Membership: coalescing and expanding are inverse, and the binary search over
  runs is the lookup in the table of days. Contracts: an accepted contract is consistent, unknown or missing fields are
  rejected. Planning: the planned segments cover every day of the official domain once, nothing outside it, and the planner always
  returns. Receipts: a verified closure is bound to every column of the stored row, an altered row does not verify, only a key that was
  active at signing time signs, a revoked key stays revoked. Two verified receipts over one signed body differ at most in what the body does not fix. Coverage: a segment is \<open>COMPLETE\<close> only on a verified receipt with raw
  rows, an untrusted receipt never displaces a verified one, a refresh keeps a completed segment while its receipt verifies, and an
  aggregate on a tiling grain that passes the gate has a verified receipt for every day. Transitions: whatever the sequence of operations, an aggregate that
  became \<open>COMPLETE\<close> is named by an authorized document in a tombstone; an applied transition was signed by the pinned key, replays exact
  evidence, changes exactly its candidates and is never applied again. Backfill: every missing day of a planned dataset on a tiling grain is in the window of exactly one
  pending job, and a worker's answer counts as a pass only when it says so. Scheduler: on every interleaving each queued job is dispatched once and
  the pool ends, the permits of the semaphores and the running jobs add up to the worker caps, and the fins jobs a run queues wait until its general jobs are taken. Trader: an authorization counts only when the pinned key signed exactly the bound values and the clock is in its lifetime; an
  accepted batch states every value of the request and of the execution binding and is the four plans in order; without keys from the caller the batch verifier never accepts, because it calls a function that does not exist.

  \<^bold>\<open>Interfaces.\<close> \<open>op_system\<close> is interpreted on the budget ledger (well-formedness, lease bound, accounting), on the
  coverage ledger (\<open>coverage_steps\<close>: no operation mints \<open>COMPLETE\<close>) and on the ledger with transitions (\<open>authority_steps\<close>: every \<open>COMPLETE\<close> is
  traced; \<open>tombstones_kept\<close>); \<open>retried_call\<close> on settling and on finalising. The properties over sequences of calls are
  the facts of these interpretations.

  \<^bold>\<open>Parameters.\<close> Code outside the repository is an argument of the definitions: SHA-256 and Ed25519 verification and the contents of the
  pinned files (\<open>crypto_env\<close>), the JSON-schema validator (\<open>receipt_env\<close>), the clock, and the fixture provider; a transition also reads
  the digest and the identity of its database file (\<open>transition_input\<close>). The results of the
  stored-fact checks, the JSDA fact tables and the listed days of an archive index are inputs of a refresh (\<open>refresh_input\<close>);
  \<open>repr\<close> and \<open>str\<close> of a value that is not a string are functions of it. No hypothesis is put on any of them except where a statement names it.

  \<^bold>\<open>Integers and text.\<close> Python integers are unbounded and are \<^typ>\<open>int\<close>; SQLite stores 64 bits, which the sources never come
  near. Strings are lists of characters, one for each code point up to 255. Floats keep their text, since no modelled operation computes with them.

  \<^bold>\<open>Not modelled.\<close> HTTP, file descriptors and object storage of the collectors; the SQL over the market tables
  behind the stored-fact checks; the point-in-time views; the floating-point back-tests, features and strategies, whose
  results are not those of the reals; the workers in TypeScript; command-line scripts. Within the modelled files: the text of
  diagnostic detail columns where a theory says so, the HTML scan of the archive index, the streaming digest of membership runs, and the rate
  limiters and measured request rates of the scheduler, which are floats and only delay a step.
\<close>

section \<open>Properties that span components\<close>

lemma list_all2_in_left: "list_all2 P xs ys \<Longrightarrow> x \<in> set xs \<Longrightarrow> \<exists>y \<in> set ys. P x y"
  by (induction xs ys rule: list_all2_induct) auto

text \<open>C12: An aggregate \<open>COMPLETE\<close> that passes the gate is evidence for every day. For a dataset whose grain tiles its window, which a tip snapshot
  (a dataset of which only the latest state is collected) and an archive index do not, the planner, the signature verifier, the evaluator and
  the inventory comparison together give: every date from the effective start of the dataset to the inventory end
  lies in the window of a stored receipt that a \<open>COMPLETE\<close> segment of the table selects by its run id, that verifies
  for the production authority against a planned segment of that dataset, satisfies its policy and has raw rows; and
  the dataset was already \<open>COMPLETE\<close> under the same policy version.\<close>

theorem complete_gate_covers_every_day:
  assumes "gate_row env au db prior te row = Inr out" "ar_status (go_row out) = ''COMPLETE''"
    "map_of (au_policies au) (ar_dataset row) = Some p" "cc_dataset_id p = ar_dataset row"
    "tiling_grain p (official_domain_for (source_capability_contract_or_none (au_registry au) (cc_dataset_id p)))"
    "effective_start (au_registry au) p None = Inr st" "fromisoformat te = Some en" "valid_date d" "st \<le> d" "d \<le> en"
  shows "map_of prior (ar_dataset row) = Some (''COMPLETE'', ar_policy_version row)
    \<and> (\<exists>receipts. db_receipts db = Some receipts \<and> (\<exists>r \<in> set receipts. \<exists>sg \<in> set (db_segments db). \<exists>s c.
         joins sg r \<and> sg_status sg = ''COMPLETE'' \<and> receipt_row_verifies env au s r c \<and> rs_dataset s = ar_dataset row \<and> rr_dataset r = ar_dataset row
         \<and> rr_segment_start r \<le> isoformat d \<and> isoformat d \<le> rr_segment_end r))"
proof -
  obtain v where prior: "map_of prior (ar_dataset row) = Some (''COMPLETE'', ar_policy_version row)"
      and v: "verify_exact_coverage_complete env au db [ar_dataset row] te = Inr v" "complete_eligible v"
    using gate_row_complete [OF assms(1,2)] by blast
  obtain segs "is" receipts where e: "expected_for au te (ar_dataset row) = Inr segs" "map_res (canonical_segment_identity env au) segs = Inr is" "db_receipts db = Some receipts"
      and all: "list_all2 (\<lambda>(i, s) c. \<exists>sg r b. sg \<in> set (db_segments db) \<and> r \<in> set receipts \<and> joins sg r \<and> sg_status sg = ''COMPLETE''
        \<and> persisted_segment_identity b sg = Inr i \<and> receipt_row_verifies env au s r c) (zip is segs) (cv_closures v)"
    using verify_complete_facts [OF v] by blast
  obtain src where plan: "plan_required_segments (au_registry au) p te src None [] None = Inr segs" using expected_for_planned [OF e(1)] assms(3) by auto
  have "length (filter (\<lambda>s. rs_segment_start s \<le> isoformat d \<and> isoformat d \<le> rs_segment_end s) segs) = 1"
    using plan_counts [OF plan assms(5-8)] assms(9,10) by simp
  then have "filter (\<lambda>s. rs_segment_start s \<le> isoformat d \<and> isoformat d \<le> rs_segment_end s) segs \<noteq> []" by auto
  then obtain s where s: "s \<in> set segs" "rs_segment_start s \<le> isoformat d" "isoformat d \<le> rs_segment_end s" by (auto simp: filter_empty_conv)
  obtain i where mem: "(i, s) \<in> set (zip is segs)" using s(1) map_res_Inr_length [OF e(2)] by (metis in_set_impl_in_set_zip2)
  obtain c where "\<exists>sg r b. sg \<in> set (db_segments db) \<and> r \<in> set receipts \<and> joins sg r \<and> sg_status sg = ''COMPLETE''
      \<and> persisted_segment_identity b sg = Inr i \<and> receipt_row_verifies env au s r c"
    using list_all2_in_left [OF all mem] by auto
  then obtain sg r where r: "sg \<in> set (db_segments db)" "r \<in> set receipts" "joins sg r" "sg_status sg = ''COMPLETE''" "receipt_row_verifies env au s r c" by blast
  have "rs_dataset s = ar_dataset row" using plan_dataset [OF plan s(1)] assms(4) by simp
  then show ?thesis using prior e(3) r s(2,3) verified_row_scope [OF r(5)]
    by (intro conjI exI [of _ receipts] bexI [of _ r] bexI [of _ sg] exI [of _ s] exI [of _ c]) simp_all
qed

theorem complete_gate_covers_every_day_witness:
  "\<exists>out. gate_row sample_receipt_env sample_authority sample_db [(''fins_summary'', (''COMPLETE'', ''collection-coverage/v3''))] ''2024-01-31'' sample_aggregate = Inr out
    \<and> ar_status (go_row out) = ''COMPLETE''
    \<and> (\<exists>r \<in> set [sample_receipt_row]. rr_segment_start r \<le> isoformat (Date 2024 1 15) \<and> isoformat (Date 2024 1 15) \<le> rr_segment_end r)"
proof -
  obtain out where out: "gate_row sample_receipt_env sample_authority sample_db [(''fins_summary'', (''COMPLETE'', ''collection-coverage/v3''))] ''2024-01-31'' sample_aggregate = Inr out"
      "ar_status (go_row out) = ''COMPLETE''"
    using sample_gate by blast
  have p: "map_of (au_policies sample_authority) (ar_dataset sample_aggregate) = Some sample_eval_policy" "cc_dataset_id sample_eval_policy = ar_dataset sample_aggregate"
    by (simp_all add: sample_authority_def sample_aggregate_def sample_eval_policy_def sample_policy_def)
  have t: "tiling_grain sample_eval_policy (official_domain_for (source_capability_contract_or_none (au_registry sample_authority) (cc_dataset_id sample_eval_policy)))"
    using sample_tiling sample_domain by simp
  have en: "fromisoformat ''2024-01-31'' = Some (Date 2024 1 31)" using sample_date_facts(2) by (simp add: sample_literals(2))
  show ?thesis
    using complete_gate_covers_every_day [OF out p t sample_start en sample_dates(1)] out by (auto simp: sample_db_def)
qed

end
